(* ===== verification/Prelude.thy ===== *)
theory Prelude
  imports Main "HOL-Library.Word"
begin

section \<open>Prelude: types, bytes and shared lemmas\<close>

text \<open>
  What every component of the development shares: the machine integer types of the sources,
  little-endian byte strings, the null-value and string helpers of the two protocol
  libraries, the exceptions the code raises, and the generic list lemmas the component
  proofs rest on. Three collections of rewrite rules are declared here:
  \<open>codec\<close> for byte-level encoders and decoders, \<open>frame_simps\<close> for
  "this operation leaves that field alone" facts, and \<open>wf_intros\<close> for the
  preservation of well-formedness.
\<close>

named_theorems codec \<open>byte-level encoders and decoders\<close>
named_theorems frame_simps \<open>fields an operation does not touch\<close>
named_theorems wf_intros \<open>preservation of well-formedness\<close>

type_synonym u8 = "8 word"
type_synonym u16 = "16 word"
type_synonym u32 = "32 word"
type_synonym u64 = "64 word"
type_synonym bytes = "u8 list"

text \<open>
  \<^verbatim>\<open>std::chrono::nanoseconds\<close> is a signed 64-bit count. The code only copies,
  compares and subtracts such values, so the model uses \<open>int\<close>.
\<close>

type_synonym nanoseconds = int

subsection \<open>Exceptions\<close>

text \<open>
  Every way in which the modelled code leaves a function without a result: the library
  exceptions it throws, \<^verbatim>\<open>log::fatal\<close> (which does not return), a failing
  \<^verbatim>\<open>assert\<close>, and undefined behaviour (an index past the end of a vector or a
  span, a conversion out of range), which the model makes a value of its own so that its
  absence is a theorem and not an assumption.
\<close>

datatype exn =
    RuntimeError
  | OutOfRange
  | Fatal
  | AssertFailed
  | UndefinedBehaviour
  | NotReady
  | NotSupported
  | Rejected_INVALID_EXCHANGE
  | Rejected_INVALID_SYMBOL
  | Rejected_INVALID_EXECUTION_INSTRUCTION

subsection \<open>Little-endian integers\<close>

fun le_nat :: "bytes \<Rightarrow> nat" where
  "le_nat [] = 0"
| "le_nat (b # bs) = unat b + 256 * le_nat bs"

fun le_bytes :: "nat \<Rightarrow> nat \<Rightarrow> bytes" where
  "le_bytes 0 v = []"
| "le_bytes (Suc n) v = word_of_nat v # le_bytes n (v div 256)"

definition le_u16 :: "bytes \<Rightarrow> u16" where
  "le_u16 bs = word_of_nat (le_nat (take 2 bs))"

definition le_u32 :: "bytes \<Rightarrow> u32" where
  "le_u32 bs = word_of_nat (le_nat (take 4 bs))"

definition le_u64 :: "bytes \<Rightarrow> u64" where
  "le_u64 bs = word_of_nat (le_nat (take 8 bs))"

lemma length_le_bytes [simp, codec]: "length (le_bytes n v) = n"
  by (induction n arbitrary: v) auto

lemma unat_word8_of_nat: "unat (word_of_nat v :: u8) = v mod 256"
  by (simp add: unat_of_nat)

lemma le_nat_le_bytes: "le_nat (le_bytes n v) = v mod 256 ^ n"
proof (induction n arbitrary: v)
  case 0
  then show ?case by simp
next
  case (Suc n)
  have "le_nat (le_bytes (Suc n) v) = v mod 256 + 256 * (v div 256 mod 256 ^ n)"
    by (simp add: Suc.IH unat_word8_of_nat)
  also have "\<dots> = v mod (256 * 256 ^ n)"
    by (simp add: mod_mult2_eq)
  finally show ?case by simp
qed

lemma le_nat_bound: "le_nat bs < 256 ^ length bs"
proof (induction bs)
  case Nil
  then show ?case by simp
next
  case (Cons b bs)
  have "unat b < 256" using unsigned_less [of b, where ?'a = nat] by simp
  then have "unat b + 256 * le_nat bs < 256 * Suc (le_nat bs)" by simp
  also have "\<dots> \<le> 256 * 256 ^ length bs" using Cons.IH by simp
  finally show ?case by simp
qed

lemma le_u16_le_bytes [codec]: "le_u16 (le_bytes 2 (unat (w :: u16)) @ bs) = w"
  using unsigned_less [of w, where ?'a = nat] by (simp add: le_u16_def le_nat_le_bytes)

lemma le_u32_le_bytes [codec]: "le_u32 (le_bytes 4 (unat (w :: u32)) @ bs) = w"
  using unsigned_less [of w, where ?'a = nat] by (simp add: le_u32_def le_nat_le_bytes)

lemma le_u64_le_bytes [codec]: "le_u64 (le_bytes 8 (unat (w :: u64)) @ bs) = w"
  using unsigned_less [of w, where ?'a = nat] by (simp add: le_u64_def le_nat_le_bytes)

subsection \<open>Null values and fixed-width strings\<close>

text \<open>
  \<^verbatim>\<open>get_int\<close> and \<^verbatim>\<open>get_string_view\<close> occur once per protocol
  (\<^verbatim>\<open>protocol/mdp/map.hpp\<close> and \<^verbatim>\<open>protocol/ilink/utils.hpp\<close>) with
  the same body.
\<close>

definition get_int :: "'a::zero \<Rightarrow> 'a \<Rightarrow> 'a" where
  "get_int v null_value = (if v \<noteq> null_value then v else 0)"

lemma get_int_null [simp]: "get_int null_value null_value = 0"
  by (simp add: get_int_def)

lemma get_int_neq [simp]: "v \<noteq> null_value \<Longrightarrow> get_int v null_value = v"
  by (simp add: get_int_def)

text \<open>
  The scan of the buffer stops at the first NUL byte and otherwise takes the whole width.
\<close>

fun get_string_view :: "string \<Rightarrow> string" where
  "get_string_view [] = []"
| "get_string_view (c # cs) = (if c = CHR 0x00 then [] else c # get_string_view cs)"

lemma get_string_view_takeWhile: "get_string_view cs = takeWhile (\<lambda>c. c \<noteq> CHR 0x00) cs"
  by (induction cs) auto

lemma get_string_view_padded:
  "CHR 0x00 \<notin> set s \<Longrightarrow> get_string_view (s @ replicate n (CHR 0x00)) = s"
  by (induction s) (cases n, auto)

subsection \<open>Decimal printing\<close>

text \<open>
  \<^verbatim>\<open>fmt::format("{}", n)\<close> and \<^verbatim>\<open>Writer::write\<close> on an integer: its
  decimal digits without leading zeros, with a sign when negative.
\<close>

fun show_nat :: "nat \<Rightarrow> string" where
  "show_nat n = (if n < 10 then [char_of (48 + n)]
                 else show_nat (n div 10) @ [char_of (48 + n mod 10)])"

declare show_nat.simps [simp del]

definition show_int :: "int \<Rightarrow> string" where
  "show_int i = (if i < 0 then CHR ''-'' # show_nat (nat (- i)) else show_nat (nat i))"

definition read_nat :: "string \<Rightarrow> nat" where
  "read_nat s = foldl (\<lambda>a c. 10 * a + (of_char c - 48)) 0 s"

lemma show_nat_nonempty [simp]: "show_nat n \<noteq> []"
  by (subst show_nat.simps) simp

lemma of_char_digit: "d < 10 \<Longrightarrow> of_char (char_of (48 + d)) = (48 + d :: nat)"
  by (simp add: of_char_of)

lemma show_nat_digits: "c \<in> set (show_nat n) \<Longrightarrow> \<exists>d < 10. c = char_of (48 + d :: nat)"
proof (induction n rule: show_nat.induct)
  case (1 n)
  show ?case
  proof (cases "n < 10")
    case True
    with "1.prems" show ?thesis by (auto simp: show_nat.simps [of n])
  next
    case False
    with "1.prems" consider "c \<in> set (show_nat (n div 10))" | "c = char_of (48 + n mod 10)"
      by (auto simp: show_nat.simps [of n])
    then show ?thesis
    proof cases
      case 1
      with False "1.IH" show ?thesis by blast
    next
      case 2
      moreover have "n mod 10 < 10" by simp
      ultimately show ?thesis by blast
    qed
  qed
qed

lemma read_show_nat [simp]: "read_nat (show_nat n) = n"
proof (induction n rule: show_nat.induct)
  case (1 n)
  show ?case
  proof (cases "n < 10")
    case True
    then show ?thesis by (simp add: show_nat.simps [of n] read_nat_def of_char_digit)
  next
    case False
    have d: "n mod 10 < 10" by simp
    from False "1.IH" have "read_nat (show_nat (n div 10)) = n div 10" by simp
    with False show ?thesis
      by (simp add: show_nat.simps [of n] read_nat_def of_char_digit [OF d])
  qed
qed

lemma show_nat_inject [simp]: "show_nat m = show_nat n \<longleftrightarrow> m = n"
  by (metis read_show_nat)

subsection \<open>Delivery\<close>

text \<open>A handler called on each item of a list, until one of the calls throws.\<close>

fun deliver :: "('m \<Rightarrow> 's \<Rightarrow> 's \<times> exn option) \<Rightarrow> 'm list \<Rightarrow> 's \<Rightarrow> 's \<times> exn option" where
  "deliver h [] s = (s, None)"
| "deliver h (m # ms) s =
     (case h m s of (s', None) \<Rightarrow> deliver h ms s' | (s', Some e) \<Rightarrow> (s', Some e))"

lemma deliver_append:
  "deliver h (xs @ ys) s =
     (case deliver h xs s of (s', None) \<Rightarrow> deliver h ys s' | (s', Some e) \<Rightarrow> (s', Some e))"
  by (induction xs arbitrary: s) (auto split: prod.split option.split)

lemma deliver_total:
  "(\<And>m s. m \<in> set ms \<Longrightarrow> snd (h m s) = None) \<Longrightarrow> deliver h ms s = (fold (\<lambda>m s. fst (h m s)) ms s, None)"
proof (induction ms arbitrary: s)
  case Nil
  then show ?case by simp
next
  case (Cons m ms)
  obtain t where t: "h m s = (t, None)" using Cons.prems [of m s] by (cases "h m s") auto
  have "deliver h ms t = (fold (\<lambda>m s. fst (h m s)) ms t, None)"
    using Cons.prems by (intro Cons.IH) auto
  with t show ?case by simp
qed

lemma deliver_invariant:
  assumes "\<And>m s. m \<in> set ms \<Longrightarrow> I s \<Longrightarrow> I (fst (h m s))" and "I s"
  shows "I (fst (deliver h ms s))"
  using assms
proof (induction ms arbitrary: s)
  case Nil
  then show ?case by simp
next
  case (Cons m ms)
  show ?case
  proof (cases "h m s")
    case (Pair t e)
    then have "I t" using Cons.prems(1) [of m s] Cons.prems(2) by simp
    with Pair Cons show ?thesis by (cases e) auto
  qed
qed

lemma deliver_ok:
  assumes "\<And>m s. m \<in> set ms \<Longrightarrow> I s \<Longrightarrow> I (fst (h m s)) \<and> snd (h m s) = None" and "I s"
  shows "I (fst (deliver h ms s)) \<and> snd (deliver h ms s) = None"
  using assms
proof (induction ms arbitrary: s)
  case Nil
  then show ?case by simp
next
  case (Cons m ms)
  obtain t where t: "h m s = (t, None)" "I t"
    using Cons.prems(1) [of m s] Cons.prems(2) by (cases "h m s") auto
  have "I (fst (deliver h ms t)) \<and> snd (deliver h ms t) = None"
    using Cons.prems t(2) by (intro Cons.IH) auto
  with t show ?case by simp
qed

subsection \<open>Maps\<close>

text \<open>\<^verbatim>\<open>try_emplace\<close> of the hash maps: insert unless the key is there.\<close>

definition try_emplace :: "('k \<rightharpoonup> 'v) \<Rightarrow> 'k \<Rightarrow> 'v \<Rightarrow> ('k \<rightharpoonup> 'v)" where
  "try_emplace m k v = (if m k = None then m(k \<mapsto> v) else m)"

lemma try_emplace_apply:
  "try_emplace m k v x = (if x = k \<and> m k = None then Some v else m x)"
  by (simp add: try_emplace_def)

lemma try_emplace_dom [simp]: "dom (try_emplace m k v) = insert k (dom m)"
  by (auto simp: try_emplace_def)

subsection \<open>Lists\<close>

lemma filter_eq_self: "(\<And>x. x \<in> set xs \<Longrightarrow> P x) \<Longrightarrow> filter P xs = xs"
  by (simp add: filter_id_conv)

lemma sum_list_take_le: "sum_list (take k (xs :: nat list)) \<le> sum_list xs"
proof -
  have "sum_list xs = sum_list (take k xs) + sum_list (drop k xs)"
    by (metis append_take_drop_id sum_list_append)
  then show ?thesis by simp
qed

lemma take_append_length [simp]: "take (length xs) (xs @ ys) = xs"
  by simp

end
