(* ===== verification/Binary64.thy ===== *)
theory Binary64
  imports Prelude "HOL-Library.Log_Nat"
begin

section \<open>Binary64: the C++ type double\<close>

text \<open>
  Prices, quantities and statistics are \<^verbatim>\<open>double\<close> values in the sources. A value is
  either NaN or a finite number; a finite number is the rational it denotes. Every
  arithmetic operation computes the exact rational result and rounds it to the nearest
  number with a 53-bit significand, ties to even (\<open>fl\<close>), as IEEE 754 prescribes. The
  exponent range is not bounded in the model: no operation of the sources leaves the normal
  range on the values the protocols can carry (64-bit mantissas, exponents between -128 and
  127). \<^verbatim>\<open>std::pow(10.0, e)\<close> is modelled as correctly rounded.
\<close>

datatype double = NaN | Fin rat

subsection \<open>Rounding\<close>

definition round_half_even :: "rat \<Rightarrow> int" where
  "round_half_even r =
     (let f = \<lfloor>r\<rfloor>; d = r - of_int f in
      if d < 1/2 then f else if 1/2 < d then f + 1 else if even f then f else f + 1)"

text \<open>The exponent \<open>e\<close> with \<open>2 powi e \<le> x < 2 powi (e + 1)\<close>, for positive \<open>x\<close>.\<close>

definition floor_log2 :: "rat \<Rightarrow> int" where
  "floor_log2 x = (if 1 \<le> x then int (floorlog 2 (nat \<lfloor>x\<rfloor>)) - 1
                   else - int (floorlog 2 (nat \<lceil>1 / x\<rceil> - 1)))"

definition fl :: "rat \<Rightarrow> rat" where
  "fl x = (if x = 0 then 0
           else let e = floor_log2 \<bar>x\<bar> - 52
                in of_int (round_half_even (x / 2 powi e)) * 2 powi e)"

lemma round_half_even_err: "\<bar>of_int (round_half_even r) - r\<bar> \<le> 1/2"
proof -
  have "of_int \<lfloor>r\<rfloor> \<le> r" "r < of_int \<lfloor>r\<rfloor> + 1" by linarith+
  then show ?thesis by (auto simp: round_half_even_def Let_def abs_le_iff)
qed

lemma round_half_even_of_int [simp]: "round_half_even (of_int n) = n"
  by (simp add: round_half_even_def)

lemma floorlog2_bounds:
  assumes "0 < n"
  shows "2 ^ (floorlog 2 n - 1) \<le> n" and "n < 2 ^ floorlog 2 n" and "0 < floorlog 2 n"
  using floorlog_bounds [of n 2] assms floorlog_eq_zero_iff [of 2 n] by auto

lemma floor_log2_ge1:
  assumes "1 \<le> x"
  shows "2 powi (floor_log2 x) \<le> x \<and> x < 2 powi (floor_log2 x + 1)"
proof -
  define n where "n = nat \<lfloor>x\<rfloor>"
  from assms have n0: "0 < n" by (simp add: n_def)
  from assms have nx: "of_nat n \<le> x" "x < of_nat n + 1"
    using floor_correct [of x] by (simp_all add: n_def of_nat_nat)
  obtain k where fk: "floorlog 2 n = Suc k"
    using floorlog2_bounds(3) [OF n0] gr0_conv_Suc by blast
  then have k: "floor_log2 x = int k"
    using assms by (simp add: floor_log2_def n_def)
  have lo: "2 ^ k \<le> n" and hi: "n < 2 ^ Suc k"
    using floorlog2_bounds [OF n0] fk by simp_all
  have "(2::rat) ^ k = of_nat (2 ^ k)" by simp
  also have "\<dots> \<le> of_nat n" using lo of_nat_le_iff by blast
  finally have "(2::rat) ^ k \<le> x" using nx by linarith
  moreover have "of_nat n + 1 \<le> (2::rat) ^ Suc k"
    using hi by (metis Suc_leI of_nat_Suc of_nat_le_iff of_nat_numeral of_nat_power add.commute)
  ultimately show ?thesis using nx
    by (simp add: k power_int_add power_int_def nat_add_distrib)
qed

lemma floor_log2_lt1:
  assumes "0 < x" and "x < 1"
  shows "2 powi (floor_log2 x) \<le> x \<and> x < 2 powi (floor_log2 x + 1)"
proof -
  define m where "m = nat \<lceil>1 / x\<rceil> - 1"
  have inv: "1 < 1 / x" using assms by simp
  then have c: "1 < \<lceil>1 / x\<rceil>" by linarith
  then have m0: "0 < m" by (simp add: m_def)
  have "int m + 1 = \<lceil>1 / x\<rceil>" using c unfolding m_def by linarith
  then have "of_int \<lceil>1 / x\<rceil> = (of_nat m + 1 :: rat)"
    by (metis of_int_add of_int_of_nat_eq of_int_1)
  then have mx: "of_nat m < 1 / x" "1 / x \<le> of_nat m + 1"
    using ceiling_correct [of "1 / x"] by linarith+
  obtain k where fk: "floorlog 2 m = Suc k"
    using floorlog2_bounds(3) [OF m0] gr0_conv_Suc by blast
  then have k: "floor_log2 x = - int (Suc k)"
    using assms by (simp add: floor_log2_def m_def)
  have lo: "2 ^ k \<le> m" and hi: "m < 2 ^ Suc k"
    using floorlog2_bounds [OF m0] fk by simp_all
  have "(2::rat) ^ k = of_nat (2 ^ k)" by simp
  also have "\<dots> \<le> of_nat m" using lo of_nat_le_iff by blast
  finally have a: "(2::rat) ^ k < 1 / x" using mx by linarith
  have "of_nat m + 1 \<le> (2::rat) ^ Suc k"
    using hi by (metis Suc_leI of_nat_Suc of_nat_le_iff of_nat_numeral of_nat_power add.commute)
  then have b: "1 / x \<le> 2 ^ Suc k" using mx by linarith
  from a assms have "x < 1 / 2 ^ k" by (simp add: field_simps)
  moreover from b assms have "1 / 2 ^ Suc k \<le> x" by (simp add: field_simps)
  moreover have "(2::rat) powi (- int n) = 1 / 2 ^ n" for n
    by (simp only: power_int_minus power_int_of_nat divide_inverse mult_1)
  moreover have "- int (Suc k) + 1 = - int k" by simp
  ultimately show ?thesis unfolding k by metis
qed

lemma floor_log2_bounds:
  assumes "0 < x"
  shows "2 powi (floor_log2 x) \<le> x" and "x < 2 powi (floor_log2 x + 1)"
  using floor_log2_ge1 [of x] floor_log2_lt1 [of x] assms by (cases "1 \<le> x"; auto)+

lemma two_powi_pos [simp]: "0 < (2::rat) powi e"
  by (rule zero_less_power_int) simp

text \<open>The error of one rounding is at most half a unit in the last place.\<close>

lemma fl_err: "\<bar>fl x - x\<bar> \<le> \<bar>x\<bar> / 2 ^ 53"
proof (cases "x = 0")
  case True
  then show ?thesis by (simp add: fl_def)
next
  case False
  define e where "e = floor_log2 \<bar>x\<bar> - 52"
  let ?u = "2 powi e :: rat"
  have "fl x - x = (of_int (round_half_even (x / ?u)) - x / ?u) * ?u"
    using False by (simp add: fl_def e_def Let_def left_diff_distrib)
  then have "\<bar>fl x - x\<bar> = \<bar>of_int (round_half_even (x / ?u)) - x / ?u\<bar> * ?u"
    by (simp add: abs_mult)
  also have "\<dots> \<le> 1/2 * ?u"
    by (intro mult_right_mono round_half_even_err) simp
  also have "1/2 * ?u = 2 powi (floor_log2 \<bar>x\<bar>) / 2 ^ 53"
    by (simp add: e_def power_int_diff)
  also have "\<dots> \<le> \<bar>x\<bar> / 2 ^ 53"
    using floor_log2_bounds(1) [of "\<bar>x\<bar>"] False by (intro divide_right_mono) auto
  finally show ?thesis .
qed

lemma fl_0 [simp]: "fl 0 = 0"
  by (simp add: fl_def)

text \<open>Dyadic numbers with a significand below 53 bits are represented exactly.\<close>

lemma floor_log2_less:
  assumes "0 < x" and "x < 2 powi k"
  shows "floor_log2 x < k"
proof (rule ccontr)
  assume "\<not> floor_log2 x < k"
  then have "(2::rat) powi k \<le> 2 powi floor_log2 x"
    by (intro power_int_increasing) auto
  with floor_log2_bounds(1) [OF assms(1)] assms(2) show False by linarith
qed

lemma fl_dyadic:
  assumes "\<bar>m\<bar> < 2 ^ 53"
  shows "fl (of_int m / 2 ^ k) = of_int m / 2 ^ k"
proof (cases "m = 0")
  case True
  then show ?thesis by simp
next
  case False
  define x :: rat where "x = of_int m / 2 ^ k"
  have x0: "x \<noteq> 0" using False by (simp add: x_def)
  have "rat_of_int \<bar>m\<bar> < 2 ^ 53" using assms
    by (metis of_int_less_iff of_int_numeral of_int_power)
  then have "\<bar>x\<bar> < 2 ^ 53 / 2 ^ k" by (simp add: x_def divide_strict_right_mono)
  also have "\<dots> = 2 powi (53 - int k)" by (simp add: power_int_diff)
  finally have "floor_log2 \<bar>x\<bar> < 53 - int k" using x0 by (intro floor_log2_less) auto
  then have "0 \<le> - int k - (floor_log2 \<bar>x\<bar> - 52)" by linarith
  then obtain j where "- int k - (floor_log2 \<bar>x\<bar> - 52) = int j" using zero_le_imp_eq_int by blast
  then have j: "floor_log2 \<bar>x\<bar> - 52 = - int k - int j" by linarith
  have "x / 2 powi (- int k - int j) = of_int (m * 2 ^ j)"
    by (simp add: x_def power_int_diff power_int_minus field_simps)
  then have "fl x = of_int (m * 2 ^ j) * 2 powi (- int k - int j)"
    using x0 unfolding fl_def j Let_def by (simp only: if_False round_half_even_of_int)
  also have "\<dots> = x" by (simp add: x_def power_int_diff power_int_minus field_simps)
  finally show ?thesis by (simp add: x_def)
qed

lemma fl_of_int [simp]: "\<bar>n\<bar> < 2 ^ 53 \<Longrightarrow> fl (of_int n) = of_int n"
  using fl_dyadic [of n 0] by simp

lemma fl_numeral [simp]: "(numeral n :: int) < 2 ^ 53 \<Longrightarrow> fl (numeral n) = numeral n"
  using fl_of_int [of "numeral n"] by simp

lemma fl_1 [simp]: "fl 1 = 1"
  using fl_of_int [of 1] by simp

subsection \<open>The operations the sources use\<close>

fun dmul :: "double \<Rightarrow> double \<Rightarrow> double" where
  "dmul (Fin a) (Fin b) = Fin (fl (a * b))"
| "dmul _ _ = NaN"

fun dadd :: "double \<Rightarrow> double \<Rightarrow> double" where
  "dadd (Fin a) (Fin b) = Fin (fl (a + b))"
| "dadd _ _ = NaN"

definition isnan :: "double \<Rightarrow> bool" where
  "isnan d \<longleftrightarrow> d = NaN"

text \<open>The conversion of an integer to double, and \<^verbatim>\<open>std::pow(10.0, e)\<close>.\<close>

definition double_of_int :: "int \<Rightarrow> double" where
  "double_of_int n = Fin (fl (of_int n))"

definition pow10 :: "int \<Rightarrow> double" where
  "pow10 e = Fin (fl (10 powi e))"

text \<open>
  \<^verbatim>\<open>static_cast<int64_t>(d)\<close> truncates towards zero; it is undefined for NaN and
  outside the range of the type.
\<close>

definition rat_trunc :: "rat \<Rightarrow> int" where
  "rat_trunc r = (if 0 \<le> r then \<lfloor>r\<rfloor> else \<lceil>r\<rceil>)"

fun int64_of_double :: "double \<Rightarrow> int option" where
  "int64_of_double NaN = None"
| "int64_of_double (Fin r) =
     (let n = rat_trunc r in if - (2 ^ 63) \<le> n \<and> n < 2 ^ 63 then Some n else None)"

lemma dmul_NaN [simp]: "dmul NaN d = NaN" "dmul d NaN = NaN"
  by (cases d; simp)+

lemma isnan_simps [simp]: "isnan NaN" "\<not> isnan (Fin r)"
  by (simp_all add: isnan_def)

lemma isnan_dmul [simp]: "isnan (dmul a b) \<longleftrightarrow> isnan a \<or> isnan b"
  by (cases a; cases b; simp)

lemma dmul_1 [simp]: "\<bar>n\<bar> < 2 ^ 53 \<Longrightarrow> dmul (Fin (of_int n)) (Fin 1) = Fin (of_int n)"
  by simp

end
