(* ===== verification/MdpTypes.thy ===== *)
theory MdpTypes
  imports Binary64
begin

section \<open>MDP 3.0: enumerations, messages and their mapping\<close>

text \<open>
  The values the market data code reads and the mapping of the exchange's enumerations
  (\<^verbatim>\<open>protocol/mdp/map.hpp\<close>, \<^verbatim>\<open>map.cpp\<close>) to the client API's. The
  enumerations of the exchange are generated from its SBE schema; the constructors here are
  those the switches of the sources name. A message is the record of what the code reads
  from the generated flyweight: a field \<open>x\<close> with a null value is the pair of
  \<^verbatim>\<open>x()\<close> and \<^verbatim>\<open>xNullValue()\<close>, a decimal the triple of mantissa,
  exponent and the null value of the mantissa.
\<close>

subsection \<open>Enumerations of the client API\<close>

datatype side = Side_UNDEFINED | BUY | SELL

datatype update_action = UA_UNDEFINED | NEW | CHANGE | DELETE | TRADE

datatype update_type = UT_UNDEFINED | SNAPSHOT | INCREMENTAL | STALE

datatype statistics_type =
    ST_UNDEFINED | OPEN_PRICE | SETTLEMENT_PRICE | CLOSE_PRICE | OPEN_INTEREST
  | TRADE_VOLUME | HIGHEST_TRADED_PRICE | LOWEST_TRADED_PRICE

datatype trading_status =
    TS_UNDEFINED | START_OF_DAY | PRE_OPEN | PRE_OPEN_NO_CANCEL | PRE_OPEN_FREEZE
  | TS_OPEN | FAST_MARKET | HALT | CLOSE_NOT_FINAL | PRE_CLOSE | PRE_CLOSE_NO_CANCEL
  | PRE_CLOSE_FREEZE | TS_CLOSE | POST_CLOSE | END_OF_DAY

datatype priority = Priority_UNDEFINED | PRIMARY | SECONDARY

datatype connection_status = CS_UNDEFINED | DISCONNECTED | LOGIN_SENT | DOWNLOADING | READY

subsection \<open>Enumerations of the exchange\<close>

datatype aggressor_side = AS_NoAggressor | AS_Buy | AS_Sell | AS_NULL_VALUE

datatype md_entry_type_book =
    BT_Bid | BT_Offer | BT_ImpliedBid | BT_ImpliedOffer | BT_BookReset
  | BT_MarketBestOffer | BT_MarketBestBid | BT_NULL_VALUE

datatype md_entry_type_daily_statistics =
    DS_SettlementPrice | DS_ClearedVolume | DS_OpenInterest | DS_FixingPrice | DS_NULL_VALUE

datatype md_entry_type_statistics =
    SS_OpenPrice | SS_HighTrade | SS_LowTrade | SS_VWAP | SS_HighestBid | SS_LowestOffer
  | SS_NULL_VALUE

datatype md_update_action =
    MU_New | MU_Change | MU_Delete | MU_DeleteThru | MU_DeleteFrom | MU_Overlay | MU_NULL_VALUE

datatype order_update_action = OU_New | OU_Update | OU_Delete | OU_NULL_VALUE

datatype security_trading_status =
    STS_TradingHalt | STS_Close | STS_NewPriceIndication | STS_ReadyToTrade
  | STS_NotAvailableForTrading | STS_UnknownorInvalid | STS_PreOpen | STS_PreCross
  | STS_Cross | STS_PostClose | STS_NoChange | STS_PrivateWorkup | STS_PublicWorkup
  | STS_NULL_VALUE

datatype mdp_side = MS_Buy | MS_Sell | MS_NULL_VALUE

datatype md_entry_type =
    ET_Bid | ET_Offer | ET_Trade | ET_OpenPrice | ET_SettlementPrice
  | ET_TradingSessionHighPrice | ET_TradingSessionLowPrice | ET_VWAP | ET_ClearedVolume
  | ET_OpenInterest | ET_ImpliedBid | ET_ImpliedOffer | ET_BookReset | ET_SessionHighBid
  | ET_SessionLowOffer | ET_FixingPrice | ET_ElectronicVolume
  | ET_ThresholdLimitsandPriceBandVariation | ET_MarketBestOffer | ET_MarketBestBid
  | ET_NULL_VALUE

subsection \<open>The mapping\<close>

fun map_aggressor_side :: "aggressor_side \<Rightarrow> side" where
  "map_aggressor_side AS_NoAggressor = Side_UNDEFINED"
| "map_aggressor_side AS_Buy = BUY"
| "map_aggressor_side AS_Sell = SELL"
| "map_aggressor_side AS_NULL_VALUE = Side_UNDEFINED"

fun map_entry_type_book :: "md_entry_type_book \<Rightarrow> side" where
  "map_entry_type_book BT_Bid = BUY"
| "map_entry_type_book BT_Offer = SELL"
| "map_entry_type_book BT_ImpliedBid = Side_UNDEFINED"
| "map_entry_type_book BT_ImpliedOffer = Side_UNDEFINED"
| "map_entry_type_book BT_BookReset = Side_UNDEFINED"
| "map_entry_type_book BT_MarketBestOffer = Side_UNDEFINED"
| "map_entry_type_book BT_MarketBestBid = Side_UNDEFINED"
| "map_entry_type_book BT_NULL_VALUE = Side_UNDEFINED"

fun map_daily_statistics :: "md_entry_type_daily_statistics \<Rightarrow> statistics_type" where
  "map_daily_statistics DS_SettlementPrice = SETTLEMENT_PRICE"
| "map_daily_statistics DS_ClearedVolume = ST_UNDEFINED"
| "map_daily_statistics DS_OpenInterest = OPEN_INTEREST"
| "map_daily_statistics DS_FixingPrice = CLOSE_PRICE"
| "map_daily_statistics DS_NULL_VALUE = ST_UNDEFINED"

fun map_session_statistics :: "md_entry_type_statistics \<Rightarrow> statistics_type" where
  "map_session_statistics SS_OpenPrice = OPEN_PRICE"
| "map_session_statistics SS_HighTrade = HIGHEST_TRADED_PRICE"
| "map_session_statistics SS_LowTrade = LOWEST_TRADED_PRICE"
| "map_session_statistics SS_VWAP = ST_UNDEFINED"
| "map_session_statistics SS_HighestBid = ST_UNDEFINED"
| "map_session_statistics SS_LowestOffer = ST_UNDEFINED"
| "map_session_statistics SS_NULL_VALUE = ST_UNDEFINED"

fun map_update_action :: "md_update_action \<Rightarrow> update_action" where
  "map_update_action MU_New = NEW"
| "map_update_action MU_Change = CHANGE"
| "map_update_action MU_Delete = DELETE"
| "map_update_action MU_DeleteThru = UA_UNDEFINED"
| "map_update_action MU_DeleteFrom = UA_UNDEFINED"
| "map_update_action MU_Overlay = UA_UNDEFINED"
| "map_update_action MU_NULL_VALUE = UA_UNDEFINED"

fun map_order_update_action :: "order_update_action \<Rightarrow> update_action" where
  "map_order_update_action OU_New = NEW"
| "map_order_update_action OU_Update = CHANGE"
| "map_order_update_action OU_Delete = DELETE"
| "map_order_update_action OU_NULL_VALUE = UA_UNDEFINED"

fun map_trading_status :: "security_trading_status \<Rightarrow> trading_status" where
  "map_trading_status STS_TradingHalt = HALT"
| "map_trading_status STS_Close = TS_CLOSE"
| "map_trading_status STS_NewPriceIndication = TS_UNDEFINED"
| "map_trading_status STS_ReadyToTrade = TS_OPEN"
| "map_trading_status STS_NotAvailableForTrading = TS_CLOSE"
| "map_trading_status STS_UnknownorInvalid = TS_UNDEFINED"
| "map_trading_status STS_PreOpen = PRE_OPEN"
| "map_trading_status STS_PreCross = TS_UNDEFINED"
| "map_trading_status STS_Cross = TS_UNDEFINED"
| "map_trading_status STS_PostClose = POST_CLOSE"
| "map_trading_status STS_NoChange = START_OF_DAY"
| "map_trading_status STS_PrivateWorkup = TS_UNDEFINED"
| "map_trading_status STS_PublicWorkup = TS_UNDEFINED"
| "map_trading_status STS_NULL_VALUE = TS_UNDEFINED"

fun map_mdp_side :: "mdp_side \<Rightarrow> side" where
  "map_mdp_side MS_Buy = BUY"
| "map_mdp_side MS_Sell = SELL"
| "map_mdp_side MS_NULL_VALUE = Side_UNDEFINED"

lemma map_entry_type_book_eq_BUY [simp]: "map_entry_type_book t = BUY \<longleftrightarrow> t = BT_Bid"
  by (cases t) auto

lemma map_entry_type_book_eq_SELL [simp]: "map_entry_type_book t = SELL \<longleftrightarrow> t = BT_Offer"
  by (cases t) auto

lemma map_update_action_eq_DELETE [simp]: "map_update_action a = DELETE \<longleftrightarrow> a = MU_Delete"
  by (cases a) auto

subsection \<open>Decimals\<close>

record decimal =
  mantissa :: int
  exponent :: int
  mantissaNullValue :: int

text \<open>\<^verbatim>\<open>Decimal9\<close> and \<^verbatim>\<open>PRICE9\<close> have no null value; the NULL variants map it to NaN.\<close>

definition map_price9 :: "decimal \<Rightarrow> double" where
  "map_price9 v = dmul (double_of_int (mantissa v)) (pow10 (exponent v))"

definition map_pricenull9 :: "decimal \<Rightarrow> double" where
  "map_pricenull9 v =
     (if mantissa v \<noteq> mantissaNullValue v
      then dmul (double_of_int (mantissa v)) (pow10 (exponent v)) else NaN)"

text \<open>
  Which of the two a field has is fixed by the exchange's schema; the overloads of
  \<^verbatim>\<open>map\<close> pick the conversion by the type.
\<close>

datatype price = PRICE9 decimal | PRICENULL9 decimal

fun map_price :: "price \<Rightarrow> double" where
  "map_price (PRICE9 v) = map_price9 v"
| "map_price (PRICENULL9 v) = map_pricenull9 v"

lemma isnan_map_pricenull9: "isnan (map_pricenull9 v) \<longleftrightarrow> mantissa v = mantissaNullValue v"
  by (simp add: map_pricenull9_def double_of_int_def pow10_def)

type_synonym 'a nullable = "'a \<times> 'a"

definition nv :: "'a::zero nullable \<Rightarrow> 'a" where
  "nv x = get_int (fst x) (snd x)"

lemma nv_Pair [simp]: "nv (v, n) = get_int v n"
  by (simp add: nv_def)

subsection \<open>The MDP messages\<close>

text \<open>\<^verbatim>\<open>MDIncrementalRefreshBook46\<close>: its price entries and its order entries.\<close>

record book_entry =
  be_px :: price
  be_size :: "int nullable"
  be_security_id :: int
  be_rpt_seq :: u32
  be_number_of_orders :: "int nullable"
  be_price_level :: "int nullable"
  be_update_action :: md_update_action
  be_entry_type :: md_entry_type_book

record order_id_entry =
  oe_order_id :: "int nullable"
  oe_priority :: "int nullable"
  oe_display_qty :: "int nullable"
  oe_reference_id :: "int nullable"
  oe_update_action :: order_update_action

record book_46 =
  b46_transact_time :: nanoseconds
  b46_md_entries :: "book_entry list"
  b46_order_entries :: "order_id_entry list"

text \<open>\<^verbatim>\<open>MDIncrementalRefreshOrderBook47\<close>.\<close>

record order_book_entry =
  ob_order_id :: "int nullable"
  ob_priority :: "int nullable"
  ob_px :: price
  ob_display_qty :: "int nullable"
  ob_security_id :: int
  ob_update_action :: md_update_action
  ob_entry_type :: md_entry_type_book

record order_book_47 =
  o47_transact_time :: nanoseconds
  o47_match_event_indicator :: u8
  o47_md_entries :: "order_book_entry list"

text \<open>\<^verbatim>\<open>MDIncrementalRefreshTradeSummary48\<close> and its long-quantity variant 65.\<close>

record trade_entry =
  te_px :: price
  te_size :: int
  te_security_id :: int
  te_rpt_seq :: u32
  te_number_of_orders :: int
  te_trade_id :: "int nullable"
  te_aggressor_side :: aggressor_side

record trade_summary_48 =
  t48_transact_time :: nanoseconds
  t48_md_entries :: "trade_entry list"
  t48_order_entries :: "(int \<times> int) list"

text \<open>
  Statistics: daily (49), session (51 and 67) and volume (37); of the entries of 50, 64 and
  66 the code reads the identifier and the report sequence number only.
\<close>

datatype statistics_tag =
    Daily md_entry_type_daily_statistics
  | Session md_entry_type_statistics

record statistics_entry =
  se_px :: price
  se_size :: "int nullable"
  se_security_id :: int
  se_rpt_seq :: u32
  se_entry_type :: statistics_tag

record statistics_msg =
  sm_transact_time :: nanoseconds
  sm_md_entries :: "statistics_entry list"

record volume_entry =
  ve_size :: "int nullable"
  ve_security_id :: int
  ve_rpt_seq :: u32

record volume_37 =
  v37_transact_time :: nanoseconds
  v37_md_entries :: "volume_entry list"

type_synonym rpt_entry = "int \<times> u32"

text \<open>Snapshots: market by price (52, 69) and market by order (53).\<close>

record snapshot_entry =
  sn_px :: price
  sn_size :: "int nullable"
  sn_number_of_orders :: "int nullable"
  sn_price_level :: "int nullable"
  sn_entry_type :: md_entry_type

record snapshot_52 =
  s52_last_msg_seq_num_processed :: u32
  s52_security_id :: int
  s52_transact_time :: nanoseconds
  s52_md_entries :: "snapshot_entry list"

record snapshot_order_entry =
  so_order_id :: "int nullable"
  so_priority :: "int nullable"
  so_px :: price
  so_display_qty :: int
  so_entry_type :: md_entry_type_book

record snapshot_53 =
  s53_last_msg_seq_num_processed :: u32
  s53_security_id :: int
  s53_no_chunks :: u32
  s53_current_chunk :: u32
  s53_md_entries :: "snapshot_order_entry list"

text \<open>
  Instrument definitions: of the six message kinds the code reads these fields. The kinds
  differ in how the reference data is filled in.
\<close>

datatype instrument_kind = Future54 | Option55 | Spread56 | FixedIncome57 | Repo58 | FX63

record instrument_definition =
  id_kind :: instrument_kind
  id_security_id :: int
  id_market_segment_id :: u8
  id_security_exchange :: string
  id_symbol :: string
  id_security_group :: string
  id_display_factor :: decimal
  id_currency :: string
  id_settl_currency :: string
  id_strike_currency :: string
  id_min_price_increment :: price
  id_contract_multiplier :: "int nullable"
  id_min_trade_vol :: int
  id_max_trade_vol :: int
  id_trading_status :: security_trading_status

record security_status_30 =
  ss_security_id :: "int nullable"
  ss_security_group :: string
  ss_transact_time :: nanoseconds
  ss_trading_status :: security_trading_status

datatype mdp_message =
    AdminHeartbeat12
  | ChannelReset4
  | SecurityStatus30 security_status_30
  | MDInstrumentDefinition instrument_definition
  | SnapshotFullRefresh52 snapshot_52
  | SnapshotFullRefreshLongQty69 snapshot_52
  | MDIncrementalRefreshBook46 book_46
  | MDIncrementalRefreshBookLongQty64 "rpt_entry list"
  | SnapshotFullRefreshOrderBook53 snapshot_53
  | MDIncrementalRefreshOrderBook47 order_book_47
  | MDIncrementalRefreshTradeSummary48 trade_summary_48
  | MDIncrementalRefreshTradeSummaryLongQty65 trade_summary_48
  | MDIncrementalRefreshDailyStatistics49 statistics_msg
  | MDIncrementalRefreshSessionStatistics51 statistics_msg
  | MDIncrementalRefreshSessionStatisticsLongQty67 statistics_msg
  | MDIncrementalRefreshVolume37 volume_37
  | MDIncrementalRefreshVolumeLongQty66 "rpt_entry list"
  | MDIncrementalRefreshLimitsBanding50 "rpt_entry list"
  | QuoteRequest39

end
