(* ===== verification/Api.thy ===== *)
theory Api
  imports MdpTypes
begin

section \<open>What the gateway publishes\<close>

text \<open>
  The updates the components hand to the dispatcher of the server framework. The framework
  is not part of the sources: a call of the dispatcher is an \<open>event\<close>, and a component
  appends the events it causes to its output. Fields the sources leave at their default
  (\<^verbatim>\<open>{}\<close> or NaN) in every use are left out.
\<close>

record mbp_update =
  mbp_price :: double
  mbp_quantity :: double
  mbp_number_of_orders :: int
  mbp_update_action :: update_action
  mbp_price_level :: u32

record mbo_update =
  mbo_price :: double
  mbo_quantity :: double
  mbo_priority :: int
  mbo_order_id :: string
  mbo_side :: side
  mbo_action :: update_action

record trade =
  tr_side :: side
  tr_price :: double
  tr_quantity :: double
  tr_trade_id :: string
  tr_taker_order_id :: string
  tr_maker_order_id :: string

record statistics =
  st_type :: statistics_type
  st_value :: double

record layer =
  bid_price :: double
  ask_price :: double

definition empty_layer :: layer where
  "empty_layer = \<lparr>bid_price = NaN, ask_price = NaN\<rparr>"

datatype security_type = FUTURES | OPTION

record reference_data =
  rd_stream_id :: u16
  rd_exchange :: string
  rd_symbol :: string
  rd_security_type :: security_type
  rd_external_security_id :: int
  rd_quote_currency :: string
  rd_settlement_currency :: string
  rd_tick_size :: double
  rd_multiplier :: double
  rd_min_trade_vol :: double
  rd_max_trade_vol :: double
  rd_strike_currency :: string
  rd_discard :: bool

text \<open>The fields every published update has: who it is about and when.\<close>

record update_info =
  ui_stream_id :: u16
  ui_exchange :: string
  ui_symbol :: string
  ui_exchange_time_utc :: nanoseconds
  ui_exchange_sequence :: u32
  ui_sending_time_utc :: nanoseconds

datatype support_type =
    REFERENCE_DATA | MARKET_STATUS | TOP_OF_BOOK | MARKET_BY_PRICE | MARKET_BY_ORDER
  | TRADE_SUMMARY | STATISTICS | CREATE_ORDER | MODIFY_ORDER | CANCEL_ORDER | ORDER_ACK
  | ORDER | TRADE_UPDATES

datatype event =
    EvStreamStatus u16 "support_type set" priority connection_status string
  | EvExternalLatency u16 nanoseconds
  | EvReferenceData reference_data
  | EvMarketStatus update_info trading_status
  | EvTopOfBook update_info layer
  | EvMarketByPrice update_info "mbp_update list" "mbp_update list" update_type
  | EvMarketByOrder update_info "mbo_update list" update_type
  | EvTradeSummary update_info "trade list"
  | EvStatistics update_info "statistics list"

fun event_symbol :: "event \<Rightarrow> string option" where
  "event_symbol (EvReferenceData r) = Some (rd_symbol r)"
| "event_symbol (EvMarketStatus u _) = Some (ui_symbol u)"
| "event_symbol (EvTopOfBook u _) = Some (ui_symbol u)"
| "event_symbol (EvMarketByPrice u _ _ _) = Some (ui_symbol u)"
| "event_symbol (EvMarketByOrder u _ _) = Some (ui_symbol u)"
| "event_symbol (EvTradeSummary u _) = Some (ui_symbol u)"
| "event_symbol (EvStatistics u _) = Some (ui_symbol u)"
| "event_symbol _ = None"

end
