(* ===== verification/Security.thy ===== *)
theory Security
  imports Api
begin

section \<open>Security: report sequence and snapshot chunks\<close>

text \<open>
  \<^verbatim>\<open>tools/security.hpp\<close> and \<^verbatim>\<open>tools/security.cpp\<close>. A security keeps the
  last report sequence number, the state of the two book sequencers (\<open>'p\<close> and \<open>'o\<close>,
  library code) and the chunks of a market-by-order snapshot that is being assembled.
\<close>

record ('p, 'o) security =
  exchange :: string
  symbol :: string
  display_factor :: double
  discard :: bool
  rpt_seq :: u32
  mbp_sequencer :: 'p
  mbp_resubscribe :: u32
  no_chunks :: u32
  last_chunk :: u32
  mbo_orders :: "mbo_update list"
  mbo_sequencer :: 'o
  mbo_resubscribe :: u32

definition update_rpt_seq :: "u32 \<Rightarrow> ('p, 'o) security \<Rightarrow> bool \<times> ('p, 'o) security" where
  "update_rpt_seq seq s =
     (if seq = 0 then (False, s)
      else (seq \<noteq> rpt_seq s + 1, s\<lparr>rpt_seq := seq\<rparr>))"

definition reset_chunks :: "('p, 'o) security \<Rightarrow> ('p, 'o) security" where
  "reset_chunks s = s\<lparr>no_chunks := 0, last_chunk := 0, mbo_orders := []\<rparr>"

text \<open>
  The callback gets the collected orders by reference and may also change the security and
  what it has captured (\<open>'x\<close>), so it is a function on both.
\<close>

definition update_mbo_snapshot ::
    "u32 \<Rightarrow> u32 \<Rightarrow> (bool \<Rightarrow> ('p, 'o) security \<times> 'x \<Rightarrow> ('p, 'o) security \<times> 'x)
     \<Rightarrow> ('p, 'o) security \<times> 'x \<Rightarrow> bool \<times> ('p, 'o) security \<times> 'x" where
  "update_mbo_snapshot current_chunk total_chunks callback sx =
     (case sx of (s, x) \<Rightarrow>
       if no_chunks s \<noteq> 0 then
         if current_chunk = last_chunk s then (False, s, x)
         else if current_chunk = last_chunk s + 1 then
           if current_chunk = total_chunks then
             (case callback True (s, x) of (s', x') \<Rightarrow> (True, reset_chunks s', x'))
           else
             (case callback False (s\<lparr>last_chunk := current_chunk\<rparr>, x) of (s', x') \<Rightarrow> (False, s', x'))
         else (False, reset_chunks s, x)
       else if current_chunk = 1 then
         (case callback (current_chunk = total_chunks) (s\<lparr>no_chunks := total_chunks, last_chunk := current_chunk\<rparr>, x)
          of (s', x') \<Rightarrow> (False, s', x'))
       else (False, s, x))"

subsection \<open>Report sequence numbers\<close>

lemma update_rpt_seq_fields [frame_simps]:
  "snd (update_rpt_seq n s) = s\<lparr>rpt_seq := (if n = 0 then rpt_seq s else n)\<rparr>"
  by (simp add: update_rpt_seq_def)

fun rpt_gaps :: "u32 list \<Rightarrow> ('p, 'o) security \<Rightarrow> bool list" where
  "rpt_gaps [] s = []"
| "rpt_gaps (n # ns) s = (case update_rpt_seq n s of (g, s') \<Rightarrow> g # rpt_gaps ns s')"

text \<open>
  A report sequence number is flagged as a gap exactly when it is not zero and is
  not the successor (modulo \<open>2 ^ 32\<close>) of the last number that was not zero: zeros, which the
  conflated feed sends, are never a gap and do not disturb the numbering around them.
\<close>

theorem rpt_gaps_spec:
  "rpt_gaps ns s =
     map (\<lambda>k. ns ! k \<noteq> 0 \<and>
            ns ! k \<noteq> last (rpt_seq s # filter (\<lambda>n. n \<noteq> 0) (take k ns)) + 1)
       [0..<length ns]"
proof (induction ns arbitrary: s)
  case Nil
  then show ?case by simp
next
  case (Cons n ns)
  have "[0..<length (n # ns)] = 0 # map Suc [0..<length ns]"
    by (simp add: upt_conv_Cons map_Suc_upt del: upt_Suc)
  then show ?case
    using Cons.IH by (auto simp: update_rpt_seq_def)
qed

subsection \<open>Assembling the chunks of a snapshot\<close>

text \<open>A snapshot in chunks: chunk \<open>k\<close> of \<open>n\<close> carries the orders \<open>es\<close>.\<close>

definition feed_chunk ::
    "(mbo_update list \<Rightarrow> bool \<Rightarrow> ('p, 'o) security \<times> 'x \<Rightarrow> ('p, 'o) security \<times> 'x)
     \<Rightarrow> nat \<Rightarrow> nat \<times> mbo_update list \<Rightarrow> ('p, 'o) security \<times> 'x \<Rightarrow> ('p, 'o) security \<times> 'x" where
  "feed_chunk cb n c sx = snd (update_mbo_snapshot (word_of_nat (fst c)) (word_of_nat n) (cb (snd c)) sx)"

text \<open>
  The callback of the recovery feed appends the orders of the chunk and then, on the last
  chunk, runs a final action on the security, whose collected orders are the snapshot.
\<close>

definition collect ::
    "(('p, 'o) security \<times> 'x \<Rightarrow> ('p, 'o) security \<times> 'x) \<Rightarrow> mbo_update list \<Rightarrow> bool
     \<Rightarrow> ('p, 'o) security \<times> 'x \<Rightarrow> ('p, 'o) security \<times> 'x" where
  "collect fin es final sx =
     (case sx of (s, x) \<Rightarrow>
        let s' = s\<lparr>mbo_orders := mbo_orders s @ es\<rparr>
        in if final then fin (s', x) else (s', x))"

definition collecting :: "nat \<Rightarrow> nat \<Rightarrow> mbo_update list \<Rightarrow> ('p, 'o) security \<Rightarrow> ('p, 'o) security" where
  "collecting n k es s = s\<lparr>no_chunks := word_of_nat n, last_chunk := word_of_nat k, mbo_orders := es\<rparr>"

lemma word_of_nat_u32_eq:
  assumes "a < 2 ^ 32" and "b < 2 ^ 32"
  shows "(word_of_nat a :: u32) = word_of_nat b \<longleftrightarrow> a = b"
proof
  assume "(word_of_nat a :: u32) = word_of_nat b"
  then have "unat (word_of_nat a :: u32) = unat (word_of_nat b :: u32)" by simp
  then show "a = b" using assms by (simp add: unat_of_nat)
qed simp

lemma word_of_nat_u32_neq0: "0 < a \<Longrightarrow> a < 2 ^ 32 \<Longrightarrow> (word_of_nat a :: u32) \<noteq> 0"
  using word_of_nat_u32_eq [of a 0] by simp

lemma word_of_nat_u32_eq1: "a < 2 ^ 32 \<Longrightarrow> (word_of_nat a :: u32) = 1 \<longleftrightarrow> a = 1"
  using word_of_nat_u32_eq [of a 1] by simp

text \<open>One chunk: the first, the next one, the last one, and a repetition of the current one.\<close>

lemma feed_first:
  assumes "1 < n" and "n < 2 ^ 32" and "no_chunks s = 0" and "mbo_orders s = []"
  shows "feed_chunk (collect fin) n (1, es) (s, x) = (collecting n 1 es s, x)"
proof -
  have "(1 :: u32) \<noteq> word_of_nat n" using assms(1,2) word_of_nat_u32_eq1 [of n] by auto
  with assms(3,4) show ?thesis
    by (simp add: feed_chunk_def update_mbo_snapshot_def collect_def collecting_def)
qed

lemma feed_next:
  assumes "0 < k" and "Suc k < n" and "n < 2 ^ 32"
  shows "feed_chunk (collect fin) n (Suc k, es) (collecting n k acc s, x)
       = (collecting n (Suc k) (acc @ es) s, x)"
  using assms word_of_nat_u32_neq0 [of n] word_of_nat_u32_eq [of "Suc k" k]
    word_of_nat_u32_eq [of "Suc k" n]
  by (simp add: feed_chunk_def update_mbo_snapshot_def collect_def collecting_def add.commute)

lemma feed_last:
  assumes "0 < k" and "n = Suc k" and "n < 2 ^ 32"
  shows "feed_chunk (collect fin) n (n, es) (collecting n k acc s, x)
       = apfst reset_chunks (fin (collecting n k (acc @ es) s, x))"
  using assms word_of_nat_u32_neq0 [of n] word_of_nat_u32_eq [of "Suc k" k]
  by (simp add: feed_chunk_def update_mbo_snapshot_def collect_def collecting_def add.commute
      split: prod.split)

lemma feed_same:
  assumes "0 < n" and "n < 2 ^ 32"
  shows "feed_chunk (collect fin) n (k, es) (collecting n k acc s, x) = (collecting n k acc s, x)"
  using assms word_of_nat_u32_neq0 [of n]
  by (simp add: feed_chunk_def update_mbo_snapshot_def collecting_def)

lemma fold_replicate_idem:
  assumes "f c (f c st) = f c st"
  shows "fold f (replicate (Suc r) c) st = f c st"
proof -
  have "f c ((f c ^^ r) st) = f c st" using assms by (induction r) auto
  then show ?thesis by (simp add: funpow_swap1 [symmetric])
qed

text \<open>
  The chunks of one snapshot as the two feeds deliver them: in order, each chunk at least once
  and possibly repeated (\<open>r k\<close> further copies).
\<close>

definition chunk_stream :: "'e list \<Rightarrow> (nat \<Rightarrow> nat) \<Rightarrow> (nat \<times> 'e) list" where
  "chunk_stream ess r = concat (map (\<lambda>k. replicate (Suc (r k)) (Suc k, ess ! k)) [0..<length ess])"

lemma feed_prefix:
  assumes n: "1 < n" "n < 2 ^ 32" "n = length ess" and s: "no_chunks s = 0" "mbo_orders s = []"
    and k: "0 < k" "k < n"
  shows "fold (feed_chunk (collect fin) n)
           (concat (map (\<lambda>k. replicate (Suc (r k)) (Suc k, ess ! k)) [0..<k])) (s, x)
         = (collecting n k (concat (take k ess)) s, x)"
  using k
proof (induction k)
  case 0
  then show ?case by simp
next
  case (Suc k)
  have same: "feed_chunk (collect fin) n (j, es) (collecting n j acc s, x) = (collecting n j acc s, x)"
    for j es acc by (rule feed_same) (use n in auto)
  show ?case
  proof (cases "k = 0")
    case True
    have "feed_chunk (collect fin) n (1, ess ! 0) (s, x) = (collecting n 1 (ess ! 0) s, x)"
      by (rule feed_first) (use n s in auto)
    moreover have "concat (take 1 ess) = ess ! 0" using n by (cases ess) auto
    ultimately show ?thesis using True same n
      by (simp add: fold_replicate_idem del: replicate_Suc fold_replicate)
  next
    case False
    have "feed_chunk (collect fin) n (Suc k, ess ! k) (collecting n k (concat (take k ess)) s, x)
        = (collecting n (Suc k) (concat (take k ess) @ ess ! k) s, x)"
      by (rule feed_next) (use False Suc.prems n in auto)
    then show ?thesis using False Suc n same
      by (simp add: fold_replicate_idem take_Suc_conv_app_nth del: replicate_Suc fold_replicate)
  qed
qed

lemma feed_after_reset:
  assumes "k \<noteq> 1" and "k < 2 ^ 32"
  shows "feed_chunk cb n (k, es) (apfst reset_chunks sx) = apfst reset_chunks sx"
  using assms word_of_nat_u32_eq1 [of k]
  by (cases sx) (simp add: feed_chunk_def update_mbo_snapshot_def reset_chunks_def)

lemma chunk_stream_split:
  assumes "length ess = Suc k"
  shows "chunk_stream ess r = concat (map (\<lambda>k. replicate (Suc (r k)) (Suc k, ess ! k)) [0..<k])
      @ replicate (Suc (r k)) (length ess, ess ! k)"
  using assms by (simp add: chunk_stream_def del: replicate_Suc)

lemma feed_final:
  assumes "0 < k" and "length ess = Suc k" and "length ess < 2 ^ 32"
  shows "feed_chunk (collect fin) (length ess) (length ess, ess ! k) (collecting (length ess) k (concat (take k ess)) s, x)
       = apfst reset_chunks (fin (collecting (length ess) k (concat ess) s, x))"
proof -
  have "take k ess @ [ess ! k] = ess" using assms(2) take_Suc_conv_app_nth [of k ess] by simp
  then have "concat (take k ess) @ ess ! k = concat ess"
    using concat_append [of "take k ess" "[ess ! k]"] by simp
  then show ?thesis using feed_last [of k "length ess" fin "ess ! k" "concat (take k ess)" s x] assms by simp
qed

text \<open>
  A snapshot of two or more chunks is assembled exactly once: when the chunks arrive
  in order, each repeated any number of times (two feeds carry the same data), the final
  action runs once, with the concatenation of all the chunks' orders, and afterwards the
  assembly is back in its empty state.
\<close>

theorem snapshot_assembled_once:
  assumes "2 \<le> length ess" and "length ess < 2 ^ 32"
    and "no_chunks s = 0" and "mbo_orders s = []"
  shows "fold (feed_chunk (collect fin) (length ess)) (chunk_stream ess r) (s, x)
       = apfst reset_chunks (fin (collecting (length ess) (length ess - 1) (concat ess) s, x))"
proof -
  let ?n = "length ess" and ?k = "length ess - 1"
  let ?f = "feed_chunk (collect fin) ?n"
  let ?mid = "(collecting ?n ?k (concat (take ?k ess)) s, x)"
  have k: "0 < ?k" "?n = Suc ?k" using assms(1) by auto
  have pre: "fold ?f (concat (map (\<lambda>k. replicate (Suc (r k)) (Suc k, ess ! k)) [0..<?k])) (s, x) = ?mid"
    by (rule feed_prefix) (use assms k in auto)
  note lst = feed_final [OF k assms(2), of fin s x]
  have "fold ?f (replicate (Suc (r ?k)) (?n, ess ! ?k)) ?mid = ?f (?n, ess ! ?k) ?mid"
    by (rule fold_replicate_idem) (unfold lst, rule feed_after_reset, use assms in auto)
  with pre lst show ?thesis by (simp add: chunk_stream_split [OF k(2)] del: replicate_Suc fold_replicate)
qed

text \<open>A snapshot of two chunks, the first delivered twice; the final action keeps the orders.\<close>

definition sample_order :: "string \<Rightarrow> mbo_update" where
  "sample_order oid = \<lparr>mbo_price = Fin 1, mbo_quantity = Fin 1, mbo_priority = 1, mbo_order_id = oid,
     mbo_side = BUY, mbo_action = NEW\<rparr>"

definition sample_security :: "(unit, unit) security" where
  "sample_security = \<lparr>exchange = ''CME'', symbol = ''ESZ5'', display_factor = Fin 1, discard = False,
     rpt_seq = 0, mbp_sequencer = (), mbp_resubscribe = 0, no_chunks = 0, last_chunk = 0,
     mbo_orders = [], mbo_sequencer = (), mbo_resubscribe = 0\<rparr>"

definition sample_final ::
    "(unit, unit) security \<times> mbo_update list list \<Rightarrow> (unit, unit) security \<times> mbo_update list list" where
  "sample_final sx = (fst sx, snd sx @ [mbo_orders (fst sx)])"

theorem snapshot_assembled_once_witness:
  "fold (feed_chunk (collect sample_final) 2)
     (chunk_stream [[sample_order ''1''], [sample_order ''2'']] (\<lambda>k. if k = 0 then 1 else 0))
     (sample_security, [])
   = (sample_security, [[sample_order ''1'', sample_order ''2'']])"
  using snapshot_assembled_once [of "[[sample_order ''1''], [sample_order ''2'']]" sample_security sample_final
      "\<lambda>k. if k = 0 then 1 else 0" "[]"]
  by (simp add: sample_final_def sample_security_def collecting_def reset_chunks_def
      numeral_2_eq_2 [symmetric] del: One_nat_def)

text \<open>
  A snapshot of a single chunk is different: the callback runs with the last-chunk
  flag, but the assembly is not reset. From then on every further single-chunk snapshot of
  the security is taken for a repetition of the old one and is ignored: the callback does not
  run and nothing changes.
\<close>

theorem single_chunk_snapshot_not_reset:
  assumes "no_chunks s = 0" and "mbo_orders s = []"
    and "\<And>t y. no_chunks (fst (fin (t, y))) = no_chunks t"
    and "\<And>t y. last_chunk (fst (fin (t, y))) = last_chunk t"
  shows "\<exists>t y. feed_chunk (collect fin) 1 (1, es) (s, x) = (t, y)
    \<and> (t, y) = fin (s\<lparr>no_chunks := 1, last_chunk := 1, mbo_orders := es\<rparr>, x)
    \<and> (\<forall>es'. feed_chunk (collect fin) 1 (1, es') (t, y) = (t, y))"
proof -
  let ?s = "s\<lparr>no_chunks := 1, last_chunk := 1, mbo_orders := es\<rparr>"
  obtain t y where ty: "fin (?s, x) = (t, y)" by (cases "fin (?s, x)")
  have "feed_chunk (collect fin) 1 (1, es) (s, x) = (t, y)"
    using assms(1,2) ty
    by (simp add: feed_chunk_def update_mbo_snapshot_def collect_def)
  moreover have "no_chunks t = 1" "last_chunk t = 1"
    using assms(3) [of ?s x] assms(4) [of ?s x] ty by simp_all
  then have "feed_chunk (collect fin) 1 (1, es') (t, y) = (t, y)" for es'
    by (simp add: feed_chunk_def update_mbo_snapshot_def)
  ultimately show ?thesis using ty by metis
qed

theorem single_chunk_snapshot_not_reset_witness:
  "\<exists>t y. feed_chunk (collect sample_final) 1 (1, [sample_order ''1'']) (sample_security, []) = (t, y)
    \<and> (t, y) = sample_final (sample_security\<lparr>no_chunks := 1, last_chunk := 1, mbo_orders := [sample_order ''1'']\<rparr>, [])
    \<and> (\<forall>es'. feed_chunk (collect sample_final) 1 (1, es') (t, y) = (t, y))"
  by (rule single_chunk_snapshot_not_reset) (simp_all add: sample_security_def sample_final_def)

end
