(* ===== verification/Secdef.thy ===== *)
theory Secdef
  imports Binary64
begin

section \<open>The security definition file\<close>

text \<open>
  \<^verbatim>\<open>secdef/config_reader.cpp\<close>. The file is a sequence of \<open>tag=value\<close>
  fields, each ended by SOH; a line feed after the last field of a line makes an empty field,
  which hands the definition to the handler. The number conversions of the utility library
  are the parameter \<open>charconv\<close>; a conversion that throws is \<open>None\<close>.
\<close>

record charconv =
  from_u32 :: "string \<Rightarrow> u32 option"
  from_i32 :: "string \<Rightarrow> int option"
  from_u8 :: "string \<Rightarrow> u8 option"
  from_double :: "string \<Rightarrow> double option"

record secdef =
  sd_security_id :: u32
  sd_market_segment_id :: u8
  sd_exchange :: string
  sd_symbol :: string
  sd_security_type :: string
  sd_currency :: string
  sd_multiplier :: int
  sd_min_trade_vol :: u32
  sd_max_trade_vol :: u32
  sd_min_price_increment :: double
  sd_display_factor :: double
  sd_asset :: string

definition empty_secdef :: secdef where
  "empty_secdef = \<lparr>sd_security_id = 0, sd_market_segment_id = 0, sd_exchange = [], sd_symbol = [],
     sd_security_type = [], sd_currency = [], sd_multiplier = 0, sd_min_trade_vol = 0,
     sd_max_trade_vol = 0, sd_min_price_increment = NaN, sd_display_factor = NaN, sd_asset = []\<rparr>"

definition secdef_set :: "charconv \<Rightarrow> string \<Rightarrow> string \<Rightarrow> secdef \<Rightarrow> secdef option" where
  "secdef_set cc key v d =
     (case from_u32 cc key of
        None \<Rightarrow> None
      | Some tag \<Rightarrow>
          if tag = 15 then Some (d\<lparr>sd_currency := v\<rparr>)
          else if tag = 48 then map_option (\<lambda>n. d\<lparr>sd_security_id := n\<rparr>) (from_u32 cc v)
          else if tag = 55 then Some (d\<lparr>sd_symbol := v\<rparr>)
          else if tag = 167 then Some (d\<lparr>sd_security_type := v\<rparr>)
          else if tag = 207 then Some (d\<lparr>sd_exchange := v\<rparr>)
          else if tag = 231 then map_option (\<lambda>n. d\<lparr>sd_multiplier := n\<rparr>) (from_i32 cc v)
          else if tag = 562 then map_option (\<lambda>n. d\<lparr>sd_min_trade_vol := n\<rparr>) (from_u32 cc v)
          else if tag = 969 then map_option (\<lambda>x. d\<lparr>sd_min_price_increment := x\<rparr>) (from_double cc v)
          else if tag = 1140 then map_option (\<lambda>n. d\<lparr>sd_max_trade_vol := n\<rparr>) (from_u32 cc v)
          else if tag = 1300 then map_option (\<lambda>n. d\<lparr>sd_market_segment_id := n\<rparr>) (from_u8 cc v)
          else if tag = 6937 then Some (d\<lparr>sd_asset := v\<rparr>)
          else if tag = 9787 then map_option (\<lambda>x. d\<lparr>sd_display_factor := x\<rparr>) (from_double cc v)
          else Some d)"

definition is_sep :: "char \<Rightarrow> bool" where
  "is_sep c \<longleftrightarrow> c = CHR 0x01 \<or> c = CHR 0x0A"

text \<open>
  \<^verbatim>\<open>string_view::substr(pos)\<close> throws \<^verbatim>\<open>std::out_of_range\<close> when the
  position is past the end: on a field without \<open>=\<close>, and on a last field that no
  separator follows.
\<close>

definition substr_from :: "nat \<Rightarrow> string \<Rightarrow> string option" where
  "substr_from pos s = (if pos > length s then None else Some (drop pos s))"

function secdef_dispatch ::
    "charconv \<Rightarrow> (secdef \<Rightarrow> 's \<Rightarrow> 's \<times> exn option) \<Rightarrow> string \<Rightarrow> secdef \<Rightarrow> 's \<Rightarrow> 's \<times> exn option" where
  "secdef_dispatch cc handler tmp sec_def s =
     (if tmp = [] then (s, None)
      else let key_value = takeWhile (\<lambda>c. \<not> is_sep c) tmp in
        if key_value = [] then
          (case handler sec_def s of
             (s', Some e) \<Rightarrow> (s', Some e)
           | (s', None) \<Rightarrow> secdef_dispatch cc handler (drop 1 tmp) empty_secdef s')
        else let key = takeWhile (\<lambda>c. c \<noteq> CHR ''='') key_value in
          (case substr_from (length key + 1) key_value of
             None \<Rightarrow> (s, Some OutOfRange)
           | Some v \<Rightarrow>
               (case secdef_set cc key v sec_def of
                  None \<Rightarrow> (s, Some RuntimeError)
                | Some sec_def' \<Rightarrow>
                    (case substr_from (length key_value + 1) tmp of
                       None \<Rightarrow> (s, Some OutOfRange)
                     | Some tmp' \<Rightarrow> secdef_dispatch cc handler tmp' sec_def' s))))"
  by pat_completeness auto
termination
  by (relation "measure (\<lambda>(cc, handler, tmp, sec_def, s). length tmp)")
    (auto simp: substr_from_def split: if_splits)

declare secdef_dispatch.simps [simp del]

subsection \<open>The definitions of a file\<close>

text \<open>
  A buffer is empty, starts with a separator, starts with a field and a separator, or is one
  field without a separator. The reader is described case by case.
\<close>

lemma buffer_induct [case_names Nil Sep Field Last]:
  assumes "P []"
    and "\<And>c cs. is_sep c \<Longrightarrow> P cs \<Longrightarrow> P (c # cs)"
    and "\<And>kv c cs. kv \<noteq> [] \<Longrightarrow> \<forall>x \<in> set kv. \<not> is_sep x \<Longrightarrow> is_sep c \<Longrightarrow> P cs \<Longrightarrow> P (kv @ c # cs)"
    and "\<And>kv. kv \<noteq> [] \<Longrightarrow> \<forall>x \<in> set kv. \<not> is_sep x \<Longrightarrow> P kv"
  shows "P tmp"
proof (induction "length tmp" arbitrary: tmp rule: less_induct)
  case less
  let ?kv = "takeWhile (\<lambda>c. \<not> is_sep c) tmp" and ?rest = "dropWhile (\<lambda>c. \<not> is_sep c) tmp"
  have tmp: "tmp = ?kv @ ?rest" by simp
  have kv: "\<forall>x \<in> set ?kv. \<not> is_sep x" by (auto dest: set_takeWhileD)
  show ?case
  proof (cases ?rest)
    case Nil
    with tmp kv assms(1) assms(4) [of ?kv] show ?thesis by (cases "tmp = []") auto
  next
    case (Cons c cs)
    then have c: "is_sep c" using hd_dropWhile [of "\<lambda>c. \<not> is_sep c" tmp] by auto
    have "length cs < length tmp" using tmp Cons by (metis length_append length_Cons less_add_same_cancel2
          less_Suc_eq_le le_add2 add_Suc_right not_less_eq)
    then have "P cs" by (rule less)
    with assms(2) [OF c] assms(3) [of ?kv c cs] kv c Cons tmp show ?thesis
      by (cases "?kv = []") auto
  qed
qed

lemma takeWhile_field:
  "\<forall>x \<in> set kv. \<not> is_sep x \<Longrightarrow> is_sep c \<Longrightarrow> takeWhile (\<lambda>c. \<not> is_sep c) (kv @ c # cs) = kv"
  by (simp add: takeWhile_append2)

definition field_set :: "charconv \<Rightarrow> string \<Rightarrow> secdef \<Rightarrow> exn + secdef" where
  "field_set cc kv d =
     (let key = takeWhile (\<lambda>c. c \<noteq> CHR ''='') kv in
      case substr_from (length key + 1) kv of
        None \<Rightarrow> Inl OutOfRange
      | Some v \<Rightarrow> (case secdef_set cc key v d of None \<Rightarrow> Inl RuntimeError | Some d' \<Rightarrow> Inr d'))"

lemma secdef_dispatch_Nil [simp]: "secdef_dispatch cc h [] d s = (s, None)"
  by (simp add: secdef_dispatch.simps)

lemma secdef_dispatch_sep:
  "is_sep c \<Longrightarrow> secdef_dispatch cc h (c # cs) d s =
     (case h d s of (s', Some e) \<Rightarrow> (s', Some e)
      | (s', None) \<Rightarrow> secdef_dispatch cc h cs empty_secdef s')"
  by (subst secdef_dispatch.simps) simp

lemma secdef_dispatch_field:
  assumes "kv \<noteq> []" and "\<forall>x \<in> set kv. \<not> is_sep x" and "is_sep c"
  shows "secdef_dispatch cc h (kv @ c # cs) d s =
     (case field_set cc kv d of Inl e \<Rightarrow> (s, Some e) | Inr d' \<Rightarrow> secdef_dispatch cc h cs d' s)"
proof -
  have kv: "takeWhile (\<lambda>c. \<not> is_sep c) (kv @ c # cs) = kv"
    using assms(2,3) by (rule takeWhile_field)
  have sub: "substr_from (length kv + 1) (kv @ c # cs) = Some cs"
    by (simp add: substr_from_def)
  show ?thesis
    by (subst secdef_dispatch.simps)
      (simp add: kv assms(1) sub [simplified] Let_def field_set_def split: option.split)
qed

lemma secdef_dispatch_last:
  assumes "kv \<noteq> []" and "\<forall>x \<in> set kv. \<not> is_sep x"
  shows "secdef_dispatch cc h kv d s =
     (s, Some (case field_set cc kv d of Inl e \<Rightarrow> e | Inr d' \<Rightarrow> OutOfRange))"
proof -
  have kv: "takeWhile (\<lambda>c. \<not> is_sep c) kv = kv"
    using assms(2) by (simp add: takeWhile_eq_all_conv)
  have sub: "substr_from (Suc (length kv)) kv = None"
    by (simp add: substr_from_def)
  show ?thesis
    by (subst secdef_dispatch.simps)
      (simp add: kv assms(1) sub Let_def field_set_def split: option.split)
qed

lemmas secdef_dispatch_cases = secdef_dispatch_sep secdef_dispatch_field secdef_dispatch_last

text \<open>
  The items of a file do not depend on the handler: the reader is a delivery of a list of
  items, followed by the exception of the reader itself, if any.
\<close>

definition secdef_items :: "charconv \<Rightarrow> string \<Rightarrow> secdef \<Rightarrow> secdef list \<times> exn option" where
  "secdef_items cc tmp d = secdef_dispatch cc (\<lambda>i is. (is @ [i], None)) tmp d []"

lemma secdef_items_Nil [simp]: "secdef_items cc [] d = ([], None)"
  by (simp add: secdef_items_def)

lemma secdef_items_field:
  assumes "kv \<noteq> []" and "\<forall>x \<in> set kv. \<not> is_sep x" and "is_sep c"
  shows "secdef_items cc (kv @ c # cs) d =
     (case field_set cc kv d of Inl e \<Rightarrow> ([], Some e) | Inr d' \<Rightarrow> secdef_items cc cs d')"
  by (simp only: secdef_items_def secdef_dispatch_field [OF assms])

lemma secdef_items_last:
  assumes "kv \<noteq> []" and "\<forall>x \<in> set kv. \<not> is_sep x"
  shows "secdef_items cc kv d = ([], Some (case field_set cc kv d of Inl e \<Rightarrow> e | Inr d' \<Rightarrow> OutOfRange))"
  by (simp add: secdef_items_def secdef_dispatch_last [OF assms])

lemma secdef_dispatch_collect:
  "secdef_dispatch cc (\<lambda>i is. (is @ [i], None)) tmp d acc = apfst ((@) acc) (secdef_items cc tmp d)"
proof (induction tmp arbitrary: d acc rule: buffer_induct)
  case (Sep c cs)
  have "secdef_items cc (c # cs) d = apfst ((@) [d]) (secdef_items cc cs empty_secdef)"
    using Sep.hyps Sep.IH [of empty_secdef "[d]"]
    by (subst secdef_items_def) (simp add: secdef_dispatch_sep)
  then show ?case
    using Sep by (cases "secdef_items cc cs empty_secdef") (simp add: secdef_dispatch_sep)
next
  case (Field kv c cs)
  then show ?case
    by (simp add: secdef_items_field [OF Field.hyps(1-3)] secdef_dispatch_field [OF Field.hyps(1-3)]
        split: sum.split)
qed (simp_all add: secdef_items_last secdef_dispatch_last)

lemma secdef_items_sep:
  "is_sep c \<Longrightarrow> secdef_items cc (c # cs) d = apfst ((#) d) (secdef_items cc cs empty_secdef)"
  using secdef_dispatch_collect [of cc cs empty_secdef "[d]"]
  by (subst secdef_items_def) (simp add: secdef_dispatch_sep)

lemma secdef_dispatch_deliver:
  "secdef_dispatch cc h tmp d s =
     (case secdef_items cc tmp d of (items, e) \<Rightarrow>
        (case deliver h items s of (s', None) \<Rightarrow> (s', e) | (s', Some e') \<Rightarrow> (s', Some e')))"
proof (induction tmp arbitrary: d s rule: buffer_induct)
  case (Sep c cs)
  then show ?case
    by (cases "secdef_items cc cs empty_secdef")
      (simp add: secdef_items_sep secdef_dispatch_sep split: prod.split option.split)
next
  case (Field kv c cs)
  then show ?case
    by (simp add: secdef_items_field [OF Field.hyps(1-3)] secdef_dispatch_field [OF Field.hyps(1-3)]
        split: sum.split)
qed (simp_all add: secdef_items_last secdef_dispatch_last)

text \<open>
  A security definition file whose last byte is not a separator never reads to the
  end: whatever the handler does, the reader leaves with an exception (at the latest
  \<^verbatim>\<open>std::out_of_range\<close> from the last field).
\<close>

theorem secdef_unterminated_throws:
  assumes "tmp \<noteq> []" and "\<not> is_sep (last tmp)"
  shows "snd (secdef_dispatch cc h tmp d s) \<noteq> None"
  using assms
proof (induction tmp arbitrary: d s rule: buffer_induct)
  case (Sep c cs)
  then show ?case
    by (cases "cs = []") (auto simp: secdef_dispatch_sep split: prod.split option.split)
next
  case (Field kv c cs)
  then show ?case
    by (cases "cs = []") (auto simp: secdef_dispatch_field [OF Field.hyps(1-3)] split: sum.split)
qed (simp_all add: secdef_dispatch_last)

subsection \<open>Round trip\<close>

type_synonym field = "string \<times> string"

definition encode_field :: "field \<Rightarrow> string" where
  "encode_field f = fst f @ CHR ''='' # snd f @ [CHR 0x01]"

definition encode_line :: "field list \<Rightarrow> string" where
  "encode_line fs = concat (map encode_field fs) @ [CHR 0x0A]"

definition wf_field :: "field \<Rightarrow> bool" where
  "wf_field f \<longleftrightarrow> (\<forall>c \<in> set (fst f). c \<noteq> CHR ''='' \<and> \<not> is_sep c) \<and> (\<forall>c \<in> set (snd f). \<not> is_sep c)"

text \<open>The definition a line stands for: its fields applied in order.\<close>

fun apply_fields :: "charconv \<Rightarrow> field list \<Rightarrow> secdef \<Rightarrow> secdef option" where
  "apply_fields cc [] d = Some d"
| "apply_fields cc (f # fs) d =
     (case secdef_set cc (fst f) (snd f) d of None \<Rightarrow> None | Some d' \<Rightarrow> apply_fields cc fs d')"

lemma sep_simps [simp]: "is_sep (CHR 0x01)" "is_sep (CHR 0x0A)" "\<not> is_sep (CHR ''='')"
  by (simp_all add: is_sep_def)

lemma field_set_encoded:
  "wf_field (k, v) \<Longrightarrow> field_set cc (k @ CHR ''='' # v) d
     = (case secdef_set cc k v d of None \<Rightarrow> Inl RuntimeError | Some d' \<Rightarrow> Inr d')"
  by (simp add: field_set_def wf_field_def substr_from_def takeWhile_append2)

lemma secdef_dispatch_fields:
  assumes "\<And>f. f \<in> set fs \<Longrightarrow> wf_field f" and "apply_fields cc fs d = Some d'"
  shows "secdef_dispatch cc h (concat (map encode_field fs) @ rest) d s = secdef_dispatch cc h rest d' s"
  using assms
proof (induction fs arbitrary: d)
  case Nil
  then show ?case by simp
next
  case (Cons f fs)
  obtain k v where f: "f = (k, v)" by (cases f)
  obtain e where e: "secdef_set cc k v d = Some e" "apply_fields cc fs e = Some d'"
    using Cons.prems(2) f by (auto split: option.splits)
  have wf: "wf_field (k, v)" using Cons.prems(1) f by simp
  have nosep: "\<forall>x \<in> set (k @ CHR ''='' # v). \<not> is_sep x"
    using wf by (auto simp: wf_field_def)
  have "secdef_dispatch cc h ((k @ CHR ''='' # v) @ CHR 0x01 # (concat (map encode_field fs) @ rest)) d s
      = secdef_dispatch cc h (concat (map encode_field fs) @ rest) e s"
    by (subst secdef_dispatch_field [OF _ nosep]) (simp_all add: field_set_encoded [OF wf] e(1))
  with Cons.IH [OF _ e(2)] Cons.prems(1) f show ?case by (simp add: encode_field_def [of "(k, v)"])
qed

text \<open>
  Claim C39. Reading back a file: for lines whose fields contain no separators and whose
  numbers convert, the reader calls the handler once per line, in order, on the definition
  that the fields of the line make, starting each line from an empty definition.
\<close>

theorem secdef_dispatch_roundtrip:
  assumes "\<And>l f. l \<in> set ls \<Longrightarrow> f \<in> set l \<Longrightarrow> wf_field f"
    and "map (\<lambda>l. apply_fields cc l empty_secdef) ls = map Some ds"
  shows "secdef_dispatch cc h (concat (map encode_line ls)) empty_secdef s = deliver h ds s"
  using assms
proof (induction ls arbitrary: ds s)
  case Nil
  then show ?case by simp
next
  case (Cons l ls)
  then obtain d ds' where ds: "ds = d # ds'" "apply_fields cc l empty_secdef = Some d"
      "map (\<lambda>l. apply_fields cc l empty_secdef) ls = map Some ds'"
    by (cases ds) auto
  have "secdef_dispatch cc h (concat (map encode_line (l # ls))) empty_secdef s
      = secdef_dispatch cc h (CHR 0x0A # concat (map encode_line ls)) d s"
    using secdef_dispatch_fields [OF _ ds(2), of h "CHR 0x0A # concat (map encode_line ls)" s]
      Cons.prems(1) [OF list.set_intros(1)] by (simp add: encode_line_def)
  moreover have "secdef_dispatch cc h (concat (map encode_line ls)) empty_secdef t = deliver h ds' t" for t
    by (rule Cons.IH [OF _ ds(3)]) (use Cons.prems(1) in auto)
  ultimately show ?case
    using ds(1) by (simp add: secdef_dispatch_sep split: prod.split option.split)
qed

text \<open>
  A conversion by decimal digits, and the beginning of the first line of the test file.
\<close>

definition digits_nat :: "string \<Rightarrow> nat option" where
  "digits_nat s = (if s \<noteq> [] \<and> (\<forall>c \<in> set s. 48 \<le> (of_char c :: nat) \<and> of_char c \<le> (57 :: nat))
                   then Some (read_nat s) else None)"

definition sample_cc :: charconv where
  "sample_cc = \<lparr>from_u32 = map_option word_of_nat \<circ> digits_nat, from_i32 = map_option int \<circ> digits_nat,
     from_u8 = map_option word_of_nat \<circ> digits_nat, from_double = (\<lambda>s. Some NaN)\<rparr>"

definition sample_line :: "field list" where
  "sample_line = [(''35'', ''d''), (''1300'', ''64''), (''207'', ''XCME''), (''6937'', ''ES''), (''55'', ''ESU4''), (''48'', ''118'')]"

definition sample_secdef :: secdef where
  "sample_secdef = empty_secdef\<lparr>sd_market_segment_id := 64, sd_exchange := ''XCME'', sd_asset := ''ES'',
     sd_symbol := ''ESU4'', sd_security_id := 118\<rparr>"

lemma sample_line_fields: "f \<in> set sample_line \<Longrightarrow> wf_field f"
  by (auto simp: sample_line_def wf_field_def is_sep_def)

lemma sample_line_apply: "apply_fields sample_cc sample_line empty_secdef = Some sample_secdef"
  by (simp add: sample_line_def sample_secdef_def secdef_set_def sample_cc_def digits_nat_def read_nat_def)

theorem secdef_dispatch_roundtrip_witness:
  "secdef_dispatch sample_cc (\<lambda>d ds. (ds @ [d], None)) (encode_line sample_line @ encode_line sample_line) empty_secdef []
   = ([sample_secdef, sample_secdef], None)"
  using secdef_dispatch_roundtrip [of "[sample_line, sample_line]" sample_cc "[sample_secdef, sample_secdef]"
      "\<lambda>d ds. (ds @ [d], None)" "[]"] sample_line_fields sample_line_apply
  by auto

theorem secdef_unterminated_throws_witness:
  "snd (secdef_dispatch sample_cc (\<lambda>d ds. (ds @ [d], None)) ''48=118'' empty_secdef []) \<noteq> None"
  by (rule secdef_unterminated_throws) (simp_all add: is_sep_def)

end
