(* ===== verification/SecurityDefinitions.thy ===== *)
theory SecurityDefinitions
  imports Security Secdef
begin

section \<open>The security definitions\<close>

text \<open>
  \<^verbatim>\<open>market_data/security_definitions.hpp\<close> and \<^verbatim>\<open>.cpp\<close>: the securities by
  identifier, the identifiers of each security group and the symbols of each market segment,
  and \<^verbatim>\<open>market_data/shared.cpp\<close>, which publishes the definitions of a file. A hash
  set is a list without repetitions, whose order stands for the order of iteration. Whether a
  symbol is discarded is decided by the dispatcher, a parameter; so are the initial states of
  the book sequencers.
\<close>

record ('p, 'o) security_definitions =
  securities :: "int \<rightharpoonup> ('p, 'o) security"
  security_groups :: "string \<rightharpoonup> int list"
  market_segments :: "u8 \<rightharpoonup> string \<rightharpoonup> int"

definition empty_definitions :: "('p, 'o) security_definitions" where
  "empty_definitions = \<lparr>securities = Map.empty, security_groups = Map.empty, market_segments = Map.empty\<rparr>"

definition make_security :: "'p \<Rightarrow> 'o \<Rightarrow> string \<Rightarrow> string \<Rightarrow> double \<Rightarrow> bool \<Rightarrow> ('p, 'o) security" where
  "make_security ip io exch name factor disc =
     \<lparr>exchange = exch, symbol = name, display_factor = factor, discard = disc, rpt_seq = 0,
      mbp_sequencer = ip, mbp_resubscribe = 0, no_chunks = 0, last_chunk = 0, mbo_orders = [],
      mbo_sequencer = io, mbo_resubscribe = 0\<rparr>"

definition has_security :: "int \<Rightarrow> ('p, 'o) security_definitions \<Rightarrow> bool" where
  "has_security security_id d \<longleftrightarrow> securities d security_id \<noteq> None"

definition insert_group :: "string \<Rightarrow> int \<Rightarrow> (string \<rightharpoonup> int list) \<Rightarrow> (string \<rightharpoonup> int list)" where
  "insert_group g security_id m =
     (let ids = (case m g of None \<Rightarrow> [] | Some ids \<Rightarrow> ids)
      in m(g \<mapsto> (if security_id \<in> set ids then ids else ids @ [security_id])))"

definition insert_symbol :: "u8 \<Rightarrow> string \<Rightarrow> int \<Rightarrow> (u8 \<rightharpoonup> string \<rightharpoonup> int) \<Rightarrow> (u8 \<rightharpoonup> string \<rightharpoonup> int)" where
  "insert_symbol seg name security_id m =
     (let names = (case m seg of None \<Rightarrow> Map.empty | Some names \<Rightarrow> names)
      in m(seg \<mapsto> try_emplace names name security_id))"

definition create_security ::
    "string \<Rightarrow> u8 \<Rightarrow> int \<Rightarrow> ('p, 'o) security \<Rightarrow> ('p, 'o) security_definitions \<Rightarrow> ('p, 'o) security_definitions" where
  "create_security g seg security_id s d =
     (let d = (if discard s then d
               else d\<lparr>security_groups := insert_group g security_id (security_groups d),
                      market_segments := insert_symbol seg (symbol s) security_id (market_segments d)\<rparr>)
      in d\<lparr>securities := try_emplace (securities d) security_id s\<rparr>)"

text \<open>
  The lookups hand a reference to a callback, which may change the security. \<open>find_security\<close>
  is the guard of \<^verbatim>\<open>get_security\<close>; the callback is a function on the security and
  whatever else it has captured.
\<close>

definition find_security :: "int \<Rightarrow> ('p, 'o) security_definitions \<Rightarrow> ('p, 'o) security option" where
  "find_security security_id d =
     (case securities d security_id of
        None \<Rightarrow> None
      | Some s \<Rightarrow> if discard s then None else Some s)"

definition get_security ::
    "int \<Rightarrow> (('p, 'o) security \<times> 'x \<Rightarrow> ('p, 'o) security \<times> 'x)
     \<Rightarrow> ('p, 'o) security_definitions \<times> 'x \<Rightarrow> bool \<times> ('p, 'o) security_definitions \<times> 'x" where
  "get_security security_id callback dx =
     (case dx of (d, x) \<Rightarrow>
       (case find_security security_id d of
          None \<Rightarrow> (False, d, x)
        | Some s \<Rightarrow> (case callback (s, x) of (s', x') \<Rightarrow>
            (True, d\<lparr>securities := (securities d)(security_id \<mapsto> s')\<rparr>, x'))))"

definition get_security_incl_discard ::
    "int \<Rightarrow> (('p, 'o) security \<times> 'x \<Rightarrow> ('p, 'o) security \<times> 'x)
     \<Rightarrow> ('p, 'o) security_definitions \<times> 'x \<Rightarrow> bool \<times> ('p, 'o) security_definitions \<times> 'x" where
  "get_security_incl_discard security_id callback dx =
     (case dx of (d, x) \<Rightarrow>
       (case securities d security_id of
          None \<Rightarrow> (False, d, x)
        | Some s \<Rightarrow> (case callback (s, x) of (s', x') \<Rightarrow>
            (True, d\<lparr>securities := (securities d)(security_id \<mapsto> s')\<rparr>, x'))))"

definition get_security_group :: "string \<Rightarrow> ('p, 'o) security_definitions \<Rightarrow> int list option" where
  "get_security_group g d = security_groups d g"

definition find_security_id :: "u8 \<Rightarrow> string \<Rightarrow> ('p, 'o) security_definitions \<Rightarrow> int option" where
  "find_security_id seg name d =
     (case market_segments d seg of None \<Rightarrow> None | Some names \<Rightarrow> names name)"

text \<open>The handler of the constructor; \<^verbatim>\<open>uint32_t\<close> identifiers become \<^verbatim>\<open>int32_t\<close> keys.\<close>

definition secdef_load ::
    "(string \<Rightarrow> bool) \<Rightarrow> 'p \<Rightarrow> 'o \<Rightarrow> secdef \<Rightarrow> ('p, 'o) security_definitions \<Rightarrow> ('p, 'o) security_definitions" where
  "secdef_load discard_symbol ip io item d =
     (if discard_symbol (sd_symbol item) then d
      else let security_id = sint (sd_security_id item) in
        d\<lparr>securities := try_emplace (securities d) security_id
            (make_security ip io (sd_exchange item) (sd_symbol item) (sd_display_factor item) False),
          security_groups := insert_group (sd_asset item) security_id (security_groups d),
          market_segments := insert_symbol (sd_market_segment_id item) (sd_symbol item) security_id (market_segments d)\<rparr>)"

definition security_definitions_init ::
    "charconv \<Rightarrow> (string \<Rightarrow> bool) \<Rightarrow> 'p \<Rightarrow> 'o \<Rightarrow> string \<Rightarrow> ('p, 'o) security_definitions \<times> exn option" where
  "security_definitions_init cc discard_symbol ip io buffer =
     secdef_dispatch cc (\<lambda>item d. (secdef_load discard_symbol ip io item d, None)) buffer empty_secdef empty_definitions"

text \<open>\<^verbatim>\<open>Shared::read_secdef\<close>: a second pass over the file publishes the definitions.\<close>

definition secdef_reference_data :: "secdef \<Rightarrow> ('p, 'o) security \<Rightarrow> reference_data" where
  "secdef_reference_data item s =
     \<lparr>rd_stream_id = 0, rd_exchange = sd_exchange item, rd_symbol = sd_symbol item,
      rd_security_type = FUTURES, rd_external_security_id = 0, rd_quote_currency = sd_currency item,
      rd_settlement_currency = [],
      rd_tick_size = dmul (sd_min_price_increment item) (sd_display_factor item),
      rd_multiplier = (if sd_multiplier item = 0 then NaN else double_of_int (sd_multiplier item)),
      rd_min_trade_vol = double_of_int (uint (sd_min_trade_vol item)),
      rd_max_trade_vol = double_of_int (uint (sd_max_trade_vol item)),
      rd_strike_currency = [], rd_discard = discard s\<rparr>"

definition secdef_publish ::
    "(string \<Rightarrow> bool) \<Rightarrow> ('p, 'o) security_definitions \<Rightarrow> secdef \<Rightarrow> event list \<Rightarrow> event list \<times> exn option" where
  "secdef_publish discard_symbol d item out =
     (if discard_symbol (sd_symbol item) then (out, None)
      else (case find_security (sint (sd_security_id item)) d of
              Some s \<Rightarrow> (out @ [EvReferenceData (secdef_reference_data item s)], None)
            | None \<Rightarrow> (out, Some Fatal)))"

definition read_secdef ::
    "charconv \<Rightarrow> (string \<Rightarrow> bool) \<Rightarrow> string \<Rightarrow> ('p, 'o) security_definitions \<Rightarrow> event list \<Rightarrow> event list \<times> exn option" where
  "read_secdef cc discard_symbol buffer d out =
     secdef_dispatch cc (secdef_publish discard_symbol d) buffer empty_secdef out"

subsection \<open>The indices agree with the securities\<close>

definition active :: "int \<Rightarrow> ('p, 'o) security_definitions \<Rightarrow> bool" where
  "active i d \<longleftrightarrow> find_security i d \<noteq> None"

definition wf_definitions :: "('p, 'o) security_definitions \<Rightarrow> bool" where
  "wf_definitions d \<longleftrightarrow>
     (\<forall>g ids. security_groups d g = Some ids \<longrightarrow> distinct ids \<and> (\<forall>i \<in> set ids. active i d)) \<and>
     (\<forall>seg name i. find_security_id seg name d = Some i \<longrightarrow> active i d)"

lemma active_iff: "active i d \<longleftrightarrow> (\<exists>s. securities d i = Some s \<and> \<not> discard s)"
  by (auto simp: active_def find_security_def split: option.split)

lemma insert_group_apply:
  "insert_group g i m h = Some ids \<Longrightarrow>
     (\<exists>ids'. m h = Some ids' \<and> (ids = ids' \<or> i \<notin> set ids' \<and> ids = ids' @ [i])) \<or> ids = [i]"
  by (auto simp: insert_group_def Let_def split: if_splits option.splits)

lemma insert_symbol_find:
  "(case insert_symbol seg name i m seg' of None \<Rightarrow> None | Some names \<Rightarrow> names name') = Some j \<Longrightarrow>
     (case m seg' of None \<Rightarrow> None | Some names \<Rightarrow> names name') = Some j \<or> j = i"
  by (auto simp: insert_symbol_def Let_def try_emplace_apply split: if_splits option.splits)

lemma wf_definitions_empty [simp, wf_intros]: "wf_definitions empty_definitions"
  by (simp add: wf_definitions_def empty_definitions_def find_security_id_def)

text \<open>
  Adding an active security to the indices, with the other securities kept, keeps the
  invariant: the one step that both ways of creating a security share.
\<close>

lemma wf_definitions_extend:
  assumes wf: "wf_definitions d" and i: "active i d'"
    and old: "\<And>j. active j d \<Longrightarrow> active j d'"
    and groups: "security_groups d' = insert_group g i (security_groups d)"
    and segs: "market_segments d' = insert_symbol seg name i (market_segments d)"
  shows "wf_definitions d'"
proof -
  have "distinct ids \<and> (\<forall>j \<in> set ids. active j d')" if "security_groups d' h = Some ids" for h ids
    using that insert_group_apply [of g i "security_groups d" h ids] wf i old
    unfolding groups wf_definitions_def by fastforce
  moreover have "active j d'" if "find_security_id seg' name' d' = Some j" for seg' name' j
    using that insert_symbol_find [of name' seg name i "market_segments d" seg' j] wf i old
    unfolding find_security_id_def segs wf_definitions_def by blast
  ultimately show ?thesis unfolding wf_definitions_def by blast
qed

lemma wf_definitions_securities:
  assumes "wf_definitions d" and "\<And>j. active j d \<Longrightarrow> active j d'"
    and "security_groups d' = security_groups d" and "market_segments d' = market_segments d"
  shows "wf_definitions d'"
  using assms by (auto simp: wf_definitions_def find_security_id_def)

lemma create_security_active:
  "\<not> has_security i d \<Longrightarrow> active j (create_security g seg i s d) \<longleftrightarrow> active j d \<or> j = i \<and> \<not> discard s"
  by (auto simp: create_security_def active_iff try_emplace_apply has_security_def)

lemma create_security_wf [wf_intros]:
  assumes wf: "wf_definitions d" and fresh: "\<not> has_security i d"
  shows "wf_definitions (create_security g seg i s d)"
proof (cases "discard s")
  case True
  show ?thesis
    by (rule wf_definitions_securities [OF wf])
      (simp_all add: create_security_active [OF fresh], simp_all add: create_security_def True)
next
  case False
  show ?thesis
    by (rule wf_definitions_extend [OF wf, of i _ g seg "symbol s"])
      (simp_all add: create_security_active [OF fresh] False, simp_all add: create_security_def False)
qed

definition no_discards :: "('p, 'o) security_definitions \<Rightarrow> bool" where
  "no_discards d \<longleftrightarrow> (\<forall>i s. securities d i = Some s \<longrightarrow> \<not> discard s)"

lemma no_discards_empty [simp]: "no_discards empty_definitions"
  by (simp add: no_discards_def empty_definitions_def)

lemma secdef_load_no_discards: "no_discards d \<Longrightarrow> no_discards (secdef_load dis ip io item d)"
  by (auto simp: no_discards_def secdef_load_def Let_def try_emplace_apply make_security_def)

lemma secdef_load_active:
  "active i d \<Longrightarrow> active i (secdef_load dis ip io item d)"
  by (auto simp: secdef_load_def Let_def active_iff try_emplace_apply)

lemma secdef_load_new_active:
  assumes "no_discards d" and "\<not> dis (sd_symbol item)"
  shows "active (sint (sd_security_id item)) (secdef_load dis ip io item d)"
  using assms
  by (cases "securities d (sint (sd_security_id item))")
    (auto simp: secdef_load_def Let_def active_iff try_emplace_apply make_security_def no_discards_def)

lemma secdef_load_wf:
  assumes "wf_definitions d" and nd: "no_discards d"
  shows "wf_definitions (secdef_load dis ip io item d)"
proof (cases "dis (sd_symbol item)")
  case True
  with assms show ?thesis by (simp add: secdef_load_def)
next
  case False
  show ?thesis
    by (rule wf_definitions_extend [OF assms(1)])
      (rule secdef_load_new_active, rule nd, rule False, erule secdef_load_active,
       simp_all add: secdef_load_def Let_def False)
qed

lemma get_security_wf:
  assumes "wf_definitions d" and "\<And>s y. discard (fst (cb (s, y))) = discard s"
  shows "wf_definitions (fst (snd (get_security i cb (d, x))))"
proof (cases "find_security i d")
  case None
  with assms show ?thesis by (simp add: get_security_def)
next
  case (Some s)
  with assms(2) [of s x] have "active j d \<Longrightarrow>
      active j (d\<lparr>securities := (securities d)(i \<mapsto> fst (cb (s, x)))\<rparr>)" for j
    by (auto simp: active_iff find_security_def split: if_splits option.splits)
  then have "wf_definitions (d\<lparr>securities := (securities d)(i \<mapsto> fst (cb (s, x)))\<rparr>)"
    by (rule wf_definitions_securities [OF assms(1)]) simp_all
  with Some show ?thesis by (cases "cb (s, x)") (simp add: get_security_def)
qed

subsection \<open>Loading a file\<close>

lemma security_definitions_init_fold:
  "security_definitions_init cc dis ip io buffer =
     (case secdef_items cc buffer empty_secdef of (items, e) \<Rightarrow>
        (fold (secdef_load dis ip io) items empty_definitions, e))"
  by (simp add: security_definitions_init_def secdef_dispatch_deliver deliver_total split: prod.split)

lemma secdef_load_fold:
  assumes "wf_definitions d" and "no_discards d"
  shows "wf_definitions (fold (secdef_load dis ip io) items d) \<and> no_discards (fold (secdef_load dis ip io) items d)
    \<and> (\<forall>j. active j d \<longrightarrow> active j (fold (secdef_load dis ip io) items d))
    \<and> (\<forall>item \<in> set items. \<not> dis (sd_symbol item) \<longrightarrow>
          active (sint (sd_security_id item)) (fold (secdef_load dis ip io) items d))"
  using assms
proof (induction items arbitrary: d)
  case Nil
  then show ?case by simp
next
  case (Cons item items)
  let ?d = "secdef_load dis ip io item d"
  have "wf_definitions ?d" "no_discards ?d"
    using Cons.prems by (auto intro: secdef_load_wf secdef_load_no_discards)
  from Cons.IH [OF this] secdef_load_active [of _ d dis ip io item]
    secdef_load_new_active [of d dis item ip io] Cons.prems
  show ?case by auto
qed

text \<open>
  Claim C33. Whatever the file holds, the security definitions it leaves behind are well formed:
  every identifier of a security group and every identifier a symbol of a market segment
  leads to is a security that exists and is not discarded.
\<close>

theorem security_definitions_init_wf:
  "wf_definitions (fst (security_definitions_init cc discard_symbol ip io buffer))"
  using secdef_load_fold [OF wf_definitions_empty no_discards_empty, of discard_symbol ip io]
  by (simp add: security_definitions_init_fold split: prod.split)

text \<open>
  The second pass over the file, which publishes the reference data, never reaches
  \<^verbatim>\<open>log::fatal\<close>: every definition it does not discard was stored by the first pass. If
  the file reads to its end, it publishes exactly one reference data update per definition
  that is not discarded, in the order of the file.
\<close>

theorem read_secdef_never_fatal:
  assumes "security_definitions_init cc discard_symbol ip io buffer = (d, e)"
    and "read_secdef cc discard_symbol buffer d' out = (out', e')"
    and "\<And>i. active i d \<Longrightarrow> active i d'"
  shows "e' = e \<and> map event_symbol out' = map event_symbol out @ map (Some \<circ> sd_symbol)
           (filter (\<lambda>item. \<not> discard_symbol (sd_symbol item)) (fst (secdef_items cc buffer empty_secdef)))"
proof -
  obtain items where items: "secdef_items cc buffer empty_secdef = (items, e)"
      "d = fold (secdef_load discard_symbol ip io) items empty_definitions"
    using assms(1) by (auto simp: security_definitions_init_fold split: prod.splits)
  have act: "active (sint (sd_security_id item)) d'" if "item \<in> set items" "\<not> discard_symbol (sd_symbol item)" for item
    using secdef_load_fold [OF wf_definitions_empty no_discards_empty, of discard_symbol ip io items]
      that assms(3) unfolding items(2) by blast
  let ?kept = "\<lambda>items. map (Some \<circ> sd_symbol) (filter (\<lambda>item. \<not> discard_symbol (sd_symbol item)) items)"
  have "\<exists>o'. deliver (secdef_publish discard_symbol d') items out = (o', None)
      \<and> map event_symbol o' = map event_symbol out @ ?kept items"
    using act
  proof (induction items arbitrary: out)
    case Nil
    then show ?case by simp
  next
    case (Cons item items)
    have "\<exists>o1. secdef_publish discard_symbol d' item out = (o1, None)
        \<and> map event_symbol o1 = map event_symbol out @ ?kept [item]"
      using Cons.prems [of item]
      by (cases "discard_symbol (sd_symbol item)")
        (auto simp: secdef_publish_def active_def secdef_reference_data_def)
    then obtain o1 where o1: "secdef_publish discard_symbol d' item out = (o1, None)"
        "map event_symbol o1 = map event_symbol out @ ?kept [item]"
      by blast
    obtain o2 where "deliver (secdef_publish discard_symbol d') items o1 = (o2, None)"
        "map event_symbol o2 = map event_symbol o1 @ ?kept items"
      using Cons.IH [of o1] Cons.prems by auto
    with o1 show ?case by simp
  qed
  with assms(2) items(1) show ?thesis
    by (auto simp: read_secdef_def secdef_dispatch_deliver)
qed

subsection \<open>The index as an interface\<close>

text \<open>
  What order entry and the security status handler rely on: a symbol of a market segment and
  a member of a security group always lead to a security that can be used.
\<close>

locale security_index =
  fixes invar :: "'d \<Rightarrow> bool"
    and find_id :: "u8 \<Rightarrow> string \<Rightarrow> 'd \<Rightarrow> int option"
    and group_ids :: "string \<Rightarrow> 'd \<Rightarrow> int list option"
    and find :: "int \<Rightarrow> 'd \<Rightarrow> 's option"
  assumes find_id_find: "invar d \<Longrightarrow> find_id seg name d = Some i \<Longrightarrow> find i d \<noteq> None"
    and group_find: "invar d \<Longrightarrow> group_ids g d = Some ids \<Longrightarrow> i \<in> set ids \<Longrightarrow> find i d \<noteq> None"
    and group_distinct: "invar d \<Longrightarrow> group_ids g d = Some ids \<Longrightarrow> distinct ids"
begin

text \<open>A lookup by symbol followed by a lookup by identifier: both succeed or the symbol is unknown.\<close>

lemma symbol_lookup_cases:
  assumes "invar d"
  obtains "find_id seg name d = None"
    | i s where "find_id seg name d = Some i" and "find i d = Some s"
  using find_id_find [OF assms, of seg name] by (cases "find_id seg name d") auto

lemma group_lookup_all:
  assumes "invar d" and "group_ids g d = Some ids"
  shows "\<exists>ss. map (\<lambda>i. find i d) ids = map Some ss"
proof -
  have "\<forall>i \<in> set ids. find i d = Some (the (find i d))"
    using group_find [OF assms] by auto
  then have "map (\<lambda>i. find i d) ids = map Some (map (\<lambda>i. the (find i d)) ids)" by simp
  then show ?thesis by blast
qed

end

interpretation sec_index: security_index wf_definitions find_security_id get_security_group find_security
  by unfold_locales (auto simp: wf_definitions_def active_def get_security_group_def)

subsection \<open>Witness\<close>

text \<open>Two definitions, one of which the dispatcher discards.\<close>

definition sample_line_2 :: "field list" where
  "sample_line_2 = [(''48'', ''7''), (''55'', ''X'')]"

definition sample_file :: string where
  "sample_file = encode_line sample_line @ encode_line sample_line_2"

lemma sample_file_items:
  "secdef_items sample_cc sample_file empty_secdef
   = ([sample_secdef, empty_secdef\<lparr>sd_security_id := 7, sd_symbol := ''X''\<rparr>], None)"
proof -
  have a: "f \<in> set sample_line_2 \<Longrightarrow> wf_field f" for f
    by (auto simp: wf_field_def is_sep_def sample_line_2_def)
  have b: "apply_fields sample_cc sample_line_2 empty_secdef
      = Some (empty_secdef\<lparr>sd_security_id := 7, sd_symbol := ''X''\<rparr>)"
    by (simp add: secdef_set_def sample_cc_def digits_nat_def read_nat_def sample_line_2_def)
  show ?thesis
    by (simp add: secdef_items_def sample_file_def encode_line_def secdef_dispatch_sep
        secdef_dispatch_fields [OF sample_line_fields sample_line_apply] secdef_dispatch_fields [OF a b])
qed

theorem read_secdef_never_fatal_witness:
  "map event_symbol (fst (read_secdef sample_cc (\<lambda>name. name = ''X'') sample_file
      (fst (security_definitions_init sample_cc (\<lambda>name. name = ''X'') () () sample_file)) []))
   = [Some ''ESU4'']"
proof -
  obtain d e where d: "security_definitions_init sample_cc (\<lambda>name. name = ''X'') () () sample_file = (d, e)"
    by (cases "security_definitions_init sample_cc (\<lambda>name. name = ''X'') () () sample_file")
  obtain out' e' where o: "read_secdef sample_cc (\<lambda>name. name = ''X'') sample_file d [] = (out', e')"
    by (cases "read_secdef sample_cc (\<lambda>name. name = ''X'') sample_file d []")
  show ?thesis
    using read_secdef_never_fatal [OF d o] d o
    by (simp add: sample_file_items, simp add: sample_secdef_def empty_secdef_def)
qed

end
