(* ===== verification/MdpParser.thy ===== *)
theory MdpParser
  imports MdpTypes
begin

section \<open>MDP packets: the frame and the message loop\<close>

text \<open>
  \<^verbatim>\<open>protocol/mdp/frame.cpp\<close> and \<^verbatim>\<open>protocol/mdp/parser.cpp\<close>. A UDP packet
  is a 12 byte frame (sequence number, sending time) followed by messages, each with a two
  byte size, an SBE header and a body. The flyweights that decode headers and bodies are
  generated from the exchange's schema and are not part of the sources: they are the
  parameter \<open>sbe\<close>. The handler is a function on the state of the component that
  receives the messages; an exception it throws ends the loop.
\<close>

record frame =
  sequence_number :: u32
  sending_time :: nanoseconds

definition frame_size :: nat where
  "frame_size = 12"

definition parse_frame :: "bytes \<Rightarrow> frame option" where
  "parse_frame buffer =
     (if length buffer < frame_size then None
      else Some \<lparr>sequence_number = le_u32 (drop 0 buffer),
                 sending_time = sint (le_u64 (drop 4 buffer))\<rparr>)"

record sbe_header =
  blockLength :: u16
  templateId :: u16
  version :: u16

record 'm sbe =
  header_length :: nat
  header_decode :: "bytes \<Rightarrow> sbe_header option"
  body_decode :: "sbe_header \<Rightarrow> bytes \<Rightarrow> 'm"

text \<open>The template ids of the switch: dispatched, silently dropped, and anything else.\<close>

definition mdp_parsed :: "u16 list" where
  "mdp_parsed =
     [12, 4, 30, 54, 55, 56, 57, 58, 63, 52, 69, 46, 64, 53, 47, 48, 65, 49, 51, 67, 37, 66, 50, 39]"

definition mdp_dropped :: "u16 list" where
  "mdp_dropped = [16, 59, 60, 61, 62, 68]"

text \<open>
  The message loop. \<^verbatim>\<open>MessageSize\<close> throws when less than two bytes are left; the
  generated header throws when its bytes are missing (\<open>None\<close>). The length of the body is
  a subtraction on \<^verbatim>\<open>size_t\<close>: a size field below the two headers wraps around,
  which the following \<^verbatim>\<open>assert\<close> catches.
\<close>

function parse_messages ::
    "'m sbe \<Rightarrow> ('m \<Rightarrow> 's \<Rightarrow> 's \<times> exn option) \<Rightarrow> bytes \<Rightarrow> 's \<Rightarrow> 's \<times> (exn + bool)" where
  "parse_messages sbe h message s =
     (if message = [] then (s, Inr True)
      else if length message < 2 then (s, Inl RuntimeError)
      else let message_size = le_u16 message; message = drop 2 message in
        (case header_decode sbe message of
           None \<Rightarrow> (s, Inl RuntimeError)
         | Some header \<Rightarrow>
             if length message < header_length sbe then (s, Inl UndefinedBehaviour)
             else let message = drop (header_length sbe) message;
                      len = unat (word_of_nat (unat message_size) - word_of_nat (2 + header_length sbe) :: u64)
               in if length message < len then (s, Inl AssertFailed)
                  else if templateId header \<in> set mdp_parsed then
                    (case h (body_decode sbe header (take len message)) s of
                       (s', None) \<Rightarrow> parse_messages sbe h (drop len message) s'
                     | (s', Some e) \<Rightarrow> (s', Inl e))
                  else if templateId header \<in> set mdp_dropped then
                    parse_messages sbe h (drop len message) s
                  else (s, Inr False)))"
  by pat_completeness auto
termination
  by (relation "measure (\<lambda>(sbe, h, message, s). length message)") auto

declare parse_messages.simps [simp del]

definition dispatch_packet ::
    "'m sbe \<Rightarrow> (frame \<Rightarrow> 'm \<Rightarrow> 's \<Rightarrow> 's \<times> exn option) \<Rightarrow> bytes \<Rightarrow> 's \<Rightarrow> 's \<times> (exn + bool)" where
  "dispatch_packet sbe handler buffer s =
     (case parse_frame buffer of
        None \<Rightarrow> (s, Inr False)
      | Some frame \<Rightarrow> parse_messages sbe (handler frame) (drop frame_size buffer) s)"

subsection \<open>The reference: delivery of an encoded list of messages\<close>

text \<open>The bytes of a message and of a packet, over an encoder of the SBE header.\<close>

definition encode_message :: "(sbe_header \<Rightarrow> bytes) \<Rightarrow> sbe_header \<times> bytes \<Rightarrow> bytes" where
  "encode_message enc m =
     le_bytes 2 (2 + length (enc (fst m)) + length (snd m)) @ enc (fst m) @ snd m"

definition encode_frame :: "frame \<Rightarrow> bytes" where
  "encode_frame f =
     le_bytes 4 (unat (sequence_number f)) @ le_bytes 8 (unat (word_of_int (sending_time f) :: u64))"

definition encode_packet :: "(sbe_header \<Rightarrow> bytes) \<Rightarrow> frame \<Rightarrow> (sbe_header \<times> bytes) list \<Rightarrow> bytes" where
  "encode_packet enc f ms = encode_frame f @ concat (map (encode_message enc) ms)"

text \<open>
  What is used of the generated header: it occupies a fixed number of bytes, and decoding
  reads back what was encoded, whatever follows.
\<close>

definition header_codec :: "'m sbe \<Rightarrow> (sbe_header \<Rightarrow> bytes) \<Rightarrow> bool" where
  "header_codec sbe enc \<longleftrightarrow>
     (\<forall>x rest. length (enc x) = header_length sbe \<and> header_decode sbe (enc x @ rest) = Some x)"

definition known_template :: "sbe_header \<times> bytes \<Rightarrow> bool" where
  "known_template m \<longleftrightarrow> templateId (fst m) \<in> set mdp_parsed \<union> set mdp_dropped"

definition decoded :: "'m sbe \<Rightarrow> (sbe_header \<times> bytes) list \<Rightarrow> 'm list" where
  "decoded sbe ms =
     map (\<lambda>m. body_decode sbe (fst m) (snd m)) (filter (\<lambda>m. templateId (fst m) \<in> set mdp_parsed) ms)"

lemma header_codecD:
  assumes "header_codec sbe enc"
  shows "length (enc x) = header_length sbe" and "header_decode sbe (enc x @ rest) = Some x"
  using assms by (auto simp: header_codec_def)

lemma le_u16_encode_message:
  assumes "2 + length (enc (fst m)) + length (snd m) < 2 ^ 16"
  shows "unat (le_u16 (encode_message enc m @ rest)) = 2 + length (enc (fst m)) + length (snd m)"
proof -
  let ?n = "2 + length (enc (fst m)) + length (snd m)"
  have w: "unat (word_of_nat ?n :: u16) = ?n"
    by (subst unat_of_nat) (use assms in simp)
  have "le_u16 (le_bytes 2 (unat (word_of_nat ?n :: u16)) @ (enc (fst m) @ snd m @ rest))
      = word_of_nat ?n"
    by (rule le_u16_le_bytes)
  then have "le_u16 (encode_message enc m @ rest) = word_of_nat ?n"
    unfolding w by (simp add: encode_message_def)
  with w show ?thesis by simp
qed

lemma u64_sub_add: "a < 2 ^ 32 \<Longrightarrow> b \<le> a \<Longrightarrow> unat (word_of_nat a - word_of_nat b :: u64) = a - b"
  by (simp add: unat_sub_if' unat_of_nat)

lemma parse_messages_step:
  assumes hc: "header_codec sbe enc"
    and sz: "2 + length (enc (fst m)) + length (snd m) < 2 ^ 16"
  shows "parse_messages sbe h (encode_message enc m @ rest) s =
    (if templateId (fst m) \<in> set mdp_parsed then
       (case h (body_decode sbe (fst m) (snd m)) s of
          (s', None) \<Rightarrow> parse_messages sbe h rest s' | (s', Some e) \<Rightarrow> (s', Inl e))
     else if templateId (fst m) \<in> set mdp_dropped then parse_messages sbe h rest s
     else (s, Inr False))"
proof -
  let ?b = "encode_message enc m @ rest"
  note H = header_codecD [OF hc]
  have l2: "\<not> length ?b < 2" by (simp add: encode_message_def)
  then have n0: "?b \<noteq> []" "\<not> length ?b < 2" by auto
  have d2: "drop 2 ?b = enc (fst m) @ snd m @ rest" by (simp add: encode_message_def)
  have hl: "length (enc (fst m) @ snd m @ rest) < header_length sbe \<longleftrightarrow> False"
    using H(1) [of "fst m"] by simp
  have dh: "drop (header_length sbe) (enc (fst m) @ snd m @ rest) = snd m @ rest"
    using H(1) [of "fst m"] by simp
  have len: "unat (word_of_nat (unat (le_u16 ?b)) - word_of_nat (2 + header_length sbe) :: u64)
      = length (snd m)"
    using sz H(1) [of "fst m"] by (subst le_u16_encode_message [where enc = enc and m = m, OF sz]) (simp add: u64_sub_add unat_of_nat)
  show ?thesis
    by (subst parse_messages.simps)
      (simp only: n0 d2 H(2) hl dh len Let_def if_False option.case,
        simp split: prod.split option.split)
qed

text \<open>
  Correctness of the loop against the reference: the messages are handed over in order, up to
  the first one with an unknown template id, and the result tells whether there was one.
\<close>

lemma parse_messages_encoded:
  assumes hc: "header_codec sbe enc"
    and sz: "\<And>m. m \<in> set ms \<Longrightarrow> 2 + length (enc (fst m)) + length (snd m) < 2 ^ 16"
  shows "parse_messages sbe h (concat (map (encode_message enc) ms)) s =
    (case deliver h (decoded sbe (takeWhile known_template ms)) s of
       (s', None) \<Rightarrow> (s', Inr (list_all known_template ms)) | (s', Some e) \<Rightarrow> (s', Inl e))"
  using sz
proof (induction ms arbitrary: s)
  case Nil
  then show ?case by (simp add: decoded_def parse_messages.simps [of sbe h "[]"])
next
  case (Cons m ms)
  note step = parse_messages_step [OF hc, of m, where rest = "concat (map (encode_message enc) ms)"]
  from Cons.prems have "2 + length (enc (fst m)) + length (snd m) < 2 ^ 16" by simp
  note step = step [OF this]
  from Cons.prems have "\<And>m. m \<in> set ms \<Longrightarrow> 2 + length (enc (fst m)) + length (snd m) < 2 ^ 16"
    by simp
  note IH = Cons.IH [OF this]
  show ?case
    by (simp add: step IH decoded_def known_template_def [of m] split: prod.split option.split)
qed

lemma parse_frame_encode:
  assumes "- (2 ^ 63) \<le> sending_time f" and "sending_time f < 2 ^ 63"
  shows "parse_frame (encode_frame f @ rest) = Some f"
proof -
  have "sint (word_of_int (sending_time f) :: u64) = sending_time f"
    using assms by (simp add: sint_sbintrunc' signed_take_bit_int_eq_self)
  then show ?thesis
    using le_u32_le_bytes [of "sequence_number f"]
      le_u64_le_bytes [of "word_of_int (sending_time f)" rest]
    by (simp add: parse_frame_def encode_frame_def frame_size_def)
qed

lemma length_encode_frame [simp]: "length (encode_frame f) = frame_size"
  by (simp add: encode_frame_def frame_size_def)

subsection \<open>Properties\<close>

text \<open>
  Claim C24. A packet encoded from a frame and a list of messages is dispatched exactly: the
  handler sees the decoded messages of the known, not dropped, templates once each and in
  order, up to the first message with an unknown template id or the first exception; the
  call returns true exactly when no template id was unknown.
\<close>

theorem dispatch_packet_roundtrip:
  assumes "header_codec sbe enc"
    and "\<And>m. m \<in> set ms \<Longrightarrow> 2 + length (enc (fst m)) + length (snd m) < 2 ^ 16"
    and "- (2 ^ 63) \<le> sending_time f" and "sending_time f < 2 ^ 63"
  shows "dispatch_packet sbe handler (encode_packet enc f ms) s =
    (case deliver (handler f) (decoded sbe (takeWhile known_template ms)) s of
       (s', None) \<Rightarrow> (s', Inr (list_all known_template ms))
     | (s', Some e) \<Rightarrow> (s', Inl e))"
proof -
  have "dispatch_packet sbe handler (encode_packet enc f ms) s =
      parse_messages sbe (handler f) (concat (map (encode_message enc) ms)) s"
    by (simp add: dispatch_packet_def encode_packet_def parse_frame_encode [OF assms(3,4)])
  then show ?thesis by (simp only: parse_messages_encoded [OF assms(1,2)])
qed

text \<open>
  A header of eight bytes as the exchange's schema has it (block length, template id, schema
  id, version), and a handler that records what it receives.
\<close>

definition sample_enc :: "sbe_header \<Rightarrow> bytes" where
  "sample_enc x = le_bytes 2 (unat (blockLength x)) @ le_bytes 2 (unat (templateId x)) @ le_bytes 2 1
     @ le_bytes 2 (unat (version x))"

definition sample_sbe :: "bytes sbe" where
  "sample_sbe = \<lparr>header_length = 8,
     header_decode = (\<lambda>bs. if length bs < 8 then None
        else Some \<lparr>blockLength = le_u16 bs, templateId = le_u16 (drop 2 bs), version = le_u16 (drop 6 bs)\<rparr>),
     body_decode = (\<lambda>x body. body)\<rparr>"

definition sample_handler :: "frame \<Rightarrow> bytes \<Rightarrow> bytes list \<Rightarrow> bytes list \<times> exn option" where
  "sample_handler f m s = (s @ [m], None)"

definition sample_frame :: frame where
  "sample_frame = \<lparr>sequence_number = 7, sending_time = 1000\<rparr>"

lemma sample_header_codec: "header_codec sample_sbe sample_enc"
proof -
  have "length (sample_enc x) = 8" for x by (simp add: sample_enc_def)
  moreover have "drop 2 (sample_enc x @ r) = le_bytes 2 (unat (templateId x)) @ le_bytes 2 1
      @ le_bytes 2 (unat (version x)) @ r" for x r by (simp add: sample_enc_def)
  moreover have "drop 6 (sample_enc x @ r) = le_bytes 2 (unat (version x)) @ r" for x r
    by (simp add: sample_enc_def)
  moreover have "le_u16 (sample_enc x @ r) = blockLength x" for x r
    by (simp add: sample_enc_def le_u16_le_bytes)
  ultimately show ?thesis
    by (simp add: header_codec_def sample_sbe_def le_u16_le_bytes)
qed

theorem dispatch_packet_roundtrip_witness:
  "dispatch_packet sample_sbe sample_handler
     (encode_packet sample_enc sample_frame
        [(\<lparr>blockLength = 0, templateId = 12, version = 9\<rparr>, []),
         (\<lparr>blockLength = 1, templateId = 59, version = 9\<rparr>, [1]),
         (\<lparr>blockLength = 2, templateId = 46, version = 9\<rparr>, [2, 3]),
         (\<lparr>blockLength = 0, templateId = 99, version = 9\<rparr>, [4])]) []
   = ([[], [2, 3]], Inr False)"
  by (subst dispatch_packet_roundtrip [OF sample_header_codec])
    (auto simp: sample_enc_def sample_frame_def sample_handler_def sample_sbe_def known_template_def
      decoded_def mdp_parsed_def mdp_dropped_def)

lemma parse_messages_no_UB:
  assumes "\<And>bs. length bs < header_length sbe \<Longrightarrow> header_decode sbe bs = None"
    and "\<And>m s. snd (h m s) \<noteq> Some UndefinedBehaviour"
  shows "snd (parse_messages sbe h message s) \<noteq> Inl UndefinedBehaviour"
proof (induction "length message" arbitrary: message s rule: less_induct)
  case less
  have rec: "snd (parse_messages sbe h (drop len (drop k (drop 2 message))) s') \<noteq> Inl UndefinedBehaviour"
    if "message \<noteq> []" for len k s'
    by (rule less) (use that in simp)
  have hno: "h m t \<noteq> (x, Some UndefinedBehaviour)" for m t x
    using assms(2) [of m t] by auto
  show ?case
    using assms(1) [of "drop 2 message"] rec
    by (subst parse_messages.simps) (auto simp: Let_def hno split: option.split prod.split)
qed

lemma parse_messages_invariant:
  assumes "\<And>m s. I s \<Longrightarrow> I (fst (h m s))" and "I s"
  shows "I (fst (parse_messages sbe h message s))"
  using assms(2)
proof (induction "length message" arbitrary: message s rule: less_induct)
  case less
  have rec: "I (fst (parse_messages sbe h (drop len (drop k (drop 2 message))) t))"
    if "message \<noteq> []" "I t" for len k t
    by (rule less.hyps) (use that in auto)
  have hI: "I t'" if "h m s = (t', e)" for m t' e
    using assms(1) [OF less.prems, of m] that by simp
  show ?case
    using less.prems rec hI
    by (subst parse_messages.simps) (auto simp: Let_def split: option.split prod.split)
qed

lemma dispatch_packet_invariant:
  assumes "\<And>f m s. I s \<Longrightarrow> I (fst (h f m s))" and "I s"
  shows "I (fst (dispatch_packet sbe h buffer s))"
  using assms by (simp add: dispatch_packet_def parse_messages_invariant split: option.split)

text \<open>An exception of a call comes from the loop itself or from the handler.\<close>

lemma parse_messages_exn:
  assumes "\<And>m s. I s \<Longrightarrow> I (fst (h m s))" and "I s"
    and "\<And>m s x. I s \<Longrightarrow> snd (h m s) = Some x \<Longrightarrow> x = RuntimeError \<or> x = AssertFailed \<or> x = UndefinedBehaviour"
    and "snd (parse_messages sbe h message s) = Inl e"
  shows "e = RuntimeError \<or> e = AssertFailed \<or> e = UndefinedBehaviour"
  using assms(2,4)
proof (induction "length message" arbitrary: message s rule: less_induct)
  case less
  have rec: "snd (parse_messages sbe h (drop len (drop k (drop 2 message))) t) = Inl e \<Longrightarrow>
      e = RuntimeError \<or> e = AssertFailed \<or> e = UndefinedBehaviour"
    if "message \<noteq> []" "I t" for len k t
    by (rule less.hyps) (use that in auto)
  have hI: "I t' \<and> (\<forall>x. y = Some x \<longrightarrow> x = RuntimeError \<or> x = AssertFailed \<or> x = UndefinedBehaviour)" if "h m s = (t', y)" for m t' y
    using assms(1) [OF less.prems(1), of m] assms(3) [OF less.prems(1), of m] that by simp
  show ?case
    using less.prems(2) rec less.prems(1)
    by (subst (asm) parse_messages.simps)
      (fastforce simp: Let_def dest: hI split: option.splits prod.splits if_splits)
qed

lemma dispatch_packet_exn:
  assumes "\<And>f m s. I s \<Longrightarrow> I (fst (h f m s)) \<and>
      (\<forall>x. snd (h f m s) = Some x \<longrightarrow> x = RuntimeError \<or> x = AssertFailed \<or> x = UndefinedBehaviour)" and "I s"
    and "snd (dispatch_packet sbe h buffer s) = Inl e"
  shows "e = RuntimeError \<or> e = AssertFailed \<or> e = UndefinedBehaviour"
proof (cases "parse_frame buffer")
  case None
  with assms(3) show ?thesis by (simp add: dispatch_packet_def)
next
  case (Some f)
  with assms(3) have "snd (parse_messages sbe (h f) (drop frame_size buffer) s) = Inl e"
    by (simp add: dispatch_packet_def)
  with parse_messages_exn [where I = I and h = "h f"] assms(1,2) show ?thesis by blast
qed



end
