(* ===== verification/MarketData.thy ===== *)
theory MarketData
  imports SecurityDefinitions MdpParser
begin

section \<open>What the market data feeds share\<close>

text \<open>
  The state of \<^verbatim>\<open>market_data/shared.hpp\<close>, the options, and the helpers of
  \<^verbatim>\<open>market_data/incremental.cpp\<close> that act on one security: publishing a book
  update through its sequencer, publishing a stale book, and checking the report sequence
  number. The book sequencers (\<^verbatim>\<open>market::mbp::Sequencer\<close>,
  \<^verbatim>\<open>market::mbo::Sequencer\<close>) are library code: an operation of a sequencer is a
  parameter that returns the callbacks it makes, its new state, and whether it left with
  \<^verbatim>\<open>BadState\<close>.
\<close>

datatype 'u seq_action = PublishUpdate 'u | PublishSnapshot 'u u32 u32 | RequestSnapshot

text \<open>
  \<open>PublishSnapshot u n l\<close>: the book, the sequence number passed to the callback, and the
  last sequence number of the sequencer at that moment. \<open>sq_recover\<close> is the snapshot
  operation with a publish callback that also applies the updates the sequencer has held.
\<close>

record ('u, 'q) sequencer =
  sq_init :: 'q
  sq_last_sequence :: "'q \<Rightarrow> u32"
  sq_snapshot :: "'u \<Rightarrow> u32 \<Rightarrow> bool \<Rightarrow> 'q \<Rightarrow> 'u seq_action list \<times> 'q \<times> bool"
  sq_incremental :: "'u \<Rightarrow> u32 \<Rightarrow> u32 \<Rightarrow> u32 \<Rightarrow> 'q \<Rightarrow> 'u seq_action list \<times> 'q \<times> bool"
  sq_recover :: "'u \<Rightarrow> u32 \<Rightarrow> bool \<Rightarrow> 'q \<Rightarrow> 'u seq_action list \<times> 'q \<times> bool"
  sq_clear :: "'q \<Rightarrow> 'q"

type_synonym mbp_book = "mbp_update list \<times> mbp_update list"
type_synonym mbo_book = "mbo_update list"

record ('p, 'o) md_env =
  enable_market_by_order :: bool
  mbp_to_mbo_clear_price_level :: bool
  filter_snapshot_from_incremental :: nat
  multicast_timeout :: nanoseconds
  discard_symbol :: "string \<Rightarrow> bool"
  mbp_seq :: "(mbp_book, 'p) sequencer"
  mbo_seq :: "(mbo_book, 'o) sequencer"

text \<open>
  The part of the shared state that outlives a call. The scratch vectors
  (\<^verbatim>\<open>mbp\<close>, \<^verbatim>\<open>mbo\<close>, \<^verbatim>\<open>trades\<close>, \<^verbatim>\<open>statistics\<close>,
  \<^verbatim>\<open>md_entries_\<close>) are cleared before every use and are local to the handlers.
\<close>

record ('p, 'o) shared =
  definitions :: "('p, 'o) security_definitions"
  published :: "event list"
  trade_summary :: "(int \<times> side \<times> double \<times> int \<times> u64 \<times> u32) list"
  security_ids :: "int list"
  orders :: "(u64 \<times> int) list"
  transact_time :: nanoseconds
  total_number_of_orders :: u64

subsection \<open>One security: publishing\<close>

text \<open>The state of a callback on a security: the security, the output, and what it accumulates.\<close>

type_synonym ('p, 'o, 'a) sec_state = "('p, 'o) security \<times> event list \<times> 'a"

definition make_info :: "u16 \<Rightarrow> ('p, 'o) security \<Rightarrow> nanoseconds \<Rightarrow> u32 \<Rightarrow> nanoseconds \<Rightarrow> update_info" where
  "make_info stream s exchange_time seq sending =
     \<lparr>ui_stream_id = stream, ui_exchange = exchange s, ui_symbol = symbol s,
      ui_exchange_time_utc = exchange_time, ui_exchange_sequence = seq, ui_sending_time_utc = sending\<rparr>"

text \<open>
  The callbacks of a sequencer: an update and a snapshot are published, a snapshot ends the
  wait for a recovery, and a request for a snapshot starts it at the current sequence number.
\<close>

fun on_action ::
    "('u \<Rightarrow> update_type \<Rightarrow> u32 \<Rightarrow> event) \<Rightarrow> u32 \<Rightarrow> 'u seq_action \<Rightarrow> u32 \<times> event list \<Rightarrow> u32 \<times> event list" where
  "on_action mk seq (PublishUpdate u) (resubscribe, out) = (resubscribe, out @ [mk u INCREMENTAL 0])"
| "on_action mk seq (PublishSnapshot u n l) (resubscribe, out) = (0, out @ [mk u SNAPSHOT l])"
| "on_action mk seq RequestSnapshot (resubscribe, out) = (seq, out)"

definition dispatch_market_by_price ::
    "('p, 'o) md_env \<Rightarrow> u16 \<Rightarrow> u32 \<Rightarrow> nanoseconds \<Rightarrow> nanoseconds \<Rightarrow> mbp_book \<Rightarrow> bool
     \<Rightarrow> ('p, 'o, 'a) sec_state \<Rightarrow> ('p, 'o, 'a) sec_state" where
  "dispatch_market_by_price env stream seq exchange_time sending book is_snapshot st =
     (case st of (s, out, a) \<Rightarrow>
       let last_exchange_sequence = sq_last_sequence (mbp_seq env) (mbp_sequencer s);
           mk = (\<lambda>b t _. EvMarketByPrice (make_info stream s exchange_time seq sending) (fst b) (snd b) t)
       in case (if is_snapshot then sq_snapshot (mbp_seq env) book seq True (mbp_sequencer s)
                else sq_incremental (mbp_seq env) book seq seq last_exchange_sequence (mbp_sequencer s)) of
            (actions, q, bad_state) \<Rightarrow>
              (case fold (on_action mk seq) actions (mbp_resubscribe s, out) of (resubscribe, out') \<Rightarrow>
                 if bad_state
                 then (s\<lparr>mbp_sequencer := sq_clear (mbp_seq env) q, mbp_resubscribe := seq\<rparr>, out', a)
                 else (s\<lparr>mbp_sequencer := q, mbp_resubscribe := resubscribe\<rparr>, out', a)))"

definition dispatch_market_by_order ::
    "('p, 'o) md_env \<Rightarrow> u16 \<Rightarrow> u32 \<Rightarrow> nanoseconds \<Rightarrow> nanoseconds \<Rightarrow> mbo_book \<Rightarrow> bool
     \<Rightarrow> ('p, 'o, 'a) sec_state \<Rightarrow> ('p, 'o, 'a) sec_state" where
  "dispatch_market_by_order env stream seq exchange_time sending book is_snapshot st =
     (case st of (s, out, a) \<Rightarrow>
       let last_exchange_sequence = sq_last_sequence (mbo_seq env) (mbo_sequencer s);
           mk = (\<lambda>b t _. EvMarketByOrder (make_info stream s exchange_time seq sending) b t)
       in case (if is_snapshot then sq_snapshot (mbo_seq env) book seq True (mbo_sequencer s)
                else sq_incremental (mbo_seq env) book seq seq last_exchange_sequence (mbo_sequencer s)) of
            (actions, q, bad_state) \<Rightarrow>
              (case fold (on_action mk seq) actions (mbo_resubscribe s, out) of (resubscribe, out') \<Rightarrow>
                 if bad_state
                 then (s\<lparr>mbo_sequencer := sq_clear (mbo_seq env) q, mbo_resubscribe := seq\<rparr>, out', a)
                 else (s\<lparr>mbo_sequencer := q, mbo_resubscribe := resubscribe\<rparr>, out', a)))"

definition dispatch_market_by_price_stale ::
    "u16 \<Rightarrow> u32 \<Rightarrow> nanoseconds \<Rightarrow> nanoseconds \<Rightarrow> ('p, 'o, 'a) sec_state \<Rightarrow> ('p, 'o, 'a) sec_state" where
  "dispatch_market_by_price_stale stream seq exchange_time sending st =
     (case st of (s, out, a) \<Rightarrow>
        (s, out @ [EvMarketByPrice (make_info stream s exchange_time seq sending) [] [] STALE], a))"

definition dispatch_market_by_order_stale ::
    "u16 \<Rightarrow> u32 \<Rightarrow> nanoseconds \<Rightarrow> nanoseconds \<Rightarrow> ('p, 'o, 'a) sec_state \<Rightarrow> ('p, 'o, 'a) sec_state" where
  "dispatch_market_by_order_stale stream seq exchange_time sending st =
     (case st of (s, out, a) \<Rightarrow>
        (s, out @ [EvMarketByOrder (make_info stream s exchange_time seq sending) [] STALE], a))"

definition clear_mbp :: "('p, 'o) md_env \<Rightarrow> u32 \<Rightarrow> ('p, 'o, 'a) sec_state \<Rightarrow> ('p, 'o, 'a) sec_state" where
  "clear_mbp env seq st =
     (case st of (s, x) \<Rightarrow>
        (s\<lparr>mbp_sequencer := sq_clear (mbp_seq env) (mbp_sequencer s), mbp_resubscribe := seq\<rparr>, x))"

definition clear_mbo :: "('p, 'o) md_env \<Rightarrow> u32 \<Rightarrow> ('p, 'o, 'a) sec_state \<Rightarrow> ('p, 'o, 'a) sec_state" where
  "clear_mbo env seq st =
     (case st of (s, x) \<Rightarrow>
        (s\<lparr>mbo_sequencer := sq_clear (mbo_seq env) (mbo_sequencer s), mbo_resubscribe := seq\<rparr>, x))"

definition check_report_sequence ::
    "('p, 'o) md_env \<Rightarrow> u16 \<Rightarrow> frame \<Rightarrow> u32 \<Rightarrow> ('p, 'o, 'a) sec_state \<Rightarrow> ('p, 'o, 'a) sec_state" where
  "check_report_sequence env stream frame n st =
     (case st of (s, out, a) \<Rightarrow>
       (case update_rpt_seq n s of (gap, s') \<Rightarrow>
          if \<not> gap then (s', out, a)
          else let seq = sequence_number frame; sending = sending_time frame;
                   st = (s', out, a);
                   st = clear_mbp env seq st;
                   st = dispatch_market_by_price_stale stream seq 0 sending st;
                   st = clear_mbo env seq st
               in dispatch_market_by_order_stale stream seq 0 sending st))"

subsection \<open>Following references to securities\<close>

text \<open>
  The handlers keep a pointer to the security they work on. A pointer is the identifier: the
  map never removes an entry, so following it is a lookup that includes discarded securities.
\<close>

definition visit ::
    "int \<Rightarrow> (('p, 'o, 'a) sec_state \<Rightarrow> ('p, 'o, 'a) sec_state)
     \<Rightarrow> ('p, 'o) security_definitions \<times> event list \<times> 'a \<Rightarrow> ('p, 'o) security_definitions \<times> event list \<times> 'a" where
  "visit security_id f dx = snd (get_security security_id f dx)"

definition follow ::
    "int \<Rightarrow> (('p, 'o, 'a) sec_state \<Rightarrow> ('p, 'o, 'a) sec_state)
     \<Rightarrow> ('p, 'o) security_definitions \<times> event list \<times> 'a \<Rightarrow> ('p, 'o) security_definitions \<times> event list \<times> 'a" where
  "follow security_id f dx = snd (get_security_incl_discard security_id f dx)"

text \<open>
  \<^verbatim>\<open>SecurityIterator\<close>: the entries of a message, with a callback for each entry of a
  known security and a dispatch whenever the security changes and at the end.
\<close>

type_synonym ('p, 'o, 'a) iterator = "int \<times> bool \<times> ('p, 'o) security_definitions \<times> event list \<times> 'a"

definition iterator_next ::
    "(('p, 'o, 'a) sec_state \<Rightarrow> ('p, 'o, 'a) sec_state) \<Rightarrow> int \<Rightarrow> ('p, 'o, 'a) iterator \<Rightarrow> ('p, 'o, 'a) iterator" where
  "iterator_next dispatch current it =
     (case it of (security_id, found, dx) \<Rightarrow>
        if current \<noteq> security_id then
          let dx = (if found then follow security_id dispatch dx else dx)
          in (current, find_security current (fst dx) \<noteq> None, dx)
        else it)"

definition iterator_step ::
    "('i \<Rightarrow> int) \<Rightarrow> (('p, 'o, 'a) sec_state \<Rightarrow> ('p, 'o, 'a) sec_state)
     \<Rightarrow> ('i \<Rightarrow> ('p, 'o, 'a) sec_state \<Rightarrow> ('p, 'o, 'a) sec_state) \<Rightarrow> 'i \<Rightarrow> ('p, 'o, 'a) iterator \<Rightarrow> ('p, 'o, 'a) iterator" where
  "iterator_step id_of dispatch callback item it =
     (case iterator_next dispatch (id_of item) it of (security_id, found, dx) \<Rightarrow>
        (security_id, found, if found then follow security_id (callback item) dx else dx))"

definition security_iterator ::
    "('i \<Rightarrow> int) \<Rightarrow> (('p, 'o, 'a) sec_state \<Rightarrow> ('p, 'o, 'a) sec_state)
     \<Rightarrow> ('i \<Rightarrow> ('p, 'o, 'a) sec_state \<Rightarrow> ('p, 'o, 'a) sec_state) \<Rightarrow> 'i list
     \<Rightarrow> ('p, 'o) security_definitions \<times> event list \<times> 'a \<Rightarrow> ('p, 'o) security_definitions \<times> event list \<times> 'a" where
  "security_iterator id_of dispatch callback items dx =
     (case fold (iterator_step id_of dispatch callback) items (0, False, dx) of
        (security_id, found, dx') \<Rightarrow> if found then follow security_id dispatch dx' else dx')"

subsection \<open>The contract of a callback on a security\<close>

definition identity :: "('p, 'o) security \<Rightarrow> string \<times> string \<times> double \<times> bool" where
  "identity s = (exchange s, symbol s, display_factor s, discard s)"

definition same_index :: "('p, 'o) security_definitions \<Rightarrow> ('p, 'o) security_definitions \<Rightarrow> bool" where
  "same_index d d' \<longleftrightarrow>
     (\<forall>i. map_option identity (securities d' i) = map_option identity (securities d i)) \<and>
     security_groups d' = security_groups d \<and> market_segments d' = market_segments d"

definition active_symbols :: "('p, 'o) security_definitions \<Rightarrow> string set" where
  "active_symbols d = {symbol s | i s. find_security i d = Some s}"

text \<open>
  A step that keeps the definitions' index and publishes only about symbols that are not
  discarded. The relation is a preorder, so it carries over to every composition.
\<close>

definition safe_step ::
    "('p, 'o) security_definitions \<times> event list \<times> 'a \<Rightarrow> ('p, 'o) security_definitions \<times> event list \<times> 'b \<Rightarrow> bool" where
  "safe_step x y \<longleftrightarrow>
     same_index (fst x) (fst y) \<and>
     (\<exists>es. fst (snd y) = fst (snd x) @ es \<and> (\<forall>e \<in> set es. event_symbol e \<in> Some ` active_symbols (fst x)))"

lemma same_index_refl [simp]: "same_index d d"
  by (simp add: same_index_def)

lemma same_index_trans: "same_index d d' \<Longrightarrow> same_index d' d'' \<Longrightarrow> same_index d d''"
  by (simp add: same_index_def)

lemma same_index_find:
  assumes "same_index d d'"
  shows "map_option identity (find_security i d') = map_option identity (find_security i d)"
proof -
  have "map_option identity (securities d' i) = map_option identity (securities d i)"
    using assms by (simp add: same_index_def)
  then show ?thesis
    by (cases "securities d i"; cases "securities d' i") (auto simp: find_security_def identity_def)
qed

lemma same_index_active: "same_index d d' \<Longrightarrow> active i d' \<longleftrightarrow> active i d"
  using same_index_find [of d d' i] by (metis active_def option.map_disc_iff)

lemma active_symbols_UN: "active_symbols d = (\<Union>i. symbol ` set_option (find_security i d))"
  by (fastforce simp: active_symbols_def)

lemma same_index_symbols:
  assumes "same_index d d'"
  shows "active_symbols d' = active_symbols d"
proof -
  have "symbol ` set_option (find_security i d') = symbol ` set_option (find_security i d)" for i
    using same_index_find [OF assms, of i]
    by (cases "find_security i d"; cases "find_security i d'") (auto simp: identity_def)
  then show ?thesis by (simp add: active_symbols_UN)
qed

lemma same_index_wf [wf_intros]: "same_index d d' \<Longrightarrow> wf_definitions d \<Longrightarrow> wf_definitions d'"
  using same_index_active [of d d'] by (auto simp: wf_definitions_def find_security_id_def same_index_def)

lemma safe_step_refl [simp]: "safe_step (d, out, a) (d, out, b)"
  by (simp add: safe_step_def)

lemma safe_step_trans: "safe_step x y \<Longrightarrow> safe_step y z \<Longrightarrow> safe_step x z"
  by (auto simp: safe_step_def same_index_symbols intro: same_index_trans)

lemma safe_step_acc: "safe_step x (d, out, a) \<Longrightarrow> safe_step x (d, out, b)"
  by (simp add: safe_step_def)

lemma safe_step_acc_left: "safe_step (d, out, a) x \<Longrightarrow> safe_step (d, out, b) x"
  by (simp add: safe_step_def)

lemma safe_step_fold:
  assumes "\<And>i x. i \<in> set is \<Longrightarrow> safe_step x (f i x)"
  shows "safe_step (d, out, a) (fold f is (d, out, a))"
  using assms
proof (induction "is" arbitrary: d out a)
  case Nil
  then show ?case by simp
next
  case (Cons i "is")
  obtain d' out' a' where f: "f i (d, out, a) = (d', out', a')" by (cases "f i (d, out, a)") auto
  have "safe_step (d, out, a) (d', out', a')" using Cons.prems [of i "(d, out, a)"] f by simp
  moreover have "safe_step (d', out', a') (fold f is (d', out', a'))"
    using Cons.prems by (intro Cons.IH) auto
  ultimately show ?case using f by (auto intro: safe_step_trans)
qed

text \<open>
  The interface between the handlers and what they do to one security: a callback keeps the
  identity of the security and publishes only about its own symbol.
\<close>

locale security_callback =
  fixes f :: "('p, 'o, 'a) sec_state \<Rightarrow> ('p, 'o, 'a) sec_state"
  assumes keeps_identity: "identity (fst (f (s, out, a))) = identity s"
    and own_events: "\<exists>es. fst (snd (f (s, out, a))) = out @ es \<and> (\<forall>e \<in> set es. event_symbol e = Some (symbol s))"
begin

lemma same_index_update:
  "securities d i = Some s \<Longrightarrow> same_index d (d\<lparr>securities := (securities d)(i \<mapsto> fst (f (s, out, a)))\<rparr>)"
  using keeps_identity by (simp add: same_index_def)

lemma update_safe:
  assumes "find_security i d = Some s"
  shows "safe_step (d, out, a) (d\<lparr>securities := (securities d)(i \<mapsto> fst (f (s, out, a)))\<rparr>, snd (f (s, out, a)))"
proof -
  have "securities d i = Some s" using assms by (auto simp: find_security_def split: option.splits if_splits)
  moreover have "symbol s \<in> active_symbols d" using assms by (auto simp: active_symbols_def)
  ultimately show ?thesis
    using own_events [of s out a] same_index_update [of d i s out a] by (auto simp: safe_step_def)
qed

lemma visit_safe: "safe_step (d, out, a) (visit i f (d, out, a))"
proof (cases "find_security i d")
  case (Some s)
  then show ?thesis
    using update_safe [OF Some, of out a]
    by (cases "f (s, out, a)") (simp add: visit_def get_security_def)
qed (simp add: visit_def get_security_def)

lemma follow_safe:
  assumes "active i d"
  shows "safe_step (d, out, a) (follow i f (d, out, a))"
proof -
  obtain s where s: "find_security i d = Some s" using assms by (auto simp: active_def)
  then have "securities d i = Some s" by (auto simp: find_security_def split: option.splits if_splits)
  then show ?thesis
    using update_safe [OF s, of out a]
    by (cases "f (s, out, a)") (simp add: follow_def get_security_incl_discard_def)
qed

end

text \<open>The iterator over callbacks that meet the contract is itself a safe step.\<close>

locale iterator_callbacks =
  fixes dispatch :: "('p, 'o, 'a) sec_state \<Rightarrow> ('p, 'o, 'a) sec_state"
    and callback :: "'i \<Rightarrow> ('p, 'o, 'a) sec_state \<Rightarrow> ('p, 'o, 'a) sec_state"
  assumes dispatch_ok: "security_callback dispatch"
    and callback_ok: "security_callback (callback item)"
begin

definition ok :: "('p, 'o) security_definitions \<times> event list \<times> 'a \<Rightarrow> ('p, 'o, 'a) iterator \<Rightarrow> bool" where
  "ok x it \<longleftrightarrow> (case it of (i, found, dx) \<Rightarrow> safe_step x dx \<and> (found \<longrightarrow> active i (fst dx)))"

lemma next_ok: "ok x it \<Longrightarrow> ok x (iterator_next dispatch i it)"
proof (cases it)
  case (fields j found d out a)
  assume "ok x it"
  then have st: "safe_step x (d, out, a)" and act: "found \<Longrightarrow> active j d" using fields by (auto simp: ok_def)
  have "safe_step x (follow j dispatch (d, out, a))" if found
    using security_callback.follow_safe [OF dispatch_ok act [OF that]] st by (rule safe_step_trans [rotated])
  then show ?thesis using fields st act
    by (auto simp: ok_def iterator_next_def Let_def active_def)
qed

lemma step_ok: "ok x it \<Longrightarrow> ok x (iterator_step id_of dispatch callback item it)"
proof -
  assume "ok x it"
  then have "ok x (iterator_next dispatch (id_of item) it)" by (rule next_ok)
  moreover obtain j found d out a where it: "iterator_next dispatch (id_of item) it = (j, found, d, out, a)"
    by (metis prod_cases5)
  ultimately have st: "safe_step x (d, out, a)" and act: "found \<Longrightarrow> active j d" by (auto simp: ok_def)
  have "ok x (j, found, follow j (callback item) (d, out, a))" if found
  proof -
    have f: "safe_step (d, out, a) (follow j (callback item) (d, out, a))"
      by (rule security_callback.follow_safe [OF callback_ok act [OF that]])
    then have "active j (fst (follow j (callback item) (d, out, a)))"
      using same_index_active act [OF that] by (auto simp: safe_step_def)
    with f st show ?thesis by (auto simp: ok_def intro: safe_step_trans)
  qed
  then show ?thesis using it st act by (auto simp: iterator_step_def ok_def)
qed

lemma iterator_safe: "safe_step (d, out, a) (security_iterator id_of dispatch callback items (d, out, a))"
proof -
  have "ok (d, out, a) (fold (iterator_step id_of dispatch callback) items it)" if "ok (d, out, a) it" for it
    using that by (induction items arbitrary: it) (simp_all add: step_ok)
  then have "ok (d, out, a) (fold (iterator_step id_of dispatch callback) items (0, False, d, out, a))"
    by (simp add: ok_def)
  moreover obtain j found d' out' a' where it:
      "fold (iterator_step id_of dispatch callback) items (0, False, d, out, a) = (j, found, d', out', a')"
    by (metis prod_cases5)
  ultimately have st: "safe_step (d, out, a) (d', out', a')" and act: "found \<Longrightarrow> active j d'"
    by (auto simp: ok_def)
  then show ?thesis
    using it security_callback.follow_safe [OF dispatch_ok, of j d' out' a']
    by (auto simp: security_iterator_def intro: safe_step_trans)
qed

end

subsection \<open>The callbacks meet the contract\<close>

lemma identity_update [simp]:
  "identity (s\<lparr>mbp_sequencer := q\<rparr>) = identity s" "identity (s\<lparr>mbp_resubscribe := n\<rparr>) = identity s"
  "identity (s\<lparr>mbo_sequencer := r\<rparr>) = identity s" "identity (s\<lparr>mbo_resubscribe := n\<rparr>) = identity s"
  "identity (s\<lparr>rpt_seq := n\<rparr>) = identity s" "identity (s\<lparr>no_chunks := n\<rparr>) = identity s"
  "identity (s\<lparr>last_chunk := n\<rparr>) = identity s" "identity (s\<lparr>mbo_orders := os\<rparr>) = identity s"
  by (simp_all add: identity_def)

lemma identity_symbol: "identity s = identity t \<Longrightarrow> symbol s = symbol t"
  by (simp add: identity_def)

lemma identity_discard: "identity s = identity t \<Longrightarrow> discard s = discard t"
  by (simp add: identity_def)

lemma make_info_symbol [simp]: "ui_symbol (make_info stream s t n u) = symbol s"
  by (simp add: make_info_def)

lemma security_callback_id: "security_callback (\<lambda>st. st)"
  by unfold_locales simp_all

lemma security_callback_comp:
  assumes f: "security_callback f" and g: "security_callback g"
  shows "security_callback (\<lambda>st. g (f st))"
proof
  fix s out a
  obtain s' out' a' where f': "f (s, out, a) = (s', out', a')" by (cases "f (s, out, a)") auto
  have i: "identity s' = identity s" using security_callback.keeps_identity [OF f, of s out a] f' by simp
  then show "identity (fst (g (f (s, out, a)))) = identity s"
    using security_callback.keeps_identity [OF g, of s' out' a'] f' by simp
  show "\<exists>es. fst (snd (g (f (s, out, a)))) = out @ es \<and> (\<forall>e \<in> set es. event_symbol e = Some (symbol s))"
    using security_callback.own_events [OF f, of s out a] security_callback.own_events [OF g, of s' out' a']
      f' identity_symbol [OF i] by auto
qed

lemma security_callback_if:
  "security_callback f \<Longrightarrow> security_callback g \<Longrightarrow>
     security_callback (\<lambda>st. if P (fst st) (snd (snd st)) then f st else g st)"
  by (auto simp: security_callback_def)

lemma on_action_events:
  assumes "\<And>u t l. event_symbol (mk u t l) = Some n"
  shows "\<exists>es. snd (fold (on_action mk seq) acts (r, out)) = out @ es \<and> (\<forall>e \<in> set es. event_symbol e = Some n)"
proof (induction acts arbitrary: r out)
  case Nil
  then show ?case by simp
next
  case (Cons act acts)
  obtain r' out' where o: "on_action mk seq act (r, out) = (r', out')" by (cases "on_action mk seq act (r, out)")
  then have "\<exists>es. out' = out @ es \<and> (\<forall>e \<in> set es. event_symbol e = Some n)"
    using assms by (cases act) auto
  with Cons.IH [of r' out'] o show ?case by auto
qed

lemma dispatch_market_by_price_callback:
  fixes env :: "('p, 'o) md_env"
  shows "security_callback (dispatch_market_by_price env stream seq t sending book snap)"
proof
  fix s :: "('p, 'o) security" and out a
  let ?mk = "\<lambda>b u _. EvMarketByPrice (make_info stream s t seq sending) (fst b) (snd b) u"
  show "identity (fst (dispatch_market_by_price env stream seq t sending book snap (s, out, a))) = identity s"
    by (simp add: dispatch_market_by_price_def split: prod.split)
  show "\<exists>es. fst (snd (dispatch_market_by_price env stream seq t sending book snap (s, out, a))) = out @ es
      \<and> (\<forall>e \<in> set es. event_symbol e = Some (symbol s))"
  proof -
    obtain acts q bad where act: "(if snap then sq_snapshot (mbp_seq env) book seq True (mbp_sequencer s)
        else sq_incremental (mbp_seq env) book seq seq (sq_last_sequence (mbp_seq env) (mbp_sequencer s)) (mbp_sequencer s))
        = (acts, q, bad)" by (metis prod_cases3)
    show ?thesis
      using on_action_events [of ?mk "symbol s" seq acts "mbp_resubscribe s" out]
      unfolding dispatch_market_by_price_def Let_def prod.case act
      by (cases "fold (on_action ?mk seq) acts (mbp_resubscribe s, out)") simp
  qed
qed

lemma dispatch_market_by_order_callback:
  fixes env :: "('p, 'o) md_env"
  shows "security_callback (dispatch_market_by_order env stream seq t sending book snap)"
proof
  fix s :: "('p, 'o) security" and out a
  let ?mk = "\<lambda>b u _. EvMarketByOrder (make_info stream s t seq sending) b u"
  show "identity (fst (dispatch_market_by_order env stream seq t sending book snap (s, out, a))) = identity s"
    by (simp add: dispatch_market_by_order_def split: prod.split)
  show "\<exists>es. fst (snd (dispatch_market_by_order env stream seq t sending book snap (s, out, a))) = out @ es
      \<and> (\<forall>e \<in> set es. event_symbol e = Some (symbol s))"
  proof -
    obtain acts q bad where act: "(if snap then sq_snapshot (mbo_seq env) book seq True (mbo_sequencer s)
        else sq_incremental (mbo_seq env) book seq seq (sq_last_sequence (mbo_seq env) (mbo_sequencer s)) (mbo_sequencer s))
        = (acts, q, bad)" by (metis prod_cases3)
    show ?thesis
      using on_action_events [of ?mk "symbol s" seq acts "mbo_resubscribe s" out]
      unfolding dispatch_market_by_order_def Let_def prod.case act
      by (cases "fold (on_action ?mk seq) acts (mbo_resubscribe s, out)") simp
  qed
qed

interpretation mbp: security_callback "dispatch_market_by_price env stream seq t sending book snap"
  for env stream seq t sending book snap
  by (rule dispatch_market_by_price_callback)

interpretation mbo: security_callback "dispatch_market_by_order env stream seq t sending book snap"
  for env stream seq t sending book snap
  by (rule dispatch_market_by_order_callback)

lemma check_report_sequence_eq:
  "check_report_sequence env stream frame n (s, out, a) =
     (if n = 0 then (s, out, a)
      else if n = rpt_seq s + 1 then (s\<lparr>rpt_seq := n\<rparr>, out, a)
      else (s\<lparr>rpt_seq := n,
              mbp_sequencer := sq_clear (mbp_seq env) (mbp_sequencer s), mbp_resubscribe := sequence_number frame,
              mbo_sequencer := sq_clear (mbo_seq env) (mbo_sequencer s), mbo_resubscribe := sequence_number frame\<rparr>,
            out @ [EvMarketByPrice (make_info stream s 0 (sequence_number frame) (sending_time frame)) [] [] STALE,
                   EvMarketByOrder (make_info stream s 0 (sequence_number frame) (sending_time frame)) [] STALE], a))"
  by (simp add: check_report_sequence_def update_rpt_seq_def clear_mbp_def clear_mbo_def
      dispatch_market_by_price_stale_def dispatch_market_by_order_stale_def make_info_def Let_def)

interpretation crs: security_callback "check_report_sequence env stream frame n" for env stream frame n
  by unfold_locales (simp_all add: check_report_sequence_eq)

text \<open>
  A gap in the report sequence of a security makes both of its books stale, once:
  exactly the two stale updates are published, both sequencers are cleared and both books
  wait for a recovery from the sequence number of the packet on. Without a gap nothing is
  published and neither book is touched.
\<close>

theorem check_report_sequence_stale:
  "check_report_sequence env stream frame n (s, out, a) = (s', out', a') \<longleftrightarrow>
     a' = a \<and> rpt_seq s' = (if n = 0 then rpt_seq s else n) \<and> identity s' = identity s \<and>
     no_chunks s' = no_chunks s \<and> last_chunk s' = last_chunk s \<and> mbo_orders s' = mbo_orders s \<and>
     (let gap = (n \<noteq> 0 \<and> n \<noteq> rpt_seq s + 1); seq = sequence_number frame;
          info = make_info stream s 0 seq (sending_time frame) in
      out' = out @ (if gap then [EvMarketByPrice info [] [] STALE, EvMarketByOrder info [] STALE] else []) \<and>
      mbp_resubscribe s' = (if gap then seq else mbp_resubscribe s) \<and>
      mbo_resubscribe s' = (if gap then seq else mbo_resubscribe s) \<and>
      mbp_sequencer s' = (if gap then sq_clear (mbp_seq env) (mbp_sequencer s) else mbp_sequencer s) \<and>
      mbo_sequencer s' = (if gap then sq_clear (mbo_seq env) (mbo_sequencer s) else mbo_sequencer s))"
  by (cases s; cases s') (auto simp: check_report_sequence_eq identity_def Let_def)

end
