(* ===== verification/InstrumentDefinition.thy ===== *)
theory InstrumentDefinition
  imports MarketData
begin

section \<open>Instrument definitions\<close>

text \<open>
  \<^verbatim>\<open>protocol/mdp/md_instrument_definition.cpp\<close>: reference data and market status from
  the six kinds of definition messages, and \<^verbatim>\<open>market_data/instrument_definition.cpp\<close>:
  the feed that creates the securities. The incremental feed shares the helper that creates a
  security (\<^verbatim>\<open>market_data/incremental.cpp\<close>).
\<close>

definition create_reference_data ::
    "u16 \<Rightarrow> ('p, 'o) security \<Rightarrow> instrument_definition \<Rightarrow> reference_data" where
  "create_reference_data stream s v =
     (let raw = map_price (id_min_price_increment v);
          contract_multiplier = nv (id_contract_multiplier v)
      in \<lparr>rd_stream_id = stream, rd_exchange = exchange s, rd_symbol = symbol s,
          rd_security_type = (if id_kind v = Option55 then OPTION else FUTURES),
          rd_external_security_id = id_security_id v,
          rd_quote_currency = get_string_view (id_currency v),
          rd_settlement_currency = (if id_kind v = Spread56 then [] else get_string_view (id_settl_currency v)),
          rd_tick_size = (if id_kind v = Future54 \<or> id_kind v = Option55 then dmul raw (display_factor s) else raw),
          rd_multiplier = (if id_kind v = Future54 \<and> contract_multiplier \<noteq> 0 then double_of_int contract_multiplier else NaN),
          rd_min_trade_vol = double_of_int (id_min_trade_vol v),
          rd_max_trade_vol = double_of_int (id_max_trade_vol v),
          rd_strike_currency = (if id_kind v = Option55 then get_string_view (id_strike_currency v) else []),
          rd_discard = discard s\<rparr>)"

definition create_market_status ::
    "u16 \<Rightarrow> ('p, 'o) security \<Rightarrow> instrument_definition \<Rightarrow> event" where
  "create_market_status stream s v =
     EvMarketStatus (make_info stream s 0 0 0) (map_trading_status (id_trading_status v))"

definition publish_definition ::
    "u16 \<Rightarrow> instrument_definition \<Rightarrow> ('p, 'o) security \<Rightarrow> event list \<Rightarrow> event list" where
  "publish_definition stream v s out =
     (let out = out @ [EvReferenceData (create_reference_data stream s v)]
      in if discard s then out else out @ [create_market_status stream s v])"

text \<open>The helper of both feeds: a definition of a security that is known is ignored.\<close>

definition create_security_from ::
    "('p, 'o) md_env \<Rightarrow> u16 \<Rightarrow> instrument_definition \<Rightarrow> ('p, 'o, 'z) shared_scheme \<Rightarrow> ('p, 'o, 'z) shared_scheme" where
  "create_security_from env stream v sh =
     (let security_id = id_security_id v in
      if has_security security_id (definitions sh) then sh
      else let name = get_string_view (id_symbol v);
               s = make_security (sq_init (mbp_seq env)) (sq_init (mbo_seq env))
                     (get_string_view (id_security_exchange v)) name (map_price9 (id_display_factor v))
                     (discard_symbol env name)
           in sh\<lparr>definitions := create_security (get_string_view (id_security_group v)) (id_market_segment_id v)
                    security_id s (definitions sh),
                 published := publish_definition stream v s (published sh)\<rparr>)"

text \<open>The feed: heartbeats are timed, definitions create securities, everything else is logged.\<close>

definition external_latency ::
    "u16 \<Rightarrow> nanoseconds \<Rightarrow> frame \<Rightarrow> ('p, 'o, 'z) shared_scheme \<Rightarrow> ('p, 'o, 'z) shared_scheme" where
  "external_latency stream origin frame sh =
     sh\<lparr>published := published sh @ [EvExternalLatency stream (origin - sending_time frame)]\<rparr>"

fun instrument_definition_handler ::
    "('p, 'o) md_env \<Rightarrow> u16 \<Rightarrow> nanoseconds \<Rightarrow> frame \<Rightarrow> mdp_message \<Rightarrow> ('p, 'o, 'z) shared_scheme
     \<Rightarrow> ('p, 'o, 'z) shared_scheme \<times> exn option" where
  "instrument_definition_handler env stream origin frame AdminHeartbeat12 sh = (external_latency stream origin frame sh, None)"
| "instrument_definition_handler env stream origin frame (MDInstrumentDefinition v) sh = (create_security_from env stream v sh, None)"
| "instrument_definition_handler env stream origin frame _ sh = (sh, None)"

text \<open>
  The feed publishes its status with the first packet: \<^verbatim>\<open>utils::update\<close> assigns and
  tells whether the value changed.
\<close>

record feed =
  feed_priority :: priority
  feed_stream_id :: u16
  feed_name :: string
  feed_connection_status :: connection_status
  last_update_time :: nanoseconds

definition publish_stream_status ::
    "support_type set \<Rightarrow> connection_status \<Rightarrow> feed \<Rightarrow> event list \<Rightarrow> feed \<times> event list" where
  "publish_stream_status supports status fd out =
     (if feed_connection_status fd = status then (fd, out)
      else (fd\<lparr>feed_connection_status := status\<rparr>,
            out @ [EvStreamStatus (feed_stream_id fd) supports (feed_priority fd) status (feed_name fd)]))"

definition on_timer :: "('p, 'o) md_env \<Rightarrow> nanoseconds \<Rightarrow> feed \<Rightarrow> feed" where
  "on_timer env now fd =
     (if last_update_time fd \<noteq> 0 \<and> last_update_time fd + multicast_timeout env < now
      then fd\<lparr>last_update_time := 0\<rparr> else fd)"

definition instrument_definition_dispatch ::
    "('p, 'o) md_env \<Rightarrow> mdp_message sbe \<Rightarrow> nanoseconds \<Rightarrow> bytes \<Rightarrow> feed \<times> ('p, 'o, 'z) shared_scheme
     \<Rightarrow> (feed \<times> ('p, 'o, 'z) shared_scheme) \<times> (exn + bool)" where
  "instrument_definition_dispatch env sbe origin payload st =
     (case st of (fd, sh) \<Rightarrow>
       (case publish_stream_status {REFERENCE_DATA, MARKET_STATUS} READY fd (published sh) of (fd', out) \<Rightarrow>
          (case dispatch_packet sbe (instrument_definition_handler env (feed_stream_id fd) origin) payload
                 (sh\<lparr>published := out\<rparr>) of (sh', r) \<Rightarrow> ((fd', sh'), r))))"

subsection \<open>Properties\<close>

lemma create_security_from_wf [wf_intros]:
  "wf_definitions (definitions sh) \<Longrightarrow> wf_definitions (definitions (create_security_from env stream v sh))"
  by (simp add: create_security_from_def Let_def create_security_wf)

lemma create_security_from_known:
  "has_security (id_security_id v) (definitions sh) \<Longrightarrow> create_security_from env stream v sh = sh"
  by (simp add: create_security_from_def)


text \<open>
  No packet on the instrument definition feed, however malformed, can break the
  index of the security definitions, and none makes a handler throw: an exception comes from
  the message loop only.
\<close>

lemma instrument_definition_dispatch_wf:
  assumes "wf_definitions (definitions sh)"
    and "instrument_definition_dispatch env sbe origin payload (fd, sh) = ((fd', sh'), r)"
  shows "wf_definitions (definitions sh') \<and>
    (\<forall>e. r = Inl e \<longrightarrow> e = RuntimeError \<or> e = AssertFailed \<or> e = UndefinedBehaviour)"
proof -
  let ?h = "instrument_definition_handler env (feed_stream_id fd) origin"
  let ?sh = "sh\<lparr>published := snd (publish_stream_status {REFERENCE_DATA, MARKET_STATUS} READY fd (published sh))\<rparr>"
  have run: "dispatch_packet sbe ?h payload ?sh = (sh', r)"
    using assms(2) by (auto simp: instrument_definition_dispatch_def split: prod.splits)
  have step: "wf_definitions (definitions (fst (?h f m t))) \<and> snd (?h f m t) = None"
    if "wf_definitions (definitions t)" for f m t
    using that by (cases m) (auto simp: external_latency_def intro: wf_intros)
  have "wf_definitions (definitions (fst (dispatch_packet sbe ?h payload ?sh)))"
    by (rule dispatch_packet_invariant [where I = "\<lambda>t. wf_definitions (definitions t)"])
      (use assms(1) step in auto)
  moreover have "e = RuntimeError \<or> e = AssertFailed \<or> e = UndefinedBehaviour" if "r = Inl e" for e
    by (rule dispatch_packet_exn [where I = "\<lambda>t. wf_definitions (definitions t)" and h = ?h and s = ?sh and sbe = sbe and buffer = payload])
      (use run that assms(1) step in auto)
  ultimately show ?thesis using run by simp
qed

text \<open>Concrete inputs: sequencers that publish everything, and one definition of a future.\<close>

definition plain_sequencer :: "('u, u32) sequencer" where
  "plain_sequencer = \<lparr>sq_init = 0, sq_last_sequence = (\<lambda>q. q),
     sq_snapshot = (\<lambda>u n force q. ([PublishSnapshot u n n], n, False)),
     sq_incremental = (\<lambda>u n m l q. ([PublishUpdate u], n, False)),
     sq_recover = (\<lambda>u n force q. ([PublishSnapshot u n n], n, False)),
     sq_clear = (\<lambda>q. 0)\<rparr>"

definition sample_env :: "(u32, u32) md_env" where
  "sample_env = \<lparr>enable_market_by_order = True, mbp_to_mbo_clear_price_level = False,
     filter_snapshot_from_incremental = 0, multicast_timeout = 10, discard_symbol = (\<lambda>name. name = ''X''),
     mbp_seq = plain_sequencer, mbo_seq = plain_sequencer\<rparr>"

definition empty_shared :: "('p, 'o) shared" where
  "empty_shared = \<lparr>definitions = empty_definitions, published = [], trade_summary = [], security_ids = [],
     orders = [], transact_time = 0, total_number_of_orders = 0\<rparr>"

definition sample_price :: "int \<Rightarrow> price" where
  "sample_price m = PRICE9 \<lparr>mantissa = m, exponent = - 9, mantissaNullValue = 0\<rparr>"

definition sample_future :: instrument_definition where
  "sample_future = \<lparr>id_kind = Future54, id_security_id = 118, id_market_segment_id = 64,
     id_security_exchange = ''XCME'', id_symbol = ''ESU4'', id_security_group = ''ES'',
     id_display_factor = \<lparr>mantissa = 1000000000, exponent = - 9, mantissaNullValue = 0\<rparr>,
     id_currency = ''USD'', id_settl_currency = ''USD'', id_strike_currency = [],
     id_min_price_increment = sample_price 250000000, id_contract_multiplier = (0, 0), id_min_trade_vol = 1,
     id_max_trade_vol = 3000, id_trading_status = STS_ReadyToTrade\<rparr>"


definition sample_mdp_sbe :: "mdp_message sbe" where
  "sample_mdp_sbe = \<lparr>header_length = 8,
     header_decode = (\<lambda>bs. if length bs < 8 then None
        else Some \<lparr>blockLength = le_u16 bs, templateId = le_u16 (drop 2 bs), version = le_u16 (drop 6 bs)\<rparr>),
     body_decode = (\<lambda>x body. MDInstrumentDefinition sample_future)\<rparr>"

definition sample_feed :: feed where
  "sample_feed = \<lparr>feed_priority = PRIMARY, feed_stream_id = 1, feed_name = ''310IA'',
     feed_connection_status = DISCONNECTED, last_update_time = 0\<rparr>"

end
