(* ===== verification/TradeSummary.thy ===== *)
theory TradeSummary
  imports InstrumentDefinition
begin

section \<open>Trade summaries\<close>

text \<open>
  \<^verbatim>\<open>Incremental::dispatch_trade_summary\<close> in \<^verbatim>\<open>market_data/incremental.cpp\<close>. A
  trade summary lists trades (each with a number of orders) and then the orders of all the
  trades. A long one arrives in fragments with the same transaction time: trades and orders
  are collected until there are as many orders as the trades have announced, and then the
  orders are handed out to the trades by position. The positions are \<^verbatim>\<open>size_t\<close> and the
  vector is indexed without a check: an index out of range is undefined behaviour.
\<close>

type_synonym summary = "int \<times> side \<times> double \<times> int \<times> u64 \<times> u32"

definition summary_orders :: "summary \<Rightarrow> u64" where
  "summary_orders e = (case e of (i, a, p, q, n, t) \<Rightarrow> n)"

definition to_i32 :: "int \<Rightarrow> int" where
  "to_i32 v = sint (word_of_int v :: u32)"

definition clear_state :: "('p, 'o, 'z) shared_scheme \<Rightarrow> ('p, 'o, 'z) shared_scheme" where
  "clear_state sh = sh\<lparr>security_ids := [], trade_summary := [], orders := [], total_number_of_orders := 0\<rparr>"

definition insert_security_id :: "int \<Rightarrow> int list \<Rightarrow> int list" where
  "insert_security_id i ids = (if i \<in> set ids then ids else ids @ [i])"

text \<open>Running a function on the definitions, the output and a scratch value.\<close>

definition run_defs ::
    "(('p, 'o) security_definitions \<times> event list \<times> 'a \<Rightarrow> ('p, 'o) security_definitions \<times> event list \<times> 'a)
     \<Rightarrow> 'a \<Rightarrow> ('p, 'o, 'z) shared_scheme \<Rightarrow> ('p, 'o, 'z) shared_scheme \<times> 'a" where
  "run_defs f a sh =
     (case f (definitions sh, published sh, a) of (d, out, a') \<Rightarrow> (sh\<lparr>definitions := d, published := out\<rparr>, a'))"

definition to_summary :: "trade_entry \<Rightarrow> summary" where
  "to_summary item =
     (te_security_id item, map_aggressor_side (te_aggressor_side item), map_price (te_px item),
      to_i32 (te_size item), word_of_int (te_number_of_orders item), word_of_int (nv (te_trade_id item)))"

definition to_order :: "int \<times> int \<Rightarrow> u64 \<times> int" where
  "to_order x = (word_of_int (fst x), to_i32 (snd x))"

definition trade_entry_step ::
    "('p, 'o) md_env \<Rightarrow> u16 \<Rightarrow> frame \<Rightarrow> trade_entry \<Rightarrow> ('p, 'o, 'z) shared_scheme \<Rightarrow> ('p, 'o, 'z) shared_scheme" where
  "trade_entry_step env stream frame item sh =
     (let security_id = te_security_id item;
          sh = sh\<lparr>security_ids := insert_security_id security_id (security_ids sh),
                  trade_summary := trade_summary sh @ [to_summary item],
                  total_number_of_orders := total_number_of_orders sh + word_of_int (te_number_of_orders item)\<rparr>
      in fst (run_defs (visit security_id (check_report_sequence env stream frame (te_rpt_seq item))) () sh))"

definition order_at :: "(u64 \<times> int) list \<Rightarrow> u64 \<Rightarrow> (u64 \<times> int) option" where
  "order_at os i = (if unat i < length os then Some (os ! unat i) else None)"

definition makers :: "(u64 \<times> int) list \<Rightarrow> u64 \<Rightarrow> nat \<Rightarrow> u64 \<Rightarrow> (u64 \<times> int) list option" where
  "makers os offset k n = those (map (\<lambda>j. order_at os (offset + word_of_nat j)) [k..<unat n])"

fun invert_side :: "side \<Rightarrow> side" where
  "invert_side BUY = SELL"
| "invert_side SELL = BUY"
| "invert_side Side_UNDEFINED = Side_UNDEFINED"

definition mbo_of_trade ::
    "(u64 \<times> int) list \<Rightarrow> int \<Rightarrow> double \<Rightarrow> u64 \<Rightarrow> summary \<Rightarrow> mbo_update list option" where
  "mbo_of_trade os security_id factor offset e =
     (case e of (i, aggressor, price, entry_size, n, trade_id) \<Rightarrow>
        let mk = (\<lambda>sd (oid, last_qty). \<lparr>mbo_price = dmul price factor, mbo_quantity = double_of_int last_qty,
              mbo_priority = 0, mbo_order_id = show_nat (unat oid), mbo_side = sd, mbo_action = TRADE\<rparr>)
        in if security_id \<noteq> i then Some []
           else if aggressor \<noteq> Side_UNDEFINED then
             (case order_at os offset of
                None \<Rightarrow> None
              | Some (oid, last_qty) \<Rightarrow>
                  map_option (map (mk (if last_qty = entry_size then invert_side aggressor else aggressor))) (makers os offset 1 n))
           else map_option (map (mk aggressor)) (makers os offset 0 n))"

definition trades_of_trade ::
    "(u64 \<times> int) list \<Rightarrow> int \<Rightarrow> double \<Rightarrow> u64 \<Rightarrow> summary \<Rightarrow> trade list option" where
  "trades_of_trade os security_id factor offset e =
     (case e of (i, aggressor, price, entry_size, n, trade_id) \<Rightarrow>
        let mk = (\<lambda>taker maker last_qty. \<lparr>tr_side = aggressor, tr_price = dmul price factor,
              tr_quantity = double_of_int last_qty, tr_trade_id = show_nat (unat trade_id),
              tr_taker_order_id = taker, tr_maker_order_id = maker\<rparr>);
            with_makers = (\<lambda>taker k. map_option (map (\<lambda>(oid, last_qty). mk taker (show_nat (unat oid)) last_qty)) (makers os offset k n))
        in if security_id \<noteq> i then Some []
           else if aggressor \<noteq> Side_UNDEFINED then
             (case order_at os offset of
                None \<Rightarrow> None
              | Some (oid, last_qty) \<Rightarrow>
                  if last_qty = entry_size then
                    map_option ((@) (if n = 1 then [mk (show_nat (unat oid)) [] last_qty] else []))
                      (with_makers (show_nat (unat oid)) 1)
                  else map_option ((@) [mk (show_nat (unat oid)) [] last_qty]) (with_makers [] 1))
           else with_makers [] 0)"

text \<open>The loop over the trades, with the running offset into the orders.\<close>

fun summary_walk :: "(u64 \<Rightarrow> summary \<Rightarrow> 'x list option) \<Rightarrow> u64 \<Rightarrow> summary list \<Rightarrow> 'x list option" where
  "summary_walk f offset [] = Some []"
| "summary_walk f offset (e # es) =
     (case f offset e of
        None \<Rightarrow> None
      | Some xs \<Rightarrow> map_option ((@) xs) (summary_walk f (offset + summary_orders e) es))"

definition publish_trade_orders ::
    "('p, 'o) md_env \<Rightarrow> u16 \<Rightarrow> frame \<Rightarrow> nanoseconds \<Rightarrow> int \<Rightarrow> ('p, 'o, 'z) shared_scheme
     \<Rightarrow> ('p, 'o, 'z) shared_scheme \<times> exn option" where
  "publish_trade_orders env stream frame t security_id sh =
     (case find_security security_id (definitions sh) of
        None \<Rightarrow> (sh, None)
      | Some s \<Rightarrow>
          (case summary_walk (mbo_of_trade (orders sh) security_id (display_factor s)) 0 (trade_summary sh) of
             None \<Rightarrow> (sh, Some UndefinedBehaviour)
           | Some os \<Rightarrow>
               if os = [] then (sh, None)
               else (fst (run_defs (visit security_id
                       (dispatch_market_by_order env stream (sequence_number frame) t (sending_time frame) os False)) () sh), None)))"

definition publish_trades ::
    "u16 \<Rightarrow> frame \<Rightarrow> nanoseconds \<Rightarrow> int \<Rightarrow> ('p, 'o, 'z) shared_scheme \<Rightarrow> ('p, 'o, 'z) shared_scheme \<times> exn option" where
  "publish_trades stream frame t security_id sh =
     (case find_security security_id (definitions sh) of
        None \<Rightarrow> (sh, None)
      | Some s \<Rightarrow>
          (case summary_walk (trades_of_trade (orders sh) security_id (display_factor s)) 0 (trade_summary sh) of
             None \<Rightarrow> (sh, Some UndefinedBehaviour)
           | Some ts \<Rightarrow>
               if ts = [] then (sh, None)
               else (sh\<lparr>published := published sh @
                       [EvTradeSummary (make_info stream s t (sequence_number frame) (sending_time frame)) ts]\<rparr>, None)))"

text \<open>The two halves of the handler: collect the fragment, then publish when it is complete.\<close>

definition collect_fragment ::
    "('p, 'o) md_env \<Rightarrow> u16 \<Rightarrow> frame \<Rightarrow> trade_summary_48 \<Rightarrow> ('p, 'o, 'z) shared_scheme \<Rightarrow> ('p, 'o, 'z) shared_scheme" where
  "collect_fragment env stream frame v sh =
     (let t = t48_transact_time v;
          sh = (if t = transact_time sh then sh else clear_state (sh\<lparr>transact_time := t\<rparr>));
          sh = fold (trade_entry_step env stream frame) (t48_md_entries v) sh
      in sh\<lparr>orders := orders sh @ map to_order (t48_order_entries v)\<rparr>)"

definition publish_summary ::
    "('p, 'o) md_env \<Rightarrow> u16 \<Rightarrow> frame \<Rightarrow> nanoseconds \<Rightarrow> ('p, 'o, 'z) shared_scheme
     \<Rightarrow> ('p, 'o, 'z) shared_scheme \<times> exn option" where
  "publish_summary env stream frame t sh =
     (case deliver (publish_trade_orders env stream frame t) (security_ids sh) sh of
        (sh, Some e) \<Rightarrow> (sh, Some e)
      | (sh, None) \<Rightarrow>
          (case deliver (publish_trades stream frame t) (security_ids sh) sh of
             (sh, Some e) \<Rightarrow> (sh, Some e)
           | (sh, None) \<Rightarrow> (clear_state (sh\<lparr>transact_time := 0\<rparr>), None)))"

definition dispatch_trade_summary ::
    "('p, 'o) md_env \<Rightarrow> u16 \<Rightarrow> frame \<Rightarrow> trade_summary_48 \<Rightarrow> ('p, 'o, 'z) shared_scheme
     \<Rightarrow> ('p, 'o, 'z) shared_scheme \<times> exn option" where
  "dispatch_trade_summary env stream frame v sh =
     (let sh = collect_fragment env stream frame v sh in
      if length (orders sh) < unat (total_number_of_orders sh) then (sh\<lparr>transact_time := t48_transact_time v\<rparr>, None)
      else publish_summary env stream frame (t48_transact_time v) sh)"

text \<open>
  The fragments collected so far are shared by all channels: a summary of another transaction
  time, of whichever channel, forgets them.
\<close>

lemma trade_summary_other_time_discards:
  assumes "t48_transact_time v \<noteq> transact_time sh"
  shows "dispatch_trade_summary env stream frame v sh = dispatch_trade_summary env stream frame v (clear_state sh)"
  using assms by (simp add: dispatch_trade_summary_def collect_fragment_def clear_state_def Let_def)

subsection \<open>The index stays within the orders\<close>

text \<open>
  The orders announced by a list of trades, as a natural number: the handler's total is this
  number as long as it fits in 64 bits.
\<close>

definition announced :: "summary list \<Rightarrow> nat" where
  "announced es = sum_list (map (unat \<circ> summary_orders) es)"

definition has_taker_order :: "summary \<Rightarrow> bool" where
  "has_taker_order e = (case e of (i, a, p, q, n, t) \<Rightarrow> a = Side_UNDEFINED \<or> n \<noteq> 0)"

lemma announced_simps [simp]:
  "announced [] = 0" "announced (e # es) = unat (summary_orders e) + announced es"
  "announced (es @ fs) = announced es + announced fs"
  by (simp_all add: announced_def)

lemma those_map_Some: "(\<And>x. x \<in> set xs \<Longrightarrow> f x = Some (g x)) \<Longrightarrow> those (map f xs) = Some (map g xs)"
  by (induction xs) auto

lemma unat_add_u64: "unat a + unat b < 2 ^ 64 \<Longrightarrow> unat (a + b :: u64) = unat a + unat b"
  by (simp add: unat_word_ariths)

lemma unat_of_nat_u64: "k < 2 ^ 64 \<Longrightarrow> unat (word_of_nat k :: u64) = k"
  by (simp add: unat_of_nat)

lemma order_at_within:
  assumes "unat offset + j < length os" and "length os < 2 ^ 64"
  shows "order_at os (offset + word_of_nat j) = Some (os ! (unat offset + j))"
  using assms unat_of_nat_u64 [of j] unat_add_u64 [of offset "word_of_nat j"] by (simp add: order_at_def)

lemma makers_within:
  assumes "unat offset + unat n \<le> length os" and "length os < 2 ^ 64"
  shows "makers os offset k n = Some (map (\<lambda>j. os ! (unat offset + j)) [k..<unat n])"
  unfolding makers_def using assms by (intro those_map_Some order_at_within) auto

lemma order_at_first:
  "unat offset < length os \<Longrightarrow> order_at os offset = Some (os ! unat offset)"
  by (simp add: order_at_def)

lemma walk_total:
  assumes "\<And>offset e. e \<in> set es \<Longrightarrow> unat offset + unat (summary_orders e) \<le> m \<Longrightarrow> f offset e \<noteq> None"
    and "unat offset + announced es \<le> m" and "m < 2 ^ 64"
  shows "summary_walk f offset es \<noteq> None"
  using assms
proof (induction es arbitrary: offset)
  case Nil
  then show ?case by simp
next
  case (Cons e es)
  have b: "unat offset + unat (summary_orders e) \<le> m" using Cons.prems(2) by simp
  then have "unat (offset + summary_orders e) = unat offset + unat (summary_orders e)"
    using Cons.prems(3) by (intro unat_add_u64) simp
  then have "summary_walk f (offset + summary_orders e) es \<noteq> None"
    using Cons.prems by (intro Cons.IH) auto
  moreover obtain xs where "f offset e = Some xs" using Cons.prems(1) [of e offset] b by auto
  ultimately show ?case by auto
qed

lemma mbo_of_trade_within:
  assumes "unat offset + unat (summary_orders e) \<le> length os" and "length os < 2 ^ 64" and "has_taker_order e"
  shows "mbo_of_trade os i factor offset e \<noteq> None"
proof -
  obtain j a p q n t where e: "e = (j, a, p, q, n, t)" by (cases e) auto
  have m: "makers os offset k n \<noteq> None" for k
    using makers_within [of offset n os k] assms e by (simp add: summary_orders_def)
  have "unat offset < length os" if "a \<noteq> Side_UNDEFINED"
    using assms(1,3) e that unat_gt_0 [of n] by (auto simp: has_taker_order_def summary_orders_def)
  then have "order_at os offset \<noteq> None" if "a \<noteq> Side_UNDEFINED" using that by (simp add: order_at_def)
  with m e show ?thesis by (auto simp: mbo_of_trade_def Let_def)
qed

lemma trades_of_trade_within:
  assumes "unat offset + unat (summary_orders e) \<le> length os" and "length os < 2 ^ 64" and "has_taker_order e"
  shows "trades_of_trade os i factor offset e \<noteq> None"
proof -
  obtain j a p q n t where e: "e = (j, a, p, q, n, t)" by (cases e) auto
  have m: "makers os offset k n \<noteq> None" for k
    using makers_within [of offset n os k] assms e by (simp add: summary_orders_def)
  have "unat offset < length os" if "a \<noteq> Side_UNDEFINED"
    using assms(1,3) e that unat_gt_0 [of n] by (auto simp: has_taker_order_def summary_orders_def)
  then have "order_at os offset \<noteq> None" if "a \<noteq> Side_UNDEFINED" using that by (simp add: order_at_def)
  with m e show ?thesis by (auto simp: trades_of_trade_def Let_def)
qed

subsection \<open>Collecting and publishing\<close>

lemma run_defs_frame [frame_simps, simp]:
  "trade_summary (fst (run_defs f a sh)) = trade_summary sh" "security_ids (fst (run_defs f a sh)) = security_ids sh"
  "orders (fst (run_defs f a sh)) = orders sh" "transact_time (fst (run_defs f a sh)) = transact_time sh"
  "total_number_of_orders (fst (run_defs f a sh)) = total_number_of_orders sh"
  by (simp_all add: run_defs_def split: prod.split)

lemma run_defs_fields:
  "definitions (fst (run_defs f a sh)) = fst (f (definitions sh, published sh, a))"
  "published (fst (run_defs f a sh)) = fst (snd (f (definitions sh, published sh, a)))"
  by (simp_all add: run_defs_def split: prod.split)

lemma run_defs_acc: "snd (run_defs f a sh) = snd (snd (f (definitions sh, published sh, a)))"
  by (simp add: run_defs_def split: prod.split)

text \<open>Steps of the shared state that keep the index and publish about active symbols only.\<close>

definition safe_shared :: "('p, 'o, 'z) shared_scheme \<Rightarrow> ('p, 'o, 'y) shared_scheme \<Rightarrow> bool" where
  "safe_shared sh sh' \<longleftrightarrow> safe_step (definitions sh, published sh, ()) (definitions sh', published sh', ())"

lemma safe_shared_refl [simp]: "safe_shared sh sh"
  by (simp add: safe_shared_def)

lemma safe_shared_trans [trans]: "safe_shared a b \<Longrightarrow> safe_shared b c \<Longrightarrow> safe_shared a c"
  unfolding safe_shared_def by (rule safe_step_trans)

lemma safe_shared_run:
  "(\<And>d out. safe_step (d, out, a) (f (d, out, a))) \<Longrightarrow> safe_shared sh (fst (run_defs f a sh))"
  unfolding safe_shared_def run_defs_fields
  by (metis prod.collapse safe_step_acc safe_step_acc_left)

lemma safe_shared_fold:
  "(\<And>i s. i \<in> set is \<Longrightarrow> safe_shared s (f i s)) \<Longrightarrow> safe_shared sh (fold f is sh)"
  by (induction "is" arbitrary: sh) (auto intro: safe_shared_trans)

lemma safe_shared_deliver:
  "(\<And>i s. i \<in> set is \<Longrightarrow> safe_shared s (fst (f i s))) \<Longrightarrow> safe_shared sh (fst (deliver f is sh))"
  by (rule deliver_invariant [where I = "safe_shared sh"]) (auto intro: safe_shared_trans)

lemma safe_shared_fields:
  "definitions sh' = definitions sh \<Longrightarrow> published sh' = published sh \<Longrightarrow> safe_shared sh sh'"
  by (simp add: safe_shared_def)

lemma clear_state_fields [simp]:
  "definitions (clear_state sh) = definitions sh" "published (clear_state sh) = published sh"
  "transact_time (clear_state sh) = transact_time sh" "trade_summary (clear_state sh) = []"
  "orders (clear_state sh) = []" "security_ids (clear_state sh) = []" "total_number_of_orders (clear_state sh) = 0"
  by (simp_all add: clear_state_def)

lemma trade_entry_step_safe: "safe_shared sh (trade_entry_step env stream frame item sh)"
proof -
  let ?sh = "sh\<lparr>security_ids := insert_security_id (te_security_id item) (security_ids sh),
     trade_summary := trade_summary sh @ [to_summary item],
     total_number_of_orders := total_number_of_orders sh + word_of_int (te_number_of_orders item)\<rparr>"
  have "safe_shared sh ?sh" by (rule safe_shared_fields) simp_all
  also have "safe_shared ?sh (trade_entry_step env stream frame item sh)"
    unfolding trade_entry_step_def Let_def by (rule safe_shared_run) (rule crs.visit_safe)
  finally show ?thesis .
qed

lemma collect_fragment_safe: "safe_shared sh (collect_fragment env stream frame v sh)"
proof -
  let ?sh = "if t48_transact_time v = transact_time sh then sh
    else clear_state (sh\<lparr>transact_time := t48_transact_time v\<rparr>)"
  let ?sh2 = "fold (trade_entry_step env stream frame) (t48_md_entries v) ?sh"
  have "safe_shared sh ?sh" by (rule safe_shared_fields) simp_all
  also have "safe_shared ?sh ?sh2" by (rule safe_shared_fold) (rule trade_entry_step_safe)
  also have "safe_shared ?sh2 (collect_fragment env stream frame v sh)"
    by (rule safe_shared_fields) (simp_all add: collect_fragment_def Let_def)
  finally show ?thesis .
qed

lemma publish_trade_orders_safe: "safe_shared sh (fst (publish_trade_orders env stream frame t i sh))"
  by (auto simp: publish_trade_orders_def split: option.split intro!: safe_shared_run mbo.visit_safe)

lemma publish_trades_safe: "safe_shared sh (fst (publish_trades stream frame t i sh))"
  by (auto simp: publish_trades_def safe_shared_def safe_step_def active_symbols_def split: option.split)

lemma publish_summary_safe: "safe_shared sh (fst (publish_summary env stream frame t sh))"
proof -
  obtain sh1 e1 where d1: "deliver (publish_trade_orders env stream frame t) (security_ids sh) sh = (sh1, e1)"
    by (cases "deliver (publish_trade_orders env stream frame t) (security_ids sh) sh")
  have s1: "safe_shared sh sh1"
    using safe_shared_deliver [of "security_ids sh" "publish_trade_orders env stream frame t" sh]
      publish_trade_orders_safe d1 by (metis fst_conv)
  obtain sh2 e2 where d2: "deliver (publish_trades stream frame t) (security_ids sh1) sh1 = (sh2, e2)"
    by (cases "deliver (publish_trades stream frame t) (security_ids sh1) sh1")
  have s2: "safe_shared sh1 sh2"
    using safe_shared_deliver [of "security_ids sh1" "publish_trades stream frame t" sh1]
      publish_trades_safe d2 by (metis fst_conv)
  have "safe_shared sh2 (clear_state (sh2\<lparr>transact_time := 0\<rparr>))" by (rule safe_shared_fields) simp_all
  with s1 s2 show ?thesis
    by (auto simp: publish_summary_def d1 d2 split: option.split intro: safe_shared_trans)
qed

lemma dispatch_trade_summary_safe: "safe_shared sh (fst (dispatch_trade_summary env stream frame v sh))"
proof -
  let ?sh = "collect_fragment env stream frame v sh"
  have "safe_shared ?sh (?sh\<lparr>transact_time := t48_transact_time v\<rparr>)" by (rule safe_shared_fields) simp_all
  with collect_fragment_safe [of sh env stream frame v]
    publish_summary_safe [of ?sh env stream frame "t48_transact_time v"]
  show ?thesis by (auto simp: dispatch_trade_summary_def Let_def intro: safe_shared_trans)
qed

text \<open>What a fragment adds to the collected state.\<close>

lemma trade_entry_fold_fields:
  "trade_summary (fold (trade_entry_step env stream frame) items sh) = trade_summary sh @ map to_summary items"
  "orders (fold (trade_entry_step env stream frame) items sh) = orders sh"
  "transact_time (fold (trade_entry_step env stream frame) items sh) = transact_time sh"
  "security_ids (fold (trade_entry_step env stream frame) items sh)
     = fold insert_security_id (map te_security_id items) (security_ids sh)"
  "total_number_of_orders (fold (trade_entry_step env stream frame) items sh)
     = total_number_of_orders sh + (\<Sum>item \<leftarrow> items. word_of_int (te_number_of_orders item))"
  by (induction items arbitrary: sh) (simp_all add: trade_entry_step_def Let_def add.assoc)

text \<open>The state of a collection in progress.\<close>

definition collected :: "summary list \<Rightarrow> (u64 \<times> int) list \<Rightarrow> ('p, 'o, 'z) shared_scheme \<Rightarrow> bool" where
  "collected es os sh \<longleftrightarrow>
     trade_summary sh = es \<and> orders sh = os \<and> security_ids sh = fold insert_security_id (map fst es) [] \<and>
     total_number_of_orders sh = sum_list (map summary_orders es)"

lemma map_fst_to_summary: "map fst (map to_summary items) = map te_security_id items"
  by (induction items) (simp_all add: to_summary_def)

lemma map_orders_to_summary:
  "map summary_orders (map to_summary items) = map (\<lambda>item. word_of_int (te_number_of_orders item)) items"
  by (induction items) (simp_all add: to_summary_def summary_orders_def)

lemma collected_clear [simp]: "collected [] [] (clear_state sh)"
  by (simp add: collected_def)

lemma collected_fragment:
  assumes "collected es os sh" and "transact_time sh = t48_transact_time v"
  shows "collected (es @ map to_summary (t48_md_entries v)) (os @ map to_order (t48_order_entries v))
           (collect_fragment env stream frame v sh)
       \<and> transact_time (collect_fragment env stream frame v sh) = t48_transact_time v"
  using assms map_fst_to_summary [of "t48_md_entries v"] map_orders_to_summary [of "t48_md_entries v"]
  by (simp add: collected_def collect_fragment_def Let_def trade_entry_fold_fields del: map_map)

lemma collect_fragment_fresh:
  "transact_time sh \<noteq> t48_transact_time v \<Longrightarrow>
     collect_fragment env stream frame v sh =
     collect_fragment env stream frame v (clear_state (sh\<lparr>transact_time := t48_transact_time v\<rparr>))"
  by (simp add: collect_fragment_def)

lemma announced_total:
  assumes "announced es < 2 ^ 64"
  shows "unat (sum_list (map summary_orders es) :: u64) = announced es"
  using assms
proof (induction es)
  case Nil
  then show ?case by simp
next
  case (Cons e es)
  then have "unat (summary_orders e + sum_list (map summary_orders es)) = unat (summary_orders e) + announced es"
    using unat_add_u64 [of "summary_orders e" "sum_list (map summary_orders es)"] by simp
  then show ?case by simp
qed

lemma publish_trade_orders_ok:
  assumes "\<And>e. e \<in> set (trade_summary sh) \<Longrightarrow> has_taker_order e"
    and "announced (trade_summary sh) \<le> length (orders sh)" and "length (orders sh) < 2 ^ 64"
  shows "snd (publish_trade_orders env stream frame t i sh) = None"
proof (cases "find_security i (definitions sh)")
  case (Some s)
  have "summary_walk (mbo_of_trade (orders sh) i (display_factor s)) 0 (trade_summary sh) \<noteq> None"
    by (rule walk_total [where m = "length (orders sh)"]) (use assms mbo_of_trade_within in auto)
  with Some show ?thesis by (auto simp: publish_trade_orders_def)
qed (simp add: publish_trade_orders_def)

lemma publish_trades_walk:
  assumes "\<And>e. e \<in> set es \<Longrightarrow> has_taker_order e" and "announced es \<le> length os" and "length os < 2 ^ 64"
  shows "summary_walk (trades_of_trade os i factor) 0 es \<noteq> None"
  by (rule walk_total [where m = "length os"]) (use assms trades_of_trade_within in auto)

lemma publish_trades_ok:
  assumes "\<And>e. e \<in> set (trade_summary sh) \<Longrightarrow> has_taker_order e"
    and "announced (trade_summary sh) \<le> length (orders sh)" and "length (orders sh) < 2 ^ 64"
  shows "snd (publish_trades stream frame t i sh) = None"
proof (cases "find_security i (definitions sh)")
  case (Some s)
  have "summary_walk (trades_of_trade (orders sh) i (display_factor s)) 0 (trade_summary sh) \<noteq> None"
    by (rule publish_trades_walk) (use assms in auto)
  with Some show ?thesis by (auto simp: publish_trades_def)
qed (simp add: publish_trades_def)

lemma publish_frame [simp]:
  "trade_summary (fst (publish_trade_orders env stream frame t i sh)) = trade_summary sh"
  "orders (fst (publish_trade_orders env stream frame t i sh)) = orders sh"
  "security_ids (fst (publish_trade_orders env stream frame t i sh)) = security_ids sh"
  "trade_summary (fst (publish_trades stream frame t i sh)) = trade_summary sh"
  "orders (fst (publish_trades stream frame t i sh)) = orders sh"
  "security_ids (fst (publish_trades stream frame t i sh)) = security_ids sh"
  by (simp_all add: publish_trade_orders_def publish_trades_def split: option.split)

lemma publish_summary_complete:
  assumes es: "\<And>e. e \<in> set (trade_summary sh) \<Longrightarrow> has_taker_order e"
    and n: "announced (trade_summary sh) \<le> length (orders sh)" and l: "length (orders sh) < 2 ^ 64"
  shows "\<exists>sh1 sh2. deliver (publish_trade_orders env stream frame t) (security_ids sh) sh = (sh1, None)
    \<and> trade_summary sh1 = trade_summary sh \<and> orders sh1 = orders sh \<and> security_ids sh1 = security_ids sh
    \<and> deliver (publish_trades stream frame t) (security_ids sh) sh1 = (sh2, None)
    \<and> publish_summary env stream frame t sh = (clear_state (sh2\<lparr>transact_time := 0\<rparr>), None)"
proof -
  let ?I = "\<lambda>x. trade_summary x = trade_summary sh \<and> orders x = orders sh \<and> security_ids x = security_ids sh"
  let ?d1 = "deliver (publish_trade_orders env stream frame t) (security_ids sh) sh"
  have d1: "?I (fst ?d1) \<and> snd ?d1 = None"
    by (rule deliver_ok [where I = ?I]) (use assms in \<open>auto intro: publish_trade_orders_ok\<close>)
  obtain sh1 where sh1: "?d1 = (sh1, None)" "?I sh1" using d1 by (cases ?d1) auto
  let ?d2 = "deliver (publish_trades stream frame t) (security_ids sh) sh1"
  have d2: "?I (fst ?d2) \<and> snd ?d2 = None"
    by (rule deliver_ok [where I = ?I]) (use assms sh1 in \<open>auto intro: publish_trades_ok\<close>)
  obtain sh2 where "?d2 = (sh2, None)" using d2 by (cases ?d2) auto
  with sh1 show ?thesis by (auto simp: publish_summary_def)
qed

text \<open>The collected state is consistent: no total has wrapped around and no trade lacks its taker's order.\<close>

definition wf_summary :: "('p, 'o, 'z) shared_scheme \<Rightarrow> bool" where
  "wf_summary sh \<longleftrightarrow> collected (trade_summary sh) (orders sh) sh \<and> announced (trade_summary sh) < 2 ^ 64 \<and>
     (\<forall>e \<in> set (trade_summary sh). has_taker_order e)"

definition wf_trade_entry :: "trade_entry \<Rightarrow> bool" where
  "wf_trade_entry item \<longleftrightarrow> 0 \<le> te_number_of_orders item \<and> te_number_of_orders item < 2 ^ 31 \<and>
     (map_aggressor_side (te_aggressor_side item) \<noteq> Side_UNDEFINED \<longrightarrow> te_number_of_orders item \<noteq> 0)"

lemma unat_number_of_orders:
  "wf_trade_entry item \<Longrightarrow> unat (summary_orders (to_summary item)) = nat (te_number_of_orders item)"
  by (simp add: wf_trade_entry_def summary_orders_def to_summary_def unat_eq_nat_uint uint_word_of_int_eq
      take_bit_int_eq_self)

lemma wf_trade_entry_taker: "wf_trade_entry item \<Longrightarrow> has_taker_order (to_summary item)"
  using unat_number_of_orders [of item] unat_eq_zero [of "word_of_int (te_number_of_orders item) :: u64"]
  by (auto simp: wf_trade_entry_def has_taker_order_def to_summary_def summary_orders_def)

lemma announced_to_summary:
  "(\<And>item. item \<in> set items \<Longrightarrow> wf_trade_entry item) \<Longrightarrow>
     announced (map to_summary items) = (\<Sum>item \<leftarrow> items. nat (te_number_of_orders item))"
  by (induction items) (simp_all add: unat_number_of_orders)

text \<open>
  Claim C6. Trade summaries never index past the end of the collected orders: if every trade of
  the message announces a count of orders that is not negative, and at least one order when
  it names an aggressor, then the handler returns normally and leaves a consistent state
  again, whatever has been collected from earlier fragments.
\<close>

theorem trade_summary_no_UB:
  assumes wf: "wf_summary sh"
    and items: "\<And>item. item \<in> set (t48_md_entries v) \<Longrightarrow> wf_trade_entry item"
    and n: "announced (trade_summary sh) + (\<Sum>item \<leftarrow> t48_md_entries v. nat (te_number_of_orders item)) < 2 ^ 64"
    and l: "length (orders sh) + length (t48_order_entries v) < 2 ^ 64"
  shows "snd (dispatch_trade_summary env stream frame v sh) = None \<and>
    wf_summary (fst (dispatch_trade_summary env stream frame v sh))"
proof -
  let ?t = "t48_transact_time v"
  let ?sh = "if ?t = transact_time sh then sh else clear_state (sh\<lparr>transact_time := ?t\<rparr>)"
  let ?c = "collect_fragment env stream frame v sh"
  let ?es = "trade_summary ?sh @ map to_summary (t48_md_entries v)"
  let ?os = "orders ?sh @ map to_order (t48_order_entries v)"
  have c: "collected ?es ?os ?c"
    using collected_fragment [of "trade_summary ?sh" "orders ?sh" ?sh v env stream frame] wf
      collect_fragment_fresh [of sh v env stream frame] by (auto simp: wf_summary_def)
  have taker: "has_taker_order e" if "e \<in> set ?es" for e
    using that wf items wf_trade_entry_taker by (auto simp: wf_summary_def split: if_splits)
  have bound: "announced ?es < 2 ^ 64" "length ?os < 2 ^ 64"
    using n l announced_to_summary [OF items] by (auto split: if_splits)
  show ?thesis
  proof (cases "length (orders ?c) < unat (total_number_of_orders ?c)")
    case True
    with c taker bound show ?thesis
      by (auto simp: dispatch_trade_summary_def Let_def wf_summary_def collected_def)
  next
    case False
    then have "announced (trade_summary ?c) \<le> length (orders ?c)"
      using c announced_total [OF bound(1)] by (simp add: collected_def)
    then obtain sh2 where "publish_summary env stream frame ?t ?c = (clear_state (sh2\<lparr>transact_time := 0\<rparr>), None)"
      using publish_summary_complete [of ?c env stream frame ?t] c taker bound by (auto simp: collected_def)
    with False show ?thesis
      by (simp add: dispatch_trade_summary_def Let_def wf_summary_def del: not_less)
  qed
qed

text \<open>
  The condition on the aggressor is needed: a trade of a known security that names
  an aggressor but announces no orders, in a message without order entries, makes the handler
  read the first element of an empty vector.
\<close>

theorem trade_summary_zero_orders_UB:
  assumes "transact_time sh \<noteq> t48_transact_time v"
    and "t48_md_entries v = [item]" and "t48_order_entries v = []"
    and "te_number_of_orders item = 0" and "te_aggressor_side item = AS_Buy \<or> te_aggressor_side item = AS_Sell"
    and "find_security (te_security_id item) (definitions sh) \<noteq> None"
  shows "snd (dispatch_trade_summary env stream frame v sh) = Some UndefinedBehaviour"
proof -
  let ?c = "collect_fragment env stream frame v sh"
  have c: "collected [to_summary item] [] ?c"
    using collected_fragment [of "[]" "[]" "clear_state (sh\<lparr>transact_time := t48_transact_time v\<rparr>)" v env stream frame]
      collect_fragment_fresh [OF assms(1), of env stream frame] assms(2,3) by simp
  have "same_index (definitions sh) (definitions ?c)"
    using collect_fragment_safe [of sh env stream frame v] by (simp add: safe_shared_def safe_step_def)
  then have "active (te_security_id item) (definitions ?c)"
    using same_index_active [of "definitions sh" "definitions ?c" "te_security_id item"] assms(6)
    by (simp add: active_def)
  then obtain s where s: "find_security (te_security_id item) (definitions ?c) = Some s"
    by (auto simp: active_def)
  have "summary_walk (mbo_of_trade [] (te_security_id item) (display_factor s)) 0 [to_summary item] = None"
    using assms(5) by (auto simp: mbo_of_trade_def to_summary_def Let_def order_at_def)
  with s c have "publish_trade_orders env stream frame t (te_security_id item) ?c = (?c, Some UndefinedBehaviour)" for t
    by (simp add: publish_trade_orders_def collected_def)
  moreover have "security_ids ?c = [te_security_id item]"
    using c by (simp add: collected_def insert_security_id_def to_summary_def)
  moreover have "total_number_of_orders ?c = 0"
    using c assms(4) by (simp add: collected_def summary_orders_def to_summary_def)
  ultimately show ?thesis
    by (simp add: dispatch_trade_summary_def Let_def publish_summary_def)
qed

subsection \<open>Fragments\<close>

fun is_trade_event :: "event \<Rightarrow> bool" where
  "is_trade_event (EvTradeSummary u ts) = True"
| "is_trade_event _ = False"

abbreviation trade_events :: "event list \<Rightarrow> event list" where
  "trade_events \<equiv> filter is_trade_event"

text \<open>The trade summary a security is due, given all the trades and all the orders.\<close>

definition summary_events ::
    "u16 \<Rightarrow> frame \<Rightarrow> nanoseconds \<Rightarrow> summary list \<Rightarrow> (u64 \<times> int) list \<Rightarrow> ('p, 'o) security_definitions \<Rightarrow> int \<Rightarrow> event list" where
  "summary_events stream frame t es os d i =
     (case find_security i d of
        None \<Rightarrow> []
      | Some s \<Rightarrow>
          (case summary_walk (trades_of_trade os i (display_factor s)) 0 es of
             None \<Rightarrow> []
           | Some ts \<Rightarrow> if ts = [] then []
               else [EvTradeSummary (make_info stream s t (sequence_number frame) (sending_time frame)) ts]))"

lemma summary_events_cong:
  assumes "same_index d d'"
  shows "summary_events stream frame t es os d' = summary_events stream frame t es os d"
proof
  fix i
  show "summary_events stream frame t es os d' i = summary_events stream frame t es os d i"
    using same_index_find [OF assms, of i]
    by (cases "find_security i d"; cases "find_security i d'")
      (auto simp: summary_events_def identity_def make_info_def split: option.split)
qed

lemma visit_trade_events:
  assumes "\<And>s out a. trade_events (fst (snd (f (s, out, a)))) = trade_events out"
  shows "trade_events (fst (snd (visit i f (d, out, a)))) = trade_events out"
  using assms by (auto simp: visit_def get_security_def split: option.split prod.split) (metis fst_conv snd_conv)

lemma on_action_trade_events:
  assumes "\<And>u x l. \<not> is_trade_event (mk u x l)"
  shows "trade_events (snd (fold (on_action mk seq) acts (r, out))) = trade_events out"
proof (induction acts arbitrary: r out)
  case (Cons act acts)
  then show ?case using assms by (cases act) auto
qed simp

lemma mbo_trade_events:
  "trade_events (fst (snd (dispatch_market_by_order env stream seq t sending book snap (s, out, a)))) = trade_events out"
  using on_action_trade_events [of "\<lambda>b u _. EvMarketByOrder (make_info stream s t seq sending) b u" seq _ "mbo_resubscribe s" out]
  by (auto simp: dispatch_market_by_order_def Let_def split: prod.split) (metis snd_conv)+

lemma trade_entry_step_events:
  "trade_events (published (trade_entry_step env stream frame item sh)) = trade_events (published sh)"
  unfolding trade_entry_step_def Let_def run_defs_fields
  by (subst visit_trade_events) (simp_all add: check_report_sequence_eq)

lemma trade_entry_fold_events:
  "trade_events (published (fold (trade_entry_step env stream frame) items sh)) = trade_events (published sh)"
  by (induction items arbitrary: sh) (simp_all add: trade_entry_step_events)

lemma collect_fragment_events:
  "trade_events (published (collect_fragment env stream frame v sh)) = trade_events (published sh)"
  by (simp add: collect_fragment_def Let_def trade_entry_fold_events)

lemma publish_trade_orders_events:
  "trade_events (published (fst (publish_trade_orders env stream frame t i sh))) = trade_events (published sh)"
  by (auto simp: publish_trade_orders_def run_defs_fields visit_trade_events [OF mbo_trade_events] split: option.split)

lemma publish_trades_fold:
  assumes "trade_summary sh = es" and "orders sh = os" and "\<And>i. snd (publish_trades stream frame t i sh) = None"
  shows "trade_events (published (fst (deliver (publish_trades stream frame t) ids sh)))
    = trade_events (published sh) @ concat (map (summary_events stream frame t es os (definitions sh)) ids)"
  using assms
proof (induction ids arbitrary: sh)
  case Nil
  then show ?case by simp
next
  case (Cons i ids)
  obtain sh1 where p: "publish_trades stream frame t i sh = (sh1, None)"
    using Cons.prems(3) [of i] by (cases "publish_trades stream frame t i sh") auto
  have sh1: "trade_summary sh1 = es" "orders sh1 = os" "definitions sh1 = definitions sh"
      "trade_events (published sh1) = trade_events (published sh) @ summary_events stream frame t es os (definitions sh) i"
    using p Cons.prems(1,2) by (auto simp: publish_trades_def summary_events_def split: option.splits if_splits)
  have "snd (publish_trades stream frame t j sh1) = None" for j
    using Cons.prems(3) [of j] sh1 Cons.prems(1,2)
    by (auto simp: publish_trades_def split: option.splits if_splits)
  from Cons.IH [OF sh1(1,2) this] p sh1 show ?case by simp
qed

definition entries_of :: "(frame \<times> trade_summary_48) list \<Rightarrow> summary list" where
  "entries_of frs = concat (map (\<lambda>(f, v). map to_summary (t48_md_entries v)) frs)"

definition orders_of :: "(frame \<times> trade_summary_48) list \<Rightarrow> (u64 \<times> int) list" where
  "orders_of frs = concat (map (\<lambda>(f, v). map to_order (t48_order_entries v)) frs)"

definition run_fragments ::
    "('p, 'o) md_env \<Rightarrow> u16 \<Rightarrow> (frame \<times> trade_summary_48) list \<Rightarrow> ('p, 'o, 'z) shared_scheme \<Rightarrow> ('p, 'o, 'z) shared_scheme" where
  "run_fragments env stream frs sh = fold (\<lambda>(f, v) sh. fst (dispatch_trade_summary env stream f v sh)) frs sh"

lemma fragments_snoc [simp]:
  "entries_of (frs @ [(f, v)]) = entries_of frs @ map to_summary (t48_md_entries v)"
  "orders_of (frs @ [(f, v)]) = orders_of frs @ map to_order (t48_order_entries v)"
  "run_fragments env stream (frs @ [(f, v)]) sh = fst (dispatch_trade_summary env stream f v (run_fragments env stream frs sh))"
  "entries_of [] = []" "orders_of [] = []" "run_fragments env stream [] sh = sh"
  by (simp_all add: entries_of_def orders_of_def run_fragments_def)

lemma fragments_pending:
  assumes "collected [] [] sh" and "transact_time sh = t"
    and "\<And>f v. (f, v) \<in> set frs \<Longrightarrow> t48_transact_time v = t"
    and "\<And>k. 0 < k \<Longrightarrow> k \<le> length frs \<Longrightarrow>
      length (orders_of (take k frs)) < announced (entries_of (take k frs)) \<and> announced (entries_of (take k frs)) < 2 ^ 64"
  shows "let sh' = run_fragments env stream frs sh in
    collected (entries_of frs) (orders_of frs) sh' \<and> transact_time sh' = t \<and>
    same_index (definitions sh) (definitions sh') \<and> trade_events (published sh') = trade_events (published sh)"
  using assms(3,4)
proof (induction frs rule: rev_induct)
  case Nil
  then show ?case using assms(1,2) by simp
next
  case (snoc fv frs)
  obtain f v where fv: "fv = (f, v)" by (cases fv)
  let ?sh = "run_fragments env stream frs sh"
  have tt: "t48_transact_time w = t" if "(g, w) \<in> set frs" for g w
    using snoc.prems(1) [of g w] that by simp
  have pre: "length (orders_of (take k frs)) < announced (entries_of (take k frs)) \<and> announced (entries_of (take k frs)) < 2 ^ 64"
    if "0 < k" "k \<le> length frs" for k
    using snoc.prems(2) [of k] that by simp
  have IH: "collected (entries_of frs) (orders_of frs) ?sh" "transact_time ?sh = t"
      "same_index (definitions sh) (definitions ?sh)" "trade_events (published ?sh) = trade_events (published sh)"
    using snoc.IH [OF tt pre] by (simp_all add: Let_def)
  let ?c = "collect_fragment env stream f v ?sh"
  have t: "t48_transact_time v = t" using snoc.prems(1) fv by auto
  have c: "collected (entries_of (frs @ [fv])) (orders_of (frs @ [fv])) ?c" "transact_time ?c = t"
    using collected_fragment [OF IH(1), of v env stream f] IH(2) t fv by auto
  have "length (orders ?c) < unat (total_number_of_orders ?c)"
    using snoc.prems(2) [of "Suc (length frs)"] c(1) announced_total [of "entries_of (frs @ [fv])"]
    by (simp add: collected_def fv)
  then have run: "run_fragments env stream (frs @ [fv]) sh = ?c\<lparr>transact_time := t\<rparr>"
    using t fv by (simp add: dispatch_trade_summary_def Let_def)
  moreover have "same_index (definitions ?sh) (definitions ?c)"
    using collect_fragment_safe [of ?sh env stream f v] by (simp add: safe_shared_def safe_step_def)
  ultimately show ?case
    using c IH(3,4) collect_fragment_events [of env stream f v ?sh]
    by (auto simp: Let_def collected_def intro: same_index_trans)
qed

lemma run_fragments_fresh:
  assumes "transact_time sh \<noteq> t48_transact_time v"
  shows "run_fragments env stream ((f, v) # frs) sh
    = run_fragments env stream ((f, v) # frs) (clear_state (sh\<lparr>transact_time := t48_transact_time v\<rparr>))"
  using collect_fragment_fresh [OF assms, of env stream f]
  by (simp add: run_fragments_def dispatch_trade_summary_def)

lemma last_fragment:
  assumes c: "collected es os sh" and t: "transact_time sh = t48_transact_time v"
    and es': "es' = es @ map to_summary (t48_md_entries v)" and os': "os' = os @ map to_order (t48_order_entries v)"
    and n: "announced es' \<le> length os'" and l: "length os' < 2 ^ 64" and taker: "\<And>e. e \<in> set es' \<Longrightarrow> has_taker_order e"
  shows "let sh' = fst (dispatch_trade_summary env stream f v sh) in
    trade_events (published sh') = trade_events (published sh) @
      concat (map (summary_events stream f (t48_transact_time v) es' os' (definitions sh)) (fold insert_security_id (map fst es') []))
    \<and> collected [] [] sh' \<and> transact_time sh' = 0"
proof -
  let ?c = "collect_fragment env stream f v sh" and ?t = "t48_transact_time v"
  have c': "collected es' os' ?c" using collected_fragment [OF c t, of env stream f] es' os' by simp
  then have eq: "trade_summary ?c = es'" "orders ?c = os'" "security_ids ?c = fold insert_security_id (map fst es') []"
    by (auto simp: collected_def)
  have "announced es' < 2 ^ 64" using n l by simp
  then have full: "\<not> length (orders ?c) < unat (total_number_of_orders ?c)"
    using n announced_total [of es'] c' by (simp add: collected_def)
  obtain sh1 sh2 where
    d1: "deliver (publish_trade_orders env stream f ?t) (security_ids ?c) ?c = (sh1, None)" and
    sh1: "trade_summary sh1 = es'" "orders sh1 = os'" and
    d2: "deliver (publish_trades stream f ?t) (security_ids ?c) sh1 = (sh2, None)" and
    ps: "publish_summary env stream f ?t ?c = (clear_state (sh2\<lparr>transact_time := 0\<rparr>), None)"
    using publish_summary_complete [of ?c env stream f ?t] taker n l unfolding eq by metis
  have "trade_events (published sh1) = trade_events (published sh)"
    using deliver_invariant [where I = "\<lambda>x. trade_events (published x) = trade_events (published sh)",
        of "security_ids ?c" "publish_trade_orders env stream f ?t" ?c]
      collect_fragment_events [of env stream f v sh] d1 publish_trade_orders_events by (metis fst_conv)
  moreover have "same_index (definitions ?c) (definitions sh1)"
    using safe_shared_deliver [of "security_ids ?c" "publish_trade_orders env stream f ?t" ?c] publish_trade_orders_safe d1
    by (metis fst_conv safe_shared_def safe_step_def)
  then have "same_index (definitions sh) (definitions sh1)"
    using collect_fragment_safe [of sh env stream f v] by (auto simp: safe_shared_def safe_step_def intro: same_index_trans)
  moreover have "snd (publish_trades stream f ?t i sh1) = None" for i
    by (rule publish_trades_ok) (use sh1 taker n l in auto)
  ultimately have "trade_events (published sh2) = trade_events (published sh) @
      concat (map (summary_events stream f ?t es' os' (definitions sh)) (security_ids ?c))"
    using publish_trades_fold [OF sh1, of stream f ?t "security_ids ?c"] d2 by (simp add: summary_events_cong)
  then show ?thesis
    using full ps eq(3) by (simp add: dispatch_trade_summary_def Let_def del: not_less)
qed


subsection \<open>Witnesses\<close>

definition sample_shared :: "(u32, u32) shared" where
  "sample_shared = create_security_from sample_env 1 sample_future empty_shared"

definition sample_trade :: "int \<Rightarrow> trade_entry" where
  "sample_trade n = \<lparr>te_px = sample_price 1000000000, te_size = 2, te_security_id = 118, te_rpt_seq = 1,
     te_number_of_orders = n, te_trade_id = (5, 0), te_aggressor_side = AS_Buy\<rparr>"

definition sample_fragments :: "(frame \<times> trade_summary_48) list" where
  "sample_fragments =
     [(\<lparr>sequence_number = 7, sending_time = 70\<rparr>,
       \<lparr>t48_transact_time = 60, t48_md_entries = [sample_trade 2], t48_order_entries = [(101, 2)]\<rparr>),
      (\<lparr>sequence_number = 8, sending_time = 80\<rparr>,
       \<lparr>t48_transact_time = 60, t48_md_entries = [], t48_order_entries = [(102, 2)]\<rparr>)]"

definition sample_summary :: "int \<Rightarrow> trade_summary_48" where
  "sample_summary n = \<lparr>t48_transact_time = 60, t48_md_entries = [sample_trade n], t48_order_entries = []\<rparr>"

lemma sample_trade_wf: "wf_trade_entry (sample_trade 2)"
  by (simp add: sample_trade_def wf_trade_entry_def)

theorem trade_summary_no_UB_witness:
  "snd (dispatch_trade_summary sample_env 1 sample_frame (sample_summary 2) sample_shared) = None"
  using trade_summary_no_UB [of sample_shared "sample_summary 2" sample_env 1 sample_frame]
  by (simp add: sample_summary_def sample_trade_wf sample_shared_def create_security_from_def
      empty_shared_def Let_def wf_summary_def collected_def sample_trade_def wf_trade_entry_def)

theorem trade_summary_zero_orders_UB_witness:
  "snd (dispatch_trade_summary sample_env 1 sample_frame (sample_summary 0) sample_shared) = Some UndefinedBehaviour"
  by (rule trade_summary_zero_orders_UB [where item = "sample_trade 0"])
    (simp_all add: sample_summary_def sample_trade_def sample_shared_def create_security_from_def empty_shared_def
      Let_def has_security_def empty_definitions_def sample_future_def create_security_def sample_env_def
      make_security_def find_security_def try_emplace_apply)


end
