(* ===== verification/Incremental.thy ===== *)
theory Incremental
  imports TradeSummary
begin

section \<open>The incremental feed: message handlers\<close>

text \<open>
  The handlers of \<^verbatim>\<open>market_data/incremental.cpp\<close>. Their state is the shared state and
  the cache of the channel (\<^verbatim>\<open>Incremental::Cache\<close>), which the two feeds of a channel
  share.
\<close>

record order_47 =
  o7_security_id :: int
  o7_price :: double
  o7_quantity :: double
  o7_priority :: int
  o7_order_id :: int
  o7_side :: side
  o7_action :: update_action

record ('p, 'o) incremental = "('p, 'o) shared" +
  cache_orders :: "mbo_update list"
  cache_orders_47 :: "order_47 list"
  cache_security_ids_47 :: "int list"

subsection \<open>Security status and definitions\<close>

definition publish_status ::
    "u16 \<Rightarrow> frame \<Rightarrow> security_status_30 \<Rightarrow> ('p, 'o, 'a) sec_state \<Rightarrow> ('p, 'o, 'a) sec_state" where
  "publish_status stream frame v st =
     (case st of (s, out, a) \<Rightarrow>
        (s, out @ [EvMarketStatus (make_info stream s (ss_transact_time v) (sequence_number frame) (sending_time frame))
                     (map_trading_status (ss_trading_status v))], a))"

definition on_security_status ::
    "u16 \<Rightarrow> frame \<Rightarrow> security_status_30 \<Rightarrow> ('p, 'o, 'z) shared_scheme \<Rightarrow> ('p, 'o, 'z) shared_scheme" where
  "on_security_status stream frame v sh =
     (let security_id = nv (ss_security_id v);
          group = get_string_view (ss_security_group v);
          dispatch = (\<lambda>i sh. fst (run_defs (visit i (publish_status stream frame v)) () sh));
          sh = (if security_id \<noteq> 0 then dispatch security_id sh else sh)
      in if group \<noteq> [] then
           (case get_security_group group (definitions sh) of None \<Rightarrow> sh | Some ids \<Rightarrow> fold dispatch ids sh)
         else sh)"

definition on_instrument_definition ::
    "('p, 'o) md_env \<Rightarrow> u16 \<Rightarrow> instrument_definition \<Rightarrow> ('p, 'o, 'z) shared_scheme \<Rightarrow> ('p, 'o, 'z) shared_scheme" where
  "on_instrument_definition env stream v sh =
     (if id_kind v = Future54 then create_security_from env stream v sh
      else fst (run_defs (follow (id_security_id v) (\<lambda>(s, out, a). (s, publish_definition stream v s out, a))) () sh))"

subsection \<open>Book updates by price (46)\<close>

record book_acc =
  acc_layer :: layer
  acc_bids :: "mbp_update list"
  acc_asks :: "mbp_update list"
  acc_orders :: "mbo_update list"

definition empty_acc :: book_acc where
  "empty_acc = \<lparr>acc_layer = empty_layer, acc_bids = [], acc_asks = [], acc_orders = []\<rparr>"

definition mbp_of_entry :: "book_entry \<Rightarrow> ('p, 'o) security \<Rightarrow> mbp_update" where
  "mbp_of_entry item s =
     (let action = map_update_action (be_update_action item);
          quantity = (if action = DELETE then 0 else nv (be_size item));
          md_price_level = nv (be_price_level item)
      in \<lparr>mbp_price = dmul (map_price (be_px item)) (display_factor s), mbp_quantity = double_of_int quantity,
          mbp_number_of_orders = nv (be_number_of_orders item), mbp_update_action = action,
          mbp_price_level = (if md_price_level > 0 then word_of_int (md_price_level - 1) else 0)\<rparr>)"

definition emplace_back_46 :: "book_entry \<Rightarrow> ('p, 'o) security \<Rightarrow> book_acc \<Rightarrow> book_acc" where
  "emplace_back_46 item s acc =
     (case be_entry_type item of
        BT_Bid \<Rightarrow> acc\<lparr>acc_bids := acc_bids acc @ [mbp_of_entry item s]\<rparr>
      | BT_Offer \<Rightarrow> acc\<lparr>acc_asks := acc_asks acc @ [mbp_of_entry item s]\<rparr>
      | BT_MarketBestOffer \<Rightarrow>
          acc\<lparr>acc_layer := (acc_layer acc)\<lparr>ask_price := dmul (map_price (be_px item)) (display_factor s)\<rparr>\<rparr>
      | BT_MarketBestBid \<Rightarrow>
          acc\<lparr>acc_layer := (acc_layer acc)\<lparr>bid_price := dmul (map_price (be_px item)) (display_factor s)\<rparr>\<rparr>
      | _ \<Rightarrow> acc)"

definition dispatch_top_of_book ::
    "u16 \<Rightarrow> frame \<Rightarrow> nanoseconds \<Rightarrow> ('p, 'o, book_acc) sec_state \<Rightarrow> ('p, 'o, book_acc) sec_state" where
  "dispatch_top_of_book stream frame t st =
     (case st of (s, out, acc) \<Rightarrow>
        if isnan (bid_price (acc_layer acc)) \<and> isnan (ask_price (acc_layer acc)) then st
        else (s, out @ [EvTopOfBook (make_info stream s t (sequence_number frame) (sending_time frame)) (acc_layer acc)],
              acc\<lparr>acc_layer := empty_layer\<rparr>))"

definition dispatch_46 ::
    "('p, 'o) md_env \<Rightarrow> u16 \<Rightarrow> frame \<Rightarrow> nanoseconds \<Rightarrow> bool \<Rightarrow> ('p, 'o, book_acc) sec_state \<Rightarrow> ('p, 'o, book_acc) sec_state" where
  "dispatch_46 env stream frame t is_snapshot st =
     (let seq = sequence_number frame; sending = sending_time frame;
          st = dispatch_top_of_book stream frame t st;
          acc = snd (snd st);
          st = (if acc_bids acc = [] \<and> acc_asks acc = [] then st
                else apsnd (apsnd (\<lambda>acc. acc\<lparr>acc_bids := [], acc_asks := []\<rparr>))
                  (dispatch_market_by_price env stream seq t sending (acc_bids acc, acc_asks acc) is_snapshot st));
          acc = snd (snd st)
      in if acc_orders acc = [] then st
         else apsnd (apsnd (\<lambda>acc. acc\<lparr>acc_orders := []\<rparr>))
           (dispatch_market_by_order env stream seq t sending (acc_orders acc) False st))"

record ('p, 'o) loop_46 =
  l46_security_id :: int
  l46_found :: bool
  l46_is_snapshot :: bool
  l46_workaround :: bool
  l46_md_entries :: "(int \<times> side \<times> double) list"
  l46_dx :: "('p, 'o) security_definitions \<times> event list \<times> book_acc"

definition step_46_security ::
    "('p, 'o) md_env \<Rightarrow> u16 \<Rightarrow> frame \<Rightarrow> nanoseconds \<Rightarrow> book_entry \<Rightarrow> ('p, 'o) loop_46 \<Rightarrow> ('p, 'o) loop_46" where
  "step_46_security env stream frame t item l =
     (if be_security_id item = l46_security_id l then l
      else let dx = (if l46_found l
                     then follow (l46_security_id l) (dispatch_46 env stream frame t (l46_is_snapshot l)) (l46_dx l)
                     else l46_dx l)
           in l\<lparr>l46_security_id := be_security_id item,
                l46_found := (find_security (be_security_id item) (fst dx) \<noteq> None),
                l46_is_snapshot := False, l46_dx := dx\<rparr>)"

text \<open>What an entry adds for its security, once its report sequence number is checked.\<close>

definition entry_46 ::
    "('p, 'o) md_env \<Rightarrow> book_entry \<Rightarrow> ('p, 'o, book_acc) sec_state \<Rightarrow> ('p, 'o, book_acc) sec_state" where
  "entry_46 env item st =
     (case st of (s, out, acc) \<Rightarrow>
        let sd = map_entry_type_book (be_entry_type item);
            action = map_update_action (be_update_action item);
            acc = emplace_back_46 item s acc
        in (s, out,
            if enable_market_by_order env \<and> action = DELETE \<and> sd \<noteq> Side_UNDEFINED \<and> mbp_to_mbo_clear_price_level env
            then acc\<lparr>acc_orders := acc_orders acc @
                   [\<lparr>mbo_price = dmul (map_price (be_px item)) (display_factor s), mbo_quantity = Fin 0, mbo_priority = 0,
                     mbo_order_id = [], mbo_side = sd, mbo_action = action\<rparr>]\<rparr>
            else acc))"

definition step_46 ::
    "('p, 'o) md_env \<Rightarrow> u16 \<Rightarrow> frame \<Rightarrow> nanoseconds \<Rightarrow> book_entry \<Rightarrow> ('p, 'o) loop_46 \<Rightarrow> ('p, 'o) loop_46" where
  "step_46 env stream frame t item l =
     (let l = step_46_security env stream frame t item l;
          l = (if be_rpt_seq item = 1 then l\<lparr>l46_is_snapshot := True, l46_workaround := True\<rparr> else l);
          l = (if l46_found l
               then l\<lparr>l46_dx := follow (l46_security_id l) (check_report_sequence env stream frame (be_rpt_seq item)) (l46_dx l)\<rparr>
               else l);
          l = (if enable_market_by_order env
               then l\<lparr>l46_md_entries := l46_md_entries l @
                      [(l46_security_id l, map_entry_type_book (be_entry_type item), map_price (be_px item))]\<rparr>
               else l)
      in if l46_found l then l\<lparr>l46_dx := follow (l46_security_id l) (entry_46 env item) (l46_dx l)\<rparr> else l)"

definition book_entries_46 ::
    "('p, 'o) md_env \<Rightarrow> u16 \<Rightarrow> frame \<Rightarrow> nanoseconds \<Rightarrow> book_entry list
     \<Rightarrow> ('p, 'o) security_definitions \<times> event list \<times> book_acc \<Rightarrow> ('p, 'o) loop_46" where
  "book_entries_46 env stream frame t items dx =
     (let l = fold (step_46 env stream frame t) items
            \<lparr>l46_security_id = 0, l46_found = False, l46_is_snapshot = False, l46_workaround = False,
             l46_md_entries = [], l46_dx = dx\<rparr>
      in if l46_found l
         then l\<lparr>l46_dx := follow (l46_security_id l) (dispatch_46 env stream frame t (l46_is_snapshot l)) (l46_dx l)\<rparr>
         else l)"

text \<open>The order entries refer to the price entries by a 1-based index, which is checked.\<close>

definition mbo_of_entry :: "order_id_entry \<Rightarrow> ('p, 'o) security \<Rightarrow> side \<Rightarrow> double \<Rightarrow> mbo_update" where
  "mbo_of_entry item s sd price =
     \<lparr>mbo_price = dmul price (display_factor s), mbo_quantity = double_of_int (nv (oe_display_qty item)),
      mbo_priority = nv (oe_priority item), mbo_order_id = show_int (nv (oe_order_id item)), mbo_side = sd,
      mbo_action = map_order_update_action (oe_update_action item)\<rparr>"

definition dispatch_orders ::
    "('p, 'o) md_env \<Rightarrow> u16 \<Rightarrow> frame \<Rightarrow> nanoseconds \<Rightarrow> bool
     \<Rightarrow> ('p, 'o, mbo_update list) sec_state \<Rightarrow> ('p, 'o, mbo_update list) sec_state" where
  "dispatch_orders env stream frame t is_snapshot st =
     (if snd (snd st) = [] then st
      else apsnd (apsnd (\<lambda>_. []))
        (dispatch_market_by_order env stream (sequence_number frame) t (sending_time frame) (snd (snd st)) is_snapshot st))"

definition append_order ::
    "order_id_entry \<Rightarrow> side \<Rightarrow> double \<Rightarrow> ('p, 'o, mbo_update list) sec_state \<Rightarrow> ('p, 'o, mbo_update list) sec_state" where
  "append_order item sd price st = (case st of (s, out, os) \<Rightarrow> (s, out, os @ [mbo_of_entry item s sd price]))"

definition order_step_46 ::
    "('p, 'o) md_env \<Rightarrow> u16 \<Rightarrow> frame \<Rightarrow> nanoseconds \<Rightarrow> bool \<Rightarrow> (int \<times> side \<times> double) list \<Rightarrow> order_id_entry
     \<Rightarrow> ('p, 'o, mbo_update list) iterator \<Rightarrow> ('p, 'o, mbo_update list) iterator" where
  "order_step_46 env stream frame t is_snapshot md_entries item it =
     (let reference_id = nv (oe_reference_id item) in
      if reference_id = 0 then it
      else let index = unat (word_of_int reference_id - 1 :: u64) in
        if \<not> index < length md_entries then it
        else (case md_entries ! index of (current, sd, price) \<Rightarrow>
          (case iterator_next (dispatch_orders env stream frame t is_snapshot) current it of (security_id, found, dx) \<Rightarrow>
             (security_id, found,
              if found then follow security_id (append_order item sd price) dx else dx))))"

definition order_entries_46 ::
    "('p, 'o) md_env \<Rightarrow> u16 \<Rightarrow> frame \<Rightarrow> nanoseconds \<Rightarrow> bool \<Rightarrow> (int \<times> side \<times> double) list \<Rightarrow> order_id_entry list
     \<Rightarrow> ('p, 'o) security_definitions \<times> event list \<times> mbo_update list
     \<Rightarrow> ('p, 'o) security_definitions \<times> event list \<times> mbo_update list" where
  "order_entries_46 env stream frame t is_snapshot md_entries items dx =
     (case fold (order_step_46 env stream frame t is_snapshot md_entries) items (0, False, dx) of
        (security_id, found, dx') \<Rightarrow>
          if found then follow security_id (dispatch_orders env stream frame t is_snapshot) dx' else dx')"

definition on_book_46 ::
    "('p, 'o) md_env \<Rightarrow> u16 \<Rightarrow> frame \<Rightarrow> book_46 \<Rightarrow> ('p, 'o) incremental \<Rightarrow> ('p, 'o) incremental \<times> exn option" where
  "on_book_46 env stream frame v sh =
     (let t = b46_transact_time v;
          l = book_entries_46 env stream frame t (b46_md_entries v) (definitions sh, published sh, empty_acc);
          sh = sh\<lparr>definitions := fst (l46_dx l), published := fst (snd (l46_dx l))\<rparr>
      in if \<not> enable_market_by_order env then (sh, None)
         else (case run_defs (order_entries_46 env stream frame t (l46_workaround l) (l46_md_entries l) (b46_order_entries v))
                      (cache_orders sh) sh of (sh, os) \<Rightarrow>
                 let sh = sh\<lparr>cache_orders := os\<rparr> in if os = [] then (sh, None) else (sh, Some AssertFailed)))"

subsection \<open>Order book updates (47)\<close>

definition emplace_back_47 :: "order_book_entry \<Rightarrow> ('p, 'o) security \<Rightarrow> order_47 list \<Rightarrow> order_47 list" where
  "emplace_back_47 item s os =
     (let mk = (\<lambda>sd. \<lparr>o7_security_id = ob_security_id item, o7_price = dmul (map_price (ob_px item)) (display_factor s),
             o7_quantity = double_of_int (nv (ob_display_qty item)), o7_priority = nv (ob_priority item),
             o7_order_id = nv (ob_order_id item), o7_side = sd, o7_action = map_update_action (ob_update_action item)\<rparr>)
      in case ob_entry_type item of
           BT_Bid \<Rightarrow> os @ [mk BUY]
         | BT_Offer \<Rightarrow> os @ [mk SELL]
         | _ \<Rightarrow> os)"

definition step_47 ::
    "order_book_entry \<Rightarrow> int \<times> bool \<times> ('p, 'o) incremental \<Rightarrow> int \<times> bool \<times> ('p, 'o) incremental" where
  "step_47 item x =
     (case x of (security_id, found, sh) \<Rightarrow>
       let current = ob_security_id item;
           (found, sh) =
             (if current = security_id then (found, sh)
              else if find_security current (definitions sh) = None then (False, sh)
              else (True, sh\<lparr>cache_security_ids_47 := insert_security_id current (cache_security_ids_47 sh)\<rparr>))
       in (current, found,
           case find_security current (definitions sh) of
             Some s \<Rightarrow> if found then sh\<lparr>cache_orders_47 := emplace_back_47 item s (cache_orders_47 sh)\<rparr> else sh
           | None \<Rightarrow> sh))"

definition mbo_of_47 :: "order_47 \<Rightarrow> mbo_update" where
  "mbo_of_47 x = \<lparr>mbo_price = o7_price x, mbo_quantity = o7_quantity x, mbo_priority = o7_priority x,
     mbo_order_id = show_int (o7_order_id x), mbo_side = o7_side x, mbo_action = o7_action x\<rparr>"

definition publish_47 ::
    "('p, 'o) md_env \<Rightarrow> u16 \<Rightarrow> frame \<Rightarrow> nanoseconds \<Rightarrow> int \<Rightarrow> ('p, 'o) incremental \<Rightarrow> ('p, 'o) incremental \<times> exn option" where
  "publish_47 env stream frame t security_id sh =
     (if cache_orders sh \<noteq> [] then (sh, Some AssertFailed)
      else (fst (run_defs (visit security_id (\<lambda>st. dispatch_market_by_order env stream (sequence_number frame) t (sending_time frame)
                   (map mbo_of_47 (filter (\<lambda>x. o7_security_id x = security_id) (cache_orders_47 sh)))
                   (rpt_seq (fst st) = 0) st)) () sh), None))"

definition on_order_book_47 ::
    "('p, 'o) md_env \<Rightarrow> u16 \<Rightarrow> frame \<Rightarrow> order_book_47 \<Rightarrow> ('p, 'o) incremental \<Rightarrow> ('p, 'o) incremental \<times> exn option" where
  "on_order_book_47 env stream frame v sh =
     (if \<not> enable_market_by_order env then (sh, None)
      else let lst = (o47_match_event_indicator v \<noteq> 0);
               sh = snd (snd (fold step_47 (o47_md_entries v) (0, False, sh)))
           in if \<not> lst then (sh, None)
              else (case deliver (publish_47 env stream frame (o47_transact_time v)) (cache_security_ids_47 sh) sh of
                      (sh, Some e) \<Rightarrow> (sh, Some e)
                    | (sh, None) \<Rightarrow> (sh\<lparr>cache_orders_47 := [], cache_security_ids_47 := []\<rparr>, None)))"

subsection \<open>Statistics (37, 49, 51, 67) and entries that only carry a report sequence number\<close>

fun map_statistics :: "statistics_tag \<Rightarrow> statistics_type" where
  "map_statistics (Daily t) = map_daily_statistics t"
| "map_statistics (Session t) = map_session_statistics t"

definition statistics_of_entry :: "statistics_entry \<Rightarrow> ('p, 'o) security \<Rightarrow> statistics" where
  "statistics_of_entry item s =
     (let ty = map_statistics (se_entry_type item)
      in \<lparr>st_type = ty, st_value = (if ty = OPEN_INTEREST then double_of_int (nv (se_size item))
                                    else dmul (map_price (se_px item)) (display_factor s))\<rparr>)"

definition statistics_of_volume :: "volume_entry \<Rightarrow> ('p, 'o) security \<Rightarrow> statistics" where
  "statistics_of_volume item s = \<lparr>st_type = TRADE_VOLUME, st_value = double_of_int (nv (ve_size item))\<rparr>"

definition flush_statistics ::
    "u16 \<Rightarrow> frame \<Rightarrow> nanoseconds \<Rightarrow> ('p, 'o, statistics list) sec_state \<Rightarrow> ('p, 'o, statistics list) sec_state" where
  "flush_statistics stream frame t st =
     (case st of (s, out, stats) \<Rightarrow>
        if stats = [] then st
        else (s, out @ [EvStatistics (make_info stream s t (sequence_number frame) (sending_time frame)) stats], []))"

definition add_statistics ::
    "('p, 'o) md_env \<Rightarrow> u16 \<Rightarrow> frame \<Rightarrow> nanoseconds \<Rightarrow> ('i \<Rightarrow> u32) \<Rightarrow> ('i \<Rightarrow> ('p, 'o) security \<Rightarrow> statistics) \<Rightarrow> 'i
     \<Rightarrow> ('p, 'o, statistics list) sec_state \<Rightarrow> ('p, 'o, statistics list) sec_state" where
  "add_statistics env stream frame t rpt callback item st =
     (let seq = sequence_number frame; sending = sending_time frame;
          st = check_report_sequence env stream frame (rpt item) st;
          st = (case st of (s, out, stats) \<Rightarrow> (s, out, stats @ [callback item s]))
      in if rpt item \<noteq> 1 then st
         else dispatch_market_by_order env stream seq t sending [] True
                (dispatch_market_by_price env stream seq t sending ([], []) True st))"

definition dispatch_statistics ::
    "('p, 'o) md_env \<Rightarrow> u16 \<Rightarrow> frame \<Rightarrow> nanoseconds \<Rightarrow> ('i \<Rightarrow> int) \<Rightarrow> ('i \<Rightarrow> u32) \<Rightarrow> ('i \<Rightarrow> ('p, 'o) security \<Rightarrow> statistics)
     \<Rightarrow> 'i list \<Rightarrow> ('p, 'o, 'z) shared_scheme \<Rightarrow> ('p, 'o, 'z) shared_scheme" where
  "dispatch_statistics env stream frame t id_of rpt callback items sh =
     fst (run_defs (security_iterator id_of (flush_statistics stream frame t)
            (add_statistics env stream frame t rpt callback) items) [] sh)"

definition check_entries ::
    "('p, 'o) md_env \<Rightarrow> u16 \<Rightarrow> frame \<Rightarrow> rpt_entry list \<Rightarrow> ('p, 'o, 'z) shared_scheme \<Rightarrow> ('p, 'o, 'z) shared_scheme" where
  "check_entries env stream frame items sh =
     fst (run_defs (security_iterator fst (\<lambda>st. st) (\<lambda>item. check_report_sequence env stream frame (snd item)) items) () sh)"

subsection \<open>The handler\<close>

fun incremental_handler ::
    "('p, 'o) md_env \<Rightarrow> u16 \<Rightarrow> nanoseconds \<Rightarrow> frame \<Rightarrow> mdp_message \<Rightarrow> ('p, 'o) incremental
     \<Rightarrow> ('p, 'o) incremental \<times> exn option" where
  "incremental_handler env stream origin frame AdminHeartbeat12 sh = (external_latency stream origin frame sh, None)"
| "incremental_handler env stream origin frame ChannelReset4 sh = (sh, None)"
| "incremental_handler env stream origin frame (SecurityStatus30 v) sh = (on_security_status stream frame v sh, None)"
| "incremental_handler env stream origin frame (MDInstrumentDefinition v) sh = (on_instrument_definition env stream v sh, None)"
| "incremental_handler env stream origin frame (SnapshotFullRefresh52 v) sh = (sh, None)"
| "incremental_handler env stream origin frame (SnapshotFullRefreshLongQty69 v) sh = (sh, None)"
| "incremental_handler env stream origin frame (MDIncrementalRefreshBook46 v) sh = on_book_46 env stream frame v sh"
| "incremental_handler env stream origin frame (MDIncrementalRefreshBookLongQty64 es) sh = (check_entries env stream frame es sh, None)"
| "incremental_handler env stream origin frame (SnapshotFullRefreshOrderBook53 v) sh = (sh, None)"
| "incremental_handler env stream origin frame (MDIncrementalRefreshOrderBook47 v) sh = on_order_book_47 env stream frame v sh"
| "incremental_handler env stream origin frame (MDIncrementalRefreshTradeSummary48 v) sh = dispatch_trade_summary env stream frame v sh"
| "incremental_handler env stream origin frame (MDIncrementalRefreshTradeSummaryLongQty65 v) sh = dispatch_trade_summary env stream frame v sh"
| "incremental_handler env stream origin frame (MDIncrementalRefreshDailyStatistics49 v) sh =
     (dispatch_statistics env stream frame (sm_transact_time v) se_security_id se_rpt_seq statistics_of_entry (sm_md_entries v) sh, None)"
| "incremental_handler env stream origin frame (MDIncrementalRefreshSessionStatistics51 v) sh =
     (dispatch_statistics env stream frame (sm_transact_time v) se_security_id se_rpt_seq statistics_of_entry (sm_md_entries v) sh, None)"
| "incremental_handler env stream origin frame (MDIncrementalRefreshSessionStatisticsLongQty67 v) sh =
     (dispatch_statistics env stream frame (sm_transact_time v) se_security_id se_rpt_seq statistics_of_entry (sm_md_entries v) sh, None)"
| "incremental_handler env stream origin frame (MDIncrementalRefreshVolume37 v) sh =
     (dispatch_statistics env stream frame (v37_transact_time v) ve_security_id ve_rpt_seq statistics_of_volume (v37_md_entries v) sh, None)"
| "incremental_handler env stream origin frame (MDIncrementalRefreshVolumeLongQty66 es) sh = (check_entries env stream frame es sh, None)"
| "incremental_handler env stream origin frame (MDIncrementalRefreshLimitsBanding50 es) sh = (check_entries env stream frame es sh, None)"
| "incremental_handler env stream origin frame QuoteRequest39 sh = (sh, None)"

subsection \<open>The callbacks meet the contract\<close>

lemma security_callback_publish:
  "(\<And>s a e. e \<in> set (es s a) \<Longrightarrow> event_symbol e = Some (symbol s)) \<Longrightarrow>
     security_callback (\<lambda>(s, out, a). (s, out @ es s a, g s a))"
  by unfold_locales auto

lemma security_callback_acc: "security_callback f \<Longrightarrow> security_callback (\<lambda>st. apsnd (apsnd g) (f st))"
  unfolding security_callback_def by (metis apsnd_conv fst_apsnd fst_conv prod.collapse snd_conv)

text \<open>A callback chosen by the state it runs on.\<close>

lemma security_callback_choice:
  "(\<And>st. security_callback (f st)) \<Longrightarrow> security_callback (\<lambda>st. f st st)"
  unfolding security_callback_def by blast

lemma top_of_book_callback: "security_callback (dispatch_top_of_book stream frame t)"
  by unfold_locales (auto simp: dispatch_top_of_book_def)

lemma dispatch_46_callback:
  fixes env :: "('p, 'o) md_env"
  shows "security_callback (dispatch_46 env stream frame t snap)"
proof -
  let ?seq = "sequence_number frame" and ?sending = "sending_time frame"
  let ?f = "\<lambda>x st. if acc_bids (snd (snd x)) = [] \<and> acc_asks (snd (snd x)) = [] then st
     else apsnd (apsnd (\<lambda>acc. acc\<lparr>acc_bids := [], acc_asks := []\<rparr>))
       (dispatch_market_by_price env stream ?seq t ?sending (acc_bids (snd (snd x)), acc_asks (snd (snd x))) snap st)"
  let ?g = "\<lambda>x st. if acc_orders (snd (snd x)) = [] then st
     else apsnd (apsnd (\<lambda>acc. acc\<lparr>acc_orders := []\<rparr>))
       (dispatch_market_by_order env stream ?seq t ?sending (acc_orders (snd (snd x))) False st)"
  have f': "security_callback (?f x)" for x :: "('p, 'o, book_acc) sec_state"
    by (cases "acc_bids (snd (snd x)) = [] \<and> acc_asks (snd (snd x)) = []")
      (simp_all only: if_True if_False simp_thms security_callback_id security_callback_acc [OF dispatch_market_by_price_callback])
  have g': "security_callback (?g x)" for x :: "('p, 'o, book_acc) sec_state"
    by (cases "acc_orders (snd (snd x)) = []")
      (simp_all only: if_True if_False simp_thms security_callback_id security_callback_acc [OF dispatch_market_by_order_callback])
  note f = security_callback_choice [OF f'] and g = security_callback_choice [OF g']
  have "dispatch_46 env stream frame t snap = (\<lambda>st. ?g (?f (dispatch_top_of_book stream frame t st) (dispatch_top_of_book stream frame t st))
      (?f (dispatch_top_of_book stream frame t st) (dispatch_top_of_book stream frame t st)))"
    by (rule ext) (simp only: dispatch_46_def Let_def)
  then show ?thesis
    using security_callback_comp [OF security_callback_comp [OF top_of_book_callback f] g] by simp
qed

lemma entry_46_callback: "security_callback (entry_46 env item)"
  by unfold_locales (simp_all add: entry_46_def Let_def)

lemma dispatch_orders_callback:
  fixes env :: "('p, 'o) md_env"
  shows "security_callback (dispatch_orders env stream frame t snap)"
proof -
  have "security_callback (\<lambda>st :: ('p, 'o, mbo_update list) sec_state. if snd (snd x) = [] then st
      else apsnd (apsnd (\<lambda>_. [])) (dispatch_market_by_order env stream (sequence_number frame) t (sending_time frame)
        (snd (snd x)) snap st))" for x :: "('p, 'o, mbo_update list) sec_state"
    by (cases "snd (snd x) = []")
      (simp_all add: security_callback_id security_callback_acc [OF dispatch_market_by_order_callback])
  from security_callback_choice [OF this] show ?thesis by (simp add: dispatch_orders_def [abs_def])
qed

lemma flush_statistics_callback: "security_callback (flush_statistics stream frame t)"
  by unfold_locales (auto simp: flush_statistics_def)

lemma add_statistics_callback: "security_callback (add_statistics env stream frame t rpt callback item)"
proof -
  have add: "security_callback (\<lambda>st. case st of (s, out, stats) \<Rightarrow> (s, out, stats @ [callback item s]))"
    by unfold_locales simp_all
  note first = security_callback_comp [OF crs.security_callback_axioms add]
  show ?thesis
    unfolding add_statistics_def Let_def
    by (cases "rpt item = 1")
      (simp_all add: first security_callback_comp [OF security_callback_comp [OF first dispatch_market_by_price_callback]
          dispatch_market_by_order_callback])
qed

interpretation stats: iterator_callbacks "flush_statistics stream frame t" "add_statistics env stream frame t rpt callback"
  for env stream frame t rpt callback
  by (rule iterator_callbacks.intro) (rule flush_statistics_callback, rule add_statistics_callback)

interpretation checks: iterator_callbacks "\<lambda>st. st" "\<lambda>item. check_report_sequence env stream frame (snd item)"
  for env stream frame
  by (rule iterator_callbacks.intro) (rule security_callback_id, rule crs.security_callback_axioms)

subsection \<open>The handlers are safe steps\<close>

lemma dispatch_statistics_safe:
  "safe_shared sh (dispatch_statistics env stream frame t id_of rpt callback items sh)"
  unfolding dispatch_statistics_def by (rule safe_shared_run) (rule stats.iterator_safe)

lemma check_entries_safe: "safe_shared sh (check_entries env stream frame items sh)"
  unfolding check_entries_def by (rule safe_shared_run) (rule checks.iterator_safe)

lemma visit_fold_safe:
  "security_callback f \<Longrightarrow> safe_shared sh (fold (\<lambda>i sh. fst (run_defs (visit i f) () sh)) ids sh)"
  by (rule safe_shared_fold) (auto intro!: safe_shared_run security_callback.visit_safe)

lemma on_security_status_safe: "safe_shared sh (on_security_status stream frame v sh)"
proof -
  let ?f = "publish_status stream frame v"
  have f: "security_callback ?f" by unfold_locales (auto simp: publish_status_def)
  let ?sh = "if nv (ss_security_id v) \<noteq> 0 then fst (run_defs (visit (nv (ss_security_id v)) ?f) () sh) else sh"
  have "safe_shared sh ?sh" by (auto intro!: safe_shared_run security_callback.visit_safe [OF f])
  moreover have "safe_shared ?sh (fold (\<lambda>i sh. fst (run_defs (visit i ?f) () sh)) ids ?sh)" for ids
    by (rule visit_fold_safe [OF f])
  ultimately show ?thesis
    unfolding on_security_status_def Let_def
    by (auto split: option.split intro: safe_shared_trans)
qed

definition ok_46 :: "('p, 'o) security_definitions \<times> event list \<times> book_acc \<Rightarrow> ('p, 'o) loop_46 \<Rightarrow> bool" where
  "ok_46 x l \<longleftrightarrow> safe_step x (l46_dx l) \<and> (l46_found l \<longrightarrow> active (l46_security_id l) (fst (l46_dx l)))"

lemma follow_ok_46:
  assumes "ok_46 x l" and "security_callback f" and "l46_found l"
  shows "ok_46 x (l\<lparr>l46_dx := follow (l46_security_id l) f (l46_dx l)\<rparr>)"
proof -
  obtain d out a where dx: "l46_dx l = (d, out, a)" by (cases "l46_dx l") auto
  have act: "active (l46_security_id l) d" using assms(1,3) dx by (simp add: ok_46_def)
  have s: "safe_step (d, out, a) (follow (l46_security_id l) f (d, out, a))"
    by (rule security_callback.follow_safe [OF assms(2) act])
  then have "active (l46_security_id l) (fst (follow (l46_security_id l) f (d, out, a)))"
    using same_index_active act by (auto simp: safe_step_def)
  with s assms(1) dx show ?thesis by (auto simp: ok_46_def intro: safe_step_trans)
qed

lemma step_46_ok: "ok_46 x l \<Longrightarrow> ok_46 x (step_46 env stream frame t item l)"
proof -
  assume ok: "ok_46 x l"
  let ?l1 = "step_46_security env stream frame t item l"
  have l1: "ok_46 x ?l1"
  proof (cases "be_security_id item = l46_security_id l \<or> \<not> l46_found l")
    case True
    with ok show ?thesis by (auto simp: step_46_security_def ok_46_def active_def Let_def)
  next
    case False
    with follow_ok_46 [OF ok dispatch_46_callback] show ?thesis
      by (auto simp: step_46_security_def ok_46_def active_def Let_def)
  qed
  let ?l2 = "if be_rpt_seq item = 1 then ?l1\<lparr>l46_is_snapshot := True, l46_workaround := True\<rparr> else ?l1"
  have l2: "ok_46 x ?l2" using l1 by (simp add: ok_46_def)
  let ?l3 = "if l46_found ?l2 then ?l2\<lparr>l46_dx := follow (l46_security_id ?l2)
      (check_report_sequence env stream frame (be_rpt_seq item)) (l46_dx ?l2)\<rparr> else ?l2"
  have l3: "ok_46 x ?l3" using l2 follow_ok_46 [OF l2 crs.security_callback_axioms] by simp
  let ?l4 = "if enable_market_by_order env
      then ?l3\<lparr>l46_md_entries := l46_md_entries ?l3 @
        [(l46_security_id ?l3, map_entry_type_book (be_entry_type item), map_price (be_px item))]\<rparr> else ?l3"
  have l4: "ok_46 x ?l4" using l3 by (simp add: ok_46_def)
  have "ok_46 x (if l46_found ?l4 then ?l4\<lparr>l46_dx := follow (l46_security_id ?l4) (entry_46 env item) (l46_dx ?l4)\<rparr> else ?l4)"
    using l4 follow_ok_46 [OF l4 entry_46_callback] by simp
  then show ?thesis by (simp only: step_46_def Let_def)
qed

lemma book_entries_46_safe:
  "safe_step dx (l46_dx (book_entries_46 env stream frame t items dx))"
proof -
  obtain d out a where dx: "dx = (d, out, a)" by (cases dx) auto
  let ?init = "\<lparr>l46_security_id = 0, l46_found = False, l46_is_snapshot = False, l46_workaround = False,
      l46_md_entries = [], l46_dx = dx\<rparr>"
  let ?l = "fold (step_46 env stream frame t) items ?init"
  have "ok_46 dx l \<Longrightarrow> ok_46 dx (fold (step_46 env stream frame t) items l)" for l
    by (induction items arbitrary: l) (simp_all add: step_46_ok)
  moreover have "ok_46 dx ?init" using dx by (simp add: ok_46_def)
  ultimately have "ok_46 dx ?l" by blast
  then show ?thesis
    using follow_ok_46 [of dx ?l, OF _ dispatch_46_callback]
    by (cases "l46_found ?l") (simp_all add: book_entries_46_def Let_def ok_46_def)
qed

interpretation ord46: iterator_callbacks "dispatch_orders env stream frame t snap" "\<lambda>(item, sd, price). append_order item sd price"
  for env stream frame t snap
proof (rule iterator_callbacks.intro)
  show "security_callback (dispatch_orders env stream frame t snap)" by (rule dispatch_orders_callback)
  show "security_callback (case x of (item, sd, price) \<Rightarrow> append_order item sd price)" for x
    by unfold_locales (auto simp: append_order_def split: prod.split)
qed

text \<open>The scratch list of orders is empty whenever no security is current.\<close>

definition flushed :: "('p, 'o, mbo_update list) iterator \<Rightarrow> bool" where
  "flushed it \<longleftrightarrow> (case it of (i, found, d, out, os) \<Rightarrow> (\<not> found \<longrightarrow> os = []) \<and> (found \<longrightarrow> active i d))"

lemma follow_dispatch_orders_empty:
  "active i d \<Longrightarrow> snd (snd (follow i (dispatch_orders env stream frame t snap) (d, out, os))) = []"
  by (auto simp: active_iff follow_def get_security_incl_discard_def dispatch_orders_def apsnd_def map_prod_def
      split: prod.split)

lemma order_step_46_eq:
  "order_step_46 env stream frame t snap md_entries item it =
     (let r = nv (oe_reference_id item); index = unat (word_of_int r - 1 :: u64) in
      if r = 0 \<or> \<not> index < length md_entries then it
      else case md_entries ! index of (current, sd, price) \<Rightarrow>
        iterator_step (\<lambda>_. current) (dispatch_orders env stream frame t snap)
          (\<lambda>(item, sd, price). append_order item sd price) (item, sd, price) it)"
  by (auto simp: order_step_46_def iterator_step_def Let_def split: prod.split)

lemma iterator_step_flushed:
  fixes env :: "('p, 'o) md_env"
  assumes "flushed it"
  shows "flushed (iterator_step id_of (dispatch_orders env stream frame t snap)
    (\<lambda>(item, sd, price). append_order item sd price) x it)"
proof -
  let ?disp = "dispatch_orders env stream frame t snap" and ?cb = "\<lambda>(item, sd, price). append_order item sd price"
  obtain i found d out os where it: "it = (i, found, d, out, os)" by (metis prod_cases5)
  have ok: "ord46.ok (d, out, os) it" using assms it by (auto simp: flushed_def ord46.ok_def)
  obtain i' found' d' out' os' where n: "iterator_next ?disp (id_of x) it = (i', found', d', out', os')"
    by (metis prod_cases5)
  have os': "\<not> found' \<Longrightarrow> os' = []"
    using n it assms follow_dispatch_orders_empty [of i d env stream frame t snap out os]
    by (auto simp: iterator_next_def Let_def flushed_def split: if_splits)
  have "iterator_step id_of ?disp ?cb x it = (i', found', if found' then follow i' (?cb x) (d', out', os') else (d', out', os'))"
    using n by (simp add: iterator_step_def)
  moreover have "ord46.ok (d, out, os) (iterator_step id_of ?disp ?cb x it)"
    by (rule ord46.step_ok [OF ok])
  ultimately show ?thesis using os'
    by (cases "follow i' (?cb x) (d', out', os')") (auto simp: flushed_def ord46.ok_def split: if_splits)
qed

lemma order_entries_46_props:
  fixes env :: "('p, 'o) md_env"
  shows "safe_step (d, out, os) (order_entries_46 env stream frame t snap md_entries items (d, out, os))
    \<and> (os = [] \<longrightarrow> snd (snd (order_entries_46 env stream frame t snap md_entries items (d, out, os))) = [])"
proof -
  let ?disp = "dispatch_orders env stream frame t snap"
  let ?step = "order_step_46 env stream frame t snap md_entries"
  have ok: "ord46.ok x it \<Longrightarrow> ord46.ok x (fold ?step items it)" for x and it :: "('p, 'o, mbo_update list) iterator"
    by (induction items arbitrary: it) (auto simp: order_step_46_eq Let_def ord46.step_ok split: prod.split)
  have fl: "flushed it \<Longrightarrow> flushed (fold ?step items it)" for it :: "('p, 'o, mbo_update list) iterator"
    by (induction items arbitrary: it) (auto simp: order_step_46_eq Let_def iterator_step_flushed split: prod.split)
  obtain i found d' out' os' where f: "fold ?step items (0, False, d, out, os) = (i, found, d', out', os')"
    by (metis prod_cases5)
  have st: "safe_step (d, out, os) (d', out', os')" "found \<Longrightarrow> active i d'"
    using ok [of "(d, out, os)" "(0, False, d, out, os)"] f by (auto simp: ord46.ok_def)
  have "safe_step (d, out, os) (follow i ?disp (d', out', os'))" if found
    using security_callback.follow_safe [OF dispatch_orders_callback st(2) [OF that]] st(1) by (rule safe_step_trans [rotated])
  moreover have "os' = []" if "os = []" "\<not> found"
    using fl [of "(0, False, d, out, os)"] f that by (simp add: flushed_def)
  moreover have "snd (snd (follow i ?disp (d', out', os'))) = []" if found
    by (rule follow_dispatch_orders_empty [OF st(2) [OF that]])
  ultimately show ?thesis using st(1) f by (auto simp: order_entries_46_def)
qed

lemma on_book_46_ok:
  assumes "cache_orders sh = []"
  shows "safe_shared sh (fst (on_book_46 env stream frame v sh)) \<and> snd (on_book_46 env stream frame v sh) = None
    \<and> cache_orders (fst (on_book_46 env stream frame v sh)) = []"
proof -
  let ?l = "book_entries_46 env stream frame (b46_transact_time v) (b46_md_entries v) (definitions sh, published sh, empty_acc)"
  let ?sh = "sh\<lparr>definitions := fst (l46_dx ?l), published := fst (snd (l46_dx ?l))\<rparr>"
  let ?f = "order_entries_46 env stream frame (b46_transact_time v) (l46_workaround ?l) (l46_md_entries ?l) (b46_order_entries v)"
  have "safe_step (definitions sh, published sh, empty_acc) (l46_dx ?l)" by (rule book_entries_46_safe)
  then have s1: "safe_shared sh ?sh" by (simp add: safe_shared_def safe_step_def)
  have s2: "safe_shared ?sh (fst (run_defs ?f [] ?sh))"
    by (rule safe_shared_run) (simp add: order_entries_46_props)
  obtain sh' os where r: "run_defs ?f [] ?sh = (sh', os)" by (cases "run_defs ?f [] ?sh")
  have os: "os = []"
    using arg_cong [OF r, of snd] by (simp add: run_defs_acc order_entries_46_props)
  have "safe_shared sh' (sh'\<lparr>cache_orders := []\<rparr>)" by (rule safe_shared_fields) simp_all
  with s1 s2 os r have "safe_shared sh (sh'\<lparr>cache_orders := []\<rparr>)" by (auto intro: safe_shared_trans)
  with s1 os r assms show ?thesis
    by (simp add: on_book_46_def Let_def)
qed

lemma step_47_fields:
  "definitions (snd (snd (step_47 item x))) = definitions (snd (snd x))"
  "published (snd (snd (step_47 item x))) = published (snd (snd x))"
  "cache_orders (snd (snd (step_47 item x))) = cache_orders (snd (snd x))"
  by (auto simp: step_47_def Let_def split: prod.split option.split)

lemma fold_step_47_fields:
  "definitions (snd (snd (fold step_47 items x))) = definitions (snd (snd x))"
  "published (snd (snd (fold step_47 items x))) = published (snd (snd x))"
  "cache_orders (snd (snd (fold step_47 items x))) = cache_orders (snd (snd x))"
  by (induction items arbitrary: x) (simp_all add: step_47_fields)

lemma run_defs_cache [simp]:
  "cache_orders (fst (run_defs f a sh)) = cache_orders sh"
  "cache_orders_47 (fst (run_defs f a sh)) = cache_orders_47 sh"
  "cache_security_ids_47 (fst (run_defs f a sh)) = cache_security_ids_47 sh"
  by (simp_all add: run_defs_def split: prod.split)

lemma publish_47_ok:
  "cache_orders sh = [] \<Longrightarrow>
     safe_shared sh (fst (publish_47 env stream frame t i sh)) \<and> snd (publish_47 env stream frame t i sh) = None
     \<and> cache_orders (fst (publish_47 env stream frame t i sh)) = []"
  unfolding publish_47_def
  by (auto intro!: safe_shared_run security_callback.visit_safe
      security_callback_choice [where f = "\<lambda>x. dispatch_market_by_order env stream (sequence_number frame) t (sending_time frame)
        (map mbo_of_47 (filter (\<lambda>x. o7_security_id x = i) (cache_orders_47 sh))) (rpt_seq (fst x) = 0)"]
      dispatch_market_by_order_callback)

lemma on_order_book_47_ok:
  assumes "cache_orders sh = []"
  shows "safe_shared sh (fst (on_order_book_47 env stream frame v sh)) \<and> snd (on_order_book_47 env stream frame v sh) = None
    \<and> cache_orders (fst (on_order_book_47 env stream frame v sh)) = []"
proof -
  let ?sh = "snd (snd (fold step_47 (o47_md_entries v) (0, False, sh)))"
  let ?h = "publish_47 env stream frame (o47_transact_time v)"
  have s1: "safe_shared sh ?sh" "cache_orders ?sh = []"
    using assms by (simp_all add: fold_step_47_fields safe_shared_fields)
  let ?I = "\<lambda>x. safe_shared ?sh x \<and> cache_orders x = []"
  have step: "?I (fst (?h m x)) \<and> snd (?h m x) = None" if "?I x" for m x
    using publish_47_ok [of x env stream frame "o47_transact_time v" m] that by (auto intro: safe_shared_trans)
  have d: "?I (fst (deliver ?h (cache_security_ids_47 ?sh) ?sh)) \<and> snd (deliver ?h (cache_security_ids_47 ?sh) ?sh) = None"
    by (rule deliver_ok [where I = ?I]) (use s1(2) step in auto)
  obtain sh' where sh': "deliver ?h (cache_security_ids_47 ?sh) ?sh = (sh', None)" "?I sh'"
    using d by (cases "deliver ?h (cache_security_ids_47 ?sh) ?sh") auto
  have "safe_shared sh' (sh'\<lparr>cache_orders_47 := [], cache_security_ids_47 := []\<rparr>)" by (rule safe_shared_fields) simp_all
  with s1(1) sh'(2) have "safe_shared sh (sh'\<lparr>cache_orders_47 := [], cache_security_ids_47 := []\<rparr>)"
    by (blast intro: safe_shared_trans)
  with s1 sh' assms show ?thesis by (simp add: on_order_book_47_def Let_def)
qed

subsection \<open>The invariant of the feed\<close>

lemma trade_entry_fold_cache: "cache_orders (fold (trade_entry_step env stream frame) items sh) = cache_orders sh"
  by (induction items arbitrary: sh) (simp_all add: trade_entry_step_def Let_def)

lemma publish_cache:
  "cache_orders (fst (publish_trade_orders env stream frame t i sh)) = cache_orders sh"
  "cache_orders (fst (publish_trades stream frame t i sh)) = cache_orders sh"
  by (simp_all add: publish_trade_orders_def publish_trades_def split: option.split)

lemma dispatch_trade_summary_cache:
  "cache_orders (fst (dispatch_trade_summary env stream frame v sh)) = cache_orders sh"
proof -
  let ?t = "t48_transact_time v" and ?c = "collect_fragment env stream frame v sh"
  have c: "cache_orders ?c = cache_orders sh"
    by (simp add: collect_fragment_def Let_def trade_entry_fold_cache clear_state_def)
  obtain sh1 e1 where d1: "deliver (publish_trade_orders env stream frame ?t) (security_ids ?c) ?c = (sh1, e1)"
    by (cases "deliver (publish_trade_orders env stream frame ?t) (security_ids ?c) ?c")
  have s1: "cache_orders sh1 = cache_orders ?c"
    using deliver_invariant [where I = "\<lambda>x. cache_orders x = cache_orders ?c", of "security_ids ?c"
        "publish_trade_orders env stream frame ?t" ?c] d1 by (simp add: publish_cache)
  obtain sh2 e2 where d2: "deliver (publish_trades stream frame ?t) (security_ids sh1) sh1 = (sh2, e2)"
    by (cases "deliver (publish_trades stream frame ?t) (security_ids sh1) sh1")
  have s2: "cache_orders sh2 = cache_orders sh1"
    using deliver_invariant [where I = "\<lambda>x. cache_orders x = cache_orders sh1", of "security_ids sh1"
        "publish_trades stream frame ?t" sh1] d2 by (simp add: publish_cache)
  show ?thesis
    using c s1 s2 d1 d2
    by (simp add: dispatch_trade_summary_def Let_def publish_summary_def clear_state_def split: option.split)
qed

lemma deliver_exn_in:
  assumes "\<And>m s. snd (h m s) \<in> E" and "None \<in> E"
  shows "snd (deliver h ms s) \<in> E"
proof (induction ms arbitrary: s)
  case (Cons m ms)
  then show ?case using assms(1) [of m s] by (auto split: prod.split option.split)
qed (use assms(2) in simp)

lemma publish_summary_exn: "snd (publish_summary env stream frame t sh) \<in> {None, Some UndefinedBehaviour}"
proof -
  let ?d1 = "deliver (publish_trade_orders env stream frame t) (security_ids sh) sh"
  let ?d2 = "deliver (publish_trades stream frame t) (security_ids (fst ?d1)) (fst ?d1)"
  have "snd ?d1 \<in> {None, Some UndefinedBehaviour}"
    by (rule deliver_exn_in) (auto simp: publish_trade_orders_def split: option.split)
  moreover have "snd ?d2 \<in> {None, Some UndefinedBehaviour}"
    by (rule deliver_exn_in) (auto simp: publish_trades_def split: option.split)
  ultimately show ?thesis
    by (cases ?d1; cases ?d2) (auto simp: publish_summary_def)
qed

lemma dispatch_trade_summary_exn:
  "snd (dispatch_trade_summary env stream frame v sh) \<in> {None, Some UndefinedBehaviour}"
  using publish_summary_exn [of env stream frame "t48_transact_time v" "collect_fragment env stream frame v sh"]
  by (simp add: dispatch_trade_summary_def Let_def)

text \<open>
  What a feed may publish: about the stream itself, reference data, or about a symbol that is
  not discarded.
\<close>

fun allowed_event :: "('p, 'o) security_definitions \<Rightarrow> event \<Rightarrow> bool" where
  "allowed_event d (EvStreamStatus _ _ _ _ _) = True"
| "allowed_event d (EvExternalLatency _ _) = True"
| "allowed_event d (EvReferenceData _) = True"
| "allowed_event d e = (event_symbol e \<in> Some ` active_symbols d)"

lemma allowed_eventI: "event_symbol e \<in> Some ` active_symbols d \<Longrightarrow> allowed_event d e"
  by (cases e) auto

definition good_step :: "('p, 'o, 'z) shared_scheme \<Rightarrow> ('p, 'o, 'y) shared_scheme \<Rightarrow> bool" where
  "good_step sh sh' \<longleftrightarrow> (wf_definitions (definitions sh) \<longrightarrow> wf_definitions (definitions sh')) \<and>
     active_symbols (definitions sh) \<subseteq> active_symbols (definitions sh') \<and>
     (\<exists>es. published sh' = published sh @ es \<and> (\<forall>e \<in> set es. allowed_event (definitions sh') e))"

lemma allowed_event_mono: "active_symbols d \<subseteq> active_symbols d' \<Longrightarrow> allowed_event d e \<Longrightarrow> allowed_event d' e"
  by (cases e) auto

lemma good_step_refl [simp]: "good_step sh sh"
  by (simp add: good_step_def)

lemma good_step_trans:
  assumes "good_step a b" and "good_step b c"
  shows "good_step a c"
proof -
  obtain es es' where es: "published b = published a @ es" "published c = published b @ es'"
      "\<forall>e \<in> set es. allowed_event (definitions b) e" "\<forall>e \<in> set es'. allowed_event (definitions c) e"
    using assms by (auto simp: good_step_def)
  have mono: "active_symbols (definitions b) \<subseteq> active_symbols (definitions c)" using assms(2) by (simp add: good_step_def)
  have "published c = published a @ (es @ es') \<and> (\<forall>e \<in> set (es @ es'). allowed_event (definitions c) e)"
    using es allowed_event_mono [OF mono] by auto
  then show ?thesis using assms unfolding good_step_def by blast
qed

lemma safe_good:
  assumes "safe_shared sh sh'"
  shows "good_step sh sh'"
proof -
  have i: "same_index (definitions sh) (definitions sh')" using assms by (simp add: safe_shared_def safe_step_def)
  obtain es where es: "published sh' = published sh @ es" "\<forall>e \<in> set es. event_symbol e \<in> Some ` active_symbols (definitions sh)"
    using assms by (auto simp: safe_shared_def safe_step_def)
  then have "\<forall>e \<in> set es. allowed_event (definitions sh') e"
    using same_index_symbols [OF i] by (metis allowed_eventI)
  with es(1) show ?thesis using same_index_wf [OF i] same_index_symbols [OF i] by (auto simp: good_step_def)
qed

lemma external_latency_good: "good_step sh (external_latency stream origin frame sh)"
  by (simp add: good_step_def external_latency_def)

lemma create_security_from_symbols:
  "active_symbols (definitions sh) \<subseteq> active_symbols (definitions (create_security_from env stream v sh))"
proof -
  have "find_security i (definitions sh) = Some s \<Longrightarrow> find_security i (definitions (create_security_from env stream v sh)) = Some s" for i s
    by (auto simp: create_security_from_def Let_def has_security_def find_security_def create_security_def try_emplace_apply
        split: option.splits)
  then show ?thesis unfolding active_symbols_def by blast
qed

lemma create_security_from_good: "good_step sh (create_security_from env stream v sh)"
proof (cases "has_security (id_security_id v) (definitions sh)")
  case True
  then show ?thesis by (simp add: create_security_from_known good_step_def)
next
  case False
  let ?name = "get_string_view (id_symbol v)" and ?sh = "create_security_from env stream v sh"
  have "?name \<in> active_symbols (definitions ?sh)" if "\<not> discard_symbol env ?name"
  proof -
    have "\<exists>s. find_security (id_security_id v) (definitions ?sh) = Some s \<and> symbol s = ?name"
      using False that by (auto simp: create_security_from_def Let_def find_security_def create_security_def
          try_emplace_apply has_security_def make_security_def)
    then obtain s where s: "find_security (id_security_id v) (definitions ?sh) = Some s" "symbol s = ?name" by blast
    then have "symbol s \<in> active_symbols (definitions ?sh)" unfolding active_symbols_def by blast
    with s(2) show ?thesis by simp
  qed
  moreover have "\<exists>rd ms. published ?sh = published sh @ EvReferenceData rd # (if discard_symbol env ?name then [] else [ms])
      \<and> (\<not> discard_symbol env ?name \<longrightarrow> event_symbol ms = Some ?name)"
    using False by (auto simp: create_security_from_def Let_def publish_definition_def make_security_def
        create_market_status_def make_info_def)
  ultimately have "\<exists>es. published ?sh = published sh @ es \<and> (\<forall>e \<in> set es. allowed_event (definitions ?sh) e)"
    by (fastforce intro: allowed_eventI)
  then show ?thesis
    using create_security_from_wf create_security_from_symbols [of sh env stream v] by (auto simp: good_step_def)
qed

lemma on_instrument_definition_good: "good_step sh (on_instrument_definition env stream v sh)"
proof (cases "id_kind v = Future54 \<or> securities (definitions sh) (id_security_id v) = None")
  case True
  then show ?thesis
    using create_security_from_good [of sh env stream v]
    by (auto simp: on_instrument_definition_def run_defs_def follow_def get_security_incl_discard_def good_step_def)
next
  case False
  then obtain s where s: "securities (definitions sh) (id_security_id v) = Some s" by auto
  have act: "symbol s \<in> active_symbols (definitions sh)" if "\<not> discard s"
  proof -
    have "find_security (id_security_id v) (definitions sh) = Some s" using s that by (simp add: find_security_def)
    then show ?thesis unfolding active_symbols_def by blast
  qed
  have upd: "(definitions sh)\<lparr>securities := (securities (definitions sh))(id_security_id v \<mapsto> s)\<rparr> = definitions sh"
    using s by (simp add: fun_upd_idem)
  have "published (on_instrument_definition env stream v sh) = publish_definition stream v s (published sh)
      \<and> definitions (on_instrument_definition env stream v sh) = definitions sh"
    using False s upd by (simp add: on_instrument_definition_def run_defs_def follow_def get_security_incl_discard_def)
  then show ?thesis
    using act by (auto simp: good_step_def publish_definition_def Let_def create_market_status_def)
qed

fun is_trade_summary :: "mdp_message \<Rightarrow> bool" where
  "is_trade_summary (MDIncrementalRefreshTradeSummary48 v) = True"
| "is_trade_summary (MDIncrementalRefreshTradeSummaryLongQty65 v) = True"
| "is_trade_summary _ = False"

lemma cache_frames:
  "cache_orders (external_latency stream origin frame sh) = cache_orders sh"
  "cache_orders (create_security_from env stream v sh) = cache_orders sh"
  "cache_orders (on_instrument_definition env stream v sh) = cache_orders sh"
  "cache_orders (check_entries env stream frame items sh) = cache_orders sh"
  "cache_orders (dispatch_statistics env stream frame t id_of rpt callback items' sh) = cache_orders sh"
  by (simp_all add: external_latency_def create_security_from_def on_instrument_definition_def check_entries_def
      dispatch_statistics_def Let_def)

lemma visit_fold_cache: "cache_orders (fold (\<lambda>i sh. fst (run_defs (visit i f) () sh)) ids sh) = cache_orders sh"
  by (induction ids arbitrary: sh) simp_all

lemma on_security_status_cache: "cache_orders (on_security_status stream frame v sh) = cache_orders sh"
  by (simp add: on_security_status_def Let_def visit_fold_cache split: option.split)

lemma incremental_handler_good:
  assumes cache: "cache_orders sh = []" and run: "incremental_handler env stream origin frame m sh = (sh', x)"
  shows "good_step sh sh' \<and> cache_orders sh' = [] \<and> (x = None \<or> x = Some UndefinedBehaviour \<and> is_trade_summary m)"
proof (cases m)
  case (MDIncrementalRefreshBook46 v)
  with run cache on_book_46_ok [of sh env stream frame v] show ?thesis by (auto intro: safe_good)
next
  case (MDIncrementalRefreshOrderBook47 v)
  with run cache on_order_book_47_ok [of sh env stream frame v] show ?thesis by (auto intro: safe_good)
next
  case (MDIncrementalRefreshTradeSummary48 v)
  with run cache dispatch_trade_summary_safe [of sh env stream frame v]
    dispatch_trade_summary_exn [of env stream frame v sh] dispatch_trade_summary_cache [of env stream frame v sh]
  show ?thesis by (auto intro: safe_good)
next
  case (MDIncrementalRefreshTradeSummaryLongQty65 v)
  with run cache dispatch_trade_summary_safe [of sh env stream frame v]
    dispatch_trade_summary_exn [of env stream frame v sh] dispatch_trade_summary_cache [of env stream frame v sh]
  show ?thesis by (auto intro: safe_good)
qed (use run cache in \<open>auto simp: cache_frames on_security_status_cache
    intro: safe_good external_latency_good on_instrument_definition_good on_security_status_safe check_entries_safe
      dispatch_statistics_safe\<close>)


definition empty_incremental :: "('p, 'o) incremental" where
  "empty_incremental = shared.extend empty_shared (incremental.fields [] [] [])"

lemma empty_incremental_fields [simp]:
  "definitions empty_incremental = empty_definitions" "published empty_incremental = []"
  "cache_orders empty_incremental = []" "cache_orders_47 empty_incremental = []"
  "cache_security_ids_47 empty_incremental = []" "transact_time empty_incremental = 0"
  by (simp_all add: empty_incremental_def shared.defs incremental.defs empty_shared_def)


end
