(* ===== verification/Channel.thy ===== *)
theory Channel
  imports Incremental
begin

section \<open>Channels: the order of packets\<close>

text \<open>
  \<^verbatim>\<open>market_data/channel.hpp\<close> and \<^verbatim>\<open>Incremental::dispatch\<close>. Both feeds of a
  channel deliver the same packets over a lossy network. A packet with the next sequence
  number is processed, an old one is dropped, one that is ahead is held in a buffer, and
  after every packet the buffer is drained as far as the sequence is complete. When the
  buffer is full everything is reset. The buffer (\<^verbatim>\<open>core::udp::Buffer\<close>) is library
  code: its operations are a parameter. Processing a packet is a parameter \<open>process\<close> here;
  \<open>incremental_dispatch\<close> below instantiates it with the parser and the handlers.
\<close>

record 'b udp_buffer =
  capacity :: nat
  has_free :: "'b \<Rightarrow> bool"
  hold_packet :: "u32 \<Rightarrow> bytes \<Rightarrow> 'b \<Rightarrow> 'b"
  take_packet :: "u32 \<Rightarrow> 'b \<Rightarrow> (bytes \<times> 'b) option"
  clear_buffer :: "'b \<Rightarrow> 'b"

record 'b channel =
  first_sequence_number :: u32
  last_sequence_number :: u32
  reorder_buffer :: 'b

definition update_sequence_number :: "u32 \<Rightarrow> 'b channel \<Rightarrow> 'b channel" where
  "update_sequence_number n ch =
     ch\<lparr>first_sequence_number := (if first_sequence_number ch = 0 then n else first_sequence_number ch),
        last_sequence_number := n\<rparr>"

datatype verdict = Drop | Hold | Process

definition classify :: "nat \<Rightarrow> 'b channel \<Rightarrow> u32 \<Rightarrow> verdict" where
  "classify filter_below ch n =
     (if unat n < filter_below then Drop
      else if first_sequence_number ch = 0 then Process
      else let next_sequence_number = last_sequence_number ch + 1 in
        if n < next_sequence_number then Drop
        else if n > next_sequence_number then Hold else Process)"

text \<open>The body of \<^verbatim>\<open>buffer.next\<close>; a packet whose frame does not parse is ignored.\<close>

definition receive ::
    "'b udp_buffer \<Rightarrow> nat \<Rightarrow> (bytes \<Rightarrow> 's \<Rightarrow> 's \<times> exn option) \<Rightarrow> bytes \<Rightarrow> 'b channel \<times> 's
     \<Rightarrow> ('b channel \<times> 's) \<times> exn option" where
  "receive ops filter_below process payload st =
     (case st of (ch, s) \<Rightarrow>
        if capacity ops < length payload then (st, Some AssertFailed)
        else (case parse_frame payload of
                None \<Rightarrow> (st, None)
              | Some f \<Rightarrow> let n = sequence_number f in
                  (case classify filter_below ch n of
                     Drop \<Rightarrow> (st, None)
                   | Hold \<Rightarrow> ((ch\<lparr>reorder_buffer := hold_packet ops n payload (reorder_buffer ch)\<rparr>, s), None)
                   | Process \<Rightarrow> (case process payload s of (s', e) \<Rightarrow> ((update_sequence_number n ch, s'), e)))))"

text \<open>Processing withheld packets; whether the loop ends depends on the buffer.\<close>

partial_function (option) drain ::
    "'b udp_buffer \<Rightarrow> (bytes \<Rightarrow> 's \<Rightarrow> 's \<times> exn option) \<Rightarrow> 'b channel \<Rightarrow> 's \<Rightarrow> (('b channel \<times> 's) \<times> exn option) option" where
  "drain ops process ch s =
     (if first_sequence_number ch = 0 then Some ((ch, s), None)
      else let n = last_sequence_number ch + 1 in
        (case take_packet ops n (reorder_buffer ch) of
           None \<Rightarrow> Some ((ch, s), None)
         | Some (message, b) \<Rightarrow>
             (case process message s of
                (s', Some e) \<Rightarrow> Some ((update_sequence_number n (ch\<lparr>reorder_buffer := b\<rparr>), s'), Some e)
              | (s', None) \<Rightarrow> drain ops process (update_sequence_number n (ch\<lparr>reorder_buffer := b\<rparr>)) s')))"

definition arbitrate ::
    "'b udp_buffer \<Rightarrow> nat \<Rightarrow> (bytes \<Rightarrow> 's \<Rightarrow> 's \<times> exn option) \<Rightarrow> ('s \<Rightarrow> 's) \<Rightarrow> bytes \<Rightarrow> 'b channel \<times> 's
     \<Rightarrow> (('b channel \<times> 's) \<times> exn option) option" where
  "arbitrate ops filter_below process reset payload st =
     (case st of (ch, s) \<Rightarrow>
        if payload = [] then Some (st, Some AssertFailed)
        else if has_free ops (reorder_buffer ch) then
          (case receive ops filter_below process payload st of
             (st', Some e) \<Rightarrow> Some (st', Some e)
           | ((ch', s'), None) \<Rightarrow> drain ops process ch' s')
        else Some ((\<lparr>first_sequence_number = 0, last_sequence_number = 0,
                     reorder_buffer = clear_buffer ops (reorder_buffer ch)\<rparr>, reset s), None))"

subsection \<open>The incremental feed\<close>

definition on_sequence_reset :: "('p, 'o) incremental \<Rightarrow> ('p, 'o) incremental" where
  "on_sequence_reset sh = sh\<lparr>cache_orders := [], cache_orders_47 := [], cache_security_ids_47 := []\<rparr>"

definition get_supports :: "bool \<Rightarrow> support_type set" where
  "get_supports enable_mbo =
     (if enable_mbo
      then {REFERENCE_DATA, MARKET_STATUS, TOP_OF_BOOK, MARKET_BY_PRICE, MARKET_BY_ORDER, TRADE_SUMMARY, STATISTICS} \<union> {MARKET_BY_ORDER}
      else {REFERENCE_DATA, MARKET_STATUS, TOP_OF_BOOK, MARKET_BY_PRICE, MARKET_BY_ORDER, TRADE_SUMMARY, STATISTICS})"

definition incremental_process ::
    "('p, 'o) md_env \<Rightarrow> mdp_message sbe \<Rightarrow> u16 \<Rightarrow> nanoseconds \<Rightarrow> bytes \<Rightarrow> ('p, 'o) incremental
     \<Rightarrow> ('p, 'o) incremental \<times> exn option" where
  "incremental_process env sbe stream origin message sh =
     (case dispatch_packet sbe (incremental_handler env stream origin) message sh of
        (sh', Inl e) \<Rightarrow> (sh', Some e)
      | (sh', Inr _) \<Rightarrow> (sh', None))"

definition incremental_dispatch ::
    "('p, 'o) md_env \<Rightarrow> mdp_message sbe \<Rightarrow> 'b udp_buffer \<Rightarrow> nanoseconds \<Rightarrow> bytes \<Rightarrow> feed \<times> 'b channel \<times> ('p, 'o) incremental
     \<Rightarrow> ((feed \<times> 'b channel \<times> ('p, 'o) incremental) \<times> exn option) option" where
  "incremental_dispatch env sbe ops origin payload st =
     (case st of (fd, ch, sh) \<Rightarrow>
       (case publish_stream_status (get_supports (enable_market_by_order env)) READY fd (published sh) of (fd', out) \<Rightarrow>
          map_option (\<lambda>((ch', sh'), e). ((fd', ch', sh'), e))
            (arbitrate ops (filter_snapshot_from_incremental env)
               (incremental_process env sbe (feed_stream_id fd) origin) on_sequence_reset payload
               (ch, sh\<lparr>published := out\<rparr>))))"

subsection \<open>What is used of the buffer\<close>

text \<open>
  \<open>held b\<close> is the set of packets in the buffer with their sequence numbers. Holding a packet
  adds it (or keeps another copy of the same number), taking a number finds a packet
  exactly if there is one and removes no other number, and the buffer is finite.
\<close>

definition buffer_laws :: "'b udp_buffer \<Rightarrow> ('b \<Rightarrow> (u32 \<times> bytes) set) \<Rightarrow> ('b \<Rightarrow> nat) \<Rightarrow> bool" where
  "buffer_laws ops held sz \<longleftrightarrow>
     (\<forall>b. held (clear_buffer ops b) = {}) \<and>
     (\<forall>b n m. has_free ops b \<longrightarrow>
        held (hold_packet ops n m b) \<subseteq> insert (n, m) (held b) \<and>
        fst ` held (hold_packet ops n m b) = insert n (fst ` held b)) \<and>
     (\<forall>b n. take_packet ops n b = None \<longleftrightarrow> n \<notin> fst ` held b) \<and>
     (\<forall>b n m b'. take_packet ops n b = Some (m, b') \<longrightarrow>
        (n, m) \<in> held b \<and> held b' \<subseteq> held b \<and> fst ` held b - {n} \<subseteq> fst ` held b' \<and> sz b' < sz b)"

lemma buffer_lawsD:
  assumes "buffer_laws ops held sz"
  shows "held (clear_buffer ops b) = {}"
    and "has_free ops b \<Longrightarrow> held (hold_packet ops n m b) \<subseteq> insert (n, m) (held b)"
    and "has_free ops b \<Longrightarrow> fst ` held (hold_packet ops n m b) = insert n (fst ` held b)"
    and "take_packet ops n b = None \<longleftrightarrow> n \<notin> fst ` held b"
    and "take_packet ops n b = Some (m, b') \<Longrightarrow> (n, m) \<in> held b"
    and "take_packet ops n b = Some (m, b') \<Longrightarrow> held b' \<subseteq> held b"
    and "take_packet ops n b = Some (m, b') \<Longrightarrow> fst ` held b - {n} \<subseteq> fst ` held b'"
    and "take_packet ops n b = Some (m, b') \<Longrightarrow> sz b' < sz b"
  using assms by (simp_all add: buffer_laws_def)

lemma update_sequence_number_fields [simp]:
  "last_sequence_number (update_sequence_number n ch) = n"
  "reorder_buffer (update_sequence_number n ch) = reorder_buffer ch"
  "first_sequence_number (update_sequence_number n ch) = (if first_sequence_number ch = 0 then n else first_sequence_number ch)"
  by (simp_all add: update_sequence_number_def)

text \<open>
  Dispatching a packet always returns: with a finite buffer the loop over the
  withheld packets ends, whatever is in the buffer and whatever processing does.
\<close>

lemma arbitrate_returns:
  assumes "buffer_laws ops held sz"
  shows "\<exists>r. arbitrate ops filter_below process reset payload st = Some r"
proof -
  have drain: "\<exists>r. drain ops process ch s = Some r" for ch s
  proof (induction "sz (reorder_buffer ch)" arbitrary: ch s rule: less_induct)
    case less
    show ?case
    proof (cases "first_sequence_number ch = 0 \<or> take_packet ops (last_sequence_number ch + 1) (reorder_buffer ch) = None")
      case True
      then show ?thesis by (subst drain.simps) auto
    next
      case False
      then obtain m b where mb: "take_packet ops (last_sequence_number ch + 1) (reorder_buffer ch) = Some (m, b)" by auto
      have "sz b < sz (reorder_buffer ch)" by (rule buffer_lawsD(8) [OF assms mb])
      with less [of "update_sequence_number (last_sequence_number ch + 1) (ch\<lparr>reorder_buffer := b\<rparr>)"] False mb
      show ?thesis by (subst drain.simps) (auto simp: Let_def split: prod.split option.split)
    qed
  qed
  show ?thesis
    using drain by (auto simp: arbitrate_def split: prod.split option.split)
qed

text \<open>What every processed packet and a reset keep, arbitration keeps, with only their exceptions and the assertions' own.\<close>

definition step_ok :: "('s \<Rightarrow> bool) \<Rightarrow> (exn \<Rightarrow> bool) \<Rightarrow> 's \<times> exn option \<Rightarrow> bool" where
  "step_ok I X r \<longleftrightarrow> I (fst r) \<and> (\<forall>x. snd r = Some x \<longrightarrow> X x)"

lemma drain_step_ok:
  assumes step: "\<And>p s. I s \<Longrightarrow> step_ok I X (process p s)"
    and "drain ops process ch s = Some r" and "I s"
  shows "step_ok (\<lambda>st. I (snd st)) X r"
proof -
  have "proc = process \<longrightarrow> I s \<longrightarrow> step_ok (\<lambda>st. I (snd st)) X r" if "drain ops proc ch s = Some r" for proc
  proof (rule drain.raw_induct [where P = "\<lambda>_ proc _ s r. proc = process \<longrightarrow> I s \<longrightarrow> step_ok (\<lambda>st. I (snd st)) X r", OF _ that], intro impI)
    fix drain ops proc ch s r
    assume IH: "\<And>ops proc ch s y. drain ops proc ch s = Some y \<Longrightarrow> proc = process \<longrightarrow> I s \<longrightarrow> step_ok (\<lambda>st. I (snd st)) X y"
      and body: "(if first_sequence_number ch = 0 then Some ((ch, s), None)
        else let n = last_sequence_number ch + 1 in
          (case take_packet ops n (reorder_buffer ch) of
             None \<Rightarrow> Some ((ch, s), None)
           | Some (message, b) \<Rightarrow>
               (case proc message s of
                  (s', None) \<Rightarrow> drain ops proc (update_sequence_number n (ch\<lparr>reorder_buffer := b\<rparr>)) s'
                | (s', Some e) \<Rightarrow> Some ((update_sequence_number n (ch\<lparr>reorder_buffer := b\<rparr>), s'), Some e)))) = Some r"
      and proc: "proc = process" and s: "I s"
    let ?n = "last_sequence_number ch + 1"
    show "step_ok (\<lambda>st. I (snd st)) X r"
    proof (cases "first_sequence_number ch = 0 \<or> take_packet ops ?n (reorder_buffer ch) = None")
      case True
      then have "r = ((ch, s), None)" using body by (auto simp: Let_def split: if_splits)
      then show ?thesis using s by (simp add: step_ok_def)
    next
      case False
      then obtain message b where take: "take_packet ops ?n (reorder_buffer ch) = Some (message, b)" by auto
      obtain s' e where p: "process message s = (s', e)" by fastforce
      have s': "I s'" "\<forall>x. e = Some x \<longrightarrow> X x" using step [OF s, of message] p by (simp_all add: step_ok_def)
      show ?thesis
      proof (cases e)
        case None
        then have "drain ops proc (update_sequence_number ?n (ch\<lparr>reorder_buffer := b\<rparr>)) s' = Some r"
          using body False take p proc by (simp add: Let_def)
        then show ?thesis using IH proc s'(1) by blast
      next
        case (Some x)
        then have "r = ((update_sequence_number ?n (ch\<lparr>reorder_buffer := b\<rparr>), s'), Some x)"
          using body False take p proc by (simp add: Let_def)
        then show ?thesis using s' Some by (simp add: step_ok_def)
      qed
    qed
  qed
  with assms(2,3) show ?thesis by blast
qed

lemma arbitrate_step_ok:
  assumes step: "\<And>p s. I s \<Longrightarrow> step_ok I X (process p s)" and reset: "\<And>s. I s \<Longrightarrow> I (reset s)" and "X AssertFailed"
    and run: "arbitrate ops filter_below process reset payload (ch, s) = Some r" and "I s"
  shows "step_ok (\<lambda>st. I (snd st)) X r"
proof -
  have rc: "step_ok (\<lambda>st. I (snd st)) X (receive ops filter_below process payload (ch, s))"
    using step [OF \<open>I s\<close>, of payload] assms(3,5)
    by (auto simp: receive_def step_ok_def Let_def split: option.split verdict.split prod.split)
  show ?thesis
  proof (cases "payload \<noteq> [] \<and> has_free ops (reorder_buffer ch)")
    case True
    obtain ch1 s1 e where r: "receive ops filter_below process payload (ch, s) = ((ch1, s1), e)"
      by (metis prod.collapse)
    show ?thesis
    proof (cases e)
      case None
      then have "drain ops process ch1 s1 = Some r" using run True r by (simp add: arbitrate_def)
      moreover have "I s1" using rc r by (simp add: step_ok_def)
      ultimately show ?thesis using drain_step_ok [where I = I and X = X] step by blast
    next
      case (Some x)
      then have "r = ((ch1, s1), e)" using run True r by (simp add: arbitrate_def)
      then show ?thesis using rc r by simp
    qed
  next
    case False
    then show ?thesis using run reset [OF \<open>I s\<close>] \<open>I s\<close> \<open>X AssertFailed\<close>
      by (auto simp: arbitrate_def step_ok_def split: if_splits)
  qed
qed

subsection \<open>Exactly once, in order\<close>

definition packet_seq :: "bytes \<Rightarrow> nat" where
  "packet_seq p = (case parse_frame p of None \<Rightarrow> 0 | Some f \<Rightarrow> unat (sequence_number f))"

text \<open>A packet of the feed: it has a frame, fits, is not filtered, and its number does not wrap.\<close>

definition feed_packet :: "'b udp_buffer \<Rightarrow> nat \<Rightarrow> bytes \<Rightarrow> bool" where
  "feed_packet ops filter_below p \<longleftrightarrow>
     p \<noteq> [] \<and> parse_frame p \<noteq> None \<and> length p \<le> capacity ops \<and>
     0 < packet_seq p \<and> packet_seq p < 2 ^ 32 - 1 \<and> filter_below \<le> packet_seq p"

fun run_packets ::
    "'b udp_buffer \<Rightarrow> nat \<Rightarrow> (bytes \<Rightarrow> 's \<Rightarrow> 's \<times> exn option) \<Rightarrow> ('s \<Rightarrow> 's) \<Rightarrow> bytes list \<Rightarrow> 'b channel \<times> 's
     \<Rightarrow> ('b channel \<times> 's) option" where
  "run_packets ops filter_below process reset [] st = Some st"
| "run_packets ops filter_below process reset (p # ps) st =
     (case arbitrate ops filter_below process reset p st of
        Some (st', None) \<Rightarrow> run_packets ops filter_below process reset ps st'
      | _ \<Rightarrow> None)"

fun never_full ::
    "'b udp_buffer \<Rightarrow> nat \<Rightarrow> (bytes \<Rightarrow> 's \<Rightarrow> 's \<times> exn option) \<Rightarrow> ('s \<Rightarrow> 's) \<Rightarrow> bytes list \<Rightarrow> 'b channel \<times> 's \<Rightarrow> bool" where
  "never_full ops filter_below process reset [] st = True"
| "never_full ops filter_below process reset (p # ps) st =
     (has_free ops (reorder_buffer (fst st)) \<and>
      (case arbitrate ops filter_below process reset p st of
         Some (st', None) \<Rightarrow> never_full ops filter_below process reset ps st'
       | _ \<Rightarrow> True))"

text \<open>
  The invariant: after the packets \<open>ps\<close>, the first of which has number \<open>f\<close>, the
  messages \<open>msgs\<close> with numbers \<open>f\<close> to \<open>n\<close> have been processed, and every
  packet beyond is in the buffer.
\<close>

definition in_order ::
    "('b \<Rightarrow> (u32 \<times> bytes) set) \<Rightarrow> (bytes \<Rightarrow> 's \<Rightarrow> 's) \<Rightarrow> 's \<Rightarrow> bytes list \<Rightarrow> nat \<Rightarrow> nat \<Rightarrow> bytes list \<Rightarrow> 'b channel \<times> 's \<Rightarrow> bool" where
  "in_order held g s0 ps f n msgs st = (case st of (ch, s) \<Rightarrow>
     first_sequence_number ch = word_of_nat f \<and> 0 < f \<and> f \<le> n \<and> n < 2 ^ 32 - 1 \<and>
     last_sequence_number ch = word_of_nat n \<and> s = fold g msgs s0 \<and> set msgs \<subseteq> set ps \<and>
     map packet_seq msgs = [f..<Suc n] \<and>
     (\<forall>k m. (k, m) \<in> held (reorder_buffer ch) \<longrightarrow> m \<in> set ps \<and> packet_seq m = unat k \<and> unat k < 2 ^ 32 - 1) \<and>
     (\<forall>p \<in> set ps. packet_seq p \<le> n \<or> word_of_nat (packet_seq p) \<in> fst ` held (reorder_buffer ch)))"

definition drained :: "('b \<Rightarrow> (u32 \<times> bytes) set) \<Rightarrow> nat \<Rightarrow> 'b channel \<times> 's \<Rightarrow> bool" where
  "drained held n st \<longleftrightarrow> word_of_nat (Suc n) \<notin> fst ` held (reorder_buffer (fst st))"

lemma word_of_nat_Suc: "(word_of_nat (Suc n) :: u32) = word_of_nat n + 1"
  by simp

lemma unat_of_nat_u32: "m < 2 ^ 32 \<Longrightarrow> unat (word_of_nat m :: u32) = m"
  by (simp add: unat_of_nat)

lemma packet_seq_less: "packet_seq p < 2 ^ 32"
  using unsigned_less [of "sequence_number _" , where ?'a = nat]
  by (cases "parse_frame p") (auto simp: packet_seq_def intro: unsigned_less [where ?'a = nat, THEN order_less_le_trans])

lemma drain_in_order:
  assumes laws: "buffer_laws ops held sz" and g: "\<forall>p s. process p s = (g p s, None)"
    and ord: "in_order held g s0 ps f n msgs (ch, s)"
  shows "\<exists>st' n' msgs'. drain ops process ch s = Some (st', None) \<and> n \<le> n' \<and>
    in_order held g s0 ps f n' msgs' st' \<and> drained held n' st'"
  using ord
proof (induction "sz (reorder_buffer ch)" arbitrary: ch s n msgs rule: less_induct)
  case less
  let ?k = "last_sequence_number ch + 1"
  have first: "first_sequence_number ch \<noteq> 0"
    using less.prems word_of_nat_u32_neq0 [of f] by (auto simp: in_order_def)
  have k: "?k = word_of_nat (Suc n)" using less.prems by (simp add: in_order_def word_of_nat_Suc add.commute)
  show ?case
  proof (cases "take_packet ops ?k (reorder_buffer ch)")
    case None
    then have "drained held n (ch, s)" using buffer_lawsD(4) [OF laws] k by (simp add: drained_def)
    with None first less.prems show ?thesis by (subst drain.simps) (auto simp: Let_def)
  next
    case (Some mb)
    obtain m b where mb: "mb = (m, b)" by (cases mb)
    note tk = Some [unfolded mb]
    let ?ch = "update_sequence_number ?k (ch\<lparr>reorder_buffer := b\<rparr>)"
    have held: "(?k, m) \<in> held (reorder_buffer ch)" "held b \<subseteq> held (reorder_buffer ch)"
        "fst ` held (reorder_buffer ch) - {?k} \<subseteq> fst ` held b" "sz b < sz (reorder_buffer ch)"
      by (rule buffer_lawsD(5) [OF laws tk], rule buffer_lawsD(6) [OF laws tk], rule buffer_lawsD(7) [OF laws tk],
          rule buffer_lawsD(8) [OF laws tk])
    have n: "n < 2 ^ 32 - 1" "f \<le> n" using less.prems by (auto simp: in_order_def)
    have uk: "unat ?k = Suc n" using unat_of_nat_u32 [of "Suc n"] n(1) unfolding k by (simp del: of_nat_Suc)
    have seq: "packet_seq m = Suc n" "Suc n < 2 ^ 32 - 1" "m \<in> set ps"
      using less.prems held(1) uk by (force simp: in_order_def)+
    have rest: "packet_seq p \<le> Suc n \<or> word_of_nat (packet_seq p) \<in> fst ` held b" if "p \<in> set ps" for p
    proof (cases "packet_seq p \<le> n")
      case False
      then have "word_of_nat (packet_seq p) \<in> fst ` held (reorder_buffer ch)"
        using less.prems that by (auto simp: in_order_def)
      moreover have "(word_of_nat (packet_seq p) :: u32) = ?k \<longleftrightarrow> packet_seq p = Suc n"
        unfolding k using packet_seq_less [of p] seq(2) by (intro word_of_nat_u32_eq) auto
      ultimately show ?thesis using held(3) by auto
    qed simp
    have "in_order held g s0 ps f (Suc n) (msgs @ [m]) (?ch, g m s)"
      using less.prems seq held(2) first n(2) k rest by (auto simp: in_order_def)
    from less.hyps [OF _ this] held(4) obtain st' n' msgs' where
      "drain ops process ?ch (g m s) = Some (st', None)" "Suc n \<le> n'" "in_order held g s0 ps f n' msgs' st'" "drained held n' st'"
      by auto
    moreover have "drain ops process ch s = drain ops process ?ch (g m s)"
      using first tk g by (subst drain.simps) (simp add: Let_def)
    ultimately show ?thesis by (metis Suc_leD)
  qed
qed

lemma frame_of_feed_packet:
  assumes "feed_packet ops filter_below p"
  obtains fr where "parse_frame p = Some fr" and "sequence_number fr = word_of_nat (packet_seq p)"
proof -
  from assms obtain fr where "parse_frame p = Some fr" by (auto simp: feed_packet_def)
  then show ?thesis using that by (simp add: packet_seq_def)
qed

text \<open>The verdict on a packet of the feed, in terms of sequence numbers.\<close>

lemma classify_in_order:
  assumes "in_order held g s0 ps f n msgs (ch, s)" and "feed_packet ops filter_below p"
  shows "classify filter_below ch (word_of_nat (packet_seq p)) =
    (if packet_seq p \<le> n then Drop else if packet_seq p = Suc n then Process else Hold)"
proof -
  have first: "first_sequence_number ch \<noteq> 0" and n: "n < 2 ^ 32 - 1" and last: "last_sequence_number ch = word_of_nat n"
    using assms(1) word_of_nat_u32_neq0 [of f] by (auto simp: in_order_def)
  have p: "filter_below \<le> packet_seq p" using assms(2) by (simp add: feed_packet_def)
  have up: "unat (word_of_nat (packet_seq p) :: u32) = packet_seq p" by (rule unat_of_nat_u32 [OF packet_seq_less])
  have un: "unat (word_of_nat n + 1 :: u32) = Suc n"
    using unat_of_nat_u32 [of "Suc n"] n by (simp add: add.commute)
  show ?thesis
    using first p by (auto simp: classify_def last word_less_nat_alt up un Let_def)
qed

lemma in_order_more: "in_order held g s0 ps f n msgs st \<Longrightarrow> packet_seq p \<le> n \<Longrightarrow> in_order held g s0 (p # ps) f n msgs st"
  by (auto simp: in_order_def split: prod.splits)

text \<open>One packet of the feed: the next one is processed and the buffer drained, others are dropped or held.\<close>

lemma receive_in_order:
  assumes laws: "buffer_laws ops held sz" and g: "\<forall>p s. process p s = (g p s, None)"
    and ord: "in_order held g s0 ps f n msgs (ch, s)" and p: "feed_packet ops filter_below p"
    and free: "has_free ops (reorder_buffer ch)"
  shows "\<exists>ch' s' n' msgs'. receive ops filter_below process p (ch, s) = ((ch', s'), None) \<and>
    in_order held g s0 (p # ps) f n' msgs' (ch', s')"
proof -
  obtain fr where fr: "parse_frame p = Some fr" "sequence_number fr = word_of_nat (packet_seq p)"
    by (rule frame_of_feed_packet [OF p])
  note cl = classify_in_order [OF ord p]
  have cap: "\<not> capacity ops < length p" and big: "packet_seq p < 2 ^ 32 - 1" using p by (auto simp: feed_packet_def)
  have up: "unat (word_of_nat (packet_seq p) :: u32) = packet_seq p" by (rule unat_of_nat_u32 [OF packet_seq_less])
  consider "packet_seq p \<le> n" | "packet_seq p = Suc n" | "Suc n < packet_seq p" by linarith
  then show ?thesis
  proof cases
    case 1
    then show ?thesis using in_order_more [OF ord] cl fr cap by (auto simp: receive_def Let_def)
  next
    case 2
    have first: "first_sequence_number ch \<noteq> 0"
      using ord word_of_nat_u32_neq0 [of f] by (auto simp: in_order_def)
    have "in_order held g s0 (p # ps) f (Suc n) (msgs @ [p]) (update_sequence_number (word_of_nat (packet_seq p)) ch, g p s)"
      using ord 2 big first by (auto simp: in_order_def)
    with 2 cl fr cap g show ?thesis by (fastforce simp: receive_def Let_def)
  next
    case 3
    let ?b = "hold_packet ops (word_of_nat (packet_seq p)) p (reorder_buffer ch)"
    have "held ?b \<subseteq> insert (word_of_nat (packet_seq p), p) (held (reorder_buffer ch))"
      "fst ` held ?b = insert (word_of_nat (packet_seq p)) (fst ` held (reorder_buffer ch))"
      by (rule buffer_lawsD(2) [OF laws free], rule buffer_lawsD(3) [OF laws free])
    then have "in_order held g s0 (p # ps) f n msgs (ch\<lparr>reorder_buffer := ?b\<rparr>, s)"
      using ord up big by (fastforce simp: in_order_def)
    with 3 cl fr cap show ?thesis by (fastforce simp: receive_def Let_def)
  qed
qed

lemma arbitrate_in_order:
  assumes laws: "buffer_laws ops held sz" and g: "\<forall>p s. process p s = (g p s, None)"
    and ord: "in_order held g s0 ps f n msgs st" and p: "feed_packet ops filter_below p"
    and free: "has_free ops (reorder_buffer (fst st))"
  shows "\<exists>st' n' msgs'. arbitrate ops filter_below process reset p st = Some (st', None) \<and>
    in_order held g s0 (p # ps) f n' msgs' st' \<and> drained held n' st'"
proof -
  obtain ch s where st: "st = (ch, s)" by (cases st)
  have "in_order held g s0 ps f n msgs (ch, s)" "has_free ops (reorder_buffer ch)" using ord free st by simp_all
  from receive_in_order [OF laws g this(1) p this(2)]
  obtain ch' s' n' msgs' where r: "receive ops filter_below process p (ch, s) = ((ch', s'), None)"
    and ord': "in_order held g s0 (p # ps) f n' msgs' (ch', s')" by auto
  have "p \<noteq> []" using p by (simp add: feed_packet_def)
  with drain_in_order [OF laws g ord'] r free st show ?thesis by (auto simp: arbitrate_def)
qed

text \<open>The first packet of a channel is processed, whatever its number.\<close>

lemma arbitrate_first:
  assumes laws: "buffer_laws ops held sz" and g: "\<forall>p s. process p s = (g p s, None)"
    and fresh: "first_sequence_number ch = 0" "held (reorder_buffer ch) = {}"
    and p: "feed_packet ops filter_below p" and free: "has_free ops (reorder_buffer ch)"
  shows "\<exists>st' n' msgs'. arbitrate ops filter_below process reset p (ch, s0) = Some (st', None) \<and>
    in_order held g s0 [p] (packet_seq p) n' msgs' st' \<and> drained held n' st'"
proof -
  obtain fr where fr: "parse_frame p = Some fr" "sequence_number fr = word_of_nat (packet_seq p)"
    by (rule frame_of_feed_packet [OF p])
  have pp: "p \<noteq> []" "\<not> capacity ops < length p" "0 < packet_seq p" "packet_seq p < 2 ^ 32 - 1" "filter_below \<le> packet_seq p"
    using p by (auto simp: feed_packet_def)
  have up: "unat (word_of_nat (packet_seq p) :: u32) = packet_seq p" by (rule unat_of_nat_u32 [OF packet_seq_less])
  let ?ch = "update_sequence_number (word_of_nat (packet_seq p)) ch"
  have "receive ops filter_below process p (ch, s0) = ((?ch, g p s0), None)"
    using fr pp fresh(1) up g by (simp add: receive_def classify_def Let_def)
  moreover have "in_order held g s0 [p] (packet_seq p) (packet_seq p) [p] (?ch, g p s0)"
    using fresh pp by (simp add: in_order_def)
  ultimately show ?thesis
    using drain_in_order [OF laws g] pp(1) free by (fastforce simp: arbitrate_def)
qed

lemma run_in_order:
  assumes laws: "buffer_laws ops held sz" and g: "\<forall>p s. process p s = (g p s, None)"
    and "in_order held g s0 ps f n msgs st" and "drained held n st"
    and "list_all (feed_packet ops filter_below) qs" and "never_full ops filter_below process reset qs st"
  shows "\<exists>st' n' msgs'. run_packets ops filter_below process reset qs st = Some st' \<and>
    in_order held g s0 (rev qs @ ps) f n' msgs' st' \<and> drained held n' st'"
  using assms(3-6)
proof (induction qs arbitrary: ps n msgs st)
  case Nil
  then show ?case by auto
next
  case (Cons q qs)
  have "feed_packet ops filter_below q" "has_free ops (reorder_buffer (fst st))" using Cons.prems by auto
  then obtain st' n' msgs' where a: "arbitrate ops filter_below process reset q st = Some (st', None)"
      "in_order held g s0 (q # ps) f n' msgs' st'" "drained held n' st'"
    using arbitrate_in_order [OF laws g Cons.prems(1), of filter_below q] by metis
  then show ?case using Cons.IH [OF a(2,3)] Cons.prems by simp
qed

lemma in_order_result:
  assumes ord: "in_order held g s0 ps f n msgs (ch, s)" and dr: "drained held n (ch, s)"
  shows "s = fold g msgs s0 \<and> set msgs \<subseteq> set ps \<and> map packet_seq msgs = [f..<Suc n] \<and>
    {f..n} \<subseteq> packet_seq ` set ps \<and> Suc n \<notin> packet_seq ` set ps"
proof (intro conjI)
  show sub: "set msgs \<subseteq> set ps" and seqs: "map packet_seq msgs = [f..<Suc n]" and "s = fold g msgs s0"
    using ord by (simp_all add: in_order_def)
  have "{f..n} = packet_seq ` set msgs"
    unfolding image_set seqs by auto
  then show "{f..n} \<subseteq> packet_seq ` set ps" using sub by auto
  show "Suc n \<notin> packet_seq ` set ps"
  proof
    assume "Suc n \<in> packet_seq ` set ps"
    then obtain p where "p \<in> set ps" "packet_seq p = Suc n" by force
    moreover have "\<forall>p \<in> set ps. packet_seq p \<le> n \<or> word_of_nat (packet_seq p) \<in> fst ` held (reorder_buffer ch)"
      using ord unfolding in_order_def prod.case by (elim conjE)
    ultimately have "Suc n \<le> n \<or> word_of_nat (Suc n) \<in> fst ` held (reorder_buffer ch)" by metis
    then have "word_of_nat (Suc n) \<in> fst ` held (reorder_buffer ch)" by (simp only: not_less_eq_eq [symmetric] order_refl simp_thms)
    then show False using dr unfolding drained_def fst_conv by (rule notE [rotated])
  qed
qed

text \<open>
  Claim C2. Arbitration puts the packets of a channel in order: from a fresh channel, and
  however the packets of both feeds are duplicated, late, reordered or lost, as long as the
  buffer never fills up, exactly the packets numbered from the first one received up to
  the first gap are processed, each of them once and in the order of their numbers.
\<close>

theorem arbitration_in_order:
  assumes laws: "buffer_laws ops held sz" and g: "\<forall>p s. process p s = (g p s, None)"
    and fresh: "first_sequence_number ch = 0" "held (reorder_buffer ch) = {}"
    and ps: "list_all (feed_packet ops filter_below) (p # ps)"
    and free: "never_full ops filter_below process reset (p # ps) (ch, s0)"
  shows "\<exists>ch' n msgs. run_packets ops filter_below process reset (p # ps) (ch, s0) = Some (ch', fold g msgs s0) \<and>
    set msgs \<subseteq> set (p # ps) \<and> map packet_seq msgs = [packet_seq p..<Suc n] \<and>
    {packet_seq p..n} \<subseteq> packet_seq ` set (p # ps) \<and> Suc n \<notin> packet_seq ` set (p # ps)"
proof -
  have "feed_packet ops filter_below p" "has_free ops (reorder_buffer ch)" using ps free by simp_all
  from arbitrate_first [OF laws g fresh this, of reset s0]
  obtain st1 n1 msgs1 where a: "arbitrate ops filter_below process reset p (ch, s0) = Some (st1, None)"
      and ord1: "in_order held g s0 [p] (packet_seq p) n1 msgs1 st1" "drained held n1 st1"
    by auto
  obtain ch' s' n msgs where b: "run_packets ops filter_below process reset ps st1 = Some (ch', s')"
      and ord: "in_order held g s0 (rev ps @ [p]) (packet_seq p) n msgs (ch', s')" "drained held n (ch', s')"
    using run_in_order [OF laws g ord1, of filter_below ps reset] ps free a by auto
  note res = in_order_result [OF ord]
  then have "set msgs \<subseteq> set (p # ps) \<and> map packet_seq msgs = [packet_seq p..<Suc n] \<and>
    {packet_seq p..n} \<subseteq> packet_seq ` set (p # ps) \<and> Suc n \<notin> packet_seq ` set (p # ps)"
    by (simp add: insert_commute Un_commute)
  moreover have "run_packets ops filter_below process reset (p # ps) (ch, s0) = Some (ch', fold g msgs s0)"
    using a b res by simp
  ultimately show ?thesis by blast
qed

subsection \<open>A concrete buffer\<close>

definition list_buffer :: "(u32 \<times> bytes) list udp_buffer" where
  "list_buffer = \<lparr>capacity = 4096, has_free = (\<lambda>b. length b < 2), hold_packet = (\<lambda>n m b. (n, m) # b),
     take_packet = (\<lambda>n b. map_option (\<lambda>m. (m, filter (\<lambda>x. fst x \<noteq> n) b)) (map_of b n)), clear_buffer = (\<lambda>_. [])\<rparr>"

lemma length_filter_key: "map_of b n = Some m \<Longrightarrow> length (filter (\<lambda>x. fst x \<noteq> n) b) < length b"
  by (induction b) (auto split: if_splits simp: less_Suc_eq_le)

lemma list_buffer_laws: "buffer_laws list_buffer set length"
  by (auto simp: buffer_laws_def list_buffer_def map_of_eq_None_iff map_of_SomeD length_filter_key image_iff)

definition sample_packet :: "u32 \<Rightarrow> bytes" where
  "sample_packet n = encode_frame \<lparr>sequence_number = n, sending_time = 0\<rparr>"

definition sample_channel :: "(u32 \<times> bytes) list channel" where
  "sample_channel = \<lparr>first_sequence_number = 0, last_sequence_number = 0, reorder_buffer = []\<rparr>"

definition log_packet :: "bytes \<Rightarrow> nat list \<Rightarrow> nat list \<times> exn option" where
  "log_packet p s = (s @ [packet_seq p], None)"

lemma parse_sample_packet [simp]: "parse_frame (sample_packet n) = Some \<lparr>sequence_number = n, sending_time = 0\<rparr>"
  using parse_frame_encode [of "\<lparr>sequence_number = n, sending_time = 0\<rparr>" "[]"] by (simp add: sample_packet_def)

lemma sample_packet_simps [simp]:
  "packet_seq (sample_packet n) = unat n" "length (sample_packet n) = 12" "sample_packet n \<noteq> []"
  by (simp add: packet_seq_def, simp_all add: sample_packet_def frame_size_def flip: length_greater_0_conv)

theorem arbitration_in_order_witness:
  "\<exists>ch' n msgs. run_packets list_buffer 0 log_packet (\<lambda>_. []) (sample_packet 5 # map sample_packet [7, 6, 7, 9]) (sample_channel, []) =
     Some (ch', fold (\<lambda>p s. s @ [packet_seq p]) msgs []) \<and>
     set msgs \<subseteq> set (sample_packet 5 # map sample_packet [7, 6, 7, 9]) \<and>
     map packet_seq msgs = [packet_seq (sample_packet 5)..<Suc n] \<and>
     {packet_seq (sample_packet 5)..n} \<subseteq> packet_seq ` set (sample_packet 5 # map sample_packet [7, 6, 7, 9]) \<and>
     Suc n \<notin> packet_seq ` set (sample_packet 5 # map sample_packet [7, 6, 7, 9])"
proof (rule arbitration_in_order [OF list_buffer_laws])
  show "list_all (feed_packet list_buffer 0) (sample_packet 5 # map sample_packet [7, 6, 7, 9])"
    by (simp add: feed_packet_def list_buffer_def)
  show "never_full list_buffer 0 log_packet (\<lambda>_. []) (sample_packet 5 # map sample_packet [7, 6, 7, 9]) (sample_channel, [])"
    by (simp add: sample_channel_def arbitrate_def receive_def classify_def list_buffer_def log_packet_def drain.simps Let_def
        update_sequence_number_def)
qed (simp_all add: log_packet_def sample_channel_def)

end
