(* ===== verification/Recovery.thy ===== *)
theory Recovery
  imports Channel
begin

section \<open>The recovery feeds\<close>

text \<open>
  \<^verbatim>\<open>market_data/mbp_market_recovery.cpp\<close> and
  \<^verbatim>\<open>market_data/mbofd_market_recovery.cpp\<close>. The recovery feeds repeat snapshots of
  all books. A snapshot is used only for a security that waits for one
  (\<^verbatim>\<open>resubscribe\<close> is not zero) and only if it is not older than the moment it began to
  wait. A market-by-price snapshot is one message; a market-by-order snapshot comes in chunks.
\<close>

subsection \<open>Market by price (52, 69)\<close>

definition mbp_of_snapshot :: "('p, 'o) security \<Rightarrow> snapshot_entry \<Rightarrow> mbp_update" where
  "mbp_of_snapshot s item =
     (let md_price_level = nv (sn_price_level item)
      in \<lparr>mbp_price = dmul (map_price (sn_px item)) (display_factor s), mbp_quantity = double_of_int (nv (sn_size item)),
          mbp_number_of_orders = nv (sn_number_of_orders item), mbp_update_action = UA_UNDEFINED,
          mbp_price_level = (if md_price_level > 0 then word_of_int (md_price_level - 1) else 0)\<rparr>)"

definition emplace_snapshot :: "('p, 'o) security \<Rightarrow> snapshot_entry \<Rightarrow> mbp_book \<Rightarrow> mbp_book" where
  "emplace_snapshot s item book =
     (case book of (bids, asks) \<Rightarrow>
       (case sn_entry_type item of
          ET_Bid \<Rightarrow> (bids @ [mbp_of_snapshot s item], asks)
        | ET_Offer \<Rightarrow> (bids, asks @ [mbp_of_snapshot s item])
        | _ \<Rightarrow> book))"

text \<open>
  A snapshot is forced upon the sequencer when the incremental feed has been received without
  a gap since the security began to wait and up to the snapshot.
\<close>

definition recover_mbp ::
    "('p, 'o) md_env \<Rightarrow> u16 \<Rightarrow> 'b channel \<Rightarrow> u32 \<Rightarrow> nanoseconds \<Rightarrow> nanoseconds \<Rightarrow> mbp_book
     \<Rightarrow> ('p, 'o, 'a) sec_state \<Rightarrow> ('p, 'o, 'a) sec_state" where
  "recover_mbp env stream ch seq exchange_time sending book st =
     (case st of (s, out, a) \<Rightarrow>
        if mbp_resubscribe s = 0 then st
        else let force = (first_sequence_number ch \<le> mbp_resubscribe s \<and> seq \<le> last_sequence_number ch);
                 mk = (\<lambda>b t l. EvMarketByPrice (make_info stream s exchange_time l sending) (fst b) (snd b) t)
             in case sq_recover (mbp_seq env) book seq force (mbp_sequencer s) of (actions, q, bad_state) \<Rightarrow>
                  (case fold (on_action mk seq) actions (mbp_resubscribe s, out) of (resubscribe, out') \<Rightarrow>
                     (s\<lparr>mbp_sequencer := (if bad_state then sq_clear (mbp_seq env) q else q),
                        mbp_resubscribe := resubscribe\<rparr>, out', a)))"

definition on_snapshot_52 ::
    "('p, 'o) md_env \<Rightarrow> u16 \<Rightarrow> 'b channel \<Rightarrow> frame \<Rightarrow> snapshot_52 \<Rightarrow> ('p, 'o, 'a) sec_state \<Rightarrow> ('p, 'o, 'a) sec_state" where
  "on_snapshot_52 env stream ch frame v st =
     (let s = fst st; seq = s52_last_msg_seq_num_processed v in
      if mbp_resubscribe s = 0 then st
      else if seq < mbp_resubscribe s then st
      else let book = fold (emplace_snapshot s) (s52_md_entries v) ([], [])
           in if fst book = [] \<and> snd book = [] then st
              else recover_mbp env stream ch seq (s52_transact_time v) (sending_time frame) book st)"

fun mbp_recovery_handler ::
    "('p, 'o) md_env \<Rightarrow> u16 \<Rightarrow> nanoseconds \<Rightarrow> 'b channel \<Rightarrow> frame \<Rightarrow> mdp_message \<Rightarrow> ('p, 'o, 'z) shared_scheme
     \<Rightarrow> ('p, 'o, 'z) shared_scheme \<times> exn option" where
  "mbp_recovery_handler env stream origin ch frame AdminHeartbeat12 sh = (external_latency stream origin frame sh, None)"
| "mbp_recovery_handler env stream origin ch frame (SnapshotFullRefresh52 v) sh =
     (fst (run_defs (visit (s52_security_id v) (on_snapshot_52 env stream ch frame v)) () sh), None)"
| "mbp_recovery_handler env stream origin ch frame (SnapshotFullRefreshLongQty69 v) sh =
     (fst (run_defs (visit (s52_security_id v) (on_snapshot_52 env stream ch frame v)) () sh), None)"
| "mbp_recovery_handler env stream origin ch frame _ sh = (sh, None)"

definition mbp_recovery_dispatch ::
    "('p, 'o) md_env \<Rightarrow> mdp_message sbe \<Rightarrow> nanoseconds \<Rightarrow> 'b channel \<Rightarrow> bytes \<Rightarrow> feed \<times> ('p, 'o, 'z) shared_scheme
     \<Rightarrow> (feed \<times> ('p, 'o, 'z) shared_scheme) \<times> (exn + bool)" where
  "mbp_recovery_dispatch env sbe origin ch payload st =
     (case st of (fd, sh) \<Rightarrow>
       (case publish_stream_status {MARKET_BY_PRICE, STATISTICS} READY fd (published sh) of (fd', out) \<Rightarrow>
          (case dispatch_packet sbe (mbp_recovery_handler env (feed_stream_id fd) origin ch) payload
                 (sh\<lparr>published := out\<rparr>) of (sh', r) \<Rightarrow> ((fd', sh'), r))))"

subsection \<open>Market by order (53)\<close>

definition mbo_of_snapshot :: "('p, 'o) security \<Rightarrow> snapshot_order_entry \<Rightarrow> mbo_update" where
  "mbo_of_snapshot s item =
     \<lparr>mbo_price = dmul (map_price (so_px item)) (display_factor s), mbo_quantity = double_of_int (so_display_qty item),
      mbo_priority = nv (so_priority item), mbo_order_id = show_int (nv (so_order_id item)),
      mbo_side = map_entry_type_book (so_entry_type item), mbo_action = NEW\<rparr>"

text \<open>Handing the collected orders to the sequencer; the times of the update are left at zero.\<close>

definition recover_mbo ::
    "('p, 'o) md_env \<Rightarrow> u16 \<Rightarrow> 'b channel \<Rightarrow> u32 \<Rightarrow> ('p, 'o, 'a) sec_state \<Rightarrow> ('p, 'o, 'a) sec_state" where
  "recover_mbo env stream ch seq st =
     (case st of (s, out, a) \<Rightarrow>
        let force = (first_sequence_number ch \<le> mbo_resubscribe s \<and> seq \<le> last_sequence_number ch);
            mk = (\<lambda>b t l. EvMarketByOrder (make_info stream s 0 l 0) b t)
        in case sq_recover (mbo_seq env) (mbo_orders s) seq force (mbo_sequencer s) of (actions, q, bad_state) \<Rightarrow>
             (case fold (on_action mk seq) actions (mbo_resubscribe s, out) of (resubscribe, out') \<Rightarrow>
                (s\<lparr>mbo_sequencer := (if bad_state then sq_clear (mbo_seq env) q else q),
                   mbo_resubscribe := resubscribe\<rparr>, out', a)))"

definition on_chunk_53 ::
    "('p, 'o) md_env \<Rightarrow> u16 \<Rightarrow> 'b channel \<Rightarrow> snapshot_53 \<Rightarrow> bool \<Rightarrow> ('p, 'o, 'a) sec_state \<Rightarrow> ('p, 'o, 'a) sec_state" where
  "on_chunk_53 env stream ch v final st =
     (case st of (s, x) \<Rightarrow>
        let st = (s\<lparr>mbo_orders := mbo_orders s @ map (mbo_of_snapshot s) (s53_md_entries v)\<rparr>, x)
        in if final then recover_mbo env stream ch (s53_last_msg_seq_num_processed v) st else st)"

definition on_snapshot_53 ::
    "('p, 'o) md_env \<Rightarrow> u16 \<Rightarrow> 'b channel \<Rightarrow> snapshot_53 \<Rightarrow> ('p, 'o, 'a) sec_state \<Rightarrow> ('p, 'o, 'a) sec_state" where
  "on_snapshot_53 env stream ch v st =
     (if mbo_resubscribe (fst st) = 0 then st
      else if s53_last_msg_seq_num_processed v < mbo_resubscribe (fst st) then st
      else snd (update_mbo_snapshot (s53_current_chunk v) (s53_no_chunks v) (on_chunk_53 env stream ch v) st))"

fun mbofd_recovery_handler ::
    "('p, 'o) md_env \<Rightarrow> u16 \<Rightarrow> nanoseconds \<Rightarrow> 'b channel \<Rightarrow> frame \<Rightarrow> mdp_message \<Rightarrow> ('p, 'o, 'z) shared_scheme
     \<Rightarrow> ('p, 'o, 'z) shared_scheme \<times> exn option" where
  "mbofd_recovery_handler env stream origin ch frame AdminHeartbeat12 sh = (external_latency stream origin frame sh, None)"
| "mbofd_recovery_handler env stream origin ch frame (SnapshotFullRefreshOrderBook53 v) sh =
     (fst (run_defs (visit (s53_security_id v) (on_snapshot_53 env stream ch v)) () sh), None)"
| "mbofd_recovery_handler env stream origin ch frame _ sh = (sh, None)"

definition mbofd_recovery_dispatch ::
    "('p, 'o) md_env \<Rightarrow> mdp_message sbe \<Rightarrow> nanoseconds \<Rightarrow> 'b channel \<Rightarrow> bytes \<Rightarrow> feed \<times> ('p, 'o, 'z) shared_scheme
     \<Rightarrow> (feed \<times> ('p, 'o, 'z) shared_scheme) \<times> (exn + bool)" where
  "mbofd_recovery_dispatch env sbe origin ch payload st =
     (case st of (fd, sh) \<Rightarrow>
       (case publish_stream_status {MARKET_BY_ORDER} READY fd (published sh) of (fd', out) \<Rightarrow>
          (case dispatch_packet sbe (mbofd_recovery_handler env (feed_stream_id fd) origin ch) payload
                 (sh\<lparr>published := out\<rparr>) of (sh', r) \<Rightarrow> ((fd', sh'), r))))"

subsection \<open>The callbacks meet the contract\<close>

lemma recover_mbp_callback:
  fixes env :: "('p, 'o) md_env"
  shows "security_callback (recover_mbp env stream ch seq t sending book)"
proof
  fix s :: "('p, 'o) security" and out a
  let ?mk = "\<lambda>b u l. EvMarketByPrice (make_info stream s t l sending) (fst b) (snd b) u"
  let ?force = "first_sequence_number ch \<le> mbp_resubscribe s \<and> seq \<le> last_sequence_number ch"
  show "identity (fst (recover_mbp env stream ch seq t sending book (s, out, a))) = identity s"
    by (simp add: recover_mbp_def Let_def split: prod.split)
  obtain acts q bad where act: "sq_recover (mbp_seq env) book seq ?force (mbp_sequencer s) = (acts, q, bad)"
    by (metis prod_cases3)
  show "\<exists>es. fst (snd (recover_mbp env stream ch seq t sending book (s, out, a))) = out @ es
      \<and> (\<forall>e \<in> set es. event_symbol e = Some (symbol s))"
    using on_action_events [of ?mk "symbol s" seq acts "mbp_resubscribe s" out]
    unfolding recover_mbp_def Let_def prod.case act
    by (cases "fold (on_action ?mk seq) acts (mbp_resubscribe s, out)") simp
qed

lemma recover_mbo_callback:
  fixes env :: "('p, 'o) md_env"
  shows "security_callback (recover_mbo env stream ch seq)"
proof
  fix s :: "('p, 'o) security" and out a
  let ?mk = "\<lambda>b u l. EvMarketByOrder (make_info stream s 0 l 0) b u"
  let ?force = "first_sequence_number ch \<le> mbo_resubscribe s \<and> seq \<le> last_sequence_number ch"
  show "identity (fst (recover_mbo env stream ch seq (s, out, a))) = identity s"
    by (simp add: recover_mbo_def Let_def split: prod.split)
  obtain acts q bad where act: "sq_recover (mbo_seq env) (mbo_orders s) seq ?force (mbo_sequencer s) = (acts, q, bad)"
    by (metis prod_cases3)
  show "\<exists>es. fst (snd (recover_mbo env stream ch seq (s, out, a))) = out @ es
      \<and> (\<forall>e \<in> set es. event_symbol e = Some (symbol s))"
    using on_action_events [of ?mk "symbol s" seq acts "mbo_resubscribe s" out]
    unfolding recover_mbo_def Let_def prod.case act
    by (cases "fold (on_action ?mk seq) acts (mbo_resubscribe s, out)") simp
qed

interpretation rmbp: security_callback "recover_mbp env stream ch seq t sending book" for env stream ch seq t sending book
  by (rule recover_mbp_callback)

interpretation rmbo: security_callback "recover_mbo env stream ch seq" for env stream ch seq
  by (rule recover_mbo_callback)

interpretation snap52: security_callback "on_snapshot_52 env stream ch frame v" for env stream ch frame v
  by unfold_locales (simp_all add: on_snapshot_52_def Let_def rmbp.keeps_identity rmbp.own_events)

definition add_chunk :: "snapshot_53 \<Rightarrow> ('p, 'o, 'a) sec_state \<Rightarrow> ('p, 'o, 'a) sec_state" where
  "add_chunk v st = (case st of (s, x) \<Rightarrow> (s\<lparr>mbo_orders := mbo_orders s @ map (mbo_of_snapshot s) (s53_md_entries v)\<rparr>, x))"

lemma on_chunk_53_eq:
  "on_chunk_53 env stream ch v final =
     (if final then \<lambda>st. recover_mbo env stream ch (s53_last_msg_seq_num_processed v) (add_chunk v st) else add_chunk v)"
  by (auto simp: on_chunk_53_def add_chunk_def Let_def fun_eq_iff)

interpretation add53: security_callback "add_chunk v" for v
  by unfold_locales (simp_all add: add_chunk_def)

interpretation chunk53: security_callback "on_chunk_53 env stream ch v final" for env stream ch v final
  unfolding on_chunk_53_eq
  by (cases final) (simp_all add: security_callback_comp add53.security_callback_axioms rmbo.security_callback_axioms)

lemma update_mbo_snapshot_callback:
  assumes cb: "\<And>final. security_callback (cb final)"
  shows "security_callback (\<lambda>st. snd (update_mbo_snapshot k n cb st))"
proof
  fix s :: "('a, 'b) security" and out a
  note id = security_callback.keeps_identity [OF cb]
  have own: "\<exists>es. fst (snd (cb b (t, out, a))) = out @ es \<and> (\<forall>e \<in> set es. event_symbol e = Some (symbol s))"
    if "symbol t = symbol s" for b t
    using security_callback.own_events [OF cb, of b t out a] that by simp
  have r: "identity (reset_chunks t) = identity t" for t :: "('a, 'b) security" by (simp add: reset_chunks_def)
  show "identity (fst (snd (update_mbo_snapshot k n cb (s, out, a)))) = identity s"
    by (simp add: update_mbo_snapshot_def r id case_prod_unfold)
  show "\<exists>es. fst (snd (snd (update_mbo_snapshot k n cb (s, out, a)))) = out @ es \<and> (\<forall>e \<in> set es. event_symbol e = Some (symbol s))"
    by (simp add: update_mbo_snapshot_def case_prod_unfold own)
qed

interpretation upd53: security_callback
    "\<lambda>st. snd (update_mbo_snapshot k n (on_chunk_53 env stream ch v) st)" for k n env stream ch v
  by (rule update_mbo_snapshot_callback) (rule chunk53.security_callback_axioms)

interpretation snap53: security_callback "on_snapshot_53 env stream ch v" for env stream ch v
  by unfold_locales (simp_all add: on_snapshot_53_def upd53.keeps_identity upd53.own_events)

subsection \<open>Properties\<close>

text \<open>Steps that keep the index and publish only what a feed may publish; a preorder.\<close>

definition quiet_step :: "('p, 'o, 'z) shared_scheme \<Rightarrow> ('p, 'o, 'z) shared_scheme \<Rightarrow> bool" where
  "quiet_step sh sh' \<longleftrightarrow> same_index (definitions sh) (definitions sh') \<and>
     (\<exists>es. published sh' = published sh @ es \<and> (\<forall>e \<in> set es. allowed_event (definitions sh) e))"

lemma allowed_event_index: "same_index d d' \<Longrightarrow> allowed_event d' e = allowed_event d e"
  by (cases e) (simp_all add: same_index_symbols)

lemma quiet_step_trans:
  assumes "quiet_step a b" and "quiet_step b c"
  shows "quiet_step a c"
proof -
  obtain es es' where es: "published b = published a @ es" "published c = published b @ es'"
      "\<forall>e \<in> set es. allowed_event (definitions a) e" "\<forall>e \<in> set es'. allowed_event (definitions b) e"
      and i: "same_index (definitions a) (definitions b)" "same_index (definitions b) (definitions c)"
    using assms by (auto simp: quiet_step_def)
  have "published c = published a @ (es @ es') \<and> (\<forall>e \<in> set (es @ es'). allowed_event (definitions a) e)"
    using es allowed_event_index [OF i(1)] by auto
  with same_index_trans [OF i] show ?thesis unfolding quiet_step_def by blast
qed

lemma quiet_step_refl [simp]: "quiet_step sh sh"
  by (simp add: quiet_step_def)

lemma safe_quiet: "safe_shared sh sh' \<Longrightarrow> quiet_step sh sh'"
  unfolding safe_shared_def safe_step_def quiet_step_def by (metis allowed_eventI fst_conv snd_conv)

lemma external_latency_quiet: "quiet_step sh (external_latency stream origin frame sh)"
  by (simp add: quiet_step_def external_latency_def)

lemma visit_quiet: "security_callback f \<Longrightarrow> quiet_step sh (fst (run_defs (visit i f) () sh))"
  by (intro safe_quiet safe_shared_run security_callback.visit_safe)

lemma mbp_recovery_handler_quiet:
  "quiet_step sh (fst (mbp_recovery_handler env stream origin ch frame m sh)) \<and>
   snd (mbp_recovery_handler env stream origin ch frame m sh) = None"
  by (cases m) (auto intro: visit_quiet external_latency_quiet snap52.security_callback_axioms)

lemma mbofd_recovery_handler_quiet:
  "quiet_step sh (fst (mbofd_recovery_handler env stream origin ch frame m sh)) \<and>
   snd (mbofd_recovery_handler env stream origin ch frame m sh) = None"
  by (cases m) (auto intro: visit_quiet external_latency_quiet snap53.security_callback_axioms)

text \<open>A packet handled by quiet steps is a quiet step, and an exception is one of the message loop.\<close>

lemma dispatch_packet_quiet:
  assumes "\<And>f m sh. quiet_step sh (fst (h f m sh)) \<and> snd (h f m sh) = None"
    and "dispatch_packet sbe h payload sh = (sh', r)"
  shows "quiet_step sh sh' \<and> (\<forall>e. r = Inl e \<longrightarrow> e = RuntimeError \<or> e = AssertFailed \<or> e = UndefinedBehaviour)"
proof -
  have "quiet_step sh (fst (dispatch_packet sbe h payload sh))"
    by (rule dispatch_packet_invariant) (use assms(1) in \<open>auto intro: quiet_step_trans\<close>)
  moreover have "e = RuntimeError \<or> e = AssertFailed \<or> e = UndefinedBehaviour" if "r = Inl e" for e
    by (rule dispatch_packet_exn [where I = "\<lambda>_. True" and h = h and s = sh and sbe = sbe and buffer = payload])
      (use assms that in auto)
  ultimately show ?thesis using assms(2) by simp
qed

lemma stream_status_quiet:
  "publish_stream_status supports status fd (published sh) = (fd', out) \<Longrightarrow> quiet_step sh (sh\<lparr>published := out\<rparr>)"
  by (auto simp: publish_stream_status_def quiet_step_def split: if_splits)

lemma quiet_dispatch:
  assumes "\<And>f m sh. quiet_step sh (fst (h f m sh)) \<and> snd (h f m sh) = None"
    and "\<exists>supports fd1 out. publish_stream_status supports READY fd (published sh) = (fd1, out) \<and>
      dispatch_packet sbe h payload (sh\<lparr>published := out\<rparr>) = (sh', r)"
  shows "quiet_step sh sh' \<and> (\<forall>e. r = Inl e \<longrightarrow> e = RuntimeError \<or> e = AssertFailed \<or> e = UndefinedBehaviour)"
proof -
  from assms(2) obtain supports fd1 out where st: "publish_stream_status supports READY fd (published sh) = (fd1, out)"
      and run: "dispatch_packet sbe h payload (sh\<lparr>published := out\<rparr>) = (sh', r)" by blast
  from dispatch_packet_quiet [OF assms(1) run] quiet_step_trans [OF stream_status_quiet [OF st]] show ?thesis by blast
qed

text \<open>
  No packet on a recovery feed, however malformed, changes the index of the security
  definitions or makes a handler throw, and everything it publishes is a stream status, a
  latency or an update about a symbol that is not discarded.
\<close>

lemma recovery_dispatch_invariant:
  assumes "dispatch = mbp_recovery_dispatch env sbe origin ch \<or> dispatch = mbofd_recovery_dispatch env sbe origin ch"
    and "dispatch payload (fd, sh) = ((fd', sh'), r)"
  shows "same_index (definitions sh) (definitions sh') \<and>
    (\<exists>es. published sh' = published sh @ es \<and> (\<forall>e \<in> set es. allowed_event (definitions sh) e)) \<and>
    (\<forall>e. r = Inl e \<longrightarrow> e = RuntimeError \<or> e = AssertFailed \<or> e = UndefinedBehaviour)"
proof -
  have "quiet_step sh sh' \<and> (\<forall>e. r = Inl e \<longrightarrow> e = RuntimeError \<or> e = AssertFailed \<or> e = UndefinedBehaviour)"
    using assms(1)
  proof
    assume "dispatch = mbp_recovery_dispatch env sbe origin ch"
    with assms(2) show ?thesis
      by (intro quiet_dispatch [where h = "mbp_recovery_handler env (feed_stream_id fd) origin ch"])
        (auto simp: mbp_recovery_dispatch_def mbp_recovery_handler_quiet split: prod.splits)
  next
    assume "dispatch = mbofd_recovery_dispatch env sbe origin ch"
    with assms(2) show ?thesis
      by (intro quiet_dispatch [where h = "mbofd_recovery_handler env (feed_stream_id fd) origin ch"])
        (auto simp: mbofd_recovery_dispatch_def mbofd_recovery_handler_quiet split: prod.splits)
  qed
  then show ?thesis by (simp add: quiet_step_def)
qed

text \<open>The book of a snapshot: its bids and its offers, in the order of the entries.\<close>

definition snapshot_book :: "('p, 'o) security \<Rightarrow> snapshot_entry list \<Rightarrow> mbp_book" where
  "snapshot_book s items =
     (map (mbp_of_snapshot s) (filter (\<lambda>i. sn_entry_type i = ET_Bid) items),
      map (mbp_of_snapshot s) (filter (\<lambda>i. sn_entry_type i = ET_Offer) items))"

lemma emplace_snapshot_fold:
  "fold (emplace_snapshot s) items (bids, asks) =
     (bids @ fst (snapshot_book s items), asks @ snd (snapshot_book s items))"
  by (induction items arbitrary: bids asks)
    (auto simp: emplace_snapshot_def snapshot_book_def split: md_entry_type.split)

lemma snapshot_book_cong: "display_factor s = display_factor t \<Longrightarrow> snapshot_book s items = snapshot_book t items"
  by (simp add: snapshot_book_def mbp_of_snapshot_def)

lemma snapshot_book_empty:
  "(fst (snapshot_book s items) = [] \<and> snd (snapshot_book s items) = []) \<longleftrightarrow>
     (\<forall>i \<in> set items. sn_entry_type i \<noteq> ET_Bid \<and> sn_entry_type i \<noteq> ET_Offer)"
  by (auto simp: snapshot_book_def filter_empty_conv)


text \<open>
  A market-by-order snapshot as the feed sends it: the messages of its chunks, each repeated
  any number of times.
\<close>

definition chunk_message :: "int \<Rightarrow> u32 \<Rightarrow> nat \<Rightarrow> nat \<times> snapshot_order_entry list \<Rightarrow> snapshot_53" where
  "chunk_message i seq n c =
     \<lparr>s53_last_msg_seq_num_processed = seq, s53_security_id = i, s53_no_chunks = word_of_nat n,
      s53_current_chunk = word_of_nat (fst c), s53_md_entries = snd c\<rparr>"

definition chunk_messages :: "int \<Rightarrow> u32 \<Rightarrow> snapshot_order_entry list list \<Rightarrow> (nat \<Rightarrow> nat) \<Rightarrow> snapshot_53 list" where
  "chunk_messages i seq ess r = map (chunk_message i seq (length ess)) (chunk_stream ess r)"

text \<open>While the security waits, a chunk is handled as the assembly of chunks in general is.\<close>

lemma on_chunk_53_collect:
  assumes "display_factor t = display_factor s"
  shows "on_chunk_53 env stream ch v final (t, x) =
    collect (recover_mbo env stream ch (s53_last_msg_seq_num_processed v)) (map (mbo_of_snapshot s) (s53_md_entries v)) final (t, x)"
proof -
  have "mbo_of_snapshot t = mbo_of_snapshot s" using assms by (simp add: mbo_of_snapshot_def fun_eq_iff)
  then show ?thesis by (simp add: on_chunk_53_def collect_def Let_def)
qed

lemma on_snapshot_53_feed:
  assumes "display_factor t = display_factor s" and "mbo_resubscribe t \<noteq> 0" and "mbo_resubscribe t \<le> seq"
  shows "on_snapshot_53 env stream ch (chunk_message i seq n c) (t, x) =
    feed_chunk (collect (recover_mbo env stream ch seq)) n (apsnd (map (mbo_of_snapshot s)) c) (t, x)"
  using assms leD [OF assms(3)]
  by (simp add: on_snapshot_53_def feed_chunk_def chunk_message_def update_mbo_snapshot_def on_chunk_53_collect [of _ s])

text \<open>A chunk that is not the last one leaves the security waiting.\<close>

lemma feed_chunk_waiting:
  assumes "fst c < n" and "n < 2 ^ 32"
  shows "display_factor (fst (feed_chunk (collect fin) n c (t, x))) = display_factor t \<and>
    mbo_resubscribe (fst (feed_chunk (collect fin) n c (t, x))) = mbo_resubscribe t"
  using assms word_of_nat_u32_eq [of "fst c" n]
  by (auto simp: feed_chunk_def update_mbo_snapshot_def collect_def reset_chunks_def Let_def)

lemma fold_on_snapshot_53:
  assumes "\<forall>c \<in> set cs. fst c < n" and "n < 2 ^ 32"
    and "display_factor t = display_factor s" and "mbo_resubscribe t \<noteq> 0" and "mbo_resubscribe t \<le> seq"
  shows "fold (on_snapshot_53 env stream ch) (map (chunk_message i seq n) cs) (t, x) =
    fold (feed_chunk (collect (recover_mbo env stream ch seq)) n) (map (apsnd (map (mbo_of_snapshot s))) cs) (t, x)"
  using assms
proof (induction cs arbitrary: t x)
  case Nil
  then show ?case by simp
next
  case (Cons c cs)
  let ?r = "feed_chunk (collect (recover_mbo env stream ch seq)) n (apsnd (map (mbo_of_snapshot s)) c) (t, x)"
  obtain t' x' where r: "?r = (t', x')" by (cases ?r)
  have "display_factor t' = display_factor t \<and> mbo_resubscribe t' = mbo_resubscribe t"
    using feed_chunk_waiting [of "apsnd (map (mbo_of_snapshot s)) c" n "recover_mbo env stream ch seq" t x] Cons.prems r
    by simp
  then show ?case
    using Cons.IH [of t' x'] Cons.prems r on_snapshot_53_feed [of t s seq env stream ch i n c x] by simp
qed


subsection \<open>Witnesses\<close>

definition waiting_security :: "(u32, u32) security" where
  "waiting_security = (make_security 0 0 ''XCME'' ''ESU4'' (Fin 1) False)\<lparr>rpt_seq := 7, mbo_resubscribe := 3\<rparr>"

lemma waiting_security_simps [simp]:
  "rpt_seq waiting_security = 7" "no_chunks waiting_security = 0" "mbo_orders waiting_security = []"
  "mbo_resubscribe waiting_security = 3"
  by (simp_all add: waiting_security_def make_security_def)

definition sample_snapshot :: snapshot_52 where
  "sample_snapshot = \<lparr>s52_last_msg_seq_num_processed = 20, s52_security_id = 118, s52_transact_time = 5,
     s52_md_entries = [\<lparr>sn_px = sample_price 1000000000, sn_size = (4, 0), sn_number_of_orders = (1, 0),
       sn_price_level = (1, 0), sn_entry_type = ET_Bid\<rparr>]\<rparr>"

definition sample_chunk :: "int \<Rightarrow> snapshot_order_entry list" where
  "sample_chunk oid = [\<lparr>so_order_id = (oid, 0), so_priority = (1, 0), so_px = sample_price 1000000000,
     so_display_qty = 2, so_entry_type = BT_Offer\<rparr>]"



end
