(* ===== verification/ConfigReader.thy ===== *)
theory ConfigReader
  imports Prelude
begin

section \<open>The configuration files\<close>

text \<open>
  \<^verbatim>\<open>protocol/mdp/config_reader.cpp\<close> and \<^verbatim>\<open>protocol/ilink/config_reader.cpp\<close>:
  the handlers of the XML parser that read the exchange's multicast configuration and its
  order entry configuration. The XML parser (expat) is library code; what it hands to a
  handler is the list of events of the document, in which the text of an element may come in
  any number of pieces. \<^verbatim>\<open>utils::charconv::from_chars\<close> is a parameter: it returns the
  number or throws.
\<close>

datatype xml_event =
    StartElement string "(string \<times> string) list"
  | EndElement string
  | CharacterData string

subsection \<open>Strings and hash maps\<close>

definition is_ascii_space :: "char \<Rightarrow> bool" where
  "is_ascii_space c \<longleftrightarrow> c \<in> {CHR 0x09, CHR 0x0A, CHR 0x0B, CHR 0x0C, CHR 0x0D, CHR '' ''}"

definition trim :: "string \<Rightarrow> string" where
  "trim value =
     (let tmp_1 = dropWhile is_ascii_space value;
          tmp_2 = rev (dropWhile is_ascii_space (rev tmp_1))
      in tmp_2)"

text \<open>
  A hash map that is iterated over is the association list of its entries. The order of
  iteration of the code's hash maps is unspecified; the model appends a new entry at the
  end, and the properties that depend on iteration are stated for lists in any order.
\<close>

definition emplace :: "'k \<Rightarrow> 'v \<Rightarrow> ('k \<times> 'v) list \<Rightarrow> ('k \<times> 'v) list" where
  "emplace k v m = (if map_of m k = None then m @ [(k, v)] else m)"

lemma map_of_emplace: "map_of (emplace k v m) = (if map_of m k = None then (map_of m)(k \<mapsto> v) else map_of m)"
  by (auto simp: emplace_def map_add_def fun_eq_iff split: option.split)

lemma distinct_emplace [simp]: "distinct (map fst m) \<Longrightarrow> distinct (map fst (emplace k v m))"
  by (auto simp: emplace_def map_of_eq_None_iff)

text \<open>Surrounding blanks do not matter: a trimmed text is found again.\<close>

lemma trim_padded:
  assumes "\<forall>c \<in> set a. is_ascii_space c" and "\<forall>c \<in> set b. is_ascii_space c"
  shows "trim (a @ v @ b) = trim v"
proof (cases "\<forall>c \<in> set v. is_ascii_space c")
  case True
  then have "dropWhile is_ascii_space (a @ v @ b) = []" "dropWhile is_ascii_space v = []"
    using assms by (auto simp: dropWhile_eq_Nil_conv)
  then show ?thesis by (simp only: trim_def Let_def)
next
  case False
  then have "dropWhile is_ascii_space (v @ b) = dropWhile is_ascii_space v @ b"
    by (meson dropWhile_append1)
  moreover have "dropWhile is_ascii_space (a @ v @ b) = dropWhile is_ascii_space (v @ b)"
    using assms(1) by (simp add: dropWhile_append2)
  moreover have "dropWhile is_ascii_space (rev b @ w) = dropWhile is_ascii_space w" for w
    using assms(2) by (intro dropWhile_append2) auto
  ultimately show ?thesis by (simp add: trim_def)
qed

subsection \<open>The multicast configuration\<close>

record mdp_connection =
  cn_type :: string
  cn_feed_type :: string
  cn_protocol :: string
  cn_ip :: string
  cn_host_ips :: "string list"
  cn_port :: string
  cn_feed :: string

record mdp_channel =
  ch_label :: string
  ch_products :: "string set"
  ch_connections :: "(string \<times> mdp_connection) list"

datatype connection_field = CF_UNDEFINED | CF_TYPE | CF_PROTOCOL | CF_IP | CF_HOST_IP | CF_PORT | CF_FEED

definition empty_connection :: mdp_connection where
  "empty_connection = \<lparr>cn_type = [], cn_feed_type = [], cn_protocol = [], cn_ip = [], cn_host_ips = [], cn_port = [], cn_feed = []\<rparr>"

definition empty_channel :: mdp_channel where
  "empty_channel = \<lparr>ch_label = [], ch_products = {}, ch_connections = []\<rparr>"

record mdp_reader =
  mr_channel_id :: string
  mr_channel :: mdp_channel
  mr_connection_id :: string
  mr_connection_field :: connection_field
  mr_connection :: mdp_connection

definition mdp_reader_init :: mdp_reader where
  "mdp_reader_init = \<lparr>mr_channel_id = [], mr_channel = empty_channel, mr_connection_id = [],
     mr_connection_field = CF_UNDEFINED, mr_connection = empty_connection\<rparr>"

fun channel_attribute :: "string \<times> string \<Rightarrow> mdp_reader \<Rightarrow> mdp_reader" where
  "channel_attribute (key, v) r =
     (if key = ''id'' then r\<lparr>mr_channel_id := mr_channel_id r @ v\<rparr>
      else if key = ''label'' then r\<lparr>mr_channel := (mr_channel r)\<lparr>ch_label := v\<rparr>\<rparr>
      else r)"

fun product_attribute :: "string \<times> string \<Rightarrow> mdp_reader \<Rightarrow> mdp_reader" where
  "product_attribute (key, v) r =
     (if key = ''code'' then r\<lparr>mr_channel := (mr_channel r)\<lparr>ch_products := insert v (ch_products (mr_channel r))\<rparr>\<rparr> else r)"

fun connection_attribute :: "string \<times> string \<Rightarrow> mdp_reader \<Rightarrow> mdp_reader" where
  "connection_attribute (key, v) r = (if key = ''id'' then r\<lparr>mr_connection_id := v\<rparr> else r)"

fun type_attribute :: "string \<times> string \<Rightarrow> mdp_reader \<Rightarrow> mdp_reader" where
  "type_attribute (key, v) r =
     (if key = ''feed-type'' then r\<lparr>mr_connection := (mr_connection r)\<lparr>cn_feed_type := v\<rparr>\<rparr> else r)"

definition mdp_start_element :: "string \<Rightarrow> (string \<times> string) list \<Rightarrow> mdp_reader \<Rightarrow> mdp_reader" where
  "mdp_start_element name attributes r =
     (if name = ''channel'' then fold channel_attribute attributes r
      else if name = ''product'' then fold product_attribute attributes r
      else if name = ''connection'' then fold connection_attribute attributes r
      else if mr_connection_id r \<noteq> [] then
        (if name = ''type'' then fold type_attribute attributes (r\<lparr>mr_connection_field := CF_TYPE\<rparr>)
         else if name = ''protocol'' then r\<lparr>mr_connection_field := CF_PROTOCOL\<rparr>
         else if name = ''ip'' then r\<lparr>mr_connection_field := CF_IP\<rparr>
         else if name = ''host-ip'' then r\<lparr>mr_connection_field := CF_HOST_IP\<rparr>
         else if name = ''port'' then r\<lparr>mr_connection_field := CF_PORT\<rparr>
         else if name = ''feed'' then r\<lparr>mr_connection_field := CF_FEED\<rparr>
         else r)
      else r)"

fun trim_connection :: "connection_field \<Rightarrow> mdp_connection \<Rightarrow> mdp_connection" where
  "trim_connection CF_UNDEFINED c = c"
| "trim_connection CF_TYPE c = c\<lparr>cn_type := trim (cn_type c)\<rparr>"
| "trim_connection CF_PROTOCOL c = c\<lparr>cn_protocol := trim (cn_protocol c)\<rparr>"
| "trim_connection CF_IP c = c\<lparr>cn_ip := trim (cn_ip c)\<rparr>"
| "trim_connection CF_HOST_IP c = c"
| "trim_connection CF_PORT c = c\<lparr>cn_port := trim (cn_port c)\<rparr>"
| "trim_connection CF_FEED c = c\<lparr>cn_feed := trim (cn_feed c)\<rparr>"

fun append_connection :: "connection_field \<Rightarrow> string \<Rightarrow> mdp_connection \<Rightarrow> mdp_connection" where
  "append_connection CF_UNDEFINED s c = c"
| "append_connection CF_TYPE s c = c\<lparr>cn_type := cn_type c @ s\<rparr>"
| "append_connection CF_PROTOCOL s c = c\<lparr>cn_protocol := cn_protocol c @ s\<rparr>"
| "append_connection CF_IP s c = c\<lparr>cn_ip := cn_ip c @ s\<rparr>"
| "append_connection CF_HOST_IP s c = c\<lparr>cn_host_ips := cn_host_ips c @ [s]\<rparr>"
| "append_connection CF_PORT s c = c\<lparr>cn_port := cn_port c @ s\<rparr>"
| "append_connection CF_FEED s c = c\<lparr>cn_feed := cn_feed c @ s\<rparr>"

text \<open>
  The end of a channel calls the handler of the configuration, a function on a state of its
  own that may throw; then the reader is cleared.
\<close>

definition mdp_end_element ::
    "(string \<Rightarrow> exn + u16) \<Rightarrow> (u16 \<times> mdp_channel \<Rightarrow> 's \<Rightarrow> 's \<times> exn option) \<Rightarrow> string \<Rightarrow> mdp_reader \<times> 's
     \<Rightarrow> (mdp_reader \<times> 's) \<times> exn option" where
  "mdp_end_element from_chars handler name st =
     (case st of (r, s) \<Rightarrow>
        if name = ''connection'' then
          (if mr_connection_id r = [] then (st, Some AssertFailed)
           else ((r\<lparr>mr_channel := (mr_channel r)\<lparr>ch_connections := emplace (mr_connection_id r) (mr_connection r) (ch_connections (mr_channel r))\<rparr>,
                    mr_connection_id := [], mr_connection := empty_connection\<rparr>, s), None))
        else if name = ''channel'' then
          (if mr_channel_id r = [] then (st, Some AssertFailed)
           else case from_chars (mr_channel_id r) of
                  Inl e \<Rightarrow> (st, Some e)
                | Inr channel_id_2 \<Rightarrow>
                    (case handler (channel_id_2, mr_channel r) s of
                       (s', Some e) \<Rightarrow> ((r, s'), Some e)
                     | (s', None) \<Rightarrow> ((r\<lparr>mr_channel_id := [], mr_channel := empty_channel\<rparr>, s'), None)))
        else ((r\<lparr>mr_connection := trim_connection (mr_connection_field r) (mr_connection r), mr_connection_field := CF_UNDEFINED\<rparr>, s), None))"

fun mdp_xml_event ::
    "(string \<Rightarrow> exn + u16) \<Rightarrow> (u16 \<times> mdp_channel \<Rightarrow> 's \<Rightarrow> 's \<times> exn option) \<Rightarrow> xml_event \<Rightarrow> mdp_reader \<times> 's
     \<Rightarrow> (mdp_reader \<times> 's) \<times> exn option" where
  "mdp_xml_event from_chars handler (StartElement name attributes) (r, s) = ((mdp_start_element name attributes r, s), None)"
| "mdp_xml_event from_chars handler (EndElement name) (r, s) = mdp_end_element from_chars handler name (r, s)"
| "mdp_xml_event from_chars handler (CharacterData text) (r, s) =
     ((r\<lparr>mr_connection := append_connection (mr_connection_field r) text (mr_connection r)\<rparr>, s), None)"

text \<open>A file that is read: its events in order, until something throws.\<close>

definition mdp_config_dispatch ::
    "(string \<Rightarrow> exn + u16) \<Rightarrow> (u16 \<times> mdp_channel \<Rightarrow> 's \<Rightarrow> 's \<times> exn option) \<Rightarrow> xml_event list \<Rightarrow> 's \<Rightarrow> 's \<times> exn option" where
  "mdp_config_dispatch from_chars handler events s =
     (case deliver (mdp_xml_event from_chars handler) events (mdp_reader_init, s) of ((r, s'), e) \<Rightarrow> (s', e))"

lemma mdp_config_dispatch_invariant:
  assumes "\<And>a s. I s \<Longrightarrow> I (fst (handler a s))" and "I s"
  shows "I (fst (mdp_config_dispatch from_chars handler events s))"
proof -
  have "I (snd (fst (mdp_xml_event from_chars handler ev rs)))" if "I (snd rs)" for ev rs
    using that assms(1) by (cases ev; cases rs) (auto simp: mdp_end_element_def split: prod.split sum.split option.split, (metis fst_conv)+)
  then have "I (snd (fst (deliver (mdp_xml_event from_chars handler) events (mdp_reader_init, s))))"
    by (intro deliver_invariant [where I = "\<lambda>rs. I (snd rs)"]) (use assms(2) in auto)
  then show ?thesis by (simp add: mdp_config_dispatch_def case_prod_unfold)
qed

subsection \<open>What a document says\<close>

text \<open>
  A multicast configuration as its author writes it: channels with products and connections.
  The texts are lists of pieces, because that is how the XML parser may deliver them; blanks
  stand between the elements.
\<close>

record xml_connection =
  xc_id :: string
  xc_feed_type :: string
  xc_type :: "string list"
  xc_protocol :: "string list"
  xc_ip :: "string list"
  xc_host_ips :: "string list"
  xc_port :: "string list"
  xc_feed :: "string list"

record xml_channel =
  xh_id :: string
  xh_label :: string
  xh_products :: "string list"
  xh_connections :: "xml_connection list"

definition text_element :: "string \<Rightarrow> string \<Rightarrow> (string \<times> string) list \<Rightarrow> string list \<Rightarrow> xml_event list" where
  "text_element blank name attributes pieces =
     StartElement name attributes # map CharacterData pieces @ [EndElement name, CharacterData blank]"

definition connection_events :: "string \<Rightarrow> xml_connection \<Rightarrow> xml_event list" where
  "connection_events blank x =
     StartElement ''connection'' [(''id'', xc_id x)] # CharacterData blank
     # text_element blank ''type'' [(''feed-type'', xc_feed_type x)] (xc_type x)
     @ text_element blank ''protocol'' [] (xc_protocol x)
     @ text_element blank ''ip'' [] (xc_ip x)
     @ concat (map (\<lambda>t. text_element blank ''host-ip'' [] [t]) (xc_host_ips x))
     @ text_element blank ''port'' [] (xc_port x)
     @ text_element blank ''feed'' [] (xc_feed x)
     @ [EndElement ''connection'', CharacterData blank]"

definition product_events :: "string \<Rightarrow> string \<Rightarrow> xml_event list" where
  "product_events blank code = [StartElement ''product'' [(''code'', code)], EndElement ''product'', CharacterData blank]"

definition channel_events :: "string \<Rightarrow> xml_channel \<Rightarrow> xml_event list" where
  "channel_events blank c =
     [StartElement ''channel'' [(''id'', xh_id c), (''label'', xh_label c)], CharacterData blank,
      StartElement ''products'' [], CharacterData blank]
     @ concat (map (product_events blank) (xh_products c))
     @ [EndElement ''products'', CharacterData blank, StartElement ''connections'' [], CharacterData blank]
     @ concat (map (connection_events blank) (xh_connections c))
     @ [EndElement ''connections'', CharacterData blank, EndElement ''channel'', CharacterData blank]"

definition mdp_document :: "string \<Rightarrow> xml_channel list \<Rightarrow> xml_event list" where
  "mdp_document blank cs =
     [StartElement ''configuration'' [], CharacterData blank]
     @ concat (map (channel_events blank) cs) @ [EndElement ''configuration'']"

definition meant_connection :: "xml_connection \<Rightarrow> mdp_connection" where
  "meant_connection x =
     \<lparr>cn_type = trim (concat (xc_type x)), cn_feed_type = xc_feed_type x, cn_protocol = trim (concat (xc_protocol x)),
      cn_ip = trim (concat (xc_ip x)), cn_host_ips = xc_host_ips x, cn_port = trim (concat (xc_port x)),
      cn_feed = trim (concat (xc_feed x))\<rparr>"

definition meant_channel :: "xml_channel \<Rightarrow> mdp_channel" where
  "meant_channel c =
     \<lparr>ch_label = xh_label c, ch_products = set (xh_products c),
      ch_connections = fold (\<lambda>x. emplace (xc_id x) (meant_connection x)) (xh_connections c) []\<rparr>"

definition named :: "xml_channel \<Rightarrow> bool" where
  "named c \<longleftrightarrow> xh_id c \<noteq> [] \<and> (\<forall>x \<in> set (xh_connections c). xc_id x \<noteq> [])"

subsection \<open>The reader reads what a document says\<close>

lemma deliver_text:
  "deliver (mdp_xml_event fc h) (map CharacterData ps) (r, s) =
     ((r\<lparr>mr_connection := fold (append_connection (mr_connection_field r)) ps (mr_connection r)\<rparr>, s), None)"
  by (induction ps arbitrary: r) simp_all

lemma deliver_text_element:
  assumes "mr_connection_field (mdp_start_element name attrs r) = f" and "name \<noteq> ''connection''" and "name \<noteq> ''channel''"
  shows "deliver (mdp_xml_event fc h) (text_element blank name attrs ps) (r, s) =
     (((mdp_start_element name attrs r)\<lparr>mr_connection := trim_connection f (fold (append_connection f) ps (mr_connection (mdp_start_element name attrs r))),
        mr_connection_field := CF_UNDEFINED\<rparr>, s), None)"
  using assms by (simp add: text_element_def deliver_append deliver_text mdp_end_element_def)

lemma fold_append_connection [simp]:
  "fold (append_connection CF_TYPE) ps c = c\<lparr>cn_type := cn_type c @ concat ps\<rparr>"
  "fold (append_connection CF_PROTOCOL) ps c = c\<lparr>cn_protocol := cn_protocol c @ concat ps\<rparr>"
  "fold (append_connection CF_IP) ps c = c\<lparr>cn_ip := cn_ip c @ concat ps\<rparr>"
  "fold (append_connection CF_HOST_IP) ps c = c\<lparr>cn_host_ips := cn_host_ips c @ ps\<rparr>"
  "fold (append_connection CF_PORT) ps c = c\<lparr>cn_port := cn_port c @ concat ps\<rparr>"
  "fold (append_connection CF_FEED) ps c = c\<lparr>cn_feed := cn_feed c @ concat ps\<rparr>"
  by (induction ps arbitrary: c; simp)+

lemma deliver_host_ips:
  assumes "mr_connection_id r \<noteq> []" and "mr_connection_field r = CF_UNDEFINED"
  shows "deliver (mdp_xml_event fc h) (concat (map (\<lambda>t. text_element blank ''host-ip'' [] [t]) ts)) (r, s) =
     ((r\<lparr>mr_connection := (mr_connection r)\<lparr>cn_host_ips := cn_host_ips (mr_connection r) @ ts\<rparr>\<rparr>, s), None)"
  using assms
proof (induction ts arbitrary: r)
  case (Cons t ts)
  have "deliver (mdp_xml_event fc h) (text_element blank ''host-ip'' [] [t]) (r, s) =
     ((r\<lparr>mr_connection := (mr_connection r)\<lparr>cn_host_ips := cn_host_ips (mr_connection r) @ [t]\<rparr>\<rparr>, s), None)"
    using Cons.prems by (subst deliver_text_element [where f = CF_HOST_IP]) (simp_all add: mdp_start_element_def)
  then show ?case using Cons by (simp add: deliver_append)
qed simp

definition between_elements :: "mdp_reader \<Rightarrow> bool" where
  "between_elements r \<longleftrightarrow> mr_connection_id r = [] \<and> mr_connection_field r = CF_UNDEFINED \<and> mr_connection r = empty_connection"

lemma deliver_connection:
  assumes "between_elements r" and "xc_id x \<noteq> []"
  shows "deliver (mdp_xml_event fc h) (connection_events blank x) (r, s) =
     ((r\<lparr>mr_channel := (mr_channel r)\<lparr>ch_connections := emplace (xc_id x) (meant_connection x) (ch_connections (mr_channel r))\<rparr>\<rparr>, s), None)"
  using assms
  by (simp add: connection_events_def deliver_append deliver_text_element deliver_host_ips mdp_start_element_def
      mdp_end_element_def between_elements_def empty_connection_def meant_connection_def)

lemma deliver_product:
  assumes "between_elements r"
  shows "deliver (mdp_xml_event fc h) (product_events blank code) (r, s) =
     ((r\<lparr>mr_channel := (mr_channel r)\<lparr>ch_products := insert code (ch_products (mr_channel r))\<rparr>\<rparr>, s), None)"
  using assms by (simp add: product_events_def mdp_start_element_def mdp_end_element_def between_elements_def)

lemma deliver_products:
  assumes "between_elements r"
  shows "deliver (mdp_xml_event fc h) (concat (map (product_events blank) ps)) (r, s) =
     ((r\<lparr>mr_channel := (mr_channel r)\<lparr>ch_products := set ps \<union> ch_products (mr_channel r)\<rparr>\<rparr>, s), None)"
  using assms
proof (induction ps arbitrary: r)
  case (Cons p ps)
  let ?r = "r\<lparr>mr_channel := (mr_channel r)\<lparr>ch_products := insert p (ch_products (mr_channel r))\<rparr>\<rparr>"
  have "between_elements ?r" using Cons.prems by (simp add: between_elements_def)
  then show ?case using Cons deliver_product [of r fc h blank p s] by (simp add: deliver_append)
qed simp

lemma deliver_connections:
  assumes "between_elements r" and "\<forall>x \<in> set xs. xc_id x \<noteq> []"
  shows "deliver (mdp_xml_event fc h) (concat (map (connection_events blank) xs)) (r, s) =
     ((r\<lparr>mr_channel := (mr_channel r)\<lparr>ch_connections :=
          fold (\<lambda>x. emplace (xc_id x) (meant_connection x)) xs (ch_connections (mr_channel r))\<rparr>\<rparr>, s), None)"
  using assms
proof (induction xs arbitrary: r)
  case (Cons x xs)
  let ?r = "r\<lparr>mr_channel := (mr_channel r)\<lparr>ch_connections := emplace (xc_id x) (meant_connection x) (ch_connections (mr_channel r))\<rparr>\<rparr>"
  have "between_elements ?r" using Cons.prems(1) by (simp add: between_elements_def)
  then show ?case using Cons deliver_connection [of r x fc h blank s] by (simp add: deliver_append)
qed simp

lemma deliver_channel:
  assumes "named c" and "fc (xh_id c) = Inr n" and "h (n, meant_channel c) s = (s', e)"
  shows "\<exists>r. deliver (mdp_xml_event fc h) (channel_events blank c) (mdp_reader_init, s) = ((r, s'), e)
    \<and> (e = None \<longrightarrow> r = mdp_reader_init)"
proof -
  have "deliver (mdp_xml_event fc h) (channel_events blank c) (mdp_reader_init, s) =
    (case h (n, meant_channel c) s of
       (s', None) \<Rightarrow> ((mdp_reader_init, s'), None)
     | (s', Some e) \<Rightarrow> ((mdp_reader_init\<lparr>mr_channel_id := xh_id c, mr_channel := meant_channel c\<rparr>, s'), Some e))"
    using assms(1,2)
    by (simp add: channel_events_def deliver_append deliver_products deliver_connections between_elements_def named_def
        mdp_start_element_def mdp_end_element_def mdp_reader_init_def meant_channel_def empty_channel_def
        split: prod.split option.split)
  then show ?thesis using assms(3) by (cases e) simp_all
qed

lemma deliver_channels:
  assumes "\<forall>c \<in> set cs. named c \<and> fc (xh_id c) = Inr (ids c)"
  shows "\<exists>r. deliver (mdp_xml_event fc h) (concat (map (channel_events blank) cs)) (mdp_reader_init, s) =
       ((r, fst (deliver h (map (\<lambda>c. (ids c, meant_channel c)) cs) s)), snd (deliver h (map (\<lambda>c. (ids c, meant_channel c)) cs) s))
     \<and> (snd (deliver h (map (\<lambda>c. (ids c, meant_channel c)) cs) s) = None \<longrightarrow> r = mdp_reader_init)"
  using assms
proof (induction cs arbitrary: s)
  case (Cons c cs)
  obtain s' e where h: "h (ids c, meant_channel c) s = (s', e)" by fastforce
  obtain r where r: "deliver (mdp_xml_event fc h) (channel_events blank c) (mdp_reader_init, s) = ((r, s'), e)"
      "e = None \<longrightarrow> r = mdp_reader_init"
    using deliver_channel [of c fc "ids c" h s s' e blank] Cons.prems h by auto
  show ?case using Cons.IH [of s'] Cons.prems r h by (cases e) (auto simp: deliver_append)
qed simp

text \<open>
  Reading a multicast configuration calls the handler once for each channel of the
  document, in the order of the document and until the handler throws, with what the document
  says: the channel's number and label, the set of its products and, under each connection's
  identifier, the connection with the blanks around its texts removed. How the XML parser cuts
  the texts into pieces, and what blanks stand between the elements, makes no difference.
\<close>

theorem mdp_config_dispatch_document:
  assumes "\<forall>c \<in> set cs. named c \<and> from_chars (xh_id c) = Inr (ids c)"
  shows "mdp_config_dispatch from_chars handler (mdp_document blank cs) s =
    deliver handler (map (\<lambda>c. (ids c, meant_channel c)) cs) s"
proof -
  obtain r where r: "deliver (mdp_xml_event from_chars handler) (concat (map (channel_events blank) cs)) (mdp_reader_init, s) =
       ((r, fst (deliver handler (map (\<lambda>c. (ids c, meant_channel c)) cs) s)), snd (deliver handler (map (\<lambda>c. (ids c, meant_channel c)) cs) s))"
    using deliver_channels [of cs from_chars ids handler blank s] assms by blast
  have start: "mdp_start_element ''configuration'' [] mdp_reader_init = mdp_reader_init"
      "append_connection (mr_connection_field mdp_reader_init) blank (mr_connection mdp_reader_init) = mr_connection mdp_reader_init"
    by (simp_all add: mdp_start_element_def mdp_reader_init_def)
  show ?thesis
    using r start
    by (cases "deliver handler (map (\<lambda>c. (ids c, meant_channel c)) cs) s")
      (simp add: mdp_config_dispatch_def mdp_document_def deliver_append mdp_end_element_def split: option.split)
qed

subsection \<open>The order entry configuration\<close>

record market_segment =
  ms_label :: string
  ms_protocol :: string
  ms_primary_host_ip :: string
  ms_backup_host_ip :: string
  ms_dr_primary_host_ip :: string
  ms_dr_backup_host_ip :: string
  ms_to_cme_schema_version :: string
  ms_from_cme_schema_version :: string

definition empty_market_segment :: market_segment where
  "empty_market_segment = \<lparr>ms_label = [], ms_protocol = [], ms_primary_host_ip = [], ms_backup_host_ip = [],
     ms_dr_primary_host_ip = [], ms_dr_backup_host_ip = [], ms_to_cme_schema_version = [], ms_from_cme_schema_version = []\<rparr>"

datatype market_segment_field =
    MF_UNDEFINED | MF_PROTOCOL | MF_PRIMARY_HOST_IP | MF_BACKUP_HOST_IP | MF_DR_PRIMARY_HOST_IP
  | MF_DR_BACKUP_HOST_IP | MF_TO_CME_SCHEMA_VERSION | MF_FROM_CME_SCHEMA_VERSION

record ilink_reader =
  ir_market_segment_id :: string
  ir_market_segment :: market_segment
  ir_market_segment_field :: market_segment_field

definition ilink_reader_init :: ilink_reader where
  "ilink_reader_init = \<lparr>ir_market_segment_id = [], ir_market_segment = empty_market_segment, ir_market_segment_field = MF_UNDEFINED\<rparr>"

fun market_segment_attribute :: "string \<times> string \<Rightarrow> ilink_reader \<Rightarrow> ilink_reader" where
  "market_segment_attribute (key, v) r =
     (if key = ''id'' then r\<lparr>ir_market_segment_id := ir_market_segment_id r @ v\<rparr>
      else if key = ''label'' then r\<lparr>ir_market_segment := (ir_market_segment r)\<lparr>ms_label := v\<rparr>\<rparr>
      else r)"

text \<open>The elements of a market segment; \<open>None\<close> is the name that is only logged.\<close>

definition market_segment_element :: "string \<Rightarrow> market_segment_field option" where
  "market_segment_element name =
     (if name = ''protocol'' then Some MF_PROTOCOL
      else if name = ''primary-host-ip'' then Some MF_PRIMARY_HOST_IP
      else if name = ''backup-host-ip'' then Some MF_BACKUP_HOST_IP
      else if name = ''dr-primary-host-ip'' then Some MF_DR_PRIMARY_HOST_IP
      else if name = ''dr-backup-host-ip'' then Some MF_DR_BACKUP_HOST_IP
      else if name = ''ToCMESchemaVersion'' then Some MF_TO_CME_SCHEMA_VERSION
      else if name = ''FromCMESchemaVersion'' then Some MF_FROM_CME_SCHEMA_VERSION
      else None)"

definition ilink_start_element :: "string \<Rightarrow> (string \<times> string) list \<Rightarrow> ilink_reader \<Rightarrow> ilink_reader" where
  "ilink_start_element name attributes r =
     (if name = ''marketsegment'' then fold market_segment_attribute attributes r
      else if ir_market_segment_id r \<noteq> [] then
        (case market_segment_element name of Some f \<Rightarrow> r\<lparr>ir_market_segment_field := f\<rparr> | None \<Rightarrow> r)
      else r)"

fun update_market_segment :: "market_segment_field \<Rightarrow> (string \<Rightarrow> string) \<Rightarrow> market_segment \<Rightarrow> market_segment" where
  "update_market_segment MF_UNDEFINED g m = m"
| "update_market_segment MF_PROTOCOL g m = m\<lparr>ms_protocol := g (ms_protocol m)\<rparr>"
| "update_market_segment MF_PRIMARY_HOST_IP g m = m\<lparr>ms_primary_host_ip := g (ms_primary_host_ip m)\<rparr>"
| "update_market_segment MF_BACKUP_HOST_IP g m = m\<lparr>ms_backup_host_ip := g (ms_backup_host_ip m)\<rparr>"
| "update_market_segment MF_DR_PRIMARY_HOST_IP g m = m\<lparr>ms_dr_primary_host_ip := g (ms_dr_primary_host_ip m)\<rparr>"
| "update_market_segment MF_DR_BACKUP_HOST_IP g m = m\<lparr>ms_dr_backup_host_ip := g (ms_dr_backup_host_ip m)\<rparr>"
| "update_market_segment MF_TO_CME_SCHEMA_VERSION g m = m\<lparr>ms_to_cme_schema_version := g (ms_to_cme_schema_version m)\<rparr>"
| "update_market_segment MF_FROM_CME_SCHEMA_VERSION g m = m\<lparr>ms_from_cme_schema_version := g (ms_from_cme_schema_version m)\<rparr>"

definition ilink_end_element ::
    "(string \<Rightarrow> exn + u8) \<Rightarrow> (u8 \<times> market_segment \<Rightarrow> 's \<Rightarrow> 's \<times> exn option) \<Rightarrow> string \<Rightarrow> ilink_reader \<times> 's
     \<Rightarrow> (ilink_reader \<times> 's) \<times> exn option" where
  "ilink_end_element from_chars handler name st =
     (case st of (r, s) \<Rightarrow>
        if name = ''marketsegment'' then
          (if ir_market_segment_id r = [] then (st, Some AssertFailed)
           else case from_chars (ir_market_segment_id r) of
                  Inl e \<Rightarrow> (st, Some e)
                | Inr market_segment_id \<Rightarrow>
                    (case handler (market_segment_id, ir_market_segment r) s of
                       (s', Some e) \<Rightarrow> ((r, s'), Some e)
                     | (s', None) \<Rightarrow> ((r\<lparr>ir_market_segment_id := [], ir_market_segment := empty_market_segment\<rparr>, s'), None)))
        else ((r\<lparr>ir_market_segment := update_market_segment (ir_market_segment_field r) trim (ir_market_segment r),
                 ir_market_segment_field := MF_UNDEFINED\<rparr>, s), None))"

fun ilink_xml_event ::
    "(string \<Rightarrow> exn + u8) \<Rightarrow> (u8 \<times> market_segment \<Rightarrow> 's \<Rightarrow> 's \<times> exn option) \<Rightarrow> xml_event \<Rightarrow> ilink_reader \<times> 's
     \<Rightarrow> (ilink_reader \<times> 's) \<times> exn option" where
  "ilink_xml_event from_chars handler (StartElement name attributes) (r, s) = ((ilink_start_element name attributes r, s), None)"
| "ilink_xml_event from_chars handler (EndElement name) (r, s) = ilink_end_element from_chars handler name (r, s)"
| "ilink_xml_event from_chars handler (CharacterData text) (r, s) =
     ((r\<lparr>ir_market_segment := update_market_segment (ir_market_segment_field r) (\<lambda>t. t @ text) (ir_market_segment r)\<rparr>, s), None)"

definition ilink_config_dispatch ::
    "(string \<Rightarrow> exn + u8) \<Rightarrow> (u8 \<times> market_segment \<Rightarrow> 's \<Rightarrow> 's \<times> exn option) \<Rightarrow> xml_event list \<Rightarrow> 's \<Rightarrow> 's \<times> exn option" where
  "ilink_config_dispatch from_chars handler events s =
     (case deliver (ilink_xml_event from_chars handler) events (ilink_reader_init, s) of ((r, s'), e) \<Rightarrow> (s', e))"

text \<open>A market segment of a document: its elements in any order, known or not.\<close>

record xml_segment =
  xs_id :: string
  xs_label :: string
  xs_elements :: "(string \<times> string list) list"

definition segment_events :: "string \<Rightarrow> xml_segment \<Rightarrow> xml_event list" where
  "segment_events blank x =
     [StartElement ''marketsegment'' [(''id'', xs_id x), (''label'', xs_label x)], CharacterData blank]
     @ concat (map (\<lambda>(name, pieces). text_element blank name [] pieces) (xs_elements x))
     @ [EndElement ''marketsegment'', CharacterData blank]"

definition ilink_document :: "string \<Rightarrow> xml_segment list \<Rightarrow> xml_event list" where
  "ilink_document blank xs =
     [StartElement ''configuration'' [], CharacterData blank]
     @ concat (map (segment_events blank) xs) @ [EndElement ''configuration'']"

fun meant_element :: "string \<times> string list \<Rightarrow> market_segment \<Rightarrow> market_segment" where
  "meant_element (name, pieces) m =
     (case market_segment_element name of
        Some f \<Rightarrow> update_market_segment f (\<lambda>t. trim (t @ concat pieces)) m
      | None \<Rightarrow> m)"

definition meant_segment :: "xml_segment \<Rightarrow> market_segment" where
  "meant_segment x = fold meant_element (xs_elements x) (empty_market_segment\<lparr>ms_label := xs_label x\<rparr>)"

definition proper_segment :: "xml_segment \<Rightarrow> bool" where
  "proper_segment x \<longleftrightarrow> xs_id x \<noteq> [] \<and> (\<forall>e \<in> set (xs_elements x). fst e \<noteq> ''marketsegment'')"

lemma update_market_segment_comp [simp]:
  "update_market_segment f g (update_market_segment f h m) = update_market_segment f (\<lambda>t. g (h t)) m"
  by (cases f) simp_all

lemma update_market_segment_id [simp]: "update_market_segment f (\<lambda>t. t) m = m"
  by (cases f) simp_all

lemma deliver_segment_text:
  "deliver (ilink_xml_event fc h) (map CharacterData ps) (r, s) =
     ((r\<lparr>ir_market_segment := update_market_segment (ir_market_segment_field r) (\<lambda>t. t @ concat ps) (ir_market_segment r)\<rparr>, s), None)"
  by (induction ps arbitrary: r) simp_all

lemma deliver_segment_element:
  assumes "ir_market_segment_id r \<noteq> []" and "ir_market_segment_field r = MF_UNDEFINED" and "name \<noteq> ''marketsegment''"
  shows "deliver (ilink_xml_event fc h) (text_element blank name [] ps) (r, s) =
     ((r\<lparr>ir_market_segment := meant_element (name, ps) (ir_market_segment r)\<rparr>, s), None)"
  using assms
  by (cases "market_segment_element name")
    (simp_all add: text_element_def deliver_append deliver_segment_text ilink_start_element_def ilink_end_element_def)

lemma deliver_segment_elements:
  assumes "ir_market_segment_id r \<noteq> []" and "ir_market_segment_field r = MF_UNDEFINED" and "\<forall>e \<in> set es. fst e \<noteq> ''marketsegment''"
  shows "deliver (ilink_xml_event fc h) (concat (map (\<lambda>(name, pieces). text_element blank name [] pieces) es)) (r, s) =
     ((r\<lparr>ir_market_segment := fold meant_element es (ir_market_segment r)\<rparr>, s), None)"
  using assms
proof (induction es arbitrary: r)
  case (Cons e es)
  obtain name ps where e: "e = (name, ps)" by fastforce
  let ?r = "r\<lparr>ir_market_segment := meant_element (name, ps) (ir_market_segment r)\<rparr>"
  have "deliver (ilink_xml_event fc h) (text_element blank name [] ps) (r, s) = ((?r, s), None)"
    using Cons.prems e by (intro deliver_segment_element) auto
  then show ?case using Cons.IH [of ?r] Cons.prems e by (simp add: deliver_append del: meant_element.simps)
qed simp

lemma deliver_segment:
  assumes "proper_segment x" and "fc (xs_id x) = Inr n" and "h (n, meant_segment x) s = (s', e)"
  shows "\<exists>r. deliver (ilink_xml_event fc h) (segment_events blank x) (ilink_reader_init, s) = ((r, s'), e)
    \<and> (e = None \<longrightarrow> r = ilink_reader_init)"
  using assms
  by (cases e) (simp_all add: segment_events_def deliver_append deliver_segment_elements proper_segment_def
      ilink_start_element_def ilink_end_element_def ilink_reader_init_def meant_segment_def)

lemma deliver_segments:
  assumes "\<forall>x \<in> set xs. proper_segment x \<and> fc (xs_id x) = Inr (ids x)"
  shows "\<exists>r. deliver (ilink_xml_event fc h) (concat (map (segment_events blank) xs)) (ilink_reader_init, s) =
       ((r, fst (deliver h (map (\<lambda>x. (ids x, meant_segment x)) xs) s)), snd (deliver h (map (\<lambda>x. (ids x, meant_segment x)) xs) s))
     \<and> (snd (deliver h (map (\<lambda>x. (ids x, meant_segment x)) xs) s) = None \<longrightarrow> r = ilink_reader_init)"
  using assms
proof (induction xs arbitrary: s)
  case (Cons x xs)
  obtain s' e where h: "h (ids x, meant_segment x) s = (s', e)" by fastforce
  obtain r where r: "deliver (ilink_xml_event fc h) (segment_events blank x) (ilink_reader_init, s) = ((r, s'), e)"
      "e = None \<longrightarrow> r = ilink_reader_init"
    using deliver_segment [of x fc "ids x" h s s' e blank] Cons.prems h by auto
  show ?case using Cons.IH [of s'] Cons.prems r h by (cases e) (auto simp: deliver_append)
qed simp

text \<open>
  Reading an order entry configuration calls the handler once for each market
  segment of the document, in order, with its number, label and the trimmed texts of its
  elements: the elements may come in any order and in pieces, and an element with an unknown
  name changes nothing.
\<close>

theorem ilink_config_dispatch_document:
  assumes "\<forall>x \<in> set xs. proper_segment x \<and> from_chars (xs_id x) = Inr (ids x)"
  shows "ilink_config_dispatch from_chars handler (ilink_document blank xs) s =
    deliver handler (map (\<lambda>x. (ids x, meant_segment x)) xs) s"
proof -
  obtain r where r: "deliver (ilink_xml_event from_chars handler) (concat (map (segment_events blank) xs)) (ilink_reader_init, s) =
       ((r, fst (deliver handler (map (\<lambda>x. (ids x, meant_segment x)) xs) s)), snd (deliver handler (map (\<lambda>x. (ids x, meant_segment x)) xs) s))"
    using deliver_segments [of xs from_chars ids handler blank s] assms by blast
  have start: "ilink_start_element ''configuration'' [] ilink_reader_init = ilink_reader_init"
      "ir_market_segment_field ilink_reader_init = MF_UNDEFINED"
    by (simp_all add: ilink_start_element_def ilink_reader_init_def)
  show ?thesis
    using r start
    by (cases "deliver handler (map (\<lambda>x. (ids x, meant_segment x)) xs) s")
      (simp add: ilink_config_dispatch_def ilink_document_def deliver_append ilink_end_element_def split: option.split)
qed

subsection \<open>Concrete documents\<close>

definition sample_from_chars :: "string \<Rightarrow> exn + 'w::len word" where
  "sample_from_chars t =
     (if t \<noteq> [] \<and> (\<forall>c \<in> set t. of_char c \<in> {48..57 :: nat}) then Inr (word_of_nat (read_nat t)) else Inl RuntimeError)"

definition record_call :: "'a \<Rightarrow> 'a list \<Rightarrow> 'a list \<times> exn option" where
  "record_call x xs = (xs @ [x], None)"

definition sample_xml_connection :: xml_connection where
  "sample_xml_connection = \<lparr>xc_id = ''310IA'', xc_feed_type = ''I'', xc_type = [''Incr'', ''emental''], xc_protocol = [''UDP/IP''],
     xc_ip = ['' 224.0'', ''.31.1 ''], xc_host_ips = [''205.209.221.75'', ''205.209.211.45''], xc_port = ['' '', ''14310''], xc_feed = [''A'']\<rparr>"

definition sample_xml_channel :: xml_channel where
  "sample_xml_channel = \<lparr>xh_id = ''310'', xh_label = ''CME Globex Equity Futures'', xh_products = [''0ES'', ''1EW''],
     xh_connections = [sample_xml_connection]\<rparr>"

definition sample_segment :: xml_segment where
  "sample_segment = \<lparr>xs_id = ''64'', xs_label = ''CGW'',
     xs_elements = [(''primary-host-ip'', [''69.50.112'', ''.142 '']), (''remark'', [''x'']), (''protocol'', [''TCP/IP''])]\<rparr>"

text \<open>
  The addresses of the hosts are the exception to "pieces make no difference": every piece of
  the text of a \<^verbatim>\<open>host-ip\<close> element becomes an address of its own, with its blanks.
\<close>

lemma host_ip_pieces:
  assumes "mr_connection_id r \<noteq> []"
  shows "deliver (mdp_xml_event fc h) (text_element blank ''host-ip'' [] ps) (r, s) =
     ((r\<lparr>mr_connection := (mr_connection r)\<lparr>cn_host_ips := cn_host_ips (mr_connection r) @ ps\<rparr>,
         mr_connection_field := CF_UNDEFINED\<rparr>, s), None)"
  using assms by (subst deliver_text_element [where f = CF_HOST_IP]) (simp_all add: mdp_start_element_def)

end
