(* ===== verification/MdpConfig.thy ===== *)
theory MdpConfig
  imports ConfigReader MdpTypes "HOL-Library.Multiset"
begin

section \<open>The multicast addresses of the channels\<close>

text \<open>
  \<^verbatim>\<open>protocol/mdp/config.cpp\<close>, \<^verbatim>\<open>config.hpp\<close>: which multicast address and
  port belong to which channel, connection type and priority, and back. The constructor reads
  the file and builds three maps; the maps that are iterated over are association lists.
\<close>

datatype connection_type =
    HISTORICAL_REPLAY | INSTRUMENT_DEFINITION | MBP_MARKET_RECOVERY | MBOFD_MARKET_RECOVERY | CT_INCREMENTAL

record cfg_connection =
  cc_multicast_address :: string
  cc_port :: u16
  cc_name :: string

type_synonym cfg_connections = "(u16 \<times> (connection_type \<times> (priority \<times> cfg_connection) list) list) list"
type_synonym cfg_key = "u16 \<times> connection_type \<times> priority"

record mdp_config =
  cfg_connections :: cfg_connections
  cfg_connection_types :: "string \<rightharpoonup> u16 \<rightharpoonup> cfg_key"
  cfg_names :: "u16 \<rightharpoonup> connection_type \<rightharpoonup> priority \<rightharpoonup> string"

definition get_type :: "string \<Rightarrow> exn + connection_type" where
  "get_type value =
     (if value = ''H'' then Inr HISTORICAL_REPLAY
      else if value = ''N'' then Inr INSTRUMENT_DEFINITION
      else if value = ''S'' then Inr MBP_MARKET_RECOVERY
      else if value = ''SMBO'' then Inr MBOFD_MARKET_RECOVERY
      else if value = ''I'' then Inr CT_INCREMENTAL
      else Inl RuntimeError)"

definition get_priority :: "string \<Rightarrow> exn + priority" where
  "get_priority value =
     (if value = ''A'' then Inr PRIMARY
      else if value = ''B'' then Inr SECONDARY
      else Inl RuntimeError)"

text \<open>\<^verbatim>\<open>operator[]\<close> of a hash map: the entry is created when it is missing.\<close>

definition subscript :: "'k \<Rightarrow> 'v \<Rightarrow> ('v \<Rightarrow> 'v) \<Rightarrow> ('k \<times> 'v) list \<Rightarrow> ('k \<times> 'v) list" where
  "subscript k d f m =
     (if map_of m k = None then m @ [(k, f d)] else map (\<lambda>(k', v). (k', if k' = k then f v else v)) m)"

text \<open>The body of the handler's loop: a connection that makes it throw a runtime error is skipped.\<close>

definition config_connection ::
    "(string \<Rightarrow> exn + u16) \<Rightarrow> u16 \<Rightarrow> string \<times> mdp_connection \<Rightarrow> cfg_connections \<Rightarrow> cfg_connections \<times> exn option" where
  "config_connection from_chars channel_id item connections =
     (case item of (connection_id, connection) \<Rightarrow>
        let caught = (\<lambda>e. (connections, if e = RuntimeError then None else Some e))
        in case get_type (cn_feed_type connection) of
             Inl e \<Rightarrow> caught e
           | Inr ty \<Rightarrow>
               (case get_priority (cn_feed connection) of
                  Inl e \<Rightarrow> caught e
                | Inr pr \<Rightarrow>
                    (case from_chars (cn_port connection) of
                       Inl e \<Rightarrow> caught e
                     | Inr port \<Rightarrow>
                         let tmp = \<lparr>cc_multicast_address = cn_ip connection, cc_port = port, cc_name = connection_id\<rparr>
                         in (subscript channel_id [] (subscript ty [] (emplace pr tmp)) connections, None))))"

definition config_handler ::
    "(string \<Rightarrow> exn + u16) \<Rightarrow> u16 \<times> mdp_channel \<Rightarrow> cfg_connections \<Rightarrow> cfg_connections \<times> exn option" where
  "config_handler from_chars arg connections =
     (case arg of (channel_id, channel) \<Rightarrow> deliver (config_connection from_chars channel_id) (ch_connections channel) connections)"

definition assign2 :: "'a \<Rightarrow> 'b \<Rightarrow> 'c \<Rightarrow> ('a \<rightharpoonup> 'b \<rightharpoonup> 'c) \<Rightarrow> ('a \<rightharpoonup> 'b \<rightharpoonup> 'c)" where
  "assign2 a b x m = m(a \<mapsto> (case m a of None \<Rightarrow> Map.empty | Some t \<Rightarrow> t)(b \<mapsto> x))"

definition assign3 :: "'a \<Rightarrow> 'b \<Rightarrow> 'c \<Rightarrow> 'd \<Rightarrow> ('a \<rightharpoonup> 'b \<rightharpoonup> 'c \<rightharpoonup> 'd) \<Rightarrow> ('a \<rightharpoonup> 'b \<rightharpoonup> 'c \<rightharpoonup> 'd)" where
  "assign3 a b c x m = m(a \<mapsto> assign2 b c x (case m a of None \<Rightarrow> Map.empty | Some t \<Rightarrow> t))"

definition create_connection_types :: "cfg_connections \<Rightarrow> (string \<rightharpoonup> u16 \<rightharpoonup> cfg_key)" where
  "create_connection_types connections =
     fold (\<lambda>(channel_id, tmp_1). fold (\<lambda>(ty, tmp_2). fold (\<lambda>(pr, connection).
       assign2 (cc_multicast_address connection) (cc_port connection) (channel_id, ty, pr)) tmp_2) tmp_1) connections Map.empty"

definition create_names :: "cfg_connections \<Rightarrow> (u16 \<rightharpoonup> connection_type \<rightharpoonup> priority \<rightharpoonup> string)" where
  "create_names connections =
     fold (\<lambda>(channel_id, tmp_1). fold (\<lambda>(ty, tmp_2). fold (\<lambda>(pr, connection).
       assign3 channel_id ty pr (cc_name connection)) tmp_2) tmp_1) connections Map.empty"

definition make_config :: "(string \<Rightarrow> exn + u16) \<Rightarrow> xml_event list \<Rightarrow> exn + mdp_config" where
  "make_config from_chars events =
     (case mdp_config_dispatch from_chars (config_handler from_chars) events [] of
        (connections, Some e) \<Rightarrow> Inl e
      | (connections, None) \<Rightarrow>
          Inr \<lparr>cfg_connections = connections, cfg_connection_types = create_connection_types connections,
               cfg_names = create_names connections\<rparr>)"

text \<open>The lookups; the callback gets the result.\<close>

definition config_find :: "u16 \<Rightarrow> connection_type \<Rightarrow> priority \<Rightarrow> mdp_config \<Rightarrow> cfg_connection option" where
  "config_find channel_id ty pr cfg =
     (case map_of (cfg_connections cfg) channel_id of
        None \<Rightarrow> None
      | Some tmp_1 \<Rightarrow> (case map_of tmp_1 ty of None \<Rightarrow> None | Some tmp_2 \<Rightarrow> map_of tmp_2 pr))"

definition config_find_address :: "string \<Rightarrow> u16 \<Rightarrow> mdp_config \<Rightarrow> cfg_key option" where
  "config_find_address address port cfg =
     (case cfg_connection_types cfg address of None \<Rightarrow> None | Some tmp_1 \<Rightarrow> tmp_1 port)"

definition config_get_name :: "u16 \<Rightarrow> connection_type \<Rightarrow> priority \<Rightarrow> mdp_config \<Rightarrow> exn + string" where
  "config_get_name channel_id ty pr cfg =
     (case cfg_names cfg channel_id of
        None \<Rightarrow> Inl RuntimeError
      | Some tmp_1 \<Rightarrow>
          (case tmp_1 ty of
             None \<Rightarrow> Inl RuntimeError
           | Some tmp_2 \<Rightarrow> (case tmp_2 pr of None \<Rightarrow> Inl RuntimeError | Some name \<Rightarrow> Inr name)))"

subsection \<open>Nested maps as one list\<close>

text \<open>The entries of the nested map, in the order of the loops, and the reference lookup.\<close>

definition flat :: "cfg_connections \<Rightarrow> (cfg_key \<times> cfg_connection) list" where
  "flat connections = concat (map (\<lambda>(i, tmp_1). concat (map (\<lambda>(ty, tmp_2). map (\<lambda>(pr, c). ((i, ty, pr), c)) tmp_2) tmp_1)) connections)"

definition find_key :: "cfg_connections \<Rightarrow> cfg_key \<rightharpoonup> cfg_connection" where
  "find_key connections k =
     (case k of (i, ty, pr) \<Rightarrow>
       (case map_of connections i of None \<Rightarrow> None | Some tmp_1 \<Rightarrow> (case map_of tmp_1 ty of None \<Rightarrow> None | Some tmp_2 \<Rightarrow> map_of tmp_2 pr)))"

lemma map_of_subscript:
  "map_of (subscript k d f m) x = (if x = k then Some (f (case map_of m k of None \<Rightarrow> d | Some v \<Rightarrow> v)) else map_of m x)"
proof (cases "map_of m k")
  case None
  then show ?thesis by (auto simp: subscript_def map_add_def split: option.split)
next
  case (Some v)
  have "map_of (map (\<lambda>(k', v). (k', if k' = k then f v else v)) m) x = map_option (\<lambda>v. if x = k then f v else v) (map_of m x)"
    by (induction m) auto
  then show ?thesis using Some by (cases "map_of m x") (auto simp: subscript_def)
qed

lemma find_key_emplace:
  "find_key (subscript i [] (subscript ty [] (emplace pr c)) conns) k =
     (if k = (i, ty, pr) \<and> find_key conns k = None then Some c else find_key conns k)"
  by (cases k) (auto simp: find_key_def map_of_subscript map_of_emplace split: option.splits if_splits)

text \<open>Which entry a connection of the file makes, if any.\<close>

definition entry_of :: "(string \<Rightarrow> exn + u16) \<Rightarrow> u16 \<Rightarrow> string \<times> mdp_connection \<Rightarrow> (cfg_key \<times> cfg_connection) option" where
  "entry_of from_chars i item =
     (case (get_type (cn_feed_type (snd item)), get_priority (cn_feed (snd item)), from_chars (cn_port (snd item))) of
        (Inr ty, Inr pr, Inr port) \<Rightarrow> Some ((i, ty, pr), \<lparr>cc_multicast_address = cn_ip (snd item), cc_port = port, cc_name = fst item\<rparr>)
      | _ \<Rightarrow> None)"

definition channel_entries :: "(string \<Rightarrow> exn + u16) \<Rightarrow> u16 \<times> mdp_channel \<Rightarrow> (cfg_key \<times> cfg_connection) list" where
  "channel_entries from_chars a = List.map_filter (entry_of from_chars (fst a)) (ch_connections (snd a))"

definition only_runtime_errors :: "(string \<Rightarrow> exn + 'v) \<Rightarrow> bool" where
  "only_runtime_errors f \<longleftrightarrow> (\<forall>t e. f t = Inl e \<longrightarrow> e = RuntimeError)"

lemma config_connection_entry:
  assumes "only_runtime_errors from_chars"
  shows "snd (config_connection from_chars i item conns) = None \<and>
    find_key (fst (config_connection from_chars i item conns)) = map_of (case entry_of from_chars i item of None \<Rightarrow> [] | Some e \<Rightarrow> [e]) ++ find_key conns"
  using assms
  by (cases item)
    (auto simp: config_connection_def entry_of_def Let_def only_runtime_errors_def get_type_def get_priority_def fun_eq_iff
      find_key_emplace map_add_def split: sum.split option.split)

lemma map_of_filter_Cons:
  "map_of (List.map_filter f (x # xs)) = map_of (List.map_filter f xs) ++ map_of (case f x of None \<Rightarrow> [] | Some e \<Rightarrow> [e])"
  by (auto simp: map_filter_simps map_add_def fun_eq_iff split: option.split)

lemma config_connections_entries:
  assumes "only_runtime_errors from_chars"
  shows "snd (deliver (config_connection from_chars i) items conns) = None \<and>
    find_key (fst (deliver (config_connection from_chars i) items conns)) = map_of (List.map_filter (entry_of from_chars i) items) ++ find_key conns"
proof (induction items arbitrary: conns)
  case Nil
  then show ?case by (simp add: map_filter_simps)
next
  case (Cons x xs)
  obtain conns' where x: "config_connection from_chars i x conns = (conns', None)"
      "find_key conns' = map_of (case entry_of from_chars i x of None \<Rightarrow> [] | Some e \<Rightarrow> [e]) ++ find_key conns"
    using config_connection_entry [OF assms, of i x conns] by (cases "config_connection from_chars i x conns") auto
  then show ?case using Cons.IH [of conns'] by (simp add: map_of_filter_Cons del: map_filter_simps)
qed

lemma config_handler_entries:
  assumes "only_runtime_errors from_chars"
  shows "snd (deliver (config_handler from_chars) calls conns) = None \<and>
    find_key (fst (deliver (config_handler from_chars) calls conns)) = map_of (concat (map (channel_entries from_chars) calls)) ++ find_key conns"
proof (induction calls arbitrary: conns)
  case (Cons x xs)
  obtain conns' where x: "config_handler from_chars x conns = (conns', None)"
      "find_key conns' = map_of (channel_entries from_chars x) ++ find_key conns"
    using config_connections_entries [OF assms, of "fst x" "ch_connections (snd x)" conns]
    by (cases "config_handler from_chars x conns") (auto simp: config_handler_def channel_entries_def split: prod.splits)
  then show ?case using Cons.IH [of conns'] by simp
qed simp

subsection \<open>No key occurs twice\<close>

fun wf_inner :: "(connection_type \<times> (priority \<times> cfg_connection) list) list \<Rightarrow> bool" where
  "wf_inner m \<longleftrightarrow> distinct (map fst m) \<and> (\<forall>t \<in> set (map snd m). distinct (map fst t))"

definition wf_connections :: "cfg_connections \<Rightarrow> bool" where
  "wf_connections m \<longleftrightarrow> distinct (map fst m) \<and> (\<forall>t \<in> set (map snd m). wf_inner t)"

lemma subscript_keys: "map fst (subscript k d f m) = (if map_of m k = None then map fst m @ [k] else map fst m)"
  by (auto simp: subscript_def)

lemma subscript_values:
  assumes "t \<in> set (map snd (subscript k d f m))"
  shows "t \<in> set (map snd m) \<or> t = f d \<or> (\<exists>v \<in> set (map snd m). t = f v)"
  using assms by (force simp: subscript_def split: if_splits)

lemma distinct_subscript: "distinct (map fst m) \<Longrightarrow> distinct (map fst (subscript k d f m))"
  by (simp add: subscript_keys map_of_eq_None_iff)

lemma wf_inner_subscript:
  assumes "wf_inner m"
  shows "wf_inner (subscript ty [] (emplace pr c) m)"
proof -
  have "distinct (map fst t)" if "t \<in> set (map snd (subscript ty [] (emplace pr c) m))" for t
    using subscript_values [OF that] assms by auto
  then show ?thesis using assms by (simp add: distinct_subscript)
qed

lemma wf_connections_subscript:
  assumes "wf_connections m"
  shows "wf_connections (subscript i [] (subscript ty [] (emplace pr c)) m)"
proof -
  have nil: "wf_inner []" by simp
  have "wf_inner t" if "t \<in> set (map snd (subscript i [] (subscript ty [] (emplace pr c)) m))" for t
    using subscript_values [OF that] assms nil wf_inner_subscript [of _ ty pr c]
    by (auto simp: wf_connections_def simp del: wf_inner.simps)
  then show ?thesis using assms by (simp add: wf_connections_def distinct_subscript del: wf_inner.simps)
qed

lemma config_handler_step_wf:
  assumes "wf_connections conns"
  shows "wf_connections (fst (config_handler from_chars a conns))"
proof -
  have "wf_connections (fst (deliver (config_connection from_chars (fst a)) (ch_connections (snd a)) conns))"
    by (rule deliver_invariant [where I = wf_connections])
      (use assms in \<open>auto simp: config_connection_def Let_def wf_connections_subscript split: prod.split sum.split\<close>)
  then show ?thesis by (simp add: config_handler_def case_prod_unfold)
qed

lemma flat_iff:
  assumes "wf_connections conns"
  shows "(k, c) \<in> set (flat conns) \<longleftrightarrow> find_key conns k = Some c"
proof -
  obtain i ty pr where k: "k = (i, ty, pr)" by (cases k)
  have "(k, c) \<in> set (flat conns) \<longleftrightarrow> (\<exists>t u. (i, t) \<in> set conns \<and> (ty, u) \<in> set t \<and> (pr, c) \<in> set u)"
    by (force simp: flat_def k)
  also have "\<dots> \<longleftrightarrow> (\<exists>t. map_of conns i = Some t \<and> (\<exists>u. map_of t ty = Some u \<and> map_of u pr = Some c))"
    using assms by (force simp: wf_connections_def dest: map_of_SomeD)
  also have "\<dots> \<longleftrightarrow> find_key conns k = Some c"
    by (auto simp: find_key_def k split: option.splits)
  finally show ?thesis .
qed

subsection \<open>The maps that are derived from the connections\<close>

lemma fold_flat:
  "fold (\<lambda>(i, tmp_1). fold (\<lambda>(ty, tmp_2). fold (\<lambda>(pr, c). f i ty pr c) tmp_2) tmp_1) conns =
     fold (\<lambda>((i, ty, pr), c). f i ty pr c) (flat conns)"
proof -
  have inner: "fold (\<lambda>(ty, tmp_2). fold (\<lambda>(pr, c). f i ty pr c) tmp_2) t =
      fold (\<lambda>((i, ty, pr), c). f i ty pr c) (concat (map (\<lambda>(ty, tmp_2). map (\<lambda>(pr, c). ((i, ty, pr), c)) tmp_2) t))" for i t
    by (induction t) (auto simp: fold_map comp_def split_beta)
  show ?thesis by (induction conns) (auto simp: flat_def inner)
qed

definition look2 :: "('a \<rightharpoonup> 'b \<rightharpoonup> 'c) \<Rightarrow> 'a \<times> 'b \<rightharpoonup> 'c" where
  "look2 m k = (case m (fst k) of None \<Rightarrow> None | Some t \<Rightarrow> t (snd k))"

definition look3 :: "('a \<rightharpoonup> 'b \<rightharpoonup> 'c \<rightharpoonup> 'd) \<Rightarrow> 'a \<times> 'b \<times> 'c \<rightharpoonup> 'd" where
  "look3 m k = (case m (fst k) of None \<Rightarrow> None | Some t \<Rightarrow> look2 t (snd k))"

lemma look2_assign [simp]: "look2 (assign2 a b x m) = (look2 m)((a, b) \<mapsto> x)"
  by (auto simp: look2_def assign2_def fun_eq_iff split: option.split)

lemma look3_assign [simp]: "look3 (assign3 a b c x m) = (look3 m)((a, b, c) \<mapsto> x)"
proof -
  have e: "look2 Map.empty = Map.empty" by (simp add: look2_def fun_eq_iff)
  show ?thesis by (auto simp: look3_def assign3_def e fun_eq_iff split: option.split)
qed

lemma fold_assign:
  assumes "\<And>e m. look (f e m) = (look m)(key e \<mapsto> val e)"
  shows "look (fold f xs m) = look m ++ map_of (rev (map (\<lambda>e. (key e, val e)) xs))"
  using assms by (induction xs arbitrary: m) (simp_all flip: map_add_assoc add: map_add_def fun_eq_iff split: option.split)

text \<open>The last connection with an address and a port is the one that is found.\<close>

lemma connection_types_lookup:
  "look2 (create_connection_types conns) = map_of (rev (map (\<lambda>(k, c). ((cc_multicast_address c, cc_port c), k)) (flat conns)))"
proof -
  have "look2 (create_connection_types conns) = look2 Map.empty ++ map_of (rev (map (\<lambda>e. ((cc_multicast_address (snd e), cc_port (snd e)), fst e)) (flat conns)))"
    unfolding create_connection_types_def fold_flat
    by (rule fold_assign [where look = look2 and key = "\<lambda>e. (cc_multicast_address (snd e), cc_port (snd e))" and val = fst])
      (auto split: prod.split)
  also have "look2 Map.empty = (Map.empty :: string \<times> u16 \<rightharpoonup> cfg_key)" by (simp add: look2_def fun_eq_iff)
  finally show ?thesis by (simp add: case_prod_unfold)
qed

lemma names_lookup:
  assumes "wf_connections conns"
  shows "look3 (create_names conns) k = map_option cc_name (find_key conns k)"
proof -
  have "look3 (create_names conns) = look3 Map.empty ++ map_of (rev (map (\<lambda>e. (fst e, cc_name (snd e))) (flat conns)))"
    unfolding create_names_def fold_flat
    by (rule fold_assign [where look = look3 and key = fst and val = "\<lambda>e. cc_name (snd e)"]) (auto split: prod.split)
  also have "look3 Map.empty = (Map.empty :: cfg_key \<rightharpoonup> string)" by (simp add: look3_def fun_eq_iff)
  finally have n: "look3 (create_names conns) k = map_option cc_name (map_of (rev (flat conns)) k)"
    using map_of_map [of cc_name "rev (flat conns)"] by (simp add: rev_map case_prod_unfold)
  have "map_of (rev (flat conns)) k = find_key conns k"
  proof (cases "map_of (rev (flat conns)) k")
    case None
    then have "(k, c) \<notin> set (flat conns)" for c by (force simp: map_of_eq_None_iff)
    then show ?thesis using None flat_iff [OF assms, of k] by (cases "find_key conns k") auto
  next
    case (Some c)
    then show ?thesis using flat_iff [OF assms, of k c] by (auto dest: map_of_SomeD)
  qed
  then show ?thesis by (simp add: n)
qed

lemma config_find_key: "config_find i ty pr cfg = find_key (cfg_connections cfg) (i, ty, pr)"
  by (simp add: config_find_def find_key_def)

lemma config_find_address_look: "config_find_address a p cfg = look2 (cfg_connection_types cfg) (a, p)"
  by (simp add: config_find_address_def look2_def split: option.split)

definition consistent_config :: "mdp_config \<Rightarrow> bool" where
  "consistent_config cfg \<longleftrightarrow> wf_connections (cfg_connections cfg) \<and>
     cfg_connection_types cfg = create_connection_types (cfg_connections cfg) \<and> cfg_names cfg = create_names (cfg_connections cfg)"

lemma config_get_name_find:
  assumes "consistent_config cfg"
  shows "config_get_name i ty pr cfg = (case config_find i ty pr cfg of None \<Rightarrow> Inl RuntimeError | Some c \<Rightarrow> Inr (cc_name c))"
  using names_lookup [of "cfg_connections cfg" "(i, ty, pr)"] assms
  by (auto simp: consistent_config_def config_get_name_def config_find_key look3_def look2_def split: option.splits)

lemma config_find_address_sound:
  assumes "consistent_config cfg" and "config_find_address a p cfg = Some (i, ty, pr)"
  shows "\<exists>c. config_find i ty pr cfg = Some c \<and> cc_multicast_address c = a \<and> cc_port c = p"
proof -
  have "((a, p), (i, ty, pr)) \<in> set (map (\<lambda>(k, c). ((cc_multicast_address c, cc_port c), k)) (flat (cfg_connections cfg)))"
    using assms connection_types_lookup [of "cfg_connections cfg"]
    by (auto simp: consistent_config_def config_find_address_look dest!: map_of_SomeD)
  then show ?thesis using assms(1) by (auto simp: consistent_config_def config_find_key flat_iff)
qed

lemma config_find_address_complete:
  assumes "consistent_config cfg" and "config_find i ty pr cfg = Some c"
  shows "config_find_address (cc_multicast_address c) (cc_port c) cfg \<noteq> None"
proof -
  have "((i, ty, pr), c) \<in> set (flat (cfg_connections cfg))"
    using assms by (simp add: consistent_config_def config_find_key flat_iff)
  then have "(cc_multicast_address c, cc_port c) \<in> fst ` set (rev (map (\<lambda>(k, c). ((cc_multicast_address c, cc_port c), k)) (flat (cfg_connections cfg))))"
    by force
  then show ?thesis
    using assms(1) connection_types_lookup [of "cfg_connections cfg"]
    by (simp add: consistent_config_def config_find_address_look map_of_eq_None_iff)
qed

lemma make_config_consistent: "make_config from_chars events = Inr cfg \<Longrightarrow> consistent_config cfg"
proof -
  assume cfg: "make_config from_chars events = Inr cfg"
  have "wf_connections (fst (mdp_config_dispatch from_chars (config_handler from_chars) events []))"
    by (rule mdp_config_dispatch_invariant [where I = wf_connections])
      (rule config_handler_step_wf, simp_all add: wf_connections_def)
  then show ?thesis using cfg
    by (auto simp: make_config_def consistent_config_def split: prod.splits option.splits)
qed

subsection \<open>Properties\<close>


text \<open>
  The order in which a hash map is iterated over is not specified. Where no two connections
  of a channel have the same type and priority, it does not matter.
\<close>

lemma config_handler_order:
  assumes "only_runtime_errors from_chars" and "mset (ch_connections ch) = mset (ch_connections ch')"
    and "distinct (map fst (channel_entries from_chars (i, ch)))"
  shows "find_key (fst (config_handler from_chars (i, ch) conns)) = find_key (fst (config_handler from_chars (i, ch') conns))"
proof -
  have "mset (channel_entries from_chars (i, ch)) = mset (channel_entries from_chars (i, ch'))"
    using assms(2) by (simp add: channel_entries_def List.map_filter_def mset_filter)
  then have "map_of (channel_entries from_chars (i, ch)) = map_of (channel_entries from_chars (i, ch'))"
    using assms(3) by (metis map_of_inject_set mset_eq_setD mset_map mset_eq_imp_distinct_iff)
  then show ?thesis
    using config_handler_entries [OF assms(1), of "[(i, ch)]" conns] config_handler_entries [OF assms(1), of "[(i, ch')]" conns]
    by (simp split: prod.splits option.splits)
qed

lemma sample_from_chars_errors: "only_runtime_errors (sample_from_chars :: string \<Rightarrow> exn + u16)"
  by (simp add: only_runtime_errors_def sample_from_chars_def)


end
