(* ===== verification/Manager.thy ===== *)
theory Manager
  imports Recovery MdpConfig "HOL-Library.AList"
begin

section \<open>The market data manager\<close>

text \<open>
  \<^verbatim>\<open>market_data/manager.cpp\<close>: one object per channel with its eight feeds, the
  channel's reorder buffer and the cache of its incremental feeds; all channels share the
  security definitions and the scratch state of the trade summaries. A packet is routed by
  channel, connection type and priority.
\<close>

record incremental_cache =
  ic_orders :: "mbo_update list"
  ic_orders_47 :: "order_47 list"
  ic_security_ids_47 :: "int list"

record 'b channel2 =
  c2_channel :: "'b channel"
  instrument_definition_1 :: feed
  instrument_definition_2 :: feed
  mbp_market_recovery_1 :: feed
  mbp_market_recovery_2 :: feed
  mbofd_market_recovery_1 :: feed
  mbofd_market_recovery_2 :: feed
  c2_cache :: incremental_cache
  incremental_1 :: feed
  incremental_2 :: feed

record ('p, 'o, 'b) manager =
  mg_shared :: "('p, 'o) shared"
  mg_channels :: "(u16 \<times> 'b channel2) list"

subsection \<open>Construction\<close>

fun sum_bind :: "'e + 'a \<Rightarrow> ('a \<Rightarrow> 'e + 'b) \<Rightarrow> 'e + 'b" where
  "sum_bind (Inl e) f = Inl e"
| "sum_bind (Inr x) f = f x"

definition make_feed :: "mdp_config \<Rightarrow> u16 \<Rightarrow> connection_type \<Rightarrow> priority \<Rightarrow> u16 \<Rightarrow> exn + feed" where
  "make_feed cfg channel_id ty pr stream_id =
     sum_bind (config_get_name channel_id ty pr cfg) (\<lambda>name.
       Inr \<lparr>feed_priority = pr, feed_stream_id = stream_id, feed_name = name,
            feed_connection_status = CS_UNDEFINED, last_update_time = 0\<rparr>)"

text \<open>The members are initialised in order; every feed takes the next stream identifier.\<close>

definition make_channel2 :: "mdp_config \<Rightarrow> 'b \<Rightarrow> u16 \<Rightarrow> u16 \<Rightarrow> exn + 'b channel2 \<times> u16" where
  "make_channel2 cfg buffer channel_id s =
     sum_bind (make_feed cfg channel_id INSTRUMENT_DEFINITION PRIMARY (s + 1)) (\<lambda>id1.
     sum_bind (make_feed cfg channel_id INSTRUMENT_DEFINITION SECONDARY (s + 2)) (\<lambda>id2.
     sum_bind (make_feed cfg channel_id MBP_MARKET_RECOVERY PRIMARY (s + 3)) (\<lambda>mbp1.
     sum_bind (make_feed cfg channel_id MBP_MARKET_RECOVERY SECONDARY (s + 4)) (\<lambda>mbp2.
     sum_bind (make_feed cfg channel_id MBOFD_MARKET_RECOVERY PRIMARY (s + 5)) (\<lambda>mbo1.
     sum_bind (make_feed cfg channel_id MBOFD_MARKET_RECOVERY SECONDARY (s + 6)) (\<lambda>mbo2.
     sum_bind (make_feed cfg channel_id CT_INCREMENTAL PRIMARY (s + 7)) (\<lambda>inc1.
     sum_bind (make_feed cfg channel_id CT_INCREMENTAL SECONDARY (s + 8)) (\<lambda>inc2.
       Inr (\<lparr>c2_channel = \<lparr>first_sequence_number = 0, last_sequence_number = 0, reorder_buffer = buffer\<rparr>,
             instrument_definition_1 = id1, instrument_definition_2 = id2,
             mbp_market_recovery_1 = mbp1, mbp_market_recovery_2 = mbp2,
             mbofd_market_recovery_1 = mbo1, mbofd_market_recovery_2 = mbo2,
             c2_cache = \<lparr>ic_orders = [], ic_orders_47 = [], ic_security_ids_47 = []\<rparr>,
             incremental_1 = inc1, incremental_2 = inc2\<rparr>, s + 8)))))))))"

text \<open>A channel identifier that is listed twice is constructed once.\<close>

fun create_channels ::
    "mdp_config \<Rightarrow> 'b \<Rightarrow> u16 list \<Rightarrow> (u16 \<times> 'b channel2) list \<times> u16 \<Rightarrow> exn + (u16 \<times> 'b channel2) list \<times> u16" where
  "create_channels cfg buffer [] st = Inr st"
| "create_channels cfg buffer (channel_id # channel_ids) (result, stream_id) =
     (if map_of result channel_id \<noteq> None then create_channels cfg buffer channel_ids (result, stream_id)
      else sum_bind (make_channel2 cfg buffer channel_id stream_id) (\<lambda>(c, stream_id').
             create_channels cfg buffer channel_ids (result @ [(channel_id, c)], stream_id')))"

text \<open>The constructor of \<^verbatim>\<open>SecurityDefinitions\<close>: no file, no definitions (\<open>None\<close> is an empty file name).\<close>

definition make_security_definitions ::
    "('p, 'o) md_env \<Rightarrow> charconv \<Rightarrow> string option \<Rightarrow> exn + ('p, 'o) security_definitions" where
  "make_security_definitions env cc contents =
     (case contents of
        None \<Rightarrow> Inr empty_definitions
      | Some buffer \<Rightarrow>
          (case security_definitions_init cc (discard_symbol env) (sq_init (mbp_seq env)) (sq_init (mbo_seq env)) buffer of
             (d, None) \<Rightarrow> Inr d
           | (d, Some e) \<Rightarrow> Inl e))"

definition make_manager ::
    "mdp_config \<Rightarrow> 'b \<Rightarrow> u16 list \<Rightarrow> ('p, 'o) shared \<Rightarrow> u16 \<Rightarrow> exn + ('p, 'o, 'b) manager \<times> u16" where
  "make_manager cfg buffer channel_ids sh stream_id =
     sum_bind (create_channels cfg buffer channel_ids ([], stream_id)) (\<lambda>(chs, stream_id').
       Inr (\<lparr>mg_shared = sh, mg_channels = chs\<rparr>, stream_id'))"

definition manager_get_name :: "u16 \<Rightarrow> connection_type \<Rightarrow> priority \<Rightarrow> ('p, 'o, 'b) manager \<Rightarrow> exn + string" where
  "manager_get_name channel_id ty pr mg =
     (case map_of (mg_channels mg) channel_id of
        None \<Rightarrow> Inl Fatal
      | Some c \<Rightarrow>
          (case ty of
             HISTORICAL_REPLAY \<Rightarrow> Inl Fatal
           | INSTRUMENT_DEFINITION \<Rightarrow> Inr (feed_name (if pr = PRIMARY then instrument_definition_1 c else instrument_definition_2 c))
           | MBP_MARKET_RECOVERY \<Rightarrow> Inr (feed_name (if pr = PRIMARY then mbp_market_recovery_1 c else mbp_market_recovery_2 c))
           | MBOFD_MARKET_RECOVERY \<Rightarrow> Inr (feed_name (if pr = PRIMARY then mbofd_market_recovery_1 c else mbofd_market_recovery_2 c))
           | CT_INCREMENTAL \<Rightarrow> Inr (feed_name (if pr = PRIMARY then incremental_1 c else incremental_2 c))))"

subsection \<open>Events\<close>

text \<open>
  \<^verbatim>\<open>Start\<close> and \<^verbatim>\<open>Stop\<close> do nothing in the feeds; \<^verbatim>\<open>Start\<close> publishes the
  definition file, if there is one. A timer event checks the timeout of every feed.
\<close>

definition manager_start ::
    "('p, 'o) md_env \<Rightarrow> charconv \<Rightarrow> string option \<Rightarrow> ('p, 'o, 'b) manager \<Rightarrow> ('p, 'o, 'b) manager \<times> exn option" where
  "manager_start env cc secdef_config_file mg =
     (case secdef_config_file of
        None \<Rightarrow> (mg, None)
      | Some contents \<Rightarrow>
          (case read_secdef cc (discard_symbol env) contents (definitions (mg_shared mg)) (published (mg_shared mg)) of
             (out, e) \<Rightarrow> (mg\<lparr>mg_shared := (mg_shared mg)\<lparr>published := out\<rparr>\<rparr>, e)))"

definition timer_channel :: "('p, 'o) md_env \<Rightarrow> nanoseconds \<Rightarrow> 'b channel2 \<Rightarrow> 'b channel2" where
  "timer_channel env now c =
     c\<lparr>instrument_definition_1 := on_timer env now (instrument_definition_1 c),
       instrument_definition_2 := on_timer env now (instrument_definition_2 c),
       mbp_market_recovery_1 := on_timer env now (mbp_market_recovery_1 c),
       mbp_market_recovery_2 := on_timer env now (mbp_market_recovery_2 c),
       mbofd_market_recovery_1 := on_timer env now (mbofd_market_recovery_1 c),
       mbofd_market_recovery_2 := on_timer env now (mbofd_market_recovery_2 c),
       incremental_1 := on_timer env now (incremental_1 c),
       incremental_2 := on_timer env now (incremental_2 c)\<rparr>"

definition manager_timer :: "('p, 'o) md_env \<Rightarrow> nanoseconds \<Rightarrow> ('p, 'o, 'b) manager \<Rightarrow> ('p, 'o, 'b) manager" where
  "manager_timer env now mg = mg\<lparr>mg_channels := map (\<lambda>(i, c). (i, timer_channel env now c)) (mg_channels mg)\<rparr>"

subsection \<open>Packets\<close>

text \<open>The incremental feeds work on the shared state together with their channel's cache.\<close>

definition with_cache :: "incremental_cache \<Rightarrow> ('p, 'o) shared \<Rightarrow> ('p, 'o) incremental" where
  "with_cache ic sh = shared.extend sh (incremental.fields (ic_orders ic) (ic_orders_47 ic) (ic_security_ids_47 ic))"

definition cache_of :: "('p, 'o) incremental \<Rightarrow> incremental_cache" where
  "cache_of sh = \<lparr>ic_orders = cache_orders sh, ic_orders_47 = cache_orders_47 sh, ic_security_ids_47 = cache_security_ids_47 sh\<rparr>"

definition outcome :: "exn + bool \<Rightarrow> exn option" where
  "outcome r = (case r of Inl e \<Rightarrow> Some e | Inr _ \<Rightarrow> None)"

definition channel_dispatch ::
    "('p, 'o) md_env \<Rightarrow> mdp_message sbe \<Rightarrow> 'b udp_buffer \<Rightarrow> connection_type \<Rightarrow> priority \<Rightarrow> bytes \<Rightarrow> nanoseconds
     \<Rightarrow> 'b channel2 \<times> ('p, 'o) shared \<Rightarrow> (('b channel2 \<times> ('p, 'o) shared) \<times> exn option) option" where
  "channel_dispatch env sbe ops ty pr payload origin st =
     (case st of (c, sh) \<Rightarrow>
        (case ty of
           HISTORICAL_REPLAY \<Rightarrow> Some (st, Some Fatal)
         | INSTRUMENT_DEFINITION \<Rightarrow>
             (if pr = PRIMARY
              then (case instrument_definition_dispatch env sbe origin payload (instrument_definition_1 c, sh) of
                      ((fd, sh'), r) \<Rightarrow> Some ((c\<lparr>instrument_definition_1 := fd\<rparr>, sh'), outcome r))
              else (case instrument_definition_dispatch env sbe origin payload (instrument_definition_2 c, sh) of
                      ((fd, sh'), r) \<Rightarrow> Some ((c\<lparr>instrument_definition_2 := fd\<rparr>, sh'), outcome r)))
         | MBP_MARKET_RECOVERY \<Rightarrow>
             (if pr = PRIMARY
              then (case mbp_recovery_dispatch env sbe origin (c2_channel c) payload (mbp_market_recovery_1 c, sh) of
                      ((fd, sh'), r) \<Rightarrow> Some ((c\<lparr>mbp_market_recovery_1 := fd\<rparr>, sh'), outcome r))
              else (case mbp_recovery_dispatch env sbe origin (c2_channel c) payload (mbp_market_recovery_2 c, sh) of
                      ((fd, sh'), r) \<Rightarrow> Some ((c\<lparr>mbp_market_recovery_2 := fd\<rparr>, sh'), outcome r)))
         | MBOFD_MARKET_RECOVERY \<Rightarrow>
             (if pr = PRIMARY
              then (case mbofd_recovery_dispatch env sbe origin (c2_channel c) payload (mbofd_market_recovery_1 c, sh) of
                      ((fd, sh'), r) \<Rightarrow> Some ((c\<lparr>mbofd_market_recovery_1 := fd\<rparr>, sh'), outcome r))
              else (case mbofd_recovery_dispatch env sbe origin (c2_channel c) payload (mbofd_market_recovery_2 c, sh) of
                      ((fd, sh'), r) \<Rightarrow> Some ((c\<lparr>mbofd_market_recovery_2 := fd\<rparr>, sh'), outcome r)))
         | CT_INCREMENTAL \<Rightarrow>
             (case incremental_dispatch env sbe ops origin payload
                     (if pr = PRIMARY then incremental_1 c else incremental_2 c, c2_channel c, with_cache (c2_cache c) sh) of
                None \<Rightarrow> None
              | Some ((fd, ch, sh'), e) \<Rightarrow>
                  let c' = c\<lparr>c2_channel := ch, c2_cache := cache_of sh'\<rparr>
                  in Some ((if pr = PRIMARY then c'\<lparr>incremental_1 := fd\<rparr> else c'\<lparr>incremental_2 := fd\<rparr>, shared.truncate sh'), e))))"

definition manager_dispatch ::
    "('p, 'o) md_env \<Rightarrow> mdp_message sbe \<Rightarrow> 'b udp_buffer \<Rightarrow> u16 \<Rightarrow> connection_type \<Rightarrow> priority \<Rightarrow> bytes \<Rightarrow> nanoseconds
     \<Rightarrow> ('p, 'o, 'b) manager \<Rightarrow> (('p, 'o, 'b) manager \<times> exn option) option" where
  "manager_dispatch env sbe ops channel_id ty pr payload origin mg =
     (case map_of (mg_channels mg) channel_id of
        None \<Rightarrow> Some (mg, None)
      | Some c \<Rightarrow>
          map_option (\<lambda>((c', sh'), e). (\<lparr>mg_shared = sh', mg_channels = AList.update channel_id c' (mg_channels mg)\<rparr>, e))
            (channel_dispatch env sbe ops ty pr payload origin (c, mg_shared mg)))"

text \<open>What happens to a manager, and a run of it; an exception ends the run.\<close>

datatype md_input =
    MdStart
  | MdStop
  | MdTimer nanoseconds
  | MdPacket u16 connection_type priority bytes nanoseconds

fun manager_step ::
    "('p, 'o) md_env \<Rightarrow> mdp_message sbe \<Rightarrow> 'b udp_buffer \<Rightarrow> charconv \<Rightarrow> string option \<Rightarrow> md_input
     \<Rightarrow> ('p, 'o, 'b) manager \<Rightarrow> (('p, 'o, 'b) manager \<times> exn option) option" where
  "manager_step env sbe ops cc file MdStart mg = Some (manager_start env cc file mg)"
| "manager_step env sbe ops cc file MdStop mg = Some (mg, None)"
| "manager_step env sbe ops cc file (MdTimer now) mg = Some (manager_timer env now mg, None)"
| "manager_step env sbe ops cc file (MdPacket channel_id ty pr payload origin) mg =
     manager_dispatch env sbe ops channel_id ty pr payload origin mg"

fun run_inputs :: "('i \<Rightarrow> 's \<Rightarrow> ('s \<times> exn option) option) \<Rightarrow> 'i list \<Rightarrow> 's \<Rightarrow> ('s \<times> exn option) option" where
  "run_inputs step [] s = Some (s, None)"
| "run_inputs step (x # xs) s =
     (case step x s of
        None \<Rightarrow> None
      | Some (s', Some e) \<Rightarrow> Some (s', Some e)
      | Some (s', None) \<Rightarrow> run_inputs step xs s')"

definition manager_run ::
    "('p, 'o) md_env \<Rightarrow> mdp_message sbe \<Rightarrow> 'b udp_buffer \<Rightarrow> charconv \<Rightarrow> string option \<Rightarrow> md_input list
     \<Rightarrow> ('p, 'o, 'b) manager \<Rightarrow> (('p, 'o, 'b) manager \<times> exn option) option" where
  "manager_run env sbe ops cc file = run_inputs (manager_step env sbe ops cc file)"

text \<open>
  The contract of a component that is driven by inputs: every input keeps its invariant, also
  one that ends in an exception, and changes the state only as the relation allows.
\<close>

locale driven_component =
  fixes inv :: "'s \<Rightarrow> bool" and later :: "'s \<Rightarrow> 's \<Rightarrow> bool" and step :: "'i \<Rightarrow> 's \<Rightarrow> ('s \<times> exn option) option"
  assumes step_inv: "inv s \<Longrightarrow> step x s = Some (s', e) \<Longrightarrow> inv s' \<and> later s s'"
    and later_refl: "later s s"
    and later_trans: "later s t \<Longrightarrow> later t u \<Longrightarrow> later s u"
begin

lemma run_inv: "inv s \<Longrightarrow> run_inputs step xs s = Some (s', e) \<Longrightarrow> inv s' \<and> later s s'"
proof (induction xs arbitrary: s)
  case Nil
  then show ?case using later_refl by simp
next
  case (Cons x xs)
  obtain t e1 where x: "step x s = Some (t, e1)" using Cons.prems(2) by (cases "step x s") auto
  note t = step_inv [OF Cons.prems(1) x]
  show ?case
  proof (cases e1)
    case None
    then show ?thesis using Cons.IH [of t] Cons.prems(2) x t later_trans by auto
  next
    case (Some y)
    then show ?thesis using Cons.prems(2) x t by simp
  qed
qed

end

subsection \<open>Every feed takes good steps\<close>

definition loop_exn :: "exn \<Rightarrow> bool" where
  "loop_exn e \<longleftrightarrow> e = RuntimeError \<or> e = AssertFailed \<or> e = UndefinedBehaviour"

lemma quiet_good:
  assumes "quiet_step sh sh'"
  shows "good_step sh sh'"
proof -
  have i: "same_index (definitions sh) (definitions sh')" using assms by (simp add: quiet_step_def)
  obtain es where es: "published sh' = published sh @ es" "\<forall>e \<in> set es. allowed_event (definitions sh) e"
    using assms by (auto simp: quiet_step_def)
  then show ?thesis
    using same_index_wf [OF i] same_index_symbols [OF i] allowed_event_index [OF i] by (auto simp: good_step_def)
qed

lemma dispatch_packet_good:
  assumes h: "\<And>f m t. J t \<Longrightarrow> good_step t (fst (h f m t)) \<and> J (fst (h f m t)) \<and> (\<forall>x. snd (h f m t) = Some x \<longrightarrow> loop_exn x)"
    and "J sh" and run: "dispatch_packet sbe h payload sh = (sh', r)"
  shows "good_step sh sh' \<and> J sh' \<and> (\<forall>e. r = Inl e \<longrightarrow> loop_exn e)"
proof -
  let ?I = "\<lambda>t. good_step sh t \<and> J t"
  have step: "?I (fst (h f m t)) \<and> (\<forall>x. snd (h f m t) = Some x \<longrightarrow> loop_exn x)" if "?I t" for f m t
    using h [of t f m] that good_step_trans by blast
  have "?I (fst (dispatch_packet sbe h payload sh))"
    by (rule dispatch_packet_invariant [where I = ?I]) (use step \<open>J sh\<close> in auto)
  moreover have "loop_exn e" if "r = Inl e" for e
    unfolding loop_exn_def
    by (rule dispatch_packet_exn [where I = ?I and h = h and s = sh and sbe = sbe and buffer = payload])
      (use step \<open>J sh\<close> run that in \<open>auto simp: loop_exn_def\<close>)
  ultimately show ?thesis using run by simp
qed

lemma instrument_definition_handler_good:
  "good_step sh (fst (instrument_definition_handler env stream origin f m sh)) \<and> snd (instrument_definition_handler env stream origin f m sh) = None"
  by (cases m) (simp_all add: external_latency_good create_security_from_good)

definition feed_static :: "feed \<Rightarrow> priority \<times> u16 \<times> string" where
  "feed_static fd = (feed_priority fd, feed_stream_id fd, feed_name fd)"

lemma publish_stream_status_static:
  "publish_stream_status supports status fd out = (fd', out') \<Longrightarrow> feed_static fd' = feed_static fd"
  by (auto simp: publish_stream_status_def feed_static_def split: if_splits)

lemma on_timer_static [simp]: "feed_static (on_timer env now fd) = feed_static fd"
  by (simp add: on_timer_def feed_static_def)

lemma stream_status_good:
  "publish_stream_status supports status fd (published sh) = (fd', out) \<Longrightarrow> good_step sh (sh\<lparr>published := out\<rparr>)"
  by (intro quiet_good stream_status_quiet)

lemma instrument_definition_dispatch_good:
  assumes "instrument_definition_dispatch env sbe origin payload (fd, sh) = ((fd', sh'), r)"
  shows "good_step sh sh' \<and> feed_static fd' = feed_static fd \<and> (\<forall>e. outcome r = Some e \<longrightarrow> loop_exn e)"
proof -
  obtain out where st: "publish_stream_status {REFERENCE_DATA, MARKET_STATUS} READY fd (published sh) = (fd', out)"
      and run: "dispatch_packet sbe (instrument_definition_handler env (feed_stream_id fd) origin) payload (sh\<lparr>published := out\<rparr>) = (sh', r)"
    using assms by (auto simp: instrument_definition_dispatch_def split: prod.splits)
  have "good_step (sh\<lparr>published := out\<rparr>) sh' \<and> True \<and> (\<forall>e. r = Inl e \<longrightarrow> loop_exn e)"
    by (rule dispatch_packet_good [OF _ _ run]) (simp_all add: instrument_definition_handler_good)
  then show ?thesis
    using good_step_trans [OF stream_status_good [OF st]] publish_stream_status_static [OF st]
    by (auto simp: outcome_def split: sum.splits)
qed

lemma recovery_dispatch_good:
  assumes "dispatch = mbp_recovery_dispatch env sbe origin ch \<or> dispatch = mbofd_recovery_dispatch env sbe origin ch"
    and "dispatch payload (fd, sh) = ((fd', sh'), r)"
  shows "good_step sh sh' \<and> feed_static fd' = feed_static fd \<and> (\<forall>e. outcome r = Some e \<longrightarrow> loop_exn e)"
proof -
  have "quiet_step sh sh'" "\<forall>e. r = Inl e \<longrightarrow> loop_exn e"
    using recovery_dispatch_invariant [OF assms] by (simp_all add: quiet_step_def loop_exn_def)
  moreover have "\<exists>supports out. publish_stream_status supports READY fd (published sh) = (fd', out)"
    using assms(1)
  proof
    assume "dispatch = mbp_recovery_dispatch env sbe origin ch"
    then show ?thesis using assms(2) by (auto simp: mbp_recovery_dispatch_def split: prod.splits)
  next
    assume "dispatch = mbofd_recovery_dispatch env sbe origin ch"
    then show ?thesis using assms(2) by (auto simp: mbofd_recovery_dispatch_def split: prod.splits)
  qed
  ultimately show ?thesis
    using quiet_good publish_stream_status_static by (fastforce simp: outcome_def split: sum.splits)
qed

lemma incremental_process_good:
  assumes "cache_orders t = []"
  shows "step_ok (\<lambda>t'. good_step t t' \<and> cache_orders t' = []) loop_exn (incremental_process env sbe stream origin message t)"
proof -
  obtain t' r where run: "dispatch_packet sbe (incremental_handler env stream origin) message t = (t', r)" by fastforce
  have "good_step t t' \<and> cache_orders t' = [] \<and> (\<forall>e. r = Inl e \<longrightarrow> loop_exn e)"
  proof (rule dispatch_packet_good [where J = "\<lambda>t. cache_orders t = []", OF _ assms run])
    fix f m and u :: "('a, 'b) incremental"
    assume "cache_orders u = []"
    then show "good_step u (fst (incremental_handler env stream origin f m u)) \<and> cache_orders (fst (incremental_handler env stream origin f m u)) = [] \<and>
      (\<forall>x. snd (incremental_handler env stream origin f m u) = Some x \<longrightarrow> loop_exn x)"
      using incremental_handler_good [of u env stream origin f m] by (cases "incremental_handler env stream origin f m u") (auto simp: loop_exn_def)
  qed
  then show ?thesis using run by (cases r) (simp_all add: incremental_process_def step_ok_def)
qed

lemma incremental_dispatch_good:
  fixes sh :: "('p, 'o) incremental"
  assumes "incremental_dispatch env sbe ops origin payload (fd, ch, sh) = Some ((fd', ch', sh'), e)" and "cache_orders sh = []"
  shows "good_step sh sh' \<and> cache_orders sh' = [] \<and> feed_static fd' = feed_static fd \<and> (\<forall>x. e = Some x \<longrightarrow> loop_exn x)"
proof -
  obtain out where st: "publish_stream_status (get_supports (enable_market_by_order env)) READY fd (published sh) = (fd', out)"
      and run: "arbitrate ops (filter_snapshot_from_incremental env) (incremental_process env sbe (feed_stream_id fd) origin)
        on_sequence_reset payload (ch, sh\<lparr>published := out\<rparr>) = Some ((ch', sh'), e)"
    using assms(1) by (auto simp: incremental_dispatch_def split: prod.splits)
  let ?I = "\<lambda>t :: ('p, 'o) incremental. good_step sh t \<and> cache_orders t = []"
  have "step_ok (\<lambda>x. ?I (snd x)) loop_exn ((ch', sh'), e)"
  proof (rule arbitrate_step_ok [where I = ?I, OF _ _ _ run])
    fix p t assume "?I t"
    then show "step_ok ?I loop_exn (incremental_process env sbe (feed_stream_id fd) origin p t)"
      using incremental_process_good [of t env sbe "feed_stream_id fd" origin p] good_step_trans unfolding step_ok_def by blast
  next
    fix t assume "?I t"
    then show "?I (on_sequence_reset t)" by (simp add: on_sequence_reset_def good_step_def)
  qed (use stream_status_good [OF st] assms(2) in \<open>simp_all add: loop_exn_def\<close>)
  then show ?thesis using publish_stream_status_static [OF st] by (simp add: step_ok_def)
qed

subsection \<open>The manager's invariant\<close>

lemma with_cache_fields [simp]:
  "definitions (with_cache ic sh) = definitions sh" "published (with_cache ic sh) = published sh"
  "cache_orders (with_cache ic sh) = ic_orders ic"
  by (simp_all add: with_cache_def shared.defs incremental.defs)

lemma truncate_fields [simp]:
  "definitions (shared.truncate sh) = definitions sh" "published (shared.truncate sh) = published sh"
  by (simp_all add: shared.defs)

lemma cache_of_orders [simp]: "ic_orders (cache_of sh) = cache_orders sh"
  by (simp add: cache_of_def)

lemma good_with_cache: "good_step (with_cache ic sh) sh' \<longleftrightarrow> good_step sh (shared.truncate sh')"
  by (simp add: good_step_def)

definition feeds :: "'b channel2 \<Rightarrow> feed list" where
  "feeds c = [instrument_definition_1 c, instrument_definition_2 c, mbp_market_recovery_1 c, mbp_market_recovery_2 c,
     mbofd_market_recovery_1 c, mbofd_market_recovery_2 c, incremental_1 c, incremental_2 c]"

definition channel_shape :: "'b channel2 \<Rightarrow> (priority \<times> u16 \<times> string) list" where
  "channel_shape c = map feed_static (feeds c)"

definition manager_shape :: "('p, 'o, 'b) manager \<Rightarrow> (u16 \<times> (priority \<times> u16 \<times> string) list) list" where
  "manager_shape mg = map (\<lambda>(i, c). (i, channel_shape c)) (mg_channels mg)"

definition wf_manager :: "('p, 'o, 'b) manager \<Rightarrow> bool" where
  "wf_manager mg \<longleftrightarrow> wf_definitions (definitions (mg_shared mg)) \<and> distinct (map fst (mg_channels mg)) \<and>
     (\<forall>(i, c) \<in> set (mg_channels mg). ic_orders (c2_cache c) = [])"

lemma channel_dispatch_good:
  assumes run: "channel_dispatch env sbe ops ty pr payload origin (c, sh) = Some ((c', sh'), e)"
    and cache: "ic_orders (c2_cache c) = []"
  shows "good_step sh sh' \<and> channel_shape c' = channel_shape c \<and> ic_orders (c2_cache c') = [] \<and>
    (\<forall>x. e = Some x \<longrightarrow> loop_exn x \<or> x = Fatal \<and> ty = HISTORICAL_REPLAY)"
proof (cases ty)
  case HISTORICAL_REPLAY
  then show ?thesis using run cache by (auto simp: channel_dispatch_def)
next
  case INSTRUMENT_DEFINITION
  let ?fd = "if pr = PRIMARY then instrument_definition_1 c else instrument_definition_2 c"
  obtain fd r where d: "instrument_definition_dispatch env sbe origin payload (?fd, sh) = ((fd, sh'), r)" "e = outcome r"
      "c' = (if pr = PRIMARY then c\<lparr>instrument_definition_1 := fd\<rparr> else c\<lparr>instrument_definition_2 := fd\<rparr>)"
    using run INSTRUMENT_DEFINITION by (auto simp: channel_dispatch_def split: prod.splits if_splits)
  then show ?thesis using instrument_definition_dispatch_good [OF d(1)] cache by (auto simp: channel_shape_def feeds_def)
next
  case MBP_MARKET_RECOVERY
  let ?fd = "if pr = PRIMARY then mbp_market_recovery_1 c else mbp_market_recovery_2 c"
  obtain fd r where d: "mbp_recovery_dispatch env sbe origin (c2_channel c) payload (?fd, sh) = ((fd, sh'), r)" "e = outcome r"
      "c' = (if pr = PRIMARY then c\<lparr>mbp_market_recovery_1 := fd\<rparr> else c\<lparr>mbp_market_recovery_2 := fd\<rparr>)"
    using run MBP_MARKET_RECOVERY by (auto simp: channel_dispatch_def split: prod.splits if_splits)
  then show ?thesis using recovery_dispatch_good [OF disjI1 [OF refl] d(1)] cache by (auto simp: channel_shape_def feeds_def)
next
  case MBOFD_MARKET_RECOVERY
  let ?fd = "if pr = PRIMARY then mbofd_market_recovery_1 c else mbofd_market_recovery_2 c"
  obtain fd r where d: "mbofd_recovery_dispatch env sbe origin (c2_channel c) payload (?fd, sh) = ((fd, sh'), r)" "e = outcome r"
      "c' = (if pr = PRIMARY then c\<lparr>mbofd_market_recovery_1 := fd\<rparr> else c\<lparr>mbofd_market_recovery_2 := fd\<rparr>)"
    using run MBOFD_MARKET_RECOVERY by (auto simp: channel_dispatch_def split: prod.splits if_splits)
  then show ?thesis using recovery_dispatch_good [OF disjI2 [OF refl] d(1)] cache by (auto simp: channel_shape_def feeds_def)
next
  case CT_INCREMENTAL
  let ?fd = "if pr = PRIMARY then incremental_1 c else incremental_2 c"
  obtain fd ch t where d: "incremental_dispatch env sbe ops origin payload (?fd, c2_channel c, with_cache (c2_cache c) sh) = Some ((fd, ch, t), e)"
      "sh' = shared.truncate t" "c' = (if pr = PRIMARY then c\<lparr>c2_channel := ch, c2_cache := cache_of t, incremental_1 := fd\<rparr>
         else c\<lparr>c2_channel := ch, c2_cache := cache_of t, incremental_2 := fd\<rparr>)"
    using run CT_INCREMENTAL by (auto simp: channel_dispatch_def Let_def split: prod.splits option.splits if_splits)
  then show ?thesis using incremental_dispatch_good [OF d(1)] cache by (auto simp: channel_shape_def feeds_def good_with_cache)
qed

definition adds_reference_data :: "event list \<Rightarrow> event list \<Rightarrow> bool" where
  "adds_reference_data out out' \<longleftrightarrow> (\<exists>rds. out' = out @ map EvReferenceData rds)"

lemma adds_reference_data_trans: "adds_reference_data a b \<Longrightarrow> adds_reference_data b c \<Longrightarrow> adds_reference_data a c"
  unfolding adds_reference_data_def by (metis append.assoc map_append)

lemma secdef_publish_reference_data: "adds_reference_data out (fst (secdef_publish dis d item out))"
proof -
  have "adds_reference_data out out" unfolding adds_reference_data_def by (intro exI [of _ "[]"]) simp
  moreover have "adds_reference_data out (out @ [EvReferenceData rd])" for rd
    unfolding adds_reference_data_def by (intro exI [of _ "[rd]"]) simp
  ultimately show ?thesis by (auto simp: secdef_publish_def split: option.split)
qed

lemma read_secdef_reference_data:
  assumes "read_secdef cc dis contents d out = (out', e)"
  shows "adds_reference_data out out'"
proof -
  obtain items x where items: "secdef_items cc contents empty_secdef = (items, x)" by fastforce
  have "adds_reference_data out (fst (deliver (secdef_publish dis d) items out))"
  proof (rule deliver_invariant [where I = "adds_reference_data out"])
    show "adds_reference_data out out" unfolding adds_reference_data_def by (intro exI [of _ "[]"]) simp
  qed (blast intro: adds_reference_data_trans secdef_publish_reference_data)
  moreover have "out' = fst (deliver (secdef_publish dis d) items out)"
    using assms items by (auto simp: read_secdef_def secdef_dispatch_deliver split: prod.splits option.splits)
  ultimately show ?thesis by simp
qed

lemma manager_start_good:
  assumes "manager_start env cc file mg = (mg', e)"
  shows "good_step (mg_shared mg) (mg_shared mg') \<and> mg_channels mg' = mg_channels mg"
proof (cases "file")
  case None
  then show ?thesis using assms by (simp add: manager_start_def)
next
  case (Some contents)
  obtain out where r: "read_secdef cc (discard_symbol env) contents (definitions (mg_shared mg)) (published (mg_shared mg)) = (out, e)"
      "mg' = mg\<lparr>mg_shared := (mg_shared mg)\<lparr>published := out\<rparr>\<rparr>"
    using assms Some by (auto simp: manager_start_def split: prod.splits)
  then obtain rds where "out = published (mg_shared mg) @ map EvReferenceData rds"
    using read_secdef_reference_data [OF r(1)] by (auto simp: adds_reference_data_def)
  then show ?thesis using r(2) by (auto simp: good_step_def)
qed

lemma set_alist_update: "set (AList.update k v xs) \<subseteq> insert (k, v) (set xs)"
  by (induction xs) auto

lemma map_alist_update:
  "map_of xs k = Some c \<Longrightarrow> f c' = f c \<Longrightarrow> map (\<lambda>(i, c). (i, f c)) (AList.update k c' xs) = map (\<lambda>(i, c). (i, f c)) xs"
  by (induction xs) (auto split: if_splits)

lemma timer_channel_frame:
  "channel_shape (timer_channel env now c) = channel_shape c" "c2_cache (timer_channel env now c) = c2_cache c"
  by (simp_all add: channel_shape_def feeds_def timer_channel_def)

lemma manager_step_good:
  assumes "wf_manager mg" and "manager_step env sbe ops cc contents i mg = Some (mg', e)"
  shows "wf_manager mg' \<and> good_step (mg_shared mg) (mg_shared mg') \<and> manager_shape mg' = manager_shape mg"
proof (cases i)
  case MdStart
  then have "good_step (mg_shared mg) (mg_shared mg') \<and> mg_channels mg' = mg_channels mg"
    using assms(2) manager_start_good [of env cc contents mg mg' e] by simp
  then show ?thesis using assms(1) by (auto simp: wf_manager_def manager_shape_def good_step_def)
next
  case MdStop
  then show ?thesis using assms by auto
next
  case (MdTimer now)
  then show ?thesis using assms
    by (auto simp: manager_timer_def wf_manager_def manager_shape_def timer_channel_frame case_prod_unfold comp_def, fastforce)
next
  case (MdPacket channel_id ty pr payload origin)
  show ?thesis
  proof (cases "map_of (mg_channels mg) channel_id")
    case None
    then show ?thesis using assms MdPacket by (simp add: manager_dispatch_def)
  next
    case (Some c)
    obtain c' sh' where run: "channel_dispatch env sbe ops ty pr payload origin (c, mg_shared mg) = Some ((c', sh'), e)"
        and mg': "mg' = \<lparr>mg_shared = sh', mg_channels = AList.update channel_id c' (mg_channels mg)\<rparr>"
      using assms(2) MdPacket Some by (auto simp: manager_dispatch_def)
    have "ic_orders (c2_cache c) = []" using assms(1) Some by (auto simp: wf_manager_def dest: map_of_SomeD)
    note g = channel_dispatch_good [OF run this]
    have "manager_shape mg' = manager_shape mg"
      using map_alist_update [OF Some, of channel_shape c'] g by (simp add: manager_shape_def mg')
    moreover have "\<forall>(i, d) \<in> set (mg_channels mg'). ic_orders (c2_cache d) = []"
      using set_alist_update [of channel_id c' "mg_channels mg"] g assms(1) by (auto simp: mg' wf_manager_def)
    ultimately show ?thesis
      using g assms(1) by (auto simp: wf_manager_def mg' distinct_update good_step_def)
  qed
qed

definition later_manager :: "('p, 'o, 'b) manager \<Rightarrow> ('p, 'o, 'b) manager \<Rightarrow> bool" where
  "later_manager mg mg' \<longleftrightarrow> good_step (mg_shared mg) (mg_shared mg') \<and> manager_shape mg' = manager_shape mg"

interpretation md: driven_component wf_manager later_manager "manager_step env sbe ops cc contents"
  for env :: "('p, 'o) md_env" and sbe and ops :: "'b udp_buffer" and cc contents
  by unfold_locales (auto simp: later_manager_def dest: manager_step_good intro: good_step_trans)

subsection \<open>Properties\<close>

text \<open>
  Claim C1. Whatever is received on whichever feeds of whichever channels, in whatever order
  and interleaved with timers, the index of the shared security definitions stays well formed,
  the caches of the channels are empty between packets, every feed keeps its channel, its
  priority, its stream and its name, and what has been published is only added to, by stream
  states, latencies, reference data and updates about symbols that are not discarded.
\<close>

theorem manager_run_invariant:
  assumes "wf_manager mg" and "manager_run env sbe ops cc contents inputs mg = Some (mg', e)"
  shows "wf_manager mg' \<and> manager_shape mg' = manager_shape mg \<and>
    (\<exists>es. published (mg_shared mg') = published (mg_shared mg) @ es \<and>
      (\<forall>x \<in> set es. allowed_event (definitions (mg_shared mg')) x))"
  using md.run_inv [OF assms(1) assms(2) [unfolded manager_run_def]] by (simp add: later_manager_def good_step_def)

lemma incremental_dispatch_some:
  "buffer_laws ops held sz \<Longrightarrow> \<exists>r. incremental_dispatch env sbe ops origin payload st = Some r"
  using arbitrate_returns [of ops held sz "filter_snapshot_from_incremental env"
      "incremental_process env sbe (feed_stream_id (fst st)) origin" on_sequence_reset payload]
  by (cases st) (simp add: incremental_dispatch_def split: prod.split)

lemma channel_dispatch_some:
  assumes "buffer_laws ops held sz"
  obtains c' sh' e where "channel_dispatch env sbe ops ty pr payload origin (c, sh) = Some ((c', sh'), e)"
proof -
  have "\<exists>r. channel_dispatch env sbe ops ty pr payload origin (c, sh) = Some r"
  proof (cases "ty = CT_INCREMENTAL")
    case True
    obtain r where "incremental_dispatch env sbe ops origin payload
        (if pr = PRIMARY then incremental_1 c else incremental_2 c, c2_channel c, with_cache (c2_cache c) sh) = Some r"
      using incremental_dispatch_some [OF assms] by blast
    then show ?thesis using True by (cases r) (simp add: channel_dispatch_def Let_def split: prod.split)
  next
    case False
    then show ?thesis by (cases ty) (simp_all add: channel_dispatch_def split: prod.split)
  qed
  then show thesis using that by auto
qed

lemma manager_dispatch_some:
  assumes "buffer_laws ops held sz"
  shows "\<exists>r. manager_dispatch env sbe ops channel_id ty pr payload origin mg = Some r"
proof (cases "map_of (mg_channels mg) channel_id")
  case (Some c)
  obtain c' sh' e where "channel_dispatch env sbe ops ty pr payload origin (c, mg_shared mg) = Some ((c', sh'), e)"
    by (rule channel_dispatch_some [OF assms])
  with Some show ?thesis by (simp add: manager_dispatch_def)
qed (simp add: manager_dispatch_def)

text \<open>
  Claim C10. Dispatching a packet always returns, and its effects are confined: a packet of a
  channel that is not configured is ignored, one of another channel is left alone, and an
  exception is one of the message loop (or the fatal error of a historical replay connection).
\<close>

theorem manager_dispatch_returns:
  assumes "buffer_laws ops held sz" and "wf_manager mg"
  shows "\<exists>mg' e. manager_dispatch env sbe ops channel_id ty pr payload origin mg = Some (mg', e) \<and>
    (map_of (mg_channels mg) channel_id = None \<longrightarrow> mg' = mg \<and> e = None) \<and>
    (\<forall>j. j \<noteq> channel_id \<longrightarrow> map_of (mg_channels mg') j = map_of (mg_channels mg) j) \<and>
    (\<forall>x. e = Some x \<longrightarrow> x \<in> {RuntimeError, AssertFailed, UndefinedBehaviour} \<or> x = Fatal \<and> ty = HISTORICAL_REPLAY)"
proof (cases "map_of (mg_channels mg) channel_id")
  case None
  then show ?thesis by (simp add: manager_dispatch_def)
next
  case (Some c)
  obtain c' sh' e where run: "channel_dispatch env sbe ops ty pr payload origin (c, mg_shared mg) = Some ((c', sh'), e)"
    by (rule channel_dispatch_some [OF assms(1)])
  have "ic_orders (c2_cache c) = []" using assms(2) Some by (auto simp: wf_manager_def dest: map_of_SomeD)
  note g = channel_dispatch_good [OF run this]
  show ?thesis using Some run g by (auto simp: manager_dispatch_def update_conv' loop_exn_def)
qed

subsection \<open>Construction: identifiers and names\<close>

lemma sum_bind_Inr [simp]: "sum_bind x f = Inr y \<longleftrightarrow> (\<exists>a. x = Inr a \<and> f a = Inr y)"
  by (cases x) auto

lemma make_feed_Inr:
  "make_feed cfg i ty pr n = Inr fd \<Longrightarrow> feed_static fd = (pr, n, feed_name fd) \<and> config_get_name i ty pr cfg = Inr (feed_name fd)"
  by (auto simp: make_feed_def feed_static_def)

definition stream_ids :: "(u16 \<times> 'b channel2) list \<Rightarrow> u16 list" where
  "stream_ids chs = concat (map (\<lambda>(i, c). map feed_stream_id (feeds c)) chs)"

definition feed_of :: "connection_type \<Rightarrow> priority \<Rightarrow> 'b channel2 \<Rightarrow> feed" where
  "feed_of ty pr c =
     (case ty of
        INSTRUMENT_DEFINITION \<Rightarrow> if pr = PRIMARY then instrument_definition_1 c else instrument_definition_2 c
      | MBP_MARKET_RECOVERY \<Rightarrow> if pr = PRIMARY then mbp_market_recovery_1 c else mbp_market_recovery_2 c
      | MBOFD_MARKET_RECOVERY \<Rightarrow> if pr = PRIMARY then mbofd_market_recovery_1 c else mbofd_market_recovery_2 c
      | _ \<Rightarrow> if pr = PRIMARY then incremental_1 c else incremental_2 c)"

definition named_by :: "mdp_config \<Rightarrow> u16 \<times> 'b channel2 \<Rightarrow> bool" where
  "named_by cfg ic \<longleftrightarrow>
     (\<forall>ty pr. ty \<noteq> HISTORICAL_REPLAY \<longrightarrow> pr = PRIMARY \<or> pr = SECONDARY \<longrightarrow>
        config_get_name (fst ic) ty pr cfg = Inr (feed_name (feed_of ty pr (snd ic))))"

lemma make_channel2_streams:
  assumes "make_channel2 cfg buffer i s = Inr (c, s')"
  shows "s' = s + 8 \<and> map feed_stream_id (feeds c) = map (\<lambda>k. s + word_of_nat (Suc k)) [0..<8] \<and> ic_orders (c2_cache c) = []"
  using assms by (auto simp: make_channel2_def feeds_def feed_static_def upt_rec dest!: make_feed_Inr)

lemma make_channel2_names:
  assumes "make_channel2 cfg buffer i s = Inr (c, s')"
  shows "named_by cfg (i, c)"
proof -
  have "config_get_name i ty pr cfg = Inr (feed_name (feed_of ty pr c))" if "ty \<noteq> HISTORICAL_REPLAY" "pr = PRIMARY \<or> pr = SECONDARY" for ty pr
    using assms that
    by (cases ty) (auto simp: make_channel2_def feed_of_def dest!: make_feed_Inr)
  then show ?thesis by (simp add: named_by_def)
qed

lemma upt_split8: "[0..<8 * Suc n] = [0..<8] @ map (\<lambda>k. k + 8) [0..<8 * n]"
  using upt_add_eq_append [of 0 8 "8 * n"] map_add_upt [of 8 "8 * n"] by (simp add: add.commute)

lemma create_channels_spec:
  assumes "create_channels cfg buffer is (res, s) = Inr (chs, s')"
  shows "\<exists>new. chs = res @ new \<and> fst ` set new = set is - fst ` set res \<and> distinct (map fst new) \<and>
    s' = s + 8 * word_of_nat (length new) \<and> stream_ids new = map (\<lambda>k. s + word_of_nat (Suc k)) [0..<8 * length new] \<and>
    (\<forall>ic \<in> set new. named_by cfg ic \<and> ic_orders (c2_cache (snd ic)) = [])"
  using assms
proof (induction "is" arbitrary: res s)
  case Nil
  then show ?case by (auto simp: stream_ids_def)
next
  case (Cons i "is")
  show ?case
  proof (cases "map_of res i = None")
    case False
    then have "i \<in> fst ` set res" by (auto simp: map_of_eq_None_iff)
    then show ?thesis using Cons.IH [of res s] Cons.prems False by (auto simp: insert_Diff_if)
  next
    case True
    then obtain c s1 where mk1: "make_channel2 cfg buffer i s = Inr (c, s1)"
        and rec1: "create_channels cfg buffer is (res @ [(i, c)], s1) = Inr (chs, s')"
      using Cons.prems by auto
    have s1: "s1 = s + 8" using make_channel2_streams [OF mk1] by simp
    note mk = mk1 [unfolded s1] and rec = rec1 [unfolded s1]
    obtain new where new: "chs = (res @ [(i, c)]) @ new" "fst ` set new = set is - fst ` set (res @ [(i, c)])" "distinct (map fst new)"
        "s' = s + 8 + 8 * word_of_nat (length new)" "stream_ids new = map (\<lambda>k. s + 8 + word_of_nat (Suc k)) [0..<8 * length new]"
        "\<forall>ic \<in> set new. named_by cfg ic \<and> ic_orders (c2_cache (snd ic)) = []"
      using Cons.IH [OF rec] by blast
    have "i \<notin> fst ` set res" using True by (simp add: map_of_eq_None_iff)
    then have keys: "fst ` set ((i, c) # new) = set (i # is) - fst ` set res" "distinct (map fst ((i, c) # new))"
      using new(2,3) by auto
    have "stream_ids ((i, c) # new) = map (\<lambda>k. s + word_of_nat (Suc k)) [0..<8 * length ((i, c) # new)]"
      using make_channel2_streams [OF mk] new(5)
      unfolding list.size add_Suc_right add_0_right upt_split8 by (simp add: stream_ids_def comp_def algebra_simps)
    then show ?thesis
      using new keys make_channel2_streams [OF mk] make_channel2_names [OF mk]
      by (intro exI [of _ "(i, c) # new"]) (simp add: algebra_simps)
  qed
qed

lemma make_security_definitions_wf:
  "make_security_definitions env cc contents = Inr d \<Longrightarrow> wf_definitions d"
  by (auto simp: make_security_definitions_def security_definitions_init_fold
      secdef_load_fold [OF wf_definitions_empty no_discards_empty] split: option.splits prod.splits)

lemma make_manager_wf:
  assumes "make_manager cfg buffer channel_ids sh s = Inr (mg, s')" and "wf_definitions (definitions sh)"
  shows "wf_manager mg"
proof -
  from assms(1) have c: "create_channels cfg buffer channel_ids ([], s) = Inr (mg_channels mg, s')" "mg_shared mg = sh"
    by (auto simp: make_manager_def split_beta)
  from create_channels_spec [OF c(1)] have "distinct (map fst (mg_channels mg))" "\<forall>ic \<in> set (mg_channels mg). ic_orders (c2_cache (snd ic)) = []"
    by auto
  then show ?thesis using c(2) assms(2) by (auto simp: wf_manager_def)
qed

text \<open>
  Claim C19. Building the manager: it has exactly the channels that were asked for, each once
  and fresh. As long as eight identifiers per channel fit into sixteen bits, the feeds have the
  consecutive stream identifiers after the one passed in, no two of them the same, and the
  counter is left at the last one. Every feed is named as the configuration names its
  connection.
\<close>

theorem make_manager_streams:
  assumes "make_manager cfg buffer channel_ids sh s = Inr (mg, s')"
    and "unat s + 8 * card (set channel_ids) < 2 ^ 16" and "wf_definitions (definitions sh)"
  shows "wf_manager mg \<and> mg_shared mg = sh \<and> fst ` set (mg_channels mg) = set channel_ids \<and>
    map unat (stream_ids (mg_channels mg)) = [unat s + 1..<unat s + 8 * card (set channel_ids) + 1] \<and>
    unat s' = unat s + 8 * card (set channel_ids) \<and>
    (\<forall>i \<in> set channel_ids. \<forall>ty pr. ty \<noteq> HISTORICAL_REPLAY \<longrightarrow> pr = PRIMARY \<or> pr = SECONDARY \<longrightarrow>
       manager_get_name i ty pr mg = config_get_name i ty pr cfg)"
proof -
  from assms(1) have "create_channels cfg buffer channel_ids ([], s) = Inr (mg_channels mg, s')" and sh: "mg_shared mg = sh"
    by (auto simp: make_manager_def split_beta)
  from create_channels_spec [OF this(1)]
  have keys: "fst ` set (mg_channels mg) = set channel_ids" "distinct (map fst (mg_channels mg))"
    and s': "s' = s + 8 * word_of_nat (length (mg_channels mg))"
    and ids: "stream_ids (mg_channels mg) = map (\<lambda>k. s + word_of_nat (Suc k)) [0..<8 * length (mg_channels mg)]"
    and names: "\<forall>ic \<in> set (mg_channels mg). named_by cfg ic \<and> ic_orders (c2_cache (snd ic)) = []"
    by auto
  have n: "length (mg_channels mg) = card (set channel_ids)"
    using keys by (metis distinct_card length_map set_map)
  have u: "unat (s + word_of_nat k) = unat s + k" if "k \<le> 8 * card (set channel_ids)" for k
    using that assms(2) by (simp add: unat_word_ariths unat_of_nat)
  have "map unat (stream_ids (mg_channels mg)) = map (\<lambda>k. k + (unat s + 1)) [0..<8 * card (set channel_ids)]"
    unfolding ids n map_map by (rule map_cong) (use u in \<open>auto simp del: of_nat_Suc\<close>)
  also have "\<dots> = [unat s + 1..<unat s + 8 * card (set channel_ids) + 1]"
    using map_add_upt [of "unat s + 1" "8 * card (set channel_ids)"] by (simp add: algebra_simps)
  finally have streams: "map unat (stream_ids (mg_channels mg)) = [unat s + 1..<unat s + 8 * card (set channel_ids) + 1]" .
  have "s' = s + word_of_nat (8 * length (mg_channels mg))" using s' by simp
  then have last: "unat s' = unat s + 8 * card (set channel_ids)" using u [of "8 * card (set channel_ids)"] n by simp
  have "manager_get_name i ty pr mg = config_get_name i ty pr cfg"
    if i: "i \<in> set channel_ids" and "ty \<noteq> HISTORICAL_REPLAY" "pr = PRIMARY \<or> pr = SECONDARY" for i ty pr
  proof -
    obtain c where c: "map_of (mg_channels mg) i = Some c"
      using i keys by (metis map_of_eq_None_iff not_None_eq)
    then have "named_by cfg (i, c)" using names by (auto dest: map_of_SomeD)
    then show ?thesis using c that(2,3) by (cases ty) (auto simp: manager_get_name_def named_by_def feed_of_def)
  qed
  moreover have "wf_manager mg" using keys(2) names assms(3) sh by (auto simp: wf_manager_def)
  ultimately show ?thesis using sh keys(1) streams last by blast
qed

subsection \<open>Concrete managers\<close>

definition sample_cfg_connection :: "string \<Rightarrow> cfg_connection" where
  "sample_cfg_connection name = \<lparr>cc_multicast_address = ''224.0.31.1'', cc_port = 14310, cc_name = name\<rparr>"

definition sample_connections :: cfg_connections where
  "sample_connections =
     [(310, map (\<lambda>(ty, n). (ty, [(PRIMARY, sample_cfg_connection (n @ ''A'')), (SECONDARY, sample_cfg_connection (n @ ''B''))]))
        [(INSTRUMENT_DEFINITION, ''310N''), (MBP_MARKET_RECOVERY, ''310S''), (MBOFD_MARKET_RECOVERY, ''310SMBO''), (CT_INCREMENTAL, ''310I'')])]"

definition sample_config :: mdp_config where
  "sample_config = \<lparr>cfg_connections = sample_connections, cfg_connection_types = create_connection_types sample_connections,
     cfg_names = create_names sample_connections\<rparr>"

lemma sample_config_name [simp]:
  "config_get_name 310 INSTRUMENT_DEFINITION PRIMARY sample_config = Inr ''310NA''"
  "config_get_name 310 INSTRUMENT_DEFINITION SECONDARY sample_config = Inr ''310NB''"
  "config_get_name 310 MBP_MARKET_RECOVERY PRIMARY sample_config = Inr ''310SA''"
  "config_get_name 310 MBP_MARKET_RECOVERY SECONDARY sample_config = Inr ''310SB''"
  "config_get_name 310 MBOFD_MARKET_RECOVERY PRIMARY sample_config = Inr ''310SMBOA''"
  "config_get_name 310 MBOFD_MARKET_RECOVERY SECONDARY sample_config = Inr ''310SMBOB''"
  "config_get_name 310 CT_INCREMENTAL PRIMARY sample_config = Inr ''310IA''"
  "config_get_name 310 CT_INCREMENTAL SECONDARY sample_config = Inr ''310IB''"
  by (simp_all add: config_get_name_def sample_config_def create_names_def sample_connections_def assign3_def assign2_def
      sample_cfg_connection_def)

lemma sample_manager_made: "\<exists>mg s'. make_manager sample_config ([] :: (u32 \<times> bytes) list) [310] (empty_shared :: (u32, u32) shared) 0 = Inr (mg, s')"
  by (simp add: make_manager_def make_channel2_def make_feed_def)

theorem make_manager_streams_witness:
  "\<exists>mg s'. make_manager sample_config ([] :: (u32 \<times> bytes) list) [310] (empty_shared :: (u32, u32) shared) 0 = Inr (mg, s') \<and>
     map unat (stream_ids (mg_channels mg)) = [1, 2, 3, 4, 5, 6, 7, 8] \<and> unat s' = 8 \<and>
     manager_get_name 310 CT_INCREMENTAL SECONDARY mg = Inr ''310IB''"
proof -
  obtain mg s' where mk: "make_manager sample_config ([] :: (u32 \<times> bytes) list) [310] (empty_shared :: (u32, u32) shared) 0 = Inr (mg, s')"
    using sample_manager_made by blast
  have wf: "wf_definitions (definitions (empty_shared :: (u32, u32) shared))" by (simp add: empty_shared_def)
  note r = make_manager_streams [OF mk _ wf]
  have "map unat (stream_ids (mg_channels mg)) = [1, 2, 3, 4, 5, 6, 7, 8]"
    using r by (simp add: upt_rec del: map_eq_Cons_conv)
  moreover have "unat s' = 8" and "manager_get_name 310 CT_INCREMENTAL SECONDARY mg = Inr ''310IB''" using r by simp_all
  ultimately show ?thesis using mk by - (rule exI [of _ mg], rule exI [of _ s'], intro conjI)
qed

definition sample_channel2 :: "(u32 \<times> bytes) list channel2" where
  "sample_channel2 = \<lparr>c2_channel = sample_channel,
     instrument_definition_1 = sample_feed, instrument_definition_2 = sample_feed,
     mbp_market_recovery_1 = sample_feed, mbp_market_recovery_2 = sample_feed,
     mbofd_market_recovery_1 = sample_feed, mbofd_market_recovery_2 = sample_feed,
     c2_cache = \<lparr>ic_orders = [], ic_orders_47 = [], ic_security_ids_47 = []\<rparr>,
     incremental_1 = sample_feed, incremental_2 = sample_feed\<rparr>"

definition sample_manager :: "(u32, u32, (u32 \<times> bytes) list) manager" where
  "sample_manager = \<lparr>mg_shared = empty_shared, mg_channels = [(310, sample_channel2)]\<rparr>"

definition sample_definition_packet :: bytes where
  "sample_definition_packet = encode_packet sample_enc sample_frame [(\<lparr>blockLength = 0, templateId = 54, version = 9\<rparr>, [])]"

lemma sample_manager_wf: "wf_manager sample_manager"
  by (simp add: sample_manager_def wf_manager_def empty_shared_def sample_channel2_def)

theorem manager_run_invariant_witness:
  "\<exists>mg e. manager_run sample_env sample_mdp_sbe list_buffer sample_cc None
      [MdTimer 5, MdPacket 310 INSTRUMENT_DEFINITION PRIMARY sample_definition_packet 7] sample_manager = Some (mg, e) \<and> wf_manager mg"
proof -
  have "\<exists>mg e. manager_run sample_env sample_mdp_sbe list_buffer sample_cc None
      [MdTimer 5, MdPacket 310 INSTRUMENT_DEFINITION PRIMARY sample_definition_packet 7] sample_manager = Some (mg, e)"
    by (simp add: manager_run_def manager_timer_def sample_manager_def manager_dispatch_def channel_dispatch_def split: prod.split option.split)
  then show ?thesis using manager_run_invariant [OF sample_manager_wf] by metis
qed

theorem manager_dispatch_returns_witness:
  "\<exists>mg e. manager_dispatch sample_env sample_mdp_sbe list_buffer 310 CT_INCREMENTAL SECONDARY (sample_packet 5) 0 sample_manager = Some (mg, e)"
  using manager_dispatch_returns [OF list_buffer_laws sample_manager_wf] by blast

end
