(* ===== verification/GatewayConfig.thy ===== *)
theory GatewayConfig
  imports Manager
begin

section \<open>The configuration of the gateway\<close>

text \<open>
  \<^verbatim>\<open>gateway/config.cpp\<close> and \<^verbatim>\<open>account.cpp\<close>: what the reader of the server
  framework reports of the configuration file is collected, passed on to the framework, and the
  accounts are made from it. The symbols, users and rate limits are opaque: the gateway never
  looks into them.
\<close>

subsection \<open>Accounts\<close>

record gw_account =
  ga_name :: string
  ga_login :: string
  ga_password :: string
  ga_secret :: string

record ('y, 'u, 'l) gw_config =
  gc_accounts :: "(string \<times> gw_account) list"
  gc_master_account :: string
  gc_symbols :: 'y
  gc_users :: "'u list"
  gc_rate_limits :: "(string \<times> 'l) list"

definition config_account :: "bool \<Rightarrow> gw_account \<Rightarrow> ('y, 'u, 'l) gw_config \<Rightarrow> ('y, 'u, 'l) gw_config" where
  "config_account master account cfg =
     (let cfg = (if master then cfg\<lparr>gc_master_account := ga_name account\<rparr> else cfg)
      in cfg\<lparr>gc_accounts := emplace (ga_name account) account (gc_accounts cfg)\<rparr>)"

definition get_login :: "('y, 'u, 'l) gw_config \<Rightarrow> string \<Rightarrow> exn + string" where
  "get_login cfg account = (case map_of (gc_accounts cfg) account of None \<Rightarrow> Inl Fatal | Some a \<Rightarrow> Inr (ga_login a))"

definition get_password :: "('y, 'u, 'l) gw_config \<Rightarrow> string \<Rightarrow> exn + string" where
  "get_password cfg account = (case map_of (gc_accounts cfg) account of None \<Rightarrow> Inl Fatal | Some a \<Rightarrow> Inr (ga_password a))"

definition get_secret :: "('y, 'u, 'l) gw_config \<Rightarrow> string \<Rightarrow> exn + string" where
  "get_secret cfg account = (case map_of (gc_accounts cfg) account of None \<Rightarrow> Inl Fatal | Some a \<Rightarrow> Inr (ga_secret a))"

definition make_account :: "('y, 'u, 'l) gw_config \<Rightarrow> string \<Rightarrow> exn + gw_account" where
  "make_account cfg name =
     sum_bind (get_login cfg name) (\<lambda>login. sum_bind (get_password cfg name) (\<lambda>password. sum_bind (get_secret cfg name) (\<lambda>secret.
       Inr \<lparr>ga_name = name, ga_login = login, ga_password = password, ga_secret = secret\<rparr>)))"

fun create_accounts_loop :: "('y, 'u, 'l) gw_config \<Rightarrow> gw_account list \<Rightarrow> (string \<times> gw_account) list \<Rightarrow> exn + (string \<times> gw_account) list" where
  "create_accounts_loop cfg [] result = Inr result"
| "create_accounts_loop cfg (account # accounts) result =
     sum_bind (make_account cfg (ga_name account)) (\<lambda>a. create_accounts_loop cfg accounts (emplace (ga_name account) a result))"

definition create_accounts :: "('y, 'u, 'l) gw_config \<Rightarrow> exn + (string \<times> gw_account) list" where
  "create_accounts cfg = create_accounts_loop cfg (map snd (gc_accounts cfg)) []"

subsection \<open>Reading and passing on\<close>

definition empty_gw_config :: "'y \<Rightarrow> ('y, 'u, 'l) gw_config" where
  "empty_gw_config symbols = \<lparr>gc_accounts = [], gc_master_account = [], gc_symbols = symbols, gc_users = [], gc_rate_limits = []\<rparr>"

datatype ('y, 'u, 'l) cfg_item =
    CfgSymbols 'y
  | CfgAccount bool gw_account
  | CfgUser 'u
  | CfgRateLimit string 'l
  | CfgRequestTemplate
  | CfgKey string

fun config_item :: "('y, 'u, 'l) cfg_item \<Rightarrow> ('y, 'u, 'l) gw_config \<Rightarrow> ('y, 'u, 'l) gw_config \<times> exn option" where
  "config_item (CfgSymbols symbols) cfg = (cfg\<lparr>gc_symbols := symbols\<rparr>, None)"
| "config_item (CfgAccount master account) cfg = (config_account master account cfg, None)"
| "config_item (CfgUser user) cfg = (cfg\<lparr>gc_users := gc_users cfg @ [user]\<rparr>, None)"
| "config_item (CfgRateLimit name rate_limit) cfg = (cfg\<lparr>gc_rate_limits := emplace name rate_limit (gc_rate_limits cfg)\<rparr>, None)"
| "config_item CfgRequestTemplate cfg = (cfg, Some Fatal)"
| "config_item (CfgKey key) cfg = (cfg, None)"

definition read_config :: "('y, 'u, 'l) cfg_item list \<Rightarrow> 'y \<Rightarrow> ('y, 'u, 'l) gw_config \<times> exn option" where
  "read_config items symbols = deliver config_item items (empty_gw_config symbols)"

datatype ('g, 'y, 'u, 'l) config_call =
    CallExchange string
  | CallSymbols 'y
  | CallAccount gw_account
  | CallUser 'u
  | CallGatewaySettings 'g
  | CallRateLimit 'l

definition config_dispatch :: "string list \<Rightarrow> 'g \<Rightarrow> ('y, 'u, 'l) gw_config \<Rightarrow> ('g, 'y, 'u, 'l) config_call list" where
  "config_dispatch exchanges gateway_settings cfg =
     map CallExchange exchanges @ [CallSymbols (gc_symbols cfg)] @ map (CallAccount \<circ> snd) (gc_accounts cfg)
     @ map CallUser (gc_users cfg) @ [CallGatewaySettings gateway_settings] @ map (CallRateLimit \<circ> snd) (gc_rate_limits cfg)"

subsection \<open>Accounts that are made\<close>

lemma create_accounts_loop_ok:
  assumes "\<forall>a \<in> set accounts. \<exists>b. map_of (gc_accounts cfg) (ga_name a) = Some b"
  shows "\<exists>r. create_accounts_loop cfg accounts result = Inr r \<and> fst ` set r = fst ` set result \<union> ga_name ` set accounts"
  using assms
proof (induction accounts arbitrary: result)
  case (Cons a as)
  obtain b where "map_of (gc_accounts cfg) (ga_name a) = Some b" using Cons.prems by auto
  then obtain x where x: "make_account cfg (ga_name a) = Inr x"
    by (simp add: make_account_def get_login_def get_password_def get_secret_def)
  have keys: "fst ` set (emplace (ga_name a) x result) = insert (ga_name a) (fst ` set result)"
    by (auto simp: emplace_def map_of_eq_None_iff)
  show ?case using Cons.IH [of "emplace (ga_name a) x result"] Cons.prems x keys by auto
qed auto

text \<open>The accounts of a configuration: filed under their names.\<close>

definition wf_accounts :: "('y, 'u, 'l) gw_config \<Rightarrow> bool" where
  "wf_accounts cfg \<longleftrightarrow> distinct (map fst (gc_accounts cfg)) \<and> (\<forall>(name, a) \<in> set (gc_accounts cfg). ga_name a = name)"

lemma config_account_wf [wf_intros]: "wf_accounts cfg \<Longrightarrow> wf_accounts (config_account master a cfg)"
  by (auto simp: wf_accounts_def config_account_def Let_def emplace_def map_of_eq_None_iff)

lemma create_accounts_ok:
  assumes "wf_accounts cfg"
  shows "\<exists>r. create_accounts cfg = Inr r \<and> fst ` set r = fst ` set (gc_accounts cfg)"
proof -
  have names: "ga_name ` set (map snd (gc_accounts cfg)) = fst ` set (gc_accounts cfg)"
    using assms by (force simp: wf_accounts_def)
  have "\<forall>a \<in> set (map snd (gc_accounts cfg)). \<exists>b. map_of (gc_accounts cfg) (ga_name a) = Some b"
    using names by (metis imageI map_of_eq_None_iff not_None_eq)
  then show ?thesis using create_accounts_loop_ok [of "map snd (gc_accounts cfg)" cfg "[]"] names by (simp add: create_accounts_def)
qed

subsection \<open>What has been read\<close>

definition accounts_of :: "('y, 'u, 'l) cfg_item list \<Rightarrow> (string \<times> gw_account) list" where
  "accounts_of items = List.map_filter (\<lambda>x. case x of CfgAccount m a \<Rightarrow> Some (ga_name a, a) | _ \<Rightarrow> None) items"

definition rate_limits_of :: "('y, 'u, 'l) cfg_item list \<Rightarrow> (string \<times> 'l) list" where
  "rate_limits_of items = List.map_filter (\<lambda>x. case x of CfgRateLimit n l \<Rightarrow> Some (n, l) | _ \<Rightarrow> None) items"

definition users_of :: "('y, 'u, 'l) cfg_item list \<Rightarrow> 'u list" where
  "users_of items = List.map_filter (\<lambda>x. case x of CfgUser u \<Rightarrow> Some u | _ \<Rightarrow> None) items"

lemmas items_of_defs = accounts_of_def rate_limits_of_def users_of_def map_filter_simps

lemma deliver_config_item:
  assumes "CfgRequestTemplate \<notin> set items"
  shows "\<exists>cfg'. deliver config_item items cfg = (cfg', None) \<and> (wf_accounts cfg \<longrightarrow> wf_accounts cfg') \<and>
    map_of (gc_accounts cfg') = map_of (accounts_of items) ++ map_of (gc_accounts cfg) \<and>
    map_of (gc_rate_limits cfg') = map_of (rate_limits_of items) ++ map_of (gc_rate_limits cfg) \<and>
    gc_users cfg' = gc_users cfg @ users_of items"
  using assms
proof (induction items arbitrary: cfg)
  case Nil
  then show ?case by (simp add: items_of_defs)
next
  case (Cons x xs)
  obtain cfg1 where x: "config_item x cfg = (cfg1, None)" "wf_accounts cfg \<longrightarrow> wf_accounts cfg1"
      "map_of (gc_accounts cfg1) = map_of (accounts_of [x]) ++ map_of (gc_accounts cfg)"
      "map_of (gc_rate_limits cfg1) = map_of (rate_limits_of [x]) ++ map_of (gc_rate_limits cfg)"
      "gc_users cfg1 = gc_users cfg @ users_of [x]"
    using Cons.prems
    by (cases x) (auto simp: items_of_defs config_account_def Let_def map_of_emplace fun_eq_iff map_add_def wf_accounts_def
        emplace_def map_of_eq_None_iff split: option.split)
  have "map_of (accounts_of (x # xs)) = map_of (accounts_of xs) ++ map_of (accounts_of [x])"
      "map_of (rate_limits_of (x # xs)) = map_of (rate_limits_of xs) ++ map_of (rate_limits_of [x])"
      "users_of (x # xs) = users_of [x] @ users_of xs"
    by (cases x; simp add: items_of_defs fun_eq_iff map_add_def split: option.split)+
  then show ?case using Cons.IH [of cfg1] Cons.prems x by auto
qed

text \<open>
  A configuration file without request templates is read to its end. Of accounts and of rate
  limits with the same name the first one counts, all users are kept in order, and the accounts
  can be made: each with the login, the password and the secret of the file.
\<close>

lemma read_config_spec:
  assumes "CfgRequestTemplate \<notin> set items"
  shows "\<exists>cfg accounts. read_config items symbols = (cfg, None) \<and> gc_users cfg = users_of items \<and>
    map_of (gc_accounts cfg) = map_of (accounts_of items) \<and> map_of (gc_rate_limits cfg) = map_of (rate_limits_of items) \<and>
    create_accounts cfg = Inr accounts \<and> fst ` set accounts = fst ` set (accounts_of items)"
proof -
  note e = deliver_config_item [OF assms, of "empty_gw_config symbols"]
  obtain cfg where cfg: "read_config items symbols = (cfg, None)" "wf_accounts cfg"
      "map_of (gc_accounts cfg) = map_of (accounts_of items)" "map_of (gc_rate_limits cfg) = map_of (rate_limits_of items)"
      "gc_users cfg = users_of items"
    using e by (elim exE conjE) (rule that, simp_all add: read_config_def empty_gw_config_def wf_accounts_def)
  note cfg(2)
  from create_accounts_ok [OF this] obtain accounts where
    acc: "create_accounts cfg = Inr accounts" "fst ` set accounts = fst ` set (gc_accounts cfg)" by blast
  have "fst ` set (gc_accounts cfg) = fst ` set (accounts_of items)"
    using arg_cong [OF cfg(3), of dom] by (simp add: dom_map_of_conv_image_fst)
  with acc cfg show ?thesis by simp
qed

end
