(* ===== verification/IlinkParser.thy ===== *)
theory IlinkParser
  imports MdpParser
begin

section \<open>The order entry stream: framing and the read loop\<close>

text \<open>
  \<^verbatim>\<open>protocol/ilink/parser.cpp\<close> and the two functions of
  \<^verbatim>\<open>gateway/order_entry.cpp\<close> between it and the socket: the loop that consumes what
  has been received, and the frame put around a message that is sent. A frame is the
  length of the whole, the encoding 0xCAFE, an SBE header and a body. As for market data, the
  generated flyweights are the parameter \<open>sbe\<close>.
\<close>

text \<open>The template ids of the switch, in its order.\<close>

definition ilink_parsed :: "u16 list" where
  "ilink_parsed =
     [501, 502, 504, 505, 506, 507, 509, 510, 513, 519, 521,
      522, 523, 525, 526, 527, 531, 532, 534, 564, 565, 535, 536, 562, 561]"

text \<open>
  The message loop of \<^verbatim>\<open>Parser::dispatch\<close>. A message takes all of the frame, so that
  the loop ends after one turn; an unknown template id leaves the loop.
\<close>

function ilink_messages ::
    "'m sbe \<Rightarrow> ('m \<Rightarrow> 's \<Rightarrow> 's \<times> exn option) \<Rightarrow> bytes \<Rightarrow> 's \<Rightarrow> 's \<times> exn option" where
  "ilink_messages sbe h message s =
     (if message = [] then (s, None)
      else (case header_decode sbe message of
         None \<Rightarrow> (s, Some RuntimeError)
       | Some header \<Rightarrow>
           if length message < header_length sbe then (s, Some UndefinedBehaviour)
           else let message' = drop (header_length sbe) message; len = length message' in
             if templateId header \<in> set ilink_parsed then
               (case h (body_decode sbe header (take len message')) s of
                  (s', None) \<Rightarrow> ilink_messages sbe h (drop len message') s'
                | (s', Some e) \<Rightarrow> (s', Some e))
             else (s, None)))"
  by pat_completeness auto
termination
  by (relation "measure (\<lambda>(sbe, h, message, s). length message)") auto

declare ilink_messages.simps [simp del]

text \<open>
  \<^verbatim>\<open>parse_helper\<close>: zero when the frame is incomplete, otherwise its length. The count
  given to \<^verbatim>\<open>subspan\<close> is \<open>length - 4\<close>: for a length of 3 it is the value that
  stands for the rest of the buffer, and for a smaller one it is out of range.
\<close>

definition ilink_dispatch ::
    "'m sbe \<Rightarrow> ('m \<Rightarrow> 's \<Rightarrow> 's \<times> exn option) \<Rightarrow> bytes \<Rightarrow> 's \<Rightarrow> 's \<times> (exn + nat)" where
  "ilink_dispatch sbe h buffer s =
     (if length buffer < 4 then (s, Inr 0)
      else if le_u16 (drop 2 buffer) \<noteq> 0xCAFE then (s, Inl Fatal)
      else let len = unat (le_u16 buffer) in
        if length buffer < len then (s, Inr 0)
        else if len < 3 then (s, Inl UndefinedBehaviour)
        else let message = (if len = 3 then drop 4 buffer else take (len - 4) (drop 4 buffer)) in
          (case ilink_messages sbe h message s of
             (s', None) \<Rightarrow> (s', Inr len)
           | (s', Some e) \<Rightarrow> (s', Inl e)))"

text \<open>
  The loop of the \<^verbatim>\<open>Read\<close> handler over the received bytes; the result is the number
  of bytes to drain.
\<close>

function read_loop ::
    "'m sbe \<Rightarrow> ('m \<Rightarrow> 's \<Rightarrow> 's \<times> exn option) \<Rightarrow> bytes \<Rightarrow> nat \<Rightarrow> 's \<Rightarrow> 's \<times> (exn + nat)" where
  "read_loop sbe h buffer total_bytes s =
     (if buffer = [] then (s, Inr total_bytes)
      else (case ilink_dispatch sbe h buffer s of
         (s', Inl e) \<Rightarrow> (s', Inl e)
       | (s', Inr n) \<Rightarrow>
           if n = 0 then (s', Inr total_bytes)
           else if \<not> n \<le> length buffer then (s', Inl AssertFailed)
           else read_loop sbe h (drop n buffer) (total_bytes + n) s'))"
  by pat_completeness auto
termination
  by (relation "measure (\<lambda>(sbe, h, buffer, total_bytes, s). length buffer)") auto

declare read_loop.simps [simp del]

text \<open>
  The connection manager is library code. Used of it here: the bytes received and not yet
  drained, and the removal of some of them from the front.
\<close>

record 'c connection_manager =
  cm_buffer :: "'c \<Rightarrow> bytes"
  cm_drain :: "nat \<Rightarrow> 'c \<Rightarrow> 'c"

definition on_read ::
    "'c connection_manager \<Rightarrow> 'm sbe \<Rightarrow> ('m \<Rightarrow> 's \<Rightarrow> 's \<times> exn option) \<Rightarrow> 's \<times> 'c \<Rightarrow> ('s \<times> 'c) \<times> exn option" where
  "on_read cm sbe h sc =
     (case read_loop sbe h (cm_buffer cm (snd sc)) 0 (fst sc) of
        (s', Inl e) \<Rightarrow> ((s', snd sc), Some e)
      | (s', Inr total_bytes) \<Rightarrow> ((s', cm_drain cm total_bytes (snd sc)), None))"

text \<open>The frame \<^verbatim>\<open>OrderEntry::send\<close> writes in front of a message.\<close>

definition sofh_frame :: "bytes \<Rightarrow> bytes" where
  "sofh_frame message = le_bytes 2 (length message + 4) @ [0xFE, 0xCA] @ message"

subsection \<open>One frame\<close>

lemma length_sofh_frame [simp]: "length (sofh_frame message) = length message + 4"
  by (simp add: sofh_frame_def)

lemma header_length_pos:
  assumes "header_codec sbe enc"
  shows "0 < header_length sbe"
proof (rule ccontr)
  assume "\<not> 0 < header_length sbe"
  then have e: "enc x = []" for x using header_codecD(1) [OF assms, of x] by simp
  let ?x = "\<lparr>blockLength = 0, templateId = 0, version = 0\<rparr>"
  have "header_decode sbe [] = Some x" for x using header_codecD(2) [OF assms, of x "[]"] e by simp
  from this [of ?x] this [of "?x\<lparr>version := 1\<rparr>"] show False by simp
qed

lemma ilink_messages_encoded:
  assumes hc: "header_codec sbe enc"
  shows "ilink_messages sbe h (enc x @ body) s =
    (if templateId x \<in> set ilink_parsed then h (body_decode sbe x body) s else (s, None))"
proof -
  note H = header_codecD [OF hc]
  have ne: "enc x @ body \<noteq> []" using header_length_pos [OF hc] H(1) [of x] by auto
  have hl: "length (enc x @ body) < header_length sbe \<longleftrightarrow> False" using H(1) [of x] by simp
  have dh: "drop (header_length sbe) (enc x @ body) = body" using H(1) [of x] by simp
  have nil: "ilink_messages sbe h [] t = (t, None)" for t by (subst ilink_messages.simps) simp
  show ?thesis
    by (subst ilink_messages.simps)
      (simp only: ne hl dh H(2) if_False option.case Let_def take_all [OF order_refl] drop_all [OF order_refl] nil,
        simp split: prod.split option.split)
qed

lemma le_u16_small:
  assumes "n < 2 ^ 16"
  shows "unat (le_u16 (le_bytes 2 n @ rest)) = n"
proof -
  have w: "unat (word_of_nat n :: u16) = n" by (subst unat_of_nat) (use assms in simp)
  from le_u16_le_bytes [of "word_of_nat n"] show ?thesis unfolding w by (simp add: w)
qed

lemma sofh_encoding: "le_u16 (drop 2 (sofh_frame message @ rest)) = 0xCAFE"
  by (simp add: sofh_frame_def le_u16_def)

lemma sofh_length:
  assumes "length message + 4 < 2 ^ 16"
  shows "unat (le_u16 (sofh_frame message @ rest)) = length message + 4"
  using le_u16_small [OF assms] by (simp add: sofh_frame_def)

lemma drop4_sofh: "drop 4 (sofh_frame message @ rest) = message @ rest"
  by (simp add: sofh_frame_def)

text \<open>A complete frame is handed over as the message that was framed, and consumed as a whole.\<close>

lemma dispatch_frame:
  assumes "length message + 4 < 2 ^ 16"
  shows "ilink_dispatch sbe h (sofh_frame message @ rest) s =
    (case ilink_messages sbe h message s of
       (s', None) \<Rightarrow> (s', Inr (length message + 4)) | (s', Some e) \<Rightarrow> (s', Inl e))"
proof -
  let ?b = "sofh_frame message @ rest"
  have g: "\<not> length ?b < 4" "\<not> length ?b < length message + 4" "\<not> length message + 4 < 3" "length message + 4 \<noteq> 3"
    by simp_all
  have t: "take (length message + 4 - 4) (drop 4 ?b) = message" by (simp only: drop4_sofh) simp
  show ?thesis
    unfolding ilink_dispatch_def Let_def sofh_length [OF assms] sofh_encoding
    by (simp only: g t if_False simp_thms)
qed

text \<open>A frame of which the end is missing is left where it is.\<close>

lemma dispatch_incomplete:
  assumes "length message + 4 < 2 ^ 16" and "q @ rest = sofh_frame message" and "rest \<noteq> []"
  shows "ilink_dispatch sbe h q s = (s, Inr 0)"
proof (cases "length q < 4")
  case True
  then show ?thesis by (simp add: ilink_dispatch_def)
next
  case False
  then have d: "take 2 (drop 2 q) = take 2 (drop 2 (q @ rest))" "take 2 q = take 2 (q @ rest)" by simp_all
  have "le_u16 (drop 2 q) = 0xCAFE"
    using sofh_encoding [of message "[]"] unfolding le_u16_def d assms(2) by simp
  moreover have l: "unat (le_u16 q) = length message + 4"
    using sofh_length [OF assms(1), of "[]"] unfolding le_u16_def d assms(2) by simp
  moreover have "length q < length message + 4"
  proof -
    have "length q + length rest = length message + 4" using arg_cong [OF assms(2), of length] by simp
    with assms(3) show ?thesis by (cases rest) simp_all
  qed
  ultimately show ?thesis unfolding ilink_dispatch_def Let_def l using False by simp
qed

subsection \<open>The stream\<close>

definition ilink_frame :: "(sbe_header \<Rightarrow> bytes) \<Rightarrow> sbe_header \<times> bytes \<Rightarrow> bytes" where
  "ilink_frame enc m = sofh_frame (enc (fst m) @ snd m)"

definition ilink_stream :: "(sbe_header \<Rightarrow> bytes) \<Rightarrow> (sbe_header \<times> bytes) list \<Rightarrow> bytes" where
  "ilink_stream enc ms = concat (map (ilink_frame enc) ms)"

definition ilink_decoded :: "'m sbe \<Rightarrow> (sbe_header \<times> bytes) list \<Rightarrow> 'm list" where
  "ilink_decoded sbe ms =
     map (\<lambda>m. body_decode sbe (fst m) (snd m)) (filter (\<lambda>m. templateId (fst m) \<in> set ilink_parsed) ms)"

definition frame_fits :: "(sbe_header \<Rightarrow> bytes) \<Rightarrow> sbe_header \<times> bytes \<Rightarrow> bool" where
  "frame_fits enc m \<longleftrightarrow> length (enc (fst m)) + length (snd m) + 4 < 2 ^ 16"

text \<open>What is used of the connection manager.\<close>

definition receive_buffer :: "'c connection_manager \<Rightarrow> (bytes \<Rightarrow> 'c \<Rightarrow> 'c) \<Rightarrow> bool" where
  "receive_buffer cm received \<longleftrightarrow>
     (\<forall>c bs n. cm_buffer cm (received bs c) = cm_buffer cm c @ bs \<and> cm_buffer cm (cm_drain cm n c) = drop n (cm_buffer cm c))"

text \<open>The socket receives some bytes and the read handler is called.\<close>

definition on_received ::
    "'c connection_manager \<Rightarrow> (bytes \<Rightarrow> 'c \<Rightarrow> 'c) \<Rightarrow> 'm sbe \<Rightarrow> ('m \<Rightarrow> 's \<Rightarrow> 's \<times> exn option)
     \<Rightarrow> bytes \<Rightarrow> 's \<times> 'c \<Rightarrow> ('s \<times> 'c) \<times> exn option" where
  "on_received cm received sbe h bs sc = on_read cm sbe h (fst sc, received bs (snd sc))"

text \<open>The bytes left over: the beginning of the next frame.\<close>

definition pending :: "(sbe_header \<Rightarrow> bytes) \<Rightarrow> bytes \<Rightarrow> (sbe_header \<times> bytes) list \<Rightarrow> bool" where
  "pending enc q ms \<longleftrightarrow> q = [] \<or> (\<exists>m ms' rest. ms = m # ms' \<and> rest \<noteq> [] \<and> q @ rest = ilink_frame enc m)"

lemma ilink_stream_simps [simp]:
  "ilink_stream enc [] = []"
  "ilink_stream enc (m # ms) = ilink_frame enc m @ ilink_stream enc ms"
  "ilink_stream enc (xs @ ys) = ilink_stream enc xs @ ilink_stream enc ys"
  by (simp_all add: ilink_stream_def)

lemma ilink_decoded_append [simp]: "ilink_decoded sbe (xs @ ys) = ilink_decoded sbe xs @ ilink_decoded sbe ys"
  by (simp add: ilink_decoded_def)

lemma dispatch_ilink_frame:
  assumes "header_codec sbe enc" and "frame_fits enc m"
  shows "ilink_dispatch sbe h (ilink_frame enc m @ rest) s =
    (case deliver h (ilink_decoded sbe [m]) s of
       (s', None) \<Rightarrow> (s', Inr (length (ilink_frame enc m))) | (s', Some e) \<Rightarrow> (s', Inl e))"
proof -
  have "length (enc (fst m) @ snd m) + 4 < 2 ^ 16" using assms(2) by (simp add: frame_fits_def)
  from dispatch_frame [OF this, of sbe h rest s] show ?thesis
    by (simp add: ilink_frame_def ilink_messages_encoded [OF assms(1)] ilink_decoded_def split: prod.split option.split)
qed

lemma read_loop_frames:
  assumes hc: "header_codec sbe enc" and fit: "\<forall>m \<in> set (ms @ ms'). frame_fits enc m" and "pending enc q ms'"
  shows "read_loop sbe h (ilink_stream enc ms @ q) n s =
    (case deliver h (ilink_decoded sbe ms) s of
       (s', None) \<Rightarrow> (s', Inr (n + length (ilink_stream enc ms))) | (s', Some e) \<Rightarrow> (s', Inl e))"
  using fit
proof (induction ms arbitrary: n s)
  case Nil
  show ?case
  proof (cases "q = []")
    case True
    then show ?thesis by (simp add: ilink_decoded_def read_loop.simps [of sbe h "[]"])
  next
    case False
    with assms(3) obtain m ms'' rest where q: "ms' = m # ms''" "rest \<noteq> []" "q @ rest = ilink_frame enc m"
      by (auto simp: pending_def)
    have "ilink_dispatch sbe h q s = (s, Inr 0)" for s :: 'b
      using Nil q by (intro dispatch_incomplete [of "enc (fst m) @ snd m"]) (auto simp: frame_fits_def ilink_frame_def)
    with False show ?thesis by (simp add: ilink_decoded_def read_loop.simps [of sbe h q])
  qed
next
  case (Cons m ms)
  let ?b = "ilink_frame enc m @ ilink_stream enc ms @ q"
  have fits: "frame_fits enc m" and IHp: "\<forall>m \<in> set (ms @ ms'). frame_fits enc m" using Cons.prems by auto
  have pos: "?b \<noteq> []" "length (ilink_frame enc m) \<noteq> 0" "length (ilink_frame enc m) \<le> length ?b"
    by (auto simp: ilink_frame_def sofh_frame_def)
  have dr: "drop (length (ilink_frame enc m)) ?b = ilink_stream enc ms @ q" by simp
  have ap: "ilink_decoded sbe (m # ms) = ilink_decoded sbe [m] @ ilink_decoded sbe ms"
    by (simp add: ilink_decoded_def)
  show ?case
  proof (cases "deliver h (ilink_decoded sbe [m]) s")
    case (Pair t e)
    have D: "ilink_dispatch sbe h ?b s = (t, case e of None \<Rightarrow> Inr (length (ilink_frame enc m)) | Some x \<Rightarrow> Inl x)"
      using Pair by (subst dispatch_ilink_frame [OF hc fits]) (simp split: option.split)
    have "read_loop sbe h ?b n s =
        (case e of None \<Rightarrow> read_loop sbe h (ilink_stream enc ms @ q) (n + length (ilink_frame enc m)) t | Some x \<Rightarrow> (t, Inl x))"
      by (subst read_loop.simps) (simp only: D pos dr if_False prod.case simp_thms, use pos(2) in \<open>simp split: option.split\<close>)
    then show ?thesis
      using Cons.IH [OF IHp] Pair by (simp add: ap deliver_append add.assoc split: prod.split option.split)
  qed
qed

lemma stream_split:
  "p @ r = ilink_stream enc ms \<Longrightarrow>
   \<exists>ms1 ms2 q. ms = ms1 @ ms2 \<and> p = ilink_stream enc ms1 @ q \<and> q @ r = ilink_stream enc ms2 \<and> pending enc q ms2"
proof (induction ms arbitrary: p)
  case Nil
  then show ?case by (simp add: pending_def)
next
  case (Cons m ms)
  let ?f = "ilink_frame enc m"
  from Cons.prems have eq: "p @ r = ?f @ ilink_stream enc ms" by simp
  show ?case
  proof (cases "length p < length ?f")
    case True
    with eq have "p = take (length p) ?f" by (simp add: append_eq_append_conv_if)
    then have "p @ drop (length p) ?f = ?f" by (metis append_take_drop_id)
    moreover have "drop (length p) ?f \<noteq> []" using True by simp
    ultimately have "pending enc p (m # ms)" unfolding pending_def by blast
    with eq show ?thesis by (intro exI [of _ "[]"] exI [of _ "m # ms"] exI [of _ p]) simp
  next
    case False
    let ?p = "drop (length ?f) p"
    have "take (length ?f) p = ?f" and r: "?p @ r = ilink_stream enc ms"
      using False arg_cong [OF eq, of "take (length ?f)"] arg_cong [OF eq, of "drop (length ?f)"] by simp_all
    then have p: "p = ?f @ ?p" by (metis append_take_drop_id)
    from Cons.IH [OF r] obtain ms1 ms2 q where
      "ms = ms1 @ ms2" "?p = ilink_stream enc ms1 @ q" "q @ r = ilink_stream enc ms2" "pending enc q ms2"
      by blast
    with p show ?thesis by (intro exI [of _ "m # ms1"] exI [of _ ms2] exI [of _ q]) simp
  qed
qed

lemma deliver_chunks:
  assumes hc: "header_codec sbe enc" and rb: "receive_buffer cm received"
    and "\<forall>m \<in> set ms. frame_fits enc m" and "cm_buffer cm c @ concat chunks = ilink_stream enc ms"
    and "pending enc (cm_buffer cm c) ms"
  shows "(let r = deliver (on_received cm received sbe h) chunks (s, c)
    in (fst (fst r), snd r) = deliver h (ilink_decoded sbe ms) s \<and> (snd r = None \<longrightarrow> cm_buffer cm (snd (fst r)) = []))"
  using assms(3-5)
proof (induction chunks arbitrary: ms s c)
  case Nil
  then have "ms = []"
    by (cases ms) (auto simp: pending_def ilink_frame_def sofh_frame_def dest: arg_cong [of _ _ length])
  with Nil show ?case by (simp add: ilink_decoded_def)
next
  case (Cons x xs)
  let ?c = "received x c"
  have B: "cm_buffer cm ?c = cm_buffer cm c @ x" and D: "cm_buffer cm (cm_drain cm n ?c) = drop n (cm_buffer cm ?c)" for n
    using rb by (simp_all add: receive_buffer_def)
  from stream_split [of "cm_buffer cm ?c" "concat xs" enc ms] Cons.prems(2) obtain ms1 ms2 q where
    S: "ms = ms1 @ ms2" "cm_buffer cm ?c = ilink_stream enc ms1 @ q" "q @ concat xs = ilink_stream enc ms2" "pending enc q ms2"
    unfolding B by auto
  note R = read_loop_frames [OF hc, of ms1 ms2 q h 0, unfolded S(1) [symmetric], OF Cons.prems(1) S(4)]
  show ?case
  proof (cases "deliver h (ilink_decoded sbe ms1) s")
    case (Pair t e)
    have O: "on_received cm received sbe h x (s, c) =
        (case e of None \<Rightarrow> ((t, cm_drain cm (length (ilink_stream enc ms1)) ?c), None) | Some y \<Rightarrow> ((t, ?c), Some y))"
      using R [of s] Pair by (simp add: on_received_def on_read_def S(2) split: option.split)
    show ?thesis
    proof (cases e)
      case None
      let ?d = "cm_drain cm (length (ilink_stream enc ms1)) ?c"
      have d: "cm_buffer cm ?d = q" unfolding D S(2) by simp
      have "\<forall>m \<in> set ms2. frame_fits enc m" using Cons.prems(1) S(1) by simp
      from Cons.IH [OF this, of ?d t] S(3,4) show ?thesis
        unfolding d by (simp add: O None S(1) deliver_append Pair)
    next
      case (Some y)
      then show ?thesis by (simp add: O S(1) deliver_append Pair)
    qed
  qed
qed

subsection \<open>Properties\<close>

text \<open>
  Claim C18. How the network cuts the stream into pieces does not matter: when the exchange
  sends a sequence of frames, then for every division of its bytes into received pieces the
  handler gets exactly the messages with a known template id, once each and in order, up to
  the first exception, and nothing is left in the buffer at the end.
\<close>

theorem stream_segmentation:
  assumes "header_codec sbe enc" and "receive_buffer cm received"
    and "\<forall>m \<in> set ms. frame_fits enc m" and "concat chunks = ilink_stream enc ms" and "cm_buffer cm c = []"
  shows "(let r = deliver (on_received cm received sbe h) chunks (s, c)
    in (fst (fst r), snd r) = deliver h (ilink_decoded sbe ms) s \<and> (snd r = None \<longrightarrow> cm_buffer cm (snd (fst r)) = []))"
  using assms(4,5) by (intro deliver_chunks [OF assms(1-3)]) (simp_all add: pending_def)

definition list_connection :: "bytes connection_manager" where
  "list_connection = \<lparr>cm_buffer = (\<lambda>c. c), cm_drain = drop\<rparr>"

definition sample_recorder :: "bytes \<Rightarrow> bytes list \<Rightarrow> bytes list \<times> exn option" where
  "sample_recorder m s = (s @ [m], None)"

definition sample_stream :: "(sbe_header \<times> bytes) list" where
  "sample_stream =
     [(\<lparr>blockLength = 1, templateId = 522, version = 8\<rparr>, [1]), (\<lparr>blockLength = 0, templateId = 999, version = 8\<rparr>, []),
      (\<lparr>blockLength = 2, templateId = 506, version = 8\<rparr>, [2, 3])]"

text \<open>Three frames received as three pieces that end within a length, within a header and at the end.\<close>

theorem stream_segmentation_witness:
  "fst (deliver (on_received list_connection (\<lambda>bs c. c @ bs) sample_sbe sample_recorder)
      [take 14 (ilink_stream sample_enc sample_stream), take 6 (drop 14 (ilink_stream sample_enc sample_stream)),
       drop 20 (ilink_stream sample_enc sample_stream)] ([], [])) = ([[1], [2, 3]], [])"
proof -
  let ?st = "ilink_stream sample_enc sample_stream"
  let ?r = "deliver (on_received list_connection (\<lambda>bs c. c @ bs) sample_sbe sample_recorder)
      [take 14 ?st, take 6 (drop 14 ?st), drop 20 ?st] ([], [])"
  have c: "concat [take 14 ?st, take 6 (drop 14 ?st), drop 20 ?st] = ?st"
    using append_take_drop_id [of 14 ?st] append_take_drop_id [of 6 "drop 14 ?st"] by simp
  have rb: "receive_buffer list_connection (\<lambda>bs c. c @ bs)"
    by (simp add: receive_buffer_def list_connection_def)
  have f: "\<forall>m \<in> set sample_stream. frame_fits sample_enc m"
    by (simp add: sample_stream_def frame_fits_def sample_enc_def)
  have e: "cm_buffer list_connection [] = []" by (simp add: list_connection_def)
  have d: "deliver sample_recorder (ilink_decoded sample_sbe sample_stream) [] = ([[1], [2, 3]], None)"
    by (simp add: sample_recorder_def ilink_decoded_def sample_sbe_def sample_stream_def ilink_parsed_def)
  from stream_segmentation [OF sample_header_codec rb f c e, of sample_recorder "[]"]
  show ?thesis by (cases ?r) (auto simp: d Let_def list_connection_def)
qed

lemma ilink_messages_no_UB:
  assumes "\<And>bs. length bs < header_length sbe \<Longrightarrow> header_decode sbe bs = None"
    and "\<And>m s. snd (h m s) \<noteq> Some UndefinedBehaviour"
  shows "snd (ilink_messages sbe h message s) \<noteq> Some UndefinedBehaviour"
proof -
  have nil: "ilink_messages sbe h [] t = (t, None)" for t by (subst ilink_messages.simps) simp
  have hno: "h m t \<noteq> (x, Some UndefinedBehaviour)" for m t x using assms(2) [of m t] by auto
  show ?thesis
    using assms(1) [of message] by (subst ilink_messages.simps) (auto simp: Let_def hno nil split: option.split prod.split)
qed

text \<open>
  The one way in which received bytes lead to undefined behaviour: with a generated
  header that refuses a buffer too short for it and a handler that has none, dispatching is
  undefined exactly for a complete frame header whose length field is 0, 1 or 2, less than
  the header itself.
\<close>

theorem ilink_dispatch_UB_iff:
  assumes "\<And>bs. length bs < header_length sbe \<Longrightarrow> header_decode sbe bs = None"
    and "\<And>m s. snd (h m s) \<noteq> Some UndefinedBehaviour"
  shows "snd (ilink_dispatch sbe h buffer s) = Inl UndefinedBehaviour \<longleftrightarrow>
    4 \<le> length buffer \<and> le_u16 (drop 2 buffer) = 0xCAFE \<and> le_u16 buffer < 3"
proof -
  have no: "ilink_messages sbe h m s \<noteq> (x, Some UndefinedBehaviour)" for m x
    using ilink_messages_no_UB [where sbe = sbe and h = h and message = m and s = s] assms by (metis snd_conv)
  have "unat (le_u16 buffer) < 3 \<longleftrightarrow> le_u16 buffer < 3" by (simp add: word_less_nat_alt)
  with no show ?thesis by (auto simp: ilink_dispatch_def Let_def split: prod.split option.split)
qed

theorem ilink_dispatch_UB_iff_witness:
  "snd (ilink_dispatch sample_sbe sample_recorder [2, 0, 0xFE, 0xCA] []) = Inl UndefinedBehaviour"
proof -
  have "4 \<le> length [2, 0, 0xFE, 0xCA :: u8] \<and> le_u16 (drop 2 [2, 0, 0xFE, 0xCA]) = 0xCAFE \<and> le_u16 [2, 0, 0xFE, 0xCA] < 3"
    by (simp add: le_u16_def)
  then show ?thesis
    by (subst ilink_dispatch_UB_iff) (simp_all add: sample_sbe_def sample_recorder_def)
qed

end
