(* ===== verification/PriceCodec.thy ===== *)
theory PriceCodec
  imports MdpTypes
begin

section \<open>Prices on the order entry protocol\<close>

text \<open>
  \<^verbatim>\<open>get_double\<close> of \<^verbatim>\<open>protocol/ilink/utils.hpp\<close> reads a decimal with
  exponent -9, \<^verbatim>\<open>set_price\<close> (in \<^verbatim>\<open>new_order_single.cpp\<close>,
  \<^verbatim>\<open>order_cancel_replace_request.cpp\<close> and \<^verbatim>\<open>mass_quote.cpp\<close>) writes one:
  it scales, adds a half and truncates. The null value of the mantissa is the parameter
  \<open>null_value\<close>; a conversion out of the range of the mantissa is undefined.
\<close>

definition get_double :: "decimal \<Rightarrow> double" where
  "get_double v =
     (if mantissa v \<noteq> mantissaNullValue v
      then dmul (double_of_int (mantissa v)) (pow10 (exponent v)) else NaN)"

definition set_price :: "int \<Rightarrow> double \<Rightarrow> exn + int" where
  "set_price null_value value =
     (if isnan value then Inr null_value
      else (case int64_of_double (dadd (dmul value (pow10 9)) (Fin (1 / 2))) of
              None \<Rightarrow> Inl UndefinedBehaviour
            | Some n \<Rightarrow> Inr n))"

subsection \<open>Error of the round trip\<close>

lemma fl_within: "\<bar>x - y\<bar> \<le> d \<Longrightarrow> \<bar>fl x - y\<bar> \<le> d + \<bar>x\<bar> / 2 ^ 53"
  using fl_err [of x] by linarith

lemma fl_rel: "\<exists>d. fl x = x * (1 + d) \<and> \<bar>d\<bar> \<le> 1 / 2 ^ 53"
proof (cases "x = 0")
  case True
  then show ?thesis by (intro exI [of _ 0]) simp
next
  case False
  have "\<bar>(fl x - x) / x\<bar> \<le> 1 / 2 ^ 53"
    using fl_err [of x] False by (simp add: abs_div field_simps)
  moreover have "fl x = x * (1 + (fl x - x) / x)" using False by (simp add: field_simps)
  ultimately show ?thesis by blast
qed

text \<open>Three roundings: the power of ten, the product, and the product with \<open>10 ^ 9\<close>.\<close>

lemma three_errors:
  fixes a b c :: rat
  assumes "\<bar>a\<bar> \<le> e" and "\<bar>b\<bar> \<le> e" and "\<bar>c\<bar> \<le> e" and "0 \<le> e" and "e \<le> 1 / 100"
  shows "\<bar>(1 + a) * (1 + b) * (1 + c) - 1\<bar> \<le> 4 * e"
proof -
  have "\<bar>a * b\<bar> \<le> e * e" "\<bar>a * c\<bar> \<le> e * e" "\<bar>b * c\<bar> \<le> e * e"
    unfolding abs_mult using assms by (intro mult_mono; simp)+
  moreover have "e * e \<le> e / 100" using mult_left_mono [OF assms(5,4)] by simp
  moreover have "\<bar>a * b * c\<bar> \<le> e * e * e"
    unfolding abs_mult using assms by (intro mult_mono; simp)+
  moreover have "e * e * e \<le> e / 100 * (1 / 100)"
    using assms(4,5) \<open>e * e \<le> e / 100\<close> by (intro mult_mono) simp_all
  moreover have "(1 + a) * (1 + b) * (1 + c) - 1 = a + b + c + a * b + a * c + b * c + a * b * c"
    by (simp add: algebra_simps)
  ultimately show ?thesis using assms(1-4) by linarith
qed

lemma scaled_price_error:
  assumes "\<bar>m\<bar> < 2 ^ 49"
  shows "\<exists>r. dmul (dmul (double_of_int m) (pow10 (- 9))) (pow10 9) = Fin r \<and> \<bar>r - of_int m\<bar> \<le> 1 / 4"
proof -
  obtain a where a: "fl (10 powi (- 9)) = 10 powi (- 9) * (1 + a)" "\<bar>a\<bar> \<le> 1 / 2 ^ 53" using fl_rel by blast
  let ?p = "of_int m * (10 powi (- 9) * (1 + a)) :: rat"
  obtain b where b: "fl ?p = ?p * (1 + b)" "\<bar>b\<bar> \<le> 1 / 2 ^ 53" using fl_rel by blast
  obtain c where c: "fl (?p * (1 + b) * 10 ^ 9) = ?p * (1 + b) * 10 ^ 9 * (1 + c)" "\<bar>c\<bar> \<le> 1 / 2 ^ 53" using fl_rel by blast
  let ?d = "(1 + a) * (1 + b) * (1 + c) - 1"
  have ten: "fl (10 powi 9) = 10 ^ 9" using fl_of_int [of "10 ^ 9"] by simp
  have m: "fl (of_int m) = of_int m" by (rule fl_of_int) (use assms in simp)
  have r: "dmul (dmul (double_of_int m) (pow10 (- 9))) (pow10 9) = Fin (?p * (1 + b) * 10 ^ 9 * (1 + c))"
    unfolding double_of_int_def pow10_def dmul.simps m ten a(1) b(1) c(1) ..
  have e: "?p * (1 + b) * 10 ^ 9 * (1 + c) - of_int m = of_int m * ?d"
    by (simp add: power_int_minus field_simps)
  have "\<bar>of_int m * ?d\<bar> = of_int \<bar>m\<bar> * \<bar>?d\<bar>" by (simp add: abs_mult)
  also have "\<dots> \<le> 2 ^ 49 * (4 * (1 / 2 ^ 53))"
  proof (rule mult_mono)
    show "rat_of_int \<bar>m\<bar> \<le> 2 ^ 49" using assms by (metis less_imp_le of_int_le_iff of_int_numeral of_int_power)
    show "\<bar>?d\<bar> \<le> 4 * (1 / 2 ^ 53)" using a(2) b(2) c(2) by (intro three_errors) simp_all
  qed simp_all
  finally show ?thesis using r e by auto
qed

lemma half_added:
  assumes "\<bar>m\<bar> < 2 ^ 49" and "\<bar>r - of_int m\<bar> \<le> 1 / 4"
  shows "of_int m < fl (r + 1 / 2)" and "fl (r + 1 / 2) < of_int m + 1"
proof -
  have "rat_of_int \<bar>m\<bar> < 2 ^ 49" using assms(1) by (metis of_int_less_iff of_int_numeral of_int_power)
  then have "\<bar>rat_of_int m\<bar> < 2 ^ 49" by simp
  moreover have "\<bar>r + 1 / 2\<bar> \<le> \<bar>rat_of_int m\<bar> + 3 / 4" using assms(2) by linarith
  moreover have "(2 :: rat) ^ 49 + 3 / 4 \<le> 2 ^ 50" by simp
  ultimately have "\<bar>r + 1 / 2\<bar> \<le> 2 ^ 50" by linarith
  then have "\<bar>r + 1 / 2\<bar> / 2 ^ 53 \<le> 1 / 8" by simp
  with fl_err [of "r + 1 / 2"] assms(2) show "of_int m < fl (r + 1 / 2)" "fl (r + 1 / 2) < of_int m + 1"
    by linarith+
qed

lemma rat_trunc_between:
  assumes "of_int m < x" and "x < of_int m + 1"
  shows "rat_trunc x = (if 0 \<le> m then m else m + 1)"
proof -
  have "\<lfloor>x\<rfloor> = m" "\<lceil>x\<rceil> = m + 1" using assms by linarith+
  moreover have "0 \<le> m \<Longrightarrow> 0 \<le> x" using assms(1) of_int_0_le_iff [of m, where ?'a = rat] by linarith
  moreover have "m < 0 \<Longrightarrow> \<not> 0 \<le> x"
  proof -
    assume "m < 0"
    then have "of_int (m + 1) \<le> (0 :: rat)" by (simp only: of_int_le_0_iff)
    with assms(2) show "\<not> 0 \<le> x" by simp
  qed
  ultimately show ?thesis by (auto simp: rat_trunc_def)
qed

lemma set_price_get_double':
  assumes "\<bar>m\<bar> < 2 ^ 49" and "m \<noteq> null_value"
  shows "set_price null_value (get_double \<lparr>mantissa = m, exponent = - 9, mantissaNullValue = null_value\<rparr>) =
    Inr (if 0 \<le> m then m else m + 1)"
proof -
  obtain r where r: "dmul (dmul (double_of_int m) (pow10 (- 9))) (pow10 9) = Fin r" "\<bar>r - of_int m\<bar> \<le> 1 / 4"
    using scaled_price_error [OF assms(1)] by blast
  note h = half_added [OF assms(1) r(2)]
  have t: "rat_trunc (fl (r + 1 / 2)) = (if 0 \<le> m then m else m + 1)" by (rule rat_trunc_between [OF h])
  then have "int64_of_double (dadd (Fin r) (Fin (1 / 2))) = Some (if 0 \<le> m then m else m + 1)"
    using assms(1) by (simp add: Let_def) arith
  moreover have "\<not> isnan (dmul (double_of_int m) (pow10 (- 9)))"
    by (simp add: double_of_int_def pow10_def)
  ultimately show ?thesis using assms(2) r(1) by (simp add: set_price_def get_double_def)
qed

subsection \<open>Properties\<close>

text \<open>
  Claim C37. A price that was received (mantissa \<open>m\<close>, exponent -9, below 562,949 in
  absolute value) and is sent again keeps its mantissa if it is not negative. A negative
  price does not: adding a half and truncating towards zero yields \<open>m + 1\<close>, so every
  negative price is sent one unit of the last decimal too high.
\<close>

theorem set_price_get_double:
  assumes "\<bar>m\<bar> < 2 ^ 49" and "m \<noteq> null_value"
  shows "set_price null_value (get_double \<lparr>mantissa = m, exponent = - 9, mantissaNullValue = null_value\<rparr>) =
    Inr (if 0 \<le> m then m else m + 1)"
  by (rule set_price_get_double' [OF assms])

theorem set_price_get_double_witness:
  "set_price (- (2 ^ 63)) (get_double \<lparr>mantissa = - 250000000, exponent = - 9, mantissaNullValue = - (2 ^ 63)\<rparr>) = Inr (- 249999999)"
  using set_price_get_double [of "- 250000000" "- (2 ^ 63)"] by simp

end
