(* ===== verification/Ilink.thy ===== *)
theory Ilink
  imports PriceCodec Api
begin

section \<open>Order entry: values and identifiers\<close>

text \<open>
  The helpers at the top of \<^verbatim>\<open>gateway/order_entry.cpp\<close>: the mapping between the
  enumerations of the client API and of the order entry protocol, and the identifier that
  ties a response of the exchange to the request of a client. Constructors carry a prefix
  where the two sides use the same name.
\<close>

unbundle bit_operations_syntax

subsection \<open>Enumerations\<close>

datatype order_type = OT_UNDEFINED | MARKET | LIMIT

datatype time_in_force =
    TIF_UNDEFINED | GFD | GTC | OPG | IOC | FOK | GTX | GTD | AT_THE_CLOSE
  | GOOD_THROUGH_CROSSING | AT_CROSSING | GOOD_FOR_TIME | GFA | GFM

datatype execution_instruction =
    EI_UNDEFINED | PARTICIPATE_DO_NOT_INITIATE | CANCEL_IF_NOT_BEST | DO_NOT_INCREASE | DO_NOT_REDUCE

datatype order_status = OS_UNDEFINED | OS_ACCEPTED | WORKING | COMPLETED | EXPIRED | CANCELED | OS_REJECTED

datatype request_status = FORWARDED | RS_ACCEPTED | RS_REJECTED

datatype liquidity = LQ_UNDEFINED | MAKER | TAKER

datatype side_req = SQ_Buy | SQ_Sell | SQ_Undisclosed | SQ_NULL_VALUE

datatype order_type_req = OQ_MarketwithProtection | OQ_Limit | OQ_NULL_VALUE

datatype ilink_order_type =
    IO_MarketWithProtection | IO_Limit | IO_StopLimit | IO_MarketWithLeftoverAsLimit | IO_NULL_VALUE

datatype ilink_time_in_force =
    IT_Day | IT_GoodTillCancel | IT_FillAndKill | IT_FillOrKill | IT_GoodTillDate | IT_GoodForSession | IT_NULL_VALUE

datatype ilink_order_status =
    IS_New | IS_PartiallyFilled | IS_Filled | IS_Cancelled | IS_Replaced | IS_PendingCancel | IS_Rejected
  | IS_Expired | IS_PendingReplace | IS_Undefined | IS_NULL_VALUE

datatype ord_status_trd = TR_PartiallyFilled | TR_Filled | TR_NULL_VALUE

datatype boolean_flag = BF_False | BF_True | BF_NULL_VALUE

subsection \<open>The mapping\<close>

fun map_side_req :: "side \<Rightarrow> side_req" where
  "map_side_req Side_UNDEFINED = SQ_NULL_VALUE"
| "map_side_req BUY = SQ_Buy"
| "map_side_req SELL = SQ_Sell"

fun map_side_of_req :: "side_req \<Rightarrow> side" where
  "map_side_of_req SQ_Buy = BUY"
| "map_side_of_req SQ_Sell = SELL"
| "map_side_of_req SQ_Undisclosed = Side_UNDEFINED"
| "map_side_of_req SQ_NULL_VALUE = Side_UNDEFINED"

fun map_order_type_req :: "order_type \<Rightarrow> order_type_req" where
  "map_order_type_req OT_UNDEFINED = OQ_NULL_VALUE"
| "map_order_type_req MARKET = OQ_MarketwithProtection"
| "map_order_type_req LIMIT = OQ_Limit"

fun map_ilink_order_type :: "ilink_order_type \<Rightarrow> order_type" where
  "map_ilink_order_type IO_MarketWithProtection = MARKET"
| "map_ilink_order_type IO_Limit = LIMIT"
| "map_ilink_order_type IO_StopLimit = LIMIT"
| "map_ilink_order_type IO_MarketWithLeftoverAsLimit = MARKET"
| "map_ilink_order_type IO_NULL_VALUE = OT_UNDEFINED"

fun map_time_in_force :: "time_in_force \<Rightarrow> ilink_time_in_force" where
  "map_time_in_force TIF_UNDEFINED = IT_NULL_VALUE"
| "map_time_in_force GFD = IT_Day"
| "map_time_in_force GTC = IT_GoodTillCancel"
| "map_time_in_force OPG = IT_NULL_VALUE"
| "map_time_in_force IOC = IT_FillAndKill"
| "map_time_in_force FOK = IT_FillOrKill"
| "map_time_in_force GTX = IT_NULL_VALUE"
| "map_time_in_force GTD = IT_GoodTillDate"
| "map_time_in_force AT_THE_CLOSE = IT_NULL_VALUE"
| "map_time_in_force GOOD_THROUGH_CROSSING = IT_NULL_VALUE"
| "map_time_in_force AT_CROSSING = IT_NULL_VALUE"
| "map_time_in_force GOOD_FOR_TIME = IT_NULL_VALUE"
| "map_time_in_force GFA = IT_NULL_VALUE"
| "map_time_in_force GFM = IT_NULL_VALUE"

fun map_ilink_time_in_force :: "ilink_time_in_force \<Rightarrow> time_in_force" where
  "map_ilink_time_in_force IT_Day = GFD"
| "map_ilink_time_in_force IT_GoodTillCancel = GTC"
| "map_ilink_time_in_force IT_FillAndKill = IOC"
| "map_ilink_time_in_force IT_FillOrKill = FOK"
| "map_ilink_time_in_force IT_GoodTillDate = GTD"
| "map_ilink_time_in_force IT_GoodForSession = TIF_UNDEFINED"
| "map_ilink_time_in_force IT_NULL_VALUE = TIF_UNDEFINED"

text \<open>
  The instructions of a request are visited one by one; every instruction there is makes the
  request invalid, so that the byte sent is always zero.
\<close>

fun exec_inst_unsupported :: "execution_instruction \<Rightarrow> bool" where
  "exec_inst_unsupported EI_UNDEFINED = False"
| "exec_inst_unsupported PARTICIPATE_DO_NOT_INITIATE = True"
| "exec_inst_unsupported CANCEL_IF_NOT_BEST = True"
| "exec_inst_unsupported DO_NOT_INCREASE = True"
| "exec_inst_unsupported DO_NOT_REDUCE = True"

definition map_execution_instructions :: "execution_instruction list \<Rightarrow> exn + u8" where
  "map_execution_instructions items =
     (let error = foldl (\<lambda>error item. error \<or> exec_inst_unsupported item) False items
      in if error then Inl Rejected_INVALID_EXECUTION_INSTRUCTION else Inr 0)"

fun map_ilink_order_status :: "ilink_order_status \<Rightarrow> order_status" where
  "map_ilink_order_status IS_New = WORKING"
| "map_ilink_order_status IS_PartiallyFilled = WORKING"
| "map_ilink_order_status IS_Filled = COMPLETED"
| "map_ilink_order_status IS_Cancelled = CANCELED"
| "map_ilink_order_status IS_Replaced = WORKING"
| "map_ilink_order_status IS_PendingCancel = WORKING"
| "map_ilink_order_status IS_Rejected = OS_REJECTED"
| "map_ilink_order_status IS_Expired = EXPIRED"
| "map_ilink_order_status IS_PendingReplace = OS_ACCEPTED"
| "map_ilink_order_status IS_Undefined = OS_UNDEFINED"
| "map_ilink_order_status IS_NULL_VALUE = OS_UNDEFINED"

fun map_ord_status_trd :: "ord_status_trd \<Rightarrow> order_status" where
  "map_ord_status_trd TR_PartiallyFilled = WORKING"
| "map_ord_status_trd TR_Filled = COMPLETED"
| "map_ord_status_trd TR_NULL_VALUE = OS_UNDEFINED"

text \<open>The status of an execution report is of one of the two types, depending on the message.\<close>

datatype ord_status_field = OrderStatusField ilink_order_status | OrdStatusTrdField ord_status_trd

fun get_ord_status :: "ord_status_field \<Rightarrow> order_status" where
  "get_ord_status (OrderStatusField v) = map_ilink_order_status v"
| "get_ord_status (OrdStatusTrdField v) = map_ord_status_trd v"

text \<open>A quantity the message may lack (\<open>None\<close>) or carry as null.\<close>

definition get_qty :: "int nullable option \<Rightarrow> double" where
  "get_qty f = (case f of None \<Rightarrow> NaN | Some (v, null_value) \<Rightarrow> if v = null_value then NaN else double_of_int v)"

fun get_aggressor_indicator :: "boolean_flag option \<Rightarrow> liquidity" where
  "get_aggressor_indicator (Some BF_False) = MAKER"
| "get_aggressor_indicator (Some BF_True) = TAKER"
| "get_aggressor_indicator (Some BF_NULL_VALUE) = LQ_UNDEFINED"
| "get_aggressor_indicator None = LQ_UNDEFINED"

subsection \<open>Quantities\<close>

text \<open>
  \<^verbatim>\<open>utils::safe_cast\<close> to \<^verbatim>\<open>int32_t\<close> is library code and a parameter; the
  value sent is the conversion of the original number, which is undefined out of range.
\<close>

definition get_quantity :: "(double \<Rightarrow> exn + int) \<Rightarrow> double \<Rightarrow> exn + u32" where
  "get_quantity safe_cast_i32 value =
     (case safe_cast_i32 value of
        Inl e \<Rightarrow> Inl e
      | Inr result \<Rightarrow>
          if result \<ge> 0 then
            (case int64_of_double value of
               None \<Rightarrow> Inl UndefinedBehaviour
             | Some n \<Rightarrow> if 0 \<le> n \<and> n < 2 ^ 32 then Inr (word_of_int n) else Inl UndefinedBehaviour)
          else Inl RuntimeError)"

subsection \<open>Request identifiers\<close>

text \<open>
  The type of a request is its code, one byte. The codes of creation and cancellation are
  fixed by the static assertions of the source.
\<close>

type_synonym request_type = u8

definition CREATE_ORDER_TYPE :: request_type where
  "CREATE_ORDER_TYPE = 1"

definition CANCEL_ORDER_TYPE :: request_type where
  "CANCEL_ORDER_TYPE = 3"

definition encode_order_request_id :: "request_type \<Rightarrow> u8 \<Rightarrow> u64 \<Rightarrow> u64" where
  "encode_order_request_id ty user_id order_id = push_bit 56 (ucast ty) OR push_bit 48 (ucast user_id) OR order_id"

definition decode_order_request_id :: "u64 \<Rightarrow> request_type \<times> u8 \<times> u64" where
  "decode_order_request_id v =
     (ucast (drop_bit 56 v AND (push_bit 8 1 - 1)), ucast (drop_bit 48 v AND (push_bit 8 1 - 1)), v AND (push_bit 48 1 - 1))"

lemma mask_constants: "(push_bit 8 1 - 1 :: u64) = mask 8" "(push_bit 48 1 - 1 :: u64) = mask 48"
  by (simp_all add: mask_eq_exp_minus_1 push_bit_eq_mult)

lemma small_bits:
  assumes "(w :: u64) < 2 ^ 48" and "bit w n"
  shows "n < 48"
proof -
  have "bit (w AND mask 48) n" unfolding less_mask_eq [OF assms(1)] by (rule assms(2))
  then have "bit (mask 48 :: u64) n" unfolding bit_and_iff by (rule conjunct2)
  then show ?thesis unfolding bit_mask_iff by (rule conjunct2)
qed

lemma order_request_id_back:
  assumes "order_id < 2 ^ 48"
  shows "decode_order_request_id (encode_order_request_id ty user_id order_id) = (ty, user_id, order_id)"
proof -
  have o: "\<not> bit order_id (48 + n)" "\<not> bit order_id (56 + n)" for n using small_bits [OF assms] by fastforce+
  have o': "bit order_id n \<Longrightarrow> n < 48" for n using small_bits [OF assms] by blast
  have u: "\<not> bit user_id (8 + n)" for n by (auto dest: bit_imp_le_length)
  show ?thesis
    unfolding decode_order_request_id_def encode_order_request_id_def mask_constants
    by (auto intro!: bit_word_eqI simp: bit_simps o u dest: o')
qed

text \<open>
  Claim C31. A response finds its request: the identifier sent with a request decodes to the
  type of the request, the user and the order, for every order number below \<open>2 ^ 48\<close>.
\<close>

theorem order_request_id_roundtrip:
  assumes "order_id < 2 ^ 48"
  shows "decode_order_request_id (encode_order_request_id ty user_id order_id) = (ty, user_id, order_id)"
  by (rule order_request_id_back [OF assms])

theorem order_request_id_roundtrip_witness:
  "decode_order_request_id (encode_order_request_id CANCEL_ORDER_TYPE 255 (2 ^ 48 - 1)) = (CANCEL_ORDER_TYPE, 255, 2 ^ 48 - 1)"
  using order_request_id_roundtrip [of "2 ^ 48 - 1" CANCEL_ORDER_TYPE 255] by simp

text \<open>
  What a client asked for is what it is told: side and time in force of a request
  map back to themselves when the exchange repeats them, for both sides and for the five
  conditions the gateway supports; every other condition is sent as a null value.
\<close>

theorem order_terms_roundtrip:
  "(sd \<noteq> Side_UNDEFINED \<longrightarrow> map_side_req sd \<noteq> SQ_NULL_VALUE) \<and> map_side_of_req (map_side_req sd) = sd \<and>
   (map_time_in_force tif \<noteq> IT_NULL_VALUE \<longleftrightarrow> tif \<in> {GFD, GTC, IOC, FOK, GTD}) \<and>
   (tif \<in> {GFD, GTC, IOC, FOK, GTD} \<longrightarrow> map_ilink_time_in_force (map_time_in_force tif) = tif)"
  by (cases sd; cases tif) simp_all

theorem order_terms_roundtrip_witness:
  "map_side_of_req (map_side_req SELL) = SELL \<and> map_ilink_time_in_force (map_time_in_force IOC) = IOC"
  using order_terms_roundtrip [of SELL IOC] by simp

end
