(* ===== verification/IlinkMessages.thy ===== *)
theory IlinkMessages
  imports Ilink
begin

section \<open>Messages sent to the exchange\<close>

text \<open>
  The structures of \<^verbatim>\<open>protocol/ilink/*.hpp\<close> that the gateway sends and their
  \<^verbatim>\<open>encode\<close> (in the \<^verbatim>\<open>.cpp\<close> of the same name). Encoding calls the setters of
  a flyweight generated from the exchange's schema, which is not part of the sources: the
  model keeps the calls, in their order, as a list of fields with their values, and the
  arguments of the calls of \<^verbatim>\<open>computeLength\<close> whose results are added to the length.
  Field names have a prefix per structure. An enumerator of the generated code that the
  gateway only passes on is its name.
\<close>

type_synonym sbe_enum = string

datatype wire =
    WInt int
  | WNull
  | WString string
  | WBytes bytes
  | WEnum sbe_enum
  | WSide side_req
  | WOrdType order_type_req
  | WTif ilink_time_in_force
  | WFlag bool
  | WGroup "(string \<times> wire) list list"

type_synonym wire_fields = "(string \<times> wire) list"

record wire_message =
  wm_template :: u16
  wm_fields :: wire_fields
  wm_lengths :: "nat list list"

text \<open>An integer for which zero stands for the null value of the field.\<close>

definition or_null :: "int \<Rightarrow> wire" where
  "or_null v = (if v \<noteq> 0 then WInt v else WNull)"

definition with_price :: "int \<Rightarrow> double \<Rightarrow> (int \<Rightarrow> exn + 'a) \<Rightarrow> exn + 'a" where
  "with_price null_value v k = (case set_price null_value v of Inl e \<Rightarrow> Inl e | Inr m \<Rightarrow> k m)"

subsection \<open>The structures and their encoding\<close>

record negotiate =
  ng_hmac_signature :: bytes
  ng_access_key_id :: string
  ng_uuid :: u64
  ng_request_timestamp :: nanoseconds
  ng_session :: string
  ng_firm :: string

definition encode_negotiate :: "negotiate \<Rightarrow> wire_message" where
  "encode_negotiate m =
     \<lparr>wm_template = 500,
      wm_fields =
        [(''HMACSignature'', WBytes (ng_hmac_signature m)), (''AccessKeyID'', WString (ng_access_key_id m)),
         (''uUID'', WInt (uint (ng_uuid m))), (''requestTimestamp'', WInt (ng_request_timestamp m)),
         (''Session'', WString (ng_session m)), (''Firm'', WString (ng_firm m)), (''Credentials'', WGroup [])],
      wm_lengths = [[0]]\<rparr>"

record establish =
  es_hmac_signature :: bytes
  es_access_key_id :: string
  es_trading_system_name :: string
  es_trading_system_version :: string
  es_trading_system_vendor :: string
  es_uuid :: u64
  es_request_timestamp :: nanoseconds
  es_next_seq_no :: u32
  es_session :: string
  es_firm :: string
  es_keep_alive_interval :: int

definition encode_establish :: "establish \<Rightarrow> wire_message" where
  "encode_establish m =
     \<lparr>wm_template = 503,
      wm_fields =
        [(''HMACSignature'', WBytes (es_hmac_signature m)), (''AccessKeyID'', WString (es_access_key_id m)),
         (''TradingSystemName'', WString (es_trading_system_name m)),
         (''TradingSystemVersion'', WString (es_trading_system_version m)),
         (''TradingSystemVendor'', WString (es_trading_system_vendor m)), (''uUID'', WInt (uint (es_uuid m))),
         (''requestTimestamp'', WInt (es_request_timestamp m)), (''nextSeqNo'', WInt (uint (es_next_seq_no m))),
         (''Session'', WString (es_session m)), (''Firm'', WString (es_firm m)),
         (''keepAliveInterval'', WInt (es_keep_alive_interval m)), (''Credentials'', WGroup [])],
      wm_lengths = [[0]]\<rparr>"

record sequence =
  sq_uuid :: u64
  sq_next_seq_no :: u32
  sq_fault_tolerance_indicator :: sbe_enum
  sq_keep_alive_interval_lapsed :: sbe_enum

definition encode_sequence :: "sequence \<Rightarrow> wire_message" where
  "encode_sequence m =
     \<lparr>wm_template = 506,
      wm_fields =
        [(''uUID'', WInt (uint (sq_uuid m))), (''nextSeqNo'', WInt (uint (sq_next_seq_no m))),
         (''faultToleranceIndicator'', WEnum (sq_fault_tolerance_indicator m)),
         (''keepAliveIntervalLapsed'', WEnum (sq_keep_alive_interval_lapsed m))],
      wm_lengths = [[]]\<rparr>"

record terminate =
  te_reason :: string
  te_uuid :: u64
  te_request_timestamp :: nanoseconds
  te_error_codes :: u16
  te_split_msg :: sbe_enum

definition encode_terminate :: "terminate \<Rightarrow> wire_message" where
  "encode_terminate m =
     \<lparr>wm_template = 507,
      wm_fields =
        [(''Reason'', WString (te_reason m)), (''uUID'', WInt (uint (te_uuid m))),
         (''requestTimestamp'', WInt (te_request_timestamp m)), (''errorCodes'', WInt (uint (te_error_codes m))),
         (''splitMsg'', WEnum (te_split_msg m))],
      wm_lengths = [[]]\<rparr>"

record party_details_list_request =
  pl_party_details_list_req_id :: u64
  pl_sending_time_epoch :: nanoseconds
  pl_seq_num :: u32

definition encode_party_details_list_request :: "party_details_list_request \<Rightarrow> wire_message" where
  "encode_party_details_list_request m =
     \<lparr>wm_template = 537,
      wm_fields =
        [(''partyDetailsListReqID'', WInt (uint (pl_party_details_list_req_id m))),
         (''sendingTimeEpoch'', WInt (pl_sending_time_epoch m)), (''seqNum'', WInt (uint (pl_seq_num m))),
         (''noRequestingPartyIDs'', WGroup []), (''noPartyIDs'', WGroup [])],
      wm_lengths = [[0, 0]]\<rparr>"

record party_detail =
  party_detail_id :: string
  party_detail_role :: sbe_enum

record party_details_definition_request =
  pd_party_details_list_req_id :: u64
  pd_sending_time_epoch :: nanoseconds
  pd_list_update_action :: sbe_enum
  pd_seq_num :: u32
  pd_memo :: string
  pd_avg_px_group_id :: string
  pd_self_match_prevention_id :: u64
  pd_cmta_giveup_cd :: sbe_enum
  pd_cust_order_capacity :: sbe_enum
  pd_clearing_account_type :: sbe_enum
  pd_self_match_prevention_instruction :: sbe_enum
  pd_avg_px_indicator :: sbe_enum
  pd_clearing_trade_price_type :: sbe_enum
  pd_cust_order_handling_inst :: sbe_enum
  pd_executor :: u64
  pd_idm_short_code :: u64
  pd_no_party_details :: "party_detail list"

definition encode_party_details_definition_request :: "party_details_definition_request \<Rightarrow> wire_message" where
  "encode_party_details_definition_request m =
     \<lparr>wm_template = 518,
      wm_fields =
        [(''partyDetailsListReqID'', WInt (uint (pd_party_details_list_req_id m))),
         (''sendingTimeEpoch'', WInt (pd_sending_time_epoch m)), (''listUpdateAction'', WEnum (pd_list_update_action m)),
         (''seqNum'', WInt (uint (pd_seq_num m))), (''Memo'', WString (pd_memo m)),
         (''AvgPxGroupID'', WString (pd_avg_px_group_id m)),
         (''selfMatchPreventionID'', or_null (uint (pd_self_match_prevention_id m))),
         (''cmtaGiveupCD'', WEnum (pd_cmta_giveup_cd m)), (''custOrderCapacity'', WEnum (pd_cust_order_capacity m)),
         (''clearingAccountType'', WEnum (pd_clearing_account_type m)),
         (''selfMatchPreventionInstruction'', WEnum (pd_self_match_prevention_instruction m)),
         (''avgPxIndicator'', WEnum (pd_avg_px_indicator m)),
         (''clearingTradePriceType'', WEnum (pd_clearing_trade_price_type m)),
         (''custOrderHandlingInst'', WEnum (pd_cust_order_handling_inst m)), (''executor'', WInt (uint (pd_executor m))),
         (''iDMShortCode'', WInt (uint (pd_idm_short_code m))),
         (''noPartyDetails'', WGroup (map (\<lambda>item. [(''PartyDetailID'', WString (party_detail_id item)), (''partyDetailRole'', WEnum (party_detail_role item))]) (pd_no_party_details m))),
         (''noTrdRegPublications'', WGroup [])],
      wm_lengths = [[length (pd_no_party_details m), 0]]\<rparr>"

record security_definition_request =
  sd_party_details_list_req_id :: u64
  sd_security_req_id :: u64
  sd_manual_order_indicator :: sbe_enum
  sd_seq_num :: u32
  sd_sender_id :: string
  sd_sending_time_epoch :: nanoseconds
  sd_security_sub_type :: string
  sd_location :: string
  sd_start_date :: int
  sd_end_date :: int
  sd_max_no_of_substitutions :: u8
  sd_source_repo_id :: int
  sd_broken_date_term_type :: u8

definition encode_security_definition_request :: "security_definition_request \<Rightarrow> wire_message" where
  "encode_security_definition_request m =
     \<lparr>wm_template = 560,
      wm_fields =
        [(''partyDetailsListReqID'', WInt (uint (sd_party_details_list_req_id m))),
         (''securityReqID'', WInt (uint (sd_security_req_id m))),
         (''manualOrderIndicator'', WEnum (sd_manual_order_indicator m)), (''seqNum'', WInt (uint (sd_seq_num m))),
         (''SenderID'', WString (sd_sender_id m)), (''sendingTimeEpoch'', WInt (sd_sending_time_epoch m)),
         (''SecuritySubType'', WString (sd_security_sub_type m)), (''Location'', WString (sd_location m)),
         (''maxNoOfSubstitutions'', WInt (uint (sd_max_no_of_substitutions m))),
         (''sourceRepoID'', WInt (sd_source_repo_id m)),
         (''brokenDateTermType'', WInt (uint (sd_broken_date_term_type m))), (''noLegs'', WGroup []),
         (''noBrokenDates'', WGroup [])],
      wm_lengths = [[0, 0]]\<rparr>"

record order_mass_status_request =
  ms_party_details_list_req_id :: u64
  ms_mass_status_req_id :: u64
  ms_manual_order_indicator :: sbe_enum
  ms_seq_num :: u32
  ms_sender_id :: string
  ms_sending_time_epoch :: nanoseconds
  ms_security_group :: string
  ms_location :: string
  ms_security_id :: int
  ms_mass_status_req_type :: sbe_enum
  ms_ord_status_req_type :: sbe_enum
  ms_time_in_force :: sbe_enum
  ms_market_segment_id :: u8

definition encode_order_mass_status_request :: "order_mass_status_request \<Rightarrow> wire_message" where
  "encode_order_mass_status_request m =
     \<lparr>wm_template = 530,
      wm_fields =
        [(''partyDetailsListReqID'', WInt (uint (ms_party_details_list_req_id m))),
         (''massStatusReqID'', WInt (uint (ms_mass_status_req_id m))),
         (''manualOrderIndicator'', WEnum (ms_manual_order_indicator m)), (''seqNum'', WInt (uint (ms_seq_num m))),
         (''SenderID'', WString (ms_sender_id m)), (''sendingTimeEpoch'', WInt (ms_sending_time_epoch m)),
         (''SecurityGroup'', WString (ms_security_group m)), (''Location'', WString (ms_location m)),
         (''securityID'', or_null (ms_security_id m)), (''massStatusReqType'', WEnum (ms_mass_status_req_type m)),
         (''ordStatusReqType'', WEnum (ms_ord_status_req_type m)), (''timeInForce'', WEnum (ms_time_in_force m)),
         (''marketSegmentID'', or_null (uint (ms_market_segment_id m)))],
      wm_lengths = [[]]\<rparr>"

record new_order_single =
  no_price :: double
  no_order_qty :: u32
  no_security_id :: int
  no_side :: side_req
  no_seq_num :: u32
  no_sender_id :: string
  no_cl_ord_id :: string
  no_party_details_list_req_id :: u64
  no_order_request_id :: u64
  no_sending_time_epoch :: nanoseconds
  no_stop_px :: double
  no_location :: string
  no_min_qty :: u32
  no_display_qty :: u32
  no_expire_date :: int
  no_ord_type :: order_type_req
  no_time_in_force :: ilink_time_in_force
  no_manual_order_indicator :: sbe_enum
  no_exec_inst :: u8
  no_execution_mode :: u8
  no_liquidity_flag :: bool
  no_managed_order :: bool
  no_short_sale_type :: sbe_enum
  no_discretion_price :: double
  no_reservation_price :: double

definition encode_new_order_single :: "int \<Rightarrow> new_order_single \<Rightarrow> exn + wire_message" where
  "encode_new_order_single null_value m =
     with_price null_value (no_price m) (\<lambda>price.
     with_price null_value (no_stop_px m) (\<lambda>stop_px.
     with_price null_value (no_discretion_price m) (\<lambda>discretion_price.
     with_price null_value (no_reservation_price m) (\<lambda>reservation_price.
     Inr \<lparr>wm_template = 514,
      wm_fields =
        [(''price'', WInt price), (''orderQty'', WInt (uint (no_order_qty m))), (''securityID'', WInt (no_security_id m)),
         (''side'', WSide (no_side m)), (''seqNum'', WInt (uint (no_seq_num m))), (''SenderID'', WString (no_sender_id m)),
         (''ClOrdID'', WString (no_cl_ord_id m)),
         (''partyDetailsListReqID'', WInt (uint (no_party_details_list_req_id m))),
         (''orderRequestID'', WInt (uint (no_order_request_id m))), (''sendingTimeEpoch'', WInt (no_sending_time_epoch m)),
         (''stopPx'', WInt stop_px), (''Location'', WString (no_location m)), (''minQty'', or_null (uint (no_min_qty m))),
         (''displayQty'', or_null (uint (no_display_qty m))), (''expireDate'', WNull),
         (''ordType'', WOrdType (no_ord_type m)), (''timeInForce'', WTif (no_time_in_force m)),
         (''manualOrderIndicator'', WEnum (no_manual_order_indicator m)), (''execInst'', WInt (uint (no_exec_inst m))),
         (''executionMode'', WInt (uint (no_execution_mode m))), (''liquidityFlag'', WFlag (no_liquidity_flag m)),
         (''managedOrder'', WFlag (no_managed_order m)), (''shortSaleType'', WEnum (no_short_sale_type m)),
         (''discretionPrice'', WInt discretion_price), (''reservationPrice'', WInt reservation_price)],
      wm_lengths = [[]]\<rparr>))))"

record order_cancel_replace_request =
  cr_price :: double
  cr_order_qty :: u32
  cr_security_id :: int
  cr_side :: side_req
  cr_seq_num :: u32
  cr_sender_id :: string
  cr_cl_ord_id :: string
  cr_party_details_list_req_id :: u64
  cr_order_id :: u64
  cr_stop_px :: double
  cr_order_request_id :: u64
  cr_sending_time_epoch :: nanoseconds
  cr_location :: string
  cr_min_qty :: u32
  cr_display_qty :: u32
  cr_expire_date :: int
  cr_ord_type :: order_type_req
  cr_time_in_force :: ilink_time_in_force
  cr_manual_order_indicator :: sbe_enum
  cr_ofm_override :: sbe_enum
  cr_exec_inst :: u8
  cr_execution_mode :: u8
  cr_liquidity_flag :: bool
  cr_managed_order :: bool
  cr_short_sale_type :: sbe_enum
  cr_discretion_price :: double

definition encode_order_cancel_replace_request :: "int \<Rightarrow> order_cancel_replace_request \<Rightarrow> exn + wire_message" where
  "encode_order_cancel_replace_request null_value m =
     with_price null_value (cr_price m) (\<lambda>price.
     with_price null_value (cr_stop_px m) (\<lambda>stop_px.
     with_price null_value (cr_discretion_price m) (\<lambda>discretion_price.
     Inr \<lparr>wm_template = 515,
      wm_fields =
        [(''price'', WInt price), (''orderQty'', WInt (uint (cr_order_qty m))), (''securityID'', WInt (cr_security_id m)),
         (''side'', WSide (cr_side m)), (''seqNum'', WInt (uint (cr_seq_num m))), (''SenderID'', WString (cr_sender_id m)),
         (''ClOrdID'', WString (cr_cl_ord_id m)),
         (''partyDetailsListReqID'', WInt (uint (cr_party_details_list_req_id m))), (''orderID'', WNull),
         (''stopPx'', WInt stop_px), (''orderRequestID'', WInt (uint (cr_order_request_id m))),
         (''sendingTimeEpoch'', WInt (cr_sending_time_epoch m)), (''Location'', WString (cr_location m)),
         (''minQty'', or_null (uint (cr_min_qty m))), (''displayQty'', or_null (uint (cr_display_qty m))),
         (''expireDate'', WNull), (''ordType'', WOrdType (cr_ord_type m)), (''timeInForce'', WTif (cr_time_in_force m)),
         (''manualOrderIndicator'', WEnum (cr_manual_order_indicator m)), (''oFMOverride'', WEnum (cr_ofm_override m)),
         (''execInst'', WInt (uint (cr_exec_inst m))), (''executionMode'', WInt (uint (cr_execution_mode m))),
         (''liquidityFlag'', WFlag (cr_liquidity_flag m)), (''managedOrder'', WFlag (cr_managed_order m)),
         (''shortSaleType'', WEnum (cr_short_sale_type m)), (''discretionPrice'', WInt discretion_price)],
      wm_lengths = [[]]\<rparr>)))"

record order_cancel_request =
  cc_order_id :: u64
  cc_party_details_list_req_id :: u64
  cc_manual_order_indicator :: sbe_enum
  cc_seq_num :: u32
  cc_sender_id :: string
  cc_cl_ord_id :: string
  cc_order_request_id :: u64
  cc_sending_time_epoch :: nanoseconds
  cc_location :: string
  cc_security_id :: int
  cc_side :: side_req
  cc_liquidity_flag :: bool
  cc_orig_order_user :: string

definition encode_order_cancel_request :: "order_cancel_request \<Rightarrow> wire_message" where
  "encode_order_cancel_request m =
     \<lparr>wm_template = 516,
      wm_fields =
        [(''orderID'', WNull), (''partyDetailsListReqID'', WInt (uint (cc_party_details_list_req_id m))),
         (''manualOrderIndicator'', WEnum (cc_manual_order_indicator m)), (''seqNum'', WInt (uint (cc_seq_num m))),
         (''SenderID'', WString (cc_sender_id m)), (''ClOrdID'', WString (cc_cl_ord_id m)),
         (''orderRequestID'', WInt (uint (cc_order_request_id m))), (''sendingTimeEpoch'', WInt (cc_sending_time_epoch m)),
         (''Location'', WString (cc_location m)), (''securityID'', WInt (cc_security_id m)), (''side'', WSide (cc_side m)),
         (''liquidityFlag'', WFlag (cc_liquidity_flag m)), (''OrigOrderUser'', WString (cc_orig_order_user m))],
      wm_lengths = [[]]\<rparr>"

record order_mass_action_request =
  ma_party_details_list_req_id :: u64
  ma_order_request_id :: u64
  ma_manual_order_indicator :: sbe_enum
  ma_seq_num :: u32
  ma_sender_id :: string
  ma_sending_time_epoch :: nanoseconds
  ma_security_group :: string
  ma_location :: string
  ma_security_id :: int
  ma_mass_action_scope :: sbe_enum
  ma_market_segment_id :: u8
  ma_mass_cancel_request_type :: sbe_enum
  ma_side :: sbe_enum
  ma_ord_type :: u8
  ma_time_in_force :: sbe_enum
  ma_liquidity_flag :: sbe_enum
  ma_orig_order_user :: string

definition encode_order_mass_action_request :: "order_mass_action_request \<Rightarrow> wire_message" where
  "encode_order_mass_action_request m =
     \<lparr>wm_template = 529,
      wm_fields =
        [(''partyDetailsListReqID'', WInt (uint (ma_party_details_list_req_id m))),
         (''orderRequestID'', WInt (uint (ma_order_request_id m))),
         (''manualOrderIndicator'', WEnum (ma_manual_order_indicator m)), (''seqNum'', WInt (uint (ma_seq_num m))),
         (''SenderID'', WString (ma_sender_id m)), (''sendingTimeEpoch'', WInt (ma_sending_time_epoch m)),
         (''SecurityGroup'', WString (ma_security_group m)), (''Location'', WString (ma_location m)),
         (''securityID'', or_null (ma_security_id m)), (''massActionScope'', WEnum (ma_mass_action_scope m)),
         (''marketSegmentID'', WInt (uint (ma_market_segment_id m))),
         (''massCancelRequestType'', WEnum (ma_mass_cancel_request_type m)), (''side'', WEnum (ma_side m)),
         (''ordType'', WInt (uint (ma_ord_type m))), (''timeInForce'', WEnum (ma_time_in_force m)),
         (''liquidityFlag'', WEnum (ma_liquidity_flag m)), (''OrigOrderUser'', WString (ma_orig_order_user m))],
      wm_lengths = [[]]\<rparr>"

record quote_entry =
  qe_bid_px :: double
  qe_offer_px :: double
  qe_quote_entry_id :: u32
  qe_security_id :: int
  qe_bid_size :: u32
  qe_offer_size :: u32
  qe_underlying_security_id :: int
  qe_quote_set_id :: u16

record mass_quote =
  mq_party_details_list_req_id :: u64
  mq_sending_time_epoch :: nanoseconds
  mq_manual_order_indicator :: sbe_enum
  mq_seq_num :: u32
  mq_sender_id :: string
  mq_quote_req_id :: u64
  mq_location :: string
  mq_quote_id :: u32
  mq_tot_no_quote_entries :: u8
  mq_mmp_protection_reset :: bool
  mq_liquidity_flag :: bool
  mq_short_sale_type :: sbe_enum
  mq_reserved :: string
  mq_reserved_1 :: string
  mq_quote_entry_open :: bool
  mq_no_quote_entries :: "quote_entry list"

primrec encode_quote_entries :: "int \<Rightarrow> quote_entry list \<Rightarrow> exn + wire_fields list" where
  "encode_quote_entries null_value [] = Inr []"
| "encode_quote_entries null_value (item # items) =
     with_price null_value (qe_bid_px item) (\<lambda>bid_px.
     with_price null_value (qe_offer_px item) (\<lambda>offer_px.
     (case encode_quote_entries null_value items of
        Inl e \<Rightarrow> Inl e
      | Inr entries \<Rightarrow>
          Inr ([(''bidPx'', WInt bid_px), (''offerPx'', WInt offer_px), (''quoteEntryID'', WInt (uint (qe_quote_entry_id item))),
            (''securityID'', WInt (qe_security_id item)), (''bidSize'', WInt (uint (qe_bid_size item))),
            (''offerSize'', WInt (uint (qe_offer_size item))),
            (''underlyingSecurityID'', WInt (qe_underlying_security_id item)),
            (''quoteSetID'', WInt (uint (qe_quote_set_id item)))] # entries))))"

definition encode_mass_quote :: "int \<Rightarrow> mass_quote \<Rightarrow> exn + wire_message" where
  "encode_mass_quote null_value m =
     (case encode_quote_entries null_value (mq_no_quote_entries m) of
        Inl e \<Rightarrow> Inl e
      | Inr entries \<Rightarrow> Inr \<lparr>wm_template = 517,
      wm_fields =
        [(''partyDetailsListReqID'', WInt (uint (mq_party_details_list_req_id m))),
         (''sendingTimeEpoch'', WInt (mq_sending_time_epoch m)),
         (''manualOrderIndicator'', WEnum (mq_manual_order_indicator m)), (''seqNum'', WInt (uint (mq_seq_num m))),
         (''SenderID'', WString (mq_sender_id m)), (''quoteReqID'', WInt (uint (mq_quote_req_id m))),
         (''Location'', WString (mq_location m)), (''quoteID'', WInt (uint (mq_quote_id m))),
         (''totNoQuoteEntries'', WInt (uint (mq_tot_no_quote_entries m))),
         (''mMProtectionReset'', WFlag (mq_mmp_protection_reset m)), (''liquidityFlag'', WFlag (mq_liquidity_flag m)),
         (''shortSaleType'', WEnum (mq_short_sale_type m)), (''quoteEntryOpen'', WFlag (mq_quote_entry_open m)),
         (''noQuoteEntries'', WGroup entries)],
      wm_lengths = [[length (mq_no_quote_entries m)]]\<rparr>)"

record cancel_entry =
  ce_security_group :: string
  ce_security_id :: int

record cancel_set =
  cs_bid_size :: u32
  cs_offer_size :: u32
  cs_quote_set_id :: u16

record quote_cancel =
  qc_party_details_list_req_id :: u64
  qc_sending_time_epoch :: nanoseconds
  qc_manual_order_indicator :: sbe_enum
  qc_seq_num :: u32
  qc_sender_id :: string
  qc_location :: string
  qc_quote_id :: u32
  qc_quote_cancel_type :: sbe_enum
  qc_liquidity_flag :: bool
  qc_orig_order_user :: string
  qc_quote_entry_open :: bool
  qc_no_quote_entries :: "cancel_entry list"
  qc_no_quote_sets :: "cancel_set list"

definition encode_quote_cancel :: "quote_cancel \<Rightarrow> wire_message" where
  "encode_quote_cancel m =
     \<lparr>wm_template = 528,
      wm_fields =
        [(''partyDetailsListReqID'', WInt (uint (qc_party_details_list_req_id m))),
         (''sendingTimeEpoch'', WInt (qc_sending_time_epoch m)),
         (''manualOrderIndicator'', WEnum (qc_manual_order_indicator m)), (''seqNum'', WInt (uint (qc_seq_num m))),
         (''SenderID'', WString (qc_sender_id m)), (''Location'', WString (qc_location m)),
         (''quoteID'', WInt (uint (qc_quote_id m))), (''quoteCancelType'', WEnum (qc_quote_cancel_type m)),
         (''liquidityFlag'', WFlag (qc_liquidity_flag m)), (''OrigOrderUser'', WString (qc_orig_order_user m)),
         (''quoteEntryOpen'', WFlag (qc_quote_entry_open m)),
         (''noQuoteEntries'', WGroup (map (\<lambda>item. [(''SecurityGroup'', WString (ce_security_group item)), (''securityID'', WInt (ce_security_id item))]) (qc_no_quote_entries m))),
         (''noQuoteSets'', WGroup (map (\<lambda>item. [(''bidSize'', WInt (uint (cs_bid_size item))), (''offerSize'', WInt (uint (cs_offer_size item))),
         (''quoteSetID'', WInt (uint (cs_quote_set_id item)))]) (qc_no_quote_sets m)))],
      wm_lengths = [[length (qc_no_quote_entries m)], [length (qc_no_quote_sets m)]]\<rparr>"

subsection \<open>Any message\<close>

datatype ilink_message =
    Negotiate negotiate
  | Establish establish
  | Sequence sequence
  | Terminate terminate
  | PartyDetailsListRequest party_details_list_request
  | PartyDetailsDefinitionRequest party_details_definition_request
  | SecurityDefinitionRequest security_definition_request
  | OrderMassStatusRequest order_mass_status_request
  | NewOrderSingle new_order_single
  | OrderCancelReplaceRequest order_cancel_replace_request
  | OrderCancelRequest order_cancel_request
  | OrderMassActionRequest order_mass_action_request

fun encode_ilink :: "int \<Rightarrow> ilink_message \<Rightarrow> exn + wire_message" where
  "encode_ilink n (Negotiate m) = Inr (encode_negotiate m)"
| "encode_ilink n (Establish m) = Inr (encode_establish m)"
| "encode_ilink n (Sequence m) = Inr (encode_sequence m)"
| "encode_ilink n (Terminate m) = Inr (encode_terminate m)"
| "encode_ilink n (PartyDetailsListRequest m) = Inr (encode_party_details_list_request m)"
| "encode_ilink n (PartyDetailsDefinitionRequest m) = Inr (encode_party_details_definition_request m)"
| "encode_ilink n (SecurityDefinitionRequest m) = Inr (encode_security_definition_request m)"
| "encode_ilink n (OrderMassStatusRequest m) = Inr (encode_order_mass_status_request m)"
| "encode_ilink n (NewOrderSingle m) = encode_new_order_single n m"
| "encode_ilink n (OrderCancelReplaceRequest m) = encode_order_cancel_replace_request n m"
| "encode_ilink n (OrderCancelRequest m) = Inr (encode_order_cancel_request m)"
| "encode_ilink n (OrderMassActionRequest m) = Inr (encode_order_mass_action_request m)"

text \<open>The number a message takes from the outbound sequence; session messages take none.\<close>

fun seq_num_of :: "ilink_message \<Rightarrow> u32 option" where
  "seq_num_of (Negotiate m) = None"
| "seq_num_of (Establish m) = None"
| "seq_num_of (Sequence m) = None"
| "seq_num_of (Terminate m) = None"
| "seq_num_of (PartyDetailsListRequest m) = Some (pl_seq_num m)"
| "seq_num_of (PartyDetailsDefinitionRequest m) = Some (pd_seq_num m)"
| "seq_num_of (SecurityDefinitionRequest m) = Some (sd_seq_num m)"
| "seq_num_of (OrderMassStatusRequest m) = Some (ms_seq_num m)"
| "seq_num_of (NewOrderSingle m) = Some (no_seq_num m)"
| "seq_num_of (OrderCancelReplaceRequest m) = Some (cr_seq_num m)"
| "seq_num_of (OrderCancelRequest m) = Some (cc_seq_num m)"
| "seq_num_of (OrderMassActionRequest m) = Some (ma_seq_num m)"

lemmas encode_defs =
  encode_negotiate_def encode_establish_def encode_sequence_def encode_terminate_def
  encode_party_details_list_request_def encode_party_details_definition_request_def
  encode_security_definition_request_def encode_order_mass_status_request_def encode_new_order_single_def
  encode_order_cancel_replace_request_def encode_order_cancel_request_def encode_order_mass_action_request_def

lemma with_price_Inr: "with_price n v k = Inr x \<longleftrightarrow> (\<exists>m. set_price n v = Inr m \<and> k m = Inr x)"
  by (auto simp: with_price_def split: sum.splits)

text \<open>A price read from the exchange, and its mantissa when it is written.\<close>

definition price9 :: "int \<Rightarrow> int \<Rightarrow> double" where
  "price9 null_value m = get_double \<lparr>mantissa = m, exponent = - 9, mantissaNullValue = null_value\<rparr>"

lemma set_price_price9:
  assumes "0 \<le> m" and "m < 2 ^ 49" and "m \<noteq> null_value"
  shows "set_price null_value (price9 null_value m) = Inr m"
  using set_price_get_double' [of m null_value] assms by (simp add: price9_def)

lemma set_price_NaN [simp]: "set_price null_value NaN = Inr null_value"
  by (simp add: set_price_def)

subsection \<open>Properties\<close>

text \<open>
  Every message that takes part in the outbound sequence carries its number in the
  field the exchange reads it from, and the session messages have no such field.
\<close>

theorem encode_carries_seq_num:
  assumes "encode_ilink null_value m = Inr w"
  shows "map_of (wm_fields w) ''seqNum'' = map_option (\<lambda>n. WInt (uint n)) (seq_num_of m)"
  using assms by (cases m) (auto simp: encode_defs with_price_Inr)


definition sample_new_order :: new_order_single where
  "sample_new_order =
     \<lparr>no_price = price9 (2 ^ 63 - 1) 4500250000000, no_order_qty = 3, no_security_id = 42, no_side = SQ_Buy, no_seq_num = 2,
      no_sender_id = ''A1'', no_cl_ord_id = ''c-1'', no_party_details_list_req_id = 0, no_order_request_id = 5,
      no_sending_time_epoch = 0, no_stop_px = NaN, no_location = ''DE'', no_min_qty = 0, no_display_qty = 0,
      no_expire_date = 0, no_ord_type = OQ_Limit, no_time_in_force = IT_Day, no_manual_order_indicator = ''Automated'',
      no_exec_inst = 0, no_execution_mode = 0, no_liquidity_flag = False, no_managed_order = False,
      no_short_sale_type = ''NULL_VALUE'', no_discretion_price = NaN, no_reservation_price = NaN\<rparr>"


theorem encode_carries_seq_num_witness:
  "\<exists>w. encode_ilink (2 ^ 63 - 1) (NewOrderSingle sample_new_order) = Inr w \<and> map_of (wm_fields w) ''seqNum'' = Some (WInt 2)"
proof -
  obtain w where w: "encode_ilink (2 ^ 63 - 1) (NewOrderSingle sample_new_order) = Inr w"
    by (simp add: encode_new_order_single_def with_price_def set_price_price9 sample_new_order_def)
  from encode_carries_seq_num [OF this] have "map_of (wm_fields w) ''seqNum'' = Some (WInt 2)"
    by (simp add: sample_new_order_def)
  with w show ?thesis by blast
qed

end
