(* ===== verification/Crypto.thy ===== *)
theory Crypto
  imports Prelude
begin

section \<open>Signing a session request\<close>

text \<open>
  \<^verbatim>\<open>tools/canonical_message.hpp\<close> and \<^verbatim>\<open>tools/crypto.cpp\<close>: the text that is
  signed when a session is negotiated or established. The message authentication code (HMAC
  over SHA-256, with the key the account is configured with) is library code and a parameter;
  the writer is given a buffer large enough for the text.
\<close>

record canonical_message =
  cm_request_timestamp :: nanoseconds
  cm_uuid :: u64
  cm_session :: string
  cm_firm_id :: string
  cm_trading_system_name :: string
  cm_trading_system_version :: string
  cm_trading_system_vendor :: string
  cm_next_seq_no :: u32
  cm_keep_alive_interval :: int

definition newline :: string where
  "newline = [CHR 0x0A]"

definition canonical_text :: "canonical_message \<Rightarrow> string" where
  "canonical_text message =
     show_int (cm_request_timestamp message) @ newline @
     show_nat (unat (cm_uuid message)) @ newline @
     cm_session message @ newline @
     cm_firm_id message @
     (if cm_trading_system_name message \<noteq> [] then
        newline @ cm_trading_system_name message @
        newline @ cm_trading_system_version message @
        newline @ cm_trading_system_vendor message @
        newline @ show_nat (unat (cm_next_seq_no message)) @
        newline @ show_int (cm_keep_alive_interval message)
      else [])"

definition create_signature :: "(string \<Rightarrow> bytes) \<Rightarrow> canonical_message \<Rightarrow> bytes" where
  "create_signature mac message = mac (canonical_text message)"

subsection \<open>The text determines the message\<close>

fun join_lines :: "string list \<Rightarrow> string" where
  "join_lines [] = []"
| "join_lines [x] = x"
| "join_lines (x # y # xs) = x @ newline @ join_lines (y # xs)"

definition single_line :: "string \<Rightarrow> bool" where
  "single_line s \<longleftrightarrow> CHR 0x0A \<notin> set s"

lemma append_newline_inject:
  assumes "single_line x" and "single_line y" and "x @ CHR 0x0A # xs = y @ CHR 0x0A # ys"
  shows "x = y \<and> xs = ys"
  using assms
proof (induction x arbitrary: y)
  case Nil
  then show ?case by (cases y) (auto simp: single_line_def)
next
  case (Cons a x)
  then show ?case by (cases y) (auto simp: single_line_def)
qed

lemma newline_in_join: "CHR 0x0A \<in> set (join_lines (x # y # xs))"
  by (simp add: newline_def)

lemma join_lines_inject:
  assumes "list_all single_line xs" and "list_all single_line ys" and "xs \<noteq> []" and "ys \<noteq> []"
    and "join_lines xs = join_lines ys"
  shows "xs = ys"
  using assms
proof (induction xs arbitrary: ys rule: join_lines.induct)
  case 1
  then show ?case by simp
next
  case (2 x)
  then show ?case
    using newline_in_join by (cases ys rule: join_lines.cases) (auto simp: single_line_def)
next
  case (3 x x' xs)
  show ?case
  proof (cases ys rule: join_lines.cases)
    case (2 y)
    with "3.prems" newline_in_join [of x x' xs] show ?thesis by (auto simp: single_line_def)
  next
    case (3 y y' ys')
    have sl: "single_line x" "single_line y" using "3.prems"(1,2) 3 by simp_all
    have "x @ CHR 0x0A # join_lines (x' # xs) = y @ CHR 0x0A # join_lines (y' # ys')"
      using "3.prems"(5) 3 by (simp add: newline_def)
    from append_newline_inject [OF sl this] have eq: "x = y" "join_lines (x' # xs) = join_lines (y' # ys')" by blast+
    have "x' # xs = y' # ys'"
      by (rule "3.IH") (use "3.prems" 3 in simp, use "3.prems" 3 in simp, simp, simp, rule eq(2))
    with 3 eq show ?thesis by simp
  qed (use "3.prems" in simp)
qed

lemma digit_not_newline:
  assumes "d < 10"
  shows "char_of (48 + d :: nat) \<noteq> CHR 0x0A"
proof
  assume "char_of (48 + d) = CHR 0x0A"
  then have "of_char (char_of (48 + d :: nat)) = (10 :: nat)" by simp
  with of_char_digit [OF assms] show False by simp
qed

lemma single_line_show_nat: "single_line (show_nat n)"
  unfolding single_line_def using show_nat_digits digit_not_newline by metis

lemma single_line_show_int: "single_line (show_int i)"
  using single_line_show_nat by (simp add: show_int_def single_line_def)

lemma show_nat_no_sign: "show_nat n \<noteq> CHR ''-'' # s"
proof
  assume eq: "show_nat n = CHR ''-'' # s"
  then obtain d where "d < 10" "CHR ''-'' = char_of (48 + d :: nat)" using show_nat_digits [of "CHR ''-''" n] by auto
  then have "of_char (CHR ''-'') = (48 + d :: nat)" using of_char_digit by metis
  then show False by simp
qed

lemma show_int_inject: "show_int i = show_int j \<longleftrightarrow> i = j"
  using show_nat_no_sign by (auto simp: show_int_def split: if_splits) (metis show_nat_no_sign)+

definition canonical_fields :: "canonical_message \<Rightarrow> string list" where
  "canonical_fields m =
     [show_int (cm_request_timestamp m), show_nat (unat (cm_uuid m)), cm_session m, cm_firm_id m] @
     (if cm_trading_system_name m \<noteq> [] then
        [cm_trading_system_name m, cm_trading_system_version m, cm_trading_system_vendor m,
         show_nat (unat (cm_next_seq_no m)), show_int (cm_keep_alive_interval m)]
      else [])"

text \<open>
  A message as the gateway makes it: no field has a line break, and without the name of the
  trading system the fields that go with it are left at their default.
\<close>

definition wf_canonical :: "canonical_message \<Rightarrow> bool" where
  "wf_canonical m \<longleftrightarrow>
     list_all single_line [cm_session m, cm_firm_id m, cm_trading_system_name m, cm_trading_system_version m, cm_trading_system_vendor m] \<and>
     (cm_trading_system_name m = [] \<longrightarrow>
        cm_trading_system_version m = [] \<and> cm_trading_system_vendor m = [] \<and> cm_next_seq_no m = 0 \<and> cm_keep_alive_interval m = 0)"

lemma canonical_text_join: "canonical_text m = join_lines (canonical_fields m)"
  by (simp add: canonical_text_def canonical_fields_def)

lemma canonical_fields_lines: "wf_canonical m \<Longrightarrow> list_all single_line (canonical_fields m)"
  by (simp add: canonical_fields_def wf_canonical_def single_line_show_nat single_line_show_int)

lemma canonical_fields_inject:
  assumes "wf_canonical m" and "wf_canonical m'" and "canonical_fields m = canonical_fields m'"
  shows "m = m'"
  using assms
  by (intro canonical_message.equality) (auto simp: canonical_fields_def wf_canonical_def show_int_inject simp flip: word_unat_eq_iff split: if_splits)

text \<open>
  The signed text is unambiguous: two well-formed canonical messages with the same
  text are the same message, so that a signature for one request cannot be taken for that of
  another, a negotiation for an establishment in particular.
\<close>

theorem canonical_text_injective:
  assumes "wf_canonical m" and "wf_canonical m'" and "canonical_text m = canonical_text m'"
  shows "m = m'"
proof (rule canonical_fields_inject [OF assms(1,2)])
  show "canonical_fields m = canonical_fields m'"
    by (rule join_lines_inject [OF canonical_fields_lines [OF assms(1)] canonical_fields_lines [OF assms(2)]])
      (use assms(3) in \<open>simp_all add: canonical_text_join, simp_all add: canonical_fields_def\<close>)
qed

definition sample_negotiate_text :: canonical_message where
  "sample_negotiate_text =
     \<lparr>cm_request_timestamp = 7, cm_uuid = 1, cm_session = ''ABC'', cm_firm_id = ''F'', cm_trading_system_name = [],
      cm_trading_system_version = [], cm_trading_system_vendor = [], cm_next_seq_no = 0, cm_keep_alive_interval = 0\<rparr>"

theorem canonical_text_injective_witness:
  "canonical_text sample_negotiate_text \<noteq>
   canonical_text (sample_negotiate_text\<lparr>cm_trading_system_name := ''X'', cm_next_seq_no := 1\<rparr>)"
proof
  assume "canonical_text sample_negotiate_text =
    canonical_text (sample_negotiate_text\<lparr>cm_trading_system_name := ''X'', cm_next_seq_no := 1\<rparr>)"
  moreover have "wf_canonical sample_negotiate_text"
    "wf_canonical (sample_negotiate_text\<lparr>cm_trading_system_name := ''X'', cm_next_seq_no := 1\<rparr>)"
    by (simp_all add: wf_canonical_def sample_negotiate_text_def single_line_def)
  ultimately have "sample_negotiate_text = sample_negotiate_text\<lparr>cm_trading_system_name := ''X'', cm_next_seq_no := 1\<rparr>"
    by (intro canonical_text_injective)
  then show False by (simp add: sample_negotiate_text_def)
qed

end
