(* ===== verification/OrderSession.thy ===== *)
theory OrderSession
  imports IlinkParser IlinkMessages Crypto SecurityDefinitions
begin

section \<open>Order entry: the session and the requests of clients\<close>

text \<open>
  The first half of \<^verbatim>\<open>gateway/order_entry.cpp\<close>: the state of an order entry
  connection, sending, and the requests a client can make. A handler is a function from the
  state to the new state and the exception that left it, if any. What the handler causes
  outside (messages written to the socket, updates handed to the dispatcher, closing the
  connection) is appended to the list of effects of the state, in the order it happens.
\<close>

subsection \<open>Updates for clients\<close>

record oms_response =
  rsp_request_type :: request_type
  rsp_request_status :: request_status
  rsp_text :: string
  rsp_external_order_id :: string
  rsp_client_order_id :: string
  rsp_quantity :: double
  rsp_price :: double

record order_update =
  ou_account :: string
  ou_exchange :: string
  ou_symbol :: string
  ou_side :: side
  ou_order_type :: order_type
  ou_time_in_force :: time_in_force
  ou_create_time_utc :: nanoseconds
  ou_update_time_utc :: nanoseconds
  ou_external_order_id :: string
  ou_client_order_id :: string
  ou_order_status :: order_status
  ou_quantity :: double
  ou_price :: double
  ou_stop_price :: double
  ou_remaining_quantity :: double
  ou_traded_quantity :: double
  ou_last_traded_quantity :: double
  ou_last_traded_price :: double
  ou_last_liquidity :: liquidity
  ou_update_type :: update_type

record fill =
  fl_external_trade_id :: string
  fl_quantity :: double
  fl_price :: double
  fl_liquidity :: liquidity

record trade_update =
  tu_account :: string
  tu_order_id :: u64
  tu_exchange :: string
  tu_symbol :: string
  tu_side :: side
  tu_create_time_utc :: nanoseconds
  tu_update_time_utc :: nanoseconds
  tu_external_order_id :: string
  tu_client_order_id :: string
  tu_fills :: "fill list"
  tu_update_type :: update_type
  tu_strategy_id :: u32

datatype origin = GATEWAY | EXCHANGE

record cancel_all_orders_ack =
  ca_account :: string
  ca_order_id :: u64
  ca_exchange :: string
  ca_symbol :: string
  ca_side :: side
  ca_origin :: origin
  ca_request_status :: request_status
  ca_text :: string
  ca_request_id :: string
  ca_strategy_id :: u32

text \<open>
  A response is dispatched with the user and the order it is for, with an update of the
  order, or with neither.
\<close>

datatype oe_effect =
    Transmit ilink_message bytes
  | NotSent ilink_message
  | StreamStatus connection_status
  | Response oms_response "(u8 \<times> u64) option"
  | ResponseUpdate oms_response order_update
  | OrderUpdate order_update
  | TradeUpdate trade_update u8
  | CancelAllOrdersAck cancel_all_orders_ack
  | CloseConnection

subsection \<open>Library code\<close>

text \<open>
  \<^verbatim>\<open>core::Download2\<close> drives a sequence of states: each of its operations calls back
  for some states, in order, and takes the number of responses to expect from the result. The
  callback of the gateway answers with a number that depends on the state only.
\<close>

datatype download_state = DS_UNDEFINED | ORDERS | DONE

record 'd download2 =
  dl_begin :: "(download_state \<Rightarrow> int) \<Rightarrow> 'd \<Rightarrow> 'd \<times> download_state list"
  dl_check_relaxed :: "(download_state \<Rightarrow> int) \<Rightarrow> download_state \<Rightarrow> 'd \<Rightarrow> 'd \<times> download_state list"
  dl_reset :: "'d \<Rightarrow> 'd"

text \<open>
  The configuration of the connection and what it uses of library and generated code: the
  clocks and the space the socket offers (by the number of readings so far), the encoder of
  the flyweights, the checked conversions, the message authentication code, the lookup of an
  order in the order management, and constants of the client API.
\<close>

record 'd gateway_env =
  ge_account :: string
  ge_login :: string
  ge_password :: string
  ge_firm_id :: string
  ge_location :: string
  ge_market_segment_id :: u8
  ge_package_name :: string
  ge_build_version :: string
  ge_mac :: "string \<Rightarrow> bytes"
  ge_price_null :: int
  ge_sbe :: "wire_message \<Rightarrow> bytes"
  ge_safe_cast_u16 :: "nat \<Rightarrow> exn + u16"
  ge_safe_cast_i32 :: "double \<Rightarrow> exn + int"
  ge_send_space :: "nat \<Rightarrow> nat option"
  ge_realtime :: "nat \<Rightarrow> nanoseconds"
  ge_system :: "nat \<Rightarrow> nanoseconds"
  ge_download :: "'d download2"
  ge_find_order :: "order_update \<Rightarrow> (u8 \<times> u64 \<times> u32) option"
  ge_modify_order_type :: request_type
  ge_source_none :: u8
  ge_order_id_none :: u64
  ge_strategy_id_none :: u32

subsection \<open>The state\<close>

record 'd order_entry =
  ses_connection_status :: connection_status
  ses_out_seq_num :: u32
  ses_in_seq_num :: u32
  ses_download :: 'd
  ses_next_heartbeat :: nanoseconds
  ses_uuid :: u64
  ses_request_id :: u64
  ses_ticks :: nat
  ses_effects :: "oe_effect list"

definition initial_order_entry :: "'d \<Rightarrow> 'd order_entry" where
  "initial_order_entry d =
     \<lparr>ses_connection_status = CS_UNDEFINED, ses_out_seq_num = 0, ses_in_seq_num = 0, ses_download = d, ses_next_heartbeat = 0,
      ses_uuid = 0, ses_request_id = 0, ses_ticks = 0, ses_effects = []\<rparr>"

type_synonym 'd action = "'d order_entry \<Rightarrow> 'd order_entry \<times> exn option"

definition and_then :: "'d action \<Rightarrow> 'd action \<Rightarrow> 'd action" where
  "and_then f g s = (case f s of (s', None) \<Rightarrow> g s' | (s', Some e) \<Rightarrow> (s', Some e))"

definition nothing :: "'d action" where
  "nothing s = (s, None)"

definition throw :: "exn \<Rightarrow> 'd action" where
  "throw e s = (s, Some e)"

definition emit :: "oe_effect \<Rightarrow> 'd action" where
  "emit e s = (s\<lparr>ses_effects := ses_effects s @ [e]\<rparr>, None)"

definition ready :: "'d order_entry \<Rightarrow> bool" where
  "ready s \<longleftrightarrow> ses_connection_status s = READY"

definition on_connection_status :: "connection_status \<Rightarrow> 'd action" where
  "on_connection_status status s = emit (StreamStatus status) (s\<lparr>ses_connection_status := status\<rparr>)"

subsection \<open>Sequence numbers and clocks\<close>

definition MAX_SEQ_NUM :: nat where
  "MAX_SEQ_NUM = 1000000000"

definition KEEP_ALIVE_INTERVAL :: nanoseconds where
  "KEEP_ALIVE_INTERVAL = 30000000000"

definition peek_next_seq_num :: "'d order_entry \<Rightarrow> u32" where
  "peek_next_seq_num s = word_of_nat (unat (ses_out_seq_num s + 1) mod MAX_SEQ_NUM)"

definition fetch_next_seq_num :: "'d order_entry \<Rightarrow> u32 \<times> 'd order_entry" where
  "fetch_next_seq_num s = (let result = peek_next_seq_num s in (result, s\<lparr>ses_out_seq_num := result\<rparr>))"

definition fetch_next_request_id :: "'d order_entry \<Rightarrow> u64 \<times> 'd order_entry" where
  "fetch_next_request_id s = (let result = ses_request_id s + 1 in (result, s\<lparr>ses_request_id := result\<rparr>))"

definition get_realtime :: "'d gateway_env \<Rightarrow> 'd order_entry \<Rightarrow> nanoseconds \<times> 'd order_entry" where
  "get_realtime env s = (ge_realtime env (ses_ticks s), s\<lparr>ses_ticks := Suc (ses_ticks s)\<rparr>)"

subsection \<open>Sending\<close>

text \<open>
  \<^verbatim>\<open>OrderEntry::send\<close>. The connection manager either offers a buffer to write to, in
  which case the frame must fit, or refuses (\<open>None\<close>), which is only logged. The time of the
  next heartbeat is set in both cases.
\<close>

definition update_heartbeat :: "'d gateway_env \<Rightarrow> 'd action" where
  "update_heartbeat env s =
     (s\<lparr>ses_next_heartbeat := ge_system env (ses_ticks s) + KEEP_ALIVE_INTERVAL, ses_ticks := Suc (ses_ticks s)\<rparr>, None)"

definition send :: "'d gateway_env \<Rightarrow> ilink_message \<Rightarrow> 'd action" where
  "send env value s =
     (case encode_ilink (ge_price_null env) value of
        Inl e \<Rightarrow> (s, Some e)
      | Inr w \<Rightarrow>
          let message = ge_sbe env w in
          (case ge_safe_cast_u16 env (length message + 4) of
             Inl e \<Rightarrow> (s, Some e)
           | Inr len \<Rightarrow>
               let frame = le_bytes 2 (unat len) @ [0xFE, 0xCA] @ message in
               (case ge_send_space env (ses_ticks s) of
                  Some n \<Rightarrow>
                    if n < length frame then (s, Some Fatal)
                    else and_then (emit (Transmit value frame)) (update_heartbeat env) s
                | None \<Rightarrow> and_then (emit (NotSent value)) (update_heartbeat env) s)))"

subsection \<open>Session messages\<close>

text \<open>The time in microseconds, as a 64-bit number, identifies the session; the cast truncates.\<close>

definition microseconds_of :: "nanoseconds \<Rightarrow> int" where
  "microseconds_of n = (if 0 \<le> n then n div 1000 else - ((- n) div 1000))"

definition negotiate_text :: "'d gateway_env \<Rightarrow> nanoseconds \<Rightarrow> u64 \<Rightarrow> canonical_message" where
  "negotiate_text env now uuid =
     \<lparr>cm_request_timestamp = now, cm_uuid = uuid, cm_session = ge_login env, cm_firm_id = ge_firm_id env,
      cm_trading_system_name = [], cm_trading_system_version = [], cm_trading_system_vendor = [],
      cm_next_seq_no = 0, cm_keep_alive_interval = 0\<rparr>"

definition send_negotiate :: "'d gateway_env \<Rightarrow> 'd action" where
  "send_negotiate env s =
     (case get_realtime env s of (now, s) \<Rightarrow>
        let uuid = (word_of_int (microseconds_of now) :: u64);
            s = s\<lparr>ses_uuid := uuid\<rparr>;
            canonical_message = negotiate_text env now uuid
        in send env (Negotiate
             \<lparr>ng_hmac_signature = create_signature (ge_mac env) canonical_message, ng_access_key_id = ge_password env,
              ng_uuid = uuid, ng_request_timestamp = now, ng_session = ge_login env, ng_firm = ge_firm_id env\<rparr>) s)"

definition TRADING_SYSTEM_VENDOR :: string where
  "TRADING_SYSTEM_VENDOR = ''ROQ GMBH''"

text \<open>The interval is sent in milliseconds.\<close>

definition establish_text :: "'d gateway_env \<Rightarrow> nanoseconds \<Rightarrow> u64 \<Rightarrow> u32 \<Rightarrow> canonical_message" where
  "establish_text env now uuid next_seq_no =
     \<lparr>cm_request_timestamp = now, cm_uuid = uuid, cm_session = ge_login env, cm_firm_id = ge_firm_id env,
      cm_trading_system_name = ge_package_name env, cm_trading_system_version = ge_build_version env,
      cm_trading_system_vendor = TRADING_SYSTEM_VENDOR, cm_next_seq_no = next_seq_no,
      cm_keep_alive_interval = KEEP_ALIVE_INTERVAL div 1000000\<rparr>"

definition send_establish :: "'d gateway_env \<Rightarrow> 'd action" where
  "send_establish env s =
     (case get_realtime env s of (now, s) \<Rightarrow>
        let canonical_message = establish_text env now (ses_uuid s) (peek_next_seq_num s)
        in send env (Establish
             \<lparr>es_hmac_signature = create_signature (ge_mac env) canonical_message, es_access_key_id = ge_password env,
              es_trading_system_name = cm_trading_system_name canonical_message,
              es_trading_system_version = cm_trading_system_version canonical_message,
              es_trading_system_vendor = cm_trading_system_vendor canonical_message,
              es_uuid = cm_uuid canonical_message, es_request_timestamp = cm_request_timestamp canonical_message,
              es_next_seq_no = cm_next_seq_no canonical_message, es_session = cm_session canonical_message,
              es_firm = cm_firm_id canonical_message,
              es_keep_alive_interval = cm_keep_alive_interval canonical_message\<rparr>) s)"

definition send_sequence :: "'d gateway_env \<Rightarrow> 'd action" where
  "send_sequence env s =
     send env (Sequence \<lparr>sq_uuid = ses_uuid s, sq_next_seq_no = peek_next_seq_num s,
       sq_fault_tolerance_indicator = ''Primary'', sq_keep_alive_interval_lapsed = ''NotLapsed''\<rparr>) s"

text \<open>Every field is left at its default; the enumerator with the value zero is written \<open>0\<close>.\<close>

definition send_terminate :: "'d gateway_env \<Rightarrow> 'd action" where
  "send_terminate env s =
     send env (Terminate \<lparr>te_reason = [], te_uuid = 0, te_request_timestamp = 0, te_error_codes = 0, te_split_msg = ''0''\<rparr>) s"

subsection \<open>Party details and downloads\<close>

definition MANUAL_ORDER_INDICATOR :: sbe_enum where
  "MANUAL_ORDER_INDICATOR = ''Automated''"

text \<open>The identifier of the party details is a constant, and zero: they go with every request.\<close>

definition party_details_list_req_id :: u64 where
  "party_details_list_req_id = 0"

definition send_party_details_list_request :: "'d gateway_env \<Rightarrow> 'd action" where
  "send_party_details_list_request env s =
     (case get_realtime env s of (now, s) \<Rightarrow>
      case fetch_next_seq_num s of (seq_num, s) \<Rightarrow>
        send env (PartyDetailsListRequest
          \<lparr>pl_party_details_list_req_id = 1, pl_sending_time_epoch = now, pl_seq_num = seq_num\<rparr>) s)"

definition send_party_details_definition_request :: "'d gateway_env \<Rightarrow> 'd action" where
  "send_party_details_definition_request env s =
     (case get_realtime env s of (now, s) \<Rightarrow>
      case fetch_next_seq_num s of (seq_num, s) \<Rightarrow>
        send env (PartyDetailsDefinitionRequest
          \<lparr>pd_party_details_list_req_id = 0, pd_sending_time_epoch = now, pd_list_update_action = ''Add'', pd_seq_num = seq_num,
           pd_memo = [], pd_avg_px_group_id = [], pd_self_match_prevention_id = 0, pd_cmta_giveup_cd = ''GiveUp'',
           pd_cust_order_capacity = ''Membertradingfortheirownaccount'', pd_clearing_account_type = ''Firm'',
           pd_self_match_prevention_instruction = ''CancelNewest'', pd_avg_px_indicator = ''NoAveragePricing'',
           pd_clearing_trade_price_type = ''TradeClearingatExecutionPrice'', pd_cust_order_handling_inst = ''AlgoEngine'',
           pd_executor = 0, pd_idm_short_code = 0,
           pd_no_party_details =
             [\<lparr>party_detail_id = ge_firm_id env, party_detail_role = ''ExecutingFirm''\<rparr>,
              \<lparr>party_detail_id = ge_account env, party_detail_role = ''CustomerAccount''\<rparr>,
              \<lparr>party_detail_id = ge_account env, party_detail_role = ''Operator''\<rparr>]\<rparr>) s)"

text \<open>The guard in front of every request.\<close>

definition ensure_party_details :: "'d gateway_env \<Rightarrow> 'd action" where
  "ensure_party_details env =
     (if party_details_list_req_id = 0 then send_party_details_definition_request env else nothing)"

definition send_security_definition_request :: "'d gateway_env \<Rightarrow> 'd action" where
  "send_security_definition_request env s =
     (case get_realtime env s of (now, s) \<Rightarrow>
      case fetch_next_seq_num s of (seq_num, s) \<Rightarrow>
        send env (SecurityDefinitionRequest
          \<lparr>sd_party_details_list_req_id = party_details_list_req_id, sd_security_req_id = 0,
           sd_manual_order_indicator = MANUAL_ORDER_INDICATOR, sd_seq_num = seq_num, sd_sender_id = ge_account env,
           sd_sending_time_epoch = now, sd_security_sub_type = [], sd_location = ge_location env, sd_start_date = 0,
           sd_end_date = 0, sd_max_no_of_substitutions = 0, sd_source_repo_id = 0, sd_broken_date_term_type = 0\<rparr>) s)"

definition send_order_mass_status_request :: "'d gateway_env \<Rightarrow> 'd action" where
  "send_order_mass_status_request env s =
     (case get_realtime env s of (now, s) \<Rightarrow>
      case fetch_next_request_id s of (request_id, s) \<Rightarrow>
      case fetch_next_seq_num s of (seq_num, s) \<Rightarrow>
        send env (OrderMassStatusRequest
          \<lparr>ms_party_details_list_req_id = party_details_list_req_id, ms_mass_status_req_id = request_id,
           ms_manual_order_indicator = MANUAL_ORDER_INDICATOR, ms_seq_num = seq_num, ms_sender_id = ge_account env,
           ms_sending_time_epoch = now, ms_security_group = [], ms_location = ge_location env, ms_security_id = 0,
           ms_mass_status_req_type = ''MarketSegment'', ms_ord_status_req_type = ''Account'', ms_time_in_force = ''NULL_VALUE'',
           ms_market_segment_id = ge_market_segment_id env\<rparr>) s)"

text \<open>The callback of the download: what is done for a state, and the responses to expect.\<close>

fun download :: "'d gateway_env \<Rightarrow> download_state \<Rightarrow> 'd action" where
  "download env DS_UNDEFINED = throw AssertFailed"
| "download env ORDERS = and_then (ensure_party_details env) (send_order_mass_status_request env)"
| "download env DONE = on_connection_status READY"

fun download_responses :: "download_state \<Rightarrow> int" where
  "download_responses DS_UNDEFINED = 0"
| "download_responses ORDERS = 1"
| "download_responses DONE = 0"

fun run_download :: "'d gateway_env \<Rightarrow> download_state list \<Rightarrow> 'd action" where
  "run_download env [] = nothing"
| "run_download env (x # xs) = and_then (download env x) (run_download env xs)"

definition download_begin :: "'d gateway_env \<Rightarrow> 'd action" where
  "download_begin env s =
     (case dl_begin (ge_download env) download_responses (ses_download s) of (d, visited) \<Rightarrow>
        run_download env visited (s\<lparr>ses_download := d\<rparr>))"

definition download_check_relaxed :: "'d gateway_env \<Rightarrow> download_state \<Rightarrow> 'd action" where
  "download_check_relaxed env x s =
     (case dl_check_relaxed (ge_download env) download_responses x (ses_download s) of (d, visited) \<Rightarrow>
        run_download env visited (s\<lparr>ses_download := d\<rparr>))"

subsection \<open>Requests of clients\<close>

record create_order =
  co_exchange :: string
  co_side :: side
  co_order_type :: order_type
  co_time_in_force :: time_in_force
  co_execution_instructions :: "execution_instruction list"
  co_quantity :: double
  co_price :: double
  co_stop_price :: double

record modify_order =
  mo_quantity :: double
  mo_price :: double

record oms_order =
  ord_user_id :: u8
  ord_order_id :: u64
  ord_symbol :: string
  ord_side :: side
  ord_order_type :: order_type
  ord_time_in_force :: time_in_force
  ord_client_order_id :: string

record cancel_all_orders =
  cao_order_id :: u64
  cao_exchange :: string
  cao_symbol :: string
  cao_side :: side
  cao_strategy_id :: u32

definition new_order_single_of ::
    "'d gateway_env \<Rightarrow> create_order \<Rightarrow> oms_order \<Rightarrow> string \<Rightarrow> int \<Rightarrow> u32 \<Rightarrow> u8 \<Rightarrow> nanoseconds \<Rightarrow> u32 \<Rightarrow> new_order_single" where
  "new_order_single_of env create order request_id security_id order_qty exec_inst now seq_num =
     \<lparr>no_price = co_price create, no_order_qty = order_qty, no_security_id = security_id,
      no_side = map_side_req (co_side create), no_seq_num = seq_num, no_sender_id = ge_account env,
      no_cl_ord_id = request_id, no_party_details_list_req_id = party_details_list_req_id,
      no_order_request_id = encode_order_request_id CREATE_ORDER_TYPE (ord_user_id order) (ord_order_id order),
      no_sending_time_epoch = now, no_stop_px = co_stop_price create, no_location = ge_location env, no_min_qty = 0,
      no_display_qty = 0, no_expire_date = 0, no_ord_type = map_order_type_req (co_order_type create),
      no_time_in_force = map_time_in_force (co_time_in_force create), no_manual_order_indicator = MANUAL_ORDER_INDICATOR,
      no_exec_inst = exec_inst, no_execution_mode = 0, no_liquidity_flag = False, no_managed_order = False,
      no_short_sale_type = ''NULL_VALUE'', no_discretion_price = NaN, no_reservation_price = NaN\<rparr>"

definition send_new_order_single ::
    "'d gateway_env \<Rightarrow> ('p, 'o) security_definitions \<Rightarrow> create_order \<Rightarrow> oms_order \<Rightarrow> string \<Rightarrow> 'd action" where
  "send_new_order_single env defs create order request_id s =
     (case find_security_id (ge_market_segment_id env) (ord_symbol order) defs of
        None \<Rightarrow> (s, Some Rejected_INVALID_SYMBOL)
      | Some security_id \<Rightarrow>
        (case find_security security_id defs of
           None \<Rightarrow> (s, Some Fatal)
         | Some sec \<Rightarrow>
           if co_exchange create \<noteq> exchange sec then (s, Some Rejected_INVALID_EXCHANGE)
           else (case get_quantity (ge_safe_cast_i32 env) (co_quantity create) of
              Inl e \<Rightarrow> (s, Some e)
            | Inr order_qty \<Rightarrow>
              (case map_execution_instructions (co_execution_instructions create) of
                 Inl e \<Rightarrow> (s, Some e)
               | Inr exec_inst \<Rightarrow>
                 and_then (ensure_party_details env) (\<lambda>s.
                   case get_realtime env s of (now, s) \<Rightarrow>
                   case fetch_next_seq_num s of (seq_num, s) \<Rightarrow>
                     send env (NewOrderSingle
                       (new_order_single_of env create order request_id security_id order_qty exec_inst now seq_num)) s) s))))"

definition order_cancel_replace_request_of ::
    "'d gateway_env \<Rightarrow> modify_order \<Rightarrow> oms_order \<Rightarrow> int \<Rightarrow> u32 \<Rightarrow> nanoseconds \<Rightarrow> u32 \<Rightarrow> order_cancel_replace_request" where
  "order_cancel_replace_request_of env modify order security_id order_qty now seq_num =
     \<lparr>cr_price = mo_price modify, cr_order_qty = order_qty, cr_security_id = security_id,
      cr_side = map_side_req (ord_side order), cr_seq_num = seq_num, cr_sender_id = ge_account env,
      cr_cl_ord_id = ord_client_order_id order, cr_party_details_list_req_id = party_details_list_req_id,
      cr_order_id = 0, cr_stop_px = NaN,
      cr_order_request_id = encode_order_request_id (ge_modify_order_type env) (ord_user_id order) (ord_order_id order),
      cr_sending_time_epoch = now, cr_location = ge_location env, cr_min_qty = 0, cr_display_qty = 0, cr_expire_date = 0,
      cr_ord_type = map_order_type_req (ord_order_type order), cr_time_in_force = map_time_in_force (ord_time_in_force order),
      cr_manual_order_indicator = MANUAL_ORDER_INDICATOR, cr_ofm_override = ''Disabled'', cr_exec_inst = 0,
      cr_execution_mode = 0, cr_liquidity_flag = False, cr_managed_order = False, cr_short_sale_type = ''NULL_VALUE'',
      cr_discretion_price = NaN\<rparr>"

definition send_order_cancel_replace_request ::
    "'d gateway_env \<Rightarrow> ('p, 'o) security_definitions \<Rightarrow> modify_order \<Rightarrow> oms_order \<Rightarrow> 'd action" where
  "send_order_cancel_replace_request env defs modify order s =
     (case find_security_id (ge_market_segment_id env) (ord_symbol order) defs of
        None \<Rightarrow> (s, Some Rejected_INVALID_SYMBOL)
      | Some security_id \<Rightarrow>
        (case get_quantity (ge_safe_cast_i32 env) (mo_quantity modify) of
           Inl e \<Rightarrow> (s, Some e)
         | Inr order_qty \<Rightarrow>
           and_then (ensure_party_details env) (\<lambda>s.
             case get_realtime env s of (now, s) \<Rightarrow>
             case fetch_next_seq_num s of (seq_num, s) \<Rightarrow>
               send env (OrderCancelReplaceRequest
                 (order_cancel_replace_request_of env modify order security_id order_qty now seq_num)) s) s))"

definition order_cancel_request_of ::
    "'d gateway_env \<Rightarrow> oms_order \<Rightarrow> int \<Rightarrow> nanoseconds \<Rightarrow> u32 \<Rightarrow> order_cancel_request" where
  "order_cancel_request_of env order security_id now seq_num =
     \<lparr>cc_order_id = 0, cc_party_details_list_req_id = party_details_list_req_id,
      cc_manual_order_indicator = MANUAL_ORDER_INDICATOR, cc_seq_num = seq_num, cc_sender_id = ge_account env,
      cc_cl_ord_id = ord_client_order_id order,
      cc_order_request_id = encode_order_request_id CANCEL_ORDER_TYPE (ord_user_id order) (ord_order_id order),
      cc_sending_time_epoch = now, cc_location = ge_location env, cc_security_id = security_id,
      cc_side = map_side_req (ord_side order), cc_liquidity_flag = False, cc_orig_order_user = []\<rparr>"

definition send_order_cancel_request ::
    "'d gateway_env \<Rightarrow> ('p, 'o) security_definitions \<Rightarrow> oms_order \<Rightarrow> 'd action" where
  "send_order_cancel_request env defs order s =
     (case find_security_id (ge_market_segment_id env) (ord_symbol order) defs of
        None \<Rightarrow> (s, Some Rejected_INVALID_SYMBOL)
      | Some security_id \<Rightarrow>
        and_then (ensure_party_details env) (\<lambda>s.
          case get_realtime env s of (now, s) \<Rightarrow>
          case fetch_next_seq_num s of (seq_num, s) \<Rightarrow>
            send env (OrderCancelRequest (order_cancel_request_of env order security_id now seq_num)) s) s)"

definition send_order_mass_action_request :: "'d gateway_env \<Rightarrow> 'd action" where
  "send_order_mass_action_request env =
     and_then (ensure_party_details env) (\<lambda>s.
       case get_realtime env s of (now, s) \<Rightarrow>
       case fetch_next_request_id s of (request_id, s) \<Rightarrow>
       case fetch_next_seq_num s of (seq_num, s) \<Rightarrow>
         send env (OrderMassActionRequest
           \<lparr>ma_party_details_list_req_id = party_details_list_req_id, ma_order_request_id = request_id,
            ma_manual_order_indicator = MANUAL_ORDER_INDICATOR, ma_seq_num = seq_num, ma_sender_id = ge_account env,
            ma_sending_time_epoch = now, ma_security_group = [], ma_location = ge_location env, ma_security_id = 0,
            ma_mass_action_scope = ''MarketSegmentID'', ma_market_segment_id = ge_market_segment_id env,
            ma_mass_cancel_request_type = ''Account'', ma_side = ''NULL_VALUE'', ma_ord_type = 0, ma_time_in_force = ''NULL_VALUE'',
            ma_liquidity_flag = ''NULL_VALUE'', ma_orig_order_user = []\<rparr>) s)"

text \<open>The entry points, with the guard that the connection is ready.\<close>

definition if_ready :: "'d action \<Rightarrow> 'd action" where
  "if_ready f s = (if \<not> ready s then (s, Some NotReady) else f s)"

definition on_create_order ::
    "'d gateway_env \<Rightarrow> ('p, 'o) security_definitions \<Rightarrow> create_order \<Rightarrow> oms_order \<Rightarrow> string \<Rightarrow> 'd action" where
  "on_create_order env defs create order request_id = if_ready (send_new_order_single env defs create order request_id)"

definition on_modify_order ::
    "'d gateway_env \<Rightarrow> ('p, 'o) security_definitions \<Rightarrow> modify_order \<Rightarrow> oms_order \<Rightarrow> 'd action" where
  "on_modify_order env defs modify order = if_ready (send_order_cancel_replace_request env defs modify order)"

definition on_cancel_order :: "'d gateway_env \<Rightarrow> ('p, 'o) security_definitions \<Rightarrow> oms_order \<Rightarrow> 'd action" where
  "on_cancel_order env defs order = if_ready (send_order_cancel_request env defs order)"

definition on_cancel_all_orders :: "'d gateway_env \<Rightarrow> cancel_all_orders \<Rightarrow> string \<Rightarrow> 'd action" where
  "on_cancel_all_orders env c request_id =
     if_ready (and_then (send_order_mass_action_request env) (emit (CancelAllOrdersAck
       \<lparr>ca_account = ge_account env, ca_order_id = cao_order_id c, ca_exchange = cao_exchange c, ca_symbol = cao_symbol c,
        ca_side = cao_side c, ca_origin = GATEWAY, ca_request_status = FORWARDED, ca_text = [], ca_request_id = request_id,
        ca_strategy_id = cao_strategy_id c\<rparr>)))"

subsection \<open>Connection and timer\<close>

definition on_connected :: "'d gateway_env \<Rightarrow> 'd action" where
  "on_connected env = and_then (send_negotiate env) (on_connection_status LOGIN_SENT)"

definition on_disconnected :: "'d gateway_env \<Rightarrow> 'd action" where
  "on_disconnected env s =
     on_connection_status DISCONNECTED
       (s\<lparr>ses_out_seq_num := 0, ses_in_seq_num := 0, ses_download := dl_reset (ge_download env) (ses_download s),
          ses_next_heartbeat := 0\<rparr>)"

text \<open>\<open>refreshed\<close> is the answer of the connection manager, \<open>now\<close> the time the event was made.\<close>

definition on_session_timer :: "'d gateway_env \<Rightarrow> bool \<Rightarrow> nanoseconds \<Rightarrow> 'd action" where
  "on_session_timer env refreshed now s =
     (if refreshed then
        if ready s then
          if now < ses_next_heartbeat s then send_sequence env s else (s, None)
        else (s, None)
      else (s, None))"

end
