(* ===== verification/OrderReports.thy ===== *)
theory OrderReports
  imports OrderSession
begin

section \<open>Order entry: what the exchange reports\<close>

text \<open>
  The second half of \<^verbatim>\<open>gateway/order_entry.cpp\<close>: the handlers of the messages of the
  exchange, up to the dispatch by message type. The decoded flyweights are records with the
  fields the handlers read; a field that may be null comes with its null value, and a field
  that only some of the message types have is an option.
\<close>

subsection \<open>Messages\<close>

record business_reject =
  br_ref_msg_type :: string
  br_business_reject_ref_id :: "u64 nullable"
  br_text :: string

record fill_entry =
  fe_fill_exec_id :: string
  fe_fill_px :: price
  fe_fill_qty :: int

record execution_report =
  xr_order_id :: "u64 nullable"
  xr_security_id :: "int nullable"
  xr_order_request_id :: u64
  xr_sender_id :: string
  xr_side :: side_req
  xr_ord_type :: ilink_order_type
  xr_time_in_force :: ilink_time_in_force
  xr_transact_time :: "int nullable"
  xr_cl_ord_id :: string
  xr_ord_status :: ord_status_field
  xr_order_qty :: u32
  xr_price :: price
  xr_stop_px :: price
  xr_leaves_qty :: "int nullable option"
  xr_cum_qty :: "int nullable option"
  xr_last_qty :: "int nullable option"
  xr_last_px :: "price option"
  xr_aggressor_indicator :: "boolean_flag option"
  xr_exec_id :: string
  xr_fills :: "fill_entry list"
  xr_text :: string
  xr_last_rpt_requested :: boolean_flag

record order_reject =
  rj_cl_ord_id :: string
  rj_order_request_id :: u64
  rj_text :: string

datatype mass_action_response = MA_Rejected | MA_Accepted | MA_NULL_VALUE

record affected_order =
  ao_orig_cl_ord_id :: string
  ao_affected_order_id :: u64

record mass_action_report =
  mr_mass_action_response :: mass_action_response
  mr_sender_id :: string
  mr_transact_time :: "int nullable"
  mr_affected_orders :: "affected_order list"

datatype ilink_report =
    NegotiationResponse501
  | NegotiationReject502
  | EstablishmentAck504
  | EstablishmentReject505
  | Sequence506
  | Terminate507
  | Retransmission509
  | RetransmitReject510
  | NotApplied513
  | PartyDetailsDefinitionRequestAck519
  | BusinessReject521 business_reject
  | ExecutionReportNew522 execution_report
  | ExecutionReportReject523 order_reject
  | ExecutionReportTradeOutright525 execution_report
  | ExecutionReportTradeSpread526
  | ExecutionReportTradeSpreadLeg527
  | ExecutionReportModify531 execution_report
  | ExecutionReportStatus532 execution_report
  | ExecutionReportCancel534 execution_report
  | ExecutionReportPendingCancel564
  | ExecutionReportPendingReplace565
  | OrderCancelReject535 order_reject
  | OrderCancelReplaceReject536 order_reject
  | OrderMassActionReport562 mass_action_report
  | SecurityDefinitionResponse561

subsection \<open>Reading the fields\<close>

fun ilink_double :: "price \<Rightarrow> double" where
  "ilink_double (PRICE9 v) = dmul (double_of_int (mantissa v)) (pow10 (exponent v))"
| "ilink_double (PRICENULL9 v) = get_double v"

definition get_last_px :: "price option \<Rightarrow> double" where
  "get_last_px f = (case f of None \<Rightarrow> NaN | Some v \<Rightarrow> ilink_double v)"

definition order_update_from_execution_report ::
    "update_type \<Rightarrow> execution_report \<Rightarrow> ('p, 'o) security \<Rightarrow> string \<Rightarrow> order_update" where
  "order_update_from_execution_report update_type value security external_order_id =
     \<lparr>ou_account = xr_sender_id value, ou_exchange = exchange security, ou_symbol = symbol security,
      ou_side = map_side_of_req (xr_side value), ou_order_type = map_ilink_order_type (xr_ord_type value),
      ou_time_in_force = map_ilink_time_in_force (xr_time_in_force value),
      ou_create_time_utc = nv (xr_transact_time value), ou_update_time_utc = nv (xr_transact_time value),
      ou_external_order_id = external_order_id, ou_client_order_id = xr_cl_ord_id value,
      ou_order_status = get_ord_status (xr_ord_status value), ou_quantity = double_of_int (uint (xr_order_qty value)),
      ou_price = ilink_double (xr_price value), ou_stop_price = ilink_double (xr_stop_px value),
      ou_remaining_quantity = get_qty (xr_leaves_qty value), ou_traded_quantity = get_qty (xr_cum_qty value),
      ou_last_traded_quantity = get_qty (xr_last_qty value), ou_last_traded_price = get_last_px (xr_last_px value),
      ou_last_liquidity = get_aggressor_indicator (xr_aggressor_indicator value), ou_update_type = update_type\<rparr>"

subsection \<open>Session\<close>

definition on_negotiation_response :: "'d gateway_env \<Rightarrow> 'd action" where
  "on_negotiation_response env = send_establish env"

definition on_negotiation_reject :: "'d action" where
  "on_negotiation_reject = emit CloseConnection"

definition on_establishment_ack :: "'d gateway_env \<Rightarrow> 'd action" where
  "on_establishment_ack env = and_then (on_connection_status DOWNLOADING) (download_begin env)"

definition on_establishment_reject :: "'d action" where
  "on_establishment_reject = emit CloseConnection"

definition on_terminate :: "'d action" where
  "on_terminate = emit CloseConnection"

subsection \<open>Responses\<close>

definition rejection :: "request_type \<Rightarrow> string \<Rightarrow> string \<Rightarrow> oms_response" where
  "rejection ty text cl_ord_id =
     \<lparr>rsp_request_type = ty, rsp_request_status = RS_REJECTED, rsp_text = text, rsp_external_order_id = [],
      rsp_client_order_id = cl_ord_id, rsp_quantity = NaN, rsp_price = NaN\<rparr>"

definition acceptance :: "request_type \<Rightarrow> order_update \<Rightarrow> oms_response" where
  "acceptance ty u =
     \<lparr>rsp_request_type = ty, rsp_request_status = RS_ACCEPTED, rsp_text = [],
      rsp_external_order_id = ou_external_order_id u, rsp_client_order_id = ou_client_order_id u,
      rsp_quantity = ou_quantity u, rsp_price = ou_price u\<rparr>"

definition on_business_reject :: "business_reject \<Rightarrow> 'd action" where
  "on_business_reject value =
     (if br_ref_msg_type value \<in> {''D'', ''G'', ''F''} then
        (case decode_order_request_id (nv (br_business_reject_ref_id value)) of (ty, user_id, order_id) \<Rightarrow>
           emit (Response (rejection ty (br_text value) []) (Some (user_id, order_id))))
      else nothing)"

text \<open>The frame the execution reports share: an order identifier, and a security that is known.\<close>

definition with_security ::
    "('p, 'o) security_definitions \<Rightarrow> execution_report \<Rightarrow> (('p, 'o) security \<Rightarrow> string \<Rightarrow> 'd action) \<Rightarrow> 'd action" where
  "with_security defs value callback =
     (let order_id = nv (xr_order_id value) in
      if order_id \<noteq> 0 then
        let external_order_id = show_nat (unat order_id) in
        (case find_security (nv (xr_security_id value)) defs of
           Some security \<Rightarrow> callback security external_order_id
         | None \<Rightarrow> nothing)
      else nothing)"

definition on_execution_report_new :: "('p, 'o) security_definitions \<Rightarrow> execution_report \<Rightarrow> 'd action" where
  "on_execution_report_new defs value =
     with_security defs value (\<lambda>security external_order_id.
       case decode_order_request_id (xr_order_request_id value) of (ty, user_id, order_id) \<Rightarrow>
         let order_update = order_update_from_execution_report INCREMENTAL value security external_order_id
         in emit (Response (acceptance ty order_update) (Some (user_id, order_id))))"

definition on_execution_report_reject :: "order_reject \<Rightarrow> 'd action" where
  "on_execution_report_reject value =
     (case decode_order_request_id (rj_order_request_id value) of (ty, user_id, order_id) \<Rightarrow>
        emit (Response (rejection ty (rj_text value) (rj_cl_ord_id value)) (Some (user_id, order_id))))"

definition make_fill :: "execution_report \<Rightarrow> fill_entry \<Rightarrow> fill" where
  "make_fill value item =
     \<lparr>fl_external_trade_id = xr_exec_id value @ fe_fill_exec_id item, fl_quantity = double_of_int (fe_fill_qty item),
      fl_price = ilink_double (fe_fill_px item), fl_liquidity = get_aggressor_indicator (xr_aggressor_indicator value)\<rparr>"

definition on_execution_report_trade_outright ::
    "'d gateway_env \<Rightarrow> ('p, 'o) security_definitions \<Rightarrow> execution_report \<Rightarrow> 'd action" where
  "on_execution_report_trade_outright env defs value =
     with_security defs value (\<lambda>security external_order_id.
       let order_update = order_update_from_execution_report INCREMENTAL value security external_order_id;
           (user_id, order_id, strategy_id) =
             (case ge_find_order env order_update of
                Some x \<Rightarrow> x | None \<Rightarrow> (ge_source_none env, ge_order_id_none env, ge_strategy_id_none env));
           fills = map (make_fill value) (xr_fills value)
       in and_then (emit (OrderUpdate order_update))
            (if fills \<noteq> [] then
               emit (TradeUpdate
                 \<lparr>tu_account = ge_account env, tu_order_id = order_id, tu_exchange = exchange security,
                  tu_symbol = symbol security, tu_side = map_side_of_req (xr_side value),
                  tu_create_time_utc = nv (xr_transact_time value), tu_update_time_utc = nv (xr_transact_time value),
                  tu_external_order_id = external_order_id, tu_client_order_id = ou_client_order_id order_update,
                  tu_fills = fills, tu_update_type = INCREMENTAL, tu_strategy_id = strategy_id\<rparr> user_id)
             else nothing))"

definition on_execution_report_modify :: "('p, 'o) security_definitions \<Rightarrow> execution_report \<Rightarrow> 'd action" where
  "on_execution_report_modify defs value =
     with_security defs value (\<lambda>security external_order_id.
       case decode_order_request_id (xr_order_request_id value) of (ty, user_id, order_id) \<Rightarrow>
         let order_update = order_update_from_execution_report INCREMENTAL value security external_order_id
         in emit (ResponseUpdate (acceptance ty order_update) order_update))"

definition on_execution_report_status ::
    "'d gateway_env \<Rightarrow> ('p, 'o) security_definitions \<Rightarrow> execution_report \<Rightarrow> 'd action" where
  "on_execution_report_status env defs value =
     and_then
       (with_security defs value (\<lambda>security external_order_id.
          emit (OrderUpdate (order_update_from_execution_report SNAPSHOT value security external_order_id))))
       (if xr_last_rpt_requested value = BF_True then download_check_relaxed env ORDERS else nothing)"

definition on_execution_report_cancel :: "('p, 'o) security_definitions \<Rightarrow> execution_report \<Rightarrow> 'd action" where
  "on_execution_report_cancel defs value =
     with_security defs value (\<lambda>security external_order_id.
       let order_update = order_update_from_execution_report INCREMENTAL value security external_order_id
       in emit (ResponseUpdate (acceptance CANCEL_ORDER_TYPE order_update) order_update))"

text \<open>The two rejects decode the identifier, but dispatch the response without user and order.\<close>

definition on_order_cancel_reject :: "order_reject \<Rightarrow> 'd action" where
  "on_order_cancel_reject value =
     (case decode_order_request_id (rj_order_request_id value) of (ty, user_id, order_id) \<Rightarrow>
        emit (Response (rejection ty (rj_text value) (rj_cl_ord_id value)) None))"

definition on_order_cancel_replace_reject :: "order_reject \<Rightarrow> 'd action" where
  "on_order_cancel_replace_reject value =
     (case decode_order_request_id (rj_order_request_id value) of (ty, user_id, order_id) \<Rightarrow>
        emit (Response (rejection ty (rj_text value) (rj_cl_ord_id value)) None))"

subsection \<open>Mass action\<close>

definition mass_action_ack :: "'d gateway_env \<Rightarrow> request_status \<Rightarrow> string \<Rightarrow> oe_effect" where
  "mass_action_ack env status text =
     CancelAllOrdersAck
       \<lparr>ca_account = ge_account env, ca_order_id = 0, ca_exchange = [], ca_symbol = [], ca_side = Side_UNDEFINED,
        ca_origin = EXCHANGE, ca_request_status = status, ca_text = text, ca_request_id = [], ca_strategy_id = 0\<rparr>"

definition canceled_update :: "mass_action_report \<Rightarrow> affected_order \<Rightarrow> order_update" where
  "canceled_update value item =
     \<lparr>ou_account = mr_sender_id value, ou_exchange = [], ou_symbol = [], ou_side = Side_UNDEFINED,
      ou_order_type = OT_UNDEFINED, ou_time_in_force = TIF_UNDEFINED, ou_create_time_utc = 0,
      ou_update_time_utc = nv (mr_transact_time value), ou_external_order_id = show_nat (unat (ao_affected_order_id item)),
      ou_client_order_id = ao_orig_cl_ord_id item, ou_order_status = CANCELED, ou_quantity = Fin 0, ou_price = NaN,
      ou_stop_price = NaN, ou_remaining_quantity = NaN, ou_traded_quantity = NaN, ou_last_traded_quantity = NaN,
      ou_last_traded_price = NaN, ou_last_liquidity = LQ_UNDEFINED, ou_update_type = INCREMENTAL\<rparr>"

fun emit_all :: "oe_effect list \<Rightarrow> 'd action" where
  "emit_all [] = nothing"
| "emit_all (e # es) = and_then (emit e) (emit_all es)"

definition on_order_mass_action_report :: "'d gateway_env \<Rightarrow> mass_action_report \<Rightarrow> 'd action" where
  "on_order_mass_action_report env value =
     (case mr_mass_action_response value of
        MA_Rejected \<Rightarrow> emit (mass_action_ack env RS_REJECTED ''unknown'')
      | MA_Accepted \<Rightarrow>
          and_then (emit_all (map (\<lambda>item. OrderUpdate (canceled_update value item)) (mr_affected_orders value)))
            (emit (mass_action_ack env RS_ACCEPTED []))
      | MA_NULL_VALUE \<Rightarrow> nothing)"

subsection \<open>Dispatch\<close>

fun on_report :: "'d gateway_env \<Rightarrow> ('p, 'o) security_definitions \<Rightarrow> ilink_report \<Rightarrow> 'd action" where
  "on_report env defs NegotiationResponse501 = on_negotiation_response env"
| "on_report env defs NegotiationReject502 = on_negotiation_reject"
| "on_report env defs EstablishmentAck504 = on_establishment_ack env"
| "on_report env defs EstablishmentReject505 = on_establishment_reject"
| "on_report env defs Sequence506 = nothing"
| "on_report env defs Terminate507 = on_terminate"
| "on_report env defs Retransmission509 = nothing"
| "on_report env defs RetransmitReject510 = nothing"
| "on_report env defs NotApplied513 = nothing"
| "on_report env defs PartyDetailsDefinitionRequestAck519 = nothing"
| "on_report env defs (BusinessReject521 v) = on_business_reject v"
| "on_report env defs (ExecutionReportNew522 v) = on_execution_report_new defs v"
| "on_report env defs (ExecutionReportReject523 v) = on_execution_report_reject v"
| "on_report env defs (ExecutionReportTradeOutright525 v) = on_execution_report_trade_outright env defs v"
| "on_report env defs ExecutionReportTradeSpread526 = nothing"
| "on_report env defs ExecutionReportTradeSpreadLeg527 = nothing"
| "on_report env defs (ExecutionReportModify531 v) = on_execution_report_modify defs v"
| "on_report env defs (ExecutionReportStatus532 v) = on_execution_report_status env defs v"
| "on_report env defs (ExecutionReportCancel534 v) = on_execution_report_cancel defs v"
| "on_report env defs ExecutionReportPendingCancel564 = nothing"
| "on_report env defs ExecutionReportPendingReplace565 = nothing"
| "on_report env defs (OrderCancelReject535 v) = on_order_cancel_reject v"
| "on_report env defs (OrderCancelReplaceReject536 v) = on_order_cancel_replace_reject v"
| "on_report env defs (OrderMassActionReport562 v) = on_order_mass_action_report env v"
| "on_report env defs SecurityDefinitionResponse561 = nothing"

end
