(* ===== verification/OrderEntry.thy ===== *)
theory OrderEntry
  imports OrderReports
begin

section \<open>Order entry: the connection as a state machine\<close>

text \<open>
  The handlers of the two previous theories as the steps of a state machine, driven by what
  clients, the network and the clock do, and what holds in every state it reaches. The
  contract the senders share is a locale, interpreted twice: for the invariant of the
  sequence numbers, and for "the status and the download stay as they are".
\<close>

subsection \<open>Actions that keep an invariant\<close>

definition keeps :: "('d order_entry \<Rightarrow> bool) \<Rightarrow> 'd action \<Rightarrow> bool" where
  "keeps I f \<longleftrightarrow> (\<forall>s s'. I s \<longrightarrow> f s = (s', None) \<longrightarrow> I s')"

lemma keepsI: "(\<And>s s'. I s \<Longrightarrow> f s = (s', None) \<Longrightarrow> I s') \<Longrightarrow> keeps I f"
  by (simp add: keeps_def)

lemma keepsD: "keeps I f \<Longrightarrow> I s \<Longrightarrow> f s = (s', None) \<Longrightarrow> I s'"
  unfolding keeps_def by blast

lemma and_then_None:
  assumes "and_then f g s = (s', None)"
  obtains t where "f s = (t, None)" and "g t = (s', None)"
  using assms by (auto simp: and_then_def split: prod.splits option.splits)

lemma keeps_and_then [wf_intros]: "keeps I f \<Longrightarrow> keeps I g \<Longrightarrow> keeps I (and_then f g)"
  by (rule keepsI, erule and_then_None) (auto dest: keepsD)

lemma keeps_nothing [wf_intros]: "keeps I nothing"
  by (simp add: keeps_def nothing_def)

lemma keeps_throw [wf_intros]: "keeps I (throw e)"
  by (simp add: keeps_def throw_def)

lemma keeps_if [wf_intros]: "(b \<Longrightarrow> keeps I f) \<Longrightarrow> (\<not> b \<Longrightarrow> keeps I g) \<Longrightarrow> keeps I (if b then f else g)"
  by simp

lemma keeps_if_ready [wf_intros]: "keeps I f \<Longrightarrow> keeps I (if_ready f)"
  by (auto simp: keeps_def if_ready_def split: if_splits)

text \<open>What sending a message does when it does not throw.\<close>

lemma send_cases:
  assumes "send env m s = (s', None)"
  obtains e where "s' = s\<lparr>ses_effects := ses_effects s @ [e], ses_next_heartbeat := ses_next_heartbeat s', ses_ticks := ses_ticks s'\<rparr>"
    and "e = NotSent m \<or> (\<exists>frame. e = Transmit m frame)"
  using assms
  by (auto simp: send_def and_then_def emit_def update_heartbeat_def Let_def split: sum.splits option.splits if_splits)

lemma send_fields:
  assumes "send env m s = (s', None)"
  shows "ses_connection_status s' = ses_connection_status s" and "ses_download s' = ses_download s"
    and "ses_out_seq_num s' = ses_out_seq_num s" and "ses_uuid s' = ses_uuid s" and "ses_request_id s' = ses_request_id s"
  using assms
  by (auto simp: send_def and_then_def emit_def update_heartbeat_def Let_def split: sum.splits option.splits if_splits)

subsection \<open>The contract of the senders\<close>

text \<open>An effect that is neither a message nor a change of the status.\<close>

fun plain :: "oe_effect \<Rightarrow> bool" where
  "plain (Transmit m f) = False"
| "plain (NotSent m) = False"
| "plain (StreamStatus c) = False"
| "plain e = True"

locale session_contract =
  fixes env :: "'d gateway_env"
    and I :: "'d order_entry \<Rightarrow> bool"
  assumes I_ticks: "I s \<Longrightarrow> I (s\<lparr>ses_ticks := t\<rparr>)"
    and I_uuid: "I s \<Longrightarrow> I (s\<lparr>ses_uuid := u\<rparr>)"
    and I_request_id: "I s \<Longrightarrow> I (s\<lparr>ses_request_id := r\<rparr>)"
    and I_emit: "I s \<Longrightarrow> plain e \<Longrightarrow> I (s\<lparr>ses_effects := ses_effects s @ [e]\<rparr>)"
    and I_send: "I s \<Longrightarrow> seq_num_of m = None \<Longrightarrow> send env m s = (s', None) \<Longrightarrow> I s'"
    and I_send_numbered: "I s \<Longrightarrow> seq_num_of m = Some (peek_next_seq_num s) \<Longrightarrow>
      send env m (s\<lparr>ses_out_seq_num := peek_next_seq_num s\<rparr>) = (s', None) \<Longrightarrow> I s'"
begin

lemma keeps_emit [wf_intros]: "plain e \<Longrightarrow> keeps I (emit e)"
  by (auto simp: keeps_def emit_def intro: I_emit)

lemma keeps_emit_all [wf_intros]: "(\<And>e. e \<in> set es \<Longrightarrow> plain e) \<Longrightarrow> keeps I (emit_all es)"
  by (induction es) (auto intro!: wf_intros keeps_emit)

lemma numbered_step:
  "send env m (s\<lparr>ses_out_seq_num := peek_next_seq_num s\<rparr>) = (s', None) \<Longrightarrow> seq_num_of m = Some (peek_next_seq_num s) \<Longrightarrow> I s \<Longrightarrow> I s'"
  by (rule I_send_numbered)

lemmas sender_defs = get_realtime_def fetch_next_seq_num_def fetch_next_request_id_def Let_def

lemma keeps_send_party_details: "keeps I (send_party_details_definition_request env)"
  by (rule keepsI, simp add: send_party_details_definition_request_def sender_defs, erule numbered_step) (simp_all add: I_ticks)

lemma keeps_ensure [wf_intros]: "keeps I (ensure_party_details env)"
  unfolding ensure_party_details_def by (intro wf_intros keeps_send_party_details)

lemma keeps_mass_status [wf_intros]: "keeps I (send_order_mass_status_request env)"
  by (rule keepsI, simp add: send_order_mass_status_request_def sender_defs, erule numbered_step)
    (simp_all add: I_ticks I_request_id)

lemma keeps_plain_send:
  "seq_num_of m = None \<Longrightarrow> keeps I (send env m)"
  by (rule keepsI) (rule I_send)

lemma keeps_negotiate [wf_intros]: "keeps I (send_negotiate env)"
  by (rule keepsI, simp add: send_negotiate_def sender_defs, erule I_send [rotated 2]) (simp_all add: I_ticks I_uuid)

lemma keeps_establish [wf_intros]: "keeps I (send_establish env)"
  by (rule keepsI, simp add: send_establish_def sender_defs, erule I_send [rotated 2]) (simp_all add: I_ticks)

lemma keeps_sequence [wf_intros]: "keeps I (send_sequence env)"
  by (rule keepsI, simp add: send_sequence_def, erule I_send [rotated 2]) simp_all

lemma keeps_timer [wf_intros]: "keeps I (on_session_timer env refreshed now)"
  using keepsD [OF keeps_sequence] by (auto intro!: keepsI simp: on_session_timer_def split: if_splits)

lemma keeps_mass_action [wf_intros]: "keeps I (send_order_mass_action_request env)"
proof -
  have "keeps I (\<lambda>s. case get_realtime env s of (now, s) \<Rightarrow>
       case fetch_next_request_id s of (request_id, s) \<Rightarrow>
       case fetch_next_seq_num s of (seq_num, s) \<Rightarrow> send env (OrderMassActionRequest (f request_id now seq_num)) s)"
    if "\<And>r n q. ma_seq_num (f r n q) = q" for f
    by (rule keepsI, simp add: sender_defs, erule numbered_step) (simp_all add: that I_ticks I_request_id)
  then show ?thesis
    unfolding send_order_mass_action_request_def by (intro wf_intros) simp_all
qed

text \<open>A request that is sent once the checks have passed.\<close>

lemma keeps_request:
  assumes "\<And>now q. seq_num_of (m now q) = Some q"
  shows "keeps I (and_then (ensure_party_details env) (\<lambda>s.
     case get_realtime env s of (now, s) \<Rightarrow> case fetch_next_seq_num s of (seq_num, s) \<Rightarrow> send env (m now seq_num) s))"
proof (intro wf_intros)
  show "keeps I (\<lambda>s. case get_realtime env s of (now, s) \<Rightarrow> case fetch_next_seq_num s of (seq_num, s) \<Rightarrow> send env (m now seq_num) s)"
    by (rule keepsI, simp add: sender_defs, erule numbered_step) (simp_all add: assms I_ticks)
qed

lemma keeps_new_order [wf_intros]: "keeps I (send_new_order_single env defs create order request_id)"
proof (rule keepsI)
  fix s s' assume "I s" and "send_new_order_single env defs create order request_id s = (s', None)"
  then show "I s'"
    by (auto simp: send_new_order_single_def split: option.splits if_splits sum.splits
        elim!: keepsD [OF keeps_request, rotated] simp: new_order_single_of_def)
qed

lemma keeps_replace [wf_intros]: "keeps I (send_order_cancel_replace_request env defs modify order)"
proof (rule keepsI)
  fix s s' assume "I s" and "send_order_cancel_replace_request env defs modify order s = (s', None)"
  then show "I s'"
    by (auto simp: send_order_cancel_replace_request_def split: option.splits sum.splits
        elim!: keepsD [OF keeps_request, rotated] simp: order_cancel_replace_request_of_def)
qed

lemma keeps_cancel [wf_intros]: "keeps I (send_order_cancel_request env defs order)"
proof (rule keepsI)
  fix s s' assume "I s" and "send_order_cancel_request env defs order s = (s', None)"
  then show "I s'"
    by (auto simp: send_order_cancel_request_def split: option.splits
        elim!: keepsD [OF keeps_request, rotated] simp: order_cancel_request_of_def)
qed

end

lemma keeps_with_security [wf_intros]: "(\<And>x y. keeps I (f x y)) \<Longrightarrow> keeps I (with_security defs v f)"
  by (auto simp: with_security_def Let_def keeps_nothing split: option.split)

subsection \<open>Reports that leave the status alone\<close>

fun moves_download :: "ilink_report \<Rightarrow> bool" where
  "moves_download EstablishmentAck504 = True"
| "moves_download (ExecutionReportStatus532 v) = (xr_last_rpt_requested v = BF_True)"
| "moves_download r = False"

context session_contract
begin

lemma keeps_business_reject [wf_intros]: "keeps I (on_business_reject v)"
  by (auto simp: on_business_reject_def split: prod.split intro!: wf_intros keeps_emit)

lemma keeps_responses [wf_intros]:
  "keeps I (on_execution_report_reject r)" "keeps I (on_order_cancel_reject r)" "keeps I (on_order_cancel_replace_reject r)"
  by (auto simp: on_execution_report_reject_def on_order_cancel_reject_def on_order_cancel_replace_reject_def
      split: prod.split intro!: keeps_emit)

lemma keeps_reports [wf_intros]:
  "keeps I (on_execution_report_new defs v)" "keeps I (on_execution_report_modify defs v)" "keeps I (on_execution_report_cancel defs v)"
  by (auto simp: on_execution_report_new_def on_execution_report_modify_def on_execution_report_cancel_def Let_def
      split: prod.split intro!: keeps_with_security keeps_emit)

lemma keeps_trade [wf_intros]: "keeps I (on_execution_report_trade_outright env defs v)"
  by (auto simp: on_execution_report_trade_outright_def Let_def split: prod.split
      intro!: keeps_with_security keeps_and_then keeps_emit keeps_nothing)

lemma keeps_mass_action_report [wf_intros]: "keeps I (on_order_mass_action_report env v)"
  by (auto simp: on_order_mass_action_report_def mass_action_ack_def split: mass_action_response.split
      intro!: keeps_and_then keeps_emit keeps_emit_all keeps_nothing)

lemma keeps_report:
  "\<not> moves_download r \<Longrightarrow> keeps I (on_report env defs r)"
  by (cases r)
    (auto simp: on_negotiation_response_def on_negotiation_reject_def on_establishment_reject_def on_terminate_def
      on_execution_report_status_def intro!: keeps_emit wf_intros keeps_with_security keeps_establish
      keeps_business_reject keeps_responses keeps_reports keeps_trade keeps_mass_action_report)

end

text \<open>With the status and the download: the reports and the connection.\<close>

locale status_contract = session_contract +
  assumes I_status: "I s \<Longrightarrow> c \<noteq> DISCONNECTED \<Longrightarrow> I (s\<lparr>ses_connection_status := c, ses_effects := ses_effects s @ [StreamStatus c]\<rparr>)"
    and I_download: "I s \<Longrightarrow> I (s\<lparr>ses_download := d\<rparr>)"
begin

lemma keeps_status [wf_intros]: "c \<noteq> DISCONNECTED \<Longrightarrow> keeps I (on_connection_status c)"
  by (auto simp: keeps_def on_connection_status_def emit_def intro: I_status)

lemma keeps_download [wf_intros]: "keeps I (download env x)"
  by (cases x) (auto intro!: wf_intros keeps_ensure keeps_mass_status keeps_status)

lemma keeps_run_download [wf_intros]: "keeps I (run_download env xs)"
  by (induction xs) (auto intro!: wf_intros keeps_download)

lemma keeps_download_begin: "keeps I (download_begin env)"
  by (rule keepsI)
    (auto simp: download_begin_def split: prod.splits elim!: keepsD [OF keeps_run_download, rotated] intro: I_download)

lemma keeps_check_relaxed: "keeps I (download_check_relaxed env x)"
  by (rule keepsI)
    (auto simp: download_check_relaxed_def split: prod.splits elim!: keepsD [OF keeps_run_download, rotated] intro: I_download)

lemma keeps_any_report: "keeps I (on_report env defs r)"
proof (cases "moves_download r")
  case True
  then show ?thesis
    by (cases r)
      (auto simp: on_establishment_ack_def on_execution_report_status_def
        intro!: keeps_and_then keeps_status keeps_download_begin keeps_check_relaxed keeps_with_security keeps_emit)
next
  case False
  then show ?thesis by (rule keeps_report)
qed

lemma keeps_connected: "keeps I (on_connected env)"
  unfolding on_connected_def by (intro keeps_and_then keeps_negotiate keeps_status) simp

end

subsection \<open>The state machine\<close>

datatype oe_input =
    InCreateOrder create_order oms_order string
  | InModifyOrder modify_order oms_order
  | InCancelOrder oms_order
  | InCancelAllOrders cancel_all_orders string
  | InConnected
  | InDisconnected
  | InTimer bool nanoseconds
  | InReport ilink_report

fun oe_action :: "'d gateway_env \<Rightarrow> ('p, 'o) security_definitions \<Rightarrow> oe_input \<Rightarrow> 'd action" where
  "oe_action env defs (InCreateOrder c r i) = on_create_order env defs c r i"
| "oe_action env defs (InModifyOrder m r) = on_modify_order env defs m r"
| "oe_action env defs (InCancelOrder r) = on_cancel_order env defs r"
| "oe_action env defs (InCancelAllOrders c i) = on_cancel_all_orders env c i"
| "oe_action env defs InConnected = on_connected env"
| "oe_action env defs InDisconnected = on_disconnected env"
| "oe_action env defs (InTimer b now) = on_session_timer env b now"
| "oe_action env defs (InReport r) = on_report env defs r"

text \<open>
  The exceptions a request of a client may end in without anything having happened; after
  them the gateway goes on. Any other exception ends the run.
\<close>

fun refusal :: "exn \<Rightarrow> bool" where
  "refusal NotReady = True"
| "refusal Rejected_INVALID_EXCHANGE = True"
| "refusal Rejected_INVALID_SYMBOL = True"
| "refusal Rejected_INVALID_EXECUTION_INSTRUCTION = True"
| "refusal e = False"

inductive oe_run :: "'d gateway_env \<Rightarrow> ('p, 'o) security_definitions \<Rightarrow> 'd \<Rightarrow> oe_input list \<Rightarrow> 'd order_entry \<Rightarrow> bool"
  for env defs d where
  oe_start: "oe_run env defs d [] (initial_order_entry d)"
| oe_step: "oe_run env defs d h s \<Longrightarrow> oe_action env defs x s = (s', None) \<Longrightarrow> oe_run env defs d (h @ [x]) s'"
| oe_refuse: "oe_run env defs d h s \<Longrightarrow> oe_action env defs x s = (s', Some e) \<Longrightarrow> refusal e \<Longrightarrow> oe_run env defs d (h @ [x]) s'"

text \<open>The checked conversions fail with an exception of their own.\<close>

definition casts_fail_hard :: "'d gateway_env \<Rightarrow> bool" where
  "casts_fail_hard env \<longleftrightarrow>
     (\<forall>n e. ge_safe_cast_u16 env n = Inl e \<longrightarrow> \<not> refusal e) \<and> (\<forall>v e. ge_safe_cast_i32 env v = Inl e \<longrightarrow> \<not> refusal e)"

definition fails_hard :: "'d action \<Rightarrow> bool" where
  "fails_hard f \<longleftrightarrow> (\<forall>s s' e. f s = (s', Some e) \<longrightarrow> \<not> refusal e)"

lemma fails_hardD: "fails_hard f \<Longrightarrow> f s = (s', Some e) \<Longrightarrow> \<not> refusal e"
  by (auto simp: fails_hard_def)

lemma fails_hard_and_then [wf_intros]: "fails_hard f \<Longrightarrow> fails_hard g \<Longrightarrow> fails_hard (and_then f g)"
  unfolding fails_hard_def and_then_def by (auto split: prod.splits option.splits)

lemma fails_hard_simps [wf_intros]:
  "fails_hard nothing" "fails_hard (emit e)" "fails_hard (on_connection_status c)" "fails_hard (throw AssertFailed)"
  by (simp_all add: fails_hard_def nothing_def emit_def on_connection_status_def throw_def)

lemma encode_ilink_fails: "encode_ilink n m = Inl e \<Longrightarrow> \<not> refusal e"
  by (cases m) (auto simp: encode_defs with_price_def set_price_def split: sum.splits if_splits option.splits)

lemma fails_hard_send:
  assumes "casts_fail_hard env"
  shows "fails_hard (send env m)"
  using assms encode_ilink_fails
  by (auto simp: fails_hard_def send_def casts_fail_hard_def Let_def and_then_def emit_def update_heartbeat_def
      split: sum.splits option.splits if_splits)

lemma fails_hard_senders:
  assumes "casts_fail_hard env"
  shows "fails_hard (send_negotiate env)" "fails_hard (send_establish env)" "fails_hard (send_sequence env)"
    "fails_hard (send_party_details_definition_request env)" "fails_hard (send_order_mass_status_request env)"
  unfolding fails_hard_def
  by (auto simp: send_negotiate_def send_establish_def send_sequence_def send_party_details_definition_request_def
      send_order_mass_status_request_def get_realtime_def fetch_next_seq_num_def fetch_next_request_id_def Let_def
      dest!: fails_hardD [OF fails_hard_send [OF assms]])

lemma fails_hard_with_security: "(\<And>x y. fails_hard (f x y)) \<Longrightarrow> fails_hard (with_security defs v f)"
  by (auto simp: with_security_def Let_def fails_hard_simps split: option.split)

lemma fails_hard_emit_all: "fails_hard (emit_all es)"
  by (induction es) (auto intro!: wf_intros)

lemma fails_hard_ensure: "casts_fail_hard env \<Longrightarrow> fails_hard (ensure_party_details env)"
  by (simp add: ensure_party_details_def fails_hard_senders fails_hard_simps)

lemma fails_hard_download: "casts_fail_hard env \<Longrightarrow> fails_hard (run_download env xs)"
proof (induction xs)
  case Nil
  then show ?case by (simp add: fails_hard_simps)
next
  case (Cons x xs)
  then show ?case
    by (cases x) (auto intro!: fails_hard_and_then fails_hard_simps fails_hard_ensure fails_hard_senders)
qed

lemma fails_hard_downloads:
  assumes "casts_fail_hard env"
  shows "fails_hard (download_begin env)" "fails_hard (download_check_relaxed env x)"
  unfolding fails_hard_def
  by (auto simp: download_begin_def download_check_relaxed_def split: prod.splits
      dest!: fails_hardD [OF fails_hard_download [OF assms]])

lemma fails_hard_report:
  assumes "casts_fail_hard env"
  shows "fails_hard (on_report env defs r)"
  by (cases r)
    (auto simp: on_negotiation_response_def on_negotiation_reject_def on_establishment_ack_def on_establishment_reject_def
      on_terminate_def on_business_reject_def on_execution_report_new_def on_execution_report_reject_def
      on_execution_report_trade_outright_def on_execution_report_modify_def on_execution_report_status_def
      on_execution_report_cancel_def on_order_cancel_reject_def on_order_cancel_replace_reject_def
      on_order_mass_action_report_def Let_def split: prod.split mass_action_response.split
      intro!: fails_hard_and_then fails_hard_simps fails_hard_senders [OF assms] fails_hard_downloads [OF assms]
      fails_hard_with_security fails_hard_emit_all)

lemma get_quantity_fails:
  assumes "casts_fail_hard env" and "get_quantity (ge_safe_cast_i32 env) v = Inl e"
  shows "\<not> refusal e"
  using assms by (auto simp: get_quantity_def casts_fail_hard_def split: sum.splits if_splits option.splits)

lemma fails_hard_request:
  assumes "casts_fail_hard env"
  shows "fails_hard (and_then (ensure_party_details env) (\<lambda>s.
     case get_realtime env s of (now, s) \<Rightarrow> case fetch_next_seq_num s of (seq_num, s) \<Rightarrow> send env (m now seq_num) s))"
proof (intro fails_hard_and_then fails_hard_ensure [OF assms])
  show "fails_hard (\<lambda>s. case get_realtime env s of (now, s) \<Rightarrow> case fetch_next_seq_num s of (seq_num, s) \<Rightarrow> send env (m now seq_num) s)"
    unfolding fails_hard_def
    by (auto simp: get_realtime_def fetch_next_seq_num_def Let_def dest!: fails_hardD [OF fails_hard_send [OF assms]])
qed

lemma fails_hard_mass_action:
  assumes "casts_fail_hard env"
  shows "fails_hard (send_order_mass_action_request env)"
  unfolding send_order_mass_action_request_def
proof (intro fails_hard_and_then fails_hard_ensure [OF assms])
  show "fails_hard (\<lambda>s. case get_realtime env s of (now, s) \<Rightarrow> case fetch_next_request_id s of (r, s) \<Rightarrow>
      case fetch_next_seq_num s of (q, s) \<Rightarrow> send env (OrderMassActionRequest (f r now q)) s)" for f
    unfolding fails_hard_def
    by (auto simp: get_realtime_def fetch_next_seq_num_def fetch_next_request_id_def Let_def
        dest!: fails_hardD [OF fails_hard_send [OF assms]])
qed

lemma refused_requests:
  assumes "casts_fail_hard env" and "refusal e"
  shows "send_new_order_single env defs create order i s = (s', Some e) \<Longrightarrow> s' = s"
    and "send_order_cancel_replace_request env defs modify order s = (s', Some e) \<Longrightarrow> s' = s"
    and "send_order_cancel_request env defs order s = (s', Some e) \<Longrightarrow> s' = s"
  using assms(2)
  by (auto simp: send_new_order_single_def send_order_cancel_replace_request_def send_order_cancel_request_def
      split: option.splits if_splits sum.splits dest!: fails_hardD [OF fails_hard_request [OF assms(1)]])

lemma refused_unchanged':
  assumes "casts_fail_hard env" and "oe_action env defs x s = (s', Some e)" and "refusal e"
  shows "s' = s"
proof (cases x)
  case (InCancelAllOrders c i)
  have "fails_hard (and_then (send_order_mass_action_request env) (emit a))" for a
    by (intro wf_intros fails_hard_mass_action [OF assms(1)])
  with assms(2,3) InCancelAllOrders show ?thesis
    by (auto simp: on_cancel_all_orders_def if_ready_def split: if_splits dest: fails_hardD)
next
  case InConnected
  have "fails_hard (on_connected env)"
    unfolding on_connected_def by (intro wf_intros fails_hard_senders [OF assms(1)])
  with assms(2,3) InConnected show ?thesis by (auto dest: fails_hardD)
next
  case InDisconnected
  with assms(2) show ?thesis by (simp add: on_disconnected_def on_connection_status_def emit_def)
next
  case (InTimer b now)
  with assms(2,3) show ?thesis
    by (auto simp: on_session_timer_def split: if_splits dest!: fails_hardD [OF fails_hard_senders(3) [OF assms(1)]])
next
  case (InReport r)
  with assms(2,3) show ?thesis by (auto dest!: fails_hardD [OF fails_hard_report [OF assms(1)]])
qed (use assms(2) in \<open>auto simp: on_create_order_def on_modify_order_def on_cancel_order_def if_ready_def split: if_splits
    dest!: refused_requests [OF assms(1,3)]\<close>)

end
