(* ===== verification/OrderInvariants.thy ===== *)
theory OrderInvariants
  imports OrderEntry
begin

section \<open>Order entry: what holds in every state\<close>

text \<open>
  The invariants of the order entry connection: the numbers of the outbound messages, and
  when the connection becomes ready. Both are rule inductions over the runs of the state
  machine; the cases of the single handlers come from the contract of the senders.
\<close>

subsection \<open>Outbound sequence numbers\<close>

fun effect_num :: "oe_effect \<Rightarrow> u32 list" where
  "effect_num (Transmit m f) = (case seq_num_of m of None \<Rightarrow> [] | Some n \<Rightarrow> [n])"
| "effect_num (NotSent m) = (case seq_num_of m of None \<Rightarrow> [] | Some n \<Rightarrow> [n])"
| "effect_num e = []"

text \<open>The numbers used since the connection was last lost.\<close>

definition add_num :: "u32 list \<Rightarrow> oe_effect \<Rightarrow> u32 list" where
  "add_num ns e = (if e = StreamStatus DISCONNECTED then [] else ns @ effect_num e)"

definition session_nums :: "oe_effect list \<Rightarrow> u32 list" where
  "session_nums es = foldl add_num [] es"

text \<open>The number of the message at position \<open>n\<close> of a session, counted from one.\<close>

definition seq_at :: "nat \<Rightarrow> u32" where
  "seq_at n = word_of_nat (n mod MAX_SEQ_NUM)"

definition seq_inv :: "'d order_entry \<Rightarrow> bool" where
  "seq_inv s \<longleftrightarrow>
     (let ns = session_nums (ses_effects s) in ns = map seq_at [1..<Suc (length ns)] \<and> ses_out_seq_num s = seq_at (length ns))"

lemma session_nums_snoc [simp]: "session_nums (es @ [e]) = add_num (session_nums es) e"
  by (simp add: session_nums_def)

lemma unat_seq_at: "unat (seq_at n) = n mod MAX_SEQ_NUM"
proof -
  have "n mod MAX_SEQ_NUM < 2 ^ 32" by (rule less_trans [of _ MAX_SEQ_NUM]) (simp_all add: MAX_SEQ_NUM_def)
  then show ?thesis by (simp add: seq_at_def unat_of_nat)
qed

lemma peek_seq_at:
  assumes "ses_out_seq_num s = seq_at n"
  shows "peek_next_seq_num s = seq_at (Suc n)"
proof -
  have "n mod MAX_SEQ_NUM < MAX_SEQ_NUM" by (simp add: MAX_SEQ_NUM_def)
  then have "unat (seq_at n + 1) = n mod MAX_SEQ_NUM + 1"
    by (simp add: unat_word_ariths unat_seq_at MAX_SEQ_NUM_def)
  then have "unat (seq_at n + 1) mod MAX_SEQ_NUM = Suc n mod MAX_SEQ_NUM" by (simp add: mod_Suc_eq)
  with assms show ?thesis by (simp add: peek_next_seq_num_def seq_at_def [of "Suc n"])
qed

lemma peek_update [simp]:
  "peek_next_seq_num (s\<lparr>ses_ticks := t\<rparr>) = peek_next_seq_num s"
  by (simp add: peek_next_seq_num_def)

text \<open>The messages of a session are numbered by their position when the next one is.\<close>

lemma seq_inv_snoc:
  assumes "seq_inv s" and "effect_num e = [peek_next_seq_num s]" and "e \<noteq> StreamStatus DISCONNECTED"
    and "ses_effects s' = ses_effects s @ [e]" and "ses_out_seq_num s' = peek_next_seq_num s"
  shows "seq_inv s'"
proof -
  let ?ns = "session_nums (ses_effects s)"
  have ns: "?ns = map seq_at [1..<Suc (length ?ns)]" "ses_out_seq_num s = seq_at (length ?ns)"
    using assms(1) by (simp_all add: seq_inv_def Let_def)
  have p: "peek_next_seq_num s = seq_at (Suc (length ?ns))" by (rule peek_seq_at [OF ns(2)])
  have n: "session_nums (ses_effects s') = ?ns @ [seq_at (Suc (length ?ns))]"
    using assms(2-4) p by (simp add: add_num_def)
  have "?ns @ [seq_at (Suc (length ?ns))] = map seq_at [1..<Suc (length ?ns)] @ [seq_at (Suc (length ?ns))]"
    using ns(1) by simp
  also have "\<dots> = map seq_at [1..<Suc (Suc (length ?ns))]" by simp
  finally show ?thesis using n assms(5) p by (simp only: seq_inv_def Let_def n length_append) simp
qed

lemma seq_inv_same:
  assumes "seq_inv s" and "session_nums (ses_effects s') = session_nums (ses_effects s)"
    and "ses_out_seq_num s' = ses_out_seq_num s"
  shows "seq_inv s'"
  using assms by (simp add: seq_inv_def)

lemma plain_num: "plain e \<Longrightarrow> add_num ns e = ns"
  by (cases e) (simp_all add: add_num_def)

lemma seq_inv_send:
  assumes "seq_inv s" and "seq_num_of m = None" and "send env m s = (s', None)"
  shows "seq_inv s'"
  using assms(3)
proof (rule send_cases)
  fix e assume "s' = s\<lparr>ses_effects := ses_effects s @ [e], ses_next_heartbeat := ses_next_heartbeat s', ses_ticks := ses_ticks s'\<rparr>"
    and "e = NotSent m \<or> (\<exists>frame. e = Transmit m frame)"
  then have "ses_effects s' = ses_effects s @ [e]" "ses_out_seq_num s' = ses_out_seq_num s" "add_num ns e = ns" for ns
    using assms(2) by (auto simp: add_num_def dest: arg_cong [of s' _ ses_effects] arg_cong [of s' _ ses_out_seq_num])
  then show ?thesis by (intro seq_inv_same [OF assms(1)]) simp_all
qed

lemma seq_inv_send_numbered:
  assumes "seq_inv s" and "seq_num_of m = Some (peek_next_seq_num s)"
    and "send env m (s\<lparr>ses_out_seq_num := peek_next_seq_num s\<rparr>) = (s', None)"
  shows "seq_inv s'"
  using assms(3)
proof (rule send_cases)
  let ?s = "s\<lparr>ses_out_seq_num := peek_next_seq_num s\<rparr>"
  fix e assume "s' = ?s\<lparr>ses_effects := ses_effects ?s @ [e], ses_next_heartbeat := ses_next_heartbeat s', ses_ticks := ses_ticks s'\<rparr>"
    and e: "e = NotSent m \<or> (\<exists>frame. e = Transmit m frame)"
  then have s': "ses_effects s' = ses_effects s @ [e]" "ses_out_seq_num s' = peek_next_seq_num s"
    by (auto dest: arg_cong [of s' _ ses_effects] arg_cong [of s' _ ses_out_seq_num])
  show ?thesis
    by (rule seq_inv_snoc [OF assms(1) _ _ s']) (use e assms(2) in auto)
qed

interpretation seq: status_contract env seq_inv for env :: "'d gateway_env"
proof
  show "seq_inv s'" if "seq_inv s" "seq_num_of m = None" "send env m s = (s', None)" for s s' :: "'d order_entry" and m
    using that by (rule seq_inv_send)
  show "seq_inv s'" if "seq_inv s" "seq_num_of m = Some (peek_next_seq_num s)"
    "send env m (s\<lparr>ses_out_seq_num := peek_next_seq_num s\<rparr>) = (s', None)" for s s' :: "'d order_entry" and m
    using that by (rule seq_inv_send_numbered)
  show "seq_inv (s\<lparr>ses_connection_status := c, ses_effects := ses_effects s @ [StreamStatus c]\<rparr>)"
    if "seq_inv s" "c \<noteq> DISCONNECTED" for s :: "'d order_entry" and c
    using that(1) by (rule seq_inv_same) (simp_all add: add_num_def that(2))
qed (erule seq_inv_same; simp add: plain_num)+

text \<open>The status and the download are left alone by everything that only sends.\<close>

interpretation calm: session_contract env "\<lambda>s. ses_connection_status s = c \<and> ses_download s = x"
  for env :: "'d gateway_env" and c and x :: 'd
  by unfold_locales (simp_all add: send_fields)

lemma seq_inv_initial: "seq_inv (initial_order_entry d)"
  by (simp add: seq_inv_def initial_order_entry_def session_nums_def seq_at_def)

lemma seq_inv_disconnected: "on_disconnected env s = (s', None) \<Longrightarrow> seq_inv s'"
  by (auto simp: on_disconnected_def on_connection_status_def emit_def seq_inv_def add_num_def seq_at_def)

lemma keeps_seq_inv:
  assumes "seq_inv s" and "oe_action env defs x s = (s', None)"
  shows "seq_inv s'"
proof (cases "x = InDisconnected")
  case True
  with assms(2) show ?thesis by (simp add: seq_inv_disconnected)
next
  case False
  then have "keeps seq_inv (oe_action env defs x)"
    by (cases x)
      (auto simp: on_create_order_def on_modify_order_def on_cancel_order_def on_cancel_all_orders_def
        intro!: keeps_if_ready keeps_and_then seq.keeps_new_order seq.keeps_replace seq.keeps_cancel seq.keeps_mass_action
        seq.keeps_emit seq.keeps_connected seq.keeps_timer seq.keeps_any_report)
  from keepsD [OF this assms] show ?thesis .
qed

lemma run_seq_inv:
  assumes "oe_run env defs d h s" and "casts_fail_hard env"
  shows "seq_inv s"
  using assms(1)
proof induction
  case oe_start
  show ?case by (rule seq_inv_initial)
next
  case (oe_step h s x s')
  from keeps_seq_inv [OF oe_step.IH oe_step.hyps(2)] show ?case .
next
  case (oe_refuse h s x s' e)
  with refused_unchanged' [OF assms(2)] show ?case by blast
qed

lemma seq_at_inj:
  assumes "i < MAX_SEQ_NUM" and "j < MAX_SEQ_NUM" and "seq_at i = seq_at j"
  shows "i = j"
  using arg_cong [OF assms(3), of unat] assms(1,2) by (simp add: unat_seq_at)

lemma seq_at_nonzero: "0 < i \<Longrightarrow> i < MAX_SEQ_NUM \<Longrightarrow> seq_at i \<noteq> 0"
  using unat_seq_at [of i] by auto

subsection \<open>Becoming ready\<close>

text \<open>
  What is used of the download: it starts with the orders, goes on when their last report is
  in, ignores the report of a state it is not in, and can be reset. \<open>phase\<close> is the state
  it waits in.
\<close>

definition download_laws :: "'d download2 \<Rightarrow> ('d \<Rightarrow> download_state) \<Rightarrow> bool" where
  "download_laws dl phase \<longleftrightarrow>
     (\<forall>d. snd (dl_begin dl download_responses d) = [ORDERS] \<and> phase (fst (dl_begin dl download_responses d)) = ORDERS \<and>
          snd (dl_check_relaxed dl download_responses ORDERS d) = (if phase d = ORDERS then [DONE] else []) \<and>
          phase (fst (dl_check_relaxed dl download_responses ORDERS d)) = (if phase d = ORDERS then DONE else phase d) \<and>
          phase (dl_reset dl d) = DS_UNDEFINED)"

text \<open>How far the login has come, read off what has happened.\<close>

fun login_step :: "download_state \<Rightarrow> oe_input \<Rightarrow> download_state" where
  "login_step p InDisconnected = DS_UNDEFINED"
| "login_step p (InReport EstablishmentAck504) = ORDERS"
| "login_step p (InReport (ExecutionReportStatus532 v)) =
     (if xr_last_rpt_requested v = BF_True \<and> p = ORDERS then DONE else p)"
| "login_step p x = p"

definition login_progress :: "oe_input list \<Rightarrow> download_state" where
  "login_progress h = foldl login_step DS_UNDEFINED h"

definition login_inv :: "('d \<Rightarrow> download_state) \<Rightarrow> oe_input list \<Rightarrow> 'd order_entry \<Rightarrow> bool" where
  "login_inv phase h s \<longleftrightarrow> phase (ses_download s) = login_progress h \<and> (ready s \<longrightarrow> login_progress h = DONE)"

lemma login_progress_snoc [simp]: "login_progress (h @ [x]) = login_step (login_progress h) x"
  by (simp add: login_progress_def)

text \<open>Inputs that touch neither the status nor the download.\<close>

fun calm_input :: "oe_input \<Rightarrow> bool" where
  "calm_input InConnected = False"
| "calm_input InDisconnected = False"
| "calm_input (InReport r) = (\<not> moves_download r)"
| "calm_input x = True"

lemma calm_action:
  assumes "calm_input x" and "oe_action env defs x s = (s', None)"
  shows "ses_connection_status s' = ses_connection_status s \<and> ses_download s' = ses_download s"
proof -
  let ?I = "\<lambda>t. ses_connection_status t = ses_connection_status s \<and> ses_download t = ses_download s"
  have "keeps ?I (oe_action env defs x)"
    using assms(1)
    by (cases x)
      (auto simp: on_create_order_def on_modify_order_def on_cancel_order_def on_cancel_all_orders_def
        intro!: keeps_if_ready keeps_and_then calm.keeps_new_order calm.keeps_replace calm.keeps_cancel
        calm.keeps_mass_action calm.keeps_emit calm.keeps_timer calm.keeps_report)
  from keepsD [OF this _ assms(2)] show ?thesis by simp
qed

lemma calm_progress: "calm_input x \<Longrightarrow> login_step p x = p"
  by (cases "(p, x)" rule: login_step.cases) simp_all

text \<open>Only a request of a client can be refused.\<close>

lemma refused_calm:
  assumes "casts_fail_hard env" and "oe_action env defs x s = (s', Some e)" and "refusal e"
  shows "calm_input x"
proof (cases x)
  case InConnected
  have "fails_hard (on_connected env)"
    unfolding on_connected_def by (intro wf_intros fails_hard_senders [OF assms(1)])
  with assms(2,3) InConnected show ?thesis by (auto dest: fails_hardD)
next
  case InDisconnected
  with assms(2) show ?thesis by (simp add: on_disconnected_def on_connection_status_def emit_def)
next
  case (InReport r)
  with assms(2,3) show ?thesis by (auto dest!: fails_hardD [OF fails_hard_report [OF assms(1)]])
qed simp_all

lemma orders_calm:
  assumes "run_download env [ORDERS] s = (s', None)"
  shows "ses_connection_status s' = ses_connection_status s \<and> ses_download s' = ses_download s"
proof -
  have "keeps (\<lambda>t. ses_connection_status t = ses_connection_status s \<and> ses_download t = ses_download s) (run_download env [ORDERS])"
    unfolding run_download.simps download.simps
    by (intro keeps_and_then keeps_nothing calm.keeps_ensure calm.keeps_mass_status)
  from keepsD [OF this _ assms] show ?thesis by simp
qed

lemma establishment_login:
  assumes "download_laws (ge_download env) phase" and "on_establishment_ack env s = (s', None)"
  shows "ses_connection_status s' = DOWNLOADING \<and> phase (ses_download s') = ORDERS"
proof -
  obtain d where d: "dl_begin (ge_download env) download_responses (ses_download s) = (d, [ORDERS])" "phase d = ORDERS"
    using assms(1) unfolding download_laws_def by (metis prod.collapse)
  let ?t = "s\<lparr>ses_connection_status := DOWNLOADING, ses_effects := ses_effects s @ [StreamStatus DOWNLOADING], ses_download := d\<rparr>"
  have "run_download env [ORDERS] ?t = (s', None)"
    using assms(2) d(1) unfolding on_establishment_ack_def and_then_def on_connection_status_def emit_def download_begin_def
    by (simp del: run_download.simps)
  from orders_calm [OF this] d(2) show ?thesis by simp
qed

lemma status_report_login:
  assumes "download_laws (ge_download env) phase" and "on_execution_report_status env defs v s = (s', None)"
    and "xr_last_rpt_requested v = BF_True"
  shows "phase (ses_download s') = (if phase (ses_download s) = ORDERS then DONE else phase (ses_download s)) \<and>
    ses_connection_status s' = (if phase (ses_download s) = ORDERS then READY else ses_connection_status s)"
proof -
  let ?f = "with_security defs v (\<lambda>sec i. emit (OrderUpdate (order_update_from_execution_report SNAPSHOT v sec i))) :: 'a action"
  obtain t where t: "?f s = (t, None)" "download_check_relaxed env ORDERS t = (s', None)"
    using assms(2,3) by (auto simp: on_execution_report_status_def elim: and_then_None)
  have "keeps (\<lambda>x. ses_connection_status x = ses_connection_status s \<and> ses_download x = ses_download s) ?f"
    by (intro keeps_with_security calm.keeps_emit) simp
  from keepsD [OF this _ t(1)] have ts: "ses_connection_status t = ses_connection_status s" "ses_download t = ses_download s" by simp_all
  define d where "d = fst (dl_check_relaxed (ge_download env) download_responses ORDERS (ses_download s))"
  have d: "dl_check_relaxed (ge_download env) download_responses ORDERS (ses_download s) =
      (d, if phase (ses_download s) = ORDERS then [DONE] else [])"
    "phase d = (if phase (ses_download s) = ORDERS then DONE else phase (ses_download s))"
    using assms(1) unfolding download_laws_def d_def by (auto intro: prod_eqI)
  show ?thesis
    using t(2) d ts
    by (auto simp: download_check_relaxed_def and_then_def nothing_def on_connection_status_def emit_def split: if_splits)
qed

lemma connected_login:
  assumes "on_connected env s = (s', None)"
  shows "ses_connection_status s' = LOGIN_SENT \<and> ses_download s' = ses_download s"
proof -
  obtain t where t: "send_negotiate env s = (t, None)" "on_connection_status LOGIN_SENT t = (s', None)"
    using assms unfolding on_connected_def by (rule and_then_None)
  from keepsD [OF calm.keeps_negotiate _ t(1)] have "ses_download t = ses_download s" by blast
  with t(2) show ?thesis by (auto simp: on_connection_status_def emit_def)
qed

lemma keeps_login_inv:
  assumes "download_laws (ge_download env) phase" and "login_inv phase h s" and "oe_action env defs x s = (s', None)"
  shows "login_inv phase (h @ [x]) s'"
proof (cases "calm_input x")
  case True
  with assms(2) calm_action [OF True assms(3)] show ?thesis by (simp add: login_inv_def ready_def calm_progress)
next
  case False
  then consider "x = InConnected" | "x = InDisconnected" | "x = InReport EstablishmentAck504"
    | v where "x = InReport (ExecutionReportStatus532 v)" "xr_last_rpt_requested v = BF_True"
    by (cases x) (auto elim: moves_download.elims)
  then show ?thesis
  proof cases
    case 1
    with assms connected_login [of env s s'] show ?thesis by (simp add: login_inv_def ready_def)
  next
    case 2
    with assms show ?thesis
      by (auto simp: login_inv_def ready_def on_disconnected_def on_connection_status_def emit_def download_laws_def)
  next
    case 3
    with assms(3) establishment_login [OF assms(1), of s s'] show ?thesis by (simp add: login_inv_def ready_def)
  next
    case 4
    with assms(2,3) status_report_login [OF assms(1), of defs v s s'] show ?thesis by (simp add: login_inv_def ready_def)
  qed
qed

lemma run_login_inv:
  assumes "oe_run env defs d h s" and "casts_fail_hard env" and "download_laws (ge_download env) phase"
    and "phase d = DS_UNDEFINED"
  shows "login_inv phase h s"
  using assms(1)
proof induction
  case oe_start
  with assms(4) show ?case by (simp add: login_inv_def initial_order_entry_def ready_def login_progress_def)
next
  case (oe_step h s x s')
  from keeps_login_inv [OF assms(3) oe_step.IH oe_step.hyps(2)] show ?case .
next
  case (oe_refuse h s x s' e)
  from refused_unchanged' [OF assms(2) oe_refuse.hyps(2,3)] have "s' = s" .
  moreover have "login_step p x = p" for p
    using oe_refuse.hyps(2,3) refused_calm [OF assms(2)] by (blast intro: calm_progress)
  ultimately show ?case using oe_refuse.IH by (simp add: login_inv_def)
qed

end
