(* ===== verification/OrderProperties.thy ===== *)
theory OrderProperties
  imports OrderInvariants
begin

section \<open>Order entry: properties\<close>

text \<open>
  The properties of the order entry connection, first those of every reachable state, then
  those of the single handlers, with an example environment on which their hypotheses hold.
\<close>

subsection \<open>An environment\<close>

definition sample_download :: "download_state download2" where
  "sample_download =
     \<lparr>dl_begin = (\<lambda>responses d. if responses ORDERS > 0 then (ORDERS, [ORDERS]) else (DONE, [ORDERS, DONE])),
      dl_check_relaxed = (\<lambda>responses x d. if d = x \<and> d = ORDERS then (DONE, [DONE]) else (d, [])),
      dl_reset = (\<lambda>d. DS_UNDEFINED)\<rparr>"

definition sample_env :: "download_state gateway_env" where
  "sample_env =
     \<lparr>ge_account = ''A1'', ge_login = ''ABC'', ge_password = ''key'', ge_firm_id = ''F1'', ge_location = ''DE'',
      ge_market_segment_id = 68, ge_package_name = ''roq-cme'', ge_build_version = ''1.0'', ge_mac = (\<lambda>text. []),
      ge_price_null = 2 ^ 63 - 1, ge_sbe = (\<lambda>w. [1, 2, 3]),
      ge_safe_cast_u16 = (\<lambda>n. if n < 2 ^ 16 then Inr (word_of_nat n) else Inl RuntimeError),
      ge_safe_cast_i32 = (\<lambda>v. case int64_of_double v of None \<Rightarrow> Inl RuntimeError | Some n \<Rightarrow> Inr n),
      ge_send_space = (\<lambda>n. Some 4096), ge_realtime = (\<lambda>n. 1000000 * int n), ge_system = (\<lambda>n. 1000 * int n),
      ge_download = sample_download, ge_find_order = (\<lambda>u. None), ge_modify_order_type = 2,
      ge_source_none = 0, ge_order_id_none = 0, ge_strategy_id_none = 0\<rparr>"

lemma sample_download_laws: "download_laws (ge_download sample_env) (\<lambda>d. d)"
  by (simp add: download_laws_def sample_env_def sample_download_def)

lemma sample_casts: "casts_fail_hard sample_env"
  by (auto simp: casts_fail_hard_def sample_env_def split: if_splits option.splits)

definition sample_report :: execution_report where
  "sample_report =
     \<lparr>xr_order_id = (0, 0), xr_security_id = (0, 0), xr_order_request_id = 0, xr_sender_id = ''A1'', xr_side = SQ_Buy,
      xr_ord_type = IO_Limit, xr_time_in_force = IT_Day, xr_transact_time = (0, 1), xr_cl_ord_id = [],
      xr_ord_status = OrderStatusField IS_New, xr_order_qty = 1, xr_price = PRICE9 \<lparr>mantissa = 0, exponent = - 9, mantissaNullValue = 1\<rparr>,
      xr_stop_px = PRICE9 \<lparr>mantissa = 0, exponent = - 9, mantissaNullValue = 1\<rparr>, xr_leaves_qty = None, xr_cum_qty = None,
      xr_last_qty = None, xr_last_px = None, xr_aggressor_indicator = None, xr_exec_id = ''E'', xr_fills = [], xr_text = [],
      xr_last_rpt_requested = BF_True\<rparr>"

definition sample_future :: "(unit, unit) security" where
  "sample_future = make_security () () ''CME'' ''ESZ5'' (Fin 1) False"

definition sample_defs :: "(unit, unit) security_definitions" where
  "sample_defs = create_security ''ES'' 68 42 sample_future empty_definitions"

lemma sample_defs_lookup:
  "find_security_id 68 ''ESZ5'' sample_defs = Some 42" "find_security 42 sample_defs = Some sample_future"
  by (simp_all add: sample_defs_def create_security_def sample_future_def make_security_def find_security_id_def
      find_security_def insert_symbol_def try_emplace_def empty_definitions_def Let_def)

lemma sample_defs_wf: "wf_definitions sample_defs"
  unfolding sample_defs_def by (rule create_security_wf) (simp_all, simp add: has_security_def empty_definitions_def)

text \<open>A login: connect, negotiate, establish, and the last of the order status reports.\<close>

definition login_inputs :: "execution_report \<Rightarrow> oe_input list" where
  "login_inputs v =
     [InConnected, InReport NegotiationResponse501, InReport EstablishmentAck504, InReport (ExecutionReportStatus532 v)]"

lemma deliver_run:
  "oe_run env defs d h s \<Longrightarrow> deliver (oe_action env defs) xs s = (s', None) \<Longrightarrow> oe_run env defs d (h @ xs) s'"
proof (induction xs arbitrary: h s)
  case Nil
  then show ?case by simp
next
  case (Cons x xs)
  then obtain t where t: "oe_action env defs x s = (t, None)" "deliver (oe_action env defs) xs t = (s', None)"
    by (auto split: prod.splits option.splits)
  from Cons.IH [OF oe_step [OF Cons.prems(1) t(1)] t(2)] show ?case by simp
qed

subsection \<open>Sending works\<close>

text \<open>The encoded messages fit into a frame and into the buffer of the socket.\<close>

definition can_send :: "'d gateway_env \<Rightarrow> bool" where
  "can_send env \<longleftrightarrow>
     (\<forall>w. \<exists>len. ge_safe_cast_u16 env (length (ge_sbe env w) + 4) = Inr len) \<and>
     (\<forall>n k w. ge_send_space env n = Some k \<longrightarrow> length (ge_sbe env w) + 4 \<le> k)"

definition proceeds :: "'d action \<Rightarrow> bool" where
  "proceeds f \<longleftrightarrow> (\<forall>s. snd (f s) = None)"

lemma proceeds_and_then: "proceeds f \<Longrightarrow> proceeds g \<Longrightarrow> proceeds (and_then f g)"
  by (simp add: proceeds_def and_then_def split: prod.split option.split) (metis option.distinct(1) snd_conv)

lemma proceeds_simps: "proceeds nothing" "proceeds (emit e)" "proceeds (on_connection_status c)"
  by (simp_all add: proceeds_def nothing_def emit_def on_connection_status_def)

lemma proceeds_send:
  assumes "can_send env" and "encode_ilink (ge_price_null env) m = Inr w"
  shows "proceeds (send env m)"
proof -
  obtain len where len: "ge_safe_cast_u16 env (length (ge_sbe env w) + 4) = Inr len"
    using assms(1) unfolding can_send_def by blast
  have fits: "\<not> k < length (le_bytes 2 x @ 0xFE # 0xCA # ge_sbe env w)" if "ge_send_space env n = Some k" for n k x
  proof -
    from assms(1) that have "length (ge_sbe env w) + 4 \<le> k" by (simp add: can_send_def)
    then show ?thesis by simp
  qed
  show ?thesis
    by (auto simp del: length_append simp: fits proceeds_def send_def assms(2) len Let_def and_then_def emit_def update_heartbeat_def split: option.split)
qed

lemma proceeds_senders:
  assumes "can_send env"
  shows "proceeds (send_negotiate env)" "proceeds (send_establish env)" "proceeds (send_sequence env)"
    "proceeds (send_party_details_definition_request env)" "proceeds (send_order_mass_status_request env)"
  using proceeds_send [OF assms]
  by (auto simp: proceeds_def send_negotiate_def send_establish_def send_sequence_def
      send_party_details_definition_request_def send_order_mass_status_request_def get_realtime_def
      fetch_next_seq_num_def fetch_next_request_id_def Let_def)

lemma proceeds_ensure: "can_send env \<Longrightarrow> proceeds (ensure_party_details env)"
  by (simp add: ensure_party_details_def proceeds_senders proceeds_simps)

lemma sample_can_send: "can_send sample_env"
  by (simp add: can_send_def sample_env_def)

lemma proceedsE:
  assumes "proceeds f"
  obtains t where "f s = (t, None)"
  using assms by (metis proceeds_def prod.collapse)

lemma proceeds_with_security: "(\<And>x y. proceeds (f x y)) \<Longrightarrow> proceeds (with_security defs v f)"
  by (auto simp: with_security_def Let_def proceeds_simps split: option.split)

lemma proceeds_run_download: "can_send env \<Longrightarrow> DS_UNDEFINED \<notin> set xs \<Longrightarrow> proceeds (run_download env xs)"
proof (induction xs)
  case Nil
  then show ?case by (simp add: proceeds_simps)
next
  case (Cons x xs)
  have "proceeds (download env x)"
    using Cons.prems by (cases x) (auto intro!: proceeds_and_then proceeds_simps proceeds_ensure proceeds_senders)
  with Cons show ?case by (simp add: proceeds_and_then)
qed

lemma proceeds_downloads:
  assumes "can_send env" and "download_laws (ge_download env) phase"
  shows "proceeds (download_begin env)" "proceeds (download_check_relaxed env ORDERS)"
proof -
  note run = proceeds_run_download [OF assms(1), unfolded proceeds_def, rule_format]
  have "DS_UNDEFINED \<notin> set (snd (dl_begin (ge_download env) download_responses d))"
    "DS_UNDEFINED \<notin> set (snd (dl_check_relaxed (ge_download env) download_responses ORDERS d))" for d
    using assms(2) by (simp_all add: download_laws_def)
  then show "proceeds (download_begin env)" "proceeds (download_check_relaxed env ORDERS)"
    by (simp_all add: proceeds_def download_begin_def download_check_relaxed_def run split_beta)
qed

lemma login_proceeds:
  assumes "can_send env" and "download_laws (ge_download env) phase" and "xr_last_rpt_requested v = BF_True"
  shows "\<exists>s'. deliver (oe_action env defs) (login_inputs v) s = (s', None) \<and> ready s'"
proof -
  obtain a where a: "oe_action env defs InConnected s = (a, None)"
    using proceedsE [OF proceeds_and_then [OF proceeds_senders(1) [OF assms(1)] proceeds_simps(3)]]
    unfolding oe_action.simps on_connected_def by blast
  obtain b where b: "oe_action env defs (InReport NegotiationResponse501) a = (b, None)"
    using proceedsE [OF proceeds_senders(2) [OF assms(1)]] by (auto simp: on_negotiation_response_def)
  obtain c where c: "oe_action env defs (InReport EstablishmentAck504) b = (c, None)"
    using proceedsE [OF proceeds_and_then [OF proceeds_simps(3) proceeds_downloads(1) [OF assms(1,2)]]]
    unfolding oe_action.simps on_report.simps on_establishment_ack_def by blast
  have ph: "phase (ses_download c) = ORDERS"
    using establishment_login [OF assms(2), of b c] c by simp
  have "proceeds (on_execution_report_status env defs v)"
    unfolding on_execution_report_status_def assms(3)
    by (simp, intro proceeds_and_then proceeds_with_security proceeds_simps proceeds_downloads [OF assms(1,2)])
  from proceedsE [OF this] obtain e where e: "oe_action env defs (InReport (ExecutionReportStatus532 v)) c = (e, None)"
    unfolding oe_action.simps on_report.simps by blast
  have "ready e" using status_report_login [OF assms(2) _ assms(3), of defs c e] e ph by (simp add: ready_def)
  with a b c e show ?thesis by (simp add: login_inputs_def)
qed

lemma sample_login:
  obtains s where "oe_run sample_env defs DS_UNDEFINED (login_inputs sample_report) s" and "ready s"
proof -
  obtain s where s: "deliver (oe_action sample_env defs) (login_inputs sample_report) (initial_order_entry DS_UNDEFINED) = (s, None)" "ready s"
    using login_proceeds [OF sample_can_send sample_download_laws, of sample_report] by (auto simp: sample_report_def)
  from deliver_run [OF oe_start s(1)] have "oe_run sample_env defs DS_UNDEFINED (login_inputs sample_report) s" by simp
  from that [OF this s(2)] show ?thesis .
qed

subsection \<open>Every reachable state\<close>

text \<open>
  Claim C4. The messages of a session are numbered consecutively from one: in every state
  the connection reaches, the numbers used since it was last lost are 1, 2, 3 and so on,
  whatever requests, reports, timers, rejections and reconnections came in between; they
  are distinct and not zero as long as there are fewer than 1,000,000,000 of them. The
  message after number 999,999,999 is sent with number zero.
\<close>

theorem outbound_sequence:
  assumes "oe_run env defs d h s" and "casts_fail_hard env"
  shows "let ns = session_nums (ses_effects s) in
    ns = map seq_at [1..<Suc (length ns)] \<and> ses_out_seq_num s = seq_at (length ns) \<and>
    (length ns < MAX_SEQ_NUM \<longrightarrow> distinct ns \<and> 0 \<notin> set ns) \<and>
    (MAX_SEQ_NUM \<le> length ns \<longrightarrow> ns ! (MAX_SEQ_NUM - 1) = 0)"
proof -
  let ?ns = "session_nums (ses_effects s)"
  have ns: "?ns = map seq_at [1..<Suc (length ?ns)]" "ses_out_seq_num s = seq_at (length ?ns)"
    using run_seq_inv [OF assms] by (simp_all add: seq_inv_def Let_def)
  have small: "distinct (map seq_at [1..<Suc k]) \<and> 0 \<notin> set (map seq_at [1..<Suc k])" if "k < MAX_SEQ_NUM" for k
    using that seq_at_nonzero by (auto simp: distinct_map intro!: inj_onI seq_at_inj)
  have big: "map seq_at [1..<Suc k] ! (MAX_SEQ_NUM - 1) = 0" if "MAX_SEQ_NUM \<le> k" for k
    using that by (subst nth_map) (simp_all del: upt_Suc add: seq_at_def MAX_SEQ_NUM_def)
  have "length ?ns < MAX_SEQ_NUM \<Longrightarrow> distinct ?ns \<and> 0 \<notin> set ?ns"
    by (subst (1 2) ns(1)) (rule small)
  moreover have "MAX_SEQ_NUM \<le> length ?ns \<Longrightarrow> ?ns ! (MAX_SEQ_NUM - 1) = 0"
    by (subst ns(1)) (rule big)
  ultimately show ?thesis unfolding Let_def using ns by blast
qed

theorem outbound_sequence_witness:
  "\<exists>s :: download_state order_entry. ready s \<and>
     session_nums (ses_effects s) = map seq_at [1..<Suc (length (session_nums (ses_effects s)))]"
proof -
  obtain s where s: "oe_run sample_env sample_defs DS_UNDEFINED (login_inputs sample_report) s" "ready s"
    by (rule sample_login)
  from outbound_sequence [OF s(1) sample_casts] s(2) show ?thesis by (auto simp: Let_def)
qed

text \<open>
  Claim C8. The connection is ready, so that orders are accepted, only when since it was last
  lost the exchange has acknowledged the establishment of the session and then sent the last
  of the order status reports that were asked for.
\<close>

theorem ready_after_download:
  assumes "oe_run env defs d h s" and "casts_fail_hard env" and "download_laws (ge_download env) phase"
    and "phase d = DS_UNDEFINED" and "ready s"
  shows "login_progress h = DONE"
  using run_login_inv [OF assms(1-4)] assms(5) by (simp add: login_inv_def)

theorem ready_after_download_witness:
  "login_progress (login_inputs sample_report) = DONE"
proof -
  obtain s where s: "oe_run sample_env sample_defs DS_UNDEFINED (login_inputs sample_report) s" "ready s"
    by (rule sample_login)
  from ready_after_download [OF s(1) sample_casts sample_download_laws refl s(2)] show ?thesis .
qed

text \<open>
  Claim C20. A login succeeds: from any state, a new connection, the answers of the exchange to
  the negotiation and the establishment and the last order status report make the connection
  ready, provided the messages can be written.
\<close>

theorem login_reaches_ready:
  assumes "can_send env" and "download_laws (ge_download env) phase" and "xr_last_rpt_requested v = BF_True"
  shows "\<exists>s'. deliver (oe_action env defs) (login_inputs v) s = (s', None) \<and> ready s'"
  by (rule login_proceeds [OF assms])

theorem login_reaches_ready_witness:
  "\<exists>s'. deliver (oe_action sample_env sample_defs) (login_inputs sample_report)
     (initial_order_entry DS_UNDEFINED) = (s', None) \<and> ready s'"
  by (rule login_reaches_ready [OF sample_can_send sample_download_laws]) (simp add: sample_report_def)

text \<open>
  Claim C13. A request that is refused changes nothing: when an input ends in "not ready" or
  in a rejection by the gateway, the state is as before, with no message sent, no update
  published and no sequence number used.
\<close>

theorem refused_unchanged:
  assumes "casts_fail_hard env" and "oe_action env defs x s = (s', Some e)" and "refusal e"
  shows "s' = s"
  by (rule refused_unchanged' [OF assms])

definition sample_oms_order :: oms_order where
  "sample_oms_order =
     \<lparr>ord_user_id = 7, ord_order_id = 1001, ord_symbol = ''ESZ5'', ord_side = BUY, ord_order_type = LIMIT,
      ord_time_in_force = GFD, ord_client_order_id = ''c-1''\<rparr>"

theorem refused_unchanged_witness:
  "fst (oe_action sample_env sample_defs (InCancelOrder sample_oms_order) (initial_order_entry DS_UNDEFINED)) =
   initial_order_entry DS_UNDEFINED"
proof -
  obtain s' where s': "oe_action sample_env sample_defs (InCancelOrder sample_oms_order) (initial_order_entry DS_UNDEFINED) =
      (s', Some NotReady)"
    by (simp add: on_cancel_order_def if_ready_def ready_def initial_order_entry_def)
  from refused_unchanged [OF sample_casts this] s' show ?thesis by simp
qed

subsection \<open>Requests\<close>

fun sent_message :: "oe_effect \<Rightarrow> ilink_message option" where
  "sent_message (Transmit m f) = Some m"
| "sent_message (NotSent m) = Some m"
| "sent_message e = None"

lemma send_proceeds:
  assumes "can_send env" and "encode_ilink (ge_price_null env) m = Inr w"
  obtains s' e where "send env m s = (s', None)" and "ses_effects s' = ses_effects s @ [e]" and "sent_message e = Some m"
proof -
  obtain s' where s': "send env m s = (s', None)" using proceedsE [OF proceeds_send [OF assms]] by blast
  from s' obtain e where "s' = s\<lparr>ses_effects := ses_effects s @ [e], ses_next_heartbeat := ses_next_heartbeat s', ses_ticks := ses_ticks s'\<rparr>"
    "e = NotSent m \<or> (\<exists>frame. e = Transmit m frame)" by (rule send_cases)
  then have "ses_effects s' = ses_effects s @ [e]" "sent_message e = Some m"
    by (auto dest: arg_cong [of s' _ ses_effects])
  with s' that show ?thesis by blast
qed

text \<open>The party details that precede a request take one number.\<close>

lemma ensure_proceeds:
  assumes "can_send env"
  obtains s' e p where "ensure_party_details env s = (s', None)" and "ses_effects s' = ses_effects s @ [e]"
    and "sent_message e = Some (PartyDetailsDefinitionRequest p)" and "pd_seq_num p = peek_next_seq_num s"
    and "ses_out_seq_num s' = peek_next_seq_num s"
proof -
  let ?s = "s\<lparr>ses_ticks := Suc (ses_ticks s), ses_out_seq_num := peek_next_seq_num s\<rparr>"
  obtain p where p: "ensure_party_details env s = send env (PartyDetailsDefinitionRequest p) ?s" "pd_seq_num p = peek_next_seq_num s"
    by (simp add: ensure_party_details_def party_details_list_req_id_def send_party_details_definition_request_def
        get_realtime_def fetch_next_seq_num_def Let_def)
  obtain s' e where s': "send env (PartyDetailsDefinitionRequest p) ?s = (s', None)" "ses_effects s' = ses_effects ?s @ [e]"
    "sent_message e = Some (PartyDetailsDefinitionRequest p)"
    using send_proceeds [OF assms, of "PartyDetailsDefinitionRequest p"] encode_ilink.simps(6) by metis
  from send_fields(3) [OF s'(1)] have "ses_out_seq_num s' = peek_next_seq_num s" by simp
  with p s' that show ?thesis by simp
qed


definition sample_create :: create_order where
  "sample_create =
     \<lparr>co_exchange = ''CME'', co_side = BUY, co_order_type = LIMIT, co_time_in_force = GFD, co_execution_instructions = [],
      co_quantity = Fin 3, co_price = NaN, co_stop_price = NaN\<rparr>"


text \<open>No exception of sending is fatal when there is room for every message.\<close>

definition never_fatal :: "'d action \<Rightarrow> bool" where
  "never_fatal f \<longleftrightarrow> (\<forall>s. snd (f s) \<noteq> Some Fatal)"

lemma never_fatal_and_then: "never_fatal f \<Longrightarrow> never_fatal g \<Longrightarrow> never_fatal (and_then f g)"
  by (simp add: never_fatal_def and_then_def split: prod.split option.split) (metis option.inject snd_conv)

lemma encode_ilink_not_fatal: "encode_ilink n m \<noteq> Inl Fatal"
  by (cases m) (auto simp: encode_defs with_price_def set_price_def split: sum.splits if_splits option.splits)

lemma never_fatal_send:
  assumes "can_send env"
  shows "never_fatal (send env m)"
proof (cases "encode_ilink (ge_price_null env) m")
  case (Inl e)
  with encode_ilink_not_fatal [of "ge_price_null env" m] show ?thesis by (auto simp: never_fatal_def send_def)
next
  case (Inr w)
  from proceeds_send [OF assms Inr] show ?thesis by (simp add: never_fatal_def proceeds_def)
qed

text \<open>
  Claim C21. An order for an instrument the gateway lists never ends the process: whenever the
  security definitions are well-formed (which they are after loading, and stay), the lookup
  of a security by its symbol and then by its identifier does not miss, and creating an
  order does not reach the fatal error for that case.
\<close>

theorem create_order_never_fatal:
  assumes "wf_definitions defs" and "can_send env" and "\<forall>v. ge_safe_cast_i32 env v \<noteq> Inl Fatal"
  shows "snd (on_create_order env defs create order request_id s) \<noteq> Some Fatal"
proof -
  let ?send = "\<lambda>i q x s. case get_realtime env s of (now, s) \<Rightarrow> case fetch_next_seq_num s of (n, s) \<Rightarrow>
      send env (NewOrderSingle (new_order_single_of env create order request_id i q x now n)) s"
  have sends: "never_fatal (?send i q x)" for i q x
    using never_fatal_send [OF assms(2)]
    by (simp add: never_fatal_def get_realtime_def fetch_next_seq_num_def Let_def)
  have details: "never_fatal (ensure_party_details env)"
    using proceeds_ensure [OF assms(2)] by (simp add: never_fatal_def proceeds_def)
  have request: "snd (and_then (ensure_party_details env) (?send i q x) s) \<noteq> Some Fatal" for i q x
    using never_fatal_and_then [OF details sends] unfolding never_fatal_def by (rule spec)
  have qty: "get_quantity (ge_safe_cast_i32 env) v \<noteq> Inl Fatal" for v
    using assms(3) by (auto simp: get_quantity_def split: sum.splits option.splits)
  have inst: "map_execution_instructions v \<noteq> Inl Fatal" for v
    by (auto simp: map_execution_instructions_def Let_def)
  show ?thesis
    using qty inst
    by (cases rule: sec_index.symbol_lookup_cases [OF assms(1), of "ge_market_segment_id env" "ord_symbol order"])
      (auto simp: on_create_order_def if_ready_def send_new_order_single_def request split: sum.split)
qed

theorem create_order_never_fatal_witness:
  "snd (on_create_order sample_env sample_defs sample_create sample_oms_order ''r1'' (initial_order_entry DS_UNDEFINED)) \<noteq> Some Fatal"
  by (rule create_order_never_fatal [OF sample_defs_wf sample_can_send]) (auto simp: sample_env_def split: option.splits)

subsection \<open>Reports\<close>

definition effects_of :: "'d action \<Rightarrow> 'd order_entry \<Rightarrow> oe_effect list" where
  "effects_of f s = drop (length (ses_effects s)) (ses_effects (fst (f s)))"

lemma emit_effects: "effects_of (emit e) s = [e]"
  by (simp add: effects_of_def emit_def)


definition sample_reject :: order_reject where
  "sample_reject = \<lparr>rj_cl_ord_id = ''c-1'', rj_order_request_id = encode_order_request_id CREATE_ORDER_TYPE 7 1001, rj_text = ''no''\<rparr>"


text \<open>
  The rejection of a cancel or of a change is passed on with the request type, the
  text and the client order identifier, but without the user and the order, although the
  identifier of the request was decoded.
\<close>

theorem cancel_rejects_without_client:
  "effects_of (on_report env defs (OrderCancelReject535 r)) s =
     [Response (rejection (fst (decode_order_request_id (rj_order_request_id r))) (rj_text r) (rj_cl_ord_id r)) None] \<and>
   effects_of (on_report env defs (OrderCancelReplaceReject536 r)) s =
     [Response (rejection (fst (decode_order_request_id (rj_order_request_id r))) (rj_text r) (rj_cl_ord_id r)) None]"
  by (simp add: on_order_cancel_reject_def on_order_cancel_replace_reject_def emit_effects split: prod.split)


definition sample_trade :: execution_report where
  "sample_trade = sample_report\<lparr>xr_order_id := (99, 0), xr_security_id := (42, 0),
     xr_fills := [\<lparr>fe_fill_exec_id = ''1'', fe_fill_px = PRICE9 \<lparr>mantissa = 5, exponent = - 9, mantissaNullValue = 0\<rparr>, fe_fill_qty = 2\<rparr>]\<rparr>"




text \<open>
  An accepted mass cancellation marks exactly the affected orders as cancelled, in
  the order of the report, and is then acknowledged; a rejected one is acknowledged as such.
\<close>

theorem mass_action_report_effects:
  "effects_of (on_report env defs (OrderMassActionReport562 v)) s =
     (case mr_mass_action_response v of
        MA_Rejected \<Rightarrow> [mass_action_ack env RS_REJECTED ''unknown'']
      | MA_Accepted \<Rightarrow> map (\<lambda>a. OrderUpdate (canceled_update v a)) (mr_affected_orders v) @ [mass_action_ack env RS_ACCEPTED []]
      | MA_NULL_VALUE \<Rightarrow> [])"
proof -
  have all: "emit_all es s = (s\<lparr>ses_effects := ses_effects s @ es\<rparr>, None)" for es and s :: "'a order_entry"
    by (induction es arbitrary: s) (simp_all add: and_then_def emit_def nothing_def)
  show ?thesis
    by (cases "mr_mass_action_response v")
      (simp_all add: on_order_mass_action_report_def emit_effects, simp_all add: effects_of_def and_then_def all emit_def nothing_def)
qed

end
