(* ===== verification/Gateway.thy ===== *)
theory Gateway
  imports GatewayConfig OrderProperties
begin

section \<open>The gateway\<close>

text \<open>
  \<^verbatim>\<open>gateway/controller.cpp\<close>, \<^verbatim>\<open>shared.cpp\<close>
  and \<^verbatim>\<open>mdp_receiver.cpp\<close>: how the market data manager and
  the order entry connections are built from the configuration and the settings, and how the
  requests of clients, timers, packets and reports reach them. What the server framework does
  with requests (the order management system), the sockets and the host names are library
  code.
\<close>

subsection \<open>Market segments\<close>

definition ilink_segment :: "u8 \<times> market_segment \<Rightarrow> (u8 \<rightharpoonup> market_segment) \<Rightarrow> (u8 \<rightharpoonup> market_segment) \<times> exn option" where
  "ilink_segment arg m = (try_emplace m (fst arg) (snd arg), None)"

text \<open>\<open>None\<close> is an empty file name.\<close>

definition read_ilink_config :: "(string \<Rightarrow> exn + u8) \<Rightarrow> xml_event list option \<Rightarrow> exn + (u8 \<rightharpoonup> market_segment)" where
  "read_ilink_config from_chars contents =
     (case contents of
        None \<Rightarrow> Inr Map.empty
      | Some events \<Rightarrow>
          (case ilink_config_dispatch from_chars ilink_segment events Map.empty of
             (m, None) \<Rightarrow> Inr m
           | (m, Some e) \<Rightarrow> Inl e))"

definition get_multicast_config :: "mdp_config \<Rightarrow> u16 \<Rightarrow> connection_type \<Rightarrow> priority \<Rightarrow> exn + string \<times> u16" where
  "get_multicast_config cfg channel_id ty pr =
     (case config_find channel_id ty pr cfg of
        None \<Rightarrow> Inl RuntimeError
      | Some c \<Rightarrow> Inr (cc_multicast_address c, cc_port c))"

subsection \<open>Receivers\<close>

record mdp_receiver =
  rc_channel_id :: u16
  rc_connection_type :: connection_type
  rc_priority :: priority
  rc_name :: string
  rc_membership :: "string \<times> u16"

definition make_receiver :: "mdp_config \<Rightarrow> ('p, 'o, 'b) manager \<Rightarrow> u16 \<times> connection_type \<times> priority \<Rightarrow> exn + mdp_receiver" where
  "make_receiver cfg mg k =
     (case k of (channel_id, ty, pr) \<Rightarrow>
        sum_bind (manager_get_name channel_id ty pr mg) (\<lambda>name.
        sum_bind (get_multicast_config cfg channel_id ty pr) (\<lambda>membership.
          Inr \<lparr>rc_channel_id = channel_id, rc_connection_type = ty, rc_priority = pr, rc_name = name, rc_membership = membership\<rparr>)))"

text \<open>The receivers of a channel, in the order in which they are made.\<close>

definition receivers_of :: "bool \<Rightarrow> u16 \<Rightarrow> (u16 \<times> connection_type \<times> priority) list" where
  "receivers_of secdef_file channel_id =
     (if secdef_file then [] else [(channel_id, INSTRUMENT_DEFINITION, PRIMARY)])
     @ [(channel_id, MBP_MARKET_RECOVERY, PRIMARY), (channel_id, MBOFD_MARKET_RECOVERY, PRIMARY),
        (channel_id, CT_INCREMENTAL, PRIMARY), (channel_id, CT_INCREMENTAL, SECONDARY)]"

fun make_receivers :: "mdp_config \<Rightarrow> ('p, 'o, 'b) manager \<Rightarrow> (u16 \<times> connection_type \<times> priority) list \<Rightarrow> exn + mdp_receiver list" where
  "make_receivers cfg mg [] = Inr []"
| "make_receivers cfg mg (k # ks) =
     sum_bind (make_receiver cfg mg k) (\<lambda>r. sum_bind (make_receivers cfg mg ks) (\<lambda>rs. Inr (r # rs)))"

definition create_mdp_receivers :: "mdp_config \<Rightarrow> ('p, 'o, 'b) manager \<Rightarrow> bool \<Rightarrow> u16 list \<Rightarrow> exn + mdp_receiver list" where
  "create_mdp_receivers cfg mg secdef_file channel_ids = make_receivers cfg mg (concat (map (receivers_of secdef_file) channel_ids))"

text \<open>
  A socket that is readable is read until nothing is left; \<open>received\<close> is what successive
  calls of \<^verbatim>\<open>recv\<close> return, an empty payload being its zero.
\<close>

fun receiver_read ::
    "('p, 'o) md_env \<Rightarrow> mdp_message sbe \<Rightarrow> 'b udp_buffer \<Rightarrow> mdp_receiver \<Rightarrow> nanoseconds \<Rightarrow> bytes list
     \<Rightarrow> ('p, 'o, 'b) manager \<Rightarrow> (('p, 'o, 'b) manager \<times> exn option) option" where
  "receiver_read env sbe ops rc origin [] mg = Some (mg, None)"
| "receiver_read env sbe ops rc origin (payload # received) mg =
     (if payload = [] then Some (mg, None)
      else case manager_dispatch env sbe ops (rc_channel_id rc) (rc_connection_type rc) (rc_priority rc) payload origin mg of
             None \<Rightarrow> None
           | Some (mg', Some e) \<Rightarrow> Some (mg', Some e)
           | Some (mg', None) \<Rightarrow> receiver_read env sbe ops rc origin received mg')"

subsection \<open>Order entry connections\<close>

record 'd connection =
  cx_stream_id :: u16
  cx_host :: string
  cx_env :: "'d gateway_env"
  cx_state :: "'d order_entry"

text \<open>
  The environment of a connection: the settings and the library are \<open>base\<close>, the account
  brings its login, its password and the message authentication with its secret.
\<close>

definition make_order_entry ::
    "'d gateway_env \<Rightarrow> (string \<Rightarrow> string \<Rightarrow> bytes) \<Rightarrow> 'd \<Rightarrow> u16 \<Rightarrow> gw_account \<Rightarrow> u8 \<Rightarrow> string \<Rightarrow> 'd connection" where
  "make_order_entry base mac d stream_id account market_segment_id host =
     \<lparr>cx_stream_id = stream_id, cx_host = host,
      cx_env = base\<lparr>ge_account := ga_name account, ge_login := ga_login account, ge_password := ga_password account,
        ge_market_segment_id := market_segment_id, ge_mac := mac (ga_secret account)\<rparr>,
      cx_state = initial_order_entry d\<rparr>"

fun order_entry_accounts ::
    "(u16 \<Rightarrow> gw_account \<Rightarrow> 'd connection) \<Rightarrow> (string \<times> gw_account) list \<Rightarrow> (string \<times> 'd connection) list \<times> u16
     \<Rightarrow> (string \<times> 'd connection) list \<times> u16" where
  "order_entry_accounts mk [] st = st"
| "order_entry_accounts mk ((name, account) # accounts) (result, stream_id) =
     order_entry_accounts mk accounts (emplace name (mk (stream_id + 1) account) result, stream_id + 1)"

text \<open>
  The number of a market segment is read as 16 bits; looking it up and passing it on narrows
  it to the 8 bits of the protocol.
\<close>

fun order_entry_segments ::
    "(string \<Rightarrow> exn + u16) \<Rightarrow> (u8 \<rightharpoonup> market_segment) \<Rightarrow> (u8 \<Rightarrow> string \<Rightarrow> u16 \<Rightarrow> gw_account \<Rightarrow> 'd connection)
     \<Rightarrow> (string \<times> gw_account) list \<Rightarrow> string list \<Rightarrow> (string \<times> 'd connection) list \<times> u16
     \<Rightarrow> exn + (string \<times> 'd connection) list \<times> u16" where
  "order_entry_segments from_chars segments mk accounts [] st = Inr st"
| "order_entry_segments from_chars segments mk accounts (item # items) st =
     sum_bind (from_chars item) (\<lambda>market_segment_id.
       (case segments (ucast market_segment_id) of
          None \<Rightarrow> Inl Fatal
        | Some m \<Rightarrow>
            order_entry_segments from_chars segments mk accounts items
              (order_entry_accounts (mk (ucast market_segment_id) (ms_primary_host_ip m)) accounts st)))"

definition create_order_entry ::
    "(string \<Rightarrow> exn + u16) \<Rightarrow> (u8 \<rightharpoonup> market_segment) \<Rightarrow> (u8 \<Rightarrow> string \<Rightarrow> u16 \<Rightarrow> gw_account \<Rightarrow> 'd connection)
     \<Rightarrow> string \<Rightarrow> (string \<times> gw_account) list \<Rightarrow> string list \<Rightarrow> u16 \<Rightarrow> exn + (string \<times> 'd connection) list \<times> u16" where
  "create_order_entry from_chars segments mk firm_id accounts market_segment_ids stream_id =
     (if market_segment_ids = [] then Inr ([], stream_id)
      else if firm_id = [] then Inl Fatal
      else order_entry_segments from_chars segments mk accounts market_segment_ids ([], stream_id))"

subsection \<open>The controller\<close>

datatype server_state = ENABLED | DISABLED

record ('p, 'o, 'b, 'd) controller =
  gw_market_data :: "('p, 'o, 'b) manager"
  gw_receivers :: "mdp_receiver list"
  gw_order_entry :: "(string \<times> 'd connection) list"
  gw_server :: "server_state list"

abbreviation gw_definitions :: "('p, 'o, 'b, 'd) controller \<Rightarrow> ('p, 'o) security_definitions" where
  "gw_definitions gw \<equiv> definitions (mg_shared (gw_market_data gw))"

text \<open>
  The settings that name the configuration files, by the contents of the files (\<open>None\<close> is an
  empty file name; of XML files the events the parser reports), and the ones the construction
  reads.
\<close>

record gw_settings =
  gs_secdef_config_file :: "string option"
  gs_multicast_config_file :: "xml_event list"
  gs_multicast_channel_ids :: "u16 list"
  gs_ilink_config_file :: "xml_event list option"
  gs_ilink_firm_id :: string
  gs_ilink_market_segment_ids :: "string list"

definition make_shared ::
    "(string \<Rightarrow> exn + u16) \<Rightarrow> (string \<Rightarrow> exn + u8) \<Rightarrow> gw_settings \<Rightarrow> exn + mdp_config \<times> (u8 \<rightharpoonup> market_segment)" where
  "make_shared from16 from8 settings =
     sum_bind (make_config from16 (gs_multicast_config_file settings)) (\<lambda>mdp.
     sum_bind (read_ilink_config from8 (gs_ilink_config_file settings)) (\<lambda>segments. Inr (mdp, segments)))"

text \<open>The members in the order in which they are initialised; the stream identifiers run through.\<close>

definition make_controller ::
    "('p, 'o) md_env \<Rightarrow> charconv \<Rightarrow> (string \<Rightarrow> exn + u16) \<Rightarrow> (string \<Rightarrow> exn + u8) \<Rightarrow> ('y, 'u, 'l) gw_config \<Rightarrow> gw_settings \<Rightarrow> 'b
     \<Rightarrow> (u8 \<Rightarrow> string \<Rightarrow> u16 \<Rightarrow> gw_account \<Rightarrow> 'd connection) \<Rightarrow> exn + ('p, 'o, 'b, 'd) controller" where
  "make_controller env cc from16 from8 cfg settings buffer mk =
     (let channel_ids = gs_multicast_channel_ids settings
      in sum_bind (create_accounts cfg) (\<lambda>accounts.
         sum_bind (make_security_definitions env cc (gs_secdef_config_file settings)) (\<lambda>d.
         sum_bind (make_shared from16 from8 settings) (\<lambda>(mdp, segments).
         sum_bind (make_manager mdp buffer channel_ids (empty_shared\<lparr>definitions := d\<rparr>) 0) (\<lambda>(mg, stream_id).
         sum_bind (create_mdp_receivers mdp mg (gs_secdef_config_file settings \<noteq> None) channel_ids) (\<lambda>receivers.
         sum_bind (create_order_entry from16 segments mk (gs_ilink_firm_id settings) accounts (gs_ilink_market_segment_ids settings) stream_id) (\<lambda>(oe, _).
           Inr \<lparr>gw_market_data = mg, gw_receivers = receivers, gw_order_entry = oe, gw_server = []\<rparr>)))))))"

definition get_order_entry :: "string \<Rightarrow> ('p, 'o, 'b, 'd) controller \<Rightarrow> exn + 'd connection" where
  "get_order_entry account gw = (case map_of (gw_order_entry gw) account of None \<Rightarrow> Inl RuntimeError | Some c \<Rightarrow> Inr c)"

text \<open>An input of one connection, under the account it is filed.\<close>

definition connection_step ::
    "oe_input \<Rightarrow> string \<Rightarrow> 'd connection \<Rightarrow> ('p, 'o, 'b, 'd) controller \<Rightarrow> ('p, 'o, 'b, 'd) controller \<times> exn option" where
  "connection_step x account c gw =
     (case oe_action (cx_env c) (gw_definitions gw) x (cx_state c) of
        (s, e) \<Rightarrow> (gw\<lparr>gw_order_entry := AList.update account (c\<lparr>cx_state := s\<rparr>) (gw_order_entry gw)\<rparr>, e))"

datatype client_request =
    CreateOrder string create_order oms_order string
  | ModifyOrder string string modify_order oms_order
  | CancelOrder string string oms_order
  | CancelAllOrders string cancel_all_orders string
  | MassQuote
  | CancelQuotes

definition route ::
    "string \<Rightarrow> oe_input \<Rightarrow> ('p, 'o, 'b, 'd) controller \<Rightarrow> ('p, 'o, 'b, 'd) controller \<times> (exn + u16)" where
  "route account x gw =
     (case get_order_entry account gw of
        Inl e \<Rightarrow> (gw, Inl e)
      | Inr c \<Rightarrow>
          (case connection_step x account c gw of
             (gw', None) \<Rightarrow> (gw', Inr (cx_stream_id c))
           | (gw', Some e) \<Rightarrow> (gw', Inl e)))"

text \<open>
  A request returns the stream it was sent on. In the requests for an order the second string
  is the account of the order; it has to be the account of the request.
\<close>

fun on_request :: "client_request \<Rightarrow> ('p, 'o, 'b, 'd) controller \<Rightarrow> ('p, 'o, 'b, 'd) controller \<times> (exn + u16)" where
  "on_request (CreateOrder account c r i) gw =
     (if account = [] then (gw, Inl AssertFailed) else route account (InCreateOrder c r i) gw)"
| "on_request (ModifyOrder account account' m r) gw =
     (if account = [] \<or> account \<noteq> account' then (gw, Inl AssertFailed) else route account (InModifyOrder m r) gw)"
| "on_request (CancelOrder account account' r) gw =
     (if account = [] \<or> account \<noteq> account' then (gw, Inl AssertFailed) else route account (InCancelOrder r) gw)"
| "on_request (CancelAllOrders account c i) gw =
     (if account = [] then (gw, Inl AssertFailed) else route account (InCancelAllOrders c i) gw)"
| "on_request MassQuote gw = (gw, Inl NotSupported)"
| "on_request CancelQuotes gw = (gw, Inl NotSupported)"

datatype control_action = Action_UNDEFINED | Action_ENABLE | Action_DISABLE

fun on_control :: "control_action \<Rightarrow> ('p, 'o, 'b, 'd) controller \<Rightarrow> ('p, 'o, 'b, 'd) controller \<times> exn option" where
  "on_control Action_UNDEFINED gw = (gw, Some AssertFailed)"
| "on_control Action_ENABLE gw = (gw\<lparr>gw_server := gw_server gw @ [ENABLED]\<rparr>, None)"
| "on_control Action_DISABLE gw = (gw\<lparr>gw_server := gw_server gw @ [DISABLED]\<rparr>, None)"

text \<open>
  A timer goes to the market data and then to every connection; \<open>refreshed account\<close> is what
  the connection manager of that account returns.
\<close>

definition on_gateway_timer ::
    "('p, 'o) md_env \<Rightarrow> (string \<Rightarrow> bool) \<Rightarrow> nanoseconds \<Rightarrow> ('p, 'o, 'b, 'd) controller \<Rightarrow> ('p, 'o, 'b, 'd) controller \<times> exn option" where
  "on_gateway_timer env refreshed now gw =
     deliver (\<lambda>(account, c). connection_step (InTimer (refreshed account) now) account c) (gw_order_entry gw)
       (gw\<lparr>gw_market_data := manager_timer env now (gw_market_data gw)\<rparr>)"

subsection \<open>Construction\<close>

lemma make_receivers_ok:
  assumes "\<forall>(i, ty, pr) \<in> set ks. (\<exists>name. manager_get_name i ty pr mg = Inr name) \<and> config_find i ty pr cfg \<noteq> None"
  shows "\<exists>rs. make_receivers cfg mg ks = Inr rs \<and> map (\<lambda>r. (rc_channel_id r, rc_connection_type r, rc_priority r)) rs = ks \<and>
    (\<forall>r \<in> set rs. \<exists>c. config_find (rc_channel_id r) (rc_connection_type r) (rc_priority r) cfg = Some c \<and>
       rc_membership r = (cc_multicast_address c, cc_port c))"
  using assms
proof (induction ks)
  case (Cons k ks)
  obtain i ty pr where k: "k = (i, ty, pr)" by (cases k)
  obtain name c where "manager_get_name i ty pr mg = Inr name" "config_find i ty pr cfg = Some c" using Cons.prems k by auto
  then show ?case using Cons k by (auto simp: make_receiver_def get_multicast_config_def)
qed simp

lemma manager_names:
  assumes "make_manager cfg buffer channel_ids sh s = Inr (mg, s')" and "consistent_config cfg" and "i \<in> set channel_ids"
    and "ty \<noteq> HISTORICAL_REPLAY" and "pr = PRIMARY \<or> pr = SECONDARY"
  shows "(\<exists>name. manager_get_name i ty pr mg = Inr name) \<and> config_find i ty pr cfg \<noteq> None"
proof -
  from assms(1) have "create_channels cfg buffer channel_ids ([], s) = Inr (mg_channels mg, s')"
    by (auto simp: make_manager_def split_beta)
  from create_channels_spec [OF this] have keys: "fst ` set (mg_channels mg) = set channel_ids"
      and names: "\<forall>ic \<in> set (mg_channels mg). named_by cfg ic"
    by auto
  obtain c where c: "map_of (mg_channels mg) i = Some c" using assms(3) keys by (metis map_of_eq_None_iff not_None_eq)
  then have "named_by cfg (i, c)" using names by (auto dest: map_of_SomeD)
  then have "config_get_name i ty pr cfg = Inr (feed_name (feed_of ty pr c))" using assms(4,5) by (auto simp: named_by_def)
  then show ?thesis using c assms(4) config_get_name_find [OF assms(2), of i ty pr]
    by (cases ty) (auto simp: manager_get_name_def split: option.splits)
qed


text \<open>Connections: an account that already has one keeps it, and the stream identifier is used up.\<close>

lemma order_entry_accounts_new:
  assumes "distinct (map fst accounts)" and "fst ` set accounts \<inter> fst ` set result = {}"
  shows "order_entry_accounts mk accounts (result, s) =
    (result @ map (\<lambda>(k, name, a). (name, mk (s + word_of_nat (Suc k)) a)) (enumerate 0 accounts), s + word_of_nat (length accounts))"
  using assms
proof (induction accounts arbitrary: result s)
  case (Cons x xs)
  obtain name a where x: "x = (name, a)" by fastforce
  have "map_of result name = None" using Cons.prems(2) x by (auto simp: map_of_eq_None_iff)
  then show ?case
    using Cons.IH [of "result @ [(name, mk (s + 1) a)]" "s + 1"] Cons.prems x
    by (auto simp: emplace_def enumerate_Suc_eq comp_def algebra_simps split_beta)
qed simp

lemma order_entry_accounts_old:
  assumes "fst ` set accounts \<subseteq> fst ` set result"
  shows "order_entry_accounts mk accounts (result, s) = (result, s + word_of_nat (length accounts))"
  using assms
proof (induction accounts arbitrary: s)
  case (Cons x xs)
  obtain name a where x: "x = (name, a)" by fastforce
  have "map_of result name \<noteq> None" using Cons.prems x by (auto simp: map_of_eq_None_iff)
  then show ?case using Cons x by (auto simp: emplace_def algebra_simps)
qed simp

lemma order_entry_segments_old:
  assumes "fst ` set accounts \<subseteq> fst ` set result" and "\<forall>item \<in> set items. \<exists>i. from_chars item = Inr i \<and> segments (ucast i) \<noteq> None"
  shows "order_entry_segments from_chars segments mk accounts items (result, s) =
    Inr (result, s + word_of_nat (length items * length accounts))"
  using assms
proof (induction items arbitrary: s)
  case (Cons x xs)
  obtain i m where "from_chars x = Inr i" "segments (ucast i) = Some m" using Cons.prems by auto
  then show ?case using Cons by (simp add: order_entry_accounts_old algebra_simps)
qed simp

text \<open>
  Claim C30. Building the order entry connections: when the firm is given and every market
  segment of the settings is known, each account gets exactly one connection, to the first
  market segment of the list. For the other segments stream identifiers are used up, but no
  connection is kept: the connections are filed by account.
\<close>

theorem create_order_entry_first_segment:
  assumes "firm_id \<noteq> []" and "distinct (map fst accounts)" and "from_chars item = Inr i" and "segments (ucast i) = Some m"
    and "\<forall>item \<in> set items. \<exists>i. from_chars item = Inr i \<and> segments (ucast i) \<noteq> None"
  shows "create_order_entry from_chars segments mk firm_id accounts (item # items) s =
    Inr (map (\<lambda>(k, name, a). (name, mk (ucast i) (ms_primary_host_ip m) (s + word_of_nat (Suc k)) a)) (enumerate 0 accounts),
         s + word_of_nat (length (item # items) * length accounts))"
proof -
  let ?oe = "map (\<lambda>(k, name, a). (name, mk (ucast i) (ms_primary_host_ip m) (s + word_of_nat (Suc k)) a)) (enumerate 0 accounts)"
  have "map fst ?oe = map fst accounts"
    by (simp add: comp_def split_beta flip: map_map [of fst snd, unfolded comp_def])
  then have keys: "fst ` set accounts \<subseteq> fst ` set ?oe" by (metis order_refl set_map)
  have "create_order_entry from_chars segments mk firm_id accounts (item # items) s =
      order_entry_segments from_chars segments mk accounts items (?oe, s + word_of_nat (length accounts))"
    using assms(1-4) order_entry_accounts_new [of accounts "[]" "mk (ucast i) (ms_primary_host_ip m)" s]
    by (simp add: create_order_entry_def)
  then show ?thesis using order_entry_segments_old [OF keys assms(5), of mk] by (simp add: algebra_simps)
qed

subsection \<open>Requests reach one connection\<close>

text \<open>What a request asks of which account, or why it is refused before it reaches one.\<close>

fun request_input :: "client_request \<Rightarrow> exn + string \<times> oe_input" where
  "request_input (CreateOrder a c r i) = (if a = [] then Inl AssertFailed else Inr (a, InCreateOrder c r i))"
| "request_input (ModifyOrder a a' m r) = (if a = [] \<or> a \<noteq> a' then Inl AssertFailed else Inr (a, InModifyOrder m r))"
| "request_input (CancelOrder a a' r) = (if a = [] \<or> a \<noteq> a' then Inl AssertFailed else Inr (a, InCancelOrder r))"
| "request_input (CancelAllOrders a c i) = (if a = [] then Inl AssertFailed else Inr (a, InCancelAllOrders c i))"
| "request_input MassQuote = Inl NotSupported"
| "request_input CancelQuotes = Inl NotSupported"

lemma on_request_route:
  "on_request req gw = (case request_input req of Inl e \<Rightarrow> (gw, Inl e) | Inr (account, x) \<Rightarrow> route account x gw)"
  by (cases req) simp_all

lemma connection_step_frame:
  assumes "connection_step x account c gw = (gw', e)"
  shows "gw_market_data gw' = gw_market_data gw \<and> gw_receivers gw' = gw_receivers gw \<and>
    e = snd (oe_action (cx_env c) (gw_definitions gw) x (cx_state c)) \<and>
    gw_order_entry gw' = AList.update account (c\<lparr>cx_state := fst (oe_action (cx_env c) (gw_definitions gw) x (cx_state c))\<rparr>) (gw_order_entry gw)"
  using assms by (auto simp: connection_step_def split: prod.splits)

lemma route_result:
  assumes "route account x gw = (gw', r)"
  shows "(map_of (gw_order_entry gw) account = None \<and> gw' = gw \<and> r = Inl RuntimeError) \<or>
    (\<exists>c e. map_of (gw_order_entry gw) account = Some c \<and> connection_step x account c gw = (gw', e) \<and>
       r = (case e of None \<Rightarrow> Inr (cx_stream_id c) | Some e \<Rightarrow> Inl e))"
  using assms by (auto simp: route_def get_order_entry_def split: option.splits prod.splits)


subsection \<open>Runs of the gateway\<close>

text \<open>
  What happens to a gateway: the start, timers, readable multicast sockets, requests of
  clients, control actions, and what the network does to a connection.
\<close>

datatype gw_input =
    GwStart
  | GwTimer "string \<Rightarrow> bool" nanoseconds
  | GwRead nat nanoseconds "bytes list"
  | GwRequest client_request
  | GwControl control_action
  | GwNetwork string oe_input

fun gateway_step ::
    "('p, 'o) md_env \<Rightarrow> mdp_message sbe \<Rightarrow> 'b udp_buffer \<Rightarrow> charconv \<Rightarrow> string option \<Rightarrow> gw_input
     \<Rightarrow> ('p, 'o, 'b, 'd) controller \<Rightarrow> (('p, 'o, 'b, 'd) controller \<times> exn option) option" where
  "gateway_step env sbe ops cc contents GwStart gw =
     (case manager_start env cc contents (gw_market_data gw) of (mg, e) \<Rightarrow> Some (gw\<lparr>gw_market_data := mg\<rparr>, e))"
| "gateway_step env sbe ops cc contents (GwTimer refreshed now) gw = Some (on_gateway_timer env refreshed now gw)"
| "gateway_step env sbe ops cc contents (GwRead k origin received) gw =
     (if k < length (gw_receivers gw)
      then map_option (\<lambda>(mg, e). (gw\<lparr>gw_market_data := mg\<rparr>, e))
             (receiver_read env sbe ops (gw_receivers gw ! k) origin received (gw_market_data gw))
      else Some (gw, None))"
| "gateway_step env sbe ops cc contents (GwRequest req) gw =
     (case on_request req gw of (gw', Inr _) \<Rightarrow> Some (gw', None) | (gw', Inl e) \<Rightarrow> Some (gw', Some e))"
| "gateway_step env sbe ops cc contents (GwControl a) gw = Some (on_control a gw)"
| "gateway_step env sbe ops cc contents (GwNetwork account x) gw =
     (case map_of (gw_order_entry gw) account of
        None \<Rightarrow> Some (gw, None)
      | Some c \<Rightarrow> Some (connection_step x account c gw))"

text \<open>A request that is refused does not end the run; any other exception does.\<close>

inductive gw_run ::
    "('p, 'o) md_env \<Rightarrow> mdp_message sbe \<Rightarrow> 'b udp_buffer \<Rightarrow> charconv \<Rightarrow> string option \<Rightarrow> ('p, 'o, 'b, 'd) controller
     \<Rightarrow> ('p, 'o, 'b, 'd) controller \<Rightarrow> bool"
  for env sbe ops cc contents gw0 where
  gw_start: "gw_run env sbe ops cc contents gw0 gw0"
| gw_step: "gw_run env sbe ops cc contents gw0 gw \<Longrightarrow> gateway_step env sbe ops cc contents x gw = Some (gw', None)
     \<Longrightarrow> gw_run env sbe ops cc contents gw0 gw'"
| gw_refuse: "gw_run env sbe ops cc contents gw0 gw \<Longrightarrow> gateway_step env sbe ops cc contents (GwRequest req) gw = Some (gw', Some e)
     \<Longrightarrow> refusal e \<or> gw' = gw \<Longrightarrow> gw_run env sbe ops cc contents gw0 gw'"

inductive_cases gw_runE: "gw_run env sbe ops cc contents gw0 gw"

definition connection_ok :: "'d connection \<Rightarrow> bool" where
  "connection_ok c \<longleftrightarrow> casts_fail_hard (cx_env c) \<and> seq_inv (cx_state c)"

definition gw_inv :: "('p, 'o, 'b, 'd) controller \<Rightarrow> bool" where
  "gw_inv gw \<longleftrightarrow> wf_manager (gw_market_data gw) \<and> (\<forall>(a, c) \<in> set (gw_order_entry gw). connection_ok c)"

lemma connection_step_inv:
  assumes "gw_inv gw" and "connection_ok c" and "connection_step x account c gw = (gw', e)" and "\<forall>y. e = Some y \<longrightarrow> refusal y"
  shows "gw_inv gw'"
proof -
  obtain s where act: "oe_action (cx_env c) (gw_definitions gw) x (cx_state c) = (s, e)"
    using connection_step_frame [OF assms(3)] by (metis prod.collapse)
  have "seq_inv s"
  proof (cases e)
    case None
    then show ?thesis using keeps_seq_inv act assms(2) by (auto simp: connection_ok_def)
  next
    case (Some y)
    then have "s = cx_state c" using refused_unchanged' act assms(2,4) by (auto simp: connection_ok_def)
    then show ?thesis using assms(2) by (simp add: connection_ok_def)
  qed
  then have "connection_ok (c\<lparr>cx_state := s\<rparr>)" using assms(2) by (simp add: connection_ok_def)
  then show ?thesis
    using connection_step_frame [OF assms(3)] act assms(1) set_alist_update [of account "c\<lparr>cx_state := s\<rparr>" "gw_order_entry gw"]
    by (auto simp: gw_inv_def)
qed

lemma deliver_completed:
  assumes "deliver h ms s = (s', None)" and "\<And>m s s'. m \<in> set ms \<Longrightarrow> I s \<Longrightarrow> h m s = (s', None) \<Longrightarrow> I s'" and "I s"
  shows "I s'"
  using assms
proof (induction ms arbitrary: s)
  case (Cons m ms)
  obtain t where t: "h m s = (t, None)" "deliver h ms t = (s', None)"
    using Cons.prems(1) by (auto split: prod.splits option.splits)
  then have "I t" using Cons.prems(2,3) by auto
  then show ?case using Cons.IH [OF t(2)] Cons.prems(2) by auto
qed simp

text \<open>A read is a run of the manager on the packets up to the first empty one.\<close>

lemma receiver_read_run:
  "receiver_read env sbe ops rc origin received mg =
     manager_run env sbe ops cc contents
       (map (\<lambda>p. MdPacket (rc_channel_id rc) (rc_connection_type rc) (rc_priority rc) p origin) (takeWhile (\<lambda>p. p \<noteq> []) received)) mg"
  by (induction received arbitrary: mg) (auto simp: manager_run_def split: option.split)

lemma receiver_read_wf:
  assumes "wf_manager mg" and "receiver_read env sbe ops rc origin received mg = Some (mg', e)"
  shows "wf_manager mg'"
  using md.run_inv [OF assms(1)] assms(2) unfolding receiver_read_run [where cc = undefined and contents = None] manager_run_def
  by blast

lemma gateway_step_inv:
  assumes inv: "gw_inv gw" and step: "gateway_step env sbe ops cc contents x gw = Some (gw', None)"
  shows "gw_inv gw'"
proof (cases x)
  case GwStart
  then obtain mg where "manager_start env cc contents (gw_market_data gw) = (mg, None)" "gw' = gw\<lparr>gw_market_data := mg\<rparr>"
    using step by (auto split: prod.splits)
  then show ?thesis using manager_step_good [of "gw_market_data gw" env sbe ops cc contents MdStart] inv by (auto simp: gw_inv_def)
next
  case (GwTimer refreshed now)
  let ?gw = "gw\<lparr>gw_market_data := manager_timer env now (gw_market_data gw)\<rparr>"
  have gw: "gw_inv ?gw"
    using manager_step_good [of "gw_market_data gw" env sbe ops cc contents "MdTimer now"] inv by (auto simp: gw_inv_def)
  have run: "deliver (\<lambda>(account, c). connection_step (InTimer (refreshed account) now) account c) (gw_order_entry gw) ?gw = (gw', None)"
    using step GwTimer by (simp add: on_gateway_timer_def)
  show ?thesis
  proof (rule deliver_completed [where I = gw_inv, OF run _ gw])
    fix ac t t' assume ac: "ac \<in> set (gw_order_entry gw)" and t: "gw_inv t"
      and st: "(\<lambda>(account, c). connection_step (InTimer (refreshed account) now) account c) ac t = (t', None)"
    have "connection_ok (snd ac)" using inv ac by (cases ac) (auto simp: gw_inv_def)
    then show "gw_inv t'" using connection_step_inv [OF t] st by (simp add: case_prod_unfold)
  qed
next
  case (GwRead k origin received)
  show ?thesis
  proof (cases "k < length (gw_receivers gw)")
    case True
    then obtain mg where "receiver_read env sbe ops (gw_receivers gw ! k) origin received (gw_market_data gw) = Some (mg, None)"
        and gw': "gw' = gw\<lparr>gw_market_data := mg\<rparr>"
      using step GwRead by auto
    then have "wf_manager mg" using receiver_read_wf inv by (auto simp: gw_inv_def)
    then show ?thesis using inv gw' by (simp add: gw_inv_def)
  qed (use step inv GwRead in simp)
next
  case (GwRequest req)
  obtain r where req: "on_request req gw = (gw', Inr r)"
    using step GwRequest by (auto split: prod.splits sum.splits)
  then obtain account y where "route account y gw = (gw', Inr r)"
    by (auto simp: on_request_route split: sum.splits prod.splits)
  from route_result [OF this] obtain c where c: "map_of (gw_order_entry gw) account = Some c"
      and st: "connection_step y account c gw = (gw', None)"
    by (auto split: option.splits)
  have "connection_ok c" using inv c by (auto simp: gw_inv_def dest: map_of_SomeD)
  then show ?thesis using connection_step_inv [OF inv _ st] by simp
next
  case (GwControl a)
  then show ?thesis using step inv by (cases a) (auto simp: gw_inv_def)
next
  case (GwNetwork account y)
  show ?thesis
  proof (cases "map_of (gw_order_entry gw) account")
    case (Some c)
    then have "connection_ok c" using inv by (auto simp: gw_inv_def dest: map_of_SomeD)
    then show ?thesis using connection_step_inv [OF inv, of c y account gw' None] step Some GwNetwork by simp
  qed (use step inv GwNetwork in simp)
qed

lemma gateway_refuse_inv:
  assumes inv: "gw_inv gw" and step: "gateway_step env sbe ops cc contents (GwRequest req) gw = Some (gw', Some e)" and "refusal e"
  shows "gw_inv gw'"
proof -
  have req: "on_request req gw = (gw', Inl e)" using step by (auto split: prod.splits sum.splits)
  show ?thesis
  proof (cases "request_input req")
    case (Inl x)
    then show ?thesis using req inv by (simp add: on_request_route)
  next
    case (Inr ax)
    then have "route (fst ax) (snd ax) gw = (gw', Inl e)" using req by (simp add: on_request_route case_prod_unfold)
    from route_result [OF this] show ?thesis
    proof (elim disjE exE conjE)
      fix c e' assume c: "map_of (gw_order_entry gw) (fst ax) = Some c" and st: "connection_step (snd ax) (fst ax) c gw = (gw', e')"
        and r: "(Inl e :: exn + u16) = (case e' of None \<Rightarrow> Inr (cx_stream_id c) | Some e \<Rightarrow> Inl e)"
      have "e' = Some e" using r by (cases e') auto
      moreover have "connection_ok c" using inv c by (auto simp: gw_inv_def dest: map_of_SomeD)
      ultimately show ?thesis using connection_step_inv [OF inv _ st] assms(3) by simp
    qed (use inv in simp)
  qed
qed

lemma gw_run_inv: "gw_run env sbe ops cc contents gw0 gw \<Longrightarrow> gw_inv gw0 \<Longrightarrow> gw_inv gw"
  by (induction rule: gw_run.induct) (auto intro: gateway_step_inv gateway_refuse_inv)

text \<open>A freshly built gateway satisfies the invariant.\<close>

lemma order_entry_accounts_all:
  assumes "\<forall>s a. P (mk s a)" and "\<forall>x \<in> set result. P (snd x)"
  shows "\<forall>x \<in> set (fst (order_entry_accounts mk accounts (result, s))). P (snd x)"
  using assms(2)
proof (induction accounts arbitrary: result s)
  case (Cons x xs)
  obtain name account where x: "x = (name, account)" by fastforce
  have "\<forall>y \<in> set (emplace name (mk (s + 1) account) result). P (snd y)"
    using Cons.prems assms(1) by (simp add: emplace_def)
  then show ?case using Cons.IH x by simp
qed simp

lemma order_entry_segments_all:
  assumes "\<forall>i h s a. P (mk i h s a)" and "\<forall>x \<in> set (fst st). P (snd x)"
    and "order_entry_segments from_chars segments mk accounts items st = Inr r"
  shows "\<forall>x \<in> set (fst r). P (snd x)"
  using assms(2,3)
proof (induction items arbitrary: st)
  case (Cons item items)
  obtain i :: u16 and m :: market_segment where r: "order_entry_segments from_chars segments mk accounts items
      (order_entry_accounts (mk (ucast i) (ms_primary_host_ip m)) accounts st) = Inr r"
    using Cons.prems(2) by (auto split: option.splits)
  show ?case
    by (rule Cons.IH [OF _ r])
      (use order_entry_accounts_all [of P "mk (ucast i) (ms_primary_host_ip m)" "fst st" accounts "snd st"] assms(1) Cons.prems(1) in simp)
qed simp

abbreviation connections_with where
  "connections_with base mac d \<equiv> \<lambda>segment host stream account. make_order_entry base mac d stream account segment host"

lemma make_controller_inv:
  assumes "make_controller env cc from16 from8 cfg settings buffer (connections_with base mac d) = Inr gw"
    and "casts_fail_hard base"
  shows "gw_inv gw"
proof -
  from assms(1) obtain accounts defs mdp segments mg s rs oe s'
    where defs: "make_security_definitions env cc (gs_secdef_config_file settings) = Inr defs"
      and mg: "make_manager mdp buffer (gs_multicast_channel_ids settings) (empty_shared\<lparr>definitions := defs\<rparr>) 0 = Inr (mg, s)"
      and oe: "create_order_entry from16 segments (connections_with base mac d) (gs_ilink_firm_id settings) accounts
        (gs_ilink_market_segment_ids settings) s = Inr (oe, s')"
      and gw: "gw = \<lparr>gw_market_data = mg, gw_receivers = rs, gw_order_entry = oe, gw_server = []\<rparr>"
    by (auto simp: make_controller_def split_beta Let_def)
  have ok: "\<forall>i h s a. connection_ok (connections_with base mac d i h s a)"
    using assms(2) seq_inv_initial by (simp add: connection_ok_def make_order_entry_def casts_fail_hard_def)
  have "\<forall>x \<in> set oe. connection_ok (snd x)"
    using order_entry_segments_all [where P = connection_ok, OF ok, of "([], s)" from16 segments accounts
        "gs_ilink_market_segment_ids settings" "(oe, s')"] oe
    by (auto simp: create_order_entry_def split: if_splits)
  moreover have "wf_manager mg" by (rule make_manager_wf [OF mg]) (simp add: make_security_definitions_wf [OF defs])
  ultimately show ?thesis using gw by (auto simp: gw_inv_def)
qed

text \<open>
  Claim C3. The gateway as a whole: from the state in which it is built, whatever packets,
  requests, reports and timers come in whatever order, the market data stays well formed, and
  on every order entry connection the messages since the connection was last lost are
  numbered 1, 2, 3 and so on, although the connections share the security definitions that the
  market data changes under them.
\<close>

theorem gateway_sequences:
  assumes "make_controller env cc from16 from8 cfg settings buffer (connections_with base mac d) = Inr gw0"
    and "casts_fail_hard base" and "gw_run env sbe ops cc (gs_secdef_config_file settings) gw0 gw"
  shows "wf_manager (gw_market_data gw) \<and>
    (\<forall>account c. map_of (gw_order_entry gw) account = Some c \<longrightarrow>
       (let ns = session_nums (ses_effects (cx_state c)) in ns = map seq_at [1..<Suc (length ns)]))"
proof -
  have inv: "gw_inv gw" by (rule gw_run_inv [OF assms(3) make_controller_inv [OF assms(1,2)]])
  have "seq_inv (cx_state c)" if "map_of (gw_order_entry gw) account = Some c" for account c
    using inv map_of_SomeD [OF that] by (auto simp: gw_inv_def connection_ok_def)
  then show ?thesis using inv by (simp add: gw_inv_def seq_inv_def Let_def)
qed

text \<open>
  Claim C32. The order entry configuration of a document: a market segment is found under its
  number with the label and the trimmed texts the document has for it; of two segments with
  the same number the first one counts.
\<close>

theorem read_ilink_config_document:
  assumes "\<forall>x \<in> set xs. proper_segment x \<and> from_chars (xs_id x) = Inr (ids x)"
  shows "read_ilink_config from_chars (Some (ilink_document blank xs)) = Inr (map_of (map (\<lambda>x. (ids x, meant_segment x)) xs))"
proof -
  have "deliver ilink_segment calls m = (map_of calls ++ m, None)" for calls m
  proof (induction calls arbitrary: m)
    case (Cons x xs)
    then show ?case by (cases x) (auto simp: ilink_segment_def try_emplace_def fun_eq_iff map_add_def split: option.split)
  qed simp
  then show ?thesis using ilink_config_dispatch_document [OF assms, of ilink_segment blank Map.empty] by (simp add: read_ilink_config_def)
qed

subsection \<open>A concrete gateway\<close>

definition sample_account :: gw_account where
  "sample_account = \<lparr>ga_name = ''A1'', ga_login = ''ABC'', ga_password = ''key'', ga_secret = ''s''\<rparr>"

definition sample_gw_config :: "(string list, string, nat) gw_config" where
  "sample_gw_config = config_account True sample_account (empty_gw_config [])"

definition sample_segments :: "u8 \<rightharpoonup> market_segment" where
  "sample_segments = [64 \<mapsto> empty_market_segment\<lparr>ms_primary_host_ip := ''69.50.112.142''\<rparr>, 68 \<mapsto> empty_market_segment]"

definition sample_gw_connection :: "string \<times> string \<times> string \<Rightarrow> xml_connection" where
  "sample_gw_connection k =
     (case k of (name, ty, feed) \<Rightarrow>
       \<lparr>xc_id = name, xc_feed_type = ty, xc_type = [], xc_protocol = [], xc_ip = [''224.0.31.1''], xc_host_ips = [],
        xc_port = [''14310''], xc_feed = [feed]\<rparr>)"

definition sample_gw_channel :: xml_channel where
  "sample_gw_channel = \<lparr>xh_id = ''310'', xh_label = [], xh_products = [],
     xh_connections = map sample_gw_connection
       [(''310NA'', ''N'', ''A''), (''310NB'', ''N'', ''B''), (''310SA'', ''S'', ''A''), (''310SB'', ''S'', ''B''),
        (''310SMBOA'', ''SMBO'', ''A''), (''310SMBOB'', ''SMBO'', ''B''), (''310IA'', ''I'', ''A''), (''310IB'', ''I'', ''B'')]\<rparr>"

definition sample_mdp_events :: "xml_event list" where
  "sample_mdp_events = mdp_document '' '' [sample_gw_channel]"

definition sample_ilink_events :: "xml_event list" where
  "sample_ilink_events =
     [StartElement ''marketsegment'' [(''id'', ''64'')], StartElement ''primary-host-ip'' [], CharacterData ''69.50.112.142'',
      EndElement ''primary-host-ip'', EndElement ''marketsegment'',
      StartElement ''marketsegment'' [(''id'', ''68'')], EndElement ''marketsegment'']"

definition sample_settings :: gw_settings where
  "sample_settings = \<lparr>gs_secdef_config_file = None, gs_multicast_config_file = sample_mdp_events, gs_multicast_channel_ids = [310],
     gs_ilink_config_file = Some sample_ilink_events, gs_ilink_firm_id = ''F1'', gs_ilink_market_segment_ids = [''64'', ''68'']\<rparr>"

definition sample_gateway :: "exn + (u32, u32, (u32 \<times> bytes) list, download_state) controller" where
  "sample_gateway = make_controller InstrumentDefinition.sample_env sample_cc sample_from_chars sample_from_chars sample_gw_config
     sample_settings [] (connections_with OrderProperties.sample_env (\<lambda>_ _. []) DS_UNDEFINED)"

lemma sample_gw_texts:
  "trim ''224.0.31.1'' = ''224.0.31.1''" "trim ''14310'' = ''14310''" "trim ''A'' = ''A''" "trim ''B'' = ''B''"
  "sample_from_chars ''14310'' = Inr (14310 :: u16)"
  by (simp_all add: trim_def is_ascii_space_def sample_from_chars_def read_nat_def)

lemma sample_gw_connections:
  "ch_connections (meant_channel sample_gw_channel) =
     map (\<lambda>x. (xc_id x, meant_connection x)) (xh_connections sample_gw_channel)"
  by (simp add: meant_channel_def sample_gw_channel_def sample_gw_connection_def emplace_def)

lemma sample_mdp_events_read:
  "mdp_config_dispatch sample_from_chars (config_handler sample_from_chars) sample_mdp_events [] = (sample_connections, None)"
proof -
  have "\<forall>c \<in> set [sample_gw_channel]. named c \<and> sample_from_chars (xh_id c) = Inr (310 :: u16)"
    by (simp add: sample_gw_channel_def sample_gw_connection_def named_def sample_from_chars_def read_nat_def)
  note document = mdp_config_dispatch_document [OF this, of "config_handler sample_from_chars" "'' ''" "[]"]
  show ?thesis
    by (simp only: sample_mdp_events_def document)
      (simp add: config_handler_def sample_gw_connections, simp add: sample_gw_channel_def sample_gw_connection_def
        meant_connection_def sample_gw_texts config_connection_def get_type_def get_priority_def subscript_def emplace_def
        sample_connections_def sample_cfg_connection_def)
qed

lemma sample_shared_made: "make_shared sample_from_chars sample_from_chars sample_settings = Inr (sample_config, sample_segments)"
proof -
  have "make_config sample_from_chars sample_mdp_events = Inr sample_config"
    by (simp add: make_config_def sample_mdp_events_read sample_config_def)
  moreover have "read_ilink_config sample_from_chars (Some sample_ilink_events) = Inr sample_segments"
    by (simp add: read_ilink_config_def ilink_config_dispatch_def sample_ilink_events_def ilink_reader_init_def ilink_start_element_def
        ilink_end_element_def market_segment_element_def sample_from_chars_def read_nat_def ilink_segment_def try_emplace_def
        sample_segments_def empty_market_segment_def trim_def is_ascii_space_def)
  ultimately show ?thesis by (simp add: make_shared_def sample_settings_def)
qed

lemma sample_config_consistent: "consistent_config sample_config"
  by (simp add: consistent_config_def sample_config_def wf_connections_def sample_connections_def)

lemma sample_from_chars_segments [simp]:
  "sample_from_chars ''64'' = Inr (64 :: u16)" "sample_from_chars ''68'' = Inr (68 :: u16)"
  by (simp_all add: sample_from_chars_def read_nat_def)

lemma sample_gateway_made: "\<exists>gw. sample_gateway = Inr gw \<and> map fst (gw_order_entry gw) = [''A1'']"
proof -
  obtain mg s where mg: "make_manager sample_config ([] :: (u32 \<times> bytes) list) [310] (empty_shared :: (u32, u32) shared) 0 = Inr (mg, s)"
    using sample_manager_made by blast
  have acc: "create_accounts sample_gw_config = Inr [(''A1'', sample_account)]"
    by (simp add: create_accounts_def sample_gw_config_def empty_gw_config_def config_account_def sample_account_def emplace_def make_account_def
        get_login_def get_password_def get_secret_def)
  have "\<forall>(i, ty, pr) \<in> set (concat (map (receivers_of False) [310])).
      (\<exists>name. manager_get_name i ty pr mg = Inr name) \<and> config_find i ty pr sample_config \<noteq> None"
    using manager_names [OF mg sample_config_consistent, of 310] by (auto simp: receivers_of_def)
  then obtain rs where rs: "create_mdp_receivers sample_config mg False [310] = Inr rs"
    using make_receivers_ok unfolding create_mdp_receivers_def by blast
  show ?thesis
    using mg acc rs by (simp add: sample_gateway_def make_controller_def make_security_definitions_def sample_shared_made
        create_order_entry_def emplace_def, simp add: sample_settings_def sample_segments_def empty_shared_def emplace_def)
qed

theorem gateway_sequences_witness:
  "\<exists>gw0 gw. sample_gateway = Inr gw0 \<and> gw_run InstrumentDefinition.sample_env sample_mdp_sbe list_buffer sample_cc None gw0 gw \<and>
     gw \<noteq> gw0 \<and> wf_manager (gw_market_data gw)"
proof -
  obtain gw0 where gw0: "sample_gateway = Inr gw0" using sample_gateway_made by blast
  let ?run = "gw_run InstrumentDefinition.sample_env sample_mdp_sbe list_buffer sample_cc None gw0"
  have run: "?run (gw0\<lparr>gw_server := gw_server gw0 @ [ENABLED]\<rparr>)"
    by (rule gw_step [OF gw_start, of _ _ _ _ _ "GwControl Action_ENABLE"]) simp
  have "gs_secdef_config_file sample_settings = None" by (simp add: sample_settings_def)
  from gateway_sequences [OF gw0 [unfolded sample_gateway_def] sample_casts, unfolded this, OF run]
  have "wf_manager (gw_market_data (gw0\<lparr>gw_server := gw_server gw0 @ [ENABLED]\<rparr>))" by simp
  moreover have "gw0\<lparr>gw_server := gw_server gw0 @ [ENABLED]\<rparr> \<noteq> gw0" by (cases gw0) simp
  ultimately show ?thesis using gw0 run by blast
qed

theorem create_order_entry_first_segment_witness:
  "\<exists>s. create_order_entry sample_from_chars sample_segments (connections_with OrderProperties.sample_env (\<lambda>_ _. []) DS_UNDEFINED)
      ''F1'' [(''A1'', sample_account)] [''64'', ''68''] 8 =
    Inr ([(''A1'', make_order_entry OrderProperties.sample_env (\<lambda>_ _. []) DS_UNDEFINED 9 sample_account 64 ''69.50.112.142'')], s) \<and> s = 10"
  using create_order_entry_first_segment [of "''F1''" "[(''A1'', sample_account)]" sample_from_chars "''64''" 64 sample_segments
      "empty_market_segment\<lparr>ms_primary_host_ip := ''69.50.112.142''\<rparr>" "[''68'']"
      "connections_with OrderProperties.sample_env (\<lambda>_ _. []) DS_UNDEFINED" 8]
  by (simp add: sample_segments_def)

theorem read_ilink_config_document_witness:
  "\<exists>m. read_ilink_config sample_from_chars (Some (ilink_document '' '' [sample_segment])) = Inr m \<and>
     map_option ms_primary_host_ip (m 64) = Some ''69.50.112.142''"
proof -
  have "\<forall>x \<in> set [sample_segment]. proper_segment x \<and> sample_from_chars (xs_id x) = Inr (64 :: u8)"
    by (simp add: sample_segment_def proper_segment_def sample_from_chars_def read_nat_def)
  from read_ilink_config_document [OF this, of "'' ''"] show ?thesis
    by (simp add: sample_segment_def meant_segment_def market_segment_element_def empty_market_segment_def trim_def is_ascii_space_def)
qed

definition sample_cancel_all :: cancel_all_orders where
  "sample_cancel_all = \<lparr>cao_order_id = 0, cao_exchange = [], cao_symbol = [], cao_side = BUY, cao_strategy_id = 0\<rparr>"



end
