(* ===== verification/Import.thy ===== *)
theory Import
  imports Manager
begin

section \<open>Importing a capture file\<close>

text \<open>
  \<^verbatim>\<open>import/controller.cpp\<close>: the packets of a capture file are fed to a market data
  manager as if they had just been received, timers included, and what the manager publishes
  is written to an event log. The reader of the capture file, the regular expressions, the
  clocks, the encoder and the event log itself are library code.
\<close>

record trace_info =
  ti_source_receive_time :: nanoseconds
  ti_origin_create_time :: nanoseconds
  ti_origin_create_time_utc :: nanoseconds

text \<open>The parts of a written message that vary: its header, its information and the event.\<close>

record log_message =
  lm_source_seqno :: u64
  lm_header_origin_create_time_utc :: nanoseconds
  lm_header_receive_time_utc :: nanoseconds
  lm_receive_time_utc :: nanoseconds
  lm_origin_create_time :: nanoseconds
  lm_origin_create_time_utc :: nanoseconds
  lm_event :: event

datatype log_effect = CreateProducer nanoseconds | Write log_message | Close

record 'r import_settings =
  is_cache_all_reference_data :: bool
  is_mbp_mbo :: bool
  is_symbols_regex :: "'r list"
  is_match :: "'r \<Rightarrow> string \<Rightarrow> bool"
  is_timer_now :: nanoseconds
  is_start_trace :: trace_info

record ('p, 'o, 'b) importer =
  im_market_data :: "('p, 'o, 'b) manager"
  im_source_seqno :: u64
  im_producer :: bool
  im_log :: "log_effect list"
  im_market_by_price :: "string \<rightharpoonup> string"
  im_market_by_order :: "string \<rightharpoonup> string"
  im_initialized :: bool
  im_last_timer_update :: nanoseconds

subsection \<open>Discarding symbols\<close>

text \<open>
  The decision is remembered for every symbol. The manager sees the decision as the function
  \<open>discard_symbol\<close> of its environment; that the remembered answers are those of a function
  (\<open>discards\<close> below) is shown first, so the cache is not part of the importer's state.
\<close>

fun no_match :: "('r \<Rightarrow> string \<Rightarrow> bool) \<Rightarrow> 'r list \<Rightarrow> string \<Rightarrow> bool \<Rightarrow> bool" where
  "no_match rx_match [] name d = d"
| "no_match rx_match (regex # regexes) name d = (if rx_match regex name then False else no_match rx_match regexes name d)"

definition import_discard_symbol ::
    "'r import_settings \<Rightarrow> string \<Rightarrow> (string \<rightharpoonup> bool) \<Rightarrow> bool \<times> (string \<rightharpoonup> bool)" where
  "import_discard_symbol cfg name cache =
     (case cache name of
        Some b \<Rightarrow> (b, cache)
      | None \<Rightarrow>
          let d = no_match (is_match cfg) (is_symbols_regex cfg) name (is_symbols_regex cfg \<noteq> [])
          in (d, try_emplace cache name d))"

subsection \<open>Writing\<close>

definition create_message_info :: "trace_info \<Rightarrow> event \<Rightarrow> u64 \<Rightarrow> log_message" where
  "create_message_info t e source_seqno =
     \<lparr>lm_source_seqno = source_seqno,
      lm_header_origin_create_time_utc = ti_origin_create_time t, lm_header_receive_time_utc = ti_origin_create_time_utc t,
      lm_receive_time_utc = ti_origin_create_time_utc t,
      lm_origin_create_time = ti_origin_create_time t, lm_origin_create_time_utc = ti_origin_create_time_utc t,
      lm_event = e\<rparr>"

definition append_event :: "trace_info \<Rightarrow> event \<Rightarrow> ('p, 'o, 'b) importer \<Rightarrow> ('p, 'o, 'b) importer" where
  "append_event t e im =
     (let seqno = im_source_seqno im + 1;
          info = create_message_info t e seqno;
          im = im\<lparr>im_source_seqno := seqno\<rparr>;
          im = (if im_producer im then im
                else im\<lparr>im_producer := True, im_log := im_log im @ [CreateProducer (lm_origin_create_time_utc info)]\<rparr>)
      in im\<lparr>im_log := im_log im @ [Write info]\<rparr>)"

text \<open>The books are created when they are first asked for, with the exchange of that request.\<close>

definition get_books :: "string \<Rightarrow> string \<Rightarrow> ('p, 'o, 'b) importer \<Rightarrow> ('p, 'o, 'b) importer" where
  "get_books ex name im =
     im\<lparr>im_market_by_price := try_emplace (im_market_by_price im) name ex,
        im_market_by_order := try_emplace (im_market_by_order im) name ex\<rparr>"

fun import_event :: "'r import_settings \<Rightarrow> trace_info \<Rightarrow> event \<Rightarrow> ('p, 'o, 'b) importer \<Rightarrow> ('p, 'o, 'b) importer" where
  "import_event cfg t (EvReferenceData r) im =
     get_books (rd_exchange r) (rd_symbol r)
       (if is_cache_all_reference_data cfg \<or> \<not> rd_discard r then append_event t (EvReferenceData r) im else im)"
| "import_event cfg t (EvMarketByOrder u ords ut) im =
     (let im = append_event t (EvMarketByOrder u ords ut) im
      in if is_mbp_mbo cfg then get_books (ui_exchange u) (ui_symbol u) im else im)"
| "import_event cfg t e im = append_event t e im"

text \<open>
  The manager calls the handlers while it works; the model runs them afterwards on the events
  the manager has added, which makes no difference because they do not act on the manager.
\<close>

definition with_manager ::
    "'r import_settings \<Rightarrow> trace_info \<Rightarrow> ('p, 'o, 'b) manager \<Rightarrow> ('p, 'o, 'b) importer \<Rightarrow> ('p, 'o, 'b) importer" where
  "with_manager cfg t mg im =
     fold (import_event cfg t) (drop (length (published (mg_shared (im_market_data im)))) (published (mg_shared mg)))
       (im\<lparr>im_market_data := mg\<rparr>)"

subsection \<open>Packets\<close>

definition TIMER_FREQUENCY :: nanoseconds where
  "TIMER_FREQUENCY = 100000000"

function timer_loop ::
    "('p, 'o) md_env \<Rightarrow> 'r import_settings \<Rightarrow> nanoseconds \<Rightarrow> ('p, 'o, 'b) importer \<Rightarrow> ('p, 'o, 'b) importer" where
  "timer_loop env cfg timestamp im =
     (if im_last_timer_update im < timestamp then
        if im_last_timer_update im \<noteq> 0 then
          timer_loop env cfg timestamp
            (im\<lparr>im_last_timer_update := im_last_timer_update im + TIMER_FREQUENCY,
                im_market_data := manager_timer env (is_timer_now cfg) (im_market_data im)\<rparr>)
        else timer_loop env cfg timestamp (im\<lparr>im_last_timer_update := timestamp\<rparr>)
      else im)"
  by pat_completeness auto
termination
  by (relation "measure (\<lambda>(env, cfg, timestamp, im). nat (timestamp - im_last_timer_update im))") (auto simp: TIMER_FREQUENCY_def)

declare timer_loop.simps [simp del]

text \<open>Of every channel both incremental feeds are used and the primary feed of the others.\<close>

definition include_feed :: "connection_type \<Rightarrow> priority \<Rightarrow> bool" where
  "include_feed ty pr \<longleftrightarrow> (if ty = CT_INCREMENTAL then True else pr = PRIMARY)"

record pcap_packet =
  pp_timestamp :: nanoseconds
  pp_destination_address :: string
  pp_destination_port :: u16
  pp_payload :: bytes

definition start_once ::
    "('p, 'o) md_env \<Rightarrow> charconv \<Rightarrow> string option \<Rightarrow> 'r import_settings \<Rightarrow> ('p, 'o, 'b) importer \<Rightarrow> ('p, 'o, 'b) importer \<times> exn option" where
  "start_once env cc contents cfg im =
     (if im_initialized im then (im, None)
      else case manager_start env cc contents (im_market_data im) of
             (mg, e) \<Rightarrow> (with_manager cfg (is_start_trace cfg) mg (im\<lparr>im_initialized := True\<rparr>), e))"

definition import_dispatch ::
    "('p, 'o) md_env \<Rightarrow> mdp_message sbe \<Rightarrow> 'b udp_buffer \<Rightarrow> mdp_config \<Rightarrow> 'r import_settings \<Rightarrow> pcap_packet
     \<Rightarrow> ('p, 'o, 'b) importer \<Rightarrow> (('p, 'o, 'b) importer \<times> exn option) option" where
  "import_dispatch env sbe ops mdp cfg p im =
     (let timestamp = pp_timestamp p;
          t = \<lparr>ti_source_receive_time = timestamp, ti_origin_create_time = timestamp, ti_origin_create_time_utc = timestamp\<rparr>
      in case config_find_address (pp_destination_address p) (pp_destination_port p) mdp of
           None \<Rightarrow> Some (im, None)
         | Some (channel_id, ty, pr) \<Rightarrow>
             if include_feed ty pr
             then map_option (\<lambda>(mg, e). (with_manager cfg t mg im, e))
                    (manager_dispatch env sbe ops channel_id ty pr (pp_payload p) timestamp (im_market_data im))
             else Some (im, None))"

definition import_packet ::
    "('p, 'o) md_env \<Rightarrow> mdp_message sbe \<Rightarrow> 'b udp_buffer \<Rightarrow> charconv \<Rightarrow> string option \<Rightarrow> mdp_config \<Rightarrow> 'r import_settings
     \<Rightarrow> pcap_packet \<Rightarrow> ('p, 'o, 'b) importer \<Rightarrow> (('p, 'o, 'b) importer \<times> exn option) option" where
  "import_packet env sbe ops cc contents mdp cfg p im =
     (case start_once env cc contents cfg im of
        (im, Some e) \<Rightarrow> Some (im, Some e)
      | (im, None) \<Rightarrow> import_dispatch env sbe ops mdp cfg p (timer_loop env cfg (pp_timestamp p) im))"

text \<open>The whole file; the event log is closed at the end if one was opened.\<close>

fun import_packets ::
    "('p, 'o) md_env \<Rightarrow> mdp_message sbe \<Rightarrow> 'b udp_buffer \<Rightarrow> charconv \<Rightarrow> string option \<Rightarrow> mdp_config \<Rightarrow> 'r import_settings
     \<Rightarrow> pcap_packet list \<Rightarrow> ('p, 'o, 'b) importer \<Rightarrow> (('p, 'o, 'b) importer \<times> exn option) option" where
  "import_packets env sbe ops cc contents mdp cfg [] im =
     Some (if im_producer im then im\<lparr>im_log := im_log im @ [Close]\<rparr> else im, None)"
| "import_packets env sbe ops cc contents mdp cfg (p # ps) im =
     (case import_packet env sbe ops cc contents mdp cfg p im of
        None \<Rightarrow> None
      | Some (im', Some e) \<Rightarrow> Some (im', Some e)
      | Some (im', None) \<Rightarrow> import_packets env sbe ops cc contents mdp cfg ps im')"

definition make_importer :: "('p, 'o, 'b) manager \<Rightarrow> ('p, 'o, 'b) importer" where
  "make_importer mg =
     \<lparr>im_market_data = mg, im_source_seqno = 0, im_producer = False, im_log = [],
      im_market_by_price = Map.empty, im_market_by_order = Map.empty, im_initialized = False, im_last_timer_update = 0\<rparr>"

subsection \<open>Discarding: the cache is transparent\<close>

text \<open>The construction of the importer: the stream identifiers start from 0.\<close>

definition make_import_controller ::
    "('p, 'o) md_env \<Rightarrow> charconv \<Rightarrow> (string \<Rightarrow> exn + u16) \<Rightarrow> xml_event list \<Rightarrow> string option \<Rightarrow> u16 list \<Rightarrow> 'b
     \<Rightarrow> exn + mdp_config \<times> ('p, 'o, 'b) importer" where
  "make_import_controller env cc from_chars config_file secdef_file channel_ids buffer =
     sum_bind (make_config from_chars config_file) (\<lambda>config.
     sum_bind (make_security_definitions env cc secdef_file) (\<lambda>d.
     sum_bind (make_manager config buffer channel_ids (empty_shared\<lparr>definitions := d\<rparr>) 0) (\<lambda>(mg, _).
       Inr (config, make_importer mg))))"

definition discards :: "'r import_settings \<Rightarrow> string \<Rightarrow> bool" where
  "discards cfg name \<longleftrightarrow> is_symbols_regex cfg \<noteq> [] \<and> \<not> (\<exists>r \<in> set (is_symbols_regex cfg). is_match cfg r name)"

lemma no_match_discards: "no_match m rs name d \<longleftrightarrow> d \<and> (\<forall>r \<in> set rs. \<not> m r name)"
  by (induction rs) auto

fun discard_answers :: "'r import_settings \<Rightarrow> string list \<Rightarrow> (string \<rightharpoonup> bool) \<Rightarrow> bool list" where
  "discard_answers cfg [] cache = []"
| "discard_answers cfg (name # names) cache =
     (case import_discard_symbol cfg name cache of (b, cache') \<Rightarrow> b # discard_answers cfg names cache')"

lemma discard_answers_cached:
  assumes "\<forall>name b. cache name = Some b \<longrightarrow> b = discards cfg name"
  shows "discard_answers cfg names cache = map (discards cfg) names"
  using assms
proof (induction names arbitrary: cache)
  case (Cons name names)
  let ?cache = "if cache name = None then cache(name \<mapsto> discards cfg name) else cache"
  have c: "import_discard_symbol cfg name cache = (discards cfg name, ?cache)"
    using Cons.prems
    by (cases "cache name") (auto simp: import_discard_symbol_def Let_def no_match_discards discards_def try_emplace_def)
  have "\<forall>n b. ?cache n = Some b \<longrightarrow> b = discards cfg n" using Cons.prems by simp
  from Cons.IH [OF this] c show ?case by simp
qed simp

text \<open>
  Asking the importer, in any order and as often as one likes, whether symbols are
  to be discarded gives the answers of the rule without the cache: with no pattern nothing is
  discarded, otherwise exactly the symbols that match none.
\<close>

theorem import_discard_equivalent: "discard_answers cfg names Map.empty = map (discards cfg) names"
  by (rule discard_answers_cached) simp

subsection \<open>Timers\<close>

text \<open>
  Claim C28. The loop over the timers ends. The first packet only sets the clock; for a later
  packet the market data gets one timer for every tenth of a second that has begun since the
  last one, and the clock is left less than a tenth of a second ahead of the packet. A packet
  that is not later than the clock gives no timer.
\<close>

theorem timer_loop_times:
  assumes "0 \<le> im_last_timer_update im" and "0 < timestamp"
  shows "\<exists>k. timer_loop env cfg timestamp im =
      im\<lparr>im_last_timer_update :=
           (if im_last_timer_update im = 0 then timestamp else im_last_timer_update im + int k * TIMER_FREQUENCY),
         im_market_data := (manager_timer env (is_timer_now cfg) ^^ k) (im_market_data im)\<rparr> \<and>
    (im_last_timer_update im = 0 \<or> timestamp \<le> im_last_timer_update im \<longrightarrow> k = 0) \<and>
    (0 < im_last_timer_update im \<and> im_last_timer_update im < timestamp \<longrightarrow>
       timestamp \<le> im_last_timer_update im + int k * TIMER_FREQUENCY \<and>
       im_last_timer_update im + int k * TIMER_FREQUENCY < timestamp + TIMER_FREQUENCY)"
  using assms
proof (induction env cfg timestamp im rule: timer_loop.induct)
  case (1 env cfg timestamp im)
  let ?last = "im_last_timer_update im"
  consider "?last = 0" | "0 < ?last" "timestamp \<le> ?last" | "0 < ?last" "?last < timestamp" using 1(3) by linarith
  then show ?case
  proof cases
    case 1
    then show ?thesis using \<open>0 < timestamp\<close> by (simp add: timer_loop.simps)
  next
    case 2
    then show ?thesis by (simp add: timer_loop.simps)
  next
    case 3
    let ?im = "im\<lparr>im_last_timer_update := ?last + TIMER_FREQUENCY, im_market_data := manager_timer env (is_timer_now cfg) (im_market_data im)\<rparr>"
    have step: "timer_loop env cfg timestamp im = timer_loop env cfg timestamp ?im" using 3 by (simp add: timer_loop.simps)
    have pos: "0 < TIMER_FREQUENCY" by (simp add: TIMER_FREQUENCY_def)
    have "0 \<le> im_last_timer_update ?im" using 3 pos by simp
    from "1.IH"(1) [OF 3(2) _ this \<open>0 < timestamp\<close>] 3(1) pos obtain k where
      k: "timer_loop env cfg timestamp ?im =
        ?im\<lparr>im_last_timer_update := ?last + TIMER_FREQUENCY + int k * TIMER_FREQUENCY,
           im_market_data := (manager_timer env (is_timer_now cfg) ^^ k) (im_market_data ?im)\<rparr>"
        and b: "timestamp \<le> ?last + TIMER_FREQUENCY \<longrightarrow> k = 0"
          "?last + TIMER_FREQUENCY < timestamp \<longrightarrow> timestamp \<le> ?last + TIMER_FREQUENCY + int k * TIMER_FREQUENCY \<and>
            ?last + TIMER_FREQUENCY + int k * TIMER_FREQUENCY < timestamp + TIMER_FREQUENCY"
      by auto
    have "timestamp \<le> ?last + int (Suc k) * TIMER_FREQUENCY \<and> ?last + int (Suc k) * TIMER_FREQUENCY < timestamp + TIMER_FREQUENCY"
      using b 3 by (cases "timestamp \<le> ?last + TIMER_FREQUENCY") (simp_all add: algebra_simps)
    then show ?thesis
      using step k 3 by (intro exI [of _ "Suc k"]) (simp add: funpow_swap1 algebra_simps)
  qed
qed

subsection \<open>What is written\<close>

fun kept :: "'r import_settings \<Rightarrow> event \<Rightarrow> bool" where
  "kept cfg (EvReferenceData r) = (is_cache_all_reference_data cfg \<or> \<not> rd_discard r)"
| "kept cfg e = True"

text \<open>The event log with given messages: it is created with the first of them.\<close>

definition log_of :: "log_message list \<Rightarrow> log_effect list" where
  "log_of ms = (case ms of [] \<Rightarrow> [] | m # _ \<Rightarrow> CreateProducer (lm_origin_create_time_utc m) # map Write ms)"

definition numbered :: "log_message list \<Rightarrow> bool" where
  "numbered ms \<longleftrightarrow> map lm_source_seqno ms = map word_of_nat [1..<Suc (length ms)]"

definition log_inv :: "'r import_settings \<Rightarrow> event list \<Rightarrow> ('p, 'o, 'b) importer \<Rightarrow> bool" where
  "log_inv cfg es im \<longleftrightarrow>
     (\<exists>ms. im_log im = log_of ms \<and> map lm_event ms = filter (kept cfg) es \<and> numbered ms \<and>
        im_source_seqno im = word_of_nat (length ms) \<and> im_producer im = (ms \<noteq> []))"

lemma log_of_snoc: "log_of (ms @ [m]) = log_of ms @ (if ms = [] then [CreateProducer (lm_origin_create_time_utc m)] else []) @ [Write m]"
  by (cases ms) (simp_all add: log_of_def)

lemma append_event_log:
  assumes "log_inv cfg es im" and "kept cfg e"
  shows "log_inv cfg (es @ [e]) (append_event t e im)"
proof -
  obtain ms where ms: "im_log im = log_of ms" "map lm_event ms = filter (kept cfg) es" "numbered ms"
      "im_source_seqno im = word_of_nat (length ms)" "im_producer im = (ms \<noteq> [])"
    using assms(1) by (auto simp: log_inv_def)
  let ?m = "create_message_info t e (im_source_seqno im + 1)"
  have "im_log (append_event t e im) = log_of (ms @ [?m])"
    using ms by (simp add: append_event_def Let_def log_of_snoc)
  moreover have "numbered (ms @ [?m])" using ms by (simp add: numbered_def create_message_info_def)
  moreover have "map lm_event (ms @ [?m]) = filter (kept cfg) (es @ [e])" using ms assms(2) by (simp add: create_message_info_def)
  moreover have "im_source_seqno (append_event t e im) = word_of_nat (length (ms @ [?m]))" "im_producer (append_event t e im)"
    using ms by (simp_all add: append_event_def Let_def)
  ultimately show ?thesis unfolding log_inv_def by blast
qed

lemma get_books_frame [simp]:
  "log_inv cfg es (get_books ex name im) = log_inv cfg es im" "im_market_data (get_books ex name im) = im_market_data im"
  by (simp_all add: log_inv_def get_books_def)

lemma append_event_frame [simp]: "im_market_data (append_event t e im) = im_market_data im"
  by (simp add: append_event_def Let_def)

lemma import_event_log:
  assumes "log_inv cfg es im"
  shows "log_inv cfg (es @ [e]) (import_event cfg t e im)"
proof (cases "kept cfg e")
  case True
  then show ?thesis using append_event_log [OF assms True] by (cases e) (simp_all add: Let_def)
next
  case False
  then obtain r where r: "e = EvReferenceData r" "\<not> (is_cache_all_reference_data cfg \<or> \<not> rd_discard r)" by (cases e) auto
  then show ?thesis using assms by (simp add: log_inv_def get_books_def)
qed

lemma import_event_frame [simp]: "im_market_data (import_event cfg t e im) = im_market_data im"
  by (cases e) (simp_all add: Let_def)

lemma import_events_log:
  "log_inv cfg es im \<Longrightarrow> log_inv cfg (es @ xs) (fold (import_event cfg t) xs im) \<and>
    im_market_data (fold (import_event cfg t) xs im) = im_market_data im"
proof (induction xs arbitrary: es im)
  case (Cons x xs)
  show ?case using Cons.IH [OF import_event_log [OF Cons.prems, of x t]] by simp
qed simp

definition import_inv :: "'r import_settings \<Rightarrow> ('p, 'o, 'b) importer \<Rightarrow> bool" where
  "import_inv cfg im \<longleftrightarrow> wf_manager (im_market_data im) \<and> log_inv cfg (published (mg_shared (im_market_data im))) im"

lemma with_manager_inv:
  assumes "import_inv cfg im" and "wf_manager mg" and "good_step (mg_shared (im_market_data im)) (mg_shared mg)"
  shows "import_inv cfg (with_manager cfg t mg im)"
proof -
  obtain es where es: "published (mg_shared mg) = published (mg_shared (im_market_data im)) @ es"
    using assms(3) by (auto simp: good_step_def)
  have "log_inv cfg (published (mg_shared (im_market_data im))) (im\<lparr>im_market_data := mg\<rparr>)"
    using assms(1) by (simp add: import_inv_def log_inv_def)
  from import_events_log [OF this, of es t] show ?thesis
    using assms(2) es by (simp add: import_inv_def with_manager_def)
qed

lemma timer_loop_inv: "import_inv cfg im \<Longrightarrow> import_inv cfg (timer_loop env cfg timestamp im)"
proof (induction env cfg timestamp im rule: timer_loop.induct)
  case (1 env cfg timestamp im)
  let ?im = "im\<lparr>im_last_timer_update := im_last_timer_update im + TIMER_FREQUENCY,
    im_market_data := manager_timer env (is_timer_now cfg) (im_market_data im)\<rparr>"
  have "wf_manager (manager_timer env (is_timer_now cfg) (im_market_data im))"
    using manager_step_good [of "im_market_data im" env undefined undefined undefined None "MdTimer (is_timer_now cfg)"] 1(3)
    by (auto simp: import_inv_def)
  then have "import_inv cfg ?im" using 1(3) by (simp add: import_inv_def log_inv_def manager_timer_def)
  moreover have "import_inv cfg (im\<lparr>im_last_timer_update := timestamp\<rparr>)" using 1(3) by (simp add: import_inv_def log_inv_def)
  ultimately show ?case using 1 by (subst timer_loop.simps) simp
qed

lemma start_once_inv:
  assumes "import_inv cfg im" and "start_once env cc contents cfg im = (im', e)"
  shows "import_inv cfg im'"
proof (cases "im_initialized im")
  case False
  obtain mg where mg: "manager_start env cc contents (im_market_data im) = (mg, e)" "im' = with_manager cfg (is_start_trace cfg) mg (im\<lparr>im_initialized := True\<rparr>)"
    using assms(2) False by (auto simp: start_once_def split: prod.splits)
  have wf: "wf_manager (im_market_data im)" using assms(1) by (simp add: import_inv_def)
  have "wf_manager mg \<and> good_step (mg_shared (im_market_data im)) (mg_shared mg)"
    using manager_step_good [OF wf, of env undefined undefined cc contents MdStart mg e] mg(1) by simp
  moreover have "import_inv cfg (im\<lparr>im_initialized := True\<rparr>)" using assms(1) by (simp add: import_inv_def log_inv_def)
  ultimately show ?thesis using with_manager_inv [of cfg "im\<lparr>im_initialized := True\<rparr>" mg] mg(2) by simp
qed (use assms in \<open>simp add: start_once_def\<close>)

lemma import_dispatch_inv:
  assumes "import_inv cfg im" and "import_dispatch env sbe ops mdp cfg p im = Some (im', e)"
  shows "import_inv cfg im'"
proof (cases "\<exists>i ty pr. config_find_address (pp_destination_address p) (pp_destination_port p) mdp = Some (i, ty, pr) \<and> include_feed ty pr")
  case True
  then obtain i ty pr where f: "config_find_address (pp_destination_address p) (pp_destination_port p) mdp = Some (i, ty, pr)" "include_feed ty pr"
    by blast
  then obtain mg t where mg: "manager_dispatch env sbe ops i ty pr (pp_payload p) (pp_timestamp p) (im_market_data im) = Some (mg, e)"
      "im' = with_manager cfg t mg im"
    using assms(2) by (auto simp: import_dispatch_def Let_def)
  have "wf_manager (im_market_data im)" using assms(1) by (simp add: import_inv_def)
  from manager_step_good [OF this, of env sbe ops undefined None "MdPacket i ty pr (pp_payload p) (pp_timestamp p)" mg e] mg(1)
  have "wf_manager mg \<and> good_step (mg_shared (im_market_data im)) (mg_shared mg)" by simp
  then show ?thesis using with_manager_inv [OF assms(1)] mg(2) by blast
next
  case False
  then have "im' = im" using assms(2) by (auto simp: import_dispatch_def Let_def split: option.splits if_splits)
  then show ?thesis using assms(1) by simp
qed

lemma import_packet_inv:
  assumes "import_inv cfg im" and "import_packet env sbe ops cc contents mdp cfg p im = Some (im', e)"
  shows "import_inv cfg im'"
proof -
  obtain im1 e1 where s: "start_once env cc contents cfg im = (im1, e1)" by fastforce
  note i1 = start_once_inv [OF assms(1) s]
  show ?thesis
  proof (cases e1)
    case None
    then show ?thesis
      using assms(2) s import_dispatch_inv [OF timer_loop_inv [OF i1]] by (simp add: import_packet_def)
  next
    case (Some x)
    then show ?thesis using assms(2) s i1 by (simp add: import_packet_def)
  qed
qed

interpretation imp: driven_component "import_inv cfg" "\<lambda>_ _. True" "import_packet env sbe ops cc contents mdp cfg"
  for cfg :: "'r import_settings" and env :: "('p, 'o) md_env" and sbe and ops :: "'b udp_buffer" and cc contents mdp
  using import_packet_inv by unfold_locales auto

definition close_log :: "('p, 'o, 'b) importer \<Rightarrow> ('p, 'o, 'b) importer" where
  "close_log im = (if im_producer im then im\<lparr>im_log := im_log im @ [Close]\<rparr> else im)"

lemma import_packets_run:
  "import_packets env sbe ops cc contents mdp cfg ps im =
     map_option (\<lambda>(im', e). (if e = None then close_log im' else im', e)) (run_inputs (import_packet env sbe ops cc contents mdp cfg) ps im)"
  by (induction ps arbitrary: im) (auto simp: close_log_def split: option.split)

text \<open>A freshly built importer has a well-formed manager that has not published anything.\<close>

lemma make_import_controller_ready:
  assumes "make_import_controller env cc from_chars config_file secdef_file channel_ids buffer = Inr (mdp, im)"
  shows "\<exists>mg. im = make_importer mg \<and> wf_manager mg \<and> published (mg_shared mg) = []"
proof -
  from assms obtain config d mg s where d: "make_security_definitions env cc secdef_file = Inr d"
      and mg: "make_manager config buffer channel_ids (empty_shared\<lparr>definitions := d\<rparr>) 0 = Inr (mg, s)" and im: "im = make_importer mg"
    by (auto simp: make_import_controller_def split_beta)
  have "mg_shared mg = empty_shared\<lparr>definitions := d\<rparr>" using mg by (auto simp: make_manager_def split_beta)
  moreover have "wf_manager mg" by (rule make_manager_wf [OF mg]) (simp add: make_security_definitions_wf [OF d])
  ultimately show ?thesis using im by (intro exI [of _ mg]) (simp add: empty_shared_def)
qed

subsection \<open>A concrete import\<close>

definition sample_import :: "string import_settings" where
  "sample_import = \<lparr>is_cache_all_reference_data = False, is_mbp_mbo = False, is_symbols_regex = [''ES''],
     is_match = (\<lambda>r name. take (length r) name = r), is_timer_now = 0,
     is_start_trace = \<lparr>ti_source_receive_time = 1, ti_origin_create_time = 1, ti_origin_create_time_utc = 5\<rparr>\<rparr>"

definition sample_pcap :: "nanoseconds \<Rightarrow> pcap_packet" where
  "sample_pcap t = \<lparr>pp_timestamp = t, pp_destination_address = ''224.0.31.1'', pp_destination_port = 14310, pp_payload = [0]\<rparr>"

theorem timer_loop_times_witness:
  "\<exists>k. im_market_data (timer_loop sample_env sample_import 1000000000 ((make_importer sample_manager)\<lparr>im_last_timer_update := 750000000\<rparr>)) =
     (manager_timer sample_env 0 ^^ k) sample_manager \<and> k = 3"
proof -
  from timer_loop_times [of "(make_importer sample_manager)\<lparr>im_last_timer_update := 750000000\<rparr>" 1000000000 sample_env sample_import]
  obtain k where k: "im_market_data (timer_loop sample_env sample_import 1000000000 ((make_importer sample_manager)\<lparr>im_last_timer_update := 750000000\<rparr>)) =
      (manager_timer sample_env 0 ^^ k) sample_manager"
    "1000000000 \<le> 750000000 + int k * 100000000" "750000000 + int k * 100000000 < 1100000000"
    by (auto simp: make_importer_def TIMER_FREQUENCY_def sample_import_def)
  moreover have "k = 3" using k(2,3) by linarith
  ultimately show ?thesis by blast
qed

end
