(* ===== verification/Tools.thy ===== *)
theory Tools
  imports Gateway Import
begin

section \<open>The tools beside the gateway\<close>

text \<open>
  \<^verbatim>\<open>filter/controller.cpp\<close> prints the capture filter of a set of channels,
  \<^verbatim>\<open>channel_tester/controller.cpp\<close> listens to one feed and reports gaps in its packet
  numbers, and \<^verbatim>\<open>dump/controller.cpp\<close> prints the messages of a captured file. Sockets,
  signals and the capture file reader are library code; of the texts that are printed the model
  has the filter, which another program reads, character by character, and the rest as values.
\<close>

subsection \<open>The capture filter\<close>

fun filter_find ::
    "mdp_config \<Rightarrow> u16 \<times> connection_type \<times> priority \<Rightarrow> (string \<times> u16) list \<Rightarrow> (string \<times> u16) list \<times> exn option" where
  "filter_find config (channel_id, ty, pr) result =
     (case config_find channel_id ty pr config of
        None \<Rightarrow> (result, Some Fatal)
      | Some c \<Rightarrow> (result @ [(cc_multicast_address c, cc_port c)], None))"

definition filter_feeds :: "u16 \<Rightarrow> (u16 \<times> connection_type \<times> priority) list" where
  "filter_feeds channel_id =
     [(channel_id, INSTRUMENT_DEFINITION, PRIMARY), (channel_id, INSTRUMENT_DEFINITION, SECONDARY),
      (channel_id, CT_INCREMENTAL, PRIMARY), (channel_id, CT_INCREMENTAL, SECONDARY),
      (channel_id, MBP_MARKET_RECOVERY, PRIMARY), (channel_id, MBP_MARKET_RECOVERY, SECONDARY),
      (channel_id, MBOFD_MARKET_RECOVERY, PRIMARY), (channel_id, MBOFD_MARKET_RECOVERY, SECONDARY)]"

definition filter_text :: "(string \<times> u16) list \<Rightarrow> string" where
  "filter_text flt =
     (let n = length flt
      in concat (map (\<lambda>i. case flt ! i of (host, port) \<Rightarrow>
             ''(host '' @ host @ '' and port '' @ show_nat (unat port) @ '')'' @ (if i \<noteq> n - 1 then '' or '' else []))
           [0..<n]))"

definition filter_dispatch :: "mdp_config \<Rightarrow> u16 list \<Rightarrow> (string \<times> u16) list \<times> exn option" where
  "filter_dispatch config channel_ids = deliver (filter_find config) (concat (map filter_feeds channel_ids)) []"

definition filter_main :: "(string \<Rightarrow> exn + u16) \<Rightarrow> string \<Rightarrow> xml_event list \<Rightarrow> u16 list \<Rightarrow> exn + string" where
  "filter_main from_chars ty config_file channel_ids =
     (if ty \<noteq> ''tcpdump'' then Inl Fatal
      else sum_bind (make_config from_chars config_file) (\<lambda>config.
             case filter_dispatch config channel_ids of
               (flt, Some e) \<Rightarrow> Inl e
             | (flt, None) \<Rightarrow> Inr (filter_text flt)))"

subsection \<open>The channel tester\<close>

datatype tester_log =
    TL_Initialize u32
  | TL_Gap nanoseconds nanoseconds nanoseconds u32 u32 int
  | TL_Unexpected

record tester =
  tt_last_sequence_number :: u32
  tt_last_update :: nanoseconds
  tt_log :: "tester_log list"

definition tester_frame :: "u32 \<Rightarrow> nanoseconds \<Rightarrow> frame \<Rightarrow> tester \<Rightarrow> tester" where
  "tester_frame filter_below now frame t =
     (let n = sequence_number frame
      in if n < filter_below then t
         else let t' = (if tt_last_sequence_number t \<noteq> 0
                        then let delta = uint n - uint (tt_last_sequence_number t)
                             in if delta \<noteq> 1
                                then t\<lparr>tt_log := tt_log t @ [TL_Gap now (tt_last_update t) (now - tt_last_update t) n (tt_last_sequence_number t) delta]\<rparr>
                                else t
                        else t\<lparr>tt_log := tt_log t @ [TL_Initialize n]\<rparr>)
              in t'\<lparr>tt_last_sequence_number := n, tt_last_update := now\<rparr>)"

text \<open>What a call of \<^verbatim>\<open>recv\<close> returns, with the time at which it does; nothing received ends the loop.\<close>

fun tester_read :: "u32 \<Rightarrow> (nanoseconds \<times> bytes) list \<Rightarrow> tester \<Rightarrow> tester" where
  "tester_read filter_below [] t = t"
| "tester_read filter_below ((now, message) # received) t =
     (if message = [] then t
      else tester_read filter_below received
             (case parse_frame message of
                None \<Rightarrow> t\<lparr>tt_log := tt_log t @ [TL_Unexpected]\<rparr>
              | Some frame \<Rightarrow> tester_frame filter_below now frame t))"

definition tester_init :: tester where
  "tester_init = \<lparr>tt_last_sequence_number = 0, tt_last_update = 0, tt_log = []\<rparr>"

subsection \<open>Dumping a captured file\<close>

datatype 'm dump_output =
    DumpPayload bytes
  | DumpOpen nanoseconds string u16
  | DumpMessage u32 nanoseconds 'm
  | DumpClose

definition dump_print :: "frame \<Rightarrow> 'm \<Rightarrow> 'm dump_output list \<Rightarrow> 'm dump_output list \<times> exn option" where
  "dump_print frame m out = (out @ [DumpMessage (sequence_number frame) (sending_time frame) m], None)"

definition dump_packet :: "'m sbe \<Rightarrow> bool \<Rightarrow> pcap_packet \<Rightarrow> 'm dump_output list \<Rightarrow> 'm dump_output list \<times> exn option" where
  "dump_packet sbe print_payload p out =
     (let out = (if print_payload then out @ [DumpPayload (pp_payload p)] else out);
          out = out @ [DumpOpen (pp_timestamp p) (pp_destination_address p) (pp_destination_port p)]
      in case dispatch_packet sbe dump_print (pp_payload p) out of
           (out', Inl e) \<Rightarrow> (out', Some e)
         | (out', Inr _) \<Rightarrow> (out' @ [DumpClose], None))"

definition dump_dispatch :: "'m sbe \<Rightarrow> bool \<Rightarrow> pcap_packet list \<Rightarrow> 'm dump_output list \<times> exn option" where
  "dump_dispatch sbe print_payload ps = deliver (dump_packet sbe print_payload) ps []"

subsection \<open>Properties of the capture filter\<close>

lemma filter_find_deliver:
  "deliver (filter_find config) ks result = (flt, None) \<longleftrightarrow>
     (\<forall>(i, ty, pr) \<in> set ks. config_find i ty pr config \<noteq> None) \<and>
     flt = result @ map (\<lambda>(i, ty, pr). case the (config_find i ty pr config) of c \<Rightarrow> (cc_multicast_address c, cc_port c)) ks"
proof (induction ks arbitrary: result)
  case (Cons k ks)
  obtain i ty pr where k: "k = (i, ty, pr)" by (cases k)
  show ?case by (cases "config_find i ty pr config") (auto simp: k Cons.IH)
qed auto

text \<open>A made configuration has no connection without a priority.\<close>

lemma make_config_priority:
  assumes "make_config from_chars events = Inr cfg"
  shows "config_find i ty Priority_UNDEFINED cfg = None"
proof -
  let ?I = "\<lambda>conns. \<forall>i ty. find_key conns (i, ty, Priority_UNDEFINED) = None"
  have step: "?I (fst (config_connection from_chars i item conns))" if "?I conns" for i item conns
    using that by (cases item) (auto simp: config_connection_def Let_def find_key_emplace get_priority_def split: sum.split if_splits)
  have "?I (fst (config_handler from_chars a conns))" if "?I conns" for a conns
    unfolding config_handler_def split_beta
    by (rule deliver_invariant [where I = ?I]) (use step that in auto)
  then have "?I (fst (mdp_config_dispatch from_chars (config_handler from_chars) events []))"
    by (intro mdp_config_dispatch_invariant [where I = ?I]) (auto simp: find_key_def)
  then show ?thesis using assms
    by (auto simp: make_config_def config_find_key split: prod.splits option.splits)
qed

lemma filter_dispatch_feeds:
  "filter_dispatch config channel_ids = (flt, None) \<longleftrightarrow>
     (\<forall>i \<in> set channel_ids. \<forall>(j, ty, pr) \<in> set (filter_feeds i). config_find j ty pr config \<noteq> None) \<and>
     flt = map (\<lambda>(i, ty, pr). case the (config_find i ty pr config) of c \<Rightarrow> (cc_multicast_address c, cc_port c))
       (concat (map filter_feeds channel_ids))"
  by (auto simp: filter_dispatch_def filter_find_deliver)

lemma mem_filter_feeds:
  "(j, ty, pr) \<in> set (filter_feeds i) \<longleftrightarrow> j = i \<and> ty \<noteq> HISTORICAL_REPLAY \<and> (pr = PRIMARY \<or> pr = SECONDARY)"
  by (cases ty) (auto simp: filter_feeds_def)

lemma filter_dispatch_mem:
  assumes "filter_dispatch config channel_ids = (flt, None)" and "i \<in> set channel_ids" and "config_find i ty pr config = Some c"
    and "ty \<noteq> HISTORICAL_REPLAY" and "pr = PRIMARY \<or> pr = SECONDARY"
  shows "(cc_multicast_address c, cc_port c) \<in> set flt"
proof -
  have "(i, ty, pr) \<in> set (concat (map filter_feeds channel_ids))" using assms(2,4,5) mem_filter_feeds by force
  then show ?thesis using assms(1,3) by (force simp: filter_dispatch_feeds)
qed

lemma with_manager_same [simp]: "with_manager cfg t (im_market_data im) im = im"
  by (simp add: with_manager_def)

lemma import_dispatch_other_channel:
  assumes "config_find_address (pp_destination_address p) (pp_destination_port p) mdp = Some (i, ty, pr)"
    and "map_of (mg_channels (im_market_data im)) i = None"
  shows "import_dispatch env sbe ops mdp cfg p im = Some (im, None)"
  using assms by (simp add: import_dispatch_def manager_dispatch_def Let_def)

lemma AList_update_same: "map_of xs k = Some v \<Longrightarrow> AList.update k v xs = xs"
  by (induction xs) (auto split: if_splits)

lemma import_dispatch_replay:
  assumes "config_find_address (pp_destination_address p) (pp_destination_port p) mdp = Some (i, HISTORICAL_REPLAY, PRIMARY)"
    and "map_of (mg_channels (im_market_data im)) i = Some c"
  shows "import_dispatch env sbe ops mdp cfg p im = Some (im, Some Fatal)"
proof -
  have "manager_dispatch env sbe ops i HISTORICAL_REPLAY PRIMARY (pp_payload p) (pp_timestamp p) (im_market_data im) =
      Some (im_market_data im, Some Fatal)"
    using assms(2) by (simp add: manager_dispatch_def channel_dispatch_def AList_update_same)
  then show ?thesis using assms(1) by (simp add: import_dispatch_def include_feed_def Let_def)
qed



subsection \<open>Properties of the channel tester\<close>

text \<open>The numbers of the packets of a read that are not filtered away.\<close>

fun tester_numbers :: "u32 \<Rightarrow> (nanoseconds \<times> bytes) list \<Rightarrow> u32 list" where
  "tester_numbers filter_below [] = []"
| "tester_numbers filter_below ((now, message) # received) =
     (if message = [] then []
      else (case parse_frame message of
              None \<Rightarrow> []
            | Some frame \<Rightarrow> if sequence_number frame < filter_below then [] else [sequence_number frame])
           @ tester_numbers filter_below received)"

definition reported_gaps :: "tester_log list \<Rightarrow> (u32 \<times> u32) list" where
  "reported_gaps ls = List.map_filter (\<lambda>l. case l of TL_Gap now t gap n n' delta \<Rightarrow> Some (n', n) | _ \<Rightarrow> None) ls"

lemma reported_gaps_append [simp]:
  "reported_gaps [] = []" "reported_gaps (ls @ [TL_Unexpected]) = reported_gaps ls"
  "reported_gaps (ls @ [TL_Initialize n]) = reported_gaps ls"
  "reported_gaps (ls @ [TL_Gap now t gap n n' delta]) = reported_gaps ls @ [(n', n)]"
  by (simp_all add: reported_gaps_def List.map_filter_def)

definition is_gap :: "u32 \<times> u32 \<Rightarrow> bool" where
  "is_gap x = (case x of (n', n) \<Rightarrow> n' \<noteq> 0 \<and> uint n \<noteq> uint n' + 1)"

text \<open>
  The gaps that are reported are exactly the pairs of neighbouring packet numbers that do not
  follow each other; the first packet after the start, and one after a packet with number 0,
  is never one.
\<close>

lemma tester_gaps:
  "reported_gaps (tt_log (tester_read b received t)) =
     reported_gaps (tt_log t) @
       (let ns = tester_numbers b received in filter is_gap (zip (tt_last_sequence_number t # ns) ns))"
proof (induction b received t rule: tester_read.induct)
  case (2 b now message received t)
  show ?case
  proof (cases "message = []")
    case False
    note IH = 2 [OF False]
    show ?thesis
    proof (cases "parse_frame message")
      case None
      then show ?thesis using IH False by simp
    next
      case (Some frame)
      then show ?thesis using IH False
        by (cases "sequence_number frame < b") (auto simp: tester_frame_def is_gap_def Let_def)
    qed
  qed simp
qed simp

lemma tester_silent:
  assumes "reported_gaps (tt_log (tester_read b received tester_init)) = []"
    and "0 \<notin> set (tester_numbers b received)"
  shows "\<exists>n0. map uint (tester_numbers b received) = map (\<lambda>k. n0 + int k) [0..<length (tester_numbers b received)]"
proof -
  have steps: "map uint (n # ns) = map (\<lambda>k. uint n + int k) [0..<length (n # ns)]"
    if "filter is_gap (zip (n # ns) ns) = []" "0 \<notin> set (n # ns)" for n and ns :: "u32 list"
    using that
  proof (induction ns arbitrary: n)
    case (Cons m ns)
    then have m: "uint m = uint n + 1" by (auto simp: is_gap_def split: if_splits)
    have "map uint (m # ns) = map (\<lambda>k. uint m + int k) [0..<length (m # ns)]"
      by (rule Cons.IH) (use Cons.prems in \<open>auto split: if_splits\<close>)
    also have "\<dots> = map (\<lambda>k. uint n + int k) (map Suc [0..<length (m # ns)])" by (simp add: m comp_def algebra_simps del: upt_Suc)
    finally show ?case
      by (simp only: length_Cons [of n "m # ns"] upt_conv_Cons [OF zero_less_Suc] map_Suc_upt list.map) (simp del: upt_Suc)
  qed simp
  show ?thesis
  proof (cases "tester_numbers b received")
    case (Cons n ns)
    have "filter is_gap (zip (n # ns) ns) = []" using assms(1) by (simp add: tester_gaps Cons tester_init_def Let_def split: if_splits)
    then show ?thesis using steps assms(2) unfolding Cons by blast
  qed simp
qed

subsection \<open>Properties of the dump\<close>

text \<open>
  A captured packet that was encoded from a frame and messages is printed with its messages of
  known templates, each once and in order, between the lines that open and close the packet.
\<close>

lemma deliver_dump_print:
  "deliver (dump_print f) xs s = (s @ map (DumpMessage (sequence_number f) (sending_time f)) xs, None)"
  by (induction xs arbitrary: s) (simp_all add: dump_print_def)

lemma dump_packet_encoded:
  assumes "header_codec sbe enc"
    and "\<And>m. m \<in> set ms \<Longrightarrow> 2 + length (enc (fst m)) + length (snd m) < 2 ^ 16"
    and "- (2 ^ 63) \<le> sending_time f" and "sending_time f < 2 ^ 63" and "pp_payload p = encode_packet enc f ms"
  shows "dump_packet sbe False p out =
    (out @ DumpOpen (pp_timestamp p) (pp_destination_address p) (pp_destination_port p)
       # map (DumpMessage (sequence_number f) (sending_time f)) (decoded sbe (takeWhile known_template ms)) @ [DumpClose], None)"
proof -
  have dispatch: "dispatch_packet sbe dump_print (encode_packet enc f ms) s =
      parse_messages sbe (dump_print f) (concat (map (encode_message enc) ms)) s" for s
    by (simp add: dispatch_packet_def encode_packet_def parse_frame_encode [OF assms(3,4)])
  show ?thesis by (simp add: dump_packet_def assms(5) dispatch parse_messages_encoded [OF assms(1,2)] deliver_dump_print)
qed

end
