(* ===== verification/IncrementalSpec.thy ===== *)
theory IncrementalSpec
  imports Incremental
begin

section \<open>The incremental feed: what is published\<close>

text \<open>
  Functional specifications of two handlers: order book messages (47), whose entries are
  collected until a message says that the event is complete, and statistics, which are
  published per run of entries of the same security.
\<close>

subsection \<open>Order book messages in fragments\<close>

text \<open>What an entry adds to the cache, without the bookkeeping of the current security.\<close>

definition add_47 :: "order_book_entry \<Rightarrow> ('p, 'o) incremental \<Rightarrow> ('p, 'o) incremental" where
  "add_47 item sh =
     (case find_security (ob_security_id item) (definitions sh) of
        None \<Rightarrow> sh
      | Some s \<Rightarrow> sh\<lparr>cache_security_ids_47 := insert_security_id (ob_security_id item) (cache_security_ids_47 sh),
                     cache_orders_47 := emplace_back_47 item s (cache_orders_47 sh)\<rparr>)"

definition consistent_47 :: "int \<times> bool \<times> ('p, 'o) incremental \<Rightarrow> bool" where
  "consistent_47 x = (case x of (i, found, sh) \<Rightarrow>
     found = (find_security i (definitions sh) \<noteq> None) \<and> (found \<longrightarrow> i \<in> set (cache_security_ids_47 sh)))"

lemma step_47_add:
  assumes "consistent_47 x"
  shows "snd (snd (step_47 item x)) = add_47 item (snd (snd x)) \<and> consistent_47 (step_47 item x)"
proof -
  obtain i found sh where x: "x = (i, found, sh)" by (cases x)
  show ?thesis
    using assms
    by (cases "find_security (ob_security_id item) (definitions sh)")
      (auto simp: x step_47_def add_47_def consistent_47_def Let_def insert_security_id_def)
qed

lemma fold_step_47_add:
  "consistent_47 x \<Longrightarrow> snd (snd (fold step_47 items x)) = fold add_47 items (snd (snd x))"
proof (induction items arbitrary: x)
  case (Cons item items)
  then show ?case using step_47_add [OF Cons.prems, of item] by simp
qed simp

lemma on_order_book_47_add:
  assumes "find_security 0 (definitions sh) = None"
  shows "snd (snd (fold step_47 items (0, False, sh))) = fold add_47 items sh"
  using fold_step_47_add [of "(0, False, sh)"] assms by (simp add: consistent_47_def)

lemma add_47_definitions [simp]: "definitions (fold add_47 items sh) = definitions sh"
  by (induction items arbitrary: sh) (simp_all add: add_47_def split: option.split)

lemma add_47_published: "published (fold add_47 items sh) = published sh"
  by (induction items arbitrary: sh) (simp_all add: add_47_def split: option.split)

text \<open>
  Claim C27. An order book event that is split over several messages is handled like one
  message: messages without an end-of-event flag publish nothing and only collect, and the
  message with the flag then behaves exactly as one that carries all the collected entries
  (no security has the identifier zero).
\<close>

theorem order_book_47_fragments:
  assumes "find_security 0 (definitions sh) = None"
    and "\<And>f v. (f, v) \<in> set pending \<Longrightarrow> o47_match_event_indicator v = 0"
  shows "let sh' = fold (\<lambda>(f, v) sh. fst (on_order_book_47 env stream f v sh)) pending sh in
    published sh' = published sh \<and>
    on_order_book_47 env stream frame v sh' =
    on_order_book_47 env stream frame
      (v\<lparr>o47_md_entries := concat (map (\<lambda>(f, v). o47_md_entries v) pending) @ o47_md_entries v\<rparr>) sh"
proof (cases "enable_market_by_order env")
  case False
  have "fold (\<lambda>(f, v) sh. fst (on_order_book_47 env stream f v sh)) pending sh = sh"
    by (induction pending) (auto simp: on_order_book_47_def False)
  then show ?thesis by (simp add: on_order_book_47_def False)
next
  case True
  let ?entries = "concat (map (\<lambda>(f, v). o47_md_entries v) pending)"
  have run: "fold (\<lambda>(f, v) sh. fst (on_order_book_47 env stream f v sh)) pending sh = fold add_47 ?entries sh"
    using assms
  proof (induction pending arbitrary: sh)
    case (Cons fv pending)
    obtain f v where fv: "fv = (f, v)" by (cases fv)
    have "o47_match_event_indicator v = 0" using Cons.prems(2) [of f v] fv by simp
    then have "fst (on_order_book_47 env stream f v sh) = fold add_47 (o47_md_entries v) sh"
      using True Cons.prems(1) by (simp add: on_order_book_47_def Let_def on_order_book_47_add)
    moreover have "fold (\<lambda>(f, v) sh. fst (on_order_book_47 env stream f v sh)) pending (fold add_47 (o47_md_entries v) sh)
        = fold add_47 (concat (map (\<lambda>(f, v). o47_md_entries v) pending)) (fold add_47 (o47_md_entries v) sh)"
      by (rule Cons.IH) (use Cons.prems in auto)
    ultimately show ?case using fv by simp
  qed simp
  have "find_security 0 (definitions (fold add_47 ?entries sh)) = None" using assms(1) by simp
  note steps = on_order_book_47_add [OF this, of "o47_md_entries v"]
    on_order_book_47_add [OF assms(1), of "?entries @ o47_md_entries v"]
  show ?thesis
    unfolding Let_def run
    by (simp add: on_order_book_47_def Let_def steps True del: fold_append) (simp add: add_47_published)
qed

subsection \<open>Statistics per run of entries\<close>

fun is_statistics_event :: "event \<Rightarrow> bool" where
  "is_statistics_event (EvStatistics u ss) = True"
| "is_statistics_event _ = False"

abbreviation statistics_events :: "event list \<Rightarrow> event list" where
  "statistics_events \<equiv> filter is_statistics_event"

text \<open>The runs of entries of the same security, and what is due for a run.\<close>

function runs :: "('i \<Rightarrow> int) \<Rightarrow> 'i list \<Rightarrow> 'i list list" where
  "runs id_of [] = []"
| "runs id_of (x # xs) =
     (x # takeWhile (\<lambda>y. id_of y = id_of x) xs) # runs id_of (dropWhile (\<lambda>y. id_of y = id_of x) xs)"
  by pat_completeness auto
termination
  by (relation "measure (\<lambda>(id_of, xs). length xs)") (auto simp: less_Suc_eq_le length_dropWhile_le)

definition run_events ::
    "u16 \<Rightarrow> frame \<Rightarrow> nanoseconds \<Rightarrow> ('i \<Rightarrow> ('p, 'o) security \<Rightarrow> statistics) \<Rightarrow> ('p, 'o) security_definitions
     \<Rightarrow> int \<Rightarrow> 'i list \<Rightarrow> event list" where
  "run_events stream frame t callback d i run =
     (case find_security i d of
        None \<Rightarrow> []
      | Some s \<Rightarrow> if run = [] then []
          else [EvStatistics (make_info stream s t (sequence_number frame) (sending_time frame)) (map (\<lambda>x. callback x s) run)])"

text \<open>A run in progress, and the rest of the entries.\<close>

fun pending_events ::
    "('i \<Rightarrow> int) \<Rightarrow> (int \<Rightarrow> 'i list \<Rightarrow> event list) \<Rightarrow> int \<Rightarrow> 'i list \<Rightarrow> 'i list \<Rightarrow> event list" where
  "pending_events id_of ev i run [] = ev i run"
| "pending_events id_of ev i run (x # xs) =
     (if id_of x = i then pending_events id_of ev i (run @ [x]) xs
      else ev i run @ pending_events id_of ev (id_of x) [x] xs)"

lemma pending_events_run:
  "pending_events id_of ev i run xs =
     ev i (run @ takeWhile (\<lambda>y. id_of y = i) xs)
     @ concat (map (\<lambda>r. ev (id_of (hd r)) r) (runs id_of (dropWhile (\<lambda>y. id_of y = i) xs)))"
proof (induction xs arbitrary: i run)
  case (Cons x xs)
  then show ?case by (cases "id_of x = i") auto
qed simp

lemma visit_like_events:
  "follow i f (d, out, a) = (case securities d i of None \<Rightarrow> (d, out, a)
     | Some s \<Rightarrow> (case f (s, out, a) of (s', out', a') \<Rightarrow> (d\<lparr>securities := (securities d)(i \<mapsto> s')\<rparr>, out', a')))"
  by (auto simp: follow_def get_security_incl_discard_def split: option.split prod.split)

lemma on_action_statistics_events:
  assumes "\<And>u x l. \<not> is_statistics_event (mk u x l)"
  shows "statistics_events (snd (fold (on_action mk seq) acts (r, out))) = statistics_events out"
proof (induction acts arbitrary: r out)
  case (Cons act acts)
  then show ?case using assms by (cases act) auto
qed simp

lemma mbp_statistics_events:
  "statistics_events (fst (snd (dispatch_market_by_price env stream seq t sending book snap (s, out, a)))) = statistics_events out
   \<and> snd (snd (dispatch_market_by_price env stream seq t sending book snap (s, out, a))) = a"
proof -
  let ?mk = "\<lambda>b u _. EvMarketByPrice (make_info stream s t seq sending) (fst b) (snd b) u"
  obtain acts q bad where act: "(if snap then sq_snapshot (mbp_seq env) book seq True (mbp_sequencer s)
      else sq_incremental (mbp_seq env) book seq seq (sq_last_sequence (mbp_seq env) (mbp_sequencer s)) (mbp_sequencer s))
      = (acts, q, bad)" by (metis prod_cases3)
  show ?thesis
    using on_action_statistics_events [of ?mk seq acts "mbp_resubscribe s" out]
    unfolding dispatch_market_by_price_def Let_def prod.case act
    by (cases "fold (on_action ?mk seq) acts (mbp_resubscribe s, out)") simp
qed

lemma mbo_statistics_events:
  "statistics_events (fst (snd (dispatch_market_by_order env stream seq t sending book snap (s, out, a)))) = statistics_events out
   \<and> snd (snd (dispatch_market_by_order env stream seq t sending book snap (s, out, a))) = a"
proof -
  let ?mk = "\<lambda>b u _. EvMarketByOrder (make_info stream s t seq sending) b u"
  obtain acts q bad where act: "(if snap then sq_snapshot (mbo_seq env) book seq True (mbo_sequencer s)
      else sq_incremental (mbo_seq env) book seq seq (sq_last_sequence (mbo_seq env) (mbo_sequencer s)) (mbo_sequencer s))
      = (acts, q, bad)" by (metis prod_cases3)
  show ?thesis
    using on_action_statistics_events [of ?mk seq acts "mbo_resubscribe s" out]
    unfolding dispatch_market_by_order_def Let_def prod.case act
    by (cases "fold (on_action ?mk seq) acts (mbo_resubscribe s, out)") simp
qed

definition identity_only :: "('i \<Rightarrow> ('p, 'o) security \<Rightarrow> statistics) \<Rightarrow> bool" where
  "identity_only callback \<longleftrightarrow> (\<forall>x s s'. identity s = identity s' \<longrightarrow> callback x s = callback x s')"

lemma identity_onlyD: "identity_only callback \<Longrightarrow> identity s = identity s' \<Longrightarrow> callback x s = callback x s'"
  unfolding identity_only_def by blast

lemma add_statistics_effect:
  assumes cong: "identity_only callback"
  shows "statistics_events (fst (snd (add_statistics env stream frame t rpt callback item (s, out, stats)))) = statistics_events out
    \<and> snd (snd (add_statistics env stream frame t rpt callback item (s, out, stats))) = stats @ [callback item s]"
proof -
  obtain s1 out1 a1 where c: "check_report_sequence env stream frame (rpt item) (s, out, stats) = (s1, out1, a1)"
    by (metis prod_cases3)
  then have c1: "statistics_events out1 = statistics_events out" "a1 = stats" "identity s1 = identity s"
    by (auto simp: check_report_sequence_eq split: if_splits)
  obtain s2 out2 a2 where p: "dispatch_market_by_price env stream (sequence_number frame) t (sending_time frame) ([], []) True
      (s1, out1, stats @ [callback item s1]) = (s2, out2, a2)" by (metis prod_cases3)
  show ?thesis
    using c c1 p identity_onlyD [OF cong c1(3), of item] mbp_statistics_events [of env stream "sequence_number frame" t "sending_time frame" "([], [])" True s1 out1
        "stats @ [callback item s1]"] mbo_statistics_events [of env stream "sequence_number frame" t "sending_time frame" "[]" True s2 out2 a2]
    by (simp add: add_statistics_def Let_def)
qed

text \<open>
  The iterator runs in step with the specification: the accumulated statistics are those of the
  run in progress, computed from the security as the definitions had it at the start.
\<close>

definition tracks ::
    "('i \<Rightarrow> ('p, 'o) security \<Rightarrow> statistics) \<Rightarrow> ('p, 'o) security_definitions \<Rightarrow> 'i list
     \<Rightarrow> ('p, 'o, statistics list) iterator \<Rightarrow> bool" where
  "tracks callback d0 run it = (case it of (i, found, d, out, stats) \<Rightarrow>
     same_index d0 d \<and> found = (find_security i d0 \<noteq> None) \<and>
     stats = (case find_security i d0 of None \<Rightarrow> [] | Some s \<Rightarrow> map (\<lambda>x. callback x s) run))"

lemma same_index_found:
  assumes "same_index d0 d" and "find_security i d0 = Some s"
  obtains s' where "find_security i d = Some s'" and "securities d i = Some s'" and "identity s' = identity s"
  using same_index_find [OF assms(1), of i] assms(2)
  by (cases "find_security i d") (auto simp: find_security_def split: option.splits if_splits)

lemma follow_found:
  assumes "same_index d0 d" and "find_security i d0 = Some s" and "security_callback f"
  shows "\<exists>s'. identity s' = identity s
    \<and> fst (snd (follow i f (d, out, a))) = fst (snd (f (s', out, a)))
    \<and> snd (snd (follow i f (d, out, a))) = snd (snd (f (s', out, a)))
    \<and> same_index d0 (fst (follow i f (d, out, a)))"
proof -
  obtain s' where s': "find_security i d = Some s'" "securities d i = Some s'" "identity s' = identity s"
    by (rule same_index_found [OF assms(1,2)])
  have "safe_step (d, out, a) (follow i f (d, out, a))"
    by (rule security_callback.follow_safe [OF assms(3)]) (use s'(1) in \<open>simp add: active_def\<close>)
  then have "same_index d0 (fst (follow i f (d, out, a)))"
    using assms(1) by (auto simp: safe_step_def intro: same_index_trans)
  with s' show ?thesis
    by (intro exI [of _ s'], cases "f (s', out, a)") (auto simp: visit_like_events)
qed

lemma make_info_identity: "identity s = identity s' \<Longrightarrow> make_info stream s t n u = make_info stream s' t n u"
  by (simp add: make_info_def identity_def)

lemma flush_tracks:
  fixes d0 :: "('p, 'o) security_definitions"
  assumes "tracks callback d0 run (i, found, d, out, stats)" and "found"
    and cong: "identity_only callback"
  shows "statistics_events (fst (snd (follow i (flush_statistics stream frame t) (d, out, stats))))
      = statistics_events out @ run_events stream frame t callback d0 i run
    \<and> snd (snd (follow i (flush_statistics stream frame t) (d, out, stats))) = []
    \<and> same_index d0 (fst (follow i (flush_statistics stream frame t) (d, out, stats)))"
proof -
  have i: "same_index d0 d" using assms(1) by (simp add: tracks_def)
  obtain s where s: "find_security i d0 = Some s" "stats = map (\<lambda>x. callback x s) run"
    using assms(1,2) by (auto simp: tracks_def)
  obtain s' :: "('p, 'o) security" where "identity s' = identity s"
    "fst (snd (follow i (flush_statistics stream frame t) (d, out, stats))) = fst (snd (flush_statistics stream frame t (s', out, stats)))"
    "snd (snd (follow i (flush_statistics stream frame t) (d, out, stats))) = snd (snd (flush_statistics stream frame t (s', out, stats)))"
    "same_index d0 (fst (follow i (flush_statistics stream frame t) (d, out, stats)))"
    using follow_found [OF i s(1) flush_statistics_callback, of stream frame t out stats] by blast
  with s show ?thesis
    by (auto simp: flush_statistics_def run_events_def dest: make_info_identity)
qed

lemma next_tracks:
  assumes tr: "tracks callback d0 run (i, found, d, out, stats)"
    and cong: "identity_only callback"
    and ne: "j \<noteq> i"
  shows "\<exists>d' out'. iterator_next (flush_statistics stream frame t) j (i, found, d, out, stats)
      = (j, find_security j d0 \<noteq> None, d', out', [])
    \<and> same_index d0 d' \<and> statistics_events out' = statistics_events out @ run_events stream frame t callback d0 i run"
proof -
  let ?dx = "if found then follow i (flush_statistics stream frame t) (d, out, stats) else (d, out, stats)"
  obtain d' out' stats' where dx: "?dx = (d', out', stats')" by (metis prod_cases3)
  have "same_index d0 d' \<and> stats' = [] \<and> statistics_events out' = statistics_events out @ run_events stream frame t callback d0 i run"
  proof (cases found)
    case True
    with flush_tracks [OF tr True cong, of stream frame t] dx show ?thesis by simp
  next
    case False
    with tr dx show ?thesis by (auto simp: tracks_def run_events_def)
  qed
  moreover from this have "(find_security j d' = None) = (find_security j d0 = None)"
    using same_index_find [of d0 d' j] by (metis option.map_disc_iff)
  ultimately show ?thesis using ne dx by (auto simp: iterator_next_def Let_def)
qed

lemma callback_tracks:
  fixes d0 :: "('p, 'o) security_definitions"
  assumes "same_index d0 d" and "find_security i d0 = Some s"
    and cong: "identity_only callback"
  shows "statistics_events (fst (snd (follow i (add_statistics env stream frame t rpt callback x) (d, out, stats)))) = statistics_events out
    \<and> snd (snd (follow i (add_statistics env stream frame t rpt callback x) (d, out, stats))) = stats @ [callback x s]
    \<and> same_index d0 (fst (follow i (add_statistics env stream frame t rpt callback x) (d, out, stats)))"
proof -
  let ?f = "add_statistics env stream frame t rpt callback x"
  obtain s' :: "('p, 'o) security" where "identity s' = identity s"
    "fst (snd (follow i ?f (d, out, stats))) = fst (snd (?f (s', out, stats)))"
    "snd (snd (follow i ?f (d, out, stats))) = snd (snd (?f (s', out, stats)))"
    "same_index d0 (fst (follow i ?f (d, out, stats)))"
    using follow_found [OF assms(1,2) add_statistics_callback, of env stream frame t rpt callback x out stats] by blast
  with add_statistics_effect [OF cong, of env stream frame t rpt x s' out stats] identity_onlyD [OF cong, of s' s x] show ?thesis
    by simp
qed

lemma iterator_tracks:
  assumes "tracks callback d0 run (i, found, d, out, stats)"
    and cong: "identity_only callback"
  shows "let it = fold (iterator_step id_of (flush_statistics stream frame t) (add_statistics env stream frame t rpt callback)) xs
              (i, found, d, out, stats) in
    statistics_events (fst (snd (if fst (snd it) then follow (fst it) (flush_statistics stream frame t) (snd (snd it)) else snd (snd it))))
    = statistics_events out @ pending_events id_of (run_events stream frame t callback d0) i run xs"
  using assms(1)
proof (induction xs arbitrary: i found d out stats run)
  case Nil
  then show ?case
  proof (cases found)
    case True
    with flush_tracks [OF Nil True cong, of stream frame t] show ?thesis by (simp add: Let_def)
  next
    case False
    with Nil show ?thesis by (auto simp: tracks_def run_events_def Let_def)
  qed
next
  case (Cons x xs)
  let ?flush = "flush_statistics stream frame t" and ?add = "add_statistics env stream frame t rpt callback"
  obtain d1 out1 stats1 run1 where
    n: "iterator_next ?flush (id_of x) (i, found, d, out, stats) = (id_of x, find_security (id_of x) d0 \<noteq> None, d1, out1, stats1)"
    and t1: "tracks callback d0 run1 (id_of x, find_security (id_of x) d0 \<noteq> None, d1, out1, stats1)"
    and ev: "statistics_events out1 @ pending_events id_of (run_events stream frame t callback d0) (id_of x) (run1 @ [x]) xs
      = statistics_events out @ pending_events id_of (run_events stream frame t callback d0) i run (x # xs)"
  proof (cases "id_of x = i")
    case True
    with Cons.prems show thesis
      by (intro that [of d out stats run]) (auto simp: tracks_def iterator_next_def)
  next
    case False
    from next_tracks [OF Cons.prems cong this, of stream frame t] obtain d' out' where
      "iterator_next ?flush (id_of x) (i, found, d, out, stats) = (id_of x, find_security (id_of x) d0 \<noteq> None, d', out', [])"
      "same_index d0 d'" "statistics_events out' = statistics_events out @ run_events stream frame t callback d0 i run"
      by blast
    with False show thesis
      by (intro that [of d' out' "[]" "[]"]) (auto simp: tracks_def split: option.split)
  qed
  let ?it = "iterator_step id_of ?flush ?add x (i, found, d, out, stats)"
  have "\<exists>d2 out2 stats2. ?it = (id_of x, find_security (id_of x) d0 \<noteq> None, d2, out2, stats2)
      \<and> statistics_events out2 = statistics_events out1
      \<and> tracks callback d0 (run1 @ [x]) (id_of x, find_security (id_of x) d0 \<noteq> None, d2, out2, stats2)"
  proof (cases "find_security (id_of x) d0")
    case None
    with n t1 show ?thesis by (auto simp: iterator_step_def tracks_def)
  next
    case (Some s)
    have i1: "same_index d0 d1" using t1 by (simp add: tracks_def)
    obtain d2 out2 stats2 where f: "follow (id_of x) (?add x) (d1, out1, stats1) = (d2, out2, stats2)" by (metis prod_cases3)
    with callback_tracks [OF i1 Some cong, of env stream frame t rpt x out1 stats1] n t1 Some show ?thesis
      by (auto simp: iterator_step_def tracks_def)
  qed
  then obtain d2 out2 stats2 where it: "?it = (id_of x, find_security (id_of x) d0 \<noteq> None, d2, out2, stats2)"
    "statistics_events out2 = statistics_events out1"
    "tracks callback d0 (run1 @ [x]) (id_of x, find_security (id_of x) d0 \<noteq> None, d2, out2, stats2)" by blast
  from Cons.IH [OF it(3)] it(1,2) ev show ?case by simp
qed

text \<open>
  Claim C29. Statistics are published per run of consecutive entries of the same security: one
  update per run of a security that is known and not discarded, with the statistics of
  exactly the entries of the run, in order, whatever the report sequence checks and the book
  snapshots do in between; entries of other securities publish nothing.
\<close>

theorem dispatch_statistics_runs:
  assumes cong: "identity_only callback"
    and zero: "find_security 0 (definitions sh) = None"
  shows "statistics_events (published (dispatch_statistics env stream frame t id_of rpt callback items sh))
    = statistics_events (published sh)
      @ concat (map (\<lambda>run. run_events stream frame t callback (definitions sh) (id_of (hd run)) run) (runs id_of items))"
proof -
  have "tracks callback (definitions sh) [] (0, False, definitions sh, published sh, [])"
    using zero by (simp add: tracks_def)
  note tr = iterator_tracks [OF this cong, of id_of stream frame t env rpt items]
  obtain i found d' out' stats' where it: "fold (iterator_step id_of (flush_statistics stream frame t)
      (add_statistics env stream frame t rpt callback)) items (0, False, definitions sh, published sh, [])
      = (i, found, d', out', stats')" by (metis prod_cases5)
  have "statistics_events (published (dispatch_statistics env stream frame t id_of rpt callback items sh))
      = statistics_events (published sh) @ pending_events id_of (run_events stream frame t callback (definitions sh)) 0 [] items"
    using tr unfolding it Let_def
    by (cases found) (simp_all add: dispatch_statistics_def run_defs_fields security_iterator_def it)
  moreover have "run_events stream frame t callback (definitions sh) 0 xs = []" for xs
    using zero by (simp add: run_events_def)
  moreover have "concat (map (\<lambda>r. run_events stream frame t callback (definitions sh) (id_of (hd r)) r) (runs id_of items))
      = concat (map (\<lambda>r. run_events stream frame t callback (definitions sh) (id_of (hd r)) r)
          (runs id_of (dropWhile (\<lambda>y. id_of y = 0) items)))"
    by (cases items) (auto simp: calculation(2))
  ultimately show ?thesis by (simp add: pending_events_run)
qed

subsection \<open>Witnesses\<close>

definition sample_stat :: "int \<Rightarrow> md_entry_type_daily_statistics \<Rightarrow> statistics_entry" where
  "sample_stat i ty = \<lparr>se_px = sample_price 2000000000, se_size = (3, 0), se_security_id = i, se_rpt_seq = 1,
     se_entry_type = Daily ty\<rparr>"

lemma statistics_of_entry_identity: "identity_only statistics_of_entry"
  by (simp add: identity_only_def statistics_of_entry_def identity_def Let_def)

lemma statistics_of_volume_identity: "identity_only statistics_of_volume"
  by (simp add: identity_only_def statistics_of_volume_def)

lemma sample_shared_find:
  "find_security 0 (definitions sample_shared) = None" "find_security 118 (definitions sample_shared) \<noteq> None"
  by (simp_all add: sample_shared_def create_security_from_def empty_shared_def Let_def has_security_def empty_definitions_def
      sample_future_def create_security_def sample_env_def make_security_def find_security_def try_emplace_apply)

theorem dispatch_statistics_runs_witness:
  "\<exists>info a b. statistics_events (published (dispatch_statistics sample_env 1 sample_frame 60 se_security_id se_rpt_seq statistics_of_entry
     [sample_stat 118 DS_SettlementPrice, sample_stat 118 DS_OpenInterest, sample_stat 7 DS_OpenInterest] sample_shared))
   = statistics_events (published sample_shared) @ [EvStatistics info [a, b]]"
proof -
  obtain s where s: "find_security 118 (definitions sample_shared) = Some s" using sample_shared_find(2) by blast
  have "find_security 7 (definitions sample_shared) = None"
    by (simp add: sample_shared_def create_security_from_def empty_shared_def Let_def has_security_def empty_definitions_def
        sample_future_def create_security_def find_security_def try_emplace_apply)
  with s show ?thesis
    using dispatch_statistics_runs [OF statistics_of_entry_identity sample_shared_find(1), of sample_env 1 sample_frame 60 se_security_id se_rpt_seq
        "[sample_stat 118 DS_SettlementPrice, sample_stat 118 DS_OpenInterest, sample_stat 7 DS_OpenInterest]"]
    by (simp add: run_events_def sample_stat_def)
qed

definition sample_47 :: "u8 \<Rightarrow> int \<Rightarrow> order_book_47" where
  "sample_47 flag oid = \<lparr>o47_transact_time = 60, o47_match_event_indicator = flag,
     o47_md_entries = [\<lparr>ob_order_id = (oid, 0), ob_priority = (1, 0), ob_px = sample_price 1000000000, ob_display_qty = (5, 0),
       ob_security_id = 118, ob_update_action = MU_New, ob_entry_type = BT_Bid\<rparr>]\<rparr>"

definition sample_incremental :: "(u32, u32) incremental" where
  "sample_incremental = create_security_from sample_env 1 sample_future empty_incremental"

theorem order_book_47_fragments_witness:
  "on_order_book_47 sample_env 1 sample_frame (sample_47 128 2)
     (fst (on_order_book_47 sample_env 1 sample_frame (sample_47 0 1) sample_incremental))
   = on_order_book_47 sample_env 1 sample_frame
       ((sample_47 128 2)\<lparr>o47_md_entries := o47_md_entries (sample_47 0 1) @ o47_md_entries (sample_47 128 2)\<rparr>) sample_incremental"
proof -
  have "find_security 0 (definitions sample_incremental) = None"
    by (simp add: sample_incremental_def create_security_from_def Let_def has_security_def empty_definitions_def
        sample_future_def create_security_def find_security_def try_emplace_apply)
  then show ?thesis
    using order_book_47_fragments [of sample_incremental "[(sample_frame, sample_47 0 1)]" sample_env 1 sample_frame "sample_47 128 2"]
    by (simp add: Let_def sample_47_def)
qed

end
