(* ===== verification/TextFormat.thy ===== *)
theory TextFormat
  imports Prelude
begin

section \<open>Printing messages\<close>

text \<open>
  The messages of both protocols have \<^verbatim>\<open>fmt::formatter\<close> specialisations, which the log
  lines of the gateway and the dump of captured files print. All of them write a fixed text
  with the values of members in between, some in quotes. A formatter is the list of its
  arguments, each with the text of the format string before it, and the text after the last
  one. What the formatting library prints for a member of a generated class (a number, an
  enumeration, a time) is a parameter, the \<open>view\<close> of the object.
\<close>

record view =
  vw_shown :: "string \<Rightarrow> string"
  vw_chars :: "string \<Rightarrow> string"
  vw_int :: "string \<Rightarrow> int \<times> int"
  vw_double :: "string \<Rightarrow> string"
  vw_items :: "string \<Rightarrow> string list"
  vw_hex :: "string \<Rightarrow> string"

datatype fmt_arg =
    AValue string
  | AText string
  | AInt string
  | ADouble string
  | AItems string
  | AHex string

datatype fmt_style = Bare | Quoted

type_synonym fmt_entry = "string \<times> fmt_style \<times> fmt_arg"
type_synonym formatter = "fmt_entry list \<times> string"

fun join :: "string \<Rightarrow> string list \<Rightarrow> string" where
  "join sep [] = []"
| "join sep [x] = x"
| "join sep (x # y # xs) = x @ sep @ join sep (y # xs)"

text \<open>
  A member as it is; a character array up to its end (\<^verbatim>\<open>get_string_view\<close>); an integer
  with a null value (\<^verbatim>\<open>get_int\<close>); a decimal as a double; the elements of a group or a
  list with commas between them; bytes in hexadecimal.
\<close>

fun fmt_value :: "view \<Rightarrow> fmt_arg \<Rightarrow> string" where
  "fmt_value v (AValue f) = vw_shown v f"
| "fmt_value v (AText f) = get_string_view (vw_chars v f)"
| "fmt_value v (AInt f) = (case vw_int v f of (x, null_value) \<Rightarrow> show_int (get_int x null_value))"
| "fmt_value v (ADouble f) = vw_double v f"
| "fmt_value v (AItems f) = (if vw_items v f \<noteq> [] then join '', '' (vw_items v f) else [])"
| "fmt_value v (AHex f) = vw_hex v f"

definition quote_mark :: char where
  "quote_mark = CHR 0x22"

fun quoted :: "fmt_style \<Rightarrow> string \<Rightarrow> string" where
  "quoted Bare x = x"
| "quoted Quoted x = quote_mark # x @ [quote_mark]"

fun format_entries :: "fmt_entry list \<Rightarrow> string \<Rightarrow> view \<Rightarrow> string" where
  "format_entries [] final v = final"
| "format_entries ((before, style, a) # es) final v = before @ quoted style (fmt_value v a) @ format_entries es final v"

definition format_text :: "formatter \<Rightarrow> view \<Rightarrow> string" where
  "format_text fm v = (case fm of (es, final) \<Rightarrow> format_entries es final v)"

subsection \<open>Reading a printed text\<close>

text \<open>
  The reference: the values are found between the fixed texts. A quoted value ends at the next
  quote, another one where the next fixed text begins; a value must not contain the character
  that ends it.
\<close>

fun next_text :: "fmt_entry list \<Rightarrow> string \<Rightarrow> string" where
  "next_text [] final = final"
| "next_text ((before, style, a) # es) final = before"

definition ends_value :: "string \<Rightarrow> char \<Rightarrow> bool" where
  "ends_value following c \<longleftrightarrow> following \<noteq> [] \<and> c = hd following"

definition strip_prefix :: "string \<Rightarrow> string \<Rightarrow> string option" where
  "strip_prefix p t = (if take (length p) t = p then Some (drop (length p) t) else None)"

fun read_value :: "fmt_style \<Rightarrow> string \<Rightarrow> string \<Rightarrow> (string \<times> string) option" where
  "read_value Bare following t =
     (let x = takeWhile (\<lambda>c. \<not> ends_value following c) t in Some (x, drop (length x) t))"
| "read_value Quoted following t =
     (case strip_prefix [quote_mark] t of
        None \<Rightarrow> None
      | Some t \<Rightarrow>
          let x = takeWhile (\<lambda>c. c \<noteq> quote_mark) t
          in map_option (\<lambda>r. (x, r)) (strip_prefix [quote_mark] (drop (length x) t)))"

fun read_entries :: "fmt_entry list \<Rightarrow> string \<Rightarrow> string \<Rightarrow> string list option" where
  "read_entries [] final t = (if t = final then Some [] else None)"
| "read_entries ((before, style, a) # es) final t =
     (case strip_prefix before t of
        None \<Rightarrow> None
      | Some t \<Rightarrow>
          (case read_value style (next_text es final) t of
             None \<Rightarrow> None
           | Some (x, t) \<Rightarrow> map_option (\<lambda>xs. x # xs) (read_entries es final t)))"

definition read_text :: "formatter \<Rightarrow> string \<Rightarrow> string list option" where
  "read_text fm t = (case fm of (es, final) \<Rightarrow> read_entries es final t)"

definition wf_formatter :: "formatter \<Rightarrow> bool" where
  "wf_formatter fm \<longleftrightarrow> list_all (\<lambda>e. fst e \<noteq> []) (tl (fst fm))"

fun clean_value :: "fmt_style \<Rightarrow> string \<Rightarrow> string \<Rightarrow> bool" where
  "clean_value Bare following x = list_all (\<lambda>c. \<not> ends_value following c) x"
| "clean_value Quoted following x = list_all (\<lambda>c. c \<noteq> quote_mark) x"

fun clean_entries :: "fmt_entry list \<Rightarrow> string \<Rightarrow> view \<Rightarrow> bool" where
  "clean_entries [] final v = True"
| "clean_entries ((before, style, a) # es) final v =
     (clean_value style (next_text es final) (fmt_value v a) \<and> clean_entries es final v)"

definition clean_view :: "formatter \<Rightarrow> view \<Rightarrow> bool" where
  "clean_view fm v = (case fm of (es, final) \<Rightarrow> clean_entries es final v)"

definition fmt_values :: "formatter \<Rightarrow> view \<Rightarrow> string list" where
  "fmt_values fm v = map (\<lambda>(before, style, a). fmt_value v a) (fst fm)"

lemma strip_prefix_append [simp]: "strip_prefix p (p @ t) = Some t"
  by (simp add: strip_prefix_def)

lemma strip_prefix_single [simp]: "strip_prefix [c] (c # t) = Some t"
  by (simp add: strip_prefix_def)

lemma takeWhile_upto: "list_all P xs \<Longrightarrow> (ys \<noteq> [] \<Longrightarrow> \<not> P (hd ys)) \<Longrightarrow> takeWhile P (xs @ ys) = xs"
  by (induction xs) (cases ys, auto)

lemma read_value_quoted:
  assumes "clean_value style following x" and "t = following @ r" and "following = [] \<longrightarrow> t = []"
  shows "read_value style following (quoted style x @ t) = Some (x, t)"
proof (cases style)
  case Bare
  have "takeWhile (\<lambda>c. \<not> ends_value following c) (x @ t) = x"
    by (rule takeWhile_upto) (use assms Bare in \<open>auto simp: ends_value_def\<close>)
  then show ?thesis using Bare by (simp add: Let_def)
next
  case Quoted
  have "takeWhile (\<lambda>c. c \<noteq> quote_mark) (x @ quote_mark # t) = x"
    by (rule takeWhile_upto) (use assms Quoted in auto)
  then show ?thesis using Quoted by (simp add: Let_def)
qed

lemma format_entries_next: "\<exists>r. format_entries es final v = next_text es final @ r"
  by (cases "(es, final)" rule: next_text.cases) auto

lemma read_format_entries:
  assumes "list_all (\<lambda>e. fst e \<noteq> []) (tl es)" and "clean_entries es final v"
  shows "read_entries es final (format_entries es final v) = Some (map (\<lambda>(before, style, a). fmt_value v a) es)"
  using assms
proof (induction es)
  case (Cons e es)
  obtain before style a where e: "e = (before, style, a)" by (cases e)
  obtain r where r: "format_entries es final v = next_text es final @ r" using format_entries_next by blast
  have last: "next_text es final = [] \<longrightarrow> format_entries es final v = []"
    using Cons.prems(1) by (cases es) auto
  have "read_value style (next_text es final) (quoted style (fmt_value v a) @ format_entries es final v) =
      Some (fmt_value v a, format_entries es final v)"
    by (rule read_value_quoted [OF _ r last]) (use Cons.prems(2) e in simp)
  moreover have "read_entries es final (format_entries es final v) = Some (map (\<lambda>(before, style, a). fmt_value v a) es)"
    using Cons by (cases es) (auto simp: e)
  ultimately show ?case by (simp add: e)
qed simp

lemma read_format_text:
  assumes "wf_formatter fm" and "clean_view fm v"
  shows "read_text fm (format_text fm v) = Some (fmt_values fm v)"
  using assms read_format_entries [of "fst fm" "snd fm" v]
  by (simp add: wf_formatter_def clean_view_def read_text_def format_text_def fmt_values_def split_beta)

end
