(* ===== verification/MdpFormatters.thy ===== *)
theory MdpFormatters
  imports TextFormat
begin

section \<open>The texts of market data messages\<close>

text \<open>
  The formatters of the market data messages (\<^verbatim>\<open>protocol/mdp/*.hpp\<close>),
  in the order of the sources: for every member that is printed the text before it, whether it
  is quoted, and how its text is made.
\<close>

subsection \<open>\<^verbatim>\<open>protocol/mdp/admin.hpp\<close>\<close>

definition fmt_ChannelReset4_NoMDEntries :: formatter where
  "fmt_ChannelReset4_NoMDEntries =
     ([
      (''{md_update_action='', Bare, AValue ''mDUpdateAction''), ('', md_entry_type='', Bare, AValue ''mDEntryType''),
      ('', appl_id='', Bare, AValue ''applID'')],
      ''}'')"

definition fmt_ChannelReset4 :: formatter where
  "fmt_ChannelReset4 =
     ([
      (''{transact_time='', Bare, AValue ''transactTime''),
      ('', match_event_indicator='', Bare, AValue ''matchEventIndicator''),
      ('', no_md_entries=['', Bare, AItems ''noMDEntries'')],
      '']}'')"

definition fmt_AdminHeartbeat12 :: formatter where
  "fmt_AdminHeartbeat12 = ([], ''{}'')"

subsection \<open>\<^verbatim>\<open>protocol/mdp/frame.hpp\<close>\<close>

definition fmt_mdp_Frame :: formatter where
  "fmt_mdp_Frame =
     ([
      (''{sequence_number='', Bare, AValue ''sequence_number''), ('', sending_time='', Bare, AValue ''sending_time'')],
      ''}'')"

subsection \<open>\<^verbatim>\<open>protocol/mdp/md_incremental_refresh.hpp\<close>\<close>

definition fmt_MDIncrementalRefreshVolume37_NoMDEntries :: formatter where
  "fmt_MDIncrementalRefreshVolume37_NoMDEntries =
     ([
      (''{md_entry_size='', Bare, AValue ''mDEntrySize''), ('', security_id='', Bare, AValue ''securityID''),
      ('', rpt_seq='', Bare, AValue ''rptSeq''), ('', md_update_action='', Bare, AValue ''mDUpdateAction''),
      ('', md_entry_type='', Bare, AValue ''mDEntryType'')],
      ''}'')"

definition fmt_MDIncrementalRefreshVolume37 :: formatter where
  "fmt_MDIncrementalRefreshVolume37 =
     ([
      (''{version='', Bare, AValue ''actingVersion''), ('', transact_time='', Bare, AValue ''transactTime''),
      ('', match_event_indicator='', Bare, AValue ''matchEventIndicator''),
      ('', no_md_entries=['', Bare, AItems ''noMDEntries'')],
      '']}'')"

definition fmt_MDIncrementalRefreshBook46_NoMDEntries :: formatter where
  "fmt_MDIncrementalRefreshBook46_NoMDEntries =
     ([
      (''{md_entry_px='', Bare, AValue ''mDEntryPx''), ('', md_entry_size='', Bare, AInt ''mDEntrySize''),
      ('', security_id='', Bare, AValue ''securityID''), ('', rpt_seq='', Bare, AValue ''rptSeq''),
      ('', number_of_orders='', Bare, AInt ''numberOfOrders''), ('', md_price_level='', Bare, AValue ''mDPriceLevel''),
      ('', md_update_action='', Bare, AValue ''mDUpdateAction''), ('', md_entry_type='', Bare, AValue ''mDEntryType''),
      ('', tradeable_size='', Bare, AInt ''tradeableSize'')],
      ''}'')"

definition fmt_MDIncrementalRefreshBook46_NoOrderIDEntries :: formatter where
  "fmt_MDIncrementalRefreshBook46_NoOrderIDEntries =
     ([
      (''{order_id='', Bare, AValue ''orderID''), ('', md_order_priority='', Bare, AInt ''mDOrderPriority''),
      ('', md_display_qty='', Bare, AInt ''mDDisplayQty''), ('', reference_id='', Bare, AInt ''referenceID''),
      ('', order_update_action='', Bare, AValue ''orderUpdateAction'')],
      ''}'')"

definition fmt_MDIncrementalRefreshBook46 :: formatter where
  "fmt_MDIncrementalRefreshBook46 =
     ([
      (''{version='', Bare, AValue ''actingVersion''), ('', transact_time='', Bare, AValue ''transactTime''),
      ('', match_event_indicator='', Bare, AValue ''matchEventIndicator''),
      ('', no_md_entries=['', Bare, AItems ''noMDEntries''),
      (''], no_order_id_entries=['', Bare, AItems ''noOrderIDEntries'')],
      '']}'')"

definition fmt_MDIncrementalRefreshOrderBook47_NoMDEntries :: formatter where
  "fmt_MDIncrementalRefreshOrderBook47_NoMDEntries =
     ([
      (''{order_id='', Bare, AInt ''orderID''), ('', md_order_priority='', Bare, AInt ''mDOrderPriority''),
      ('', md_entry_px='', Bare, AValue ''mDEntryPx''), ('', md_display_qty='', Bare, AInt ''mDDisplayQty''),
      ('', security_id='', Bare, AValue ''securityID''), ('', md_update_action='', Bare, AValue ''mDUpdateAction''),
      ('', md_entry_type='', Bare, AValue ''mDEntryType'')],
      ''}'')"

definition fmt_MDIncrementalRefreshOrderBook47 :: formatter where
  "fmt_MDIncrementalRefreshOrderBook47 =
     ([
      (''{version='', Bare, AValue ''actingVersion''), ('', transact_time='', Bare, AValue ''transactTime''),
      ('', match_event_indicator='', Bare, AValue ''matchEventIndicator''),
      ('', no_md_entries=['', Bare, AItems ''noMDEntries'')],
      '']}'')"

definition fmt_MDIncrementalRefreshTradeSummary48_NoMDEntries :: formatter where
  "fmt_MDIncrementalRefreshTradeSummary48_NoMDEntries =
     ([
      (''{md_entry_px='', Bare, AValue ''mDEntryPx''), ('', md_entry_size='', Bare, AValue ''mDEntrySize''),
      ('', security_id='', Bare, AValue ''securityID''), ('', rpt_seq='', Bare, AValue ''rptSeq''),
      ('', number_of_orders='', Bare, AValue ''numberOfOrders''), ('', aggressor_side='', Bare, AValue ''aggressorSide''),
      ('', md_update_action='', Bare, AValue ''mDUpdateAction''), ('', md_entry_type='', Bare, AValue ''mDEntryType''),
      ('', md_trade_entry_id='', Bare, AInt ''mDTradeEntryID'')],
      ''}'')"

definition fmt_MDIncrementalRefreshTradeSummary48_NoOrderIDEntries :: formatter where
  "fmt_MDIncrementalRefreshTradeSummary48_NoOrderIDEntries =
     ([
      (''{order_id='', Bare, AValue ''orderID''), ('', last_qty='', Bare, AValue ''lastQty'')],
      ''}'')"

definition fmt_MDIncrementalRefreshTradeSummary48 :: formatter where
  "fmt_MDIncrementalRefreshTradeSummary48 =
     ([
      (''{version='', Bare, AValue ''actingVersion''), ('', transact_time='', Bare, AValue ''transactTime''),
      ('', match_event_indicator='', Bare, AValue ''matchEventIndicator''),
      ('', no_md_entries=['', Bare, AItems ''noMDEntries''),
      (''], no_order_id_entries=['', Bare, AItems ''noOrderIDEntries'')],
      '']}'')"

definition fmt_MDIncrementalRefreshDailyStatistics49_NoMDEntries :: formatter where
  "fmt_MDIncrementalRefreshDailyStatistics49_NoMDEntries =
     ([
      (''{md_entry_px='', Bare, AValue ''mDEntryPx''), ('', md_entry_size='', Bare, AInt ''mDEntrySize''),
      ('', security_id='', Bare, AValue ''securityID''), ('', rpt_seq='', Bare, AValue ''rptSeq''),
      ('', trading_reference_date='', Bare, AValue ''tradingReferenceDate''),
      ('', settl_price_type='', Bare, AValue ''settlPriceType''), ('', md_update_action='', Bare, AValue ''mDUpdateAction''),
      ('', md_entry_type='', Bare, AValue ''mDEntryType'')],
      ''}'')"

definition fmt_MDIncrementalRefreshDailyStatistics49 :: formatter where
  "fmt_MDIncrementalRefreshDailyStatistics49 =
     ([
      (''{version='', Bare, AValue ''actingVersion''), ('', transact_time='', Bare, AValue ''transactTime''),
      ('', match_event_indicator='', Bare, AValue ''matchEventIndicator''),
      ('', no_md_entries=['', Bare, AItems ''noMDEntries'')],
      '']}'')"

definition fmt_MDIncrementalRefreshLimitsBanding50_NoMDEntries :: formatter where
  "fmt_MDIncrementalRefreshLimitsBanding50_NoMDEntries =
     ([
      (''{high_limit_price='', Bare, AValue ''highLimitPrice''), ('', low_limit_price='', Bare, AValue ''lowLimitPrice''),
      ('', max_price_variation='', Bare, AValue ''maxPriceVariation''), ('', security_id='', Bare, AValue ''securityID''),
      ('', rpt_seq='', Bare, AValue ''rptSeq''), ('', md_update_action='', Bare, AValue ''mDUpdateAction''),
      ('', md_entry_type='', Bare, AValue ''mDEntryType'')],
      ''}'')"

definition fmt_MDIncrementalRefreshLimitsBanding50 :: formatter where
  "fmt_MDIncrementalRefreshLimitsBanding50 =
     ([
      (''{version='', Bare, AValue ''actingVersion''), ('', transact_time='', Bare, AValue ''transactTime''),
      ('', match_event_indicator='', Bare, AValue ''matchEventIndicator''),
      ('', no_md_entries=['', Bare, AItems ''noMDEntries'')],
      '']}'')"

definition fmt_MDIncrementalRefreshSessionStatistics51_NoMDEntries :: formatter where
  "fmt_MDIncrementalRefreshSessionStatistics51_NoMDEntries =
     ([
      (''{md_entry_px='', Bare, AValue ''mDEntryPx''), ('', security_id='', Bare, AValue ''securityID''),
      ('', rpt_seq='', Bare, AValue ''rptSeq''), ('', open_close_settl_flag='', Bare, AValue ''openCloseSettlFlag''),
      ('', md_update_action='', Bare, AValue ''mDUpdateAction''), ('', md_entry_type='', Bare, AValue ''mDEntryType''),
      ('',md_entry_size='', Bare, AInt ''mDEntrySize'')],
      ''}'')"

definition fmt_MDIncrementalRefreshSessionStatistics51 :: formatter where
  "fmt_MDIncrementalRefreshSessionStatistics51 =
     ([
      (''{version='', Bare, AValue ''actingVersion''), ('', transact_time='', Bare, AValue ''transactTime''),
      ('', match_event_indicator='', Bare, AValue ''matchEventIndicator''),
      ('', no_md_entries=['', Bare, AItems ''noMDEntries'')],
      '']}'')"

definition fmt_MDIncrementalRefreshBookLongQty64_NoMDEntries :: formatter where
  "fmt_MDIncrementalRefreshBookLongQty64_NoMDEntries =
     ([
      (''{md_entry_px='', Bare, AValue ''mDEntryPx''), ('', md_entry_size='', Bare, AInt ''mDEntrySize''),
      ('', security_id='', Bare, AValue ''securityID''), ('', rpt_seq='', Bare, AValue ''rptSeq''),
      ('', number_of_orders='', Bare, AInt ''numberOfOrders''), ('', md_price_level='', Bare, AValue ''mDPriceLevel''),
      ('', md_update_action='', Bare, AValue ''mDUpdateAction''), ('', md_entry_type='', Bare, AValue ''mDEntryType'')],
      ''}'')"

definition fmt_MDIncrementalRefreshBookLongQty64_NoOrderIDEntries :: formatter where
  "fmt_MDIncrementalRefreshBookLongQty64_NoOrderIDEntries =
     ([
      (''{order_id='', Bare, AValue ''orderID''), ('', md_order_priority='', Bare, AInt ''mDOrderPriority''),
      ('', md_display_qty='', Bare, AInt ''mDDisplayQty''), ('', reference_id='', Bare, AInt ''referenceID''),
      ('', order_update_action='', Bare, AValue ''orderUpdateAction'')],
      ''}'')"

definition fmt_MDIncrementalRefreshBookLongQty64 :: formatter where
  "fmt_MDIncrementalRefreshBookLongQty64 =
     ([
      (''{version='', Bare, AValue ''actingVersion''), ('', transact_time='', Bare, AValue ''transactTime''),
      ('', match_event_indicator='', Bare, AValue ''matchEventIndicator''),
      ('', no_md_entries=['', Bare, AItems ''noMDEntries''),
      (''], no_order_id_entries=['', Bare, AItems ''noOrderIDEntries'')],
      '']}'')"

definition fmt_MDIncrementalRefreshTradeSummaryLongQty65_NoMDEntries :: formatter where
  "fmt_MDIncrementalRefreshTradeSummaryLongQty65_NoMDEntries =
     ([
      (''{md_entry_px='', Bare, AValue ''mDEntryPx''), ('', md_entry_size='', Bare, AValue ''mDEntrySize''),
      ('', security_id='', Bare, AValue ''securityID''), ('', rpt_seq='', Bare, AValue ''rptSeq''),
      ('', number_of_orders='', Bare, AValue ''numberOfOrders''),
      ('', md_trade_entry_id='', Bare, AValue ''mDTradeEntryID''), ('', aggressor_side='', Bare, AValue ''aggressorSide''),
      ('', md_update_action='', Bare, AValue ''mDUpdateAction''), ('', md_entry_type='', Bare, AValue ''mDEntryType'')],
      ''}'')"

definition fmt_MDIncrementalRefreshTradeSummaryLongQty65_NoOrderIDEntries :: formatter where
  "fmt_MDIncrementalRefreshTradeSummaryLongQty65_NoOrderIDEntries =
     ([
      (''{order_id='', Bare, AValue ''orderID''), ('', last_qty='', Bare, AValue ''lastQty'')],
      ''}'')"

definition fmt_MDIncrementalRefreshTradeSummaryLongQty65 :: formatter where
  "fmt_MDIncrementalRefreshTradeSummaryLongQty65 =
     ([
      (''{version='', Bare, AValue ''actingVersion''), ('', transact_time='', Bare, AValue ''transactTime''),
      ('', match_event_indicator='', Bare, AValue ''matchEventIndicator''),
      ('', no_md_entries=['', Bare, AItems ''noMDEntries''),
      (''], no_order_id_entries=['', Bare, AItems ''noOrderIDEntries'')],
      '']}'')"

definition fmt_MDIncrementalRefreshVolumeLongQty66_NoMDEntries :: formatter where
  "fmt_MDIncrementalRefreshVolumeLongQty66_NoMDEntries =
     ([
      (''{md_entry_size='', Bare, AValue ''mDEntrySize''), ('', security_id='', Bare, AValue ''securityID''),
      ('', rpt_seq='', Bare, AValue ''rptSeq''), ('', md_update_action='', Bare, AValue ''mDUpdateAction''),
      ('', md_entry_type='', Bare, AValue ''mDEntryType'')],
      ''}'')"

definition fmt_MDIncrementalRefreshVolumeLongQty66 :: formatter where
  "fmt_MDIncrementalRefreshVolumeLongQty66 =
     ([
      (''{version='', Bare, AValue ''actingVersion''), ('', transact_time='', Bare, AValue ''transactTime''),
      ('', match_event_indicator='', Bare, AValue ''matchEventIndicator''),
      ('', no_md_entries=['', Bare, AItems ''noMDEntries'')],
      '']}'')"

definition fmt_MDIncrementalRefreshSessionStatisticsLongQty67_NoMDEntries :: formatter where
  "fmt_MDIncrementalRefreshSessionStatisticsLongQty67_NoMDEntries =
     ([
      (''{md_entry_px='', Bare, AValue ''mDEntryPx''), ('', md_entry_size='', Bare, AInt ''mDEntrySize''),
      ('', security_id='', Bare, AValue ''securityID''), ('', rpt_seq='', Bare, AValue ''rptSeq''),
      ('', open_close_settl_flag='', Bare, AValue ''openCloseSettlFlag''),
      ('', md_update_action='', Bare, AValue ''mDUpdateAction''), ('', md_entry_type='', Bare, AValue ''mDEntryType'')],
      ''}'')"

definition fmt_MDIncrementalRefreshSessionStatisticsLongQty67 :: formatter where
  "fmt_MDIncrementalRefreshSessionStatisticsLongQty67 =
     ([
      (''{version='', Bare, AValue ''actingVersion''), ('', transact_time='', Bare, AValue ''transactTime''),
      ('', match_event_indicator='', Bare, AValue ''matchEventIndicator''),
      ('', no_md_entries=['', Bare, AItems ''noMDEntries'')],
      '']}'')"

subsection \<open>\<^verbatim>\<open>protocol/mdp/md_instrument_definition.hpp\<close>\<close>

definition fmt_MDInstrumentDefinitionFuture54_NoEvents :: formatter where
  "fmt_MDInstrumentDefinitionFuture54_NoEvents =
     ([
      (''{event_type='', Bare, AValue ''eventType''), ('', event_time='', Bare, AValue ''eventTime'')],
      ''}'')"

definition fmt_MDInstrumentDefinitionFuture54_NoMDFeedTypes :: formatter where
  "fmt_MDInstrumentDefinitionFuture54_NoMDFeedTypes =
     ([
      (''{md_feed_type='', Bare, AValue ''mDFeedType''), ('', market_depth='', Bare, AValue ''marketDepth'')],
      ''}'')"

definition fmt_MDInstrumentDefinitionFuture54_NoInstAttrib :: formatter where
  "fmt_MDInstrumentDefinitionFuture54_NoInstAttrib =
     ([
      (''{inst_attrib_type='', Bare, AValue ''instAttribType'')],
      '', inst_attrib_value=???}'')"

definition fmt_MDInstrumentDefinitionFuture54_NoLotTypeRules :: formatter where
  "fmt_MDInstrumentDefinitionFuture54_NoLotTypeRules =
     ([
      (''{lot_type='', Bare, AValue ''lotType'')],
      '', min_lot_size=???}'')"

definition fmt_MDInstrumentDefinitionFuture54 :: formatter where
  "fmt_MDInstrumentDefinitionFuture54 =
     ([
      (''{version='', Bare, AValue ''actingVersion''), ('', match_event_indicator='', Bare, AValue ''matchEventIndicator''),
      ('', tot_num_reports='', Bare, AValue ''totNumReports''),
      ('', security_update_action='', Bare, AValue ''securityUpdateAction''),
      ('', last_update_time='', Bare, AValue ''lastUpdateTime''),
      ('', md_security_trading_status='', Bare, AValue ''mDSecurityTradingStatus''),
      ('', appl_id='', Bare, AValue ''applID''), ('', market_segment_id='', Bare, AValue ''marketSegmentID''),
      ('', underlying_product='', Bare, AValue ''underlyingProduct''),
      ('', security_exchange='', Quoted, AText ''securityExchange''),
      ('', security_group='', Quoted, AText ''securityGroup''), ('', asset='', Quoted, AText ''asset''),
      ('', symbol='', Quoted, AText ''symbol''), ('', security_id='', Bare, AValue ''securityID''),
      ('', security_id_source='', Bare, AValue ''securityIDSource''), ('', security_Type='', Quoted, AText ''securityType''),
      ('', cfi_code='', Quoted, AText ''cFICode''), ('', maturity_month_year='', Bare, AValue ''maturityMonthYear''),
      ('', currency='', Quoted, AText ''currency''), ('', settl_currency='', Quoted, AText ''settlCurrency''),
      ('', match_algorithm='', Bare, AValue ''matchAlgorithm''), ('', min_trade_vol='', Bare, AValue ''minTradeVol''),
      ('', max_trade_vol='', Bare, AValue ''maxTradeVol''), ('', min_price_increment='', Bare, AValue ''minPriceIncrement''),
      ('', display_factor='', Bare, AValue ''displayFactor''), ('', main_fraction='', Bare, AValue ''mainFraction''),
      ('', sub_fraction='', Bare, AValue ''subFraction''),
      ('', price_display_format='', Bare, AValue ''priceDisplayFormat''),
      ('', unit_of_measure='', Quoted, AText ''unitOfMeasure''),
      ('', unit_of_measure_qty='', Bare, AValue ''unitOfMeasureQty''),
      ('', trading_reference_price='', Bare, AValue ''tradingReferencePrice''),
      ('', settl_price_type='', Bare, AValue ''settlPriceType''),
      ('', open_interest_qty='', Bare, AValue ''openInterestQty''), ('', cleared_volume='', Bare, AValue ''clearedVolume''),
      ('', high_limit_price='', Bare, AValue ''highLimitPrice''), ('', low_limit_price='', Bare, AValue ''lowLimitPrice''),
      ('', max_price_variation='', Bare, AValue ''maxPriceVariation''),
      ('', decay_quantity='', Bare, AValue ''decayQuantity''), ('', decay_start_date='', Bare, AValue ''decayStartDate''),
      ('', original_contract_size='', Bare, AValue ''originalContractSize''),
      ('', contract_multiplier='', Bare, AValue ''contractMultiplier''),
      ('', contract_multiplier_unit='', Bare, AValue ''contractMultiplierUnit''),
      ('', flow_schedule_type='', Bare, AValue ''flowScheduleType''),
      ('', min_price_increment_amount='', Bare, AValue ''minPriceIncrementAmount''),
      ('', user_defined_instrument='', Bare, AValue ''userDefinedInstrument''),
      ('', trading_reference_date='', Bare, AValue ''tradingReferenceDate''),
      ('', instrument_guid='', Bare, AValue ''instrumentGUID'')],
      '', ...}'')"

definition fmt_MDInstrumentDefinitionOption55 :: formatter where
  "fmt_MDInstrumentDefinitionOption55 =
     ([
      (''{version='', Bare, AValue ''actingVersion''), ('', match_event_indicator='', Bare, AValue ''matchEventIndicator''),
      ('', tot_num_reports='', Bare, AValue ''totNumReports''),
      ('', security_update_action='', Bare, AValue ''securityUpdateAction''),
      ('', last_update_time='', Bare, AValue ''lastUpdateTime''),
      ('', md_security_trading_status='', Bare, AValue ''mDSecurityTradingStatus''),
      ('', appl_id='', Bare, AValue ''applID''), ('', market_segment_id='', Bare, AValue ''marketSegmentID''),
      ('', underlying_product='', Bare, AValue ''underlyingProduct''),
      ('', security_exchange='', Quoted, AText ''securityExchange''),
      ('', security_group='', Quoted, AText ''securityGroup''), ('', asset='', Quoted, AText ''asset''),
      ('', symbol='', Quoted, AText ''symbol''), ('', security_id='', Bare, AValue ''securityID''),
      ('', security_id_source='', Bare, AValue ''securityIDSource''), ('', security_Type='', Quoted, AText ''securityType''),
      ('', cfi_code='', Quoted, AText ''cFICode''), ('', put_or_call='', Bare, AValue ''putOrCall''),
      ('', maturity_month_year='', Bare, AValue ''maturityMonthYear''), ('', currency='', Quoted, AText ''currency''),
      ('', strike_price='', Bare, AValue ''strikePrice''), ('', strike_currency='', Quoted, AText ''strikeCurrency''),
      ('', settl_currency='', Quoted, AText ''settlCurrency''), ('', min_cab_price='', Bare, AValue ''minCabPrice''),
      ('', match_algorithm='', Bare, AValue ''matchAlgorithm''), ('', min_trade_vol='', Bare, AValue ''minTradeVol''),
      ('', max_trade_vol='', Bare, AValue ''maxTradeVol''), ('', min_price_increment='', Bare, AValue ''minPriceIncrement''),
      ('', min_price_increment_amount='', Bare, AValue ''minPriceIncrementAmount''),
      ('', display_factor='', Bare, AValue ''displayFactor''), ('', tick_rule='', Bare, AValue ''tickRule''),
      ('', main_fraction='', Bare, AValue ''mainFraction''), ('', sub_fraction='', Bare, AValue ''subFraction''),
      ('', price_display_format='', Bare, AValue ''priceDisplayFormat''),
      ('', unit_of_measure='', Quoted, AText ''unitOfMeasure''),
      ('', unit_of_measure_qty='', Bare, AValue ''unitOfMeasureQty''),
      ('', trading_reference_price='', Bare, AValue ''tradingReferencePrice''),
      ('', settl_price_type='', Bare, AValue ''settlPriceType''), ('', cleared_volume='', Bare, AValue ''clearedVolume''),
      ('', open_interest_qty='', Bare, AValue ''openInterestQty''), ('', low_limit_price='', Bare, AValue ''lowLimitPrice''),
      ('', high_limit_price='', Bare, AValue ''highLimitPrice''),
      ('', user_defined_instrument='', Bare, AValue ''userDefinedInstrument''),
      ('', trading_reference_date='', Bare, AValue ''tradingReferenceDate''),
      ('', instrument_guid='', Bare, AValue ''instrumentGUID'')],
      '', ...}'')"

definition fmt_MDInstrumentDefinitionSpread56 :: formatter where
  "fmt_MDInstrumentDefinitionSpread56 =
     ([
      (''{version='', Bare, AValue ''actingVersion''), ('', match_event_indicator='', Bare, AValue ''matchEventIndicator''),
      ('', tot_num_reports='', Bare, AValue ''totNumReports''),
      ('', security_update_action='', Bare, AValue ''securityUpdateAction''),
      ('', last_update_time='', Bare, AValue ''lastUpdateTime''),
      ('', md_security_trading_status='', Bare, AValue ''mDSecurityTradingStatus''),
      ('', appl_id='', Bare, AValue ''applID''), ('', market_segment_id='', Bare, AValue ''marketSegmentID''),
      ('', underlying_product='', Bare, AValue ''underlyingProduct''),
      ('', security_exchange='', Quoted, AText ''securityExchange''),
      ('', security_group='', Quoted, AText ''securityGroup''), ('', asset='', Quoted, AText ''asset''),
      ('', symbol='', Quoted, AText ''symbol''), ('', security_id='', Bare, AValue ''securityID''),
      ('', security_id_source='', Bare, AValue ''securityIDSource''), ('', security_Type='', Quoted, AText ''securityType''),
      ('', cfi_code='', Quoted, AText ''cFICode''), ('', maturity_month_year='', Bare, AValue ''maturityMonthYear''),
      ('', currency='', Quoted, AText ''currency''), ('', security_sub_type='', Quoted, AText ''securitySubType''),
      ('', user_defined_instrument='', Bare, AValue ''userDefinedInstrument''),
      ('', match_algorithm='', Bare, AValue ''matchAlgorithm''), ('', min_trade_vol='', Bare, AValue ''minTradeVol''),
      ('', max_trade_vol='', Bare, AValue ''maxTradeVol''), ('', min_price_increment='', Bare, AValue ''minPriceIncrement''),
      ('', display_factor='', Bare, AValue ''displayFactor''),
      ('', price_display_format='', Bare, AValue ''priceDisplayFormat''), ('', price_ratio='', Bare, AValue ''priceRatio''),
      ('', tick_rule='', Bare, AValue ''tickRule''), ('', unit_of_measure='', Quoted, AText ''unitOfMeasure''),
      ('', trading_reference_price='', Bare, AValue ''tradingReferencePrice''),
      ('', settle_price_type='', Bare, AValue ''settlPriceType''),
      ('', open_interest_qty='', Bare, AValue ''openInterestQty''), ('', cleared_volume='', Bare, AValue ''clearedVolume''),
      ('', high_limit_price='', Bare, AValue ''highLimitPrice''), ('', low_limit_price='', Bare, AValue ''lowLimitPrice''),
      ('', max_price_variation='', Bare, AValue ''maxPriceVariation''),
      ('', main_fraction='', Bare, AValue ''mainFraction''), ('', sub_fraction='', Bare, AValue ''subFraction''),
      ('', trading_reference_date='', Bare, AValue ''tradingReferenceDate''),
      ('', price_quote_method='', Quoted, AText ''priceQuoteMethod''), ('', risk_set='', Quoted, AText ''riskSet''),
      ('', market_set='', Quoted, AText ''marketSet''), ('', instrument_guid='', Bare, AValue ''instrumentGUID''),
      ('', financial_instrument_full_name='', Quoted, AText ''financialInstrumentFullName'')],
      '', ...}'')"

definition fmt_MDInstrumentDefinitionFixedIncome57 :: formatter where
  "fmt_MDInstrumentDefinitionFixedIncome57 =
     ([
      (''{version='', Bare, AValue ''actingVersion''), ('', match_event_indicator='', Bare, AValue ''matchEventIndicator''),
      ('', tot_num_reports='', Bare, AValue ''totNumReports''),
      ('', security_update_action='', Bare, AValue ''securityUpdateAction''),
      ('', last_update_time='', Bare, AValue ''lastUpdateTime''),
      ('', md_security_trading_status='', Bare, AValue ''mDSecurityTradingStatus''),
      ('', appl_id='', Bare, AValue ''applID''), ('', market_segment_id='', Bare, AValue ''marketSegmentID''),
      ('', underlying_product='', Bare, AValue ''underlyingProduct''),
      ('', security_exchange='', Quoted, AText ''securityExchange''),
      ('', security_group='', Quoted, AText ''securityGroup''), ('', asset='', Quoted, AText ''asset''),
      ('', symbol='', Quoted, AText ''symbol''), ('', security_id='', Bare, AValue ''securityID''),
      ('', security_id_source='', Bare, AValue ''securityIDSource''), ('', security_Type='', Quoted, AText ''securityType''),
      ('', cfi_code='', Quoted, AText ''cFICode''), ('', currency='', Quoted, AText ''currency''),
      ('', settl_currency='', Quoted, AText ''settlCurrency''), ('', match_algorithm='', Bare, AValue ''matchAlgorithm''),
      ('', min_trade_vol='', Bare, AValue ''minTradeVol''), ('', max_trade_vol='', Bare, AValue ''maxTradeVol''),
      ('', min_price_increment='', Bare, AValue ''minPriceIncrement''),
      ('', display_factor='', Bare, AValue ''displayFactor''), ('', main_fraction='', Bare, AValue ''mainFraction''),
      ('', sub_fraction='', Bare, AValue ''subFraction''),
      ('', price_display_format='', Bare, AValue ''priceDisplayFormat''),
      ('', unit_of_measure='', Quoted, AText ''unitOfMeasure''),
      ('', unit_of_measure_qty='', Bare, AValue ''unitOfMeasureQty''),
      ('', trading_reference_price='', Bare, AValue ''tradingReferencePrice''),
      ('', trading_reference_date='', Bare, AValue ''tradingReferenceDate''),
      ('', high_limit_price='', Bare, AValue ''highLimitPrice''), ('', low_limit_price='', Bare, AValue ''lowLimitPrice''),
      ('', max_price_variation='', Bare, AValue ''maxPriceVariation''),
      ('', min_price_increment_amount='', Bare, AValue ''minPriceIncrementAmount''),
      ('', issue_date='', Bare, AValue ''issueDate''), ('', dated_date='', Bare, AValue ''datedDate''),
      ('', maturity_date='', Bare, AValue ''maturityDate''), ('', coupon_rate='', Bare, AValue ''couponRate''),
      ('', par_value='', Bare, AValue ''parValue''), ('', coupon_frequency_unit='', Quoted, AText ''couponFrequencyUnit''),
      ('', coupon_frequency_period='', Bare, AValue ''couponFrequencyPeriod''),
      ('', coupon_day_count='', Quoted, AText ''couponDayCount''),
      ('', country_of_issue='', Quoted, AText ''countryOfIssue''), ('', issuer='', Quoted, AText ''issuer''),
      ('', financial_instrument_full_name='', Quoted, AText ''financialInstrumentFullName''),
      ('', security_alt_id='', Quoted, AText ''securityAltID''),
      ('', security_alt_id_source='', Bare, AValue ''securityAltIDSource''),
      ('', price_quote_method='', Quoted, AText ''priceQuoteMethod''),
      ('', party_role_clearing_org='', Quoted, AText ''partyRoleClearingOrg''),
      ('', user_defined_instrument='', Bare, AValue ''userDefinedInstrument''), ('', risk_set='', Quoted, AText ''riskSet''),
      ('', market_set='', Quoted, AText ''marketSet''), ('', instrument_guid='', Bare, AValue ''instrumentGUID'')],
      '', ...}'')"

definition fmt_MDInstrumentDefinitionRepo58 :: formatter where
  "fmt_MDInstrumentDefinitionRepo58 =
     ([
      (''{version='', Bare, AValue ''actingVersion''), ('', match_event_indicator='', Bare, AValue ''matchEventIndicator''),
      ('', tot_num_reports='', Bare, AValue ''totNumReports''),
      ('', security_update_action='', Bare, AValue ''securityUpdateAction''),
      ('', last_update_time='', Bare, AValue ''lastUpdateTime''),
      ('', md_security_trading_status='', Bare, AValue ''mDSecurityTradingStatus''),
      ('', appl_id='', Bare, AValue ''applID''), ('', market_segment_id='', Bare, AValue ''marketSegmentID''),
      ('', underlying_product='', Bare, AValue ''underlyingProduct''),
      ('', security_exchange='', Quoted, AText ''securityExchange''),
      ('', security_group='', Quoted, AText ''securityGroup''), ('', asset='', Quoted, AText ''asset''),
      ('', symbol='', Quoted, AText ''symbol''), ('', security_id='', Bare, AValue ''securityID''),
      ('', security_id_source='', Bare, AValue ''securityIDSource''), ('', security_type='', Quoted, AText ''securityType''),
      ('', cfi_code='', Quoted, AText ''cFICode''), ('', currency='', Quoted, AText ''currency''),
      ('', settl_currency='', Quoted, AText ''settlCurrency''), ('', match_algorithm='', Bare, AValue ''matchAlgorithm''),
      ('', min_trade_vol='', Bare, AValue ''minTradeVol''), ('', max_trade_vol='', Bare, AValue ''maxTradeVol''),
      ('', min_price_increment='', Bare, AValue ''minPriceIncrement''),
      ('', display_factor='', Bare, AValue ''displayFactor''), ('', unit_of_measure='', Quoted, AText ''unitOfMeasure''),
      ('', unit_of_measure_qty='', Bare, AValue ''unitOfMeasureQty''),
      ('', trading_reference_price='', Bare, AValue ''tradingReferencePrice''),
      ('', trading_reference_date='', Bare, AValue ''tradingReferenceDate''),
      ('', high_limit_price='', Bare, AValue ''highLimitPrice''), ('', low_limit_price='', Bare, AValue ''lowLimitPrice''),
      ('', max_price_variation='', Bare, AValue ''maxPriceVariation''),
      ('', financial_instrument_full_name='', Quoted, AText ''financialInstrumentFullName''),
      ('', party_role_clearing_org='', Quoted, AText ''partyRoleClearingOrg''),
      ('', start_date='', Bare, AValue ''startDate''), ('', end_date='', Bare, AValue ''endDate''),
      ('', termination_type='', Quoted, AText ''terminationType''),
      ('', security_sub_type='', Bare, AValue ''securitySubType''), ('', money_or_par='', Bare, AValue ''moneyOrPar''),
      ('', max_no_of_substitutions='', Bare, AValue ''maxNoOfSubstitutions''),
      ('', price_quote_method='', Quoted, AText ''priceQuoteMethod''),
      ('', user_defined_instrument='', Bare, AValue ''userDefinedInstrument''), ('', risk_set='', Quoted, AText ''riskSet''),
      ('', market_set='', Quoted, AText ''marketSet''), ('', instrument_guid='', Bare, AValue ''instrumentGUID''),
      ('', term_code='', Quoted, AText ''termCode'')],
      '', ...}'')"

definition fmt_MDInstrumentDefinitionFX63 :: formatter where
  "fmt_MDInstrumentDefinitionFX63 =
     ([
      (''{version='', Bare, AValue ''actingVersion''), ('', match_event_indicator='', Bare, AValue ''matchEventIndicator''),
      ('', tot_num_reports='', Bare, AValue ''totNumReports''),
      ('', security_update_action='', Bare, AValue ''securityUpdateAction''),
      ('', last_update_time='', Bare, AValue ''lastUpdateTime''),
      ('', md_security_trading_status='', Bare, AValue ''mDSecurityTradingStatus''),
      ('', appl_id='', Bare, AValue ''applID''), ('', market_segment_id='', Bare, AValue ''marketSegmentID''),
      ('', underlying_product='', Bare, AValue ''underlyingProduct''),
      ('', security_exchange='', Quoted, AText ''securityExchange''),
      ('', security_group='', Quoted, AText ''securityGroup''), ('', asset='', Quoted, AText ''asset''),
      ('', symbol='', Quoted, AText ''symbol''), ('', security_id='', Bare, AValue ''securityID''),
      ('', security_id_source='', Bare, AValue ''securityIDSource''), ('', security_Type='', Quoted, AText ''securityType''),
      ('', cfi_code='', Quoted, AText ''cFICode''), ('', currency='', Quoted, AText ''currency''),
      ('', settl_currency='', Quoted, AText ''settlCurrency''),
      ('', price_quote_currency='', Quoted, AText ''priceQuoteCurrency''),
      ('', match_algorithm='', Bare, AValue ''matchAlgorithm''), ('', min_trade_vol='', Bare, AValue ''minTradeVol''),
      ('', max_trade_vol='', Bare, AValue ''maxTradeVol''), ('', min_price_increment='', Bare, AValue ''minPriceIncrement''),
      ('', display_factor='', Bare, AValue ''displayFactor''), ('', price_precision='', Bare, AValue ''pricePrecision''),
      ('', unit_of_measure='', Quoted, AText ''unitOfMeasure''),
      ('', unit_of_measure_qty='', Bare, AValue ''unitOfMeasureQty''),
      ('', high_limit_price='', Bare, AValue ''highLimitPrice''), ('', low_limit_price='', Bare, AValue ''lowLimitPrice''),
      ('', max_price_variation='', Bare, AValue ''maxPriceVariation''),
      ('', user_defined_instrument='', Bare, AValue ''userDefinedInstrument''),
      ('', financial_instrument_full_name='', Quoted, AText ''financialInstrumentFullName''),
      ('', fx_currency_symbol='', Quoted, AText ''fXCurrencySymbol''), ('', settl_type='', Quoted, AText ''settlType''),
      ('', intervening_days='', Bare, AValue ''interveningDays''),
      ('', fx_benchmark_rate_fix='', Quoted, AText ''fXBenchmarkRateFix''),
      ('', rate_source='', Quoted, AText ''rateSource''), ('', fix_rate_local_time='', Quoted, AText ''fixRateLocalTime''),
      ('', fix_rate_local_time_zone='', Quoted, AText ''fixRateLocalTimeZone''),
      ('', min_quote_life='', Bare, AValue ''minQuoteLife''),
      ('', max_price_discretion_offset='', Bare, AValue ''maxPriceDiscretionOffset''),
      ('', instrument_guid='', Bare, AValue ''instrumentGUID''),
      ('', maturity_month_year='', Bare, AValue ''maturityMonthYear''),
      ('', settlement_locale='', Quoted, AText ''settlementLocale'')],
      ('', '' @ CHR 0x22 # ''...}''))"

subsection \<open>\<^verbatim>\<open>protocol/mdp/quote_request.hpp\<close>\<close>

definition fmt_QuoteRequest39_NoRelatedSym :: formatter where
  "fmt_QuoteRequest39_NoRelatedSym =
     ([
      (''{symbol='', Bare, AValue ''symbol''), ('', security_id='', Bare, AValue ''securityID''),
      ('', order_qty='', Bare, AValue ''orderQty''), ('', order_type='', Bare, AValue ''quoteType''),
      ('', side='', Bare, AValue ''side'')],
      ''}'')"

definition fmt_QuoteRequest39 :: formatter where
  "fmt_QuoteRequest39 =
     ([
      (''{version='', Bare, AValue ''actingVersion''), ('', transact_time='', Bare, AValue ''transactTime''),
      ('', quote_req_id='', Bare, AValue ''quoteReqID''),
      ('', match_event_indicator='', Bare, AValue ''matchEventIndicator''),
      ('', no_related_sym=['', Bare, AItems ''noRelatedSym'')],
      '']}'')"

subsection \<open>\<^verbatim>\<open>protocol/mdp/security_status.hpp\<close>\<close>

definition fmt_SecurityStatus30 :: formatter where
  "fmt_SecurityStatus30 =
     ([
      (''{version='', Bare, AValue ''actingVersion''), ('', transact_time='', Bare, AValue ''transactTime''),
      ('', security_group='', Quoted, AText ''securityGroup''), ('', asset='', Quoted, AText ''asset''),
      ('', security_id='', Bare, AValue ''securityID''), ('', trade_date='', Bare, AValue ''tradeDate''),
      ('', match_event_indicator='', Bare, AValue ''matchEventIndicator''),
      ('', security_trading_status='', Bare, AValue ''securityTradingStatus''),
      ('', halt_reason='', Bare, AValue ''haltReason''),
      ('', security_trading_event='', Bare, AValue ''securityTradingEvent'')],
      '' }'')"

subsection \<open>\<^verbatim>\<open>protocol/mdp/snapshot_full_refresh.hpp\<close>\<close>

definition fmt_SnapshotFullRefresh52_NoMDEntries :: formatter where
  "fmt_SnapshotFullRefresh52_NoMDEntries =
     ([
      (''{md_entry_px='', Bare, ADouble ''mDEntryPx''), ('', md_entry_size='', Bare, AInt ''mDEntrySize''),
      ('', number_of_orders='', Bare, AInt ''numberOfOrders''), ('', md_price_level='', Bare, AInt ''mDPriceLevel''),
      ('', trading_reference_date='', Bare, AValue ''tradingReferenceDate''),
      ('', open_close_settl_flag='', Bare, AValue ''openCloseSettlFlag''),
      ('', settl_price_type='', Bare, AValue ''settlPriceType''), ('', md_entry_type='', Bare, AValue ''mDEntryType'')],
      ''}'')"

definition fmt_SnapshotFullRefresh52 :: formatter where
  "fmt_SnapshotFullRefresh52 =
     ([
      (''{version='', Bare, AValue ''actingVersion''),
      ('', last_msg_seq_num_processed='', Bare, AValue ''lastMsgSeqNumProcessed''),
      ('', tot_num_reports='', Bare, AValue ''totNumReports''), ('', security_id='', Bare, AValue ''securityID''),
      ('', rpt_seq='', Bare, AValue ''rptSeq''), ('', transact_time='', Bare, AValue ''transactTime''),
      ('', last_update_time='', Bare, AValue ''lastUpdateTime''), ('', trade_date='', Bare, AValue ''tradeDate''),
      ('', md_security_trading_status='', Bare, AValue ''mDSecurityTradingStatus''),
      ('', high_limit_price='', Bare, ADouble ''highLimitPrice''), ('', low_limit_price='', Bare, ADouble ''lowLimitPrice''),
      ('', max_price_variation='', Bare, ADouble ''maxPriceVariation''),
      ('', no_md_entries=['', Bare, AItems ''noMDEntries'')],
      '']}'')"

definition fmt_SnapshotFullRefreshOrderBook53_NoMDEntries :: formatter where
  "fmt_SnapshotFullRefreshOrderBook53_NoMDEntries =
     ([
      (''{order_id='', Bare, AValue ''orderID''), ('', md_order_priority='', Bare, AInt ''mDOrderPriority''),
      ('', md_entry_px='', Bare, AValue ''mDEntryPx''), ('', md_display_qty='', Bare, AValue ''mDDisplayQty''),
      ('', md_entry_type='', Bare, AValue ''mDEntryType'')],
      ''}'')"

definition fmt_SnapshotFullRefreshOrderBook53 :: formatter where
  "fmt_SnapshotFullRefreshOrderBook53 =
     ([
      (''{version='', Bare, AValue ''actingVersion''),
      ('', last_msg_seq_num_processed='', Bare, AValue ''lastMsgSeqNumProcessed''),
      ('', tot_num_reports='', Bare, AValue ''totNumReports''), ('', security_id='', Bare, AValue ''securityID''),
      ('', no_chunks='', Bare, AValue ''noChunks''), ('', current_chunk='', Bare, AValue ''currentChunk''),
      ('', transact_time='', Bare, AValue ''transactTime''), ('', no_md_entries=['', Bare, AItems ''noMDEntries'')],
      '']}'')"

definition fmt_SnapshotFullRefreshLongQty69_NoMDEntries :: formatter where
  "fmt_SnapshotFullRefreshLongQty69_NoMDEntries =
     ([
      (''{md_entry_px='', Bare, AValue ''mDEntryPx''), ('', md_entry_size='', Bare, AInt ''mDEntrySize''),
      ('', number_of_orderes='', Bare, AInt ''numberOfOrders''), ('', md_price_level='', Bare, AInt ''mDPriceLevel''),
      ('', open_close_settl_flag='', Bare, AValue ''openCloseSettlFlag''),
      ('', md_entry_type='', Bare, AValue ''mDEntryType'')],
      ''}'')"

definition fmt_SnapshotFullRefreshLongQty69 :: formatter where
  "fmt_SnapshotFullRefreshLongQty69 =
     ([
      (''{version='', Bare, AValue ''actingVersion''),
      ('', last_msg_seq_num_processed='', Bare, AValue ''lastMsgSeqNumProcessed''),
      ('', tot_num_reports='', Bare, AValue ''totNumReports''), ('', security_id='', Bare, AValue ''securityID''),
      ('', rpt_seq='', Bare, AValue ''rptSeq''), ('', transact_time='', Bare, AValue ''transactTime''),
      ('', last_update_time='', Bare, AValue ''lastUpdateTime''), ('', trade_date='', Bare, AValue ''tradeDate''),
      ('', md_security_trading_status='', Bare, AValue ''mDSecurityTradingStatus''),
      ('', high_limit_price='', Bare, AValue ''highLimitPrice''), ('', low_limit_price='', Bare, AValue ''lowLimitPrice''),
      ('', max_price_variation='', Bare, AValue ''maxPriceVariation''), ('', no_md_entries=['', Bare, AItems ''noMDEntries'')],
      '']}'')"

subsection \<open>\<^verbatim>\<open>protocol/mdp/utils.hpp\<close>\<close>

definition fmt_MessageHeader :: formatter where
  "fmt_MessageHeader =
     ([
      (''{blockLength='', Bare, AValue ''blockLength''), ('', templateId='', Bare, AValue ''templateId''),
      ('', schemaId='', Bare, AValue ''schemaId''), ('', version='', Bare, AValue ''version'')],
      ''}'')"

definition fmt_Decimal9 :: formatter where
  "fmt_Decimal9 =
     ([
      ('''', Bare, ADouble ''value'')],
      '''')"

definition fmt_Decimal9NULL :: formatter where
  "fmt_Decimal9NULL =
     ([
      ('''', Bare, ADouble ''value'')],
      '''')"

definition fmt_DecimalQty :: formatter where
  "fmt_DecimalQty =
     ([
      ('''', Bare, ADouble ''value'')],
      '''')"

definition fmt_mdp_PRICE9 :: formatter where
  "fmt_mdp_PRICE9 =
     ([
      ('''', Bare, ADouble ''value'')],
      '''')"

definition fmt_mdp_PRICENULL9 :: formatter where
  "fmt_mdp_PRICENULL9 =
     ([
      ('''', Bare, ADouble ''value'')],
      '''')"

definition fmt_InstAttribValue :: formatter where
  "fmt_InstAttribValue =
     ([
      ('''', Bare, AValue ''rawValue'')],
      '''')"

definition fmt_MatchEventIndicator :: formatter where
  "fmt_MatchEventIndicator =
     ([
      ('''', Bare, AValue ''rawValue'')],
      '''')"

definition fmt_SettlPriceType :: formatter where
  "fmt_SettlPriceType =
     ([
      ('''', Bare, AValue ''rawValue'')],
      '''')"

definition fmt_mdp_MaturityMonthYear :: formatter where
  "fmt_mdp_MaturityMonthYear =
     ([
      (''{year='', Bare, AValue ''year''), ('', month='', Bare, AValue ''month''), ('', day='', Bare, AValue ''day''),
      ('', week='', Bare, AValue ''week'')],
      ''})'')"

definition mdp_formatters :: "formatter list" where
  "mdp_formatters =
     [fmt_ChannelReset4_NoMDEntries,
      fmt_ChannelReset4,
      fmt_AdminHeartbeat12,
      fmt_mdp_Frame,
      fmt_MDIncrementalRefreshVolume37_NoMDEntries,
      fmt_MDIncrementalRefreshVolume37,
      fmt_MDIncrementalRefreshBook46_NoMDEntries,
      fmt_MDIncrementalRefreshBook46_NoOrderIDEntries,
      fmt_MDIncrementalRefreshBook46,
      fmt_MDIncrementalRefreshOrderBook47_NoMDEntries,
      fmt_MDIncrementalRefreshOrderBook47,
      fmt_MDIncrementalRefreshTradeSummary48_NoMDEntries,
      fmt_MDIncrementalRefreshTradeSummary48_NoOrderIDEntries,
      fmt_MDIncrementalRefreshTradeSummary48,
      fmt_MDIncrementalRefreshDailyStatistics49_NoMDEntries,
      fmt_MDIncrementalRefreshDailyStatistics49,
      fmt_MDIncrementalRefreshLimitsBanding50_NoMDEntries,
      fmt_MDIncrementalRefreshLimitsBanding50,
      fmt_MDIncrementalRefreshSessionStatistics51_NoMDEntries,
      fmt_MDIncrementalRefreshSessionStatistics51,
      fmt_MDIncrementalRefreshBookLongQty64_NoMDEntries,
      fmt_MDIncrementalRefreshBookLongQty64_NoOrderIDEntries,
      fmt_MDIncrementalRefreshBookLongQty64,
      fmt_MDIncrementalRefreshTradeSummaryLongQty65_NoMDEntries,
      fmt_MDIncrementalRefreshTradeSummaryLongQty65_NoOrderIDEntries,
      fmt_MDIncrementalRefreshTradeSummaryLongQty65,
      fmt_MDIncrementalRefreshVolumeLongQty66_NoMDEntries,
      fmt_MDIncrementalRefreshVolumeLongQty66,
      fmt_MDIncrementalRefreshSessionStatisticsLongQty67_NoMDEntries,
      fmt_MDIncrementalRefreshSessionStatisticsLongQty67,
      fmt_MDInstrumentDefinitionFuture54_NoEvents,
      fmt_MDInstrumentDefinitionFuture54_NoMDFeedTypes,
      fmt_MDInstrumentDefinitionFuture54_NoInstAttrib,
      fmt_MDInstrumentDefinitionFuture54_NoLotTypeRules,
      fmt_MDInstrumentDefinitionFuture54,
      fmt_MDInstrumentDefinitionOption55,
      fmt_MDInstrumentDefinitionSpread56,
      fmt_MDInstrumentDefinitionFixedIncome57,
      fmt_MDInstrumentDefinitionRepo58,
      fmt_MDInstrumentDefinitionFX63,
      fmt_QuoteRequest39_NoRelatedSym,
      fmt_QuoteRequest39,
      fmt_SecurityStatus30,
      fmt_SnapshotFullRefresh52_NoMDEntries,
      fmt_SnapshotFullRefresh52,
      fmt_SnapshotFullRefreshOrderBook53_NoMDEntries,
      fmt_SnapshotFullRefreshOrderBook53,
      fmt_SnapshotFullRefreshLongQty69_NoMDEntries,
      fmt_SnapshotFullRefreshLongQty69,
      fmt_MessageHeader,
      fmt_Decimal9,
      fmt_Decimal9NULL,
      fmt_DecimalQty,
      fmt_mdp_PRICE9,
      fmt_mdp_PRICENULL9,
      fmt_InstAttribValue,
      fmt_MatchEventIndicator,
      fmt_SettlPriceType,
      fmt_mdp_MaturityMonthYear]"

lemmas mdp_formatter_defs =
  fmt_ChannelReset4_NoMDEntries_def
  fmt_ChannelReset4_def
  fmt_AdminHeartbeat12_def
  fmt_mdp_Frame_def
  fmt_MDIncrementalRefreshVolume37_NoMDEntries_def
  fmt_MDIncrementalRefreshVolume37_def
  fmt_MDIncrementalRefreshBook46_NoMDEntries_def
  fmt_MDIncrementalRefreshBook46_NoOrderIDEntries_def
  fmt_MDIncrementalRefreshBook46_def
  fmt_MDIncrementalRefreshOrderBook47_NoMDEntries_def
  fmt_MDIncrementalRefreshOrderBook47_def
  fmt_MDIncrementalRefreshTradeSummary48_NoMDEntries_def
  fmt_MDIncrementalRefreshTradeSummary48_NoOrderIDEntries_def
  fmt_MDIncrementalRefreshTradeSummary48_def
  fmt_MDIncrementalRefreshDailyStatistics49_NoMDEntries_def
  fmt_MDIncrementalRefreshDailyStatistics49_def
  fmt_MDIncrementalRefreshLimitsBanding50_NoMDEntries_def
  fmt_MDIncrementalRefreshLimitsBanding50_def
  fmt_MDIncrementalRefreshSessionStatistics51_NoMDEntries_def
  fmt_MDIncrementalRefreshSessionStatistics51_def
  fmt_MDIncrementalRefreshBookLongQty64_NoMDEntries_def
  fmt_MDIncrementalRefreshBookLongQty64_NoOrderIDEntries_def
  fmt_MDIncrementalRefreshBookLongQty64_def
  fmt_MDIncrementalRefreshTradeSummaryLongQty65_NoMDEntries_def
  fmt_MDIncrementalRefreshTradeSummaryLongQty65_NoOrderIDEntries_def
  fmt_MDIncrementalRefreshTradeSummaryLongQty65_def
  fmt_MDIncrementalRefreshVolumeLongQty66_NoMDEntries_def
  fmt_MDIncrementalRefreshVolumeLongQty66_def
  fmt_MDIncrementalRefreshSessionStatisticsLongQty67_NoMDEntries_def
  fmt_MDIncrementalRefreshSessionStatisticsLongQty67_def
  fmt_MDInstrumentDefinitionFuture54_NoEvents_def
  fmt_MDInstrumentDefinitionFuture54_NoMDFeedTypes_def
  fmt_MDInstrumentDefinitionFuture54_NoInstAttrib_def
  fmt_MDInstrumentDefinitionFuture54_NoLotTypeRules_def
  fmt_MDInstrumentDefinitionFuture54_def
  fmt_MDInstrumentDefinitionOption55_def
  fmt_MDInstrumentDefinitionSpread56_def
  fmt_MDInstrumentDefinitionFixedIncome57_def
  fmt_MDInstrumentDefinitionRepo58_def
  fmt_MDInstrumentDefinitionFX63_def
  fmt_QuoteRequest39_NoRelatedSym_def
  fmt_QuoteRequest39_def
  fmt_SecurityStatus30_def
  fmt_SnapshotFullRefresh52_NoMDEntries_def
  fmt_SnapshotFullRefresh52_def
  fmt_SnapshotFullRefreshOrderBook53_NoMDEntries_def
  fmt_SnapshotFullRefreshOrderBook53_def
  fmt_SnapshotFullRefreshLongQty69_NoMDEntries_def
  fmt_SnapshotFullRefreshLongQty69_def
  fmt_MessageHeader_def
  fmt_Decimal9_def
  fmt_Decimal9NULL_def
  fmt_DecimalQty_def
  fmt_mdp_PRICE9_def
  fmt_mdp_PRICENULL9_def
  fmt_InstAttribValue_def
  fmt_MatchEventIndicator_def
  fmt_SettlPriceType_def
  fmt_mdp_MaturityMonthYear_def

lemma mdp_formatters_wf: "list_all wf_formatter mdp_formatters"
  by (simp add: mdp_formatters_def wf_formatter_def mdp_formatter_defs)

subsection \<open>The names of the messages\<close>

definition names_admin :: "(string \<times> string) list" where
  "names_admin =
     [(''ChannelReset4'', ''channel_reset_4''),
      (''AdminHeartbeat12'', ''admin_heartbeat_12'')]"

definition names_md_incremental_refresh :: "(string \<times> string) list" where
  "names_md_incremental_refresh =
     [(''MDIncrementalRefreshVolume37'', ''md_incremental_refresh_volume_37''),
      (''MDIncrementalRefreshBook46'', ''md_incremental_refresh_book_46''),
      (''MDIncrementalRefreshOrderBook47'', ''md_incremental_refresh_order_book_47''),
      (''MDIncrementalRefreshTradeSummary48'', ''md_incremental_refresh_trade_summary_48''),
      (''MDIncrementalRefreshDailyStatistics49'', ''md_incremental_refresh_daily_statistics_49''),
      (''MDIncrementalRefreshLimitsBanding50'', ''md_incremental_refresh_limits_banding_50''),
      (''MDIncrementalRefreshSessionStatistics51'', ''md_incremental_refresh_session_statistics_51''),
      (''MDIncrementalRefreshBookLongQty64'', ''md_incremental_refresh_book_long_qty_64''),
      (''MDIncrementalRefreshTradeSummaryLongQty65'', ''md_incremental_refresh_trade_summary_long_qty_65''),
      (''MDIncrementalRefreshVolumeLongQty66'', ''md_incremental_refresh_volume_long_qty_66''),
      (''MDIncrementalRefreshSessionStatisticsLongQty67'', ''md_incremental_refresh_session_statistics_long_qty_67'')]"

definition names_md_instrument_definition :: "(string \<times> string) list" where
  "names_md_instrument_definition =
     [(''MDInstrumentDefinitionFuture54'', ''md_instrument_definition_future_54''),
      (''MDInstrumentDefinitionOption55'', ''md_instrument_definition_option_55''),
      (''MDInstrumentDefinitionSpread56'', ''md_instrument_definition_spread_56''),
      (''MDInstrumentDefinitionFixedIncome57'', ''md_instrument_definition_fixed_income_57''),
      (''MDInstrumentDefinitionRepo58'', ''md_instrument_definition_repo_58''),
      (''MDInstrumentDefinitionFX63'', ''md_instrument_definition_fx_63'')]"

definition names_quote_request :: "(string \<times> string) list" where
  "names_quote_request =
     [(''QuoteRequest39'', ''quote_request_39'')]"

definition names_security_status :: "(string \<times> string) list" where
  "names_security_status =
     [(''SecurityStatus30'', ''security_status_30'')]"

definition names_snapshot_full_refresh :: "(string \<times> string) list" where
  "names_snapshot_full_refresh =
     [(''SnapshotFullRefresh52'', ''snapshot_full_refresh_52''),
      (''SnapshotFullRefreshOrderBook53'', ''snapshot_full_refresh_order_book_53''),
      (''SnapshotFullRefreshTCP61'', ''snapshot_full_refresh_tcp_61''),
      (''SnapshotFullRefreshTCPLongQty68'', ''snapshot_full_refresh_tcp_long_qty_68''),
      (''SnapshotFullRefreshLongQty69'', ''snapshot_full_refresh_long_qty_69'')]"

definition mdp_names :: "(string \<times> string) list" where
  "mdp_names = names_admin @ names_md_incremental_refresh @ names_md_instrument_definition @ names_quote_request @ names_security_status @ names_snapshot_full_refresh"

text \<open>A name in a printed line identifies the type of the message.\<close>

lemma mdp_names_distinct: "distinct (map fst mdp_names) \<and> distinct (map snd mdp_names)"
  by (simp add: mdp_names_def names_admin_def names_md_incremental_refresh_def names_md_instrument_definition_def names_quote_request_def names_security_status_def names_snapshot_full_refresh_def)

end
