(* ===== verification/IlinkFormatters.thy ===== *)
theory IlinkFormatters
  imports TextFormat
begin

section \<open>The texts of order entry messages\<close>

text \<open>
  The formatters of the order entry messages (\<^verbatim>\<open>protocol/ilink/*.hpp\<close>) and of the configuration of the gateway,
  in the order of the sources: for every member that is printed the text before it, whether it
  is quoted, and how its text is made.
\<close>

subsection \<open>\<^verbatim>\<open>gateway/config.hpp\<close>\<close>

definition fmt_gateway_Config :: formatter where
  "fmt_gateway_Config =
     ([
      (''{symbols='', Bare, AValue ''symbols''), ('', accounts=['', Bare, AItems ''accounts''),
      (''], master_account='', Quoted, AValue ''master_account_''), ('', users=['', Bare, AItems ''users''),
      (''], rate_limits=['', Bare, AItems ''rate_limits'')],
      '']}'')"

subsection \<open>\<^verbatim>\<open>protocol/ilink/business.hpp\<close>\<close>

definition fmt_PartyDetailsDefinitionRequestAck519_NoPartyDetails :: formatter where
  "fmt_PartyDetailsDefinitionRequestAck519_NoPartyDetails = ([], ''{}'')"

definition fmt_PartyDetailsDefinitionRequestAck519_NoTrdRegPublications :: formatter where
  "fmt_PartyDetailsDefinitionRequestAck519_NoTrdRegPublications = ([], ''{}'')"

definition fmt_PartyDetailsDefinitionRequestAck519 :: formatter where
  "fmt_PartyDetailsDefinitionRequestAck519 =
     ([
      (''{seq_num='', Bare, AValue ''seqNum''), ('', uuid='', Bare, AValue ''uUID''), ('', memo='', Quoted, AValue ''memo''),
      ('', avg_px_group_id='', Quoted, AValue ''avgPxGroupID''),
      ('', party_details_list_req_id='', Bare, AValue ''partyDetailsListReqID''),
      ('', sending_time_epoch='', Bare, AValue ''sendingTimeEpoch''),
      ('', self_match_prevention_id='', Bare, AValue ''selfMatchPreventionID''),
      ('', party_details_request_status='', Bare, AValue ''partyDetailRequestStatus''),
      ('', cust_order_capacity='', Bare, AValue ''custOrderCapacity''),
      ('', clearing_account_type='', Bare, AValue ''clearingAccountType''),
      ('', self_match_prevention_instruction='', Bare, AValue ''selfMatchPreventionInstruction''),
      ('', avg_px_indicator='', Bare, AValue ''avgPxIndicator''),
      ('', clearing_trade_price_type='', Bare, AValue ''clearingTradePriceType''),
      ('', cmta_giveup_cd='', Bare, AValue ''cmtaGiveupCD''),
      ('', cust_order_handling_inst='', Bare, AValue ''custOrderHandlingInst''),
      ('', no_party_updates='', Bare, AValue ''noPartyUpdates''),
      ('', list_update_action='', Bare, AValue ''listUpdateAction''),
      ('', party_detail_definition_status='', Bare, AValue ''partyDetailDefinitionStatus''),
      ('', executor='', Bare, AValue ''executor''), ('', idm_short_code='', Bare, AValue ''iDMShortCode''),
      ('', poss_retrans_flag='', Bare, AValue ''possRetransFlag''), ('', split_msg='', Bare, AValue ''splitMsg'')],
      '', }'')"

definition fmt_BusinessReject521 :: formatter where
  "fmt_BusinessReject521 =
     ([
      (''{seq_num='', Bare, AValue ''seqNum''), ('', uuid='', Bare, AValue ''uUID''), ('', text='', Quoted, AValue ''text''),
      ('', sender_id='', Bare, AValue ''senderID''),
      ('', party_details_list_req_id='', Bare, AValue ''partyDetailsListReqID''),
      ('', sending_time_epoch='', Bare, AValue ''sendingTimeEpoch''),
      ('', business_reject_ref_id='', Bare, AValue ''businessRejectRefID''), ('', location='', Bare, AValue ''location''),
      ('', ref_seq_num='', Bare, AValue ''refSeqNum''), ('', ref_tag_id='', Bare, AValue ''refTagID''),
      ('', business_reject_reason='', Bare, AValue ''businessRejectReason''),
      ('', ref_msg_type='', Bare, AValue ''refMsgType''), ('', poss_retrans_flag='', Bare, AValue ''possRetransFlag''),
      ('', manual_order_indicator='', Bare, AValue ''manualOrderIndicator''), ('', split_msg='', Bare, AValue ''splitMsg'')],
      ''}'')"

subsection \<open>\<^verbatim>\<open>protocol/ilink/establish.hpp\<close>\<close>

definition fmt_Establish :: formatter where
  "fmt_Establish =
     ([
      (''{hmac_signature=['', Bare, AHex ''hmac_signature''), (''], access_key_id='', Quoted, AValue ''access_key_id''),
      ('', trading_system_name='', Quoted, AValue ''trading_system_name''),
      ('', trading_system_version='', Quoted, AValue ''trading_system_version''),
      ('', trading_system_vendor='', Quoted, AValue ''trading_system_vendor''), ('', uuid='', Bare, AValue ''uuid''),
      ('', request_timestamp='', Bare, AValue ''request_timestamp''), ('', next_seq_no='', Bare, AValue ''next_seq_no''),
      ('', session='', Quoted, AValue ''session''), ('', firm='', Quoted, AValue ''firm''),
      ('', keep_alive_interval='', Quoted, AValue ''keep_alive_interval'')],
      '', }'')"

subsection \<open>\<^verbatim>\<open>protocol/ilink/execution_report.hpp\<close>\<close>

definition fmt_ExecutionReportNew522 :: formatter where
  "fmt_ExecutionReportNew522 =
     ([
      (''{seq_num='', Bare, AValue ''seqNum''), ('', uuid='', Bare, AValue ''uUID''),
      ('', exec_id='', Quoted, AValue ''execID''), ('', sender_id='', Quoted, AValue ''senderID''),
      ('', cl_ord_id='', Quoted, AValue ''clOrdID''),
      ('', party_details_list_req_id='', Bare, AValue ''partyDetailsListReqID''),
      ('', order_id='', Bare, AValue ''orderID''), ('', price='', Bare, AValue ''price''),
      ('', stop_px='', Bare, AValue ''stopPx''), ('', transact_time='', Bare, AValue ''transactTime''),
      ('', sending_time_epoch='', Bare, AValue ''sendingTimeEpoch''),
      ('', order_request_id='', Bare, AValue ''orderRequestID''), ('', cross_id='', Bare, AValue ''crossID''),
      ('', host_cross_id='', Bare, AValue ''hostCrossID''), ('', location='', Quoted, AValue ''location''),
      ('', security_id='', Bare, AValue ''securityID''), ('', order_qty='', Bare, AValue ''orderQty''),
      ('', min_qty='', Bare, AValue ''minQty''), ('', display_qty='', Bare, AValue ''displayQty''),
      ('', expire_date='', Bare, AValue ''expireDate''), ('', delay_duration='', Bare, AValue ''delayDuration''),
      ('', ord_status='', Bare, AValue ''ordStatus''), ('', exec_type='', Bare, AValue ''execType''),
      ('', ord_type='', Bare, AValue ''ordType''), ('', side='', Bare, AValue ''side''),
      ('', time_in_force='', Bare, AValue ''timeInForce''),
      ('', manual_order_indicator='', Bare, AValue ''manualOrderIndicator''),
      ('', poss_retrans_flag='', Bare, AValue ''possRetransFlag''), ('', split_msg='', Bare, AValue ''splitMsg''),
      ('', cross_type='', Bare, AValue ''crossType''), ('', exec_inst='', Bare, AValue ''execInst''),
      ('', execution_mode='', Bare, AValue ''executionMode''), ('', liquidity_flag='', Bare, AValue ''liquidityFlag''),
      ('', managed_order='', Bare, AValue ''managedOrder''), ('', short_sale_type='', Bare, AValue ''shortSaleType''),
      ('', delay_to_time='', Bare, AValue ''delayToTime''), ('', discretion_price='', Bare, AValue ''discretionPrice'')],
      ''}'')"

definition fmt_ExecutionReportReject523 :: formatter where
  "fmt_ExecutionReportReject523 =
     ([
      (''{seq_num='', Bare, AValue ''seqNum''), ('', uuid='', Bare, AValue ''uUID''), ('', text='', Quoted, AValue ''text''),
      ('', exec_id='', Quoted, AValue ''execID''), ('', sender_id='', Quoted, AValue ''senderID''),
      ('', cl_ord_id='', Quoted, AValue ''clOrdID''),
      ('', party_details_list_req_id='', Bare, AValue ''partyDetailsListReqID''),
      ('', order_id='', Bare, AValue ''orderID''), ('', price='', Bare, AValue ''price''),
      ('', stop_px='', Bare, AValue ''stopPx''), ('', transact_time='', Bare, AValue ''transactTime''),
      ('', sending_time_epoch='', Bare, AValue ''sendingTimeEpoch''),
      ('', order_request_id='', Bare, AValue ''orderRequestID''), ('', cross_id='', Bare, AValue ''crossID''),
      ('', host_cross_id='', Bare, AValue ''hostCrossID''), ('', location='', Quoted, AValue ''location''),
      ('', security_id='', Bare, AValue ''securityID''), ('', order_qty='', Bare, AValue ''orderQty''),
      ('', min_qty='', Bare, AValue ''minQty''), ('', display_qty='', Bare, AValue ''displayQty''),
      ('', ord_rej_reason='', Bare, AValue ''ordRejReason''), ('', expire_date='', Bare, AValue ''expireDate''),
      ('', delay_duration='', Bare, AValue ''delayDuration''), ('', ord_status='', Bare, AValue ''ordStatus''),
      ('', exec_type='', Bare, AValue ''execType''), ('', ord_type='', Bare, AValue ''ordType''),
      ('', side='', Bare, AValue ''side''), ('', time_in_force='', Bare, AValue ''timeInForce''),
      ('', manual_order_indicator='', Bare, AValue ''manualOrderIndicator''),
      ('', poss_retrans_flag='', Bare, AValue ''possRetransFlag''), ('', split_msg='', Bare, AValue ''splitMsg''),
      ('', cross_type='', Bare, AValue ''crossType''), ('', exec_inst='', Bare, AValue ''execInst''),
      ('', execution_mode='', Bare, AValue ''executionMode''), ('', liquidity_flag='', Bare, AValue ''liquidityFlag''),
      ('', managed_order='', Bare, AValue ''managedOrder''), ('', short_sale_type='', Bare, AValue ''shortSaleType''),
      ('', delay_to_time='', Bare, AValue ''delayToTime''), ('', discretion_price='', Bare, AValue ''discretionPrice'')],
      ''}'')"

definition fmt_ExecutionReportModify531 :: formatter where
  "fmt_ExecutionReportModify531 =
     ([
      (''{seq_num='', Bare, AValue ''seqNum''), ('', uuid='', Bare, AValue ''uUID''),
      ('', exec_id='', Quoted, AValue ''execID''), ('', sender_id='', Quoted, AValue ''senderID''),
      ('', cl_ord_id='', Quoted, AValue ''clOrdID''),
      ('', party_details_list_req_id='', Bare, AValue ''partyDetailsListReqID''),
      ('', order_id='', Bare, AValue ''orderID''), ('', price='', Bare, AValue ''price''),
      ('', stop_px='', Bare, AValue ''stopPx''), ('', transact_time='', Bare, AValue ''transactTime''),
      ('', sending_time_epoch='', Bare, AValue ''sendingTimeEpoch''),
      ('', order_request_id='', Bare, AValue ''orderRequestID''), ('', cross_id='', Bare, AValue ''crossID''),
      ('', host_cross_id='', Bare, AValue ''hostCrossID''), ('', location='', Quoted, AValue ''location''),
      ('', security_id='', Bare, AValue ''securityID''), ('', order_qty='', Bare, AValue ''orderQty''),
      ('', cum_qty='', Bare, AValue ''cumQty''), ('', leaves_qty='', Bare, AValue ''leavesQty''),
      ('', min_qty='', Bare, AValue ''minQty''), ('', display_qty='', Bare, AValue ''displayQty''),
      ('', expire_date='', Bare, AValue ''expireDate''), ('', delay_duration='', Bare, AValue ''delayDuration''),
      ('', ord_status='', Bare, AValue ''ordStatus''), ('', exec_type='', Bare, AValue ''execType''),
      ('', ord_type='', Bare, AValue ''ordType''), ('', side='', Bare, AValue ''side''),
      ('', time_in_force='', Bare, AValue ''timeInForce''),
      ('', manual_order_indicator='', Bare, AValue ''manualOrderIndicator''),
      ('', poss_retrans_flag='', Bare, AValue ''possRetransFlag''), ('', split_msg='', Bare, AValue ''splitMsg''),
      ('', cross_type='', Bare, AValue ''crossType''), ('', exec_inst='', Bare, AValue ''execInst''),
      ('', execution_mode='', Bare, AValue ''executionMode''), ('', liquidity_flag='', Bare, AValue ''liquidityFlag''),
      ('', managed_order='', Bare, AValue ''managedOrder''), ('', short_sale_type='', Bare, AValue ''shortSaleType''),
      ('', delay_to_time='', Bare, AValue ''delayToTime''), ('', discretion_price='', Bare, AValue ''discretionPrice'')],
      ''}'')"

definition fmt_ExecutionReportStatus532 :: formatter where
  "fmt_ExecutionReportStatus532 =
     ([
      (''{seq_num='', Bare, AValue ''seqNum''), ('', uuid='', Bare, AValue ''uUID''), ('', text='', Quoted, AValue ''text''),
      ('', exec_id='', Quoted, AValue ''execID''), ('', sender_id='', Quoted, AValue ''senderID''),
      ('', cl_ord_id='', Quoted, AValue ''clOrdID''),
      ('', party_details_list_req_id='', Bare, AValue ''partyDetailsListReqID''),
      ('', order_id='', Bare, AValue ''orderID''), ('', price='', Bare, AValue ''price''),
      ('', stop_px='', Bare, AValue ''stopPx''), ('', transact_time='', Bare, AValue ''transactTime''),
      ('', sending_time_epoch='', Bare, AValue ''sendingTimeEpoch''),
      ('', order_request_id='', Bare, AValue ''orderRequestID''),
      ('', ord_status_req_id='', Bare, AValue ''ordStatusReqID''),
      ('', mass_status_req_id='', Bare, AValue ''massStatusReqID''), ('', cross_id='', Bare, AValue ''crossID''),
      ('', host_cross_id='', Bare, AValue ''hostCrossID''), ('', location='', Quoted, AValue ''location''),
      ('', security_id='', Bare, AValue ''securityID''), ('', order_qty='', Bare, AValue ''orderQty''),
      ('', min_qty='', Bare, AValue ''minQty''), ('', display_qty='', Bare, AValue ''displayQty''),
      ('', expire_date='', Bare, AValue ''expireDate''), ('', ord_status='', Bare, AValue ''ordStatus''),
      ('', exec_type='', Bare, AValue ''execType''), ('', ord_type='', Bare, AValue ''ordType''),
      ('', side='', Bare, AValue ''side''), ('', time_in_force='', Bare, AValue ''timeInForce''),
      ('', manual_order_indicator='', Bare, AValue ''manualOrderIndicator''),
      ('', poss_retrans_flag='', Bare, AValue ''possRetransFlag''),
      ('', last_rpt_requested='', Bare, AValue ''lastRptRequested''), ('', cross_type='', Bare, AValue ''crossType''),
      ('', exec_inst='', Bare, AValue ''execInst''), ('', execution_mode='', Bare, AValue ''executionMode''),
      ('', liquidity_flag='', Bare, AValue ''liquidityFlag''), ('', managed_order='', Bare, AValue ''managedOrder''),
      ('', short_sale_type='', Bare, AValue ''shortSaleType''), ('', discretion_price='', Bare, AValue ''discretionPrice'')],
      ''}'')"

definition fmt_ExecutionReportCancel534 :: formatter where
  "fmt_ExecutionReportCancel534 =
     ([
      (''{seq_num='', Bare, AValue ''seqNum''), ('', uuid='', Bare, AValue ''uUID''),
      ('', exec_id='', Quoted, AValue ''execID''), ('', sender_id='', Quoted, AValue ''senderID''),
      ('', cl_ord_id='', Quoted, AValue ''clOrdID''),
      ('', party_details_list_req_id='', Bare, AValue ''partyDetailsListReqID''),
      ('', order_id='', Bare, AValue ''orderID''), ('', price='', Bare, AValue ''price''),
      ('', stop_px='', Bare, AValue ''stopPx''), ('', transact_time='', Bare, AValue ''transactTime''),
      ('', sending_time_epoch='', Bare, AValue ''sendingTimeEpoch''),
      ('', order_request_id='', Bare, AValue ''orderRequestID''), ('', cross_id='', Bare, AValue ''crossID''),
      ('', host_cross_id='', Bare, AValue ''hostCrossID''), ('', location='', Quoted, AValue ''location''),
      ('', security_id='', Bare, AValue ''securityID''), ('', order_qty='', Bare, AValue ''orderQty''),
      ('', cum_qty='', Bare, AValue ''cumQty''), ('', min_qty='', Bare, AValue ''minQty''),
      ('', display_qty='', Bare, AValue ''displayQty''), ('', expire_date='', Bare, AValue ''expireDate''),
      ('', delay_duration='', Bare, AValue ''delayDuration''), ('', ord_status='', Bare, AValue ''ordStatus''),
      ('', exec_type='', Bare, AValue ''execType''), ('', ord_type='', Bare, AValue ''ordType''),
      ('', side='', Bare, AValue ''side''), ('', time_in_force='', Bare, AValue ''timeInForce''),
      ('', manual_order_indicator='', Bare, AValue ''manualOrderIndicator''),
      ('', poss_retrans_flag='', Bare, AValue ''possRetransFlag''), ('', split_msg='', Bare, AValue ''splitMsg''),
      ('', exec_restatement_reason='', Bare, AValue ''execRestatementReason''),
      ('', cross_type='', Bare, AValue ''crossType''), ('', exec_inst='', Bare, AValue ''execInst''),
      ('', execution_mode='', Bare, AValue ''executionMode''), ('', liquidity_flag='', Bare, AValue ''liquidityFlag''),
      ('', managed_order='', Bare, AValue ''managedOrder''), ('', short_sale_type='', Bare, AValue ''shortSaleType''),
      ('', delay_to_time='', Bare, AValue ''delayToTime''), ('', discretion_price='', Bare, AValue ''discretionPrice'')],
      ''}'')"

definition fmt_ExecutionReportPendingCancel564 :: formatter where
  "fmt_ExecutionReportPendingCancel564 =
     ([
      (''{seq_num='', Bare, AValue ''seqNum''), ('', uuid='', Bare, AValue ''uUID''),
      ('', exec_id='', Quoted, AValue ''execID''), ('', sender_id='', Quoted, AValue ''senderID''),
      ('', cl_ord_id='', Quoted, AValue ''clOrdID''),
      ('', party_details_list_req_id='', Bare, AValue ''partyDetailsListReqID''),
      ('', order_id='', Bare, AValue ''orderID''), ('', price='', Bare, AValue ''price''),
      ('', transact_time='', Bare, AValue ''transactTime''), ('', sending_time_epoch='', Bare, AValue ''sendingTimeEpoch''),
      ('', order_request_id='', Bare, AValue ''orderRequestID''), ('', location='', Quoted, AValue ''location''),
      ('', security_id='', Bare, AValue ''securityID''), ('', order_qty='', Bare, AValue ''orderQty''),
      ('', cum_qty='', Bare, AValue ''cumQty''), ('', leaves_qty='', Bare, AValue ''leavesQty''),
      ('', min_qty='', Bare, AValue ''minQty''), ('', display_qty='', Bare, AValue ''displayQty''),
      ('', expire_date='', Bare, AValue ''expireDate''), ('', ord_status='', Bare, AValue ''ordStatus''),
      ('', exec_type='', Bare, AValue ''execType''), ('', ord_type='', Bare, AValue ''ordType''),
      ('', side='', Bare, AValue ''side''), ('', time_in_force='', Bare, AValue ''timeInForce''),
      ('', manual_order_indicator='', Bare, AValue ''manualOrderIndicator''),
      ('', poss_retrans_flag='', Bare, AValue ''possRetransFlag''), ('', split_msg='', Bare, AValue ''splitMsg''),
      ('', liquidity_flag='', Bare, AValue ''liquidityFlag''), ('', delay_to_time='', Bare, AValue ''delayToTime''),
      ('', discretion_price='', Bare, AValue ''discretionPrice'')],
      ''}'')"

definition fmt_ExecutionReportPendingReplace565 :: formatter where
  "fmt_ExecutionReportPendingReplace565 =
     ([
      (''{seq_num='', Bare, AValue ''seqNum''), ('', uuid='', Bare, AValue ''uUID''),
      ('', exec_id='', Quoted, AValue ''execID''), ('', sender_id='', Quoted, AValue ''senderID''),
      ('', cl_ord_id='', Quoted, AValue ''clOrdID''),
      ('', party_details_list_req_id='', Bare, AValue ''partyDetailsListReqID''),
      ('', order_id='', Bare, AValue ''orderID''), ('', price='', Bare, AValue ''price''),
      ('', transact_time='', Bare, AValue ''transactTime''), ('', sending_time_epoch='', Bare, AValue ''sendingTimeEpoch''),
      ('', order_request_id='', Bare, AValue ''orderRequestID''), ('', location='', Quoted, AValue ''location''),
      ('', security_id='', Bare, AValue ''securityID''), ('', order_qty='', Bare, AValue ''orderQty''),
      ('', cum_qty='', Bare, AValue ''cumQty''), ('', leaves_qty='', Bare, AValue ''leavesQty''),
      ('', min_qty='', Bare, AValue ''minQty''), ('', display_qty='', Bare, AValue ''displayQty''),
      ('', expire_date='', Bare, AValue ''expireDate''), ('', ord_status='', Bare, AValue ''ordStatus''),
      ('', exec_type='', Bare, AValue ''execType''), ('', ord_type='', Bare, AValue ''ordType''),
      ('', side='', Bare, AValue ''side''), ('', time_in_force='', Bare, AValue ''timeInForce''),
      ('', manual_order_indicator='', Bare, AValue ''manualOrderIndicator''),
      ('', poss_retrans_flag='', Bare, AValue ''possRetransFlag''), ('', split_msg='', Bare, AValue ''splitMsg''),
      ('', liquidity_flag='', Bare, AValue ''liquidityFlag''), ('', short_sale_type='', Bare, AValue ''shortSaleType''),
      ('', delay_to_time='', Bare, AValue ''delayToTime''), ('', discretion_price='', Bare, AValue ''discretionPrice'')],
      ''}'')"

definition fmt_ExecutionReportTradeOutright525 :: formatter where
  "fmt_ExecutionReportTradeOutright525 =
     ([
      (''{seq_num='', Bare, AValue ''seqNum''), ('', uuid='', Bare, AValue ''uUID''),
      ('', exec_id='', Quoted, AValue ''execID''), ('', sender_id='', Quoted, AValue ''senderID''),
      ('', cl_ord_id='', Quoted, AValue ''clOrdID''),
      ('', party_details_list_req_id='', Bare, AValue ''partyDetailsListReqID''), ('', last_px='', Bare, AValue ''lastPx''),
      ('', order_id='', Bare, AValue ''orderID''), ('', price='', Bare, AValue ''price''),
      ('', stop_px='', Bare, AValue ''stopPx''), ('', transact_time='', Bare, AValue ''transactTime''),
      ('', sending_time_epoch='', Bare, AValue ''sendingTimeEpoch''),
      ('', order_request_id='', Bare, AValue ''orderRequestID''), ('', sec_exec_id='', Bare, AValue ''secExecID''),
      ('', cross_id='', Bare, AValue ''crossID''), ('', host_cross_id='', Bare, AValue ''hostCrossID''),
      ('', location='', Quoted, AValue ''location''), ('', security_id='', Bare, AValue ''securityID''),
      ('', order_qty='', Bare, AValue ''orderQty''), ('', last_qty='', Bare, AValue ''lastQty''),
      ('', cum_qty='', Bare, AValue ''cumQty''), ('', md_trade_entry_id='', Bare, AValue ''mDTradeEntryID''),
      ('', side_trade_id='', Bare, AValue ''sideTradeID''), ('', trade_link_id='', Bare, AValue ''tradeLinkID''),
      ('', leaves_qty='', Bare, AValue ''leavesQty''), ('', trade_date='', Bare, AValue ''tradeDate''),
      ('', expire_date='', Bare, AValue ''expireDate''), ('', ord_status='', Bare, AValue ''ordStatus''),
      ('', exec_type='', Bare, AValue ''execType''), ('', ord_type='', Bare, AValue ''ordType''),
      ('', side='', Bare, AValue ''side''), ('', time_in_force='', Bare, AValue ''timeInForce''),
      ('', manual_order_indicator='', Bare, AValue ''manualOrderIndicator''),
      ('', poss_retrans_flag='', Bare, AValue ''possRetransFlag''),
      ('', aggressor_indicator='', Bare, AValue ''aggressorIndicator''), ('', cross_type='', Bare, AValue ''crossType''),
      ('', exec_inst='', Bare, AValue ''execInst''), ('', execution_mode='', Bare, AValue ''executionMode''),
      ('', liquidity_flag='', Bare, AValue ''liquidityFlag''), ('', managed_order='', Bare, AValue ''managedOrder''),
      ('', short_sale_type='', Bare, AValue ''shortSaleType''), ('', ownership='', Bare, AValue ''ownership''),
      ('', discretion_price='', Bare, AValue ''discretionPrice''), ('', trd_type='', Bare, AValue ''trdType''),
      ('', exec_restatement_reason='', Bare, AValue ''execRestatementReason''),
      ('', settl_date='', Bare, AValue ''settlDate''), ('', maturity_date='', Bare, AValue ''maturityDate''),
      ('', calculated_ccy_last_qty='', Bare, AValue ''calculatedCcyLastQty''),
      ('', gross_trade_amt='', Bare, AValue ''grossTradeAmt''), ('', benchmark_price='', Bare, AValue ''benchmarkPrice'')],
      '', no_fills=[...], no_order_events=[...]}'')"

definition fmt_ExecutionReportTradeSpread526 :: formatter where
  "fmt_ExecutionReportTradeSpread526 =
     ([
      (''{seq_num='', Bare, AValue ''seqNum''), ('', uuid='', Bare, AValue ''uUID''),
      ('', exec_id='', Quoted, AValue ''execID''), ('', sender_id='', Quoted, AValue ''senderID''),
      ('', cl_ord_id='', Quoted, AValue ''clOrdID''),
      ('', party_details_list_req_id='', Bare, AValue ''partyDetailsListReqID''), ('', last_px='', Bare, AValue ''lastPx''),
      ('', order_id='', Bare, AValue ''orderID''), ('', price='', Bare, AValue ''price''),
      ('', stop_px='', Bare, AValue ''stopPx''), ('', transact_time='', Bare, AValue ''transactTime''),
      ('', sending_time_epoch='', Bare, AValue ''sendingTimeEpoch''),
      ('', order_request_id='', Bare, AValue ''orderRequestID''), ('', sec_exec_id='', Bare, AValue ''secExecID''),
      ('', cross_id='', Bare, AValue ''crossID''), ('', host_cross_id='', Bare, AValue ''hostCrossID''),
      ('', location='', Quoted, AValue ''location''), ('', security_id='', Bare, AValue ''securityID''),
      ('', order_qty='', Bare, AValue ''orderQty''), ('', last_qty='', Bare, AValue ''lastQty''),
      ('', cum_qty='', Bare, AValue ''cumQty''), ('', md_trade_entry_id='', Bare, AValue ''mDTradeEntryID''),
      ('', side_trade_id='', Bare, AValue ''sideTradeID''), ('', leaves_qty='', Bare, AValue ''leavesQty''),
      ('', trade_date='', Bare, AValue ''tradeDate''), ('', expire_date='', Bare, AValue ''expireDate''),
      ('', ord_status='', Bare, AValue ''ordStatus''), ('', exec_type='', Bare, AValue ''execType''),
      ('', ord_type='', Bare, AValue ''ordType''), ('', side='', Bare, AValue ''side''),
      ('', time_in_force='', Bare, AValue ''timeInForce''),
      ('', manual_order_indicator='', Bare, AValue ''manualOrderIndicator''),
      ('', poss_retrans_flag='', Bare, AValue ''possRetransFlag''),
      ('', aggressor_indicator='', Bare, AValue ''aggressorIndicator''), ('', cross_type='', Bare, AValue ''crossType''),
      ('', total_num_securities='', Bare, AValue ''totalNumSecurities''), ('', exec_inst='', Bare, AValue ''execInst''),
      ('', execution_mode='', Bare, AValue ''executionMode''), ('', liquidity_flag='', Bare, AValue ''liquidityFlag''),
      ('', short_sale_type='', Bare, AValue ''shortSaleType'')],
      '', no_fills=[...], no_legs=[...], no_order_events=[...]}'')"

definition fmt_ExecutionReportTradeSpreadLeg527 :: formatter where
  "fmt_ExecutionReportTradeSpreadLeg527 =
     ([
      (''{seq_num='', Bare, AValue ''seqNum''), ('', uuid='', Bare, AValue ''uUID''),
      ('', exec_id='', Quoted, AValue ''execID''), ('', sender_id='', Quoted, AValue ''senderID''),
      ('', cl_ord_id='', Quoted, AValue ''clOrdID''), ('', volatility='', Quoted, AValue ''volatility''),
      ('', party_details_list_req_id='', Bare, AValue ''partyDetailsListReqID''), ('', last_px='', Bare, AValue ''lastPx''),
      ('', order_id='', Bare, AValue ''orderID''), ('', underlying_px='', Bare, AValue ''underlyingPx''),
      ('', transact_time='', Bare, AValue ''transactTime''), ('', sending_time_epoch='', Bare, AValue ''sendingTimeEpoch''),
      ('', sec_exec_id='', Bare, AValue ''secExecID''), ('', location='', Quoted, AValue ''location''),
      ('', option_delta='', Quoted, AValue ''optionDelta''),
      ('', time_to_expiration='', Quoted, AValue ''timeToExpiration''),
      ('', risk_free_rate='', Quoted, AValue ''riskFreeRate''), ('', security_id='', Bare, AValue ''securityID''),
      ('', last_qty='', Bare, AValue ''lastQty''), ('', cum_qty='', Bare, AValue ''cumQty''),
      ('', side_trade_id='', Bare, AValue ''sideTradeID''), ('', trade_date='', Bare, AValue ''tradeDate''),
      ('', ord_status='', Bare, AValue ''ordStatus''), ('', exec_type='', Bare, AValue ''execType''),
      ('', ord_type='', Bare, AValue ''ordType''), ('', side='', Bare, AValue ''side''),
      ('', poss_retrans_flag='', Bare, AValue ''possRetransFlag''), ('', settl_date='', Bare, AValue ''settlDate''),
      ('', calculated_ccy_last_qty='', Bare, AValue ''calculatedCcyLastQty''),
      ('', gross_trade_amt='', Bare, AValue ''grossTradeAmt'')],
      '', no_fills=[...], no_order_events=[...]}'')"

subsection \<open>\<^verbatim>\<open>protocol/ilink/mass_quote.hpp\<close>\<close>

definition fmt_MassQuote_QuoteEntry :: formatter where
  "fmt_MassQuote_QuoteEntry =
     ([
      (''{bid_px='', Bare, AValue ''bid_px''), ('', offer_px='', Bare, AValue ''offer_px''),
      ('', quote_entry_id='', Bare, AValue ''quote_entry_id''), ('', security_id='', Bare, AValue ''security_id''),
      ('', bid_size='', Bare, AValue ''bid_size''), ('', offer_size='', Bare, AValue ''offer_size''),
      ('', underyling_security_id='', Bare, AValue ''underlying_security_id''),
      ('', quote_set_id='', Bare, AValue ''quote_set_id'')],
      ''}'')"

definition fmt_MassQuote :: formatter where
  "fmt_MassQuote =
     ([
      (''{party_details_list_req_id='', Bare, AValue ''party_details_list_req_id''),
      ('', sending_time_epoch='', Bare, AValue ''sending_time_epoch''),
      ('', manual_order_indicator='', Bare, AValue ''manual_order_indicator''), ('', seq_num='', Bare, AValue ''seq_num''),
      ('', sender_id='', Bare, AValue ''sender_id''), ('', location='', Quoted, AValue ''location''),
      ('', quote_id='', Bare, AValue ''quote_id''), ('', tot_no_quote_entries='', Bare, AValue ''tot_no_quote_entries''),
      ('', mmp_protection_reset='', Bare, AValue ''mmp_protection_reset''),
      ('', liquidity_flag='', Bare, AValue ''liquidity_flag''), ('', short_sale_type='', Bare, AValue ''short_sale_type''),
      ('', reserved='', Quoted, AValue ''reserved''), ('', reserved_1='', Quoted, AValue ''reserved_1''),
      ('', quote_entry_open='', Bare, AValue ''quote_entry_open''),
      ('', no_quote_entries=['', Bare, AItems ''no_quote_entries'')],
      '']}'')"

subsection \<open>\<^verbatim>\<open>protocol/ilink/negotiate.hpp\<close>\<close>

definition fmt_Negotiate :: formatter where
  "fmt_Negotiate =
     ([
      (''{hmac_signature=['', Bare, AHex ''hmac_signature''), (''], access_key_id='', Quoted, AValue ''access_key_id''),
      ('', uuid='', Bare, AValue ''uuid''), ('', request_timestamp='', Bare, AValue ''request_timestamp''),
      ('', session='', Quoted, AValue ''session''), ('', firm='', Quoted, AValue ''firm'')],
      ''}'')"

subsection \<open>\<^verbatim>\<open>protocol/ilink/new_order_single.hpp\<close>\<close>

definition fmt_NewOrderSingle :: formatter where
  "fmt_NewOrderSingle =
     ([
      (''{price='', Bare, AValue ''price''), ('', order_qty='', Bare, AValue ''order_qty''),
      ('', security_id='', Bare, AValue ''security_id''), ('', side='', Bare, AValue ''side''),
      ('', seq_num='', Bare, AValue ''seq_num''), ('', sender_id='', Quoted, AValue ''sender_id''),
      ('', cl_ord_id='', Quoted, AValue ''cl_ord_id''),
      ('', party_details_list_req_id='', Bare, AValue ''party_details_list_req_id''),
      ('', order_request_id='', Bare, AValue ''order_request_id''),
      ('', sending_time_epoch='', Bare, AValue ''sending_time_epoch''), ('', stop_px='', Bare, AValue ''stop_px''),
      ('', location='', Quoted, AValue ''location''), ('', min_qty='', Bare, AValue ''min_qty''),
      ('', display_qty='', Bare, AValue ''display_qty''), ('', expire_date='', Bare, AValue ''expire_date''),
      ('', ord_type='', Bare, AValue ''ord_type''), ('', time_in_force='', Bare, AValue ''time_in_force''),
      ('', manual_order_indicator='', Bare, AValue ''manual_order_indicator''),
      ('', exec_inst='', Bare, AValue ''exec_inst''), ('', execution_mode='', Bare, AValue ''execution_mode''),
      ('', liquidity_flag='', Bare, AValue ''liquidity_flag''), ('', managed_order='', Bare, AValue ''managed_order''),
      ('', short_sale_type='', Bare, AValue ''short_sale_type''),
      ('', discretion_price='', Bare, AValue ''discretion_price''),
      ('', reservation_price='', Quoted, AValue ''reservation_price'')],
      ''}'')"

subsection \<open>\<^verbatim>\<open>protocol/ilink/order.hpp\<close>\<close>

definition fmt_OrderCancelReject535 :: formatter where
  "fmt_OrderCancelReject535 =
     ([
      (''{seq_num='', Bare, AValue ''seqNum''), ('', uuid='', Bare, AValue ''uUID''), ('', text='', Quoted, AValue ''text''),
      ('', exec_id='', Bare, AValue ''execID''), ('', sender_id='', Bare, AValue ''senderID''),
      ('', cl_ord_id='', Bare, AValue ''clOrdID''),
      ('', party_details_list_req_id='', Bare, AValue ''partyDetailsListReqID''),
      ('', ord_status='', Bare, AValue ''ordStatus''), ('', cxl_rej_response_to='', Bare, AValue ''cxlRejResponseTo''),
      ('', order_id='', Bare, AValue ''orderID''), ('', transact_time='', Bare, AValue ''transactTime''),
      ('', sending_time_epoch='', Bare, AValue ''sendingTimeEpoch''),
      ('', order_request_id='', Bare, AValue ''orderRequestID''), ('', location='', Bare, AValue ''location''),
      ('', cxl_rej_reason='', Bare, AValue ''cxlRejReason''), ('', delay_duration='', Bare, AValue ''delayDuration''),
      ('', manual_order_indicator='', Bare, AValue ''manualOrderIndicator''),
      ('', poss_retrans_flag='', Bare, AValue ''possRetransFlag''), ('', split_msg='', Bare, AValue ''splitMsg''),
      ('', liquidity_flag='', Bare, AValue ''liquidityFlag''), ('', delay_to_time='', Bare, AValue ''delayToTime'')],
      ''}'')"

definition fmt_OrderCancelReplaceReject536 :: formatter where
  "fmt_OrderCancelReplaceReject536 =
     ([
      (''{seq_num='', Bare, AValue ''seqNum''), ('', uuid='', Bare, AValue ''uUID''), ('', text='', Quoted, AValue ''text''),
      ('', exec_id='', Bare, AValue ''execID''), ('', sender_id='', Bare, AValue ''senderID''),
      ('', cl_ord_id='', Bare, AValue ''clOrdID''),
      ('', party_details_list_req_id='', Bare, AValue ''partyDetailsListReqID''),
      ('', ord_status='', Bare, AValue ''ordStatus''), ('', cxl_rej_response_to='', Bare, AValue ''cxlRejResponseTo''),
      ('', order_id='', Bare, AValue ''orderID''), ('', transact_time='', Bare, AValue ''transactTime''),
      ('', sending_time_epoch='', Bare, AValue ''sendingTimeEpoch''),
      ('', order_request_id='', Bare, AValue ''orderRequestID''), ('', location='', Bare, AValue ''location''),
      ('', cxl_rej_reason='', Bare, AValue ''cxlRejReason''), ('', delay_duration='', Bare, AValue ''delayDuration''),
      ('', manual_order_indicator='', Bare, AValue ''manualOrderIndicator''),
      ('', poss_retrans_flag='', Bare, AValue ''possRetransFlag''), ('', split_msg='', Bare, AValue ''splitMsg''),
      ('', liquidity_flag='', Bare, AValue ''liquidityFlag''), ('', delay_to_time='', Bare, AValue ''delayToTime'')],
      ''}'')"

subsection \<open>\<^verbatim>\<open>protocol/ilink/order_cancel_replace_request.hpp\<close>\<close>

definition fmt_OrderCancelReplaceRequest :: formatter where
  "fmt_OrderCancelReplaceRequest =
     ([
      (''{price='', Bare, AValue ''price''), ('', order_qty='', Bare, AValue ''order_qty''),
      ('', security_id='', Bare, AValue ''security_id''), ('', side='', Bare, AValue ''side''),
      ('', seq_num='', Bare, AValue ''seq_num''), ('', sender_id='', Quoted, AValue ''sender_id''),
      ('', cl_ord_id='', Quoted, AValue ''cl_ord_id''),
      ('', party_details_list_req_id='', Bare, AValue ''party_details_list_req_id''),
      ('', order_id='', Bare, AValue ''order_id''), ('', stop_px='', Bare, AValue ''stop_px''),
      ('', order_request_id='', Bare, AValue ''order_request_id''),
      ('', sending_time_epoch='', Bare, AValue ''sending_time_epoch''), ('', location='', Quoted, AValue ''location''),
      ('', min_qty='', Bare, AValue ''min_qty''), ('', display_qty='', Bare, AValue ''display_qty''),
      ('', expire_date='', Bare, AValue ''expire_date''), ('', ord_type='', Bare, AValue ''ord_type''),
      ('', time_in_force='', Bare, AValue ''time_in_force''),
      ('', manual_order_indicator='', Bare, AValue ''manual_order_indicator''),
      ('', ofm_override='', Bare, AValue ''ofm_override''), ('', exec_inst='', Bare, AValue ''exec_inst''),
      ('', execution_mode='', Bare, AValue ''execution_mode''), ('', liquidity_flag='', Bare, AValue ''liquidity_flag''),
      ('', managed_order='', Bare, AValue ''managed_order''), ('', short_sale_type='', Bare, AValue ''short_sale_type''),
      ('', discretion_price='', Bare, AValue ''discretion_price'')],
      ''}'')"

subsection \<open>\<^verbatim>\<open>protocol/ilink/order_cancel_request.hpp\<close>\<close>

definition fmt_OrderCancelRequest :: formatter where
  "fmt_OrderCancelRequest =
     ([
      (''{order_id='', Bare, AValue ''order_id''),
      ('', party_details_list_req_id='', Bare, AValue ''party_details_list_req_id''),
      ('', manual_order_indicator='', Bare, AValue ''manual_order_indicator''), ('', seq_num='', Bare, AValue ''seq_num''),
      ('', sender_id='', Quoted, AValue ''sender_id''), ('', cl_ord_id='', Quoted, AValue ''cl_ord_id''),
      ('', order_request_id='', Bare, AValue ''order_request_id''),
      ('', sending_time_epoch='', Bare, AValue ''sending_time_epoch''), ('', location='', Bare, AValue ''location''),
      ('', security_id='', Bare, AValue ''security_id''), ('', side='', Bare, AValue ''side''),
      ('', liquidity_flag='', Bare, AValue ''liquidity_flag''), ('', orig_order_user='', Quoted, AValue ''orig_order_user'')],
      ''}'')"

subsection \<open>\<^verbatim>\<open>protocol/ilink/order_mass_action.hpp\<close>\<close>

definition fmt_OrderMassActionReport562 :: formatter where
  "fmt_OrderMassActionReport562 =
     ([
      (''{seq_num='', Bare, AValue ''seqNum''), ('', uuid='', Bare, AValue ''uUID''),
      ('', sender_id='', Quoted, AValue ''senderID''),
      ('', party_details_list_req_id='', Bare, AValue ''partyDetailsListReqID''),
      ('', transact_time='', Bare, AValue ''transactTime''), ('', sending_time_epoch='', Bare, AValue ''sendingTimeEpoch''),
      ('', order_request_id='', Bare, AValue ''orderRequestID''),
      ('', mass_action_report_id='', Bare, AValue ''massActionReportID''),
      ('', mass_action_type='', Bare, AValue ''massActionType''), ('', security_group='', Quoted, AValue ''securityGroup''),
      ('', location='', Quoted, AValue ''location''), ('', security_id='', Bare, AValue ''securityID''),
      ('', delay_duration='', Bare, AValue ''delayDuration''),
      ('', mass_action_response='', Bare, AValue ''massActionResponse''),
      ('', manual_order_indicator='', Bare, AValue ''manualOrderIndicator''),
      ('', mass_action_scope='', Bare, AValue ''massActionScope''),
      ('', total_affected_orders='', Bare, AValue ''totalAffectedOrders''),
      ('', last_fragment='', Bare, AValue ''lastFragment''),
      ('', mass_action_reject_reason='', Bare, AValue ''massActionRejectReason''),
      ('', market_segment_id='', Bare, AValue ''marketSegmentID''),
      ('', mass_cancel_request_type='', Bare, AValue ''massCancelRequestType''), ('', side='', Bare, AValue ''side''),
      ('', ord_type='', Bare, AValue ''ordType''), ('', time_in_force='', Bare, AValue ''timeInForce''),
      ('', split_msg='', Bare, AValue ''splitMsg''), ('', liquidity_flag='', Bare, AValue ''liquidityFlag''),
      ('', poss_retrans_flag='', Bare, AValue ''possRetransFlag''), ('', delay_to_time='', Bare, AValue ''delayToTime''),
      ('', orig_order_user='', Quoted, AValue ''origOrderUser''), ('', cancel_text='', Quoted, AValue ''cancelText'')],
      '', }'')"

subsection \<open>\<^verbatim>\<open>protocol/ilink/order_mass_action_request.hpp\<close>\<close>

definition fmt_OrderMassActionRequest :: formatter where
  "fmt_OrderMassActionRequest =
     ([
      (''{party_details_list_req_id='', Bare, AValue ''party_details_list_req_id''),
      ('', order_request_id='', Bare, AValue ''order_request_id''),
      ('', manual_order_indicator='', Bare, AValue ''manual_order_indicator''), ('', seq_num='', Bare, AValue ''seq_num''),
      ('', sender_id='', Bare, AValue ''sender_id''), ('', time_epoch='', Bare, AValue ''sending_time_epoch''),
      ('', security_group='', Quoted, AValue ''security_group''), ('', location='', Quoted, AValue ''location''),
      ('', security_id='', Bare, AValue ''security_id''), ('', mass_action_scope='', Bare, AValue ''mass_action_scope''),
      ('', market_segment_id='', Bare, AValue ''market_segment_id''),
      ('', mass_cancel_request_type='', Bare, AValue ''mass_cancel_request_type''), ('', side='', Bare, AValue ''side''),
      ('', ord_type='', Bare, AValue ''ord_type''), ('', time_in_force='', Bare, AValue ''time_in_force''),
      ('', liquidity_flag='', Bare, AValue ''liquidity_flag''), ('', orig_order_user='', Quoted, AValue ''orig_order_user'')],
      ''}'')"

subsection \<open>\<^verbatim>\<open>protocol/ilink/order_mass_status_request.hpp\<close>\<close>

definition fmt_OrderMassStatusRequest :: formatter where
  "fmt_OrderMassStatusRequest =
     ([
      (''{party_details_list_req_id='', Bare, AValue ''party_details_list_req_id''),
      ('', mass_status_req_id='', Bare, AValue ''mass_status_req_id''),
      ('', manual_order_indicator='', Bare, AValue ''manual_order_indicator''), ('', seq_num='', Bare, AValue ''seq_num''),
      ('', sender_id='', Bare, AValue ''sender_id''), ('', time_epoch='', Bare, AValue ''sending_time_epoch''),
      ('', security_group='', Quoted, AValue ''security_group''), ('', location='', Quoted, AValue ''location''),
      ('', security_id='', Bare, AValue ''security_id''),
      ('', mass_status_req_type='', Bare, AValue ''mass_status_req_type''),
      ('', ord_status_req_type='', Bare, AValue ''ord_status_req_type''),
      ('', time_in_force='', Bare, AValue ''time_in_force''),
      ('', market_segment_id='', Quoted, AValue ''market_segment_id'')],
      ''}'')"

subsection \<open>\<^verbatim>\<open>protocol/ilink/party_details_definition_request.hpp\<close>\<close>

definition fmt_PartyDetailsDefinitionRequest :: formatter where
  "fmt_PartyDetailsDefinitionRequest =
     ([
      (''{party_details_list_req_id='', Bare, AValue ''party_details_list_req_id''),
      ('', sending_time_epoch='', Bare, AValue ''sending_time_epoch''),
      ('', list_update_action='', Bare, AValue ''list_update_action''), ('', seq_num='', Bare, AValue ''seq_num''),
      ('', memo='', Quoted, AValue ''memo''), ('', avg_px_group_id='', Quoted, AValue ''avg_px_group_id''),
      ('', self_match_prevention_id='', Bare, AValue ''self_match_prevention_id''),
      ('', cmta_giveup_cd='', Bare, AValue ''cmta_giveup_cd''),
      ('', cust_order_capacity='', Bare, AValue ''cust_order_capacity''),
      ('', clearing_account_type='', Bare, AValue ''clearing_account_type''),
      ('', self_match_prevention_instruction='', Bare, AValue ''self_match_prevention_instruction''),
      ('', avg_px_indicator='', Bare, AValue ''avg_px_indicator''),
      ('', clearing_trade_price_type='', Bare, AValue ''clearing_trade_price_type''),
      ('', cust_order_handling_inst='', Bare, AValue ''cust_order_handling_inst''),
      ('', executor='', Bare, AValue ''executor''), ('', idm_short_code='', Bare, AValue ''idm_short_code'')],
      ''}'')"

subsection \<open>\<^verbatim>\<open>protocol/ilink/party_details_list_request.hpp\<close>\<close>

definition fmt_PartyDetailsListRequest :: formatter where
  "fmt_PartyDetailsListRequest =
     ([
      (''{party_details_list_req_id='', Bare, AValue ''party_details_list_req_id''),
      ('', sending_time_epoch='', Bare, AValue ''sending_time_epoch''), ('', seq_num='', Bare, AValue ''seq_num'')],
      ''}'')"

subsection \<open>\<^verbatim>\<open>protocol/ilink/quote_cancel.hpp\<close>\<close>

definition fmt_QuoteCancel_QuoteEntry :: formatter where
  "fmt_QuoteCancel_QuoteEntry =
     ([
      (''{security_group='', Quoted, AValue ''security_group''), ('', security_id='', Bare, AValue ''security_id'')],
      ''}'')"

definition fmt_QuoteCancel_QuoteSet :: formatter where
  "fmt_QuoteCancel_QuoteSet =
     ([
      (''{bid_size='', Bare, AValue ''bid_size''), ('', offer_size='', Bare, AValue ''offer_size''),
      ('', quote_set_id='', Bare, AValue ''quote_set_id'')],
      ''}'')"

definition fmt_QuoteCancel :: formatter where
  "fmt_QuoteCancel =
     ([
      (''{party_details_list_req_id='', Bare, AValue ''party_details_list_req_id''),
      ('', sending_time_epoch='', Bare, AValue ''sending_time_epoch''),
      ('', manual_order_indicator='', Bare, AValue ''manual_order_indicator''), ('', seq_num='', Bare, AValue ''seq_num''),
      ('', sender_id='', Bare, AValue ''sender_id''), ('', location='', Quoted, AValue ''location''),
      ('', quote_id='', Bare, AValue ''quote_id''), ('', quote_cancel_type='', Bare, AValue ''quote_cancel_type''),
      ('', liquidity_flag='', Bare, AValue ''liquidity_flag''), ('', orig_order_user='', Quoted, AValue ''orig_order_user''),
      ('', quote_entry_open='', Bare, AValue ''quote_entry_open''),
      ('', no_quote_entries=['', Bare, AItems ''no_quote_entries''), (''], no_quote_sets=['', Bare, AItems ''no_quote_sets'')],
      '']}'')"

subsection \<open>\<^verbatim>\<open>protocol/ilink/security_definition.hpp\<close>\<close>

definition fmt_SecurityDefinitionResponse561 :: formatter where
  "fmt_SecurityDefinitionResponse561 =
     ([
      (''{seq_num='', Bare, AValue ''seqNum''), ('', uuid='', Bare, AValue ''uUID''), ('', text='', Quoted, AValue ''text''),
      ('', financial_instrument_full_name='', Bare, AValue ''financialInstrumentFullName''),
      ('', sender_id='', Bare, AValue ''senderID''), ('', symbol='', Bare, AValue ''symbol''),
      ('', party_details_list_req_id='', Bare, AValue ''partyDetailsListReqID''),
      ('', security_req_id='', Bare, AValue ''securityReqID''),
      ('', security_response_id='', Bare, AValue ''securityResponseID''),
      ('', sending_time_epoch='', Bare, AValue ''sendingTimeEpoch''),
      ('', security_group='', Bare, AValue ''securityGroup''), ('', security_type='', Bare, AValue ''securityType''),
      ('', location='', Bare, AValue ''location''), ('', security_id='', Bare, AValue ''securityID''),
      ('', currency='', Bare, AValue ''currency''), ('', security_id_source='', Bare, AValue ''securityIDSource''),
      ('', maturity_month_year='', Bare, AValue ''maturityMonthYear''),
      ('', delay_duration='', Bare, AValue ''delayDuration''), ('', start_date='', Bare, AValue ''startDate''),
      ('', end_date='', Bare, AValue ''endDate''), ('', max_no_of_substitutions='', Bare, AValue ''maxNoOfSubstitutions''),
      ('', source_repo_id='', Bare, AValue ''sourceRepoID''), ('', termination_type='', Bare, AValue ''terminationType''),
      ('', security_response_type='', Bare, AValue ''securityResponseType''),
      ('', user_defined_instrument='', Bare, AValue ''userDefinedInstrument''),
      ('', expiration_cycle='', Bare, AValue ''expirationCycle''),
      ('', manual_order_indicator='', Bare, AValue ''manualOrderIndicator''), ('', split_msg='', Bare, AValue ''splitMsg''),
      ('', auto_quote_request='', Bare, AValue ''autoQuoteRequest''),
      ('', poss_retrans_flag='', Bare, AValue ''possRetransFlag'')],
      '', no_legs=[...]}'')"

subsection \<open>\<^verbatim>\<open>protocol/ilink/security_definition_request.hpp\<close>\<close>

definition fmt_SecurityDefinitionRequest :: formatter where
  "fmt_SecurityDefinitionRequest =
     ([
      (''{party_details_list_req_id='', Bare, AValue ''party_details_list_req_id''),
      ('', security_req_id='', Bare, AValue ''security_req_id''),
      ('', manual_order_indicator='', Bare, AValue ''manual_order_indicator''), ('', seq_num='', Bare, AValue ''seq_num''),
      ('', sender_id='', Quoted, AValue ''sender_id''), ('', time_epoch='', Bare, AValue ''sending_time_epoch''),
      ('', security_sub_type='', Quoted, AValue ''security_sub_type''), ('', location='', Quoted, AValue ''location''),
      ('', start_date='', Bare, AValue ''start_date''), ('', end_date='', Bare, AValue ''end_date''),
      ('', max_no_of_substitutions='', Bare, AValue ''max_no_of_substitutions''),
      ('', source_repo_id='', Bare, AValue ''source_repo_id''),
      ('', broken_date_term_type='', Bare, AValue ''broken_date_term_type'')],
      ''}'')"

subsection \<open>\<^verbatim>\<open>protocol/ilink/sequence.hpp\<close>\<close>

definition fmt_Sequence :: formatter where
  "fmt_Sequence =
     ([
      (''{uuid='', Bare, AValue ''uuid''), ('', next_seq_no='', Bare, AValue ''next_seq_no''),
      ('', fault_tolerance_indicator='', Bare, AValue ''fault_tolerance_indicator''),
      ('', keep_alive_interval_lapsed='', Quoted, AValue ''keep_alive_interval_lapsed'')],
      ''}'')"

subsection \<open>\<^verbatim>\<open>protocol/ilink/session.hpp\<close>\<close>

definition fmt_NegotiationResponse501 :: formatter where
  "fmt_NegotiationResponse501 =
     ([
      (''{server_flow='', Bare, AValue ''serverFlow''), ('', uuid='', Bare, AValue ''uUID''),
      ('', request_timestamp='', Bare, AValue ''requestTimestamp''),
      ('', secret_key_secure_id_expiration='', Bare, AValue ''secretKeySecureIDExpiration''),
      ('', fault_tolerance_indicator='', Bare, AValue ''faultToleranceIndicator''),
      ('', split_msg='', Bare, AValue ''splitMsg''), ('', previous_seq_no='', Bare, AValue ''previousSeqNo''),
      ('', previous_uuid='', Bare, AValue ''previousUUID''), ('', credentials='', Bare, AValue ''credentials'')],
      ''}'')"

definition fmt_NegotiationReject502 :: formatter where
  "fmt_NegotiationReject502 =
     ([
      (''{reason='', Bare, AValue ''reason''), ('', uuid='', Bare, AValue ''uUID''),
      ('', request_timestamp='', Bare, AValue ''requestTimestamp''), ('', error_codes='', Bare, AValue ''errorCodes''),
      ('', fault_tolerance_indicator='', Bare, AValue ''faultToleranceIndicator''),
      ('', split_msg='', Bare, AValue ''splitMsg'')],
      ''}'')"

definition fmt_EstablishmentAck504 :: formatter where
  "fmt_EstablishmentAck504 =
     ([
      (''{uuid='', Bare, AValue ''uUID''), ('', request_timestamp='', Bare, AValue ''requestTimestamp''),
      ('', next_seq_no='', Bare, AValue ''nextSeqNo''), ('', previous_seq_no='', Bare, AValue ''previousSeqNo''),
      ('', previous_uuid='', Bare, AValue ''previousUUID''),
      ('', keep_alive_interval='', Bare, AValue ''keepAliveInterval''),
      ('', secret_key_secure_id_expiration='', Bare, AValue ''secretKeySecureIDExpiration''),
      ('', fault_tolerance_indicator='', Bare, AValue ''faultToleranceIndicator''),
      ('', split_msg='', Bare, AValue ''splitMsg'')],
      ''}'')"

definition fmt_EstablishmentReject505 :: formatter where
  "fmt_EstablishmentReject505 =
     ([
      (''{reason='', Bare, AValue ''reason''), ('', uuid='', Bare, AValue ''uUID''),
      ('', request_timestamp='', Bare, AValue ''requestTimestamp''), ('', next_seq_no='', Bare, AValue ''nextSeqNo''),
      ('', error_codes='', Bare, AValue ''errorCodes''),
      ('', fault_tolerance_indicator='', Bare, AValue ''faultToleranceIndicator''),
      ('', split_msg='', Bare, AValue ''splitMsg'')],
      ''}'')"

definition fmt_Sequence506 :: formatter where
  "fmt_Sequence506 =
     ([
      (''{uuid='', Bare, AValue ''uUID''), ('', next_seq_no='', Bare, AValue ''nextSeqNo''),
      ('', fault_tolerance_indicator='', Bare, AValue ''faultToleranceIndicator''),
      ('', keep_alive_interval_elapsed='', Bare, AValue ''keepAliveIntervalLapsed'')],
      ''}'')"

definition fmt_Terminate507 :: formatter where
  "fmt_Terminate507 =
     ([
      (''{reason='', Quoted, AValue ''reason''), ('', uuid='', Bare, AValue ''uUID''),
      ('', request_timestamp='', Bare, AValue ''requestTimestamp''), ('', error_codes='', Bare, AValue ''errorCodes''),
      ('', split_msg='', Bare, AValue ''splitMsg'')],
      ''}'')"

definition fmt_Retransmission509 :: formatter where
  "fmt_Retransmission509 =
     ([
      (''{uuid='', Bare, AValue ''uUID''), ('', last_uuid='', Bare, AValue ''lastUUID''),
      ('', request_timestamp='', Bare, AValue ''requestTimestamp''), ('', from_seq_no='', Bare, AValue ''fromSeqNo''),
      ('', msg_count='', Bare, AValue ''msgCount''), ('', split_msg='', Bare, AValue ''splitMsg'')],
      ''}'')"

definition fmt_RetransmitReject510 :: formatter where
  "fmt_RetransmitReject510 =
     ([
      (''{reason='', Bare, AValue ''reason''), ('', uuid='', Bare, AValue ''uUID''),
      ('', last_uuid='', Bare, AValue ''lastUUID''), ('', request_timestamp='', Bare, AValue ''requestTimestamp''),
      ('', error_codes='', Bare, AValue ''errorCodes''), ('', split_msg='', Bare, AValue ''splitMsg'')],
      ''}'')"

definition fmt_NotApplied513 :: formatter where
  "fmt_NotApplied513 =
     ([
      (''{uuid='', Bare, AValue ''uUID''), ('', from_seq_no='', Bare, AValue ''fromSeqNo''),
      ('', msg_count='', Bare, AValue ''msgCount''), ('', split_msg='', Bare, AValue ''splitMsg'')],
      ''}'')"

subsection \<open>\<^verbatim>\<open>protocol/ilink/terminate.hpp\<close>\<close>

definition fmt_Terminate :: formatter where
  "fmt_Terminate =
     ([
      (''{reason='', Quoted, AValue ''reason''), ('', uuid='', Bare, AValue ''uuid''),
      ('', request_timestamp='', Bare, AValue ''request_timestamp''), ('', error_codes='', Bare, AValue ''error_codes''),
      ('', split_msg='', Quoted, AValue ''split_msg'')],
      ''}'')"

subsection \<open>\<^verbatim>\<open>protocol/ilink/utils.hpp\<close>\<close>

definition fmt_ilink_PRICE9 :: formatter where
  "fmt_ilink_PRICE9 =
     ([
      ('''', Bare, ADouble ''value'')],
      '''')"

definition fmt_ilink_PRICENULL9 :: formatter where
  "fmt_ilink_PRICENULL9 =
     ([
      ('''', Bare, ADouble ''value'')],
      '''')"

definition fmt_Decimal32NULL :: formatter where
  "fmt_Decimal32NULL =
     ([
      ('''', Bare, ADouble ''value'')],
      '''')"

definition fmt_Decimal64NULL :: formatter where
  "fmt_Decimal64NULL =
     ([
      ('''', Bare, ADouble ''value'')],
      '''')"

definition fmt_ilink_MaturityMonthYear :: formatter where
  "fmt_ilink_MaturityMonthYear =
     ([
      (''{year='', Bare, AValue ''year''), ('', month='', Bare, AValue ''month''), ('', day='', Bare, AValue ''day''),
      ('', week='', Bare, AValue ''week'')],
      ''})'')"

definition fmt_ExecInst :: formatter where
  "fmt_ExecInst =
     ([
      ('''', Bare, AValue ''rawValue'')],
      '''')"

definition ilink_formatters :: "formatter list" where
  "ilink_formatters =
     [fmt_gateway_Config,
      fmt_PartyDetailsDefinitionRequestAck519_NoPartyDetails,
      fmt_PartyDetailsDefinitionRequestAck519_NoTrdRegPublications,
      fmt_PartyDetailsDefinitionRequestAck519,
      fmt_BusinessReject521,
      fmt_Establish,
      fmt_ExecutionReportNew522,
      fmt_ExecutionReportReject523,
      fmt_ExecutionReportModify531,
      fmt_ExecutionReportStatus532,
      fmt_ExecutionReportCancel534,
      fmt_ExecutionReportPendingCancel564,
      fmt_ExecutionReportPendingReplace565,
      fmt_ExecutionReportTradeOutright525,
      fmt_ExecutionReportTradeSpread526,
      fmt_ExecutionReportTradeSpreadLeg527,
      fmt_MassQuote_QuoteEntry,
      fmt_MassQuote,
      fmt_Negotiate,
      fmt_NewOrderSingle,
      fmt_OrderCancelReject535,
      fmt_OrderCancelReplaceReject536,
      fmt_OrderCancelReplaceRequest,
      fmt_OrderCancelRequest,
      fmt_OrderMassActionReport562,
      fmt_OrderMassActionRequest,
      fmt_OrderMassStatusRequest,
      fmt_PartyDetailsDefinitionRequest,
      fmt_PartyDetailsListRequest,
      fmt_QuoteCancel_QuoteEntry,
      fmt_QuoteCancel_QuoteSet,
      fmt_QuoteCancel,
      fmt_SecurityDefinitionResponse561,
      fmt_SecurityDefinitionRequest,
      fmt_Sequence,
      fmt_NegotiationResponse501,
      fmt_NegotiationReject502,
      fmt_EstablishmentAck504,
      fmt_EstablishmentReject505,
      fmt_Sequence506,
      fmt_Terminate507,
      fmt_Retransmission509,
      fmt_RetransmitReject510,
      fmt_NotApplied513,
      fmt_Terminate,
      fmt_ilink_PRICE9,
      fmt_ilink_PRICENULL9,
      fmt_Decimal32NULL,
      fmt_Decimal64NULL,
      fmt_ilink_MaturityMonthYear,
      fmt_ExecInst]"

lemmas ilink_formatter_defs =
  fmt_gateway_Config_def
  fmt_PartyDetailsDefinitionRequestAck519_NoPartyDetails_def
  fmt_PartyDetailsDefinitionRequestAck519_NoTrdRegPublications_def
  fmt_PartyDetailsDefinitionRequestAck519_def
  fmt_BusinessReject521_def
  fmt_Establish_def
  fmt_ExecutionReportNew522_def
  fmt_ExecutionReportReject523_def
  fmt_ExecutionReportModify531_def
  fmt_ExecutionReportStatus532_def
  fmt_ExecutionReportCancel534_def
  fmt_ExecutionReportPendingCancel564_def
  fmt_ExecutionReportPendingReplace565_def
  fmt_ExecutionReportTradeOutright525_def
  fmt_ExecutionReportTradeSpread526_def
  fmt_ExecutionReportTradeSpreadLeg527_def
  fmt_MassQuote_QuoteEntry_def
  fmt_MassQuote_def
  fmt_Negotiate_def
  fmt_NewOrderSingle_def
  fmt_OrderCancelReject535_def
  fmt_OrderCancelReplaceReject536_def
  fmt_OrderCancelReplaceRequest_def
  fmt_OrderCancelRequest_def
  fmt_OrderMassActionReport562_def
  fmt_OrderMassActionRequest_def
  fmt_OrderMassStatusRequest_def
  fmt_PartyDetailsDefinitionRequest_def
  fmt_PartyDetailsListRequest_def
  fmt_QuoteCancel_QuoteEntry_def
  fmt_QuoteCancel_QuoteSet_def
  fmt_QuoteCancel_def
  fmt_SecurityDefinitionResponse561_def
  fmt_SecurityDefinitionRequest_def
  fmt_Sequence_def
  fmt_NegotiationResponse501_def
  fmt_NegotiationReject502_def
  fmt_EstablishmentAck504_def
  fmt_EstablishmentReject505_def
  fmt_Sequence506_def
  fmt_Terminate507_def
  fmt_Retransmission509_def
  fmt_RetransmitReject510_def
  fmt_NotApplied513_def
  fmt_Terminate_def
  fmt_ilink_PRICE9_def
  fmt_ilink_PRICENULL9_def
  fmt_Decimal32NULL_def
  fmt_Decimal64NULL_def
  fmt_ilink_MaturityMonthYear_def
  fmt_ExecInst_def

lemma ilink_formatters_wf: "list_all wf_formatter ilink_formatters"
  by (simp add: ilink_formatters_def wf_formatter_def ilink_formatter_defs)

end
