(* ===== verification/OrderRefinement.thy ===== *)
theory OrderRefinement
  imports OrderProperties
begin

section \<open>Order entry: the session as an abstract protocol\<close>

text \<open>
  What the order entry connection promises to the exchange and to the clients, without clocks,
  identifiers, sequence numbers, buffers and fields of messages: a protocol whose state is
  the published status and the progress of the download, and whose outputs are the templates
  of the messages, the published statuses and the requests to close the connection. The
  handlers of \<^verbatim>\<open>gateway/order_entry.cpp\<close> refine it: every run of the connection is,
  input by input, a run of the protocol with the same outputs.
\<close>

subsection \<open>A step function that refines a step relation\<close>

text \<open>
  Runs of a specification given as a relation on abstract state, input, outputs and abstract
  state: the outputs of the inputs, in order. Runs of a step function: an action either
  succeeds, or is refused, after which the run goes on; any other failure ends the run.
\<close>

inductive spec_run :: "('a \<Rightarrow> 'i \<Rightarrow> 'o list \<Rightarrow> 'a \<Rightarrow> bool) \<Rightarrow> 'a \<Rightarrow> 'i list \<Rightarrow> 'o list \<Rightarrow> 'a \<Rightarrow> bool"
  for spec and a where
  spec_start: "spec_run spec a [] [] a"
| spec_step: "spec_run spec a h out b \<Longrightarrow> spec b x out' c \<Longrightarrow> spec_run spec a (h @ [x]) (out @ out') c"

inductive act_run :: "('i \<Rightarrow> 's \<Rightarrow> 's \<times> exn option) \<Rightarrow> (exn \<Rightarrow> bool) \<Rightarrow> 's \<Rightarrow> 'i list \<Rightarrow> 's \<Rightarrow> bool"
  for act and refused and s where
  act_start: "act_run act refused s [] s"
| act_step: "act_run act refused s h t \<Longrightarrow> act x t = (u, None) \<Longrightarrow> act_run act refused s (h @ [x]) u"
| act_refuse: "act_run act refused s h t \<Longrightarrow> act x t = (u, Some e) \<Longrightarrow> refused e \<Longrightarrow> act_run act refused s (h @ [x]) u"

locale refined_machine =
  fixes ok :: "'e \<Rightarrow> bool"
    and act :: "'e \<Rightarrow> 'i \<Rightarrow> 's \<Rightarrow> 's \<times> exn option"
    and refused :: "exn \<Rightarrow> bool"
    and abst :: "'e \<Rightarrow> 's \<Rightarrow> 'a"
    and outputs :: "'s \<Rightarrow> 'o list"
    and spec :: "'a \<Rightarrow> 'i \<Rightarrow> 'o list \<Rightarrow> 'a \<Rightarrow> bool"
  assumes success: "ok e \<Longrightarrow> act e x s = (s', None) \<Longrightarrow>
      \<exists>out. outputs s' = outputs s @ out \<and> spec (abst e s) x out (abst e s')"
    and stutter: "ok e \<Longrightarrow> act e x s = (s', Some exc) \<Longrightarrow> refused exc \<Longrightarrow> s' = s \<and> spec (abst e s) x [] (abst e s)"
begin

lemma run_refines:
  assumes "ok e" and "act_run (act e) refused s h t"
  shows "\<exists>out. outputs t = outputs s @ out \<and> spec_run spec (abst e s) h out (abst e t)"
  using assms(2)
proof induction
  case act_start
  show ?case by (auto intro: spec_start)
next
  case (act_step h t x u)
  then obtain out where "outputs t = outputs s @ out" "spec_run spec (abst e s) h out (abst e t)" by blast
  moreover obtain out' where "outputs u = outputs t @ out'" "spec (abst e t) x out' (abst e u)"
    using success [OF assms(1) act_step.hyps(2)] by blast
  ultimately show ?case by (auto intro: spec_step)
next
  case (act_refuse h t x u exc)
  then obtain out where "outputs t = outputs s @ out" "spec_run spec (abst e s) h out (abst e t)" by blast
  moreover have "u = t" "spec (abst e t) x [] (abst e t)"
    using stutter [OF assms(1) act_refuse.hyps(2,3)] by simp_all
  ultimately show ?case using spec_step [of spec "abst e s" h out "abst e t" x "[]" "abst e t"] by auto
qed

end

subsection \<open>The protocol\<close>

datatype session_output = Sends nat | Publishes connection_status | Closes

record session_state =
  ss_status :: connection_status
  ss_download :: download_state

definition session_init :: session_state where
  "session_init = \<lparr>ss_status = CS_UNDEFINED, ss_download = DS_UNDEFINED\<rparr>"

text \<open>The templates of a request: the party details go first.\<close>

fun request_template :: "oe_input \<Rightarrow> nat option" where
  "request_template (InCreateOrder c r i) = Some 514"
| "request_template (InModifyOrder m r) = Some 515"
| "request_template (InCancelOrder r) = Some 516"
| "request_template (InCancelAllOrders c i) = Some 529"
| "request_template x = None"

text \<open>Reports that concern orders, and those that are only logged.\<close>

fun order_report :: "ilink_report \<Rightarrow> bool" where
  "order_report NegotiationResponse501 = False"
| "order_report NegotiationReject502 = False"
| "order_report EstablishmentAck504 = False"
| "order_report EstablishmentReject505 = False"
| "order_report Terminate507 = False"
| "order_report (ExecutionReportStatus532 v) = (xr_last_rpt_requested v \<noteq> BF_True)"
| "order_report r = True"

inductive session_step :: "session_state \<Rightarrow> oe_input \<Rightarrow> session_output list \<Rightarrow> session_state \<Rightarrow> bool" where
  connect: "session_step a InConnected [Sends 500, Publishes LOGIN_SENT] (a\<lparr>ss_status := LOGIN_SENT\<rparr>)"
| negotiated: "session_step a (InReport NegotiationResponse501) [Sends 503] a"
| established: "session_step a (InReport EstablishmentAck504) [Publishes DOWNLOADING, Sends 518, Sends 530]
    \<lparr>ss_status = DOWNLOADING, ss_download = ORDERS\<rparr>"
| downloaded: "xr_last_rpt_requested v = BF_True \<Longrightarrow> ss_download a = ORDERS \<Longrightarrow>
    session_step a (InReport (ExecutionReportStatus532 v)) [Publishes READY] \<lparr>ss_status = READY, ss_download = DONE\<rparr>"
| not_awaited: "xr_last_rpt_requested v = BF_True \<Longrightarrow> ss_download a \<noteq> ORDERS \<Longrightarrow>
    session_step a (InReport (ExecutionReportStatus532 v)) [] a"
| rejected: "r \<in> {NegotiationReject502, EstablishmentReject505, Terminate507} \<Longrightarrow> session_step a (InReport r) [Closes] a"
| report: "order_report r \<Longrightarrow> session_step a (InReport r) [] a"
| disconnect: "session_step a InDisconnected [Publishes DISCONNECTED] \<lparr>ss_status = DISCONNECTED, ss_download = DS_UNDEFINED\<rparr>"
| request: "request_template x = Some n \<Longrightarrow> ss_status a = READY \<Longrightarrow> session_step a x [Sends 518, Sends n] a"
| refused: "request_template x = Some n \<Longrightarrow> session_step a x [] a"
| heartbeat: "ss_status a = READY \<Longrightarrow> session_step a (InTimer True now) [Sends 506] a"
| idle: "session_step a (InTimer b now) [] a"


subsection \<open>The outputs of the connection\<close>

fun template_of :: "ilink_message \<Rightarrow> nat" where
  "template_of (Negotiate m) = 500"
| "template_of (Establish m) = 503"
| "template_of (Sequence m) = 506"
| "template_of (Terminate m) = 507"
| "template_of (NewOrderSingle m) = 514"
| "template_of (OrderCancelReplaceRequest m) = 515"
| "template_of (OrderCancelRequest m) = 516"
| "template_of (PartyDetailsDefinitionRequest m) = 518"
| "template_of (OrderMassActionRequest m) = 529"
| "template_of (OrderMassStatusRequest m) = 530"
| "template_of (PartyDetailsListRequest m) = 537"
| "template_of (SecurityDefinitionRequest m) = 560"

lemma template_of_encoded: "encode_ilink n m = Inr w \<Longrightarrow> unat (wm_template w) = template_of m"
  by (cases m) (auto simp: encode_defs with_price_Inr)

text \<open>A message that the socket does not take is an output too: the protocol is about attempts.\<close>

fun output_of :: "oe_effect \<Rightarrow> session_output list" where
  "output_of (Transmit m frame) = [Sends (template_of m)]"
| "output_of (NotSent m) = [Sends (template_of m)]"
| "output_of (StreamStatus c) = [Publishes c]"
| "output_of CloseConnection = [Closes]"
| "output_of e = []"

definition session_outputs :: "'d order_entry \<Rightarrow> session_output list" where
  "session_outputs s = concat (map output_of (ses_effects s))"

definition session_abs :: "('d \<Rightarrow> download_state) \<Rightarrow> 'd order_entry \<Rightarrow> session_state" where
  "session_abs phase s = \<lparr>ss_status = ses_connection_status s, ss_download = phase (ses_download s)\<rparr>"

text \<open>An action that leaves status and download alone and has the given outputs.\<close>

definition emits :: "session_output list \<Rightarrow> 'd action \<Rightarrow> bool" where
  "emits out f \<longleftrightarrow> (\<forall>s s'. f s = (s', None) \<longrightarrow> session_outputs s' = session_outputs s @ out \<and>
     ses_connection_status s' = ses_connection_status s \<and> ses_download s' = ses_download s)"

lemma emitsD:
  assumes "emits out f" and "f s = (s', None)"
  shows "session_outputs s' = session_outputs s @ out" and "ses_connection_status s' = ses_connection_status s"
    and "ses_download s' = ses_download s" and "session_abs phase s' = session_abs phase s"
  using assms unfolding emits_def session_abs_def by auto

lemma emits_and_then [wf_intros]: "emits a f \<Longrightarrow> emits b g \<Longrightarrow> emits (a @ b) (and_then f g)"
  unfolding emits_def by (auto elim!: and_then_None)

lemma emits_nothing [wf_intros]: "emits [] nothing"
  by (simp add: emits_def nothing_def)

lemma emits_emit: "emits (output_of e) (emit e)"
  by (simp add: emits_def emit_def session_outputs_def)

lemma emits_if_ready [wf_intros]: "emits out f \<Longrightarrow> emits out (if_ready f)"
  by (auto simp: emits_def if_ready_def split: if_splits)

lemma send_outputs:
  "send env m s = (s', None) \<Longrightarrow>
     concat (map output_of (ses_effects s')) = concat (map output_of (ses_effects s)) @ [Sends (template_of m)]"
  by (auto simp: send_def and_then_def emit_def update_heartbeat_def Let_def split: sum.splits option.splits if_splits)

lemma emits_send: "emits [Sends (template_of m)] (send env m)"
  unfolding emits_def session_outputs_def by (simp add: send_outputs send_fields)

text \<open>The senders read the clock and take numbers before they send: nothing of that is seen.\<close>

lemmas sender_unfolds = emits_def session_outputs_def get_realtime_def fetch_next_seq_num_def fetch_next_request_id_def Let_def

lemma emits_senders [wf_intros]:
  "emits [Sends 500] (send_negotiate env)" "emits [Sends 503] (send_establish env)" "emits [Sends 506] (send_sequence env)"
  "emits [Sends 530] (send_order_mass_status_request env)"
  by (simp_all add: sender_unfolds send_negotiate_def send_establish_def send_sequence_def
      send_order_mass_status_request_def send_outputs send_fields)

lemma emits_ensure [wf_intros]: "emits [Sends 518] (ensure_party_details env)"
  by (simp add: sender_unfolds ensure_party_details_def party_details_list_req_id_def
      send_party_details_definition_request_def send_outputs send_fields)

lemma emits_numbered:
  "(\<And>now seq. template_of (m now seq) = n) \<Longrightarrow>
     emits [Sends n] (\<lambda>s. case get_realtime env s of (now, s) \<Rightarrow> case fetch_next_seq_num s of (seq_num, s) \<Rightarrow> send env (m now seq_num) s)"
  by (simp add: sender_unfolds send_outputs send_fields)

lemma emits_request:
  "(\<And>now seq. template_of (m now seq) = n) \<Longrightarrow>
     emits [Sends 518, Sends n] (and_then (ensure_party_details env)
       (\<lambda>s. case get_realtime env s of (now, s) \<Rightarrow> case fetch_next_seq_num s of (seq_num, s) \<Rightarrow> send env (m now seq_num) s))"
  by (rule emits_and_then [OF emits_ensure emits_numbered, unfolded append.simps])

lemma emits_branches:
  "(\<And>s s'. f s = (s', None) \<Longrightarrow> \<exists>g. g s = (s', None) \<and> emits out g) \<Longrightarrow> emits out f"
  unfolding emits_def by metis

lemma emits_requests [wf_intros]:
  "emits [Sends 518, Sends 514] (send_new_order_single env defs create order request_id)"
  "emits [Sends 518, Sends 515] (send_order_cancel_replace_request env defs modify order)"
  "emits [Sends 518, Sends 516] (send_order_cancel_request env defs order)"
  by (rule emits_branches, simp add: send_new_order_single_def send_order_cancel_replace_request_def
      send_order_cancel_request_def split: option.splits sum.splits if_splits,
      intro exI conjI, assumption, rule emits_request, simp)+

lemma emits_mass_action [wf_intros]: "emits [Sends 518, Sends 529] (send_order_mass_action_request env)"
proof -
  have "emits ([Sends 518] @ [Sends 529]) (send_order_mass_action_request env)"
    unfolding send_order_mass_action_request_def
    by (rule emits_and_then [OF emits_ensure]) (simp add: sender_unfolds send_outputs send_fields)
  then show ?thesis by simp
qed

subsection \<open>Reports\<close>

lemma emits_silent [wf_intros]: "output_of e = [] \<Longrightarrow> emits [] (emit e)"
  using emits_emit [of e] by simp

lemma emits_silent_then [wf_intros]: "emits [] f \<Longrightarrow> emits [] g \<Longrightarrow> emits [] (and_then f g)"
  using emits_and_then [of "[]" f "[]" g] by simp

lemma emits_silent_all [wf_intros]: "(\<And>e. e \<in> set es \<Longrightarrow> output_of e = []) \<Longrightarrow> emits [] (emit_all es)"
  by (induction es) (auto intro!: wf_intros)

lemma emits_with_security [wf_intros]: "(\<And>x y. emits [] (f x y)) \<Longrightarrow> emits [] (with_security defs v f)"
  by (auto simp: with_security_def Let_def emits_nothing split: option.split)

lemma emits_order_reports:
  "emits [] (on_business_reject b)"
  "emits [] (on_execution_report_reject r)" "emits [] (on_order_cancel_reject r)" "emits [] (on_order_cancel_replace_reject r)"
  "emits [] (on_execution_report_new defs v)" "emits [] (on_execution_report_modify defs v)" "emits [] (on_execution_report_cancel defs v)"
  "emits [] (on_execution_report_trade_outright env defs v)" "emits [] (on_order_mass_action_report env m)"
  by (auto simp: on_business_reject_def on_execution_report_reject_def on_order_cancel_reject_def
      on_order_cancel_replace_reject_def on_execution_report_new_def on_execution_report_modify_def
      on_execution_report_cancel_def on_execution_report_trade_outright_def on_order_mass_action_report_def mass_action_ack_def
      Let_def split: prod.split mass_action_response.split
      intro!: emits_silent emits_silent_then emits_silent_all emits_with_security emits_nothing)

lemma emits_order_report: "order_report r \<Longrightarrow> emits [] (on_report env defs r)"
  by (cases r)
    (auto simp: on_execution_report_status_def emits_order_reports emits_nothing
      intro!: emits_silent_then emits_with_security emits_silent emits_nothing)

lemma emits_rejection: "r \<in> {NegotiationReject502, EstablishmentReject505, Terminate507} \<Longrightarrow> emits [Closes] (on_report env defs r)"
  using emits_emit [of CloseConnection] by (auto simp: on_negotiation_reject_def on_establishment_reject_def on_terminate_def)

lemma status_outputs:
  "on_connection_status c s = (s', None) \<Longrightarrow> session_outputs s' = session_outputs s @ [Publishes c] \<and>
     ses_connection_status s' = c \<and> ses_download s' = ses_download s"
  by (auto simp: on_connection_status_def emit_def session_outputs_def)

subsection \<open>The simulation\<close>

text \<open>A successful action as a step of the protocol, for a given abstraction of the download.\<close>

definition simulates :: "('d \<Rightarrow> download_state) \<Rightarrow> oe_input \<Rightarrow> 'd order_entry \<Rightarrow> 'd order_entry \<Rightarrow> bool" where
  "simulates phase x s s' \<longleftrightarrow>
     (\<exists>out. session_outputs s' = session_outputs s @ out \<and> session_step (session_abs phase s) x out (session_abs phase s'))"

lemma simulatesI:
  "session_outputs s' = session_outputs s @ out \<Longrightarrow> session_step (session_abs phase s) x out a \<Longrightarrow> session_abs phase s' = a \<Longrightarrow>
     simulates phase x s s'"
  unfolding simulates_def by blast

lemma emits_simulates:
  assumes "emits out f" and "f s = (s', None)" and "session_step (session_abs phase s) x out (session_abs phase s)"
  shows "simulates phase x s s'"
  by (rule simulatesI [OF emitsD(1) [OF assms(1,2)] assms(3)]) (rule emitsD(4) [OF assms(1,2)])

lemma connected_simulates:
  assumes "on_connected env s = (s', None)"
  shows "simulates phase InConnected s s'"
proof -
  obtain t where t: "send_negotiate env s = (t, None)" "on_connection_status LOGIN_SENT t = (s', None)"
    using assms unfolding on_connected_def by (rule and_then_None)
  show ?thesis
    by (rule simulatesI [OF _ connect])
      (use emitsD [OF emits_senders(1) t(1)] status_outputs [OF t(2)] in \<open>simp_all add: session_abs_def\<close>)
qed

lemma disconnected_simulates:
  assumes "download_laws (ge_download env) phase" and "on_disconnected env s = (s', None)"
  shows "simulates phase InDisconnected s s'"
  by (rule simulatesI [OF _ disconnect])
    (use assms in \<open>auto simp: on_disconnected_def on_connection_status_def emit_def session_outputs_def session_abs_def download_laws_def\<close>)

lemma established_simulates:
  assumes "download_laws (ge_download env) phase" and "on_establishment_ack env s = (s', None)"
  shows "simulates phase (InReport EstablishmentAck504) s s'"
proof -
  obtain t where t: "on_connection_status DOWNLOADING s = (t, None)" "download_begin env t = (s', None)"
    using assms(2) unfolding on_establishment_ack_def by (rule and_then_None)
  obtain d where d: "dl_begin (ge_download env) download_responses (ses_download t) = (d, [ORDERS])"
    using assms(1) unfolding download_laws_def by (metis prod.collapse)
  have "emits [Sends 518, Sends 530] (run_download env [ORDERS])"
    using emits_and_then [OF emits_and_then [OF emits_ensure emits_senders(4)] emits_nothing] by simp
  moreover have "run_download env [ORDERS] (t\<lparr>ses_download := d\<rparr>) = (s', None)"
    using t(2) d by (simp add: download_begin_def)
  ultimately have "session_outputs s' = session_outputs (t\<lparr>ses_download := d\<rparr>) @ [Sends 518, Sends 530]"
    by (rule emitsD)
  then have "session_outputs s' = session_outputs s @ [Publishes DOWNLOADING, Sends 518, Sends 530]"
    using status_outputs [OF t(1)] by (simp add: session_outputs_def)
  then show ?thesis
    by (rule simulatesI [OF _ established]) (use establishment_login [OF assms] in \<open>simp add: session_abs_def\<close>)
qed

lemma last_report_simulates:
  assumes "download_laws (ge_download env) phase" and "on_execution_report_status env defs v s = (s', None)"
    and "xr_last_rpt_requested v = BF_True"
  shows "simulates phase (InReport (ExecutionReportStatus532 v)) s s'"
proof -
  let ?f = "with_security defs v (\<lambda>sec i. emit (OrderUpdate (order_update_from_execution_report SNAPSHOT v sec i))) :: 'a action"
  obtain t where t: "?f s = (t, None)" "download_check_relaxed env ORDERS t = (s', None)"
    using assms(2,3) by (auto simp: on_execution_report_status_def elim: and_then_None)
  have f: "emits [] ?f" by (intro emits_with_security emits_silent) simp
  have st: "session_outputs t = session_outputs s" "session_abs phase t = session_abs phase s"
    using emitsD [OF f t(1)] by simp_all
  define d where "d = fst (dl_check_relaxed (ge_download env) download_responses ORDERS (ses_download t))"
  have d: "dl_check_relaxed (ge_download env) download_responses ORDERS (ses_download t) =
      (d, if phase (ses_download t) = ORDERS then [DONE] else [])"
    "phase d = (if phase (ses_download t) = ORDERS then DONE else phase (ses_download t))"
    using assms(1) unfolding download_laws_def d_def by (auto intro: prod_eqI)
  show ?thesis
  proof (cases "phase (ses_download t) = ORDERS")
    case True
    then have "ss_download (session_abs phase s) = ORDERS" using st(2) [symmetric] by (simp add: session_abs_def)
    from downloaded [OF assms(3) this] show ?thesis
      by (rule simulatesI [rotated])
        (use t(2) d True st in \<open>auto simp: download_check_relaxed_def and_then_def nothing_def on_connection_status_def emit_def
          session_outputs_def session_abs_def\<close>)
  next
    case False
    then have "ss_download (session_abs phase s) \<noteq> ORDERS" using st(2) [symmetric] by (simp add: session_abs_def)
    from not_awaited [OF assms(3) this] show ?thesis
      by (rule simulatesI [rotated])
        (use t(2) d False st in \<open>auto simp: download_check_relaxed_def nothing_def session_outputs_def session_abs_def\<close>)
  qed
qed

lemma emits_request_input: "request_template x = Some n \<Longrightarrow> emits [Sends 518, Sends n] (oe_action env defs x)"
proof (induction x rule: request_template.induct)
  case (4 c i)
  have "emits ([Sends 518, Sends 529] @ []) (on_cancel_all_orders env c i)"
    unfolding on_cancel_all_orders_def by (intro emits_if_ready emits_and_then emits_mass_action emits_silent) simp
  with 4 show ?case by simp
qed (auto simp: on_create_order_def on_modify_order_def on_cancel_order_def intro: emits_if_ready emits_requests)

lemma request_ready: "request_template x = Some n \<Longrightarrow> oe_action env defs x s = (s', None) \<Longrightarrow> ses_connection_status s = READY"
  by (induction x rule: request_template.induct)
    (auto simp: on_create_order_def on_modify_order_def on_cancel_order_def on_cancel_all_orders_def if_ready_def ready_def
      split: if_splits)

lemma report_simulates:
  assumes "download_laws (ge_download env) phase" and "on_report env defs r s = (s', None)"
  shows "simulates phase (InReport r) s s'"
proof -
  consider "order_report r" | "r \<in> {NegotiationReject502, EstablishmentReject505, Terminate507}"
    | "r = NegotiationResponse501" | "r = EstablishmentAck504"
    | v where "r = ExecutionReportStatus532 v" "xr_last_rpt_requested v = BF_True"
    by (cases r) auto
  then show ?thesis
  proof cases
    case 1
    from emits_simulates [OF emits_order_report [OF 1] assms(2) report [OF 1]] show ?thesis .
  next
    case 2
    from emits_simulates [OF emits_rejection [OF 2] assms(2) rejected [OF 2]] show ?thesis .
  next
    case 3
    with assms(2) emits_simulates [OF emits_senders(2) _ negotiated] show ?thesis by (simp add: on_negotiation_response_def)
  next
    case 4
    with assms established_simulates show ?thesis by auto
  next
    case 5
    with assms last_report_simulates show ?thesis by auto
  qed
qed

lemma timer_simulates:
  assumes "on_session_timer env refreshed now s = (s', None)"
  shows "simulates phase (InTimer refreshed now) s s'"
proof (cases "s' = s")
  case True
  then show ?thesis by (auto intro!: simulatesI [OF _ idle])
next
  case False
  with assms have *: "refreshed" "ready s" "send_sequence env s = (s', None)"
    by (auto simp: on_session_timer_def split: if_splits)
  then have "ss_status (session_abs phase s) = READY" by (simp add: session_abs_def ready_def)
  with *(1) emits_simulates [OF emits_senders(3) *(3) heartbeat] show ?thesis by simp
qed

lemma oe_action_simulates:
  assumes "download_laws (ge_download env) phase" and "oe_action env defs x s = (s', None)"
  shows "simulates phase x s s'"
proof (cases "request_template x")
  case (Some n)
  have "ss_status (session_abs phase s) = READY" using request_ready [OF Some assms(2)] by (simp add: session_abs_def)
  from emits_simulates [OF emits_request_input [OF Some] assms(2) request [OF Some this]] show ?thesis .
next
  case None
  with assms show ?thesis
    by (cases x) (auto intro: connected_simulates disconnected_simulates timer_simulates report_simulates)
qed

text \<open>Only requests of clients are refused, and a refusal leaves the state as it was.\<close>

lemma refused_request:
  assumes "casts_fail_hard env" and "oe_action env defs x s = (s', Some e)" and "refusal e"
  shows "s' = s \<and> (\<exists>n. request_template x = Some n)"
proof
  show "s' = s" by (rule refused_unchanged' [OF assms])
  have timer: "fails_hard (on_session_timer env b now)" for b now
    using fails_hard_senders [OF assms(1)] by (auto simp: fails_hard_def on_session_timer_def)
  show "\<exists>n. request_template x = Some n"
    using refused_calm [OF assms] assms(2,3)
    by (cases x) (auto dest: fails_hardD [OF timer] fails_hardD [OF fails_hard_report [OF assms(1)]])
qed

type_synonym ('d, 'p, 'o) oe_setting = "'d gateway_env \<times> ('p, 'o) security_definitions \<times> ('d \<Rightarrow> download_state)"

fun setting_ok :: "('d, 'p, 'o) oe_setting \<Rightarrow> bool" where
  "setting_ok (env, defs, phase) \<longleftrightarrow> casts_fail_hard env \<and> download_laws (ge_download env) phase"

fun setting_act :: "('d, 'p, 'o) oe_setting \<Rightarrow> oe_input \<Rightarrow> 'd action" where
  "setting_act (env, defs, phase) = oe_action env defs"

fun setting_abs :: "('d, 'p, 'o) oe_setting \<Rightarrow> 'd order_entry \<Rightarrow> session_state" where
  "setting_abs (env, defs, phase) = session_abs phase"

interpretation oe: refined_machine setting_ok setting_act refusal setting_abs session_outputs session_step
proof
  fix e :: "('d, 'p, 'o) oe_setting" and x s s'
  assume "setting_ok e" "setting_act e x s = (s', None)"
  then show "\<exists>out. session_outputs s' = session_outputs s @ out \<and> session_step (setting_abs e s) x out (setting_abs e s')"
    using oe_action_simulates by (cases e) (auto simp: simulates_def)
next
  fix e :: "('d, 'p, 'o) oe_setting" and x s s' exc
  assume "setting_ok e" "setting_act e x s = (s', Some exc)" "refusal exc"
  then show "s' = s \<and> session_step (setting_abs e s) x [] (setting_abs e s)"
    by (cases e) (auto dest: refused_request intro: refused)
qed

lemma oe_run_act: "oe_run env defs d h s \<Longrightarrow> act_run (oe_action env defs) refusal (initial_order_entry d) h s"
  by (induction rule: oe_run.induct) (blast intro: act_run.intros)+

text \<open>
  Claim C5. The order entry connection refines the session protocol: whatever requests,
  reports, timers and changes of the connection it goes through, the messages it sends, the
  statuses it publishes and the closing of the connection are, input by input and in order,
  those of a run of the protocol, and its status and the progress of its download are the
  state of the protocol. In particular orders are sent only while the published status is
  ready, always after the party details; a rejection or a termination by the exchange closes
  the connection and nothing else; and the status changes only with the connection, the
  acknowledgement of the establishment and the last awaited status report.
\<close>

theorem session_refinement:
  assumes "oe_run env defs d h s" and "casts_fail_hard env" and "download_laws (ge_download env) phase"
    and "phase d = DS_UNDEFINED"
  shows "spec_run session_step session_init h (session_outputs s) (session_abs phase s)"
proof -
  have "setting_ok (env, defs, phase)" using assms(2,3) by simp
  moreover have "act_run (setting_act (env, defs, phase)) refusal (initial_order_entry d) h s"
    using oe_run_act [OF assms(1)] by simp
  ultimately have "\<exists>out. session_outputs s = session_outputs (initial_order_entry d) @ out \<and>
      spec_run session_step (setting_abs (env, defs, phase) (initial_order_entry d)) h out (setting_abs (env, defs, phase) s)"
    by (rule oe.run_refines)
  then show ?thesis
    using assms(4) by (simp add: session_outputs_def session_abs_def session_init_def initial_order_entry_def)
qed

theorem session_refinement_witness:
  "\<exists>s :: download_state order_entry. ready s \<and>
     spec_run session_step session_init (login_inputs sample_report) (session_outputs s) (session_abs (\<lambda>d. d) s)"
proof -
  obtain s where s: "oe_run sample_env sample_defs DS_UNDEFINED (login_inputs sample_report) s" "ready s"
    by (rule sample_login)
  from session_refinement [OF s(1) sample_casts sample_download_laws refl] s(2) show ?thesis by blast
qed

end
