(* ===== verification/Programs.thy ===== *)
theory Programs
  imports Gateway Tools
begin

section \<open>Settings, options and programs\<close>

text \<open>
  How the programs are put together from their command line flags: the options the market data
  gets from the gateway (\<^verbatim>\<open>gateway/controller.cpp\<close>) and from the import
  (\<^verbatim>\<open>import/controller.cpp\<close>), the settings handed to the server framework
  (\<^verbatim>\<open>gateway/config.cpp\<close>), names, and the \<^verbatim>\<open>main\<close> of the import and of the
  dump (\<^verbatim>\<open>*/application.cpp\<close>). The flags themselves are structures generated from
  \<^verbatim>\<open>flags/*.json\<close>; the records below have the ones the code reads.
\<close>

subsection \<open>Options of the market data\<close>

record md_options =
  op_cache_all_reference_data :: bool
  op_enable_market_by_order :: bool
  op_mbp_to_mbo_clear_price_level :: bool
  op_filter_snapshot_from_incremental :: nat
  op_local_interface :: string
  op_multicast_timeout :: nanoseconds
  op_secdef_config_file :: "string option"
  op_pcap_first_timestamp :: nanoseconds

text \<open>What the handlers of the feeds see of the options.\<close>

definition env_of_options ::
    "md_options \<Rightarrow> (string \<Rightarrow> bool) \<Rightarrow> (mbp_book, 'p) sequencer \<Rightarrow> (mbo_book, 'o) sequencer \<Rightarrow> ('p, 'o) md_env" where
  "env_of_options options dsc mbp mbo =
     \<lparr>enable_market_by_order = op_enable_market_by_order options,
      mbp_to_mbo_clear_price_level = op_mbp_to_mbo_clear_price_level options,
      filter_snapshot_from_incremental = op_filter_snapshot_from_incremental options,
      multicast_timeout = op_multicast_timeout options,
      discard_symbol = dsc, mbp_seq = mbp, mbo_seq = mbo\<rparr>"

subsection \<open>The gateway\<close>

record gateway_flags =
  gf_enable_market_by_order :: bool
  gf_filter_snapshot_from_incremental :: u32
  gf_secdef_config_file :: "string option"
  gf_mbp_allow_price_inversion :: bool
  gf_mbp_checksum :: bool
  gf_local_interface :: string
  gf_multicast_timeout :: nanoseconds

definition gateway_options :: "gateway_flags \<Rightarrow> md_options" where
  "gateway_options settings =
     \<lparr>op_cache_all_reference_data = True,
      op_enable_market_by_order = gf_enable_market_by_order settings,
      op_mbp_to_mbo_clear_price_level = False,
      op_filter_snapshot_from_incremental = unat (gf_filter_snapshot_from_incremental settings),
      op_local_interface = gf_local_interface settings,
      op_multicast_timeout = gf_multicast_timeout settings,
      op_secdef_config_file = gf_secdef_config_file settings,
      op_pcap_first_timestamp = 0\<rparr>"

text \<open>The settings the framework asks for; the fields that are not set have their default.\<close>

datatype request_id_type = RequestIdType_UNDEFINED | BASE64

record gateway_settings =
  gx_supports :: "support_type set"
  gx_mbp_max_depth :: nat
  gx_mbp_tick_size_multiplier :: double
  gx_mbp_min_trade_vol_multiplier :: double
  gx_mbp_allow_remove_non_existing :: bool
  gx_mbp_allow_price_inversion :: bool
  gx_mbp_checksum :: bool
  gx_oms_download_has_state :: bool
  gx_oms_download_has_routing_id :: bool
  gx_oms_request_id_type :: request_id_type
  gx_oms_cancel_all_orders :: "string set"

definition GATEWAY_SUPPORTS :: "support_type set" where
  "GATEWAY_SUPPORTS = {REFERENCE_DATA, MARKET_STATUS, TOP_OF_BOOK, MARKET_BY_PRICE, TRADE_SUMMARY, STATISTICS}"

definition MBP_MAX_DEPTH :: nat where
  "MBP_MAX_DEPTH = 10"

definition MBP_ALLOW_REMOVE_NON_EXISTING :: bool where
  "MBP_ALLOW_REMOVE_NON_EXISTING = True"

definition gateway_settings_of :: "gateway_flags \<Rightarrow> gateway_settings" where
  "gateway_settings_of settings =
     \<lparr>gx_supports = GATEWAY_SUPPORTS,
      gx_mbp_max_depth = MBP_MAX_DEPTH,
      gx_mbp_tick_size_multiplier = NaN,
      gx_mbp_min_trade_vol_multiplier = NaN,
      gx_mbp_allow_remove_non_existing = MBP_ALLOW_REMOVE_NON_EXISTING,
      gx_mbp_allow_price_inversion = gf_mbp_allow_price_inversion settings,
      gx_mbp_checksum = gf_mbp_checksum settings,
      gx_oms_download_has_state = False,
      gx_oms_download_has_routing_id = False,
      gx_oms_request_id_type = BASE64,
      gx_oms_cancel_all_orders = {}\<rparr>"

text \<open>
  \<^verbatim>\<open>OrderEntry\<close> names its connection after the stream and the account and announces
  what it supports.
\<close>

definition create_name :: "u16 \<Rightarrow> string \<Rightarrow> string" where
  "create_name stream_id account = show_nat (unat stream_id) @ '':'' @ ''msgw'' @ '':'' @ account"

definition ORDER_ENTRY_SUPPORTS :: "support_type set" where
  "ORDER_ENTRY_SUPPORTS = {CREATE_ORDER, MODIFY_ORDER, CANCEL_ORDER, ORDER_ACK, ORDER, TRADE_UPDATES}"

subsection \<open>Names of channels\<close>

text \<open>
  \<^verbatim>\<open>Channel::get_channel_name\<close>, once for the numbers of \<^verbatim>\<open>market_data/channel.cpp\<close>
  and once for the texts of the copy \<^verbatim>\<open>gateway/channel.cpp\<close>.
\<close>

fun channel_postfix :: "priority \<Rightarrow> string" where
  "channel_postfix Priority_UNDEFINED = []"
| "channel_postfix PRIMARY = ''A''"
| "channel_postfix SECONDARY = ''B''"

definition get_channel_name :: "u16 \<Rightarrow> string \<Rightarrow> priority \<Rightarrow> string" where
  "get_channel_name channel_id prefix pr = prefix @ show_nat (unat channel_id) @ channel_postfix pr"

definition gw_get_channel_name :: "string \<Rightarrow> string \<Rightarrow> priority \<Rightarrow> string" where
  "gw_get_channel_name channel_id prefix pr = prefix @ channel_id @ channel_postfix pr"

text \<open>Both names tell the feeds of the channels apart.\<close>

lemma channel_postfix_inj: "channel_postfix pr = channel_postfix pr' \<Longrightarrow> pr = pr'"
  by (cases pr; cases pr') simp_all

lemma show_nat_postfix_inj:
  assumes "show_nat m @ channel_postfix pr = show_nat n @ channel_postfix pr'"
  shows "m = n \<and> pr = pr'"
proof -
  let ?digit = "\<lambda>c. of_char c < (58 :: nat)"
  have digits: "\<forall>c \<in> set (show_nat k). ?digit c" for k
    by (auto dest!: show_nat_digits simp: of_char_digit)
  have "takeWhile ?digit (show_nat k @ channel_postfix q) = show_nat k" for k q
    using digits [of k] by (cases q) (simp_all add: takeWhile_append2)
  with assms have "show_nat m = show_nat n" by metis
  with assms channel_postfix_inj [of pr pr'] show ?thesis by simp
qed

lemma get_channel_name_inj:
  "get_channel_name i prefix pr = get_channel_name j prefix pr' \<Longrightarrow> i = j \<and> pr = pr'"
  using show_nat_postfix_inj [of "unat i" pr "unat j" pr'] by (auto simp: get_channel_name_def word_unat_eq_iff)

lemma gw_get_channel_name_feeds:
  "gw_get_channel_name i prefix pr = gw_get_channel_name i prefix pr' \<Longrightarrow> pr = pr'"
  by (simp add: gw_get_channel_name_def channel_postfix_inj)

text \<open>
  The copy in \<^verbatim>\<open>gateway/channel.hpp\<close> has the bookkeeping of the channels of the
  market data under a name that is a text. Nothing uses it; it does keep the same numbers.
\<close>

record 'b gw_channel =
  gc_channel_id :: string
  gc_last_sequence :: "bool \<times> u32"
  gc_buffer :: 'b
  gc_first_sequence_number :: u32
  gc_last_sequence_number :: u32

definition make_gw_channel :: "string \<Rightarrow> 'b \<Rightarrow> 'b gw_channel" where
  "make_gw_channel channel_id buffer =
     \<lparr>gc_channel_id = channel_id, gc_last_sequence = (False, 0), gc_buffer = buffer,
      gc_first_sequence_number = 0, gc_last_sequence_number = 0\<rparr>"

definition gw_update_sequence_number :: "u32 \<Rightarrow> 'b gw_channel \<Rightarrow> 'b gw_channel" where
  "gw_update_sequence_number n ch =
     (let ch = (if gc_first_sequence_number ch = 0 then ch\<lparr>gc_first_sequence_number := n\<rparr> else ch)
      in ch\<lparr>gc_last_sequence_number := n\<rparr>)"

definition as_channel :: "'b gw_channel \<Rightarrow> 'b channel" where
  "as_channel ch = \<lparr>first_sequence_number = gc_first_sequence_number ch, last_sequence_number = gc_last_sequence_number ch,
     reorder_buffer = gc_buffer ch\<rparr>"

lemma gw_update_refines: "as_channel (gw_update_sequence_number n ch) = update_sequence_number n (as_channel ch)"
  by (simp add: as_channel_def gw_update_sequence_number_def update_sequence_number_def)

lemma gw_updates_bounds:
  assumes "ns \<noteq> []" and "0 \<notin> set ns"
  shows "gc_first_sequence_number (fold gw_update_sequence_number ns (make_gw_channel i b)) = hd ns \<and>
    gc_last_sequence_number (fold gw_update_sequence_number ns (make_gw_channel i b)) = last ns"
  using assms
proof (induction ns rule: rev_induct)
  case (snoc n ns)
  then show ?case by (cases ns) (auto simp: gw_update_sequence_number_def make_gw_channel_def)
qed simp

subsection \<open>The import\<close>

record 'r import_flags =
  if_name :: string
  if_channel_ids :: "u16 list"
  if_symbols :: "'r list"
  if_cache_all_reference_data :: bool
  if_config_file :: "xml_event list"
  if_secdef_file :: "string option"
  if_output_file :: string
  if_dir :: string
  if_buffer_size :: u32
  if_compression_level :: u32
  if_mbp_allow_price_inversion :: bool
  if_mbp_max_depth :: u16
  if_mbp_mbo :: bool
  if_mbp_to_mbo_clear_price_level :: bool

definition IMPORT_LOCAL_INTERFACE :: string where
  "IMPORT_LOCAL_INTERFACE = ''pcap''"

definition IMPORT_MULTICAST_TIMEOUT :: nanoseconds where
  "IMPORT_MULTICAST_TIMEOUT = 10000000000"

definition import_options :: "'r import_flags \<Rightarrow> nanoseconds \<Rightarrow> md_options" where
  "import_options settings first_timestamp =
     \<lparr>op_cache_all_reference_data = if_cache_all_reference_data settings,
      op_enable_market_by_order = True,
      op_mbp_to_mbo_clear_price_level = if_mbp_to_mbo_clear_price_level settings,
      op_filter_snapshot_from_incremental = 0,
      op_local_interface = IMPORT_LOCAL_INTERFACE,
      op_multicast_timeout = IMPORT_MULTICAST_TIMEOUT,
      op_secdef_config_file = if_secdef_file settings,
      op_pcap_first_timestamp = first_timestamp\<rparr>"

definition import_gateway_settings :: "'r import_flags \<Rightarrow> gateway_settings" where
  "import_gateway_settings settings =
     \<lparr>gx_supports = {},
      gx_mbp_max_depth = unat (if_mbp_max_depth settings),
      gx_mbp_tick_size_multiplier = NaN,
      gx_mbp_min_trade_vol_multiplier = NaN,
      gx_mbp_allow_remove_non_existing = False,
      gx_mbp_allow_price_inversion = if_mbp_allow_price_inversion settings,
      gx_mbp_checksum = False,
      gx_oms_download_has_state = False,
      gx_oms_download_has_routing_id = False,
      gx_oms_request_id_type = RequestIdType_UNDEFINED,
      gx_oms_cancel_all_orders = {}\<rparr>"

text \<open>
  The reader of the capture file calls its handler for each packet until the handler returns
  true. The first pass over the file takes the time of each packet and returns whether it is
  not zero.
\<close>

fun get_first_timestamp :: "pcap_packet list \<Rightarrow> nanoseconds \<Rightarrow> nanoseconds" where
  "get_first_timestamp [] result = result"
| "get_first_timestamp (p # ps) result =
     (let result = pp_timestamp p in if result \<noteq> 0 then result else get_first_timestamp ps result)"

text \<open>The time with which the reference data of the security definition file is published.\<close>

definition origin_create_time_utc :: "nanoseconds \<Rightarrow> nanoseconds \<Rightarrow> nanoseconds" where
  "origin_create_time_utc first_timestamp realtime = (if first_timestamp \<noteq> 0 then first_timestamp else realtime)"

text \<open>The file of the event log, and its configuration.\<close>

record producer_config =
  pc_input_buffer_size :: u32
  pc_output_buffer_size :: u32
  pc_compression_level :: u8
  pc_utimes_on_sync :: bool

definition create_producer ::
    "(string \<Rightarrow> string \<Rightarrow> nanoseconds \<Rightarrow> string \<times> string \<times> string) \<Rightarrow> 'r import_flags \<Rightarrow> nanoseconds
     \<Rightarrow> (string \<times> string \<times> string) \<times> producer_config" where
  "create_producer create_paths settings timestamp_utc =
     (if if_output_file settings = [] then create_paths (if_dir settings) (if_name settings) timestamp_utc
      else (if_output_file settings, [], []),
      \<lparr>pc_input_buffer_size = if_buffer_size settings, pc_output_buffer_size = if_buffer_size settings,
       pc_compression_level = ucast (if_compression_level settings), pc_utimes_on_sync = False\<rparr>)"

text \<open>
  The comparison of the two books that a test flag switches on: a row per level both books
  have, marked wrong when a price or a quantity differs by the library's comparison.
\<close>

record layer =
  ly_bid_price :: double
  ly_bid_quantity :: double
  ly_ask_price :: double
  ly_ask_quantity :: double

definition DEBUG_compare :: "(double \<Rightarrow> double \<Rightarrow> int) \<Rightarrow> layer list \<Rightarrow> layer list \<Rightarrow> (nat \<times> bool) list" where
  "DEBUG_compare cmp mbp_depth mbo_depth =
     (let len = min (length mbp_depth) (length mbo_depth)
      in map (\<lambda>i. let lhs = mbp_depth ! i; rhs = mbo_depth ! i in
           (i, cmp (ly_bid_price lhs) (ly_bid_price rhs) = 0 \<and> cmp (ly_bid_quantity lhs) (ly_bid_quantity rhs) = 0 \<and>
               cmp (ly_ask_price lhs) (ly_ask_price rhs) = 0 \<and> cmp (ly_ask_quantity lhs) (ly_ask_quantity rhs) = 0)) [0..<len])"

subsection \<open>The programs\<close>

text \<open>
  What the import uses of library code and of its surroundings: the decoders, the reorder
  buffer, the conversions, the regular expressions, the sequencers of the books, the clocks
  and the capture file behind a path.
\<close>

record ('r, 'p, 'o, 'b) import_world =
  iw_sbe :: "mdp_message sbe"
  iw_ops :: "'b udp_buffer"
  iw_buffer :: 'b
  iw_cc :: charconv
  iw_from_chars :: "string \<Rightarrow> exn + u16"
  iw_match :: "'r \<Rightarrow> string \<Rightarrow> bool"
  iw_mbp_seq :: "(mbp_book, 'p) sequencer"
  iw_mbo_seq :: "(mbo_book, 'o) sequencer"
  iw_system :: nanoseconds
  iw_realtime :: nanoseconds
  iw_pcap :: "string \<Rightarrow> pcap_packet list"

definition import_settings_of :: "('r, 'p, 'o, 'b) import_world \<Rightarrow> 'r import_flags \<Rightarrow> nanoseconds \<Rightarrow> 'r import_settings" where
  "import_settings_of w settings first_timestamp =
     \<lparr>is_cache_all_reference_data = if_cache_all_reference_data settings, is_mbp_mbo = if_mbp_mbo settings,
      is_symbols_regex = if_symbols settings, is_match = iw_match w, is_timer_now = 0,
      is_start_trace =
        \<lparr>ti_source_receive_time = iw_system w, ti_origin_create_time = iw_system w,
         ti_origin_create_time_utc = origin_create_time_utc first_timestamp (iw_realtime w)\<rparr>\<rparr>"

definition import_env :: "('r, 'p, 'o, 'b) import_world \<Rightarrow> 'r import_flags \<Rightarrow> nanoseconds \<Rightarrow> ('p, 'o) md_env" where
  "import_env w settings first_timestamp =
     env_of_options (import_options settings first_timestamp) (discards (import_settings_of w settings first_timestamp))
       (iw_mbp_seq w) (iw_mbo_seq w)"

text \<open>\<open>None\<close> would be a run that does not end, \<open>Inl\<close> is an error before the first packet.\<close>

definition import_main ::
    "('r, 'p, 'o, 'b) import_world \<Rightarrow> 'r import_flags \<Rightarrow> string list \<Rightarrow> (exn + ('p, 'o, 'b) importer \<times> exn option) option" where
  "import_main w settings params =
     (if length params \<noteq> 1 then Some (Inl Fatal)
      else let packets = iw_pcap w (params ! 0);
               first_timestamp = get_first_timestamp packets 0;
               env = import_env w settings first_timestamp
           in case make_import_controller env (iw_cc w) (iw_from_chars w) (if_config_file settings) (if_secdef_file settings)
                     (if_channel_ids settings) (iw_buffer w) of
                Inl e \<Rightarrow> Some (Inl e)
              | Inr (mdp, im) \<Rightarrow>
                  map_option Inr (import_packets env (iw_sbe w) (iw_ops w) (iw_cc w) (if_secdef_file settings) mdp
                    (import_settings_of w settings first_timestamp) packets im))"

definition dump_main :: "'m sbe \<Rightarrow> bool \<Rightarrow> (string \<Rightarrow> pcap_packet list) \<Rightarrow> string list \<Rightarrow> exn + 'm dump_output list \<times> exn option" where
  "dump_main sbe print_payload pcap params =
     (if length params \<noteq> 1 then Inl Fatal else Inr (dump_dispatch sbe print_payload (pcap (params ! 0))))"

subsection \<open>Properties\<close>

lemma import_dispatch_some:
  "buffer_laws ops held sz \<Longrightarrow> \<exists>r. import_dispatch env sbe ops mdp cfg p im = Some r"
  using manager_dispatch_some [of ops held sz env sbe]
  by (fastforce simp: import_dispatch_def Let_def split: option.split prod.split)

lemma import_packet_some:
  "buffer_laws ops held sz \<Longrightarrow> \<exists>r. import_packet env sbe ops cc contents mdp cfg p im = Some r"
  using import_dispatch_some [of ops held sz env sbe mdp cfg p]
  by (simp add: import_packet_def split: prod.split option.split)

lemma import_packets_some:
  assumes "buffer_laws ops held sz"
  shows "\<exists>im' e. import_packets env sbe ops cc contents mdp cfg ps im = Some (im', e)"
proof (induction ps arbitrary: im)
  case (Cons p ps)
  obtain im1 e1 where "import_packet env sbe ops cc contents mdp cfg p im = Some (im1, e1)"
    using import_packet_some [OF assms, of env sbe cc contents mdp cfg p im] by auto
  with Cons.IH [of im1] show ?case by (cases e1) auto
qed simp

text \<open>The log after any run, whether it ends well or with an exception.\<close>

lemma import_packets_any_log:
  assumes "import_packets env sbe ops cc contents mdp cfg ps (make_importer mg) = Some (im, e)"
    and "wf_manager mg" and "published (mg_shared mg) = []"
  shows "\<exists>ms. im_log im = log_of ms @ (if e = None \<and> ms \<noteq> [] then [Close] else []) \<and> numbered ms \<and>
    map lm_event ms = filter (kept cfg) (published (mg_shared (im_market_data im)))"
proof -
  from assms(1) obtain im0 where im0: "run_inputs (import_packet env sbe ops cc contents mdp cfg) ps (make_importer mg) = Some (im0, e)"
      and im: "im = (if e = None then close_log im0 else im0)"
    by (auto simp: import_packets_run split: option.splits)
  have "import_inv cfg (make_importer mg)"
    using assms(2,3) by (simp add: import_inv_def log_inv_def make_importer_def log_of_def numbered_def)
  from imp.run_inv [OF this im0] obtain ms where "im_log im0 = log_of ms" "numbered ms" "im_producer im0 = (ms \<noteq> [])"
      "map lm_event ms = filter (kept cfg) (published (mg_shared (im_market_data im0)))"
    by (auto simp: import_inv_def log_inv_def)
  then show ?thesis using im by (intro exI [of _ ms]) (auto simp: close_log_def)
qed

text \<open>The time of the first pass: that of the first packet with a time, zero when there is none.\<close>

lemma get_first_timestamp_find:
  "get_first_timestamp ps 0 = (case find (\<lambda>p. pp_timestamp p \<noteq> 0) ps of Some p \<Rightarrow> pp_timestamp p | None \<Rightarrow> 0)"
  by (induction ps) (auto simp: Let_def)

text \<open>
  The options are where the programs differ: the gateway follows its flag for the order books
  and never clears a price level of them, the import always has them and filters nothing.
\<close>

lemma options_of_programs:
  "\<not> mbp_to_mbo_clear_price_level (env_of_options (gateway_options gf) dsc mbp mbo)"
  "enable_market_by_order (env_of_options (gateway_options gf) dsc mbp mbo) = gf_enable_market_by_order gf"
  "enable_market_by_order (import_env w settings t)" "filter_snapshot_from_incremental (import_env w settings t) = 0"
  "discard_symbol (import_env w settings t) name \<longleftrightarrow> if_symbols settings \<noteq> [] \<and> \<not> (\<exists>r \<in> set (if_symbols settings). iw_match w r name)"
  by (simp_all add: env_of_options_def gateway_options_def import_env_def import_options_def import_settings_of_def discards_def)


definition sample_world :: "(string, u32, u32, (u32 \<times> bytes) list) import_world" where
  "sample_world =
     \<lparr>iw_sbe = sample_mdp_sbe, iw_ops = list_buffer, iw_buffer = [], iw_cc = sample_cc, iw_from_chars = sample_from_chars,
      iw_match = is_match sample_import, iw_mbp_seq = mbp_seq InstrumentDefinition.sample_env,
      iw_mbo_seq = mbo_seq InstrumentDefinition.sample_env, iw_system = 1, iw_realtime = 5, iw_pcap = (\<lambda>path. [sample_pcap 0, sample_pcap 7])\<rparr>"

definition sample_flags :: "string import_flags" where
  "sample_flags =
     \<lparr>if_name = ''cme'', if_channel_ids = [310], if_symbols = [''ES''], if_cache_all_reference_data = False,
      if_config_file = sample_mdp_events, if_secdef_file = None, if_output_file = ''x.roq'', if_dir = [], if_buffer_size = 134217728,
      if_compression_level = 4, if_mbp_allow_price_inversion = True, if_mbp_max_depth = 10, if_mbp_mbo = False,
      if_mbp_to_mbo_clear_price_level = False\<rparr>"


end
