(* ===== verification/TestPackets.thy ===== *)
theory TestPackets
  imports IlinkParser
begin

section \<open>The packets of the regression tests\<close>

text \<open>
  The packets that the tests under \<^verbatim>\<open>test/\<close> give to the two parsers, recorded from
  the exchange, and what the tests expect of the dispatch: which messages the handler gets and
  what the parser returns. The bytes are those of the string literals, cut at the frame, the
  headers and the bodies of the messages. The test handlers count the messages of the
  expected types and fail on every other; here they keep the template ids. The expectations
  about fields of messages concern the generated flyweights and have no counterpart.
\<close>

subsection \<open>Headers, handlers and packets\<close>

text \<open>The header of the recorded packets: block length, template id, schema id, version.\<close>

definition test_sbe :: "u16 sbe" where
  "test_sbe = \<lparr>header_length = 8,
     header_decode = (\<lambda>bs. if length bs < 8 then None
        else Some \<lparr>blockLength = le_u16 bs, templateId = le_u16 (drop 2 bs), version = le_u16 (drop 6 bs)\<rparr>),
     body_decode = (\<lambda>x body. templateId x)\<rparr>"

definition test_handler :: "u16 list \<Rightarrow> u16 \<Rightarrow> u16 list \<Rightarrow> u16 list \<times> exn option" where
  "test_handler expected t seen = (if t \<in> set expected then (seen @ [t], None) else (seen, Some AssertFailed))"

definition lines_of :: "bytes list \<Rightarrow> bytes" where
  "lines_of xss = concat xss"

definition joined :: "(bytes \<times> bytes) list \<Rightarrow> bytes" where
  "joined ms = concat (map (\<lambda>(header, body). header @ body) ms)"

definition datagram :: "bytes \<Rightarrow> (bytes \<times> bytes) list \<Rightarrow> bytes" where
  "datagram fr ms = fr @ joined ms"

lemma length_lines_of: "length (lines_of xss) = sum_list (map length xss)"
  by (simp add: lines_of_def length_concat)

lemma lines_of_Nil [simp]: "lines_of [] = []"
  by (simp add: lines_of_def)

lemma le_u16_append: "2 \<le> length a \<Longrightarrow> le_u16 (a @ b) = le_u16 a"
  by (simp add: le_u16_def)

subsection \<open>Market data packets\<close>

definition header_template :: "bytes \<Rightarrow> u16" where
  "header_template header = le_u16 (drop 4 header)"

text \<open>A message whose size field is right and whose template is one of the expected.\<close>

definition message_ok :: "u16 list \<Rightarrow> bytes \<times> bytes \<Rightarrow> bool" where
  "message_ok expected m \<longleftrightarrow>
     (case m of (header, body) \<Rightarrow> length header = 10 \<and> unat (le_u16 header) = 10 + length body \<and>
        header_template header \<in> set expected)"

lemma parse_messages_message_ok:
  assumes "message_ok expected (header, body)" and "set expected \<subseteq> set mdp_parsed"
  shows "parse_messages test_sbe (test_handler expected) (header @ body @ rest) seen =
    parse_messages test_sbe (test_handler expected) rest (seen @ [header_template header])"
proof -
  have h: "length header = 10" and len: "unat (le_u16 header) = 10 + length body" and t: "header_template header \<in> set expected"
    using assms(1) by (auto simp: message_ok_def)
  have b: "unat (le_u16 header) < 2 ^ 16"
    using unsigned_less [of "le_u16 header", where ?'a = nat] by simp
  have n: "unat (word_of_nat (unat (le_u16 header)) - word_of_nat 10 :: u64) = length body"
    using u64_sub_add [of "unat (le_u16 header)" 10] b len by simp
  have p: "header_template header \<in> set mdp_parsed" using t assms(2) by blast
  have le: "le_u16 (header @ r) = le_u16 header" "le_u16 (drop 4 header @ r) = header_template header" for r
    using h by (simp_all add: le_u16_append header_template_def)
  have ne: "header \<noteq> []" using h by auto
  show ?thesis
    using h t n p
    by (subst parse_messages.simps) (simp add: test_sbe_def test_handler_def Let_def le ne)
qed

lemma dispatch_datagram:
  assumes "length fr = 12" and "list_all (message_ok expected) ms" and "set expected \<subseteq> set mdp_parsed"
  shows "dispatch_packet test_sbe (\<lambda>f. test_handler expected) (datagram fr ms) seen =
    (seen @ map (header_template \<circ> fst) ms, Inr True)"
proof -
  have "parse_messages test_sbe (test_handler expected) (joined ms) seen = (seen @ map (header_template \<circ> fst) ms, Inr True)"
    using assms(2)
  proof (induction ms arbitrary: seen)
    case Nil
    show ?case by (simp add: joined_def parse_messages.simps [of _ _ "[]"])
  next
    case (Cons m ms)
    then show ?case using parse_messages_message_ok [OF _ assms(3)] by (cases m) (auto simp: joined_def)
  qed
  with assms(1) show ?thesis by (simp add: dispatch_packet_def parse_frame_def datagram_def frame_size_def)
qed

lemmas test_eval = message_ok_def header_template_def le_u16_def mdp_parsed_def length_lines_of

subsection \<open>Order entry frames\<close>

definition sofh_template :: "bytes \<Rightarrow> u16" where
  "sofh_template header = le_u16 (drop 6 header)"

text \<open>A frame with the right length, the right encoding and an expected template.\<close>

definition frame_ok :: "u16 list \<Rightarrow> bytes \<times> bytes \<Rightarrow> bool" where
  "frame_ok expected m \<longleftrightarrow>
     (case m of (header, body) \<Rightarrow> length header = 12 \<and> unat (le_u16 header) = 12 + length body \<and>
        le_u16 (drop 2 header) = 0xCAFE \<and> sofh_template header \<in> set expected)"

lemma ilink_dispatch_frame_ok:
  assumes "frame_ok expected (header, body)" and "set expected \<subseteq> set ilink_parsed"
  shows "ilink_dispatch test_sbe (test_handler expected) (header @ body @ rest) seen =
    (seen @ [sofh_template header], Inr (12 + length body))"
proof -
  have h: "length header = 12" and len: "unat (le_u16 header) = 12 + length body" and e: "le_u16 (drop 2 header) = 0xCAFE"
    and t: "sofh_template header \<in> set expected"
    using assms(1) by (auto simp: frame_ok_def)
  have p: "sofh_template header \<in> set ilink_parsed" using t assms(2) by blast
  have le: "le_u16 (header @ r) = le_u16 header" "le_u16 (drop 2 header @ r) = 0xCAFE"
    "le_u16 (drop 6 header @ r) = sofh_template header" for r
    using h e by (simp_all add: le_u16_append sofh_template_def)
  have "drop 4 header \<noteq> []" using h by auto
  then have "ilink_messages test_sbe (test_handler expected) (drop 4 header @ body) seen = (seen @ [sofh_template header], None)"
    using h t p
    by (subst ilink_messages.simps)
      (simp add: test_sbe_def test_handler_def Let_def le ilink_messages.simps [of _ _ "[]"])
  then show ?thesis
    using h len by (simp add: ilink_dispatch_def le Let_def)
qed

lemma read_loop_frames_ok:
  assumes "list_all (frame_ok expected) ms" and "set expected \<subseteq> set ilink_parsed"
  shows "read_loop test_sbe (test_handler expected) (joined ms) n seen =
    (seen @ map (sofh_template \<circ> fst) ms, Inr (n + length (joined ms)))"
  using assms(1)
proof (induction ms arbitrary: n seen)
  case Nil
  show ?case by (simp add: joined_def read_loop.simps [of _ _ "[]"])
next
  case (Cons m ms)
  obtain header body where m: "m = (header, body)" by (cases m)
  with Cons.prems have ok: "frame_ok expected (header, body)" by simp
  then have "length header = 12" by (simp add: frame_ok_def)
  moreover from this have "header \<noteq> []" by auto
  ultimately show ?case
    using Cons m ilink_dispatch_frame_ok [OF ok assms(2), of "joined ms" seen]
    by (subst read_loop.simps) (simp add: joined_def)
qed

lemmas ilink_eval = frame_ok_def sofh_template_def le_u16_def ilink_parsed_def length_lines_of

subsection \<open>The market data tests\<close>

text \<open>\<^verbatim>\<open>test/md_incremental_refresh_book.cpp\<close>\<close>

definition test_md_incremental_refresh_book_simple :: bytes where
  "test_md_incremental_refresh_book_simple = datagram [0xCA, 0xB3, 0xEF, 0x03, 0xC0, 0x48, 0x09, 0x86, 0x43, 0xCF, 0x48, 0x17]
     [([0x58, 0x00, 0x0B, 0x00, 0x2E, 0x00, 0x01, 0x00, 0x09, 0x00], lines_of
        [[0x75, 0x96, 0x07, 0x86, 0x43, 0xCF, 0x48, 0x17, 0x04, 0x00, 0x00, 0x20, 0x00, 0x01, 0x50, 0x2D, 0x15, 0x17],
         [0x1F, 0x00, 0x00, 0x00, 0x49, 0x00, 0x00, 0x00, 0x03, 0xEF, 0x0A, 0x00, 0xF8, 0x6D, 0xB4, 0x00, 0x1A, 0x00],
         [0x00, 0x00, 0x02, 0x01, 0x30, 0x00, 0x00, 0x00, 0x00, 0x00, 0x18, 0x00, 0x00, 0x00, 0x00, 0x00, 0x00, 0x01],
         [0x78, 0xD1, 0x1E, 0x88, 0xA6, 0x07, 0x00, 0x00, 0xB3, 0xFF, 0x8A, 0xD3, 0x04, 0x00, 0x00, 0x00, 0x02, 0x00],
         [0x00, 0x00, 0x01, 0x00, 0x00, 0x00]]),
      ([0x20, 0x00, 0x0B, 0x00, 0x2E, 0x00, 0x01, 0x00, 0x09, 0x00], lines_of
        [[0x75, 0x96, 0x07, 0x86, 0x43, 0xCF, 0x48, 0x17, 0x80, 0x00, 0x00, 0x20, 0x00, 0x00, 0x18, 0x00, 0x00, 0x00],
         [0x00, 0x00, 0x00, 0x00]])]"

definition test_md_incremental_refresh_book_implied :: bytes where
  "test_md_incremental_refresh_book_implied = datagram [0xCB, 0xB3, 0xEF, 0x03, 0xFF, 0x49, 0x2E, 0x91, 0x43, 0xCF, 0x48, 0x17]
     [([0x78, 0x00, 0x0B, 0x00, 0x2E, 0x00, 0x01, 0x00, 0x09, 0x00], lines_of
        [[0x4D, 0xA9, 0x2C, 0x91, 0x43, 0xCF, 0x48, 0x17, 0x04, 0x00, 0x00, 0x20, 0x00, 0x02, 0xB0, 0x32, 0x08, 0xCA],
         [0x18, 0x00, 0x00, 0x00, 0x13, 0x00, 0x00, 0x00, 0x5C, 0x7F, 0x0A, 0x00, 0xB1, 0x4F, 0x91, 0x00, 0x0D, 0x00],
         [0x00, 0x00, 0x01, 0x01, 0x31, 0x00, 0x00, 0x00, 0x00, 0x00, 0x44, 0x68, 0x7F, 0xCA, 0x18, 0x00, 0x00, 0x00],
         [0xD8, 0x00, 0x00, 0x00, 0x5C, 0x7F, 0x0A, 0x00, 0xB2, 0x4F, 0x91, 0x00, 0x2D, 0x00, 0x00, 0x00, 0x02, 0x01],
         [0x31, 0x00, 0x00, 0x00, 0x00, 0x00, 0x18, 0x00, 0x00, 0x00, 0x00, 0x00, 0x00, 0x01, 0xAE, 0xCE, 0x1E, 0x88],
         [0xA6, 0x07, 0x00, 0x00, 0xB4, 0xFF, 0x8A, 0xD3, 0x04, 0x00, 0x00, 0x00, 0x01, 0x00, 0x00, 0x00, 0x01, 0x01],
         [0x00, 0x00]]),
      ([0x40, 0x01, 0x0B, 0x00, 0x2E, 0x00, 0x01, 0x00, 0x09, 0x00], lines_of
        [[0x4D, 0xA9, 0x2C, 0x91, 0x43, 0xCF, 0x48, 0x17, 0x90, 0x00, 0x00, 0x20, 0x00, 0x09, 0xA2, 0x2F, 0x4D, 0xFF],
         [0xFF, 0xFF, 0xFF, 0xFF, 0x13, 0x00, 0x00, 0x00, 0xD7, 0x46, 0x00, 0x00, 0x81, 0xE9, 0xC3, 0x00, 0xFF, 0xFF],
         [0xFF, 0x7F, 0x01, 0x01, 0x45, 0x00, 0x00, 0x00, 0x00, 0x00, 0xD8, 0x94, 0x11, 0xFF, 0xFF, 0xFF, 0xFF, 0xFF],
         [0xD8, 0x00, 0x00, 0x00, 0xD7, 0x46, 0x00, 0x00, 0x82, 0xE9, 0xC3, 0x00, 0xFF, 0xFF, 0xFF, 0x7F, 0x02, 0x01],
         [0x45, 0x00, 0x00, 0x00, 0x00, 0x00, 0x00, 0x00, 0x00, 0x00, 0x00, 0x00, 0x00, 0x00, 0x0A, 0x00, 0x00, 0x00],
         [0xC3, 0x61, 0x00, 0x00, 0xEE, 0x76, 0x8A, 0x00, 0xFF, 0xFF, 0xFF, 0x7F, 0x01, 0x01, 0x45, 0x00, 0x00, 0x00],
         [0x00, 0x00, 0x36, 0x65, 0xC4, 0xFF, 0xFF, 0xFF, 0xFF, 0xFF, 0xE0, 0x00, 0x00, 0x00, 0xC3, 0x61, 0x00, 0x00],
         [0xEF, 0x76, 0x8A, 0x00, 0xFF, 0xFF, 0xFF, 0x7F, 0x02, 0x01, 0x45, 0x00, 0x00, 0x00, 0x00, 0x00, 0x36, 0x65],
         [0xC4, 0xFF, 0xFF, 0xFF, 0xFF, 0xFF, 0x05, 0x00, 0x00, 0x00, 0x43, 0x63, 0x00, 0x00, 0x46, 0x20, 0x14, 0x00],
         [0xFF, 0xFF, 0xFF, 0x7F, 0x01, 0x01, 0x45, 0x00, 0x00, 0x00, 0x00, 0x00, 0x6C, 0xCA, 0x88, 0xFF, 0xFF, 0xFF],
         [0xFF, 0xFF, 0x01, 0x00, 0x00, 0x00, 0x43, 0x63, 0x00, 0x00, 0x47, 0x20, 0x14, 0x00, 0xFF, 0xFF, 0xFF, 0x7F],
         [0x02, 0x02, 0x45, 0x00, 0x00, 0x00, 0x00, 0x00, 0xD8, 0x94, 0x11, 0xFF, 0xFF, 0xFF, 0xFF, 0xFF, 0x01, 0x00],
         [0x00, 0x00, 0x43, 0x63, 0x00, 0x00, 0x48, 0x20, 0x14, 0x00, 0xFF, 0xFF, 0xFF, 0x7F, 0x02, 0x00, 0x45, 0x00],
         [0x00, 0x00, 0x00, 0x00, 0xB0, 0x29, 0x23, 0xFE, 0xFF, 0xFF, 0xFF, 0xFF, 0x13, 0x00, 0x00, 0x00, 0x36, 0x67],
         [0x00, 0x00, 0xC7, 0x80, 0x01, 0x01, 0xFF, 0xFF, 0xFF, 0x7F, 0x01, 0x01, 0x46, 0x00, 0x00, 0x00, 0x00, 0x00],
         [0x44, 0x5F, 0x9A, 0xFE, 0xFF, 0xFF, 0xFF, 0xFF, 0xD8, 0x00, 0x00, 0x00, 0x36, 0x67, 0x00, 0x00, 0xC8, 0x80],
         [0x01, 0x01, 0xFF, 0xFF, 0xFF, 0x7F, 0x02, 0x01, 0x46, 0x00, 0x00, 0x00, 0x00, 0x00, 0x18, 0x00, 0x00, 0x00],
         [0x00, 0x00, 0x00, 0x00]])]"

definition test_md_incremental_refresh_book_multiple_implied_securities :: bytes where
  "test_md_incremental_refresh_book_multiple_implied_securities = datagram [0xD7, 0xB3, 0xEF, 0x03, 0x00, 0xDD, 0xD3, 0x56, 0x46, 0xCF, 0x48, 0x17]
     [([0x58, 0x00, 0x0B, 0x00, 0x2E, 0x00, 0x01, 0x00, 0x09, 0x00], lines_of
        [[0xCD, 0x70, 0xD1, 0x56, 0x46, 0xCF, 0x48, 0x17, 0x04, 0x00, 0x00, 0x20, 0x00, 0x01, 0x20, 0x6D, 0xFF, 0xB5],
         [0x1C, 0x00, 0x00, 0x00, 0x11, 0x00, 0x00, 0x00, 0xC5, 0xFC, 0x01, 0x00, 0xEE, 0x09, 0x9D, 0x00, 0x0D, 0x00],
         [0x00, 0x00, 0x01, 0x01, 0x31, 0x00, 0x00, 0x00, 0x00, 0x00, 0x18, 0x00, 0x00, 0x00, 0x00, 0x00, 0x00, 0x01],
         [0x1D, 0xD1, 0x1E, 0x88, 0xA6, 0x07, 0x00, 0x00, 0x19, 0xFF, 0x8A, 0xD3, 0x04, 0x00, 0x00, 0x00, 0x01, 0x00],
         [0x00, 0x00, 0x01, 0x02, 0x00, 0x00]]),
      ([0x60, 0x02, 0x0B, 0x00, 0x2E, 0x00, 0x01, 0x00, 0x09, 0x00], lines_of
        [[0xCD, 0x70, 0xD1, 0x56, 0x46, 0xCF, 0x48, 0x17, 0x90, 0x00, 0x00, 0x20, 0x00, 0x12, 0x40, 0xF4, 0xA5, 0xE9],
         [0xFF, 0xFF, 0xFF, 0xFF, 0x11, 0x00, 0x00, 0x00, 0x0F, 0x19, 0x00, 0x00, 0xAF, 0xDF, 0x99, 0x00, 0xFF, 0xFF],
         [0xFF, 0x7F, 0x01, 0x01, 0x46, 0x00, 0x00, 0x00, 0x00, 0x00, 0x90, 0xCA, 0x82, 0xEB, 0xFF, 0xFF, 0xFF, 0xFF],
         [0x31, 0x00, 0x00, 0x00, 0x0F, 0x19, 0x00, 0x00, 0xB0, 0xDF, 0x99, 0x00, 0xFF, 0xFF, 0xFF, 0x7F, 0x02, 0x01],
         [0x46, 0x00, 0x00, 0x00, 0x00, 0x00, 0x94, 0x35, 0x77, 0x00, 0x00, 0x00, 0x00, 0x00, 0x11, 0x00, 0x00, 0x00],
         [0x31, 0x2A, 0x00, 0x00, 0xE7, 0x67, 0xD9, 0x00, 0xFF, 0xFF, 0xFF, 0x7F, 0x01, 0x01, 0x45, 0x00, 0x00, 0x00],
         [0x00, 0x00, 0x00, 0x00, 0x00, 0x00, 0x00, 0x00, 0x00, 0x00, 0x26, 0x00, 0x00, 0x00, 0x31, 0x2A, 0x00, 0x00],
         [0xE8, 0x67, 0xD9, 0x00, 0xFF, 0xFF, 0xFF, 0x7F, 0x02, 0x01, 0x45, 0x00, 0x00, 0x00, 0x00, 0x00, 0x60, 0x53],
         [0x46, 0xFC, 0xFF, 0xFF, 0xFF, 0xFF, 0x02, 0x00, 0x00, 0x00, 0xB2, 0x2D, 0x00, 0x00, 0x11, 0x3F, 0x08, 0x00],
         [0xFF, 0xFF, 0xFF, 0x7F, 0x01, 0x01, 0x46, 0x00, 0x00, 0x00, 0x00, 0x00, 0xB0, 0x29, 0x23, 0xFE, 0xFF, 0xFF],
         [0xFF, 0xFF, 0x01, 0x00, 0x00, 0x00, 0xB2, 0x2D, 0x00, 0x00, 0x12, 0x3F, 0x08, 0x00, 0xFF, 0xFF, 0xFF, 0x7F],
         [0x02, 0x00, 0x46, 0x00, 0x00, 0x00, 0x00, 0x00, 0x00, 0x00, 0x00, 0x00, 0x00, 0x00, 0x00, 0x00, 0x11, 0x00],
         [0x00, 0x00, 0x0A, 0x6D, 0x00, 0x00, 0x90, 0x48, 0x78, 0x00, 0xFF, 0xFF, 0xFF, 0x7F, 0x01, 0x01, 0x45, 0x00],
         [0x00, 0x00, 0x00, 0x00, 0x36, 0x65, 0xC4, 0xFF, 0xFF, 0xFF, 0xFF, 0xFF, 0x7C, 0x00, 0x00, 0x00, 0x0A, 0x6D],
         [0x00, 0x00, 0x91, 0x48, 0x78, 0x00, 0xFF, 0xFF, 0xFF, 0x7F, 0x02, 0x01, 0x45, 0x00, 0x00, 0x00, 0x00, 0x00],
         [0x28, 0x6B, 0xEE, 0x00, 0x00, 0x00, 0x00, 0x00, 0x08, 0x00, 0x00, 0x00, 0x76, 0x70, 0x00, 0x00, 0xBF, 0x9A],
         [0xCA, 0x00, 0xFF, 0xFF, 0xFF, 0x7F, 0x01, 0x01, 0x45, 0x00, 0x00, 0x00, 0x00, 0x00, 0x00, 0x00, 0x00, 0x00],
         [0x00, 0x00, 0x00, 0x00, 0x06, 0x00, 0x00, 0x00, 0x76, 0x70, 0x00, 0x00, 0xC0, 0x9A, 0xCA, 0x00, 0xFF, 0xFF],
         [0xFF, 0x7F, 0x02, 0x01, 0x45, 0x00, 0x00, 0x00, 0x00, 0x00, 0x98, 0x3B, 0x9E, 0xF7, 0xFF, 0xFF, 0xFF, 0xFF],
         [0x11, 0x00, 0x00, 0x00, 0xA1, 0x71, 0x00, 0x00, 0xA8, 0x66, 0xA4, 0x00, 0xFF, 0xFF, 0xFF, 0x7F, 0x01, 0x01],
         [0x45, 0x00, 0x00, 0x00, 0x00, 0x00, 0x28, 0x6B, 0xEE, 0x00, 0x00, 0x00, 0x00, 0x00, 0x9B, 0x00, 0x00, 0x00],
         [0x99, 0x72, 0x00, 0x00, 0x89, 0x5C, 0xF4, 0x00, 0xFF, 0xFF, 0xFF, 0x7F, 0x01, 0x01, 0x45, 0x00, 0x00, 0x00],
         [0x00, 0x00, 0x00, 0x00, 0x00, 0x00, 0x00, 0x00, 0x00, 0x00, 0x14, 0x00, 0x00, 0x00, 0x99, 0x72, 0x00, 0x00],
         [0x8A, 0x5C, 0xF4, 0x00, 0xFF, 0xFF, 0xFF, 0x7F, 0x02, 0x01, 0x45, 0x00, 0x00, 0x00, 0x00, 0x00, 0xD8, 0x94],
         [0x11, 0xFF, 0xFF, 0xFF, 0xFF, 0xFF, 0x11, 0x00, 0x00, 0x00, 0x3B, 0x76, 0x00, 0x00, 0xAE, 0xCD, 0xD6, 0x00],
         [0xFF, 0xFF, 0xFF, 0x7F, 0x01, 0x01, 0x45, 0x00, 0x00, 0x00, 0x00, 0x00, 0x60, 0x53, 0x46, 0xFC, 0xFF, 0xFF],
         [0xFF, 0xFF, 0x08, 0x00, 0x00, 0x00, 0xBB, 0x80, 0x00, 0x00, 0xE3, 0x56, 0xBF, 0x00, 0xFF, 0xFF, 0xFF, 0x7F],
         [0x01, 0x01, 0x46, 0x00, 0x00, 0x00, 0x00, 0x00, 0xB0, 0x29, 0x23, 0xFE, 0xFF, 0xFF, 0xFF, 0xFF, 0x3A, 0x00],
         [0x00, 0x00, 0xBB, 0x80, 0x00, 0x00, 0xE4, 0x56, 0xBF, 0x00, 0xFF, 0xFF, 0xFF, 0x7F, 0x02, 0x01, 0x46, 0x00],
         [0x00, 0x00, 0x00, 0x00, 0x40, 0xB0, 0xAB, 0x1C, 0x1F, 0x00, 0x00, 0x00, 0x08, 0x00, 0x00, 0x00, 0x03, 0xEF],
         [0x0A, 0x00, 0xF9, 0x6D, 0xB4, 0x00, 0xFF, 0xFF, 0xFF, 0x7F, 0x01, 0x01, 0x46, 0x00, 0x00, 0x00, 0x00, 0x00],
         [0x90, 0x86, 0x88, 0x1E, 0x1F, 0x00, 0x00, 0x00, 0x01, 0x00, 0x00, 0x00, 0x03, 0xEF, 0x0A, 0x00, 0xFA, 0x6D],
         [0xB4, 0x00, 0xFF, 0xFF, 0xFF, 0x7F, 0x02, 0x00, 0x46, 0x00, 0x00, 0x00, 0x00, 0x00, 0x18, 0x00, 0x00, 0x00],
         [0x00, 0x00, 0x00, 0x00]])]"

text \<open>\<^verbatim>\<open>test/md_incremental_refresh_trade_summary.cpp\<close>\<close>

definition test_md_incremental_refresh_trade_summary_simple :: bytes where
  "test_md_incremental_refresh_trade_summary_simple = datagram [0x08, 0xB4, 0xEF, 0x03, 0x51, 0x9A, 0x5B, 0x31, 0x4B, 0xCF, 0x48, 0x17]
     [([0x70, 0x00, 0x0B, 0x00, 0x30, 0x00, 0x01, 0x00, 0x09, 0x00], lines_of
        [[0x29, 0xB6, 0x55, 0x31, 0x4B, 0xCF, 0x48, 0x17, 0x01, 0x00, 0x00, 0x20, 0x00, 0x01, 0x5A, 0xE1, 0x6A, 0xAB],
         [0x17, 0x00, 0x00, 0x00, 0x02, 0x00, 0x00, 0x00, 0x5E, 0xAC, 0x0A, 0x00, 0xE7, 0x7C, 0x3E, 0x00, 0x03, 0x00],
         [0x00, 0x00, 0x01, 0x00, 0x76, 0x85, 0x43, 0x04, 0x00, 0x00, 0x10, 0x00, 0x00, 0x00, 0x00, 0x00, 0x00, 0x03],
         [0x92, 0xD1, 0x1E, 0x88, 0xA6, 0x07, 0x00, 0x00, 0x02, 0x00, 0x00, 0x00, 0x00, 0x00, 0x00, 0x00, 0x46, 0xB3],
         [0x1E, 0x88, 0xA6, 0x07, 0x00, 0x00, 0x01, 0x00, 0x00, 0x00, 0x00, 0x00, 0x00, 0x00, 0x64, 0xD1, 0x1E, 0x88],
         [0xA6, 0x07, 0x00, 0x00, 0x01, 0x00, 0x00, 0x00, 0x00, 0x00, 0x00, 0x00]])]"

definition test_md_incremental_refresh_trade_summary_multiple_fills :: bytes where
  "test_md_incremental_refresh_trade_summary_multiple_fills = datagram [0x9C, 0xB4, 0xEF, 0x03, 0x63, 0xDF, 0x87, 0x81, 0x54, 0xCF, 0x48, 0x17]
     [([0x90, 0x00, 0x0B, 0x00, 0x30, 0x00, 0x01, 0x00, 0x09, 0x00], lines_of
        [[0xCB, 0x2C, 0x83, 0x81, 0x54, 0xCF, 0x48, 0x17, 0x01, 0x00, 0x00, 0x20, 0x00, 0x01, 0x5A, 0xE1, 0x6A, 0xAB],
         [0x17, 0x00, 0x00, 0x00, 0x05, 0x00, 0x00, 0x00, 0x5E, 0xAC, 0x0A, 0x00, 0xEE, 0x7C, 0x3E, 0x00, 0x05, 0x00],
         [0x00, 0x00, 0x01, 0x00, 0x7F, 0x85, 0x43, 0x04, 0x00, 0x00, 0x10, 0x00, 0x00, 0x00, 0x00, 0x00, 0x00, 0x05],
         [0xD1, 0xD1, 0x1E, 0x88, 0xA6, 0x07, 0x00, 0x00, 0x05, 0x00, 0x00, 0x00, 0x00, 0x00, 0x00, 0x00, 0xD2, 0xB5],
         [0x1E, 0x88, 0xA6, 0x07, 0x00, 0x00, 0x02, 0x00, 0x00, 0x00, 0x00, 0x00, 0x00, 0x00, 0x64, 0xD1, 0x1E, 0x88],
         [0xA6, 0x07, 0x00, 0x00, 0x01, 0x00, 0x00, 0x00, 0x00, 0x00, 0x00, 0x00, 0xEE, 0xAD, 0x1E, 0x88, 0xA6, 0x07],
         [0x00, 0x00, 0x01, 0x00, 0x00, 0x00, 0x00, 0x00, 0x00, 0x00, 0xB3, 0xD1, 0x1E, 0x88, 0xA6, 0x07, 0x00, 0x00],
         [0x01, 0x00, 0x00, 0x00, 0x00, 0x00, 0x00, 0x00]])]"

definition test_md_incremental_refresh_trade_summary_span_multiple_messages_1 :: bytes where
  "test_md_incremental_refresh_trade_summary_span_multiple_messages_1 = datagram [0x8B, 0x8E, 0xC9, 0x00, 0x39, 0xA8, 0x5E, 0xAC, 0x99, 0x11, 0x4A, 0x17]
     [([0x70, 0x05, 0x0B, 0x00, 0x30, 0x00, 0x01, 0x00, 0x09, 0x00], lines_of
        [[0x59, 0x81, 0x4E, 0xAC, 0x99, 0x11, 0x4A, 0x17, 0x00, 0x00, 0x00, 0x20, 0x00, 0x05, 0x08, 0x07, 0x39, 0xE4],
         [0x19, 0x00, 0x00, 0x00, 0xE8, 0x03, 0x00, 0x00, 0xD6, 0x0D, 0x01, 0x00, 0x80, 0x21, 0x37, 0x00, 0x4F, 0x00],
         [0x00, 0x00, 0x01, 0x00, 0x13, 0x3B, 0x6F, 0x00, 0x00, 0x00, 0xF0, 0x24, 0x2B, 0x20, 0x1D, 0x00, 0x00, 0x00],
         [0x08, 0x00, 0x00, 0x00, 0xC5, 0xFC, 0x01, 0x00, 0x03, 0x0F, 0x28, 0x00, 0x05, 0x00, 0x00, 0x00, 0x00, 0x00],
         [0x14, 0x3B, 0x6F, 0x00, 0x00, 0x00, 0xD8, 0x94, 0x11, 0xFF, 0xFF, 0xFF, 0xFF, 0xFF, 0x08, 0x00, 0x00, 0x00],
         [0x3B, 0x76, 0x00, 0x00, 0xC2, 0x8D, 0x34, 0x00, 0x03, 0x00, 0x00, 0x00, 0x00, 0x00, 0x15, 0x3B, 0x6F, 0x00],
         [0x00, 0x00, 0x20, 0x4C, 0x91, 0x32, 0x1B, 0x00, 0x00, 0x00, 0x0C, 0x00, 0x00, 0x00, 0xB1, 0xEC, 0x06, 0x00],
         [0x83, 0x72, 0x27, 0x00, 0x05, 0x00, 0x00, 0x00, 0x00, 0x00, 0x16, 0x3B, 0x6F, 0x00, 0x00, 0x00, 0xA0, 0xAC],
         [0xB9, 0x03, 0x00, 0x00, 0x00, 0x00, 0x0C, 0x00, 0x00, 0x00, 0xB7, 0x74, 0x00, 0x00, 0x7F, 0x3F, 0x41, 0x00],
         [0x06, 0x00, 0x00, 0x00, 0x00, 0x00, 0x17, 0x3B, 0x6F, 0x00, 0x00, 0x00, 0x10, 0x00, 0x00, 0x00, 0x00, 0x00],
         [0x00, 0x4B, 0xF4, 0x05, 0xD5, 0x88, 0xA6, 0x07, 0x00, 0x00, 0xE8, 0x03, 0x00, 0x00, 0x00, 0x00, 0x00, 0x00],
         [0x23, 0x4C, 0xD4, 0x88, 0xA6, 0x07, 0x00, 0x00, 0x24, 0x00, 0x00, 0x00, 0x00, 0x00, 0x00, 0x00, 0x29, 0x4C],
         [0xD4, 0x88, 0xA6, 0x07, 0x00, 0x00, 0x01, 0x00, 0x00, 0x00, 0x00, 0x00, 0x00, 0x00, 0x2B, 0x4C, 0xD4, 0x88],
         [0xA6, 0x07, 0x00, 0x00, 0x01, 0x00, 0x00, 0x00, 0x00, 0x00, 0x00, 0x00, 0x33, 0x4C, 0xD4, 0x88, 0xA6, 0x07],
         [0x00, 0x00, 0x01, 0x00, 0x00, 0x00, 0x00, 0x00, 0x00, 0x00, 0x3E, 0x4C, 0xD4, 0x88, 0xA6, 0x07, 0x00, 0x00],
         [0x01, 0x00, 0x00, 0x00, 0x00, 0x00, 0x00, 0x00, 0x40, 0x4C, 0xD4, 0x88, 0xA6, 0x07, 0x00, 0x00, 0x01, 0x00],
         [0x00, 0x00, 0x00, 0x00, 0x00, 0x00, 0x41, 0x4C, 0xD4, 0x88, 0xA6, 0x07, 0x00, 0x00, 0x01, 0x00, 0x00, 0x00],
         [0x00, 0x00, 0x00, 0x00, 0x46, 0x4C, 0xD4, 0x88, 0xA6, 0x07, 0x00, 0x00, 0x01, 0x00, 0x00, 0x00, 0x00, 0x00],
         [0x00, 0x00, 0x70, 0x4C, 0xD4, 0x88, 0xA6, 0x07, 0x00, 0x00, 0x02, 0x00, 0x00, 0x00, 0x00, 0x00, 0x00, 0x00],
         [0x87, 0x4C, 0xD4, 0x88, 0xA6, 0x07, 0x00, 0x00, 0x01, 0x00, 0x00, 0x00, 0x00, 0x00, 0x00, 0x00, 0x98, 0x4C],
         [0xD4, 0x88, 0xA6, 0x07, 0x00, 0x00, 0x1A, 0x00, 0x00, 0x00, 0x00, 0x00, 0x00, 0x00, 0x99, 0x4C, 0xD4, 0x88],
         [0xA6, 0x07, 0x00, 0x00, 0x31, 0x00, 0x00, 0x00, 0x00, 0x00, 0x00, 0x00, 0xCD, 0x3F, 0xD4, 0x88, 0xA6, 0x07],
         [0x00, 0x00, 0x08, 0x00, 0x00, 0x00, 0x00, 0x00, 0x00, 0x00, 0xED, 0x4C, 0xD4, 0x88, 0xA6, 0x07, 0x00, 0x00],
         [0x01, 0x00, 0x00, 0x00, 0x00, 0x00, 0x00, 0x00, 0x88, 0x3D, 0xD4, 0x88, 0xA6, 0x07, 0x00, 0x00, 0x0C, 0x00],
         [0x00, 0x00, 0x00, 0x00, 0x00, 0x00, 0xFC, 0x4C, 0xD4, 0x88, 0xA6, 0x07, 0x00, 0x00, 0x01, 0x00, 0x00, 0x00],
         [0x00, 0x00, 0x00, 0x00, 0x04, 0x4D, 0xD4, 0x88, 0xA6, 0x07, 0x00, 0x00, 0x17, 0x00, 0x00, 0x00, 0x00, 0x00],
         [0x00, 0x00, 0xFE, 0x4C, 0xD4, 0x88, 0xA6, 0x07, 0x00, 0x00, 0x09, 0x00, 0x00, 0x00, 0x00, 0x00, 0x00, 0x00],
         [0x38, 0x4D, 0xD4, 0x88, 0xA6, 0x07, 0x00, 0x00, 0x01, 0x00, 0x00, 0x00, 0x00, 0x00, 0x00, 0x00, 0x45, 0x4D],
         [0xD4, 0x88, 0xA6, 0x07, 0x00, 0x00, 0x28, 0x00, 0x00, 0x00, 0x00, 0x00, 0x00, 0x00, 0x46, 0x4D, 0xD4, 0x88],
         [0xA6, 0x07, 0x00, 0x00, 0x01, 0x00, 0x00, 0x00, 0x00, 0x00, 0x00, 0x00, 0x4C, 0x4D, 0xD4, 0x88, 0xA6, 0x07],
         [0x00, 0x00, 0x01, 0x00, 0x00, 0x00, 0x00, 0x00, 0x00, 0x00, 0x12, 0x4D, 0xD4, 0x88, 0xA6, 0x07, 0x00, 0x00],
         [0x0D, 0x00, 0x00, 0x00, 0x00, 0x00, 0x00, 0x00, 0x3F, 0x0C, 0xD4, 0x88, 0xA6, 0x07, 0x00, 0x00, 0x18, 0x00],
         [0x00, 0x00, 0x00, 0x00, 0x00, 0x00, 0x7C, 0x4D, 0xD4, 0x88, 0xA6, 0x07, 0x00, 0x00, 0x38, 0x00, 0x00, 0x00],
         [0x00, 0x00, 0x00, 0x00, 0x95, 0x4E, 0xD4, 0x88, 0xA6, 0x07, 0x00, 0x00, 0x01, 0x00, 0x00, 0x00, 0x00, 0x00],
         [0x00, 0x00, 0x96, 0x4E, 0xD4, 0x88, 0xA6, 0x07, 0x00, 0x00, 0x19, 0x00, 0x00, 0x00, 0x00, 0x00, 0x00, 0x00],
         [0x82, 0x52, 0xD4, 0x88, 0xA6, 0x07, 0x00, 0x00, 0x11, 0x00, 0x00, 0x00, 0x00, 0x00, 0x00, 0x00, 0xBD, 0x54],
         [0xD4, 0x88, 0xA6, 0x07, 0x00, 0x00, 0x27, 0x00, 0x00, 0x00, 0x00, 0x00, 0x00, 0x00, 0x8D, 0x5B, 0xD4, 0x88],
         [0xA6, 0x07, 0x00, 0x00, 0x02, 0x00, 0x00, 0x00, 0x00, 0x00, 0x00, 0x00, 0xAB, 0x5D, 0xD4, 0x88, 0xA6, 0x07],
         [0x00, 0x00, 0x02, 0x00, 0x00, 0x00, 0x00, 0x00, 0x00, 0x00, 0x16, 0x61, 0xD4, 0x88, 0xA6, 0x07, 0x00, 0x00],
         [0x01, 0x00, 0x00, 0x00, 0x00, 0x00, 0x00, 0x00, 0x31, 0x62, 0xD4, 0x88, 0xA6, 0x07, 0x00, 0x00, 0x32, 0x00],
         [0x00, 0x00, 0x00, 0x00, 0x00, 0x00, 0x78, 0x62, 0xD4, 0x88, 0xA6, 0x07, 0x00, 0x00, 0x01, 0x00, 0x00, 0x00],
         [0x00, 0x00, 0x00, 0x00, 0xA5, 0x63, 0xD4, 0x88, 0xA6, 0x07, 0x00, 0x00, 0x01, 0x00, 0x00, 0x00, 0x00, 0x00],
         [0x00, 0x00, 0x59, 0x65, 0xD4, 0x88, 0xA6, 0x07, 0x00, 0x00, 0x02, 0x00, 0x00, 0x00, 0x00, 0x00, 0x00, 0x00],
         [0x9E, 0x67, 0xD4, 0x88, 0xA6, 0x07, 0x00, 0x00, 0x02, 0x00, 0x00, 0x00, 0x00, 0x00, 0x00, 0x00, 0x35, 0x6E],
         [0xD4, 0x88, 0xA6, 0x07, 0x00, 0x00, 0x01, 0x00, 0x00, 0x00, 0x00, 0x00, 0x00, 0x00, 0x3B, 0x72, 0xD4, 0x88],
         [0xA6, 0x07, 0x00, 0x00, 0x02, 0x00, 0x00, 0x00, 0x00, 0x00, 0x00, 0x00, 0xBC, 0x76, 0xD4, 0x88, 0xA6, 0x07],
         [0x00, 0x00, 0x04, 0x00, 0x00, 0x00, 0x00, 0x00, 0x00, 0x00, 0x7D, 0x80, 0xD4, 0x88, 0xA6, 0x07, 0x00, 0x00],
         [0x04, 0x00, 0x00, 0x00, 0x00, 0x00, 0x00, 0x00, 0x8C, 0x80, 0xD4, 0x88, 0xA6, 0x07, 0x00, 0x00, 0x01, 0x00],
         [0x00, 0x00, 0x00, 0x00, 0x00, 0x00, 0x26, 0x83, 0xD4, 0x88, 0xA6, 0x07, 0x00, 0x00, 0x05, 0x00, 0x00, 0x00],
         [0x00, 0x00, 0x00, 0x00, 0x8A, 0x87, 0xD4, 0x88, 0xA6, 0x07, 0x00, 0x00, 0x1E, 0x00, 0x00, 0x00, 0x00, 0x00],
         [0x00, 0x00, 0x6D, 0x9F, 0xD4, 0x88, 0xA6, 0x07, 0x00, 0x00, 0x01, 0x00, 0x00, 0x00, 0x00, 0x00, 0x00, 0x00],
         [0x2D, 0xAA, 0xD4, 0x88, 0xA6, 0x07, 0x00, 0x00, 0x0A, 0x00, 0x00, 0x00, 0x00, 0x00, 0x00, 0x00, 0x39, 0xAA],
         [0xD4, 0x88, 0xA6, 0x07, 0x00, 0x00, 0x0A, 0x00, 0x00, 0x00, 0x00, 0x00, 0x00, 0x00, 0x55, 0xAA, 0xD4, 0x88],
         [0xA6, 0x07, 0x00, 0x00, 0x0A, 0x00, 0x00, 0x00, 0x00, 0x00, 0x00, 0x00, 0x62, 0xAB, 0xD4, 0x88, 0xA6, 0x07],
         [0x00, 0x00, 0x0A, 0x00, 0x00, 0x00, 0x00, 0x00, 0x00, 0x00, 0xBC, 0xAB, 0xD4, 0x88, 0xA6, 0x07, 0x00, 0x00],
         [0x07, 0x00, 0x00, 0x00, 0x00, 0x00, 0x00, 0x00, 0xDD, 0xAB, 0xD4, 0x88, 0xA6, 0x07, 0x00, 0x00, 0x02, 0x00],
         [0x00, 0x00, 0x00, 0x00, 0x00, 0x00, 0x2A, 0xB0, 0xD4, 0x88, 0xA6, 0x07, 0x00, 0x00, 0x29, 0x00, 0x00, 0x00],
         [0x00, 0x00, 0x00, 0x00, 0xCC, 0xB0, 0xD4, 0x88, 0xA6, 0x07, 0x00, 0x00, 0x01, 0x00, 0x00, 0x00, 0x00, 0x00],
         [0x00, 0x00, 0x7E, 0xCC, 0xD4, 0x88, 0xA6, 0x07, 0x00, 0x00, 0x02, 0x00, 0x00, 0x00, 0x00, 0x00, 0x00, 0x00],
         [0x2D, 0xE1, 0xD4, 0x88, 0xA6, 0x07, 0x00, 0x00, 0x02, 0x00, 0x00, 0x00, 0x00, 0x00, 0x00, 0x00, 0x2F, 0xE1],
         [0xD4, 0x88, 0xA6, 0x07, 0x00, 0x00, 0x05, 0x00, 0x00, 0x00, 0x00, 0x00, 0x00, 0x00, 0x33, 0xE1, 0xD4, 0x88],
         [0xA6, 0x07, 0x00, 0x00, 0x02, 0x00, 0x00, 0x00, 0x00, 0x00, 0x00, 0x00, 0x1E, 0xE2, 0xD4, 0x88, 0xA6, 0x07],
         [0x00, 0x00, 0x19, 0x00, 0x00, 0x00, 0x00, 0x00, 0x00, 0x00, 0x0D, 0xE3, 0xD4, 0x88, 0xA6, 0x07, 0x00, 0x00],
         [0x02, 0x00, 0x00, 0x00, 0x00, 0x00, 0x00, 0x00, 0x8A, 0xE4, 0xD4, 0x88, 0xA6, 0x07, 0x00, 0x00, 0x03, 0x00],
         [0x00, 0x00, 0x00, 0x00, 0x00, 0x00, 0xAD, 0xE8, 0xD4, 0x88, 0xA6, 0x07, 0x00, 0x00, 0x01, 0x00, 0x00, 0x00],
         [0x00, 0x00, 0x00, 0x00, 0xBD, 0xED, 0xD4, 0x88, 0xA6, 0x07, 0x00, 0x00, 0x32, 0x00, 0x00, 0x00, 0x00, 0x00],
         [0x00, 0x00, 0x38, 0xF0, 0xD4, 0x88, 0xA6, 0x07, 0x00, 0x00, 0x65, 0x00, 0x00, 0x00, 0x00, 0x00, 0x00, 0x00],
         [0x39, 0xF0, 0xD4, 0x88, 0xA6, 0x07, 0x00, 0x00, 0x01, 0x00, 0x00, 0x00, 0x00, 0x00, 0x00, 0x00, 0xA6, 0xF3],
         [0xD4, 0x88, 0xA6, 0x07, 0x00, 0x00, 0x05, 0x00, 0x00, 0x00, 0x00, 0x00, 0x00, 0x00, 0x4E, 0xF6, 0xD4, 0x88],
         [0xA6, 0x07, 0x00, 0x00, 0x01, 0x00, 0x00, 0x00, 0x00, 0x00, 0x00, 0x00, 0xCD, 0xF9, 0xD4, 0x88, 0xA6, 0x07],
         [0x00, 0x00, 0x2D, 0x00, 0x00, 0x00, 0x00, 0x00, 0x00, 0x00, 0x0F, 0x01, 0xD5, 0x88, 0xA6, 0x07, 0x00, 0x00],
         [0x32, 0x00, 0x00, 0x00, 0x00, 0x00, 0x00, 0x00, 0x4D, 0x01, 0xD5, 0x88, 0xA6, 0x07, 0x00, 0x00, 0x01, 0x00],
         [0x00, 0x00, 0x00, 0x00, 0x00, 0x00, 0x9C, 0x02, 0xD5, 0x88, 0xA6, 0x07, 0x00, 0x00, 0x01, 0x00, 0x00, 0x00],
         [0x00, 0x00, 0x00, 0x00, 0xE9, 0x02, 0xD5, 0x88, 0xA6, 0x07, 0x00, 0x00, 0x24, 0x00, 0x00, 0x00, 0x00, 0x00],
         [0x00, 0x00, 0x03, 0x03, 0xD5, 0x88, 0xA6, 0x07, 0x00, 0x00, 0x02, 0x00, 0x00, 0x00, 0x00, 0x00, 0x00, 0x00],
         [0x05, 0x03, 0xD5, 0x88, 0xA6, 0x07, 0x00, 0x00, 0x02, 0x00, 0x00, 0x00, 0x00, 0x00, 0x00, 0x00, 0x3C, 0x03],
         [0xD5, 0x88, 0xA6, 0x07, 0x00, 0x00, 0x04, 0x00, 0x00, 0x00, 0x00, 0x00, 0x00, 0x00]])]"

definition test_md_incremental_refresh_trade_summary_span_multiple_messages_2 :: bytes where
  "test_md_incremental_refresh_trade_summary_span_multiple_messages_2 = datagram [0x8C, 0x8E, 0xC9, 0x00, 0x10, 0x07, 0x5F, 0xAC, 0x99, 0x11, 0x4A, 0x17]
     [([0x90, 0x01, 0x0B, 0x00, 0x30, 0x00, 0x01, 0x00, 0x09, 0x00], lines_of
        [[0x59, 0x81, 0x4E, 0xAC, 0x99, 0x11, 0x4A, 0x17, 0x01, 0x00, 0x00, 0x20, 0x00, 0x00, 0x10, 0x00, 0x00, 0x00],
         [0x00, 0x00, 0x00, 0x17, 0x8F, 0x03, 0xD5, 0x88, 0xA6, 0x07, 0x00, 0x00, 0x03, 0x00, 0x00, 0x00, 0x00, 0x00],
         [0x00, 0x00, 0xED, 0x04, 0xD5, 0x88, 0xA6, 0x07, 0x00, 0x00, 0x01, 0x00, 0x00, 0x00, 0x00, 0x00, 0x00, 0x00],
         [0x92, 0x05, 0xD5, 0x88, 0xA6, 0x07, 0x00, 0x00, 0x05, 0x00, 0x00, 0x00, 0x00, 0x00, 0x00, 0x00, 0x93, 0x05],
         [0xD5, 0x88, 0xA6, 0x07, 0x00, 0x00, 0x11, 0x00, 0x00, 0x00, 0x00, 0x00, 0x00, 0x00, 0xA0, 0x05, 0xD5, 0x88],
         [0xA6, 0x07, 0x00, 0x00, 0x01, 0x00, 0x00, 0x00, 0x00, 0x00, 0x00, 0x00, 0xD4, 0x05, 0xD5, 0x88, 0xA6, 0x07],
         [0x00, 0x00, 0x02, 0x00, 0x00, 0x00, 0x00, 0x00, 0x00, 0x00, 0xD5, 0x05, 0xD5, 0x88, 0xA6, 0x07, 0x00, 0x00],
         [0x03, 0x00, 0x00, 0x00, 0x00, 0x00, 0x00, 0x00, 0xF1, 0x05, 0xD5, 0x88, 0xA6, 0x07, 0x00, 0x00, 0x01, 0x00],
         [0x00, 0x00, 0x00, 0x00, 0x00, 0x00, 0xF2, 0x05, 0xD5, 0x88, 0xA6, 0x07, 0x00, 0x00, 0x01, 0x00, 0x00, 0x00],
         [0x00, 0x00, 0x00, 0x00, 0x50, 0x1F, 0xD4, 0x88, 0xA6, 0x07, 0x00, 0x00, 0x04, 0x00, 0x00, 0x00, 0x00, 0x00],
         [0x00, 0x00, 0x52, 0x1F, 0xD4, 0x88, 0xA6, 0x07, 0x00, 0x00, 0x03, 0x00, 0x00, 0x00, 0x00, 0x00, 0x00, 0x00],
         [0x54, 0x1F, 0xD4, 0x88, 0xA6, 0x07, 0x00, 0x00, 0x01, 0x00, 0x00, 0x00, 0x00, 0x00, 0x00, 0x00, 0x7E, 0xF2],
         [0xD4, 0x88, 0xA6, 0x07, 0x00, 0x00, 0x03, 0x00, 0x00, 0x00, 0x00, 0x00, 0x00, 0x00, 0x7F, 0xF2, 0xD4, 0x88],
         [0xA6, 0x07, 0x00, 0x00, 0x03, 0x00, 0x00, 0x00, 0x00, 0x00, 0x00, 0x00, 0x80, 0xF2, 0xD4, 0x88, 0xA6, 0x07],
         [0x00, 0x00, 0x02, 0x00, 0x00, 0x00, 0x00, 0x00, 0x00, 0x00, 0x81, 0xF2, 0xD4, 0x88, 0xA6, 0x07, 0x00, 0x00],
         [0x03, 0x00, 0x00, 0x00, 0x00, 0x00, 0x00, 0x00, 0x4D, 0xE4, 0xD4, 0x88, 0xA6, 0x07, 0x00, 0x00, 0x01, 0x00],
         [0x00, 0x00, 0x00, 0x00, 0x00, 0x00, 0x25, 0x98, 0xCE, 0x88, 0xA6, 0x07, 0x00, 0x00, 0x01, 0x00, 0x00, 0x00],
         [0x00, 0x00, 0x00, 0x00, 0x75, 0x98, 0xCE, 0x88, 0xA6, 0x07, 0x00, 0x00, 0x03, 0x00, 0x00, 0x00, 0x00, 0x00],
         [0x00, 0x00, 0xE6, 0x98, 0xCE, 0x88, 0xA6, 0x07, 0x00, 0x00, 0x03, 0x00, 0x00, 0x00, 0x00, 0x00, 0x00, 0x00],
         [0x2C, 0xA1, 0xCE, 0x88, 0xA6, 0x07, 0x00, 0x00, 0x02, 0x00, 0x00, 0x00, 0x00, 0x00, 0x00, 0x00, 0x54, 0xA1],
         [0xCE, 0x88, 0xA6, 0x07, 0x00, 0x00, 0x02, 0x00, 0x00, 0x00, 0x00, 0x00, 0x00, 0x00, 0x7C, 0xA1, 0xCE, 0x88],
         [0xA6, 0x07, 0x00, 0x00, 0x01, 0x00, 0x00, 0x00, 0x00, 0x00, 0x00, 0x00]])]"

text \<open>\<^verbatim>\<open>test/snapshot_full_refresh.cpp\<close>\<close>

definition test_snapshot_full_refresh_simple :: bytes where
  "test_snapshot_full_refresh_simple = datagram [0x08, 0x00, 0x00, 0x00, 0x6B, 0x26, 0xAB, 0xA0, 0x43, 0xCF, 0x48, 0x17]
     [([0x84, 0x02, 0x3B, 0x00, 0x34, 0x00, 0x01, 0x00, 0x09, 0x00], lines_of
        [[0xCD, 0xB3, 0xEF, 0x03, 0x27, 0x01, 0x00, 0x00, 0xB8, 0x25, 0x00, 0x00, 0xED, 0x20, 0x43, 0x00, 0x8B, 0xFD],
         [0x53, 0x4D, 0x42, 0xCF, 0x48, 0x17, 0x91, 0x83, 0x59, 0x22, 0x70, 0xB3, 0x48, 0x17, 0xDB, 0x4B, 0x11, 0xFF],
         [0xFF, 0xFF, 0xFF, 0xFF, 0xFF, 0xFF, 0x7F, 0xFF, 0xFF, 0xFF, 0xFF, 0xFF, 0xFF, 0xFF, 0x7F, 0x00, 0x65, 0xCD],
         [0x1D, 0x00, 0x00, 0x00, 0x00, 0x16, 0x00, 0x1A, 0xD8, 0x94, 0x11, 0xFF, 0xFF, 0xFF, 0xFF, 0xFF, 0x08, 0x00],
         [0x00, 0x00, 0x01, 0x00, 0x00, 0x00, 0x01, 0xFF, 0xFF, 0xFF, 0x80, 0x30, 0x44, 0x5F, 0x9A, 0xFE, 0xFF, 0xFF],
         [0xFF, 0xFF, 0x10, 0x00, 0x00, 0x00, 0x02, 0x00, 0x00, 0x00, 0x02, 0xFF, 0xFF, 0xFF, 0x80, 0x30, 0xB0, 0x29],
         [0x23, 0xFE, 0xFF, 0xFF, 0xFF, 0xFF, 0x14, 0x00, 0x00, 0x00, 0x04, 0x00, 0x00, 0x00, 0x03, 0xFF, 0xFF, 0xFF],
         [0x80, 0x30, 0x1C, 0xF4, 0xAB, 0xFD, 0xFF, 0xFF, 0xFF, 0xFF, 0x25, 0x00, 0x00, 0x00, 0x05, 0x00, 0x00, 0x00],
         [0x04, 0xFF, 0xFF, 0xFF, 0x80, 0x30, 0x88, 0xBE, 0x34, 0xFD, 0xFF, 0xFF, 0xFF, 0xFF, 0x1F, 0x00, 0x00, 0x00],
         [0x04, 0x00, 0x00, 0x00, 0x05, 0xFF, 0xFF, 0xFF, 0x80, 0x30, 0xF4, 0x88, 0xBD, 0xFC, 0xFF, 0xFF, 0xFF, 0xFF],
         [0x1F, 0x00, 0x00, 0x00, 0x04, 0x00, 0x00, 0x00, 0x06, 0xFF, 0xFF, 0xFF, 0x80, 0x30, 0x60, 0x53, 0x46, 0xFC],
         [0xFF, 0xFF, 0xFF, 0xFF, 0x0D, 0x00, 0x00, 0x00, 0x02, 0x00, 0x00, 0x00, 0x07, 0xFF, 0xFF, 0xFF, 0x80, 0x30],
         [0xCC, 0x1D, 0xCF, 0xFB, 0xFF, 0xFF, 0xFF, 0xFF, 0x0D, 0x00, 0x00, 0x00, 0x02, 0x00, 0x00, 0x00, 0x08, 0xFF],
         [0xFF, 0xFF, 0x80, 0x30, 0x38, 0xE8, 0x57, 0xFB, 0xFF, 0xFF, 0xFF, 0xFF, 0x0D, 0x00, 0x00, 0x00, 0x02, 0x00],
         [0x00, 0x00, 0x09, 0xFF, 0xFF, 0xFF, 0x80, 0x30, 0x00, 0x00, 0x00, 0x00, 0x00, 0x00, 0x00, 0x00, 0x08, 0x00],
         [0x00, 0x00, 0x01, 0x00, 0x00, 0x00, 0x01, 0xFF, 0xFF, 0xFF, 0x80, 0x31, 0x94, 0x35, 0x77, 0x00, 0x00, 0x00],
         [0x00, 0x00, 0x12, 0x00, 0x00, 0x00, 0x03, 0x00, 0x00, 0x00, 0x02, 0xFF, 0xFF, 0xFF, 0x80, 0x31, 0x28, 0x6B],
         [0xEE, 0x00, 0x00, 0x00, 0x00, 0x00, 0x17, 0x00, 0x00, 0x00, 0x04, 0x00, 0x00, 0x00, 0x03, 0xFF, 0xFF, 0xFF],
         [0x80, 0x31, 0xBC, 0xA0, 0x65, 0x01, 0x00, 0x00, 0x00, 0x00, 0x2A, 0x00, 0x00, 0x00, 0x06, 0x00, 0x00, 0x00],
         [0x04, 0xFF, 0xFF, 0xFF, 0x80, 0x31, 0x50, 0xD6, 0xDC, 0x01, 0x00, 0x00, 0x00, 0x00, 0x1F, 0x00, 0x00, 0x00],
         [0x04, 0x00, 0x00, 0x00, 0x05, 0xFF, 0xFF, 0xFF, 0x80, 0x31, 0xE4, 0x0B, 0x54, 0x02, 0x00, 0x00, 0x00, 0x00],
         [0x1F, 0x00, 0x00, 0x00, 0x04, 0x00, 0x00, 0x00, 0x06, 0xFF, 0xFF, 0xFF, 0x80, 0x31, 0x78, 0x41, 0xCB, 0x02],
         [0x00, 0x00, 0x00, 0x00, 0x0D, 0x00, 0x00, 0x00, 0x02, 0x00, 0x00, 0x00, 0x07, 0xFF, 0xFF, 0xFF, 0x80, 0x31],
         [0x0C, 0x77, 0x42, 0x03, 0x00, 0x00, 0x00, 0x00, 0x08, 0x00, 0x00, 0x00, 0x01, 0x00, 0x00, 0x00, 0x08, 0xFF],
         [0xFF, 0xFF, 0x80, 0x31, 0xA0, 0xAC, 0xB9, 0x03, 0x00, 0x00, 0x00, 0x00, 0x08, 0x00, 0x00, 0x00, 0x01, 0x00],
         [0x00, 0x00, 0x09, 0xFF, 0xFF, 0xFF, 0x80, 0x31, 0x34, 0xE2, 0x30, 0x04, 0x00, 0x00, 0x00, 0x00, 0x08, 0x00],
         [0x00, 0x00, 0x01, 0x00, 0x00, 0x00, 0x0A, 0xFF, 0xFF, 0xFF, 0x80, 0x31, 0x44, 0x5F, 0x9A, 0xFE, 0xFF, 0xFF],
         [0xFF, 0xFF, 0x11, 0x00, 0x00, 0x00, 0xFF, 0xFF, 0xFF, 0x7F, 0x01, 0xFF, 0xFF, 0xFF, 0x80, 0x45, 0xB0, 0x29],
         [0x23, 0xFE, 0xFF, 0xFF, 0xFF, 0xFF, 0x1B, 0x00, 0x00, 0x00, 0xFF, 0xFF, 0xFF, 0x7F, 0x02, 0xFF, 0xFF, 0xFF],
         [0x80, 0x45, 0x28, 0x6B, 0xEE, 0x00, 0x00, 0x00, 0x00, 0x00, 0x0D, 0x00, 0x00, 0x00, 0xFF, 0xFF, 0xFF, 0x7F],
         [0x01, 0xFF, 0xFF, 0xFF, 0x80, 0x46, 0xBC, 0xA0, 0x65, 0x01, 0x00, 0x00, 0x00, 0x00, 0x1F, 0x00, 0x00, 0x00],
         [0xFF, 0xFF, 0xFF, 0x7F, 0x02, 0xFF, 0xFF, 0xFF, 0x80, 0x46, 0x94, 0x35, 0x77, 0x00, 0x00, 0x00, 0x00, 0x00],
         [0xFF, 0xFF, 0xFF, 0x7F, 0xFF, 0xFF, 0xFF, 0x7F, 0x7F, 0xFF, 0xFF, 0xFF, 0x80, 0x4E, 0x00, 0x00, 0x00, 0x00],
         [0x00, 0x00, 0x00, 0x00, 0xFF, 0xFF, 0xFF, 0x7F, 0xFF, 0xFF, 0xFF, 0x7F, 0x7F, 0xFF, 0xFF, 0xFF, 0x80, 0x4F],
         [0x00, 0x00, 0x00, 0x00, 0x00, 0x00, 0x00, 0x00, 0xFF, 0xFF, 0xFF, 0x7F, 0xFF, 0xFF, 0xFF, 0x7F, 0x7F, 0xDA],
         [0x4B, 0xFF, 0x03, 0x36]]),
      ([0xB6, 0x00, 0x3B, 0x00, 0x34, 0x00, 0x01, 0x00, 0x09, 0x00], lines_of
        [[0xCD, 0xB3, 0xEF, 0x03, 0x27, 0x01, 0x00, 0x00, 0xEE, 0x25, 0x00, 0x00, 0x70, 0x5C, 0x0A, 0x00, 0x3B, 0x44],
         [0xA1, 0x2C, 0x42, 0xCF, 0x48, 0x17, 0x91, 0x83, 0x59, 0x22, 0x70, 0xB3, 0x48, 0x17, 0xDB, 0x4B, 0x11, 0xFF],
         [0xFF, 0xFF, 0xFF, 0xFF, 0xFF, 0xFF, 0x7F, 0xFF, 0xFF, 0xFF, 0xFF, 0xFF, 0xFF, 0xFF, 0x7F, 0x00, 0x65, 0xCD],
         [0x1D, 0x00, 0x00, 0x00, 0x00, 0x16, 0x00, 0x05, 0x88, 0xBE, 0x34, 0xFD, 0xFF, 0xFF, 0xFF, 0xFF, 0x01, 0x00],
         [0x00, 0x00, 0xFF, 0xFF, 0xFF, 0x7F, 0x01, 0xFF, 0xFF, 0xFF, 0x80, 0x45, 0x2A, 0xEE, 0x81, 0xFC, 0xFF, 0xFF],
         [0xFF, 0xFF, 0x01, 0x00, 0x00, 0x00, 0xFF, 0xFF, 0xFF, 0x7F, 0x02, 0xFF, 0xFF, 0xFF, 0x80, 0x45, 0x5C, 0x4D],
         [0x1F, 0x05, 0x00, 0x00, 0x00, 0x00, 0x01, 0x00, 0x00, 0x00, 0xFF, 0xFF, 0xFF, 0x7F, 0x01, 0xFF, 0xFF, 0xFF],
         [0x80, 0x46, 0xE2, 0x88, 0xC0, 0x06, 0x00, 0x00, 0x00, 0x00, 0x01, 0x00, 0x00, 0x00, 0xFF, 0xFF, 0xFF, 0x7F],
         [0x02, 0xFF, 0xFF, 0xFF, 0x80, 0x46, 0x00, 0x00, 0x00, 0x00, 0x00, 0x00, 0x00, 0x00, 0xFF, 0xFF, 0xFF, 0x7F],
         [0xFF, 0xFF, 0xFF, 0x7F, 0x7F, 0xDA, 0x4B, 0xFF, 0x03, 0x36]]),
      ([0xB6, 0x00, 0x3B, 0x00, 0x34, 0x00, 0x01, 0x00, 0x09, 0x00], lines_of
        [[0xCD, 0xB3, 0xEF, 0x03, 0x27, 0x01, 0x00, 0x00, 0x6C, 0x26, 0x00, 0x00, 0x14, 0x7B, 0x07, 0x00, 0x51, 0x51],
         [0x7C, 0x0F, 0x41, 0xCF, 0x48, 0x17, 0x91, 0x83, 0x59, 0x22, 0x70, 0xB3, 0x48, 0x17, 0xDB, 0x4B, 0x11, 0xFF],
         [0xFF, 0xFF, 0xFF, 0xFF, 0xFF, 0xFF, 0x7F, 0xFF, 0xFF, 0xFF, 0xFF, 0xFF, 0xFF, 0xFF, 0x7F, 0x80, 0xB2, 0xE6],
         [0x0E, 0x00, 0x00, 0x00, 0x00, 0x16, 0x00, 0x05, 0x46, 0x7D, 0x60, 0xDC, 0xFF, 0xFF, 0xFF, 0xFF, 0x02, 0x00],
         [0x00, 0x00, 0xFF, 0xFF, 0xFF, 0x7F, 0x01, 0xFF, 0xFF, 0xFF, 0x80, 0x45, 0x7C, 0xE2, 0x24, 0xDC, 0xFF, 0xFF],
         [0xFF, 0xFF, 0x02, 0x00, 0x00, 0x00, 0xFF, 0xFF, 0xFF, 0x7F, 0x02, 0xFF, 0xFF, 0xFF, 0x80, 0x45, 0x02, 0x83],
         [0x93, 0xFB, 0xFF, 0xFF, 0xFF, 0xFF, 0x01, 0x00, 0x00, 0x00, 0xFF, 0xFF, 0xFF, 0x7F, 0x01, 0xFF, 0xFF, 0xFF],
         [0x80, 0x46, 0xCC, 0x1D, 0xCF, 0xFB, 0xFF, 0xFF, 0xFF, 0xFF, 0x01, 0x00, 0x00, 0x00, 0xFF, 0xFF, 0xFF, 0x7F],
         [0x02, 0xFF, 0xFF, 0xFF, 0x80, 0x46, 0x00, 0x00, 0x00, 0x00, 0x00, 0x00, 0x00, 0x00, 0xFF, 0xFF, 0xFF, 0x7F],
         [0xFF, 0xFF, 0xFF, 0x7F, 0x7F, 0xDA, 0x4B, 0xFF, 0x03, 0x36]]),
      ([0x5E, 0x00, 0x3B, 0x00, 0x34, 0x00, 0x01, 0x00, 0x09, 0x00], lines_of
        [[0xCD, 0xB3, 0xEF, 0x03, 0x27, 0x01, 0x00, 0x00, 0x99, 0x26, 0x00, 0x00, 0x1F, 0x17, 0x03, 0x00, 0xF7, 0xA9],
         [0x27, 0x0C, 0x5B, 0xBF, 0x48, 0x17, 0x91, 0x83, 0x59, 0x22, 0x70, 0xB3, 0x48, 0x17, 0xDB, 0x4B, 0x11, 0xFF],
         [0xFF, 0xFF, 0xFF, 0xFF, 0xFF, 0xFF, 0x7F, 0xFF, 0xFF, 0xFF, 0xFF, 0xFF, 0xFF, 0xFF, 0x7F, 0x00, 0xA8, 0x9C],
         [0x13, 0x46, 0x02, 0x00, 0x00, 0x16, 0x00, 0x01, 0x00, 0x1C, 0xC0, 0x2E, 0x9A, 0x19, 0x00, 0x00, 0xFF, 0xFF],
         [0xFF, 0x7F, 0xFF, 0xFF, 0xFF, 0x7F, 0x7F, 0xDA, 0x4B, 0xFF, 0x03, 0x36]]),
      ([0xB6, 0x00, 0x3B, 0x00, 0x34, 0x00, 0x01, 0x00, 0x09, 0x00], lines_of
        [[0xCD, 0xB3, 0xEF, 0x03, 0x27, 0x01, 0x00, 0x00, 0xA6, 0x26, 0x00, 0x00, 0x7A, 0x6D, 0x08, 0x00, 0x51, 0x51],
         [0x7C, 0x0F, 0x41, 0xCF, 0x48, 0x17, 0x91, 0x83, 0x59, 0x22, 0x70, 0xB3, 0x48, 0x17, 0xDB, 0x4B, 0x11, 0xFF],
         [0xFF, 0xFF, 0xFF, 0xFF, 0xFF, 0xFF, 0x7F, 0xFF, 0xFF, 0xFF, 0xFF, 0xFF, 0xFF, 0xFF, 0x7F, 0x80, 0xB2, 0xE6],
         [0x0E, 0x00, 0x00, 0x00, 0x00, 0x16, 0x00, 0x05, 0x70, 0x06, 0x15, 0xBB, 0xFF, 0xFF, 0xFF, 0xFF, 0x06, 0x00],
         [0x00, 0x00, 0xFF, 0xFF, 0xFF, 0x7F, 0x01, 0xFF, 0xFF, 0xFF, 0x80, 0x45, 0x20, 0x30, 0x38, 0xB9, 0xFF, 0xFF],
         [0xFF, 0xFF, 0x01, 0x00, 0x00, 0x00, 0xFF, 0xFF, 0xFF, 0x7F, 0x02, 0xFF, 0xFF, 0xFF, 0x80, 0x45, 0x08, 0x0C],
         [0x4E, 0xEE, 0xFF, 0xFF, 0xFF, 0xFF, 0x06, 0x00, 0x00, 0x00, 0xFF, 0xFF, 0xFF, 0x7F, 0x01, 0xFF, 0xFF, 0xFF],
         [0x80, 0x46, 0xE8, 0xDB, 0x15, 0x35, 0x00, 0x00, 0x00, 0x00, 0x01, 0x00, 0x00, 0x00, 0xFF, 0xFF, 0xFF, 0x7F],
         [0x02, 0xFF, 0xFF, 0xFF, 0x80, 0x46, 0x00, 0x00, 0x00, 0x00, 0x00, 0x00, 0x00, 0x00, 0xFF, 0xFF, 0xFF, 0x7F],
         [0xFF, 0xFF, 0xFF, 0x7F, 0x7F, 0xDA, 0x4B, 0xFF, 0x03, 0x36]]),
      ([0x5E, 0x00, 0x3B, 0x00, 0x34, 0x00, 0x01, 0x00, 0x09, 0x00], lines_of
        [[0xCD, 0xB3, 0xEF, 0x03, 0x27, 0x01, 0x00, 0x00, 0xB1, 0x26, 0x00, 0x00, 0x2F, 0xE1, 0x00, 0x00, 0x9B, 0x29],
         [0x0A, 0x0F, 0x5B, 0xBF, 0x48, 0x17, 0x91, 0x83, 0x59, 0x22, 0x70, 0xB3, 0x48, 0x17, 0xDB, 0x4B, 0x11, 0xFF],
         [0xFF, 0xFF, 0xFF, 0xFF, 0xFF, 0xFF, 0x7F, 0xFF, 0xFF, 0xFF, 0xFF, 0xFF, 0xFF, 0xFF, 0x7F, 0x40, 0x59, 0x73],
         [0x07, 0x00, 0x00, 0x00, 0x00, 0x16, 0x00, 0x01, 0xE4, 0x0B, 0x54, 0x02, 0x00, 0x00, 0x00, 0x00, 0xFF, 0xFF],
         [0xFF, 0x7F, 0xFF, 0xFF, 0xFF, 0x7F, 0x7F, 0xDA, 0x4B, 0xFF, 0x03, 0x36]])]"

text \<open>\<^verbatim>\<open>test/mbofd_recovery.cpp\<close>\<close>

definition test_mbofd_recovery_simple :: bytes where
  "test_mbofd_recovery_simple = datagram [0xF2, 0x01, 0x00, 0x00, 0x6E, 0xFC, 0x55, 0x7A, 0xB9, 0x29, 0x41, 0x17]
     [([0xE1, 0x02, 0x1C, 0x00, 0x35, 0x00, 0x01, 0x00, 0x09, 0x00], lines_of
        [[0x62, 0x37, 0x18, 0x00, 0x64, 0x00, 0x00, 0x00, 0xD6, 0x0D, 0x01, 0x00, 0xF2, 0x00, 0x00, 0x00, 0xF2, 0x00],
         [0x00, 0x00, 0x57, 0xCC, 0x16, 0xD3, 0xB6, 0x29, 0x41, 0x17, 0x1D, 0x00, 0x18, 0xF7, 0x3C, 0x5C, 0x7F, 0xA6],
         [0x07, 0x00, 0x00, 0x81, 0x5D, 0x0E, 0xC5, 0x04, 0x00, 0x00, 0x00, 0x70, 0xA8, 0xA9, 0xD5, 0x1C, 0x00, 0x00],
         [0x00, 0x14, 0x00, 0x00, 0x00, 0x31, 0x35, 0xD7, 0xE4, 0x7F, 0xA6, 0x07, 0x00, 0x00, 0xC7, 0x2C, 0xE9, 0xC5],
         [0x04, 0x00, 0x00, 0x00, 0x20, 0x32, 0x20, 0x1A, 0x19, 0x00, 0x00, 0x00, 0x44, 0x00, 0x00, 0x00, 0x30, 0x47],
         [0x3D, 0x5C, 0x7F, 0xA6, 0x07, 0x00, 0x00, 0x02, 0x5E, 0x0E, 0xC5, 0x04, 0x00, 0x00, 0x00, 0x98, 0x13, 0x98],
         [0xD6, 0x1C, 0x00, 0x00, 0x00, 0x14, 0x00, 0x00, 0x00, 0x31, 0x36, 0xD7, 0xE4, 0x7F, 0xA6, 0x07, 0x00, 0x00],
         [0xC8, 0x2C, 0xE9, 0xC5, 0x04, 0x00, 0x00, 0x00, 0xF8, 0xC6, 0x31, 0x19, 0x19, 0x00, 0x00, 0x00, 0x42, 0x00],
         [0x00, 0x00, 0x30, 0x78, 0x3D, 0x5C, 0x7F, 0xA6, 0x07, 0x00, 0x00, 0x4B, 0x5E, 0x0E, 0xC5, 0x04, 0x00, 0x00],
         [0x00, 0xC0, 0x7E, 0x86, 0xD7, 0x1C, 0x00, 0x00, 0x00, 0x14, 0x00, 0x00, 0x00, 0x31, 0x37, 0xD7, 0xE4, 0x7F],
         [0xA6, 0x07, 0x00, 0x00, 0xC9, 0x2C, 0xE9, 0xC5, 0x04, 0x00, 0x00, 0x00, 0xD0, 0x5B, 0x43, 0x18, 0x19, 0x00],
         [0x00, 0x00, 0x42, 0x00, 0x00, 0x00, 0x30, 0xD7, 0x4E, 0x5C, 0x7F, 0xA6, 0x07, 0x00, 0x00, 0x07, 0x7A, 0x0E],
         [0xC5, 0x04, 0x00, 0x00, 0x00, 0xE8, 0xE9, 0x74, 0xD8, 0x1C, 0x00, 0x00, 0x00, 0x14, 0x00, 0x00, 0x00, 0x31],
         [0x5C, 0x76, 0x43, 0x80, 0xA6, 0x07, 0x00, 0x00, 0xC9, 0x4A, 0x7A, 0xC6, 0x04, 0x00, 0x00, 0x00, 0xA8, 0xF0],
         [0x54, 0x17, 0x19, 0x00, 0x00, 0x00, 0x44, 0x00, 0x00, 0x00, 0x30, 0xF3, 0x4E, 0x5C, 0x7F, 0xA6, 0x07, 0x00],
         [0x00, 0x56, 0x7A, 0x0E, 0xC5, 0x04, 0x00, 0x00, 0x00, 0x10, 0x55, 0x63, 0xD9, 0x1C, 0x00, 0x00, 0x00, 0x14],
         [0x00, 0x00, 0x00, 0x31, 0x5D, 0x76, 0x43, 0x80, 0xA6, 0x07, 0x00, 0x00, 0xCA, 0x4A, 0x7A, 0xC6, 0x04, 0x00],
         [0x00, 0x00, 0x80, 0x85, 0x66, 0x16, 0x19, 0x00, 0x00, 0x00, 0x33, 0x00, 0x00, 0x00, 0x30, 0x5E, 0x76, 0x43],
         [0x80, 0xA6, 0x07, 0x00, 0x00, 0xCB, 0x4A, 0x7A, 0xC6, 0x04, 0x00, 0x00, 0x00, 0x58, 0x1A, 0x78, 0x15, 0x19],
         [0x00, 0x00, 0x00, 0x39, 0x00, 0x00, 0x00, 0x30, 0x5F, 0x76, 0x43, 0x80, 0xA6, 0x07, 0x00, 0x00, 0xCC, 0x4A],
         [0x7A, 0xC6, 0x04, 0x00, 0x00, 0x00, 0x30, 0xAF, 0x89, 0x14, 0x19, 0x00, 0x00, 0x00, 0x41, 0x00, 0x00, 0x00],
         [0x30, 0x60, 0x76, 0x43, 0x80, 0xA6, 0x07, 0x00, 0x00, 0xCD, 0x4A, 0x7A, 0xC6, 0x04, 0x00, 0x00, 0x00, 0x08],
         [0x44, 0x9B, 0x13, 0x19, 0x00, 0x00, 0x00, 0x36, 0x00, 0x00, 0x00, 0x30, 0x61, 0x76, 0x43, 0x80, 0xA6, 0x07],
         [0x00, 0x00, 0xCE, 0x4A, 0x7A, 0xC6, 0x04, 0x00, 0x00, 0x00, 0xE0, 0xD8, 0xAC, 0x12, 0x19, 0x00, 0x00, 0x00],
         [0x42, 0x00, 0x00, 0x00, 0x30, 0x62, 0x76, 0x43, 0x80, 0xA6, 0x07, 0x00, 0x00, 0xCF, 0x4A, 0x7A, 0xC6, 0x04],
         [0x00, 0x00, 0x00, 0xB8, 0x6D, 0xBE, 0x11, 0x19, 0x00, 0x00, 0x00, 0x3B, 0x00, 0x00, 0x00, 0x30, 0x63, 0x76],
         [0x43, 0x80, 0xA6, 0x07, 0x00, 0x00, 0xD0, 0x4A, 0x7A, 0xC6, 0x04, 0x00, 0x00, 0x00, 0x90, 0x02, 0xD0, 0x10],
         [0x19, 0x00, 0x00, 0x00, 0x36, 0x00, 0x00, 0x00, 0x30, 0x64, 0x76, 0x43, 0x80, 0xA6, 0x07, 0x00, 0x00, 0xD1],
         [0x4A, 0x7A, 0xC6, 0x04, 0x00, 0x00, 0x00, 0x68, 0x97, 0xE1, 0x0F, 0x19, 0x00, 0x00, 0x00, 0x33, 0x00, 0x00],
         [0x00, 0x30, 0x65, 0x76, 0x43, 0x80, 0xA6, 0x07, 0x00, 0x00, 0xD2, 0x4A, 0x7A, 0xC6, 0x04, 0x00, 0x00, 0x00],
         [0x40, 0x2C, 0xF3, 0x0E, 0x19, 0x00, 0x00, 0x00, 0x32, 0x00, 0x00, 0x00, 0x30, 0x66, 0x76, 0x43, 0x80, 0xA6],
         [0x07, 0x00, 0x00, 0xD3, 0x4A, 0x7A, 0xC6, 0x04, 0x00, 0x00, 0x00, 0x18, 0xC1, 0x04, 0x0E, 0x19, 0x00, 0x00],
         [0x00, 0x33, 0x00, 0x00, 0x00, 0x30, 0x67, 0x76, 0x43, 0x80, 0xA6, 0x07, 0x00, 0x00, 0xD4, 0x4A, 0x7A, 0xC6],
         [0x04, 0x00, 0x00, 0x00, 0xF0, 0x55, 0x16, 0x0D, 0x19, 0x00, 0x00, 0x00, 0x36, 0x00, 0x00, 0x00, 0x30, 0x68],
         [0x76, 0x43, 0x80, 0xA6, 0x07, 0x00, 0x00, 0xD5, 0x4A, 0x7A, 0xC6, 0x04, 0x00, 0x00, 0x00, 0xC8, 0xEA, 0x27],
         [0x0C, 0x19, 0x00, 0x00, 0x00, 0x3B, 0x00, 0x00, 0x00, 0x30, 0x69, 0x76, 0x43, 0x80, 0xA6, 0x07, 0x00, 0x00],
         [0xD6, 0x4A, 0x7A, 0xC6, 0x04, 0x00, 0x00, 0x00, 0xA0, 0x7F, 0x39, 0x0B, 0x19, 0x00, 0x00, 0x00, 0x42, 0x00],
         [0x00, 0x00, 0x30, 0x6A, 0x76, 0x43, 0x80, 0xA6, 0x07, 0x00, 0x00, 0xD7, 0x4A, 0x7A, 0xC6, 0x04, 0x00, 0x00],
         [0x00, 0x78, 0x14, 0x4B, 0x0A, 0x19, 0x00, 0x00, 0x00, 0x36, 0x00, 0x00, 0x00, 0x30, 0x02, 0x51, 0xEC, 0x78],
         [0xA6, 0x07, 0x00, 0x00, 0x36, 0x73, 0x18, 0xBB, 0x04, 0x00, 0x00, 0x00, 0x00, 0x6E, 0xB2, 0xE9, 0x18, 0x00],
         [0x00, 0x00, 0x16, 0x00, 0x00, 0x00, 0x30]]),
      ([0xE2, 0x00, 0x3B, 0x00, 0x34, 0x00, 0x01, 0x00, 0x09, 0x00], lines_of
        [[0x8C, 0x37, 0x18, 0x00, 0x64, 0x00, 0x00, 0x00, 0xDC, 0x19, 0x01, 0x00, 0x42, 0x00, 0x00, 0x00, 0xB7, 0xA9],
         [0xBF, 0x96, 0x15, 0x29, 0x41, 0x17, 0xC0, 0xD1, 0xD4, 0xBC, 0x7D, 0xFC, 0x40, 0x17, 0xC2, 0x4B, 0x11, 0xFF],
         [0xFF, 0xFF, 0xFF, 0xFF, 0xFF, 0xFF, 0x7F, 0xCA, 0x9A, 0x3B, 0x00, 0x00, 0x00, 0x00, 0x00, 0x40, 0x59, 0x73],
         [0x07, 0x00, 0x00, 0x00, 0x00, 0x16, 0x00, 0x07, 0xDC, 0x7B, 0xB2, 0xD3, 0x17, 0x00, 0x00, 0x00, 0x01, 0x00],
         [0x00, 0x00, 0x01, 0x00, 0x00, 0x00, 0x01, 0xFF, 0xFF, 0xFF, 0x80, 0x30, 0x1A, 0x81, 0xFA, 0x38, 0x18, 0x00],
         [0x00, 0x00, 0x01, 0x00, 0x00, 0x00, 0x01, 0x00, 0x00, 0x00, 0x01, 0xFF, 0xFF, 0xFF, 0x80, 0x31, 0x6E, 0x2E],
         [0x96, 0xD8, 0x17, 0x00, 0x00, 0x00, 0xFF, 0xFF, 0xFF, 0x7F, 0xFF, 0xFF, 0xFF, 0x7F, 0x7F, 0xFF, 0xFF, 0xFF],
         [0x80, 0x4E, 0x1A, 0x81, 0xFA, 0x38, 0x18, 0x00, 0x00, 0x00, 0xFF, 0xFF, 0xFF, 0x7F, 0xFF, 0xFF, 0xFF, 0x7F],
         [0x7F, 0xFF, 0xFF, 0xFF, 0x80, 0x4F, 0x72, 0xFE, 0x57, 0x0B, 0x18, 0x00, 0x00, 0x00, 0xFF, 0xFF, 0xFF, 0x7F],
         [0xFF, 0xFF, 0xFF, 0x7F, 0x7F, 0xBF, 0x4B, 0xFF, 0x03, 0x36, 0xFF, 0xFF, 0xFF, 0xFF, 0xFF, 0xFF, 0xFF, 0x7F],
         [0x00, 0x00, 0x00, 0x00, 0xFF, 0xFF, 0xFF, 0x7F, 0x7F, 0xBF, 0x4B, 0xFF, 0x80, 0x42, 0xFF, 0xFF, 0xFF, 0xFF],
         [0xFF, 0xFF, 0xFF, 0x7F, 0x06, 0x00, 0x00, 0x00, 0xFF, 0xFF, 0xFF, 0x7F, 0x7F, 0xBF, 0x4B, 0xFF, 0x80, 0x43]]),
      ([0x63, 0x00, 0x1C, 0x00, 0x35, 0x00, 0x01, 0x00, 0x09, 0x00], lines_of
        [[0x8C, 0x37, 0x18, 0x00, 0x64, 0x00, 0x00, 0x00, 0xDC, 0x19, 0x01, 0x00, 0x01, 0x00, 0x00, 0x00, 0x01, 0x00],
         [0x00, 0x00, 0xB7, 0xA9, 0xBF, 0x96, 0x15, 0x29, 0x41, 0x17, 0x1D, 0x00, 0x02, 0xB0, 0x18, 0x44, 0x80, 0xA6],
         [0x07, 0x00, 0x00, 0xB6, 0x64, 0x7B, 0xC6, 0x04, 0x00, 0x00, 0x00, 0xDC, 0x7B, 0xB2, 0xD3, 0x17, 0x00, 0x00],
         [0x00, 0x01, 0x00, 0x00, 0x00, 0x30, 0xB3, 0x18, 0x44, 0x80, 0xA6, 0x07, 0x00, 0x00, 0xB9, 0x64, 0x7B, 0xC6],
         [0x04, 0x00, 0x00, 0x00, 0x1A, 0x81, 0xFA, 0x38, 0x18, 0x00, 0x00, 0x00, 0x01, 0x00, 0x00, 0x00, 0x31]]),
      ([0xE2, 0x00, 0x3B, 0x00, 0x34, 0x00, 0x01, 0x00, 0x09, 0x00], lines_of
        [[0x8C, 0x37, 0x18, 0x00, 0x64, 0x00, 0x00, 0x00, 0x18, 0xF3, 0x01, 0x00, 0x17, 0x16, 0x00, 0x00, 0x83, 0x99],
         [0x8F, 0xE8, 0xB1, 0x29, 0x41, 0x17, 0xC0, 0xD1, 0xD4, 0xBC, 0x7D, 0xFC, 0x40, 0x17, 0xC2, 0x4B, 0x11, 0xFF],
         [0xFF, 0xFF, 0xFF, 0xFF, 0xFF, 0xFF, 0x7F, 0x50, 0xD6, 0xDC, 0x01, 0x00, 0x00, 0x00, 0x00, 0x00, 0x65, 0xCD],
         [0x1D, 0x00, 0x00, 0x00, 0x00, 0x16, 0x00, 0x07, 0xE0, 0xF7, 0x97, 0x02, 0x1F, 0x00, 0x00, 0x00, 0x0F, 0x00],
         [0x00, 0x00, 0x01, 0x00, 0x00, 0x00, 0x01, 0xFF, 0xFF, 0xFF, 0x80, 0x30, 0x70, 0x27, 0xE8, 0x0B, 0x1F, 0x00],
         [0x00, 0x00, 0x0F, 0x00, 0x00, 0x00, 0x01, 0x00, 0x00, 0x00, 0x01, 0xFF, 0xFF, 0xFF, 0x80, 0x31, 0x70, 0x27],
         [0xE8, 0x0B, 0x1F, 0x00, 0x00, 0x00, 0xFF, 0xFF, 0xFF, 0x7F, 0xFF, 0xFF, 0xFF, 0x7F, 0x7F, 0xFF, 0xFF, 0xFF],
         [0x80, 0x4E, 0x80, 0x3F, 0x84, 0xE8, 0x1E, 0x00, 0x00, 0x00, 0xFF, 0xFF, 0xFF, 0x7F, 0xFF, 0xFF, 0xFF, 0x7F],
         [0x7F, 0xFF, 0xFF, 0xFF, 0x80, 0x4F, 0x00, 0x57, 0x38, 0x15, 0x1F, 0x00, 0x00, 0x00, 0xFF, 0xFF, 0xFF, 0x7F],
         [0xFF, 0xFF, 0xFF, 0x7F, 0x7F, 0xBF, 0x4B, 0xFF, 0x03, 0x36, 0xFF, 0xFF, 0xFF, 0xFF, 0xFF, 0xFF, 0xFF, 0x7F],
         [0x1B, 0x00, 0x00, 0x00, 0xFF, 0xFF, 0xFF, 0x7F, 0x7F, 0xBF, 0x4B, 0xFF, 0x80, 0x42, 0xFF, 0xFF, 0xFF, 0xFF],
         [0xFF, 0xFF, 0xFF, 0x7F, 0x52, 0x01, 0x00, 0x00, 0xFF, 0xFF, 0xFF, 0x7F, 0x7F, 0xBF, 0x4B, 0xFF, 0x80, 0x43]])]"

text \<open>\<^verbatim>\<open>test/md_instrument_definition.cpp\<close>\<close>

definition test_md_instrument_definition_simple :: bytes where
  "test_md_instrument_definition_simple = datagram [0x21, 0x00, 0x00, 0x00, 0x81, 0x82, 0x9F, 0xAC, 0x43, 0xCF, 0x48, 0x17]
     [([0x0C, 0x01, 0xD8, 0x00, 0x36, 0x00, 0x01, 0x00, 0x09, 0x00], lines_of
        [[0x00, 0x28, 0x04, 0x00, 0x00, 0x41, 0x53, 0x07, 0x6D, 0x6E, 0xAD, 0x6E, 0x47, 0x17, 0x11, 0x58, 0x01, 0x54],
         [0x0E, 0x58, 0x43, 0x42, 0x54, 0x5A, 0x4E, 0x00, 0x00, 0x00, 0x00, 0x5A, 0x4E, 0x00, 0x00, 0x00, 0x00, 0x5A],
         [0x4E, 0x48, 0x33, 0x00, 0x00, 0x00, 0x00, 0x00, 0x00, 0x00, 0x00, 0x00, 0x00, 0x00, 0x00, 0x00, 0x00, 0x00],
         [0x00, 0xA2, 0x11, 0x06, 0x00, 0x46, 0x55, 0x54, 0x00, 0x00, 0x00, 0x46, 0x46, 0x44, 0x58, 0x53, 0x58, 0xE7],
         [0x07, 0x03, 0xFF, 0xFF, 0x55, 0x53, 0x44, 0x00, 0x00, 0x00, 0x46, 0x01, 0x00, 0x00, 0x00, 0x1F, 0x4E, 0x00],
         [0x00, 0x28, 0x6B, 0xEE, 0x00, 0x00, 0x00, 0x00, 0x00, 0x00, 0xCA, 0x9A, 0x3B, 0x00, 0x00, 0x00, 0x00, 0x20],
         [0x02, 0x03, 0x55, 0x53, 0x44, 0x00, 0x00, 0x00, 0x00, 0x00, 0x00, 0x00, 0x00, 0x00, 0x00, 0x00, 0x00, 0x00],
         [0x00, 0x00, 0x00, 0x00, 0x00, 0x00, 0x00, 0x00, 0x00, 0x00, 0x00, 0x00, 0x00, 0x00, 0x00, 0x40, 0x7A, 0x10],
         [0xF3, 0x5A, 0x00, 0x00, 0xF0, 0x4E, 0x19, 0xA2, 0x19, 0x00, 0x00, 0x00, 0x03, 0x18, 0x4D, 0x00, 0x00, 0x3B],
         [0x6A, 0x00, 0x00, 0xFF, 0xFF, 0xFF, 0xFF, 0xFF, 0xFF, 0xFF, 0x7F, 0x28, 0x6B, 0xEE, 0x00, 0x00, 0x00, 0x00],
         [0x00, 0x00, 0x65, 0xCD, 0x1D, 0x00, 0x00, 0x00, 0x00, 0xFF, 0xFF, 0xFF, 0x7F, 0xFF, 0xFF, 0xFF, 0xFF, 0xFF],
         [0x7F, 0xFF, 0xFF, 0xFF, 0x7F, 0x7F, 0x7F, 0x40, 0x42, 0x0F, 0x00, 0x00, 0x00, 0x00, 0x00, 0x4E, 0xDA, 0x4B],
         [0x09, 0x00, 0x02, 0x05, 0x00, 0x70, 0x65, 0xCD, 0x12, 0xC0, 0xFA, 0x16, 0x07, 0x00, 0xF8, 0xFB, 0x70, 0x68],
         [0xCC, 0x4E, 0x17, 0x04, 0x00, 0x02, 0x47, 0x42, 0x58, 0x0A, 0x47, 0x42, 0x49, 0x02, 0x04, 0x00, 0x01, 0x4F],
         [0x28, 0x0C, 0x00, 0x05, 0x00, 0x00]]),
      ([0x0C, 0x01, 0xD8, 0x00, 0x36, 0x00, 0x01, 0x00, 0x09, 0x00], lines_of
        [[0x00, 0x28, 0x04, 0x00, 0x00, 0x41, 0x53, 0x07, 0x6D, 0x6E, 0xAD, 0x6E, 0x47, 0x17, 0x11, 0x58, 0x01, 0x54],
         [0x0E, 0x58, 0x43, 0x42, 0x54, 0x45, 0x43, 0x00, 0x00, 0x00, 0x00, 0x4C, 0x49, 0x45, 0x00, 0x00, 0x00, 0x4C],
         [0x49, 0x45, 0x5A, 0x31, 0x38, 0x00, 0x00, 0x00, 0x00, 0x00, 0x00, 0x00, 0x00, 0x00, 0x00, 0x00, 0x00, 0x00],
         [0x00, 0xF8, 0x10, 0x02, 0x00, 0x46, 0x55, 0x54, 0x00, 0x00, 0x00, 0x46, 0x46, 0x44, 0x58, 0x53, 0x58, 0xE2],
         [0x07, 0x0C, 0xFF, 0xFF, 0x55, 0x53, 0x44, 0x00, 0x00, 0x00, 0x46, 0x01, 0x00, 0x00, 0x00, 0x1F, 0x4E, 0x00],
         [0x00, 0x00, 0xD0, 0xED, 0x90, 0x2E, 0x00, 0x00, 0x00, 0xA0, 0x86, 0x01, 0x00, 0x00, 0x00, 0x00, 0x00, 0xFF],
         [0xFF, 0xFF, 0x49, 0x50, 0x4E, 0x54, 0x00, 0x00, 0x00, 0x00, 0x00, 0x00, 0x00, 0x00, 0x00, 0x00, 0x00, 0x00],
         [0x00, 0x00, 0x00, 0x00, 0x00, 0x00, 0x00, 0x00, 0x00, 0x00, 0x00, 0x00, 0x00, 0x00, 0x00, 0x40, 0x7A, 0x10],
         [0xF3, 0x5A, 0x00, 0x00, 0x00, 0x08, 0xDC, 0xE2, 0x28, 0x53, 0x03, 0x00, 0x03, 0x1C, 0x00, 0x00, 0x00, 0x00],
         [0x00, 0x00, 0x00, 0xFF, 0xFF, 0xFF, 0xFF, 0xFF, 0xFF, 0xFF, 0x7F, 0x00, 0x00, 0x00, 0x00, 0x00, 0x00, 0x00],
         [0x00, 0x00, 0x50, 0x39, 0x27, 0x8C, 0x04, 0x00, 0x00, 0xFF, 0xFF, 0xFF, 0x7F, 0xFF, 0xFF, 0xFF, 0xFF, 0xFF],
         [0x7F, 0xFF, 0xFF, 0xFF, 0x7F, 0x7F, 0x7F, 0x00, 0xC8, 0x17, 0xA8, 0x04, 0x00, 0x00, 0x00, 0x4E, 0xDA, 0x4B],
         [0x09, 0x00, 0x02, 0x05, 0x00, 0x10, 0x41, 0xAA, 0x7B, 0x07, 0x6C, 0x15, 0x07, 0x00, 0xC0, 0x04, 0xAD, 0xAE],
         [0x27, 0x95, 0x22, 0x04, 0x00, 0x02, 0x47, 0x42, 0x58, 0x0A, 0x47, 0x42, 0x49, 0x02, 0x04, 0x00, 0x01, 0x4F],
         [0x20, 0x0C, 0x00, 0x05, 0x00, 0x00]]),
      ([0x08, 0x01, 0xD8, 0x00, 0x36, 0x00, 0x01, 0x00, 0x09, 0x00], lines_of
        [[0x00, 0x28, 0x04, 0x00, 0x00, 0x41, 0x53, 0x07, 0x6D, 0x6E, 0xAD, 0x6E, 0x47, 0x17, 0x11, 0x58, 0x01, 0x54],
         [0x0E, 0x58, 0x43, 0x42, 0x54, 0x53, 0x4E, 0x00, 0x00, 0x00, 0x00, 0x4E, 0x31, 0x53, 0x00, 0x00, 0x00, 0x4E],
         [0x31, 0x53, 0x4D, 0x33, 0x00, 0x00, 0x00, 0x00, 0x00, 0x00, 0x00, 0x00, 0x00, 0x00, 0x00, 0x00, 0x00, 0x00],
         [0x00, 0x7F, 0x4D, 0x06, 0x00, 0x46, 0x55, 0x54, 0x00, 0x00, 0x00, 0x46, 0x46, 0x44, 0x58, 0x53, 0x58, 0xE7],
         [0x07, 0x06, 0xFF, 0xFF, 0x55, 0x53, 0x44, 0x00, 0x00, 0x00, 0x46, 0x01, 0x00, 0x00, 0x00, 0x1F, 0x4E, 0x00],
         [0x00, 0x28, 0x6B, 0xEE, 0x00, 0x00, 0x00, 0x00, 0x00, 0x00, 0xCA, 0x9A, 0x3B, 0x00, 0x00, 0x00, 0x00, 0x20],
         [0x02, 0x03, 0x55, 0x53, 0x44, 0x00, 0x00, 0x00, 0x00, 0x00, 0x00, 0x00, 0x00, 0x00, 0x00, 0x00, 0x00, 0x00],
         [0x00, 0x00, 0x00, 0x00, 0x00, 0x00, 0x00, 0x00, 0x00, 0x00, 0x00, 0x00, 0x00, 0x00, 0x00, 0x40, 0x7A, 0x10],
         [0xF3, 0x5A, 0x00, 0x00, 0x28, 0xEE, 0x97, 0x2B, 0x17, 0x00, 0x00, 0x00, 0x03, 0xFF, 0xFF, 0xFF, 0x7F, 0xFF],
         [0xFF, 0xFF, 0x7F, 0xFF, 0xFF, 0xFF, 0xFF, 0xFF, 0xFF, 0xFF, 0x7F, 0x28, 0x6B, 0xEE, 0x00, 0x00, 0x00, 0x00],
         [0x00, 0x00, 0x65, 0xCD, 0x1D, 0x00, 0x00, 0x00, 0x00, 0xFF, 0xFF, 0xFF, 0x7F, 0xFF, 0xFF, 0xFF, 0xFF, 0xFF],
         [0x7F, 0xFF, 0xFF, 0xFF, 0x7F, 0x7F, 0x7F, 0x40, 0x94, 0x52, 0xA3, 0x03, 0x00, 0x00, 0x00, 0x4E, 0xDA, 0x4B],
         [0x09, 0x00, 0x02, 0x05, 0x00, 0x70, 0x3E, 0x2F, 0x90, 0x74, 0x15, 0x17, 0x07, 0x00, 0xE0, 0xAF, 0xAA, 0xCF],
         [0x38, 0x69, 0x17, 0x04, 0x00, 0x01, 0x47, 0x42, 0x58, 0x0A, 0x04, 0x00, 0x01, 0x6F, 0x28, 0x04, 0x00, 0x05],
         [0x00, 0x00]]),
      ([0x0C, 0x01, 0xD8, 0x00, 0x36, 0x00, 0x01, 0x00, 0x09, 0x00], lines_of
        [[0x00, 0x28, 0x04, 0x00, 0x00, 0x41, 0x53, 0x07, 0x6D, 0x6E, 0xAD, 0x6E, 0x47, 0x17, 0x11, 0x58, 0x01, 0x54],
         [0x0E, 0x58, 0x43, 0x42, 0x54, 0x45, 0x4B, 0x00, 0x00, 0x00, 0x00, 0x59, 0x49, 0x4C, 0x00, 0x00, 0x00, 0x59],
         [0x49, 0x4C, 0x4D, 0x32, 0x31, 0x00, 0x00, 0x00, 0x00, 0x00, 0x00, 0x00, 0x00, 0x00, 0x00, 0x00, 0x00, 0x00],
         [0x00, 0x9F, 0x3C, 0x08, 0x00, 0x46, 0x55, 0x54, 0x00, 0x00, 0x00, 0x46, 0x46, 0x44, 0x58, 0x53, 0x58, 0xE5],
         [0x07, 0x06, 0xFF, 0xFF, 0x55, 0x53, 0x44, 0x00, 0x00, 0x00, 0x46, 0x01, 0x00, 0x00, 0x00, 0x1F, 0x4E, 0x00],
         [0x00, 0x00, 0xD0, 0xED, 0x90, 0x2E, 0x00, 0x00, 0x00, 0xA0, 0x86, 0x01, 0x00, 0x00, 0x00, 0x00, 0x00, 0xFF],
         [0xFF, 0xFF, 0x49, 0x50, 0x4E, 0x54, 0x00, 0x00, 0x00, 0x00, 0x00, 0x00, 0x00, 0x00, 0x00, 0x00, 0x00, 0x00],
         [0x00, 0x00, 0x00, 0x00, 0x00, 0x00, 0x00, 0x00, 0x00, 0x00, 0x00, 0x00, 0x00, 0x00, 0x00, 0x40, 0x7A, 0x10],
         [0xF3, 0x5A, 0x00, 0x00, 0x00, 0x08, 0x28, 0x8B, 0x73, 0x6F, 0x02, 0x00, 0x03, 0xFF, 0xFF, 0xFF, 0x7F, 0xFF],
         [0xFF, 0xFF, 0x7F, 0xFF, 0xFF, 0xFF, 0xFF, 0xFF, 0xFF, 0xFF, 0x7F, 0x00, 0x00, 0x00, 0x00, 0x00, 0x00, 0x00],
         [0x00, 0x00, 0x50, 0x39, 0x27, 0x8C, 0x04, 0x00, 0x00, 0xFF, 0xFF, 0xFF, 0x7F, 0xFF, 0xFF, 0xFF, 0xFF, 0xFF],
         [0x7F, 0xFF, 0xFF, 0xFF, 0x7F, 0x7F, 0x7F, 0x00, 0xC8, 0x17, 0xA8, 0x04, 0x00, 0x00, 0x00, 0x4E, 0xDA, 0x4B],
         [0x09, 0x00, 0x02, 0x05, 0x00, 0x70, 0xE8, 0xE8, 0x32, 0x4A, 0x3A, 0x16, 0x07, 0x00, 0x20, 0xA4, 0xA2, 0x67],
         [0xF9, 0x1A, 0x1D, 0x04, 0x00, 0x02, 0x47, 0x42, 0x58, 0x0A, 0x47, 0x42, 0x49, 0x02, 0x04, 0x00, 0x01, 0x4F],
         [0x20, 0x0C, 0x00, 0x05, 0x00, 0x00]]),
      ([0x0C, 0x01, 0xD8, 0x00, 0x36, 0x00, 0x01, 0x00, 0x09, 0x00], lines_of
        [[0x00, 0x28, 0x04, 0x00, 0x00, 0x41, 0x53, 0x07, 0x6D, 0x6E, 0xAD, 0x6E, 0x47, 0x17, 0x11, 0x58, 0x01, 0x54],
         [0x0E, 0x58, 0x43, 0x42, 0x54, 0x45, 0x31, 0x00, 0x00, 0x00, 0x00, 0x4C, 0x49, 0x57, 0x00, 0x00, 0x00, 0x4C],
         [0x49, 0x57, 0x48, 0x31, 0x38, 0x00, 0x00, 0x00, 0x00, 0x00, 0x00, 0x00, 0x00, 0x00, 0x00, 0x00, 0x00, 0x00],
         [0x00, 0x12, 0x96, 0x08, 0x00, 0x46, 0x55, 0x54, 0x00, 0x00, 0x00, 0x46, 0x46, 0x44, 0x58, 0x53, 0x58, 0xE2],
         [0x07, 0x03, 0xFF, 0xFF, 0x55, 0x53, 0x44, 0x00, 0x00, 0x00, 0x46, 0x01, 0x00, 0x00, 0x00, 0x1F, 0x4E, 0x00],
         [0x00, 0x00, 0xE4, 0x0B, 0x54, 0x02, 0x00, 0x00, 0x00, 0xA0, 0x86, 0x01, 0x00, 0x00, 0x00, 0x00, 0x00, 0xFF],
         [0xFF, 0xFF, 0x49, 0x50, 0x4E, 0x54, 0x00, 0x00, 0x00, 0x00, 0x00, 0x00, 0x00, 0x00, 0x00, 0x00, 0x00, 0x00],
         [0x00, 0x00, 0x00, 0x00, 0x00, 0x00, 0x00, 0x00, 0x00, 0x00, 0x00, 0x00, 0x00, 0x00, 0x00, 0x40, 0x7A, 0x10],
         [0xF3, 0x5A, 0x00, 0x00, 0x00, 0x2A, 0xD9, 0xC5, 0x9A, 0x9D, 0x03, 0x00, 0x03, 0xF6, 0x00, 0x00, 0x00, 0x00],
         [0x00, 0x00, 0x00, 0xFF, 0xFF, 0xFF, 0xFF, 0xFF, 0xFF, 0xFF, 0x7F, 0x00, 0x00, 0x00, 0x00, 0x00, 0x00, 0x00],
         [0x00, 0x00, 0xA8, 0x9C, 0x13, 0x46, 0x02, 0x00, 0x00, 0xFF, 0xFF, 0xFF, 0x7F, 0xFF, 0xFF, 0xFF, 0xFF, 0xFF],
         [0x7F, 0xFF, 0xFF, 0xFF, 0x7F, 0x7F, 0x7F, 0x00, 0xCA, 0x9A, 0x3B, 0x00, 0x00, 0x00, 0x00, 0x4E, 0xDA, 0x4B],
         [0x09, 0x00, 0x02, 0x05, 0x00, 0x10, 0xEF, 0xB7, 0x5B, 0xBB, 0x67, 0x15, 0x07, 0x00, 0x20, 0xF9, 0x18, 0x4A],
         [0x3C, 0x4E, 0x17, 0x04, 0x00, 0x02, 0x47, 0x42, 0x58, 0x0A, 0x47, 0x42, 0x49, 0x02, 0x04, 0x00, 0x01, 0x4F],
         [0x20, 0x0C, 0x00, 0x05, 0x00, 0x00]])]"

definition test_md_instrument_definition_mixed :: bytes where
  "test_md_instrument_definition_mixed = datagram [0x82, 0x00, 0x00, 0x00, 0x67, 0xD0, 0xC6, 0x3B, 0x44, 0xCF, 0x48, 0x17]
     [([0x0C, 0x01, 0xD8, 0x00, 0x36, 0x00, 0x01, 0x00, 0x09, 0x00], lines_of
        [[0x00, 0x28, 0x04, 0x00, 0x00, 0x41, 0x40, 0x18, 0x51, 0x77, 0xAD, 0x6E, 0x47, 0x17, 0x11, 0x58, 0x01, 0x54],
         [0x0E, 0x58, 0x43, 0x42, 0x54, 0x45, 0x31, 0x00, 0x00, 0x00, 0x00, 0x4C, 0x49, 0x57, 0x00, 0x00, 0x00, 0x4C],
         [0x49, 0x57, 0x5A, 0x31, 0x39, 0x00, 0x00, 0x00, 0x00, 0x00, 0x00, 0x00, 0x00, 0x00, 0x00, 0x00, 0x00, 0x00],
         [0x00, 0x5E, 0xCC, 0x07, 0x00, 0x46, 0x55, 0x54, 0x00, 0x00, 0x00, 0x46, 0x46, 0x44, 0x58, 0x53, 0x58, 0xE3],
         [0x07, 0x0C, 0xFF, 0xFF, 0x55, 0x53, 0x44, 0x00, 0x00, 0x00, 0x46, 0x01, 0x00, 0x00, 0x00, 0x1F, 0x4E, 0x00],
         [0x00, 0x00, 0xE4, 0x0B, 0x54, 0x02, 0x00, 0x00, 0x00, 0xA0, 0x86, 0x01, 0x00, 0x00, 0x00, 0x00, 0x00, 0xFF],
         [0xFF, 0xFF, 0x49, 0x50, 0x4E, 0x54, 0x00, 0x00, 0x00, 0x00, 0x00, 0x00, 0x00, 0x00, 0x00, 0x00, 0x00, 0x00],
         [0x00, 0x00, 0x00, 0x00, 0x00, 0x00, 0x00, 0x00, 0x00, 0x00, 0x00, 0x00, 0x00, 0x00, 0x00, 0x40, 0x7A, 0x10],
         [0xF3, 0x5A, 0x00, 0x00, 0x00, 0x4C, 0x58, 0xE5, 0x83, 0x5D, 0x03, 0x00, 0x03, 0xFF, 0xFF, 0xFF, 0x7F, 0xFF],
         [0xFF, 0xFF, 0x7F, 0xFF, 0xFF, 0xFF, 0xFF, 0xFF, 0xFF, 0xFF, 0x7F, 0x00, 0x00, 0x00, 0x00, 0x00, 0x00, 0x00],
         [0x00, 0x00, 0xA8, 0x9C, 0x13, 0x46, 0x02, 0x00, 0x00, 0xFF, 0xFF, 0xFF, 0x7F, 0xFF, 0xFF, 0xFF, 0xFF, 0xFF],
         [0x7F, 0xFF, 0xFF, 0xFF, 0x7F, 0x7F, 0x7F, 0x00, 0xCA, 0x9A, 0x3B, 0x00, 0x00, 0x00, 0x00, 0x4E, 0xDA, 0x4B],
         [0x09, 0x00, 0x02, 0x05, 0x00, 0x70, 0x9E, 0x75, 0x94, 0xAA, 0xBD, 0x15, 0x07, 0x00, 0xC0, 0x93, 0x6C, 0xD2],
         [0x15, 0x12, 0x18, 0x04, 0x00, 0x02, 0x47, 0x42, 0x58, 0x0A, 0x47, 0x42, 0x49, 0x02, 0x04, 0x00, 0x01, 0x4F],
         [0x20, 0x0C, 0x00, 0x05, 0x00, 0x00]]),
      ([0x0C, 0x01, 0xD8, 0x00, 0x36, 0x00, 0x01, 0x00, 0x09, 0x00], lines_of
        [[0x00, 0x28, 0x04, 0x00, 0x00, 0x41, 0x40, 0x18, 0x51, 0x77, 0xAD, 0x6E, 0x47, 0x17, 0x11, 0x58, 0x01, 0x54],
         [0x0E, 0x58, 0x43, 0x42, 0x54, 0x45, 0x42, 0x00, 0x00, 0x00, 0x00, 0x59, 0x49, 0x43, 0x00, 0x00, 0x00, 0x59],
         [0x49, 0x43, 0x55, 0x32, 0x30, 0x00, 0x00, 0x00, 0x00, 0x00, 0x00, 0x00, 0x00, 0x00, 0x00, 0x00, 0x00, 0x00],
         [0x00, 0xB4, 0xF2, 0x01, 0x00, 0x46, 0x55, 0x54, 0x00, 0x00, 0x00, 0x46, 0x46, 0x44, 0x58, 0x53, 0x58, 0xE4],
         [0x07, 0x09, 0xFF, 0xFF, 0x55, 0x53, 0x44, 0x00, 0x00, 0x00, 0x46, 0x01, 0x00, 0x00, 0x00, 0x1F, 0x4E, 0x00],
         [0x00, 0x00, 0x74, 0x3B, 0xA4, 0x0B, 0x00, 0x00, 0x00, 0xA0, 0x86, 0x01, 0x00, 0x00, 0x00, 0x00, 0x00, 0xFF],
         [0xFF, 0xFF, 0x49, 0x50, 0x4E, 0x54, 0x00, 0x00, 0x00, 0x00, 0x00, 0x00, 0x00, 0x00, 0x00, 0x00, 0x00, 0x00],
         [0x00, 0x00, 0x00, 0x00, 0x00, 0x00, 0x00, 0x00, 0x00, 0x00, 0x00, 0x00, 0x00, 0x00, 0x00, 0x40, 0x7A, 0x10],
         [0xF3, 0x5A, 0x00, 0x00, 0x00, 0x02, 0xFB, 0x45, 0x0B, 0x63, 0x03, 0x00, 0x03, 0xFF, 0xFF, 0xFF, 0x7F, 0xFF],
         [0xFF, 0xFF, 0x7F, 0xFF, 0xFF, 0xFF, 0xFF, 0xFF, 0xFF, 0xFF, 0x7F, 0x00, 0x00, 0x00, 0x00, 0x00, 0x00, 0x00],
         [0x00, 0x00, 0xA8, 0x9C, 0x13, 0x46, 0x02, 0x00, 0x00, 0xFF, 0xFF, 0xFF, 0x7F, 0xFF, 0xFF, 0xFF, 0xFF, 0xFF],
         [0x7F, 0xFF, 0xFF, 0xFF, 0x7F, 0x7F, 0x7F, 0x00, 0xF2, 0x05, 0x2A, 0x01, 0x00, 0x00, 0x00, 0x4E, 0xDA, 0x4B],
         [0x09, 0x00, 0x02, 0x05, 0x00, 0x70, 0x3E, 0x2F, 0x90, 0x74, 0x15, 0x17, 0x07, 0x00, 0x20, 0x23, 0x67, 0xE9],
         [0x19, 0x86, 0x17, 0x04, 0x00, 0x02, 0x47, 0x42, 0x58, 0x0A, 0x47, 0x42, 0x49, 0x02, 0x04, 0x00, 0x01, 0x4F],
         [0x20, 0x0C, 0x00, 0x05, 0x00, 0x00]]),
      ([0x0C, 0x01, 0xD8, 0x00, 0x36, 0x00, 0x01, 0x00, 0x09, 0x00], lines_of
        [[0x00, 0x28, 0x04, 0x00, 0x00, 0x41, 0x40, 0x18, 0x51, 0x77, 0xAD, 0x6E, 0x47, 0x17, 0x11, 0x58, 0x01, 0x54],
         [0x0E, 0x58, 0x43, 0x42, 0x54, 0x45, 0x37, 0x00, 0x00, 0x00, 0x00, 0x4C, 0x49, 0x49, 0x00, 0x00, 0x00, 0x4C],
         [0x49, 0x49, 0x48, 0x31, 0x37, 0x00, 0x00, 0x00, 0x00, 0x00, 0x00, 0x00, 0x00, 0x00, 0x00, 0x00, 0x00, 0x00],
         [0x00, 0x7C, 0x91, 0x01, 0x00, 0x46, 0x55, 0x54, 0x00, 0x00, 0x00, 0x46, 0x46, 0x44, 0x58, 0x53, 0x58, 0xE1],
         [0x07, 0x03, 0xFF, 0xFF, 0x55, 0x53, 0x44, 0x00, 0x00, 0x00, 0x46, 0x01, 0x00, 0x00, 0x00, 0x1F, 0x4E, 0x00],
         [0x00, 0x00, 0xC8, 0x17, 0xA8, 0x04, 0x00, 0x00, 0x00, 0xA0, 0x86, 0x01, 0x00, 0x00, 0x00, 0x00, 0x00, 0xFF],
         [0xFF, 0xFF, 0x49, 0x50, 0x4E, 0x54, 0x00, 0x00, 0x00, 0x00, 0x00, 0x00, 0x00, 0x00, 0x00, 0x00, 0x00, 0x00],
         [0x00, 0x00, 0x00, 0x00, 0x00, 0x00, 0x00, 0x00, 0x00, 0x00, 0x00, 0x00, 0x00, 0x00, 0x00, 0x40, 0x7A, 0x10],
         [0xF3, 0x5A, 0x00, 0x00, 0x00, 0x14, 0xC9, 0x7E, 0x96, 0x3C, 0x03, 0x00, 0x03, 0xFF, 0xFF, 0xFF, 0x7F, 0xFF],
         [0xFF, 0xFF, 0x7F, 0xFF, 0xFF, 0xFF, 0xFF, 0xFF, 0xFF, 0xFF, 0x7F, 0x00, 0x00, 0x00, 0x00, 0x00, 0x00, 0x00],
         [0x00, 0x00, 0x50, 0x39, 0x27, 0x8C, 0x04, 0x00, 0x00, 0xFF, 0xFF, 0xFF, 0x7F, 0xFF, 0xFF, 0xFF, 0xFF, 0xFF],
         [0x7F, 0xFF, 0xFF, 0xFF, 0x7F, 0x7F, 0x7F, 0x00, 0x94, 0x35, 0x77, 0x00, 0x00, 0x00, 0x00, 0x4E, 0xDA, 0x4B],
         [0x09, 0x00, 0x02, 0x05, 0x00, 0x10, 0x41, 0xAA, 0x7B, 0x07, 0x6C, 0x15, 0x07, 0x00, 0x20, 0x8F, 0xE5, 0xEA],
         [0x3C, 0xED, 0x19, 0x04, 0x00, 0x02, 0x47, 0x42, 0x58, 0x0A, 0x47, 0x42, 0x49, 0x02, 0x04, 0x00, 0x01, 0x4F],
         [0x20, 0x0C, 0x00, 0x05, 0x00, 0x00]]),
      ([0x1E, 0x01, 0xC3, 0x00, 0x38, 0x00, 0x01, 0x00, 0x09, 0x00], lines_of
        [[0x00, 0x28, 0x04, 0x00, 0x00, 0x41, 0x40, 0x18, 0x51, 0x77, 0xAD, 0x6E, 0x47, 0x17, 0x12, 0x58, 0x01, 0x54],
         [0x0E, 0x58, 0x43, 0x42, 0x54, 0x42, 0x4D, 0x00, 0x00, 0x00, 0x00, 0x35, 0x35, 0x55, 0x00, 0x00, 0x00, 0x35],
         [0x35, 0x55, 0x4B, 0x33, 0x2D, 0x35, 0x35, 0x55, 0x4D, 0x33, 0x00, 0x00, 0x00, 0x00, 0x00, 0x00, 0x00, 0x00],
         [0x00, 0x89, 0x9F, 0x00, 0x00, 0x46, 0x55, 0x54, 0x00, 0x00, 0x00, 0x46, 0x4D, 0x44, 0x58, 0x53, 0x58, 0xE7],
         [0x07, 0x05, 0xFF, 0xFF, 0x55, 0x53, 0x44, 0x52, 0x54, 0x00, 0x00, 0x00, 0x4E, 0x4B, 0x01, 0x00, 0x00, 0x00],
         [0x87, 0x13, 0x00, 0x00, 0xCA, 0x9A, 0x3B, 0x00, 0x00, 0x00, 0x00, 0x00, 0x00, 0xCA, 0x9A, 0x3B, 0x00, 0x00],
         [0x00, 0x00, 0x03, 0xFF, 0xFF, 0xFF, 0xFF, 0xFF, 0xFF, 0xFF, 0x7F, 0x7F, 0x55, 0x53, 0x44, 0x00, 0x00, 0x00],
         [0x00, 0x00, 0x00, 0x00, 0x00, 0x00, 0x00, 0x00, 0x00, 0x00, 0x00, 0x00, 0x00, 0x00, 0x00, 0x00, 0x00, 0x00],
         [0x00, 0x00, 0x00, 0x00, 0x00, 0x00, 0x00, 0x00, 0x00, 0x00, 0x00, 0x00, 0x00, 0x00, 0x01, 0xFF, 0xFF, 0xFF],
         [0x7F, 0xFF, 0xFF, 0xFF, 0x7F, 0xFF, 0xFF, 0xFF, 0xFF, 0xFF, 0xFF, 0xFF, 0x7F, 0xFF, 0xFF, 0xFF, 0xFF, 0xFF],
         [0xFF, 0xFF, 0x7F, 0x40, 0x59, 0x73, 0x07, 0x00, 0x00, 0x00, 0x00, 0x20, 0x08, 0xD4, 0x4B, 0x09, 0x00, 0x02],
         [0x05, 0x00, 0x10, 0xBC, 0x6F, 0x13, 0xF5, 0x49, 0x17, 0x07, 0x00, 0xE0, 0x6A, 0x42, 0xDB, 0x05, 0x5C, 0x17],
         [0x04, 0x00, 0x02, 0x47, 0x42, 0x58, 0x0A, 0x47, 0x42, 0x49, 0x02, 0x04, 0x00, 0x01, 0x03, 0x6C, 0x0C, 0x00],
         [0x05, 0x00, 0x00, 0x12, 0x00, 0x02, 0x43, 0x54, 0x03, 0x00, 0x01, 0x01, 0xFF, 0xFF, 0xFF, 0xFF, 0xFF, 0xFF],
         [0xFF, 0x7F, 0xFF, 0xFF, 0xFF, 0x7F, 0x55, 0xCD, 0x09, 0x00, 0x02, 0x01, 0xFF, 0xFF, 0xFF, 0xFF, 0xFF, 0xFF],
         [0xFF, 0x7F, 0xFF, 0xFF, 0xFF, 0x7F]]),
      ([0x1A, 0x01, 0xC3, 0x00, 0x38, 0x00, 0x01, 0x00, 0x09, 0x00], lines_of
        [[0x00, 0x28, 0x04, 0x00, 0x00, 0x41, 0x40, 0x18, 0x51, 0x77, 0xAD, 0x6E, 0x47, 0x17, 0x12, 0x58, 0x01, 0x54],
         [0x0E, 0x58, 0x43, 0x42, 0x54, 0x53, 0x4A, 0x00, 0x00, 0x00, 0x00, 0x54, 0x31, 0x53, 0x00, 0x00, 0x00, 0x54],
         [0x31, 0x53, 0x48, 0x33, 0x2D, 0x54, 0x31, 0x53, 0x55, 0x33, 0x00, 0x00, 0x00, 0x00, 0x00, 0x00, 0x00, 0x00],
         [0x00, 0xAA, 0xF7, 0x00, 0x00, 0x46, 0x55, 0x54, 0x00, 0x00, 0x00, 0x46, 0x4D, 0x44, 0x58, 0x53, 0x58, 0xE7],
         [0x07, 0x03, 0xFF, 0xFF, 0x55, 0x53, 0x44, 0x53, 0x50, 0x00, 0x00, 0x00, 0x4E, 0x4B, 0x01, 0x00, 0x00, 0x00],
         [0x2F, 0x75, 0x00, 0x00, 0x94, 0x35, 0x77, 0x00, 0x00, 0x00, 0x00, 0x00, 0x00, 0xCA, 0x9A, 0x3B, 0x00, 0x00],
         [0x00, 0x00, 0x03, 0xFF, 0xFF, 0xFF, 0xFF, 0xFF, 0xFF, 0xFF, 0x7F, 0x7F, 0x55, 0x53, 0x44, 0x00, 0x00, 0x00],
         [0x00, 0x00, 0x00, 0x00, 0x00, 0x00, 0x00, 0x00, 0x00, 0x00, 0x00, 0x00, 0x00, 0x00, 0x00, 0x00, 0x00, 0x00],
         [0x00, 0x00, 0x00, 0x00, 0x00, 0x00, 0x00, 0x00, 0x00, 0x00, 0x00, 0x00, 0x00, 0x00, 0x01, 0xFF, 0xFF, 0xFF],
         [0x7F, 0xFF, 0xFF, 0xFF, 0x7F, 0xFF, 0xFF, 0xFF, 0xFF, 0xFF, 0xFF, 0xFF, 0x7F, 0xFF, 0xFF, 0xFF, 0xFF, 0xFF],
         [0xFF, 0xFF, 0x7F, 0xA0, 0xAC, 0xB9, 0x03, 0x00, 0x00, 0x00, 0x00, 0x20, 0x04, 0xD4, 0x4B, 0x09, 0x00, 0x02],
         [0x05, 0x00, 0x10, 0xF8, 0xB4, 0x65, 0x2F, 0x4B, 0x17, 0x07, 0x00, 0xE0, 0x5E, 0xBE, 0xAD, 0x0F, 0x4C, 0x17],
         [0x04, 0x00, 0x01, 0x47, 0x42, 0x58, 0x0A, 0x04, 0x00, 0x01, 0x6F, 0x2C, 0x04, 0x00, 0x05, 0x00, 0x00, 0x12],
         [0x00, 0x02, 0xAE, 0xA4, 0x09, 0x00, 0x01, 0x01, 0xFF, 0xFF, 0xFF, 0xFF, 0xFF, 0xFF, 0xFF, 0x7F, 0xFF, 0xFF],
         [0xFF, 0x7F, 0x0F, 0x78, 0x09, 0x00, 0x02, 0x01, 0xFF, 0xFF, 0xFF, 0xFF, 0xFF, 0xFF, 0xFF, 0x7F, 0xFF, 0xFF],
         [0xFF, 0x7F]])]"

text \<open>\<^verbatim>\<open>test/incremental.cpp\<close>\<close>

definition test_incremental_batched :: bytes where
  "test_incremental_batched = datagram [0x0E, 0x00, 0x00, 0x00, 0x7E, 0x8D, 0x4E, 0x9B, 0x55, 0x31, 0x41, 0x17]
     [([0x08, 0x03, 0x3B, 0x00, 0x34, 0x00, 0x01, 0x00, 0x09, 0x00], lines_of
        [[0xE3, 0xDC, 0x2C, 0x00, 0x64, 0x00, 0x00, 0x00, 0x9A, 0x2F, 0x00, 0x00, 0x3E, 0x38, 0x0C, 0x00, 0x6F, 0xA6],
         [0x7C, 0x96, 0x55, 0x31, 0x41, 0x17, 0xC0, 0xD1, 0xD4, 0xBC, 0x7D, 0xFC, 0x40, 0x17, 0xC2, 0x4B, 0x11, 0xFF],
         [0xFF, 0xFF, 0xFF, 0xFF, 0xFF, 0xFF, 0x7F, 0xFF, 0xFF, 0xFF, 0xFF, 0xFF, 0xFF, 0xFF, 0x7F, 0x00, 0x65, 0xCD],
         [0x1D, 0x00, 0x00, 0x00, 0x00, 0x16, 0x00, 0x20, 0xD0, 0x23, 0xF6, 0xF2, 0xFF, 0xFF, 0xFF, 0xFF, 0x02, 0x00],
         [0x00, 0x00, 0x01, 0x00, 0x00, 0x00, 0x01, 0xFF, 0xFF, 0xFF, 0x80, 0x30, 0xA8, 0xB8, 0x07, 0xF2, 0xFF, 0xFF],
         [0xFF, 0xFF, 0x04, 0x00, 0x00, 0x00, 0x02, 0x00, 0x00, 0x00, 0x02, 0xFF, 0xFF, 0xFF, 0x80, 0x30, 0x80, 0x4D],
         [0x19, 0xF1, 0xFF, 0xFF, 0xFF, 0xFF, 0x02, 0x00, 0x00, 0x00, 0x01, 0x00, 0x00, 0x00, 0x03, 0xFF, 0xFF, 0xFF],
         [0x80, 0x30, 0x58, 0xE2, 0x2A, 0xF0, 0xFF, 0xFF, 0xFF, 0xFF, 0x02, 0x00, 0x00, 0x00, 0x01, 0x00, 0x00, 0x00],
         [0x04, 0xFF, 0xFF, 0xFF, 0x80, 0x30, 0x30, 0x77, 0x3C, 0xEF, 0xFF, 0xFF, 0xFF, 0xFF, 0x02, 0x00, 0x00, 0x00],
         [0x01, 0x00, 0x00, 0x00, 0x05, 0xFF, 0xFF, 0xFF, 0x80, 0x30, 0x08, 0x0C, 0x4E, 0xEE, 0xFF, 0xFF, 0xFF, 0xFF],
         [0x02, 0x00, 0x00, 0x00, 0x01, 0x00, 0x00, 0x00, 0x06, 0xFF, 0xFF, 0xFF, 0x80, 0x30, 0xE0, 0xA0, 0x5F, 0xED],
         [0xFF, 0xFF, 0xFF, 0xFF, 0x02, 0x00, 0x00, 0x00, 0x01, 0x00, 0x00, 0x00, 0x07, 0xFF, 0xFF, 0xFF, 0x80, 0x30],
         [0xB8, 0x35, 0x71, 0xEC, 0xFF, 0xFF, 0xFF, 0xFF, 0x02, 0x00, 0x00, 0x00, 0x01, 0x00, 0x00, 0x00, 0x08, 0xFF],
         [0xFF, 0xFF, 0x80, 0x30, 0x90, 0xCA, 0x82, 0xEB, 0xFF, 0xFF, 0xFF, 0xFF, 0x02, 0x00, 0x00, 0x00, 0x01, 0x00],
         [0x00, 0x00, 0x09, 0xFF, 0xFF, 0xFF, 0x80, 0x30, 0x68, 0x5F, 0x94, 0xEA, 0xFF, 0xFF, 0xFF, 0xFF, 0x02, 0x00],
         [0x00, 0x00, 0x01, 0x00, 0x00, 0x00, 0x0A, 0xFF, 0xFF, 0xFF, 0x80, 0x30, 0x20, 0xFA, 0xD2, 0xF4, 0xFF, 0xFF],
         [0xFF, 0xFF, 0x04, 0x00, 0x00, 0x00, 0x02, 0x00, 0x00, 0x00, 0x01, 0xFF, 0xFF, 0xFF, 0x80, 0x31, 0x48, 0x65],
         [0xC1, 0xF5, 0xFF, 0xFF, 0xFF, 0xFF, 0x02, 0x00, 0x00, 0x00, 0x01, 0x00, 0x00, 0x00, 0x02, 0xFF, 0xFF, 0xFF],
         [0x80, 0x31, 0x70, 0xD0, 0xAF, 0xF6, 0xFF, 0xFF, 0xFF, 0xFF, 0x02, 0x00, 0x00, 0x00, 0x01, 0x00, 0x00, 0x00],
         [0x03, 0xFF, 0xFF, 0xFF, 0x80, 0x31, 0x98, 0x3B, 0x9E, 0xF7, 0xFF, 0xFF, 0xFF, 0xFF, 0x02, 0x00, 0x00, 0x00],
         [0x01, 0x00, 0x00, 0x00, 0x04, 0xFF, 0xFF, 0xFF, 0x80, 0x31, 0xC0, 0xA6, 0x8C, 0xF8, 0xFF, 0xFF, 0xFF, 0xFF],
         [0x02, 0x00, 0x00, 0x00, 0x01, 0x00, 0x00, 0x00, 0x05, 0xFF, 0xFF, 0xFF, 0x80, 0x31, 0xE8, 0x11, 0x7B, 0xF9],
         [0xFF, 0xFF, 0xFF, 0xFF, 0x02, 0x00, 0x00, 0x00, 0x01, 0x00, 0x00, 0x00, 0x06, 0xFF, 0xFF, 0xFF, 0x80, 0x31],
         [0x10, 0x7D, 0x69, 0xFA, 0xFF, 0xFF, 0xFF, 0xFF, 0x02, 0x00, 0x00, 0x00, 0x01, 0x00, 0x00, 0x00, 0x07, 0xFF],
         [0xFF, 0xFF, 0x80, 0x31, 0x38, 0xE8, 0x57, 0xFB, 0xFF, 0xFF, 0xFF, 0xFF, 0x02, 0x00, 0x00, 0x00, 0x01, 0x00],
         [0x00, 0x00, 0x08, 0xFF, 0xFF, 0xFF, 0x80, 0x31, 0x60, 0x53, 0x46, 0xFC, 0xFF, 0xFF, 0xFF, 0xFF, 0x02, 0x00],
         [0x00, 0x00, 0x01, 0x00, 0x00, 0x00, 0x09, 0xFF, 0xFF, 0xFF, 0x80, 0x31, 0x88, 0xBE, 0x34, 0xFD, 0xFF, 0xFF],
         [0xFF, 0xFF, 0x02, 0x00, 0x00, 0x00, 0x01, 0x00, 0x00, 0x00, 0x0A, 0xFF, 0xFF, 0xFF, 0x80, 0x31, 0xA8, 0xB8],
         [0x07, 0xF2, 0xFF, 0xFF, 0xFF, 0xFF, 0xAF, 0x00, 0x00, 0x00, 0xFF, 0xFF, 0xFF, 0x7F, 0x01, 0xFF, 0xFF, 0xFF],
         [0x80, 0x45, 0x80, 0x4D, 0x19, 0xF1, 0xFF, 0xFF, 0xFF, 0xFF, 0x19, 0x01, 0x00, 0x00, 0xFF, 0xFF, 0xFF, 0x7F],
         [0x02, 0xFF, 0xFF, 0xFF, 0x80, 0x45, 0xF8, 0x8E, 0xE4, 0xF3, 0xFF, 0xFF, 0xFF, 0xFF, 0x18, 0x01, 0x00, 0x00],
         [0xFF, 0xFF, 0xFF, 0x7F, 0x01, 0xFF, 0xFF, 0xFF, 0x80, 0x46, 0x20, 0xFA, 0xD2, 0xF4, 0xFF, 0xFF, 0xFF, 0xFF],
         [0x0B, 0x00, 0x00, 0x00, 0xFF, 0xFF, 0xFF, 0x7F, 0x02, 0xFF, 0xFF, 0xFF, 0x80, 0x46, 0x10, 0x7D, 0x69, 0xFA],
         [0xFF, 0xFF, 0xFF, 0xFF, 0xFF, 0xFF, 0xFF, 0x7F, 0xFF, 0xFF, 0xFF, 0x7F, 0x7F, 0xFF, 0xFF, 0xFF, 0x80, 0x37],
         [0xC0, 0xA6, 0x8C, 0xF8, 0xFF, 0xFF, 0xFF, 0xFF, 0xFF, 0xFF, 0xFF, 0x7F, 0xFF, 0xFF, 0xFF, 0x7F, 0x7F, 0xFF],
         [0xFF, 0xFF, 0x80, 0x38, 0xD8, 0x94, 0x11, 0xFF, 0xFF, 0xFF, 0xFF, 0xFF, 0xFF, 0xFF, 0xFF, 0x7F, 0xFF, 0xFF],
         [0xFF, 0x7F, 0x7F, 0xFF, 0xFF, 0xFF, 0x80, 0x4E, 0x20, 0xFA, 0xD2, 0xF4, 0xFF, 0xFF, 0xFF, 0xFF, 0xFF, 0xFF],
         [0xFF, 0x7F, 0xFF, 0xFF, 0xFF, 0x7F, 0x7F, 0xFF, 0xFF, 0xFF, 0x80, 0x4F, 0xC0, 0xA6, 0x8C, 0xF8, 0xFF, 0xFF],
         [0xFF, 0xFF, 0x02, 0x00, 0x00, 0x00, 0xFF, 0xFF, 0xFF, 0x7F, 0x7F, 0xFF, 0xFF, 0xFF, 0x80, 0x32, 0xFF, 0xFF],
         [0xFF, 0xFF, 0xFF, 0xFF, 0xFF, 0x7F, 0x06, 0x00, 0x00, 0x00, 0xFF, 0xFF, 0xFF, 0x7F, 0x7F, 0xFF, 0xFF, 0xFF],
         [0x80, 0x65, 0x10, 0x7D, 0x69, 0xFA, 0xFF, 0xFF, 0xFF, 0xFF, 0xFF, 0xFF, 0xFF, 0x7F, 0xFF, 0xFF, 0xFF, 0x7F],
         [0x7F, 0xFF, 0xFF, 0x00, 0x80, 0x34, 0x00, 0x00, 0x00, 0x00, 0x00, 0x00, 0x00, 0x00, 0xFF, 0xFF, 0xFF, 0x7F],
         [0xFF, 0xFF, 0xFF, 0x7F, 0x7F, 0xBF, 0x4B, 0xFF, 0x03, 0x36]]),
      ([0xB6, 0x00, 0x3B, 0x00, 0x34, 0x00, 0x01, 0x00, 0x09, 0x00], lines_of
        [[0x02, 0xDD, 0x2C, 0x00, 0x64, 0x00, 0x00, 0x00, 0x62, 0x30, 0x00, 0x00, 0x57, 0x62, 0x01, 0x00, 0x5F, 0x8A],
         [0xFB, 0x95, 0x55, 0x31, 0x41, 0x17, 0xC0, 0xD1, 0xD4, 0xBC, 0x7D, 0xFC, 0x40, 0x17, 0xC2, 0x4B, 0x11, 0xFF],
         [0xFF, 0xFF, 0xFF, 0xFF, 0xFF, 0xFF, 0x7F, 0xFF, 0xFF, 0xFF, 0xFF, 0xFF, 0xFF, 0xFF, 0x7F, 0x00, 0x65, 0xCD],
         [0x1D, 0x00, 0x00, 0x00, 0x00, 0x16, 0x00, 0x05, 0x98, 0x3B, 0x9E, 0xF7, 0xFF, 0xFF, 0xFF, 0xFF, 0x02, 0x00],
         [0x00, 0x00, 0xFF, 0xFF, 0xFF, 0x7F, 0x01, 0xFF, 0xFF, 0xFF, 0x80, 0x45, 0xCE, 0xA0, 0x62, 0xF7, 0xFF, 0xFF],
         [0xFF, 0xFF, 0x02, 0x00, 0x00, 0x00, 0xFF, 0xFF, 0xFF, 0x7F, 0x02, 0xFF, 0xFF, 0xFF, 0x80, 0x45, 0xC0, 0xA6],
         [0x8C, 0xF8, 0xFF, 0xFF, 0xFF, 0xFF, 0x01, 0x00, 0x00, 0x00, 0xFF, 0xFF, 0xFF, 0x7F, 0x01, 0xFF, 0xFF, 0xFF],
         [0x80, 0x46, 0x8A, 0x41, 0xC8, 0xF8, 0xFF, 0xFF, 0xFF, 0xFF, 0x03, 0x00, 0x00, 0x00, 0xFF, 0xFF, 0xFF, 0x7F],
         [0x02, 0xFF, 0xFF, 0xFF, 0x80, 0x46, 0x00, 0x00, 0x00, 0x00, 0x00, 0x00, 0x00, 0x00, 0xFF, 0xFF, 0xFF, 0x7F],
         [0xFF, 0xFF, 0xFF, 0x7F, 0x7F, 0xBF, 0x4B, 0xFF, 0x03, 0x36]])]"

definition test_incremental_simple :: bytes where
  "test_incremental_simple = datagram [0x03, 0xDD, 0x2C, 0x00, 0xE8, 0xF2, 0x7E, 0x9B, 0x55, 0x31, 0x41, 0x17]
     [([0x60, 0x00, 0x0B, 0x00, 0x30, 0x00, 0x01, 0x00, 0x09, 0x00], lines_of
        [[0xCD, 0xD3, 0x7B, 0x9B, 0x55, 0x31, 0x41, 0x17, 0x01, 0x00, 0x00, 0x20, 0x00, 0x01, 0x14, 0x85, 0x78, 0x52],
         [0x19, 0x00, 0x00, 0x00, 0x25, 0x00, 0x00, 0x00, 0x6E, 0x84, 0x07, 0x00, 0x20, 0x1F, 0x09, 0x00, 0x02, 0x00],
         [0x00, 0x00, 0x02, 0x00, 0xE2, 0xF0, 0x0B, 0x00, 0x00, 0x00, 0x10, 0x00, 0x00, 0x00, 0x00, 0x00, 0x00, 0x02],
         [0x20, 0x29, 0x4E, 0x80, 0xA6, 0x07, 0x00, 0x00, 0x25, 0x00, 0x00, 0x00, 0x00, 0x00, 0x00, 0x00, 0xE9, 0x1F],
         [0x9D, 0x7F, 0xA6, 0x07, 0x00, 0x00, 0x25, 0x00, 0x00, 0x00, 0x00, 0x00, 0x00, 0x00]])]"

definition test_incremental_complex :: bytes where
  "test_incremental_complex = datagram [0x04, 0xDD, 0x2C, 0x00, 0x4A, 0xED, 0x7F, 0x9B, 0x55, 0x31, 0x41, 0x17]
     [([0x28, 0x00, 0x0B, 0x00, 0x25, 0x00, 0x01, 0x00, 0x09, 0x00], lines_of
        [[0xCD, 0xD3, 0x7B, 0x9B, 0x55, 0x31, 0x41, 0x17, 0x02, 0x00, 0x00, 0x10, 0x00, 0x01, 0xBC, 0xBC, 0x03, 0x00],
         [0x6E, 0x84, 0x07, 0x00, 0x21, 0x1F, 0x09, 0x00, 0x00, 0x00, 0x00, 0x00]]),
      ([0x58, 0x00, 0x0B, 0x00, 0x2E, 0x00, 0x01, 0x00, 0x09, 0x00], lines_of
        [[0xCD, 0xD3, 0x7B, 0x9B, 0x55, 0x31, 0x41, 0x17, 0x04, 0x00, 0x00, 0x20, 0x00, 0x01, 0x14, 0x85, 0x78, 0x52],
         [0x19, 0x00, 0x00, 0x00, 0x2F, 0x01, 0x00, 0x00, 0x6E, 0x84, 0x07, 0x00, 0x22, 0x1F, 0x09, 0x00, 0x27, 0x00],
         [0x00, 0x00, 0x01, 0x01, 0x30, 0x00, 0x00, 0x00, 0x00, 0x00, 0x18, 0x00, 0x00, 0x00, 0x00, 0x00, 0x00, 0x01],
         [0xE9, 0x1F, 0x9D, 0x7F, 0xA6, 0x07, 0x00, 0x00, 0x88, 0xFC, 0x76, 0xC5, 0x04, 0x00, 0x00, 0x00, 0x2E, 0x00],
         [0x00, 0x00, 0x01, 0x01, 0x00, 0x00]]),
      ([0xA0, 0x01, 0x0B, 0x00, 0x2E, 0x00, 0x01, 0x00, 0x09, 0x00], lines_of
        [[0xCD, 0xD3, 0x7B, 0x9B, 0x55, 0x31, 0x41, 0x17, 0x90, 0x00, 0x00, 0x20, 0x00, 0x0C, 0xC8, 0x17, 0xA8, 0x04],
         [0x00, 0x00, 0x00, 0x00, 0x2F, 0x01, 0x00, 0x00, 0x7B, 0x22, 0x00, 0x00, 0x3D, 0xA4, 0x0D, 0x00, 0xFF, 0xFF],
         [0xFF, 0x7F, 0x01, 0x01, 0x45, 0x00, 0x00, 0x00, 0x00, 0x00, 0x34, 0xE2, 0x30, 0x04, 0x00, 0x00, 0x00, 0x00],
         [0x42, 0x02, 0x00, 0x00, 0x7B, 0x22, 0x00, 0x00, 0x3E, 0xA4, 0x0D, 0x00, 0xFF, 0xFF, 0xFF, 0x7F, 0x02, 0x01],
         [0x45, 0x00, 0x00, 0x00, 0x00, 0x00, 0xCA, 0x9A, 0x3B, 0x00, 0x00, 0x00, 0x00, 0x00, 0x0D, 0x00, 0x00, 0x00],
         [0xB2, 0x23, 0x00, 0x00, 0x24, 0xEE, 0x07, 0x00, 0xFF, 0xFF, 0xFF, 0x7F, 0x02, 0x01, 0x46, 0x00, 0x00, 0x00],
         [0x00, 0x00, 0x60, 0x53, 0x46, 0xFC, 0xFF, 0xFF, 0xFF, 0xFF, 0x65, 0x00, 0x00, 0x00, 0xB8, 0x25, 0x00, 0x00],
         [0xF1, 0x49, 0x0B, 0x00, 0xFF, 0xFF, 0xFF, 0x7F, 0x01, 0x01, 0x45, 0x00, 0x00, 0x00, 0x00, 0x00, 0xC0, 0xA6],
         [0x8C, 0xF8, 0xFF, 0xFF, 0xFF, 0xFF, 0x97, 0x00, 0x00, 0x00, 0x55, 0x29, 0x00, 0x00, 0xEE, 0x4A, 0x0B, 0x00],
         [0xFF, 0xFF, 0xFF, 0x7F, 0x01, 0x01, 0x45, 0x00, 0x00, 0x00, 0x00, 0x00, 0x44, 0x5F, 0x9A, 0xFE, 0xFF, 0xFF],
         [0xFF, 0xFF, 0x39, 0x00, 0x00, 0x00, 0xA0, 0x29, 0x00, 0x00, 0x0E, 0xCA, 0x08, 0x00, 0xFF, 0xFF, 0xFF, 0x7F],
         [0x02, 0x01, 0x46, 0x00, 0x00, 0x00, 0x00, 0x00, 0x98, 0x3B, 0x9E, 0xF7, 0xFF, 0xFF, 0xFF, 0xFF, 0x65, 0x00],
         [0x00, 0x00, 0xE4, 0x30, 0x00, 0x00, 0xA2, 0xED, 0x0B, 0x00, 0xFF, 0xFF, 0xFF, 0x7F, 0x01, 0x01, 0x45, 0x00],
         [0x00, 0x00, 0x00, 0x00, 0x04, 0x06, 0x27, 0xF7, 0xFF, 0xFF, 0xFF, 0xFF, 0x4A, 0x00, 0x00, 0x00, 0xE4, 0x30],
         [0x00, 0x00, 0xA3, 0xED, 0x0B, 0x00, 0xFF, 0xFF, 0xFF, 0x7F, 0x02, 0x01, 0x45, 0x00, 0x00, 0x00, 0x00, 0x00],
         [0x3C, 0xEE, 0x7E, 0xF2, 0xFF, 0xFF, 0xFF, 0xFF, 0x15, 0x00, 0x00, 0x00, 0xF9, 0x34, 0x00, 0x00, 0x9C, 0x02],
         [0x08, 0x00, 0xFF, 0xFF, 0xFF, 0x7F, 0x02, 0x01, 0x45, 0x00, 0x00, 0x00, 0x00, 0x00, 0xE8, 0x11, 0x7B, 0xF9],
         [0xFF, 0xFF, 0xFF, 0xFF, 0x11, 0x00, 0x00, 0x00, 0xDC, 0x37, 0x00, 0x00, 0x5D, 0x1C, 0x0E, 0x00, 0xFF, 0xFF],
         [0xFF, 0x7F, 0x02, 0x01, 0x45, 0x00, 0x00, 0x00, 0x00, 0x00, 0x50, 0xD6, 0xDC, 0x01, 0x00, 0x00, 0x00, 0x00],
         [0x14, 0x00, 0x00, 0x00, 0xA8, 0x3A, 0x00, 0x00, 0x9F, 0xE5, 0x0A, 0x00, 0xFF, 0xFF, 0xFF, 0x7F, 0x02, 0x01],
         [0x46, 0x00, 0x00, 0x00, 0x00, 0x00, 0xB0, 0x1D, 0x11, 0x89, 0x1A, 0x00, 0x00, 0x00, 0x35, 0x00, 0x00, 0x00],
         [0xA2, 0x11, 0x06, 0x00, 0xB9, 0x3B, 0x13, 0x00, 0xFF, 0xFF, 0xFF, 0x7F, 0x02, 0x01, 0x45, 0x00, 0x00, 0x00],
         [0x00, 0x00, 0x18, 0x00, 0x00, 0x00, 0x00, 0x00, 0x00, 0x00]]),
      ([0x70, 0x00, 0x0B, 0x00, 0x30, 0x00, 0x01, 0x00, 0x09, 0x00], lines_of
        [[0x3B, 0x08, 0x7C, 0x9B, 0x55, 0x31, 0x41, 0x17, 0x01, 0x00, 0x00, 0x20, 0x00, 0x01, 0x00, 0xF4, 0xED, 0x8A],
         [0x1A, 0x00, 0x00, 0x00, 0x08, 0x00, 0x00, 0x00, 0xA2, 0x11, 0x06, 0x00, 0xBA, 0x3B, 0x13, 0x00, 0x03, 0x00],
         [0x00, 0x00, 0x02, 0x00, 0xE3, 0xF0, 0x0B, 0x00, 0x00, 0x00, 0x10, 0x00, 0x00, 0x00, 0x00, 0x00, 0x00, 0x03],
         [0x21, 0x29, 0x4E, 0x80, 0xA6, 0x07, 0x00, 0x00, 0x08, 0x00, 0x00, 0x00, 0x00, 0x00, 0x00, 0x00, 0x61, 0x3E],
         [0x08, 0x7F, 0xA6, 0x07, 0x00, 0x00, 0x03, 0x00, 0x00, 0x00, 0x00, 0x00, 0x00, 0x00, 0xE6, 0x2D, 0x09, 0x7F],
         [0xA6, 0x07, 0x00, 0x00, 0x05, 0x00, 0x00, 0x00, 0x00, 0x00, 0x00, 0x00]]),
      ([0x28, 0x00, 0x0B, 0x00, 0x25, 0x00, 0x01, 0x00, 0x09, 0x00], lines_of
        [[0x3B, 0x08, 0x7C, 0x9B, 0x55, 0x31, 0x41, 0x17, 0x02, 0x00, 0x00, 0x10, 0x00, 0x01, 0x06, 0x0E, 0x05, 0x00],
         [0xA2, 0x11, 0x06, 0x00, 0xBB, 0x3B, 0x13, 0x00, 0x00, 0x00, 0x00, 0x00]]),
      ([0x68, 0x00, 0x0B, 0x00, 0x2F, 0x00, 0x01, 0x00, 0x09, 0x00], lines_of
        [[0x3B, 0x08, 0x7C, 0x9B, 0x55, 0x31, 0x41, 0x17, 0x04, 0x00, 0x00, 0x28, 0x00, 0x02, 0x61, 0x3E, 0x08, 0x7F],
         [0xA6, 0x07, 0x00, 0x00, 0x7D, 0x09, 0x8D, 0xC4, 0x04, 0x00, 0x00, 0x00, 0x00, 0xF4, 0xED, 0x8A, 0x1A, 0x00],
         [0x00, 0x00, 0x03, 0x00, 0x00, 0x00, 0xA2, 0x11, 0x06, 0x00, 0x02, 0x30, 0x00, 0x00, 0x00, 0x00, 0x00, 0x00],
         [0xE6, 0x2D, 0x09, 0x7F, 0xA6, 0x07, 0x00, 0x00, 0x9D, 0x58, 0x8E, 0xC4, 0x04, 0x00, 0x00, 0x00, 0x00, 0xF4],
         [0xED, 0x8A, 0x1A, 0x00, 0x00, 0x00, 0x1B, 0x01, 0x00, 0x00, 0xA2, 0x11, 0x06, 0x00, 0x01, 0x30, 0x00, 0x00],
         [0x00, 0x00, 0x00, 0x00]]),
      ([0x40, 0x00, 0x0B, 0x00, 0x2E, 0x00, 0x01, 0x00, 0x09, 0x00], lines_of
        [[0x3B, 0x08, 0x7C, 0x9B, 0x55, 0x31, 0x41, 0x17, 0x04, 0x00, 0x00, 0x20, 0x00, 0x01, 0x00, 0xF4, 0xED, 0x8A],
         [0x1A, 0x00, 0x00, 0x00, 0x5B, 0x09, 0x00, 0x00, 0xA2, 0x11, 0x06, 0x00, 0xBC, 0x3B, 0x13, 0x00, 0x8A, 0x00],
         [0x00, 0x00, 0x01, 0x01, 0x30, 0x00, 0x00, 0x00, 0x00, 0x00, 0x18, 0x00, 0x00, 0x00, 0x00, 0x00, 0x00, 0x00]])]"

definition test_incremental_46_with_orders :: bytes where
  "test_incremental_46_with_orders = datagram [0x0F, 0x98, 0x06, 0x01, 0x37, 0x7B, 0x57, 0x32, 0x9A, 0x7F, 0x41, 0x17]
     [([0x58, 0x00, 0x0B, 0x00, 0x2E, 0x00, 0x01, 0x00, 0x09, 0x00], lines_of
        [[0x89, 0xFB, 0x55, 0x32, 0x9A, 0x7F, 0x41, 0x17, 0x04, 0x00, 0x00, 0x20, 0x00, 0x01, 0xE0, 0x94, 0x4D, 0x78],
         [0x1A, 0x00, 0x00, 0x00, 0xCA, 0x06, 0x00, 0x00, 0xA2, 0x11, 0x06, 0x00, 0x65, 0xC8, 0x55, 0x00, 0x78, 0x00],
         [0x00, 0x00, 0x06, 0x01, 0x31, 0x00, 0x00, 0x00, 0x00, 0x00, 0x18, 0x00, 0x00, 0x00, 0x00, 0x00, 0x00, 0x01],
         [0x99, 0xC1, 0xAD, 0x80, 0xA6, 0x07, 0x00, 0x00, 0x0E, 0x5E, 0x2D, 0xC7, 0x04, 0x00, 0x00, 0x00, 0x19, 0x00],
         [0x00, 0x00, 0x01, 0x00, 0x00, 0x00]]),
      ([0x20, 0x00, 0x0B, 0x00, 0x2E, 0x00, 0x01, 0x00, 0x09, 0x00], lines_of
        [[0x89, 0xFB, 0x55, 0x32, 0x9A, 0x7F, 0x41, 0x17, 0x80, 0x00, 0x00, 0x20, 0x00, 0x00, 0x18, 0x00, 0x00, 0x00],
         [0x00, 0x00, 0x00, 0x00]])]"

text \<open>\<^verbatim>\<open>test/mdp.cpp\<close>\<close>

definition test_mdp_incremental_refresh_book_46_test_1 :: bytes where
  "test_mdp_incremental_refresh_book_46_test_1 = datagram [0xC6, 0xEF, 0x0F, 0x00, 0x05, 0x81, 0x88, 0x3D, 0x49, 0x42, 0x07, 0x17]
     [([0x58, 0x00, 0x0B, 0x00, 0x2E, 0x00, 0x01, 0x00, 0x09, 0x00], lines_of
        [[0x11, 0x34, 0x87, 0x3D, 0x49, 0x42, 0x07, 0x17, 0x04, 0x00, 0x00, 0x20, 0x00, 0x01, 0x00, 0x16, 0xF8, 0xF3],
         [0xB1, 0x3C, 0x00, 0x00, 0x02, 0x00, 0x00, 0x00, 0xFF, 0x78, 0x00, 0x00, 0x5E, 0x3B, 0x01, 0x00, 0x01, 0x00],
         [0x00, 0x00, 0x02, 0x00, 0x31, 0x00, 0x00, 0x00, 0x00, 0x00, 0x18, 0x00, 0x00, 0x00, 0x00, 0x00, 0x00, 0x01],
         [0x9B, 0x5F, 0x5E, 0xA4, 0xA4, 0x00, 0x00, 0x00, 0x7E, 0x44, 0x46, 0xEE, 0x03, 0x00, 0x00, 0x00, 0x02, 0x00],
         [0x00, 0x00, 0x01, 0x00, 0x00, 0x00]]),
      ([0x20, 0x00, 0x0B, 0x00, 0x2E, 0x00, 0x01, 0x00, 0x09, 0x00], lines_of
        [[0x11, 0x34, 0x87, 0x3D, 0x49, 0x42, 0x07, 0x17, 0x80, 0x00, 0x00, 0x20, 0x00, 0x00, 0x18, 0x00, 0x00, 0x00],
         [0x00, 0x00, 0x00, 0x00]])]"

definition test_mdp_incremental_refresh_book_46_test_2 :: bytes where
  "test_mdp_incremental_refresh_book_46_test_2 = datagram [0xC9, 0xEF, 0x0F, 0x00, 0x3E, 0x21, 0x5F, 0x40, 0x49, 0x42, 0x07, 0x17]
     [([0x58, 0x00, 0x0B, 0x00, 0x2E, 0x00, 0x01, 0x00, 0x09, 0x00], lines_of
        [[0x07, 0x93, 0x5D, 0x40, 0x49, 0x42, 0x07, 0x17, 0x04, 0x00, 0x00, 0x20, 0x00, 0x01, 0x00, 0xFE, 0x46, 0x07],
         [0x40, 0x00, 0x00, 0x00, 0x02, 0x00, 0x00, 0x00, 0x46, 0xD7, 0x04, 0x00, 0x92, 0x37, 0x00, 0x00, 0x02, 0x00],
         [0x00, 0x00, 0x01, 0x01, 0x30, 0x00, 0x00, 0x00, 0x00, 0x00, 0x18, 0x00, 0x00, 0x00, 0x00, 0x00, 0x00, 0x01],
         [0x9E, 0x5F, 0x5E, 0xA4, 0xA4, 0x00, 0x00, 0x00, 0x83, 0x44, 0x46, 0xEE, 0x03, 0x00, 0x00, 0x00, 0x01, 0x00],
         [0x00, 0x00, 0x01, 0x00, 0x00, 0x00]]),
      ([0xE0, 0x00, 0x0B, 0x00, 0x2E, 0x00, 0x01, 0x00, 0x09, 0x00], lines_of
        [[0x07, 0x93, 0x5D, 0x40, 0x49, 0x42, 0x07, 0x17, 0x90, 0x00, 0x00, 0x20, 0x00, 0x06, 0x00, 0x22, 0x49, 0x84],
         [0xBF, 0xFB, 0xFF, 0xFF, 0x01, 0x00, 0x00, 0x00, 0x1F, 0x37, 0x00, 0x00, 0x5E, 0x16, 0x00, 0x00, 0xFF, 0xFF],
         [0xFF, 0x7F, 0x02, 0x00, 0x46, 0x00, 0x00, 0x00, 0x00, 0x00, 0x00, 0x50, 0x7F, 0x09, 0xBA, 0xFE, 0xFF, 0xFF],
         [0x01, 0x00, 0x00, 0x00, 0x7A, 0x63, 0x00, 0x00, 0x16, 0x0B, 0x00, 0x00, 0xFF, 0xFF, 0xFF, 0x7F, 0x02, 0x00],
         [0x45, 0x00, 0x00, 0x00, 0x00, 0x00, 0x00, 0xF0, 0xFA, 0x06, 0x39, 0x5C, 0x00, 0x00, 0x02, 0x00, 0x00, 0x00],
         [0xF6, 0x66, 0x00, 0x00, 0x73, 0x57, 0x00, 0x00, 0xFF, 0xFF, 0xFF, 0x7F, 0x01, 0x01, 0x46, 0x00, 0x00, 0x00],
         [0x00, 0x00, 0x00, 0xAA, 0x18, 0xD9, 0x3E, 0x5C, 0x00, 0x00, 0x01, 0x00, 0x00, 0x00, 0xF6, 0x66, 0x00, 0x00],
         [0x74, 0x57, 0x00, 0x00, 0xFF, 0xFF, 0xFF, 0x7F, 0x02, 0x02, 0x46, 0x00, 0x00, 0x00, 0x00, 0x00, 0x00, 0x64],
         [0x36, 0xAB, 0x44, 0x5C, 0x00, 0x00, 0x05, 0x00, 0x00, 0x00, 0xF6, 0x66, 0x00, 0x00, 0x75, 0x57, 0x00, 0x00],
         [0xFF, 0xFF, 0xFF, 0x7F, 0x02, 0x00, 0x46, 0x00, 0x00, 0x00, 0x00, 0x00, 0x00, 0x24, 0xBC, 0x9A, 0x51, 0x01],
         [0x00, 0x00, 0x01, 0x00, 0x00, 0x00, 0x37, 0x22, 0x05, 0x00, 0x75, 0x08, 0x00, 0x00, 0xFF, 0xFF, 0xFF, 0x7F],
         [0x02, 0x00, 0x45, 0x00, 0x00, 0x00, 0x00, 0x00, 0x18, 0x00, 0x00, 0x00, 0x00, 0x00, 0x00, 0x00]])]"

definition test_mdp_instrument_definition_future_54 :: bytes where
  "test_mdp_instrument_definition_future_54 = datagram [0xB0, 0x09, 0x00, 0x00, 0x2E, 0xC2, 0x7D, 0x1A, 0xCC, 0x24, 0x08, 0x17]
     [([0x0D, 0x01, 0xD8, 0x00, 0x36, 0x00, 0x01, 0x00, 0x09, 0x00], lines_of
        [[0x00, 0xB8, 0xDA, 0x00, 0x00, 0x41, 0x00, 0x32, 0x76, 0x41, 0x8F, 0xF5, 0x06, 0x17, 0x11, 0x82, 0x01, 0x4E],
         [0x10, 0x58, 0x4E, 0x59, 0x4D, 0x5A, 0x5A, 0x00, 0x00, 0x00, 0x00, 0x41, 0x34, 0x4D, 0x00, 0x00, 0x00, 0x41],
         [0x34, 0x4D, 0x4E, 0x36, 0x00, 0x00, 0x00, 0x00, 0x00, 0x00, 0x00, 0x00, 0x00, 0x00, 0x00, 0x00, 0x00, 0x00],
         [0x00, 0x7D, 0x68, 0x02, 0x00, 0x46, 0x55, 0x54, 0x00, 0x00, 0x00, 0x46, 0x43, 0x4D, 0x58, 0x53, 0x58, 0xEA],
         [0x07, 0x07, 0xFF, 0xFF, 0x55, 0x53, 0x44, 0x00, 0x00, 0x00, 0x46, 0x01, 0x00, 0x00, 0x00, 0xE7, 0x03, 0x00],
         [0x00, 0x00, 0xF2, 0x05, 0x2A, 0x01, 0x00, 0x00, 0x00, 0x80, 0x96, 0x98, 0x00, 0x00, 0x00, 0x00, 0x00, 0xFF],
         [0xFF, 0xFF, 0x4D, 0x57, 0x48, 0x00, 0x00, 0x00, 0x00, 0x00, 0x00, 0x00, 0x00, 0x00, 0x00, 0x00, 0x00, 0x00],
         [0x00, 0x00, 0x00, 0x00, 0x00, 0x00, 0x00, 0x00, 0x00, 0x00, 0x00, 0x00, 0x00, 0x00, 0x00, 0xF2, 0x05, 0x2A],
         [0x01, 0x00, 0x00, 0x00, 0x00, 0x96, 0x1B, 0x55, 0x86, 0x04, 0x00, 0x00, 0x05, 0xFF, 0xFF, 0xFF, 0x7F, 0xFF],
         [0xFF, 0xFF, 0x7F, 0xFF, 0xFF, 0xFF, 0xFF, 0xFF, 0xFF, 0xFF, 0x7F, 0x00, 0xF2, 0x05, 0x2A, 0x01, 0x00, 0x00],
         [0x00, 0x00, 0xF2, 0x05, 0x2A, 0x01, 0x00, 0x00, 0x00, 0xFF, 0xFF, 0xFF, 0x7F, 0xFF, 0xFF, 0x05, 0x00, 0x00],
         [0x00, 0xB0, 0x0E, 0x00, 0x00, 0x01, 0x7F, 0x00, 0x94, 0x35, 0x77, 0x00, 0x00, 0x00, 0x00, 0x4E, 0x02, 0x4B],
         [0x09, 0x00, 0x02, 0x05, 0x00, 0x10, 0x67, 0x2F, 0xB4, 0xED, 0x55, 0x16, 0x07, 0x00, 0x20, 0xAB, 0x18, 0x8A],
         [0xF7, 0xBD, 0x18, 0x04, 0x00, 0x01, 0x47, 0x42, 0x58, 0x0A, 0x04, 0x00, 0x01, 0x07, 0x20, 0x01, 0x00, 0x05],
         [0x00, 0x01, 0x04, 0x20, 0xA1, 0x07, 0x00]]),
      ([0x08, 0x01, 0xD8, 0x00, 0x36, 0x00, 0x01, 0x00, 0x09, 0x00], lines_of
        [[0x00, 0xB8, 0xDA, 0x00, 0x00, 0x41, 0x00, 0x32, 0x76, 0x41, 0x8F, 0xF5, 0x06, 0x17, 0x11, 0x82, 0x01, 0x4E],
         [0x0C, 0x58, 0x4E, 0x59, 0x4D, 0x5A, 0x5A, 0x00, 0x00, 0x00, 0x00, 0x41, 0x33, 0x4D, 0x00, 0x00, 0x00, 0x41],
         [0x33, 0x4D, 0x56, 0x32, 0x00, 0x00, 0x00, 0x00, 0x00, 0x00, 0x00, 0x00, 0x00, 0x00, 0x00, 0x00, 0x00, 0x00],
         [0x00, 0x44, 0x99, 0x00, 0x00, 0x46, 0x55, 0x54, 0x00, 0x00, 0x00, 0x46, 0x43, 0x58, 0x58, 0x53, 0x58, 0xE6],
         [0x07, 0x0A, 0xFF, 0xFF, 0x55, 0x53, 0x44, 0x00, 0x00, 0x00, 0x46, 0x01, 0x00, 0x00, 0x00, 0xE7, 0x03, 0x00],
         [0x00, 0x00, 0xCA, 0x9A, 0x3B, 0x00, 0x00, 0x00, 0x00, 0x10, 0x27, 0x00, 0x00, 0x00, 0x00, 0x00, 0x00, 0xFF],
         [0xFF, 0xFF, 0x47, 0x41, 0x4C, 0x00, 0x00, 0x00, 0x00, 0x00, 0x00, 0x00, 0x00, 0x00, 0x00, 0x00, 0x00, 0x00],
         [0x00, 0x00, 0x00, 0x00, 0x00, 0x00, 0x00, 0x00, 0x00, 0x00, 0x00, 0x00, 0x00, 0x00, 0x00, 0xA0, 0x14, 0xE3],
         [0x32, 0x26, 0x00, 0x00, 0x00, 0x54, 0x56, 0x5C, 0x8D, 0x75, 0x00, 0x00, 0x01, 0xFF, 0xFF, 0xFF, 0x7F, 0xFF],
         [0xFF, 0xFF, 0x7F, 0xFF, 0xFF, 0xFF, 0xFF, 0xFF, 0xFF, 0xFF, 0x7F, 0x00, 0x00, 0x00, 0x00, 0x00, 0x00, 0x00],
         [0x00, 0x00, 0x98, 0xF7, 0x3E, 0x5D, 0x01, 0x00, 0x00, 0xFF, 0xFF, 0xFF, 0x7F, 0xFF, 0xFF, 0xFF, 0xFF, 0xFF],
         [0x7F, 0xFF, 0xFF, 0xFF, 0x7F, 0x7F, 0x7F, 0x00, 0xB1, 0x08, 0x19, 0x00, 0x00, 0x00, 0x00, 0x4E, 0x02, 0x4B],
         [0x09, 0x00, 0x02, 0x05, 0x00, 0x70, 0x9A, 0x0E, 0x0B, 0x8A, 0xD2, 0x15, 0x07, 0x00, 0x90, 0x0A, 0x74, 0x1D],
         [0x4F, 0x22, 0x17, 0x04, 0x00, 0x01, 0x47, 0x42, 0x58, 0x0A, 0x04, 0x00, 0x01, 0x07, 0x20, 0x04, 0x00, 0x05],
         [0x00, 0x00]]),
      ([0x0D, 0x01, 0xD8, 0x00, 0x36, 0x00, 0x01, 0x00, 0x09, 0x00], lines_of
        [[0x00, 0xB8, 0xDA, 0x00, 0x00, 0x41, 0x00, 0x32, 0x76, 0x41, 0x8F, 0xF5, 0x06, 0x17, 0x11, 0x82, 0x01, 0x4E],
         [0x10, 0x58, 0x4E, 0x59, 0x4D, 0x5A, 0x5A, 0x00, 0x00, 0x00, 0x00, 0x41, 0x48, 0x4D, 0x00, 0x00, 0x00, 0x41],
         [0x48, 0x4D, 0x4B, 0x33, 0x00, 0x00, 0x00, 0x00, 0x00, 0x00, 0x00, 0x00, 0x00, 0x00, 0x00, 0x00, 0x00, 0x00],
         [0x00, 0xF2, 0x91, 0x02, 0x00, 0x46, 0x55, 0x54, 0x00, 0x00, 0x00, 0x46, 0x43, 0x4D, 0x58, 0x53, 0x58, 0xE7],
         [0x07, 0x05, 0xFF, 0xFF, 0x55, 0x53, 0x44, 0x00, 0x00, 0x00, 0x46, 0x01, 0x00, 0x00, 0x00, 0xE7, 0x03, 0x00],
         [0x00, 0x00, 0xF2, 0x05, 0x2A, 0x01, 0x00, 0x00, 0x00, 0x80, 0x96, 0x98, 0x00, 0x00, 0x00, 0x00, 0x00, 0xFF],
         [0xFF, 0xFF, 0x4D, 0x57, 0x48, 0x00, 0x00, 0x00, 0x00, 0x00, 0x00, 0x00, 0x00, 0x00, 0x00, 0x00, 0x00, 0x00],
         [0x00, 0x00, 0x00, 0x00, 0x00, 0x00, 0x00, 0x00, 0x00, 0x00, 0x00, 0x00, 0x00, 0x00, 0x00, 0x20, 0x5F, 0xA0],
         [0x12, 0x00, 0x00, 0x00, 0x00, 0x00, 0xB3, 0x20, 0x67, 0x06, 0x00, 0x00, 0x05, 0xFF, 0xFF, 0xFF, 0x7F, 0xFF],
         [0xFF, 0xFF, 0x7F, 0xFF, 0xFF, 0xFF, 0xFF, 0xFF, 0xFF, 0xFF, 0x7F, 0x00, 0xF2, 0x05, 0x2A, 0x01, 0x00, 0x00],
         [0x00, 0x00, 0xF2, 0x05, 0x2A, 0x01, 0x00, 0x00, 0x00, 0xFF, 0xFF, 0xFF, 0x7F, 0xFF, 0xFF, 0x50, 0x00, 0x00],
         [0x00, 0xDC, 0x00, 0x00, 0x00, 0x01, 0x7F, 0x00, 0x94, 0x35, 0x77, 0x00, 0x00, 0x00, 0x00, 0x4E, 0x02, 0x4B],
         [0x09, 0x00, 0x02, 0x05, 0x00, 0x10, 0x91, 0xF2, 0x7C, 0xE4, 0x04, 0x15, 0x07, 0x00, 0x28, 0xC7, 0x98, 0xC9],
         [0x4B, 0x5A, 0x17, 0x04, 0x00, 0x01, 0x47, 0x42, 0x58, 0x0A, 0x04, 0x00, 0x01, 0x07, 0x20, 0x05, 0x00, 0x05],
         [0x00, 0x01, 0x04, 0x20, 0xA1, 0x07, 0x00]]),
      ([0x0D, 0x01, 0xD8, 0x00, 0x36, 0x00, 0x01, 0x00, 0x09, 0x00], lines_of
        [[0x00, 0xB8, 0xDA, 0x00, 0x00, 0x41, 0x00, 0x32, 0x76, 0x41, 0x8F, 0xF5, 0x06, 0x17, 0x11, 0x82, 0x01, 0x4E],
         [0x10, 0x58, 0x4E, 0x59, 0x4D, 0x50, 0x41, 0x00, 0x00, 0x00, 0x00, 0x43, 0x32, 0x45, 0x00, 0x00, 0x00, 0x43],
         [0x32, 0x45, 0x58, 0x36, 0x00, 0x00, 0x00, 0x00, 0x00, 0x00, 0x00, 0x00, 0x00, 0x00, 0x00, 0x00, 0x00, 0x00],
         [0x00, 0xE2, 0x26, 0x01, 0x00, 0x46, 0x55, 0x54, 0x00, 0x00, 0x00, 0x46, 0x43, 0x4D, 0x58, 0x53, 0x58, 0xEA],
         [0x07, 0x0B, 0xFF, 0xFF, 0x55, 0x53, 0x44, 0x00, 0x00, 0x00, 0x4B, 0x01, 0x00, 0x00, 0x00, 0xE7, 0x03, 0x00],
         [0x00, 0x00, 0xCA, 0x9A, 0x3B, 0x00, 0x00, 0x00, 0x00, 0x80, 0x96, 0x98, 0x00, 0x00, 0x00, 0x00, 0x00, 0xFF],
         [0xFF, 0xFF, 0x4D, 0x57, 0x48, 0x00, 0x00, 0x00, 0x00, 0x00, 0x00, 0x00, 0x00, 0x00, 0x00, 0x00, 0x00, 0x00],
         [0x00, 0x00, 0x00, 0x00, 0x00, 0x00, 0x00, 0x00, 0x00, 0x00, 0x00, 0x00, 0x00, 0x00, 0x00, 0xF2, 0x05, 0x2A],
         [0x01, 0x00, 0x00, 0x00, 0x00, 0x54, 0x02, 0xEC, 0x53, 0x05, 0x00, 0x00, 0x01, 0xFF, 0xFF, 0xFF, 0x7F, 0xFF],
         [0xFF, 0xFF, 0x7F, 0xFF, 0xFF, 0xFF, 0xFF, 0xFF, 0xFF, 0xFF, 0x7F, 0x00, 0xCA, 0x9A, 0x3B, 0x00, 0x00, 0x00],
         [0x00, 0x00, 0xF2, 0x05, 0x2A, 0x01, 0x00, 0x00, 0x00, 0xFF, 0xFF, 0xFF, 0x7F, 0xFF, 0xFF, 0x05, 0x00, 0x00],
         [0x00, 0x95, 0x06, 0x00, 0x00, 0x01, 0x7F, 0x00, 0x94, 0x35, 0x77, 0x00, 0x00, 0x00, 0x00, 0x4E, 0x02, 0x4B],
         [0x09, 0x00, 0x02, 0x05, 0x00, 0x10, 0xD6, 0x96, 0xB6, 0x69, 0x4C, 0x16, 0x07, 0x00, 0x20, 0x51, 0x58, 0x57],
         [0x6A, 0xE3, 0x18, 0x04, 0x00, 0x01, 0x47, 0x42, 0x58, 0x0A, 0x04, 0x00, 0x01, 0x07, 0x20, 0x05, 0x00, 0x05],
         [0x00, 0x01, 0x04, 0x20, 0xA1, 0x07, 0x00]]),
      ([0x0D, 0x01, 0xD8, 0x00, 0x36, 0x00, 0x01, 0x00, 0x09, 0x00], lines_of
        [[0x00, 0xB8, 0xDA, 0x00, 0x00, 0x41, 0x00, 0x32, 0x76, 0x41, 0x8F, 0xF5, 0x06, 0x17, 0x11, 0x82, 0x01, 0x4E],
         [0x10, 0x58, 0x4E, 0x59, 0x4D, 0x50, 0x57, 0x00, 0x00, 0x00, 0x00, 0x4E, 0x43, 0x44, 0x00, 0x00, 0x00, 0x4E],
         [0x43, 0x44, 0x51, 0x32, 0x32, 0x38, 0x00, 0x00, 0x00, 0x00, 0x00, 0x00, 0x00, 0x00, 0x00, 0x00, 0x00, 0x00],
         [0x00, 0xAF, 0x4F, 0x02, 0x00, 0x46, 0x55, 0x54, 0x00, 0x00, 0x00, 0x46, 0x43, 0x4D, 0x58, 0x53, 0x58, 0xE6],
         [0x07, 0x08, 0x1C, 0xFF, 0x55, 0x53, 0x44, 0x00, 0x00, 0x00, 0x46, 0x01, 0x00, 0x00, 0x00, 0xE7, 0x03, 0x00],
         [0x00, 0x00, 0xCA, 0x9A, 0x3B, 0x00, 0x00, 0x00, 0x00, 0x80, 0x96, 0x98, 0x00, 0x00, 0x00, 0x00, 0x00, 0xFF],
         [0xFF, 0xFF, 0x4D, 0x57, 0x48, 0x00, 0x00, 0x00, 0x00, 0x00, 0x00, 0x00, 0x00, 0x00, 0x00, 0x00, 0x00, 0x00],
         [0x00, 0x00, 0x00, 0x00, 0x00, 0x00, 0x00, 0x00, 0x00, 0x00, 0x00, 0x00, 0x00, 0x00, 0x00, 0xF2, 0x05, 0x2A],
         [0x01, 0x00, 0x00, 0x00, 0x00, 0xA6, 0xB9, 0x2C, 0x04, 0x06, 0x00, 0x00, 0x01, 0xFF, 0xFF, 0xFF, 0x7F, 0xFF],
         [0xFF, 0xFF, 0x7F, 0xFF, 0xFF, 0xFF, 0xFF, 0xFF, 0xFF, 0xFF, 0x7F, 0xFF, 0xFF, 0xFF, 0xFF, 0xFF, 0xFF, 0xFF],
         [0x7F, 0x00, 0xD0, 0xED, 0x90, 0x2E, 0x00, 0x00, 0x00, 0xFF, 0xFF, 0xFF, 0x7F, 0xFF, 0xFF, 0x05, 0x00, 0x00],
         [0x00, 0x01, 0x00, 0x00, 0x00, 0x01, 0x7F, 0x80, 0xF0, 0xFA, 0x02, 0x00, 0x00, 0x00, 0x00, 0x4E, 0x02, 0x4B],
         [0x09, 0x00, 0x02, 0x05, 0x00, 0x70, 0x2C, 0xE9, 0x4B, 0x83, 0xFD, 0x16, 0x07, 0x00, 0x20, 0x67, 0x2B, 0xBD],
         [0x00, 0x0F, 0x17, 0x04, 0x00, 0x01, 0x47, 0x42, 0x58, 0x0A, 0x04, 0x00, 0x01, 0x4F, 0x24, 0x07, 0x00, 0x05],
         [0x00, 0x01, 0x04, 0x50, 0xC3, 0x00, 0x00]])]"

definition test_mdp_instrument_definition_spread_56 :: bytes where
  "test_mdp_instrument_definition_spread_56 = datagram [0x5A, 0x26, 0x00, 0x00, 0x27, 0x86, 0x0B, 0x6F, 0x86, 0x1F, 0x08, 0x17]
     [([0x1F, 0x01, 0xC3, 0x00, 0x38, 0x00, 0x01, 0x00, 0x09, 0x00], lines_of
        [[0x00, 0xB8, 0xDA, 0x00, 0x00, 0x41, 0x80, 0x72, 0x47, 0x21, 0x91, 0xF5, 0x06, 0x17, 0x11, 0x82, 0x01, 0x4E],
         [0x10, 0x58, 0x4E, 0x59, 0x4D, 0x50, 0x41, 0x00, 0x00, 0x00, 0x00, 0x33, 0x58, 0x57, 0x00, 0x00, 0x00, 0x33],
         [0x58, 0x57, 0x58, 0x34, 0x2D, 0x4F, 0x4D, 0x4C, 0x58, 0x34, 0x00, 0x00, 0x00, 0x00, 0x00, 0x00, 0x00, 0x00],
         [0x00, 0x78, 0x3D, 0x00, 0x00, 0x46, 0x55, 0x54, 0x00, 0x00, 0x00, 0x46, 0x4D, 0x4D, 0x58, 0x53, 0x58, 0xE8],
         [0x07, 0x0B, 0xFF, 0xFF, 0x55, 0x53, 0x44, 0x49, 0x53, 0x00, 0x00, 0x00, 0x4E, 0x4B, 0x01, 0x00, 0x00, 0x00],
         [0xE7, 0x03, 0x00, 0x00, 0x00, 0xCA, 0x9A, 0x3B, 0x00, 0x00, 0x00, 0x00, 0x80, 0x96, 0x98, 0x00, 0x00, 0x00],
         [0x00, 0x00, 0xFF, 0xFF, 0xFF, 0xFF, 0xFF, 0xFF, 0xFF, 0xFF, 0x7F, 0x7F, 0x4D, 0x57, 0x48, 0x00, 0x00, 0x00],
         [0x00, 0x00, 0x00, 0x00, 0x00, 0x00, 0x00, 0x00, 0x00, 0x00, 0x00, 0x00, 0x00, 0x00, 0x00, 0x00, 0x00, 0x00],
         [0x00, 0x00, 0x00, 0x00, 0x00, 0x00, 0x00, 0x50, 0x99, 0x7A, 0xD2, 0x00, 0x00, 0x00, 0x01, 0xFF, 0xFF, 0xFF],
         [0x7F, 0xFF, 0xFF, 0xFF, 0x7F, 0xFF, 0xFF, 0xFF, 0xFF, 0xFF, 0xFF, 0xFF, 0x7F, 0xFF, 0xFF, 0xFF, 0xFF, 0xFF],
         [0xFF, 0xFF, 0x7F, 0x00, 0xCA, 0x9A, 0x3B, 0x00, 0x00, 0x00, 0x00, 0xFF, 0xFF, 0x02, 0x4B, 0x09, 0x00, 0x02],
         [0x05, 0x00, 0x70, 0x91, 0xD8, 0x1C, 0x4F, 0xB2, 0x16, 0x07, 0x00, 0x20, 0x0B, 0xFD, 0xB0, 0x56, 0x03, 0x18],
         [0x04, 0x00, 0x01, 0x47, 0x42, 0x58, 0x0A, 0x04, 0x00, 0x01, 0x03, 0x24, 0x05, 0x00, 0x05, 0x00, 0x01, 0x04],
         [0x90, 0xD0, 0x03, 0x00, 0x12, 0x00, 0x02, 0xF8, 0x50, 0x00, 0x00, 0x01, 0x01, 0xFF, 0xFF, 0xFF, 0xFF, 0xFF],
         [0xFF, 0xFF, 0x7F, 0xFF, 0xFF, 0xFF, 0x7F, 0x09, 0x54, 0x00, 0x00, 0x02, 0x01, 0xFF, 0xFF, 0xFF, 0xFF, 0xFF],
         [0xFF, 0xFF, 0x7F, 0xFF, 0xFF, 0xFF, 0x7F]]),
      ([0x1E, 0x01, 0xC3, 0x00, 0x38, 0x00, 0x01, 0x00, 0x09, 0x00], lines_of
        [[0x00, 0xB8, 0xDA, 0x00, 0x00, 0x41, 0x80, 0x72, 0x47, 0x21, 0x91, 0xF5, 0x06, 0x17, 0x11, 0x82, 0x01, 0x4E],
         [0x10, 0x58, 0x4E, 0x59, 0x4D, 0x47, 0x55, 0x00, 0x00, 0x00, 0x00, 0x4A, 0x4B, 0x4D, 0x00, 0x00, 0x00, 0x4A],
         [0x4B, 0x4D, 0x4B, 0x33, 0x2D, 0x4A, 0x4B, 0x4D, 0x4B, 0x34, 0x00, 0x00, 0x00, 0x00, 0x00, 0x00, 0x00, 0x00],
         [0x00, 0xB2, 0x6E, 0x04, 0x00, 0x46, 0x55, 0x54, 0x00, 0x00, 0x00, 0x46, 0x4D, 0x4D, 0x58, 0x53, 0x58, 0xE7],
         [0x07, 0x05, 0xFF, 0xFF, 0x55, 0x53, 0x44, 0x53, 0x50, 0x00, 0x00, 0x00, 0x4E, 0x46, 0x01, 0x00, 0x00, 0x00],
         [0xE7, 0x03, 0x00, 0x00, 0x00, 0xF2, 0x05, 0x2A, 0x01, 0x00, 0x00, 0x00, 0x40, 0x42, 0x0F, 0x00, 0x00, 0x00],
         [0x00, 0x00, 0xFF, 0xFF, 0xFF, 0xFF, 0xFF, 0xFF, 0xFF, 0xFF, 0x7F, 0x7F, 0x43, 0x54, 0x52, 0x43, 0x54, 0x00],
         [0x00, 0x00, 0x00, 0x00, 0x00, 0x00, 0x00, 0x00, 0x00, 0x00, 0x00, 0x00, 0x00, 0x00, 0x00, 0x00, 0x00, 0x00],
         [0x00, 0x00, 0x00, 0x00, 0x00, 0x00, 0x00, 0x38, 0x39, 0xA2, 0x88, 0x0E, 0x00, 0x00, 0x01, 0xFF, 0xFF, 0xFF],
         [0x7F, 0xFF, 0xFF, 0xFF, 0x7F, 0xFF, 0xFF, 0xFF, 0xFF, 0xFF, 0xFF, 0xFF, 0x7F, 0xFF, 0xFF, 0xFF, 0xFF, 0xFF],
         [0xFF, 0xFF, 0x7F, 0x00, 0xE8, 0x76, 0x48, 0x17, 0x00, 0x00, 0x00, 0xFF, 0xFF, 0x02, 0x4B, 0x09, 0x00, 0x02],
         [0x05, 0x00, 0x70, 0xF7, 0x6B, 0x0E, 0x67, 0xEB, 0x16, 0x07, 0x00, 0x90, 0xE2, 0xCF, 0x9C, 0xE0, 0x55, 0x17],
         [0x04, 0x00, 0x02, 0x47, 0x42, 0x58, 0x0A, 0x47, 0x42, 0x49, 0x02, 0x04, 0x00, 0x01, 0x4B, 0x64, 0x0C, 0x00],
         [0x05, 0x00, 0x00, 0x12, 0x00, 0x02, 0xF2, 0x3E, 0x00, 0x00, 0x01, 0x01, 0xFF, 0xFF, 0xFF, 0xFF, 0xFF, 0xFF],
         [0xFF, 0x7F, 0xFF, 0xFF, 0xFF, 0x7F, 0x72, 0x43, 0x00, 0x00, 0x02, 0x01, 0xFF, 0xFF, 0xFF, 0xFF, 0xFF, 0xFF],
         [0xFF, 0x7F, 0xFF, 0xFF, 0xFF, 0x7F]]),
      ([0x1A, 0x01, 0xC3, 0x00, 0x38, 0x00, 0x01, 0x00, 0x09, 0x00], lines_of
        [[0x00, 0xB8, 0xDA, 0x00, 0x00, 0x41, 0x80, 0x72, 0x47, 0x21, 0x91, 0xF5, 0x06, 0x17, 0x11, 0x82, 0x01, 0x4E],
         [0x10, 0x58, 0x4E, 0x59, 0x4D, 0x46, 0x44, 0x00, 0x00, 0x00, 0x00, 0x54, 0x54, 0x42, 0x00, 0x00, 0x00, 0x54],
         [0x54, 0x42, 0x5A, 0x32, 0x2D, 0x54, 0x54, 0x42, 0x51, 0x36, 0x00, 0x00, 0x00, 0x00, 0x00, 0x00, 0x00, 0x00],
         [0x00, 0xD7, 0x74, 0x07, 0x00, 0x46, 0x55, 0x54, 0x00, 0x00, 0x00, 0x46, 0x4D, 0x4D, 0x58, 0x53, 0x58, 0xE6],
         [0x07, 0x0C, 0xFF, 0xFF, 0x55, 0x53, 0x44, 0x53, 0x50, 0x00, 0x00, 0x00, 0x4E, 0x46, 0x01, 0x00, 0x00, 0x00],
         [0xE7, 0x03, 0x00, 0x00, 0x00, 0xCA, 0x9A, 0x3B, 0x00, 0x00, 0x00, 0x00, 0x40, 0x42, 0x0F, 0x00, 0x00, 0x00],
         [0x00, 0x00, 0xFF, 0xFF, 0xFF, 0xFF, 0xFF, 0xFF, 0xFF, 0xFF, 0x7F, 0x7F, 0x4D, 0x4D, 0x42, 0x54, 0x55, 0x00],
         [0x00, 0x00, 0x00, 0x00, 0x00, 0x00, 0x00, 0x00, 0x00, 0x00, 0x00, 0x00, 0x00, 0x00, 0x00, 0x00, 0x00, 0x00],
         [0x00, 0x00, 0x00, 0x00, 0x00, 0x00, 0x00, 0x30, 0x21, 0x42, 0x25, 0x29, 0x00, 0x00, 0x03, 0xFF, 0xFF, 0xFF],
         [0x7F, 0xFF, 0xFF, 0xFF, 0x7F, 0xFF, 0xFF, 0xFF, 0xFF, 0xFF, 0xFF, 0xFF, 0x7F, 0xFF, 0xFF, 0xFF, 0xFF, 0xFF],
         [0xFF, 0xFF, 0x7F, 0x00, 0xB6, 0x17, 0xAB, 0x0E, 0x00, 0x00, 0x00, 0xFF, 0xFF, 0x07, 0x4B, 0x09, 0x00, 0x02],
         [0x05, 0x00, 0x70, 0x50, 0xD7, 0xB1, 0x3C, 0x90, 0x16, 0x07, 0x00, 0x60, 0x29, 0x79, 0x6B, 0x30, 0x2C, 0x17],
         [0x04, 0x00, 0x01, 0x47, 0x42, 0x58, 0x0A, 0x04, 0x00, 0x01, 0x4B, 0x64, 0x04, 0x00, 0x05, 0x00, 0x00, 0x12],
         [0x00, 0x02, 0xF9, 0xE6, 0x06, 0x00, 0x01, 0x01, 0xFF, 0xFF, 0xFF, 0xFF, 0xFF, 0xFF, 0xFF, 0x7F, 0xFF, 0xFF],
         [0xFF, 0x7F, 0x5C, 0xB4, 0x03, 0x00, 0x02, 0x01, 0xFF, 0xFF, 0xFF, 0xFF, 0xFF, 0xFF, 0xFF, 0x7F, 0xFF, 0xFF],
         [0xFF, 0x7F]]),
      ([0x1A, 0x01, 0xC3, 0x00, 0x38, 0x00, 0x01, 0x00, 0x09, 0x00], lines_of
        [[0x00, 0xB8, 0xDA, 0x00, 0x00, 0x41, 0x80, 0x72, 0x47, 0x21, 0x91, 0xF5, 0x06, 0x17, 0x11, 0x82, 0x01, 0x4E],
         [0x0C, 0x58, 0x4E, 0x59, 0x4D, 0x5A, 0x5A, 0x00, 0x00, 0x00, 0x00, 0x41, 0x37, 0x51, 0x00, 0x00, 0x00, 0x41],
         [0x37, 0x51, 0x46, 0x33, 0x2D, 0x41, 0x37, 0x51, 0x4D, 0x34, 0x00, 0x00, 0x00, 0x00, 0x00, 0x00, 0x00, 0x00],
         [0x00, 0xFB, 0x66, 0x05, 0x00, 0x46, 0x55, 0x54, 0x00, 0x00, 0x00, 0x46, 0x4D, 0x58, 0x58, 0x53, 0x58, 0xE7],
         [0x07, 0x01, 0xFF, 0xFF, 0x55, 0x53, 0x44, 0x53, 0x50, 0x00, 0x00, 0x00, 0x4E, 0x46, 0x01, 0x00, 0x00, 0x00],
         [0xE7, 0x03, 0x00, 0x00, 0x00, 0xCA, 0x9A, 0x3B, 0x00, 0x00, 0x00, 0x00, 0x10, 0x27, 0x00, 0x00, 0x00, 0x00],
         [0x00, 0x00, 0xFF, 0xFF, 0xFF, 0xFF, 0xFF, 0xFF, 0xFF, 0xFF, 0x7F, 0x7F, 0x47, 0x41, 0x4C, 0x00, 0x00, 0x00],
         [0x00, 0x00, 0x00, 0x00, 0x00, 0x00, 0x00, 0x00, 0x00, 0x00, 0x00, 0x00, 0x00, 0x00, 0x00, 0x00, 0x00, 0x00],
         [0x00, 0x00, 0x00, 0x00, 0x00, 0x00, 0x00, 0x90, 0x12, 0x4D, 0x7A, 0x13, 0x00, 0x00, 0x03, 0xFF, 0xFF, 0xFF],
         [0x7F, 0xFF, 0xFF, 0xFF, 0x7F, 0xFF, 0xFF, 0xFF, 0xFF, 0xFF, 0xFF, 0xFF, 0x7F, 0xFF, 0xFF, 0xFF, 0xFF, 0xFF],
         [0xFF, 0xFF, 0x7F, 0x00, 0x98, 0xF7, 0x3E, 0x5D, 0x01, 0x00, 0x00, 0xFF, 0xFF, 0x07, 0x4B, 0x09, 0x00, 0x02],
         [0x05, 0x00, 0x70, 0xEA, 0xE1, 0xE2, 0x4D, 0xF4, 0x16, 0x07, 0x00, 0x30, 0x14, 0x91, 0x85, 0x7B, 0x3F, 0x17],
         [0x04, 0x00, 0x01, 0x47, 0x42, 0x58, 0x0A, 0x04, 0x00, 0x01, 0x03, 0x24, 0x04, 0x00, 0x05, 0x00, 0x00, 0x12],
         [0x00, 0x02, 0x4A, 0xE4, 0x06, 0x00, 0x01, 0x01, 0xFF, 0xFF, 0xFF, 0xFF, 0xFF, 0xFF, 0xFF, 0x7F, 0xFF, 0xFF],
         [0xFF, 0x7F, 0x54, 0xC2, 0x01, 0x00, 0x02, 0x01, 0xFF, 0xFF, 0xFF, 0xFF, 0xFF, 0xFF, 0xFF, 0x7F, 0xFF, 0xFF],
         [0xFF, 0x7F]])]"

definition test_mdp_incremental_refresh_book_46_test_1_b :: bytes where
  "test_mdp_incremental_refresh_book_46_test_1_b = datagram [0xE0, 0x15, 0xCC, 0x17, 0x00, 0x64, 0xEC, 0x6E, 0x82, 0x65, 0x08, 0x17]
     [([0x58, 0x00, 0x0B, 0x00, 0x2E, 0x00, 0x01, 0x00, 0x09, 0x00], lines_of
        [[0x0F, 0xF0, 0xEA, 0x6E, 0x82, 0x65, 0x08, 0x17, 0x04, 0x00, 0x00, 0x20, 0x00, 0x01, 0x00, 0x25, 0x74, 0xAA],
         [0xF8, 0xFF, 0xFF, 0xFF, 0x34, 0x03, 0x00, 0x00, 0xDE, 0x57, 0x00, 0x00, 0xC2, 0xB5, 0x4D, 0x00, 0x11, 0x00],
         [0x00, 0x00, 0x01, 0x01, 0x30, 0x00, 0x00, 0x00, 0x00, 0x00, 0x18, 0x00, 0x00, 0x00, 0x00, 0x00, 0x00, 0x01],
         [0x24, 0xAE, 0xC8, 0xC5, 0x77, 0x07, 0x00, 0x00, 0xA9, 0x88, 0x92, 0xF6, 0x0B, 0x00, 0x00, 0x00, 0x6E, 0x00],
         [0x00, 0x00, 0x01, 0x00, 0x00, 0x00]]),
      ([0x60, 0x00, 0x0B, 0x00, 0x2E, 0x00, 0x01, 0x00, 0x09, 0x00], lines_of
        [[0x0F, 0xF0, 0xEA, 0x6E, 0x82, 0x65, 0x08, 0x17, 0x90, 0x00, 0x00, 0x20, 0x00, 0x02, 0x00, 0xE1, 0x14, 0x10],
         [0xFA, 0xFF, 0xFF, 0xFF, 0xF2, 0x00, 0x00, 0x00, 0x5F, 0x54, 0x00, 0x00, 0x6B, 0xD9, 0x22, 0x00, 0xFF, 0xFF],
         [0xFF, 0x7F, 0x02, 0x01, 0x46, 0x00, 0x00, 0x00, 0x00, 0x00, 0x00, 0xD3, 0x1A, 0x3A, 0xFB, 0xFF, 0xFF, 0xFF],
         [0x35, 0x03, 0x00, 0x00, 0x34, 0x71, 0x00, 0x00, 0x41, 0xDA, 0x2D, 0x00, 0xFF, 0xFF, 0xFF, 0x7F, 0x01, 0x01],
         [0x45, 0x00, 0x00, 0x00, 0x00, 0x00, 0x18, 0x00, 0x00, 0x00, 0x00, 0x00, 0x00, 0x00]])]"

definition test_mdp_incremental_refresh_book_46_test_2_b :: bytes where
  "test_mdp_incremental_refresh_book_46_test_2_b = datagram [0xAA, 0xDD, 0x0B, 0x18, 0xF5, 0xA3, 0x09, 0x8F, 0x63, 0x69, 0x08, 0x17]
     [([0x58, 0x00, 0x0B, 0x00, 0x2E, 0x00, 0x01, 0x00, 0x09, 0x00], lines_of
        [[0xD1, 0x15, 0x08, 0x8F, 0x63, 0x69, 0x08, 0x17, 0x04, 0x00, 0x00, 0x20, 0x00, 0x01, 0x00, 0xF9, 0xFE, 0x8E],
         [0xD9, 0x08, 0x00, 0x00, 0x2C, 0x02, 0x00, 0x00, 0xBC, 0x53, 0x00, 0x00, 0x30, 0xEE, 0xB3, 0x03, 0x12, 0x00],
         [0x00, 0x00, 0x01, 0x01, 0x31, 0x00, 0x00, 0x00, 0x00, 0x00, 0x18, 0x00, 0x00, 0x00, 0x00, 0x00, 0x00, 0x01],
         [0x3A, 0xAA, 0xCC, 0xC5, 0x77, 0x07, 0x00, 0x00, 0x95, 0xF0, 0xCD, 0xF6, 0x0B, 0x00, 0x00, 0x00, 0xC4, 0x00],
         [0x00, 0x00, 0x01, 0x01, 0x00, 0x00]]),
      ([0xE0, 0x02, 0x0B, 0x00, 0x2E, 0x00, 0x01, 0x00, 0x09, 0x00], lines_of
        [[0xD1, 0x15, 0x08, 0x8F, 0x63, 0x69, 0x08, 0x17, 0x90, 0x00, 0x00, 0x20, 0x00, 0x16, 0x00, 0x09, 0x7C, 0xF8],
         [0xD3, 0x08, 0x00, 0x00, 0xAA, 0x10, 0x00, 0x00, 0xAB, 0x01, 0x00, 0x00, 0x5F, 0x6C, 0xDD, 0x02, 0xFF, 0xFF],
         [0xFF, 0x7F, 0x02, 0x01, 0x46, 0x00, 0x00, 0x00, 0x00, 0x00, 0x00, 0x31, 0xEB, 0xEC, 0xFB, 0xFF, 0xFF, 0xFF],
         [0x2C, 0x02, 0x00, 0x00, 0x21, 0x02, 0x00, 0x00, 0x99, 0xF5, 0x7A, 0x00, 0xFF, 0xFF, 0xFF, 0x7F, 0x01, 0x01],
         [0x46, 0x00, 0x00, 0x00, 0x00, 0x00, 0x00, 0x15, 0xF3, 0x3A, 0xD7, 0x08, 0x00, 0x00, 0xD8, 0x03, 0x00, 0x00],
         [0xB8, 0x15, 0x00, 0x00, 0xDA, 0x3C, 0xEF, 0x02, 0xFF, 0xFF, 0xFF, 0x7F, 0x01, 0x01, 0x46, 0x00, 0x00, 0x00],
         [0x00, 0x00, 0x00, 0x31, 0xEB, 0xEC, 0xFB, 0xFF, 0xFF, 0xFF, 0x2A, 0x01, 0x00, 0x00, 0xF0, 0x1B, 0x00, 0x00],
         [0x62, 0x7D, 0x8D, 0x00, 0xFF, 0xFF, 0xFF, 0x7F, 0x02, 0x01, 0x46, 0x00, 0x00, 0x00, 0x00, 0x00, 0x00, 0x35],
         [0xED, 0x0D, 0xCC, 0x08, 0x00, 0x00, 0x0A, 0x09, 0x00, 0x00, 0xC6, 0x44, 0x00, 0x00, 0xDC, 0xA7, 0x8F, 0x01],
         [0xFF, 0xFF, 0xFF, 0x7F, 0x01, 0x01, 0x46, 0x00, 0x00, 0x00, 0x00, 0x00, 0x00, 0x9A, 0xBA, 0x2B, 0xCC, 0x08],
         [0x00, 0x00, 0x77, 0x08, 0x00, 0x00, 0xC6, 0x44, 0x00, 0x00, 0xDD, 0xA7, 0x8F, 0x01, 0xFF, 0xFF, 0xFF, 0x7F],
         [0x02, 0x01, 0x46, 0x00, 0x00, 0x00, 0x00, 0x00, 0x00, 0x4E, 0xEE, 0x7B, 0xE8, 0xFF, 0xFF, 0xFF, 0x2C, 0x02],
         [0x00, 0x00, 0x7E, 0x4A, 0x00, 0x00, 0xF2, 0xB3, 0x97, 0x00, 0xFF, 0xFF, 0xFF, 0x7F, 0x01, 0x01, 0x45, 0x00],
         [0x00, 0x00, 0x00, 0x00, 0x00, 0xE9, 0x20, 0x5E, 0xE8, 0xFF, 0xFF, 0xFF, 0x1B, 0x00, 0x00, 0x00, 0x7E, 0x4A],
         [0x00, 0x00, 0xF3, 0xB3, 0x97, 0x00, 0xFF, 0xFF, 0xFF, 0x7F, 0x02, 0x01, 0x45, 0x00, 0x00, 0x00, 0x00, 0x00],
         [0x00, 0xDC, 0x9A, 0x38, 0xF6, 0xFF, 0xFF, 0xFF, 0xBA, 0x00, 0x00, 0x00, 0xD0, 0x50, 0x00, 0x00, 0x91, 0x55],
         [0x51, 0x00, 0xFF, 0xFF, 0xFF, 0x7F, 0x02, 0x01, 0x45, 0x00, 0x00, 0x00, 0x00, 0x00, 0x00, 0x0D, 0x86, 0x25],
         [0xF2, 0xFF, 0xFF, 0xFF, 0xC0, 0x02, 0x00, 0x00, 0x8C, 0x54, 0x00, 0x00, 0x7D, 0x22, 0x5B, 0x00, 0xFF, 0xFF],
         [0xFF, 0x7F, 0x02, 0x01, 0x45, 0x00, 0x00, 0x00, 0x00, 0x00, 0x00, 0x6A, 0xE2, 0x27, 0xE6, 0xFF, 0xFF, 0xFF],
         [0x2C, 0x02, 0x00, 0x00, 0xCC, 0x76, 0x00, 0x00, 0x14, 0x73, 0x89, 0x00, 0xFF, 0xFF, 0xFF, 0x7F, 0x01, 0x01],
         [0x45, 0x00, 0x00, 0x00, 0x00, 0x00, 0x00, 0x3D, 0x62, 0x2F, 0xFF, 0xFF, 0xFF, 0xFF, 0xEE, 0x01, 0x00, 0x00],
         [0x9A, 0x81, 0x00, 0x00, 0x98, 0xB6, 0x41, 0x00, 0xFF, 0xFF, 0xFF, 0x7F, 0x01, 0x01, 0x46, 0x00, 0x00, 0x00],
         [0x00, 0x00, 0x00, 0xA2, 0x2F, 0x4D, 0xFF, 0xFF, 0xFF, 0xFF, 0x3E, 0x00, 0x00, 0x00, 0x9A, 0x81, 0x00, 0x00],
         [0x99, 0xB6, 0x41, 0x00, 0xFF, 0xFF, 0xFF, 0x7F, 0x02, 0x01, 0x46, 0x00, 0x00, 0x00, 0x00, 0x00, 0x00, 0x58],
         [0xE2, 0x2A, 0xF0, 0xFF, 0xFF, 0xFF, 0x84, 0x01, 0x00, 0x00, 0x07, 0x84, 0x00, 0x00, 0x79, 0x50, 0xBF, 0x00],
         [0xFF, 0xFF, 0xFF, 0x7F, 0x02, 0x01, 0x45, 0x00, 0x00, 0x00, 0x00, 0x00, 0x00, 0x05, 0x76, 0xD1, 0xDC, 0x08],
         [0x00, 0x00, 0xF0, 0x0C, 0x00, 0x00, 0x4D, 0xDC, 0x00, 0x00, 0x5A, 0xAA, 0x89, 0x04, 0xFF, 0xFF, 0xFF, 0x7F],
         [0x02, 0x01, 0x46, 0x00, 0x00, 0x00, 0x00, 0x00, 0x00, 0xC8, 0x13, 0xA2, 0xDD, 0x08, 0x00, 0x00, 0x12, 0x0B],
         [0x00, 0x00, 0x9F, 0x14, 0x01, 0x00, 0xA9, 0x56, 0xB3, 0x04, 0xFF, 0xFF, 0xFF, 0x7F, 0x01, 0x01, 0x46, 0x00],
         [0x00, 0x00, 0x00, 0x00, 0x00, 0xF7, 0x7B, 0xFB, 0xDD, 0x08, 0x00, 0x00, 0x7F, 0x0B, 0x00, 0x00, 0x76, 0xB3],
         [0x01, 0x00, 0xDD, 0x84, 0x9A, 0x04, 0xFF, 0xFF, 0xFF, 0x7F, 0x02, 0x01, 0x46, 0x00, 0x00, 0x00, 0x00, 0x00],
         [0x00, 0x60, 0x53, 0x46, 0xFC, 0xFF, 0xFF, 0xFF, 0x88, 0x00, 0x00, 0x00, 0x21, 0xC6, 0x01, 0x00, 0x00, 0x80],
         [0x85, 0x00, 0xFF, 0xFF, 0xFF, 0x7F, 0x02, 0x01, 0x46, 0x00, 0x00, 0x00, 0x00, 0x00, 0x00, 0xE4, 0x07, 0x4E],
         [0xDB, 0x08, 0x00, 0x00, 0x98, 0x0C, 0x00, 0x00, 0x26, 0xB5, 0x02, 0x00, 0xA5, 0xFC, 0x12, 0x04, 0xFF, 0xFF],
         [0xFF, 0x7F, 0x02, 0x01, 0x46, 0x00, 0x00, 0x00, 0x00, 0x00, 0x00, 0x04, 0x02, 0x21, 0xD0, 0x08, 0x00, 0x00],
         [0xA9, 0x0B, 0x00, 0x00, 0x49, 0xF2, 0x02, 0x00, 0xDB, 0x98, 0x29, 0x02, 0xFF, 0xFF, 0xFF, 0x7F, 0x02, 0x01],
         [0x46, 0x00, 0x00, 0x00, 0x00, 0x00, 0x00, 0x7D, 0xB7, 0x9C, 0xDF, 0x08, 0x00, 0x00, 0x3E, 0x08, 0x00, 0x00],
         [0x2D, 0xE1, 0x03, 0x00, 0x63, 0xFB, 0x62, 0x03, 0xFF, 0xFF, 0xFF, 0x7F, 0x01, 0x01, 0x46, 0x00, 0x00, 0x00],
         [0x00, 0x00, 0x00, 0xE2, 0x84, 0xBA, 0xDF, 0x08, 0x00, 0x00, 0xC8, 0x09, 0x00, 0x00, 0x2D, 0xE1, 0x03, 0x00],
         [0x64, 0xFB, 0x62, 0x03, 0xFF, 0xFF, 0xFF, 0x7F, 0x02, 0x01, 0x46, 0x00, 0x00, 0x00, 0x00, 0x00, 0x18, 0x00],
         [0x00, 0x00, 0x00, 0x00, 0x00, 0x00]])]"

definition test_mdp_admin_heartbeat_12 :: bytes where
  "test_mdp_admin_heartbeat_12 = datagram [0x07, 0x02, 0x00, 0x00, 0xBF, 0xA0, 0x13, 0xED, 0xFA, 0x0D, 0x09, 0x17]
     [([0x0A, 0x00, 0x00, 0x00, 0x0C, 0x00, 0x01, 0x00, 0x09, 0x00], lines_of
        [])]"

definition test_mdp_snapshot_full_refresh_52 :: bytes where
  "test_mdp_snapshot_full_refresh_52 = datagram [0x04, 0x00, 0x00, 0x00, 0x94, 0xCD, 0xF6, 0xED, 0x1E, 0x49, 0x09, 0x17]
     [([0xDC, 0x02, 0x3B, 0x00, 0x34, 0x00, 0x01, 0x00, 0x09, 0x00], lines_of
        [[0xD0, 0xFC, 0x07, 0x00, 0x0B, 0x00, 0x00, 0x00, 0xF3, 0x25, 0x03, 0x00, 0x90, 0x8C, 0x01, 0x00, 0x1B, 0xBF],
         [0x29, 0xD3, 0x1E, 0x49, 0x09, 0x17, 0x1F, 0x0D, 0x96, 0xAB, 0x9C, 0x1B, 0x09, 0x17, 0x0C, 0x4B, 0x11, 0x00],
         [0x12, 0x5D, 0xDF, 0x33, 0x95, 0x01, 0x00, 0x00, 0x72, 0xF7, 0xB1, 0x73, 0x60, 0x01, 0x00, 0x00, 0x70, 0xC9],
         [0xB2, 0x8B, 0x00, 0x00, 0x00, 0x16, 0x00, 0x1E, 0x00, 0x70, 0x03, 0x3F, 0xE5, 0x7A, 0x01, 0x00, 0x02, 0x00],
         [0x00, 0x00, 0x02, 0x00, 0x00, 0x00, 0x01, 0xFF, 0xFF, 0xFF, 0x80, 0x30, 0x00, 0xB6, 0xE5, 0x6C, 0xDF, 0x7A],
         [0x01, 0x00, 0x02, 0x00, 0x00, 0x00, 0x02, 0x00, 0x00, 0x00, 0x02, 0xFF, 0xFF, 0xFF, 0x80, 0x30, 0x00, 0xFC],
         [0xC7, 0x9A, 0xD9, 0x7A, 0x01, 0x00, 0x01, 0x00, 0x00, 0x00, 0x01, 0x00, 0x00, 0x00, 0x03, 0xFF, 0xFF, 0xFF],
         [0x80, 0x30, 0x00, 0x42, 0xAA, 0xC8, 0xD3, 0x7A, 0x01, 0x00, 0x01, 0x00, 0x00, 0x00, 0x01, 0x00, 0x00, 0x00],
         [0x04, 0xFF, 0xFF, 0xFF, 0x80, 0x30, 0x00, 0x88, 0x8C, 0xF6, 0xCD, 0x7A, 0x01, 0x00, 0x0A, 0x00, 0x00, 0x00],
         [0x02, 0x00, 0x00, 0x00, 0x05, 0xFF, 0xFF, 0xFF, 0x80, 0x30, 0x00, 0xCE, 0x6E, 0x24, 0xC8, 0x7A, 0x01, 0x00],
         [0x01, 0x00, 0x00, 0x00, 0x01, 0x00, 0x00, 0x00, 0x06, 0xFF, 0xFF, 0xFF, 0x80, 0x30, 0x00, 0x14, 0x51, 0x52],
         [0xC2, 0x7A, 0x01, 0x00, 0x02, 0x00, 0x00, 0x00, 0x02, 0x00, 0x00, 0x00, 0x07, 0xFF, 0xFF, 0xFF, 0x80, 0x30],
         [0x00, 0x5A, 0x33, 0x80, 0xBC, 0x7A, 0x01, 0x00, 0x02, 0x00, 0x00, 0x00, 0x02, 0x00, 0x00, 0x00, 0x08, 0xFF],
         [0xFF, 0xFF, 0x80, 0x30, 0x00, 0xA0, 0x15, 0xAE, 0xB6, 0x7A, 0x01, 0x00, 0x03, 0x00, 0x00, 0x00, 0x03, 0x00],
         [0x00, 0x00, 0x09, 0xFF, 0xFF, 0xFF, 0x80, 0x30, 0x00, 0xE6, 0xF7, 0xDB, 0xB0, 0x7A, 0x01, 0x00, 0x07, 0x00],
         [0x00, 0x00, 0x03, 0x00, 0x00, 0x00, 0x0A, 0xFF, 0xFF, 0xFF, 0x80, 0x30, 0x00, 0x58, 0x7A, 0x87, 0xFC, 0x7A],
         [0x01, 0x00, 0x01, 0x00, 0x00, 0x00, 0x01, 0x00, 0x00, 0x00, 0x01, 0xFF, 0xFF, 0xFF, 0x80, 0x31, 0x00, 0x12],
         [0x98, 0x59, 0x02, 0x7B, 0x01, 0x00, 0x02, 0x00, 0x00, 0x00, 0x02, 0x00, 0x00, 0x00, 0x02, 0xFF, 0xFF, 0xFF],
         [0x80, 0x31, 0x00, 0xCC, 0xB5, 0x2B, 0x08, 0x7B, 0x01, 0x00, 0x01, 0x00, 0x00, 0x00, 0x01, 0x00, 0x00, 0x00],
         [0x03, 0xFF, 0xFF, 0xFF, 0x80, 0x31, 0x00, 0x86, 0xD3, 0xFD, 0x0D, 0x7B, 0x01, 0x00, 0x01, 0x00, 0x00, 0x00],
         [0x01, 0x00, 0x00, 0x00, 0x04, 0xFF, 0xFF, 0xFF, 0x80, 0x31, 0x00, 0x40, 0xF1, 0xCF, 0x13, 0x7B, 0x01, 0x00],
         [0x02, 0x00, 0x00, 0x00, 0x02, 0x00, 0x00, 0x00, 0x05, 0xFF, 0xFF, 0xFF, 0x80, 0x31, 0x00, 0xFA, 0x0E, 0xA2],
         [0x19, 0x7B, 0x01, 0x00, 0x0A, 0x00, 0x00, 0x00, 0x02, 0x00, 0x00, 0x00, 0x06, 0xFF, 0xFF, 0xFF, 0x80, 0x31],
         [0x00, 0xB4, 0x2C, 0x74, 0x1F, 0x7B, 0x01, 0x00, 0x04, 0x00, 0x00, 0x00, 0x03, 0x00, 0x00, 0x00, 0x07, 0xFF],
         [0xFF, 0xFF, 0x80, 0x31, 0x00, 0x6E, 0x4A, 0x46, 0x25, 0x7B, 0x01, 0x00, 0x02, 0x00, 0x00, 0x00, 0x01, 0x00],
         [0x00, 0x00, 0x08, 0xFF, 0xFF, 0xFF, 0x80, 0x31, 0x00, 0x28, 0x68, 0x18, 0x2B, 0x7B, 0x01, 0x00, 0x08, 0x00],
         [0x00, 0x00, 0x03, 0x00, 0x00, 0x00, 0x09, 0xFF, 0xFF, 0xFF, 0x80, 0x31, 0x00, 0xE2, 0x85, 0xEA, 0x30, 0x7B],
         [0x01, 0x00, 0x0C, 0x00, 0x00, 0x00, 0x02, 0x00, 0x00, 0x00, 0x0A, 0xFF, 0xFF, 0xFF, 0x80, 0x31, 0x00, 0xFE],
         [0x80, 0x93, 0x99, 0x7A, 0x01, 0x00, 0xFF, 0xFF, 0xFF, 0x7F, 0xFF, 0xFF, 0xFF, 0x7F, 0x7F, 0xFF, 0xFF, 0xFF],
         [0x80, 0x37, 0x00, 0xF0, 0x94, 0xB7, 0x70, 0x79, 0x01, 0x00, 0xFF, 0xFF, 0xFF, 0x7F, 0xFF, 0xFF, 0xFF, 0x7F],
         [0x7F, 0xFF, 0xFF, 0xFF, 0x80, 0x38, 0x00, 0x40, 0xF1, 0xCF, 0x13, 0x7B, 0x01, 0x00, 0xFF, 0xFF, 0xFF, 0x7F],
         [0xFF, 0xFF, 0xFF, 0x7F, 0x7F, 0xFF, 0xFF, 0xFF, 0x80, 0x4E, 0x00, 0xF0, 0x94, 0xB7, 0x70, 0x79, 0x01, 0x00],
         [0xFF, 0xFF, 0xFF, 0x7F, 0xFF, 0xFF, 0xFF, 0x7F, 0x7F, 0xFF, 0xFF, 0xFF, 0x80, 0x4F, 0x00, 0xFE, 0x80, 0x93],
         [0x99, 0x7A, 0x01, 0x00, 0x02, 0x00, 0x00, 0x00, 0xFF, 0xFF, 0xFF, 0x7F, 0x7F, 0xFF, 0xFF, 0xFF, 0x80, 0x32],
         [0xFF, 0xFF, 0xFF, 0xFF, 0xFF, 0xFF, 0xFF, 0x7F, 0x79, 0x00, 0x00, 0x00, 0xFF, 0xFF, 0xFF, 0x7F, 0x7F, 0xFF],
         [0xFF, 0xFF, 0x80, 0x65, 0x00, 0x00, 0x3A, 0x8C, 0x59, 0x7A, 0x01, 0x00, 0xFF, 0xFF, 0xFF, 0x7F, 0xFF, 0xFF],
         [0xFF, 0x7F, 0x7F, 0xFF, 0xFF, 0x00, 0x80, 0x34, 0xFF, 0xFF, 0xFF, 0xFF, 0xFF, 0xFF, 0xFF, 0x7F, 0x6D, 0x0C],
         [0x00, 0x00, 0xFF, 0xFF, 0xFF, 0x7F, 0x7F, 0x09, 0x4B, 0xFF, 0x80, 0x42, 0xFF, 0xFF, 0xFF, 0xFF, 0xFF, 0xFF],
         [0xFF, 0x7F, 0x5C, 0x87, 0x00, 0x00, 0xFF, 0xFF, 0xFF, 0x7F, 0x7F, 0x09, 0x4B, 0xFF, 0x80, 0x43, 0x00, 0x42],
         [0xAA, 0xC8, 0xD3, 0x7A, 0x01, 0x00, 0xFF, 0xFF, 0xFF, 0x7F, 0xFF, 0xFF, 0xFF, 0x7F, 0x7F, 0x09, 0x4B, 0xFF],
         [0x03, 0x36]]),
      ([0x3A, 0x01, 0x3B, 0x00, 0x34, 0x00, 0x01, 0x00, 0x09, 0x00], lines_of
        [[0xD0, 0xFC, 0x07, 0x00, 0x0B, 0x00, 0x00, 0x00, 0x4C, 0x41, 0x05, 0x00, 0xAA, 0x01, 0x00, 0x00, 0x77, 0xCF],
         [0x41, 0xFD, 0xF6, 0x48, 0x09, 0x17, 0x1F, 0x0D, 0x96, 0xAB, 0x9C, 0x1B, 0x09, 0x17, 0x0C, 0x4B, 0x11, 0xFF],
         [0xFF, 0xFF, 0xFF, 0xFF, 0xFF, 0xFF, 0x7F, 0xFF, 0xFF, 0xFF, 0xFF, 0xFF, 0xFF, 0xFF, 0x7F, 0x00, 0x5C, 0xB2],
         [0xEC, 0x22, 0x00, 0x00, 0x00, 0x16, 0x00, 0x0B, 0x00, 0xB0, 0x72, 0xFC, 0x6F, 0x02, 0x00, 0x00, 0x02, 0x00],
         [0x00, 0x00, 0x01, 0x00, 0x00, 0x00, 0x01, 0xFF, 0xFF, 0xFF, 0x80, 0x30, 0x00, 0xBE, 0x6C, 0xD2, 0x6E, 0x02],
         [0x00, 0x00, 0x05, 0x00, 0x00, 0x00, 0x01, 0x00, 0x00, 0x00, 0x02, 0xFF, 0xFF, 0xFF, 0x80, 0x30, 0x00, 0x2E],
         [0x3D, 0x82, 0x65, 0x02, 0x00, 0x00, 0x02, 0x00, 0x00, 0x00, 0x01, 0x00, 0x00, 0x00, 0x03, 0xFF, 0xFF, 0xFF],
         [0x80, 0x30, 0x00, 0x5A, 0xE4, 0xFC, 0x21, 0x02, 0x00, 0x00, 0x05, 0x00, 0x00, 0x00, 0x01, 0x00, 0x00, 0x00],
         [0x04, 0xFF, 0xFF, 0xFF, 0x80, 0x30, 0x00, 0xC8, 0x02, 0xB1, 0xC3, 0x01, 0x00, 0x00, 0x05, 0x00, 0x00, 0x00],
         [0x01, 0x00, 0x00, 0x00, 0x05, 0xFF, 0xFF, 0xFF, 0x80, 0x30, 0x00, 0xEC, 0xC5, 0x48, 0x80, 0x02, 0x00, 0x00],
         [0x05, 0x00, 0x00, 0x00, 0x01, 0x00, 0x00, 0x00, 0x01, 0xFF, 0xFF, 0xFF, 0x80, 0x31, 0x00, 0xE6, 0xA1, 0x5B],
         [0xAB, 0x02, 0x00, 0x00, 0x02, 0x00, 0x00, 0x00, 0x01, 0x00, 0x00, 0x00, 0x02, 0xFF, 0xFF, 0xFF, 0x80, 0x31],
         [0x00, 0xDA, 0x59, 0x81, 0x01, 0x03, 0x00, 0x00, 0x02, 0x00, 0x00, 0x00, 0x01, 0x00, 0x00, 0x00, 0x03, 0xFF],
         [0xFF, 0xFF, 0x80, 0x31, 0x00, 0xB0, 0x72, 0xFC, 0x6F, 0x02, 0x00, 0x00, 0xFF, 0xFF, 0xFF, 0x7F, 0xFF, 0xFF],
         [0xFF, 0x7F, 0x7F, 0xFF, 0xFF, 0xFF, 0x80, 0x4E, 0x00, 0xA2, 0x78, 0x26, 0x71, 0x02, 0x00, 0x00, 0xFF, 0xFF],
         [0xFF, 0x7F, 0xFF, 0xFF, 0xFF, 0x7F, 0x7F, 0xFF, 0xFF, 0xFF, 0x80, 0x4F, 0x00, 0xEC, 0xC5, 0x48, 0x80, 0x02],
         [0x00, 0x00, 0xFF, 0xFF, 0xFF, 0x7F, 0xFF, 0xFF, 0xFF, 0x7F, 0x7F, 0x09, 0x4B, 0xFF, 0x03, 0x36]])]"

definition test_mdp_quote_request_39 :: bytes where
  "test_mdp_quote_request_39 = datagram [0xB2, 0xD6, 0x24, 0x04, 0xC1, 0x40, 0xF1, 0x58, 0xD4, 0x58, 0x40, 0x17]
     [([0x50, 0x00, 0x23, 0x00, 0x27, 0x00, 0x01, 0x00, 0x09, 0x00], lines_of
        [[0x99, 0x6E, 0xEA, 0x58, 0xD4, 0x58, 0x40, 0x17, 0x43, 0x4D, 0x45, 0x30, 0x30, 0x36, 0x39, 0x39, 0x34, 0x38],
         [0x36, 0x37, 0x38, 0x34, 0x33, 0x32, 0x35, 0x35, 0x38, 0x00, 0x00, 0x00, 0x00, 0x80, 0x00, 0x00, 0x00, 0x20],
         [0x00, 0x01, 0x5A, 0x54, 0x4D, 0x33, 0x00, 0x00, 0x00, 0x00, 0x00, 0x00, 0x00, 0x00, 0x00, 0x00, 0x00, 0x00],
         [0x00, 0x00, 0x00, 0x00, 0x5E, 0xAC, 0x0A, 0x00, 0xFF, 0xFF, 0xFF, 0x7F, 0x01, 0x7F, 0x00, 0x00]])]"

text \<open>Each packet makes the handler see these messages, and the parser returns true.\<close>

lemma dispatch_test_md_incremental_refresh_book_simple:
  "dispatch_packet test_sbe (\<lambda>f. test_handler [46]) test_md_incremental_refresh_book_simple [] = ([46, 46], Inr True)"
  unfolding test_md_incremental_refresh_book_simple_def by (subst dispatch_datagram) (simp_all add: test_eval)

lemma dispatch_test_md_incremental_refresh_book_implied:
  "dispatch_packet test_sbe (\<lambda>f. test_handler [46]) test_md_incremental_refresh_book_implied [] = ([46, 46], Inr True)"
  unfolding test_md_incremental_refresh_book_implied_def by (subst dispatch_datagram) (simp_all add: test_eval)

lemma dispatch_test_md_incremental_refresh_book_multiple_implied_securities:
  "dispatch_packet test_sbe (\<lambda>f. test_handler [46]) test_md_incremental_refresh_book_multiple_implied_securities [] = ([46, 46], Inr True)"
  unfolding test_md_incremental_refresh_book_multiple_implied_securities_def by (subst dispatch_datagram) (simp_all add: test_eval)

lemma dispatch_test_md_incremental_refresh_trade_summary_simple:
  "dispatch_packet test_sbe (\<lambda>f. test_handler [48]) test_md_incremental_refresh_trade_summary_simple [] = ([48], Inr True)"
  unfolding test_md_incremental_refresh_trade_summary_simple_def by (subst dispatch_datagram) (simp_all add: test_eval)

lemma dispatch_test_md_incremental_refresh_trade_summary_multiple_fills:
  "dispatch_packet test_sbe (\<lambda>f. test_handler [48, 52]) test_md_incremental_refresh_trade_summary_multiple_fills [] = ([48], Inr True)"
  unfolding test_md_incremental_refresh_trade_summary_multiple_fills_def by (subst dispatch_datagram) (simp_all add: test_eval)

lemma dispatch_test_md_incremental_refresh_trade_summary_span_multiple_messages_1:
  "dispatch_packet test_sbe (\<lambda>f. test_handler [48, 52]) test_md_incremental_refresh_trade_summary_span_multiple_messages_1 [] = ([48], Inr True)"
  unfolding test_md_incremental_refresh_trade_summary_span_multiple_messages_1_def by (subst dispatch_datagram) (simp_all add: test_eval)

lemma dispatch_test_md_incremental_refresh_trade_summary_span_multiple_messages_2:
  "dispatch_packet test_sbe (\<lambda>f. test_handler [48, 52]) test_md_incremental_refresh_trade_summary_span_multiple_messages_2 [] = ([48], Inr True)"
  unfolding test_md_incremental_refresh_trade_summary_span_multiple_messages_2_def by (subst dispatch_datagram) (simp_all add: test_eval)

lemma dispatch_test_snapshot_full_refresh_simple:
  "dispatch_packet test_sbe (\<lambda>f. test_handler [52]) test_snapshot_full_refresh_simple [] = ([52, 52, 52, 52, 52, 52], Inr True)"
  unfolding test_snapshot_full_refresh_simple_def by (subst dispatch_datagram) (simp_all add: test_eval)

lemma dispatch_test_mbofd_recovery_simple:
  "dispatch_packet test_sbe (\<lambda>f. test_handler [52, 53]) test_mbofd_recovery_simple [] = ([53, 52, 53, 52], Inr True)"
  unfolding test_mbofd_recovery_simple_def by (subst dispatch_datagram) (simp_all add: test_eval)

lemma dispatch_test_md_instrument_definition_simple:
  "dispatch_packet test_sbe (\<lambda>f. test_handler [54]) test_md_instrument_definition_simple [] = ([54, 54, 54, 54, 54], Inr True)"
  unfolding test_md_instrument_definition_simple_def by (subst dispatch_datagram) (simp_all add: test_eval)

lemma dispatch_test_md_instrument_definition_mixed:
  "dispatch_packet test_sbe (\<lambda>f. test_handler [54, 56]) test_md_instrument_definition_mixed [] = ([54, 54, 54, 56, 56], Inr True)"
  unfolding test_md_instrument_definition_mixed_def by (subst dispatch_datagram) (simp_all add: test_eval)

lemma dispatch_test_incremental_batched:
  "dispatch_packet test_sbe (\<lambda>f. test_handler [52]) test_incremental_batched [] = ([52, 52], Inr True)"
  unfolding test_incremental_batched_def by (subst dispatch_datagram) (simp_all add: test_eval)

lemma dispatch_test_incremental_simple:
  "dispatch_packet test_sbe (\<lambda>f. test_handler [48]) test_incremental_simple [] = ([48], Inr True)"
  unfolding test_incremental_simple_def by (subst dispatch_datagram) (simp_all add: test_eval)

lemma dispatch_test_incremental_complex:
  "dispatch_packet test_sbe (\<lambda>f. test_handler [37, 46, 47, 48]) test_incremental_complex [] = ([37, 46, 46, 48, 37, 47, 46], Inr True)"
  unfolding test_incremental_complex_def by (subst dispatch_datagram) (simp_all add: test_eval)

lemma dispatch_test_incremental_46_with_orders:
  "dispatch_packet test_sbe (\<lambda>f. test_handler [46]) test_incremental_46_with_orders [] = ([46, 46], Inr True)"
  unfolding test_incremental_46_with_orders_def by (subst dispatch_datagram) (simp_all add: test_eval)

lemma dispatch_test_mdp_incremental_refresh_book_46_test_1:
  "dispatch_packet test_sbe (\<lambda>f. test_handler [46]) test_mdp_incremental_refresh_book_46_test_1 [] = ([46, 46], Inr True)"
  unfolding test_mdp_incremental_refresh_book_46_test_1_def by (subst dispatch_datagram) (simp_all add: test_eval)

lemma dispatch_test_mdp_incremental_refresh_book_46_test_2:
  "dispatch_packet test_sbe (\<lambda>f. test_handler [46]) test_mdp_incremental_refresh_book_46_test_2 [] = ([46, 46], Inr True)"
  unfolding test_mdp_incremental_refresh_book_46_test_2_def by (subst dispatch_datagram) (simp_all add: test_eval)

lemma dispatch_test_mdp_instrument_definition_future_54:
  "dispatch_packet test_sbe (\<lambda>f. test_handler [54]) test_mdp_instrument_definition_future_54 [] = ([54, 54, 54, 54, 54], Inr True)"
  unfolding test_mdp_instrument_definition_future_54_def by (subst dispatch_datagram) (simp_all add: test_eval)

lemma dispatch_test_mdp_instrument_definition_spread_56:
  "dispatch_packet test_sbe (\<lambda>f. test_handler [56]) test_mdp_instrument_definition_spread_56 [] = ([56, 56, 56, 56], Inr True)"
  unfolding test_mdp_instrument_definition_spread_56_def by (subst dispatch_datagram) (simp_all add: test_eval)

lemma dispatch_test_mdp_incremental_refresh_book_46_test_1_b:
  "dispatch_packet test_sbe (\<lambda>f. test_handler [46]) test_mdp_incremental_refresh_book_46_test_1_b [] = ([46, 46], Inr True)"
  unfolding test_mdp_incremental_refresh_book_46_test_1_b_def by (subst dispatch_datagram) (simp_all add: test_eval)

lemma dispatch_test_mdp_incremental_refresh_book_46_test_2_b:
  "dispatch_packet test_sbe (\<lambda>f. test_handler [46]) test_mdp_incremental_refresh_book_46_test_2_b [] = ([46, 46], Inr True)"
  unfolding test_mdp_incremental_refresh_book_46_test_2_b_def by (subst dispatch_datagram) (simp_all add: test_eval)

lemma dispatch_test_mdp_admin_heartbeat_12:
  "dispatch_packet test_sbe (\<lambda>f. test_handler [12]) test_mdp_admin_heartbeat_12 [] = ([12], Inr True)"
  unfolding test_mdp_admin_heartbeat_12_def by (subst dispatch_datagram) (simp_all add: test_eval)

lemma dispatch_test_mdp_snapshot_full_refresh_52:
  "dispatch_packet test_sbe (\<lambda>f. test_handler [52]) test_mdp_snapshot_full_refresh_52 [] = ([52, 52], Inr True)"
  unfolding test_mdp_snapshot_full_refresh_52_def by (subst dispatch_datagram) (simp_all add: test_eval)

lemma dispatch_test_mdp_quote_request_39:
  "dispatch_packet test_sbe (\<lambda>f. test_handler [39]) test_mdp_quote_request_39 [] = ([39], Inr True)"
  unfolding test_mdp_quote_request_39_def by (subst dispatch_datagram) (simp_all add: test_eval)

subsection \<open>The order entry tests\<close>

definition test_ilink_simple_simple :: bytes where
  "test_ilink_simple_simple = joined
     [([0x4F, 0x00, 0xFE, 0xCA, 0x42, 0x00, 0xFB, 0x01, 0x08, 0x00, 0x08, 0x00], lines_of
        [[0x00, 0x00, 0x00, 0x00, 0x00, 0x00, 0x00, 0x00, 0x00, 0x00, 0x00, 0x00, 0x00, 0x00, 0x00, 0x00, 0x00, 0x00],
         [0x00, 0x00, 0x00, 0x00, 0x00, 0x00, 0x00, 0x00, 0x00, 0x00, 0x00, 0x00, 0x00, 0x00, 0x00, 0x00, 0x00, 0x00],
         [0x00, 0x00, 0x00, 0x00, 0x00, 0x00, 0x00, 0x00, 0x00, 0x00, 0x00, 0x00, 0x00, 0x00, 0x00, 0x00, 0x00, 0x00],
         [0x00, 0x00, 0xBC, 0x85, 0xA8, 0x00, 0x40, 0x42, 0x5F, 0x17, 0x12, 0x00, 0xFF]])]"

definition test_ilink_simple_multiple :: bytes where
  "test_ilink_simple_multiple = joined
     [([0x56, 0x01, 0xFE, 0xCA, 0x4A, 0x01, 0x09, 0x02, 0x08, 0x00, 0x08, 0x00], lines_of
        [[0x01, 0x00, 0x00, 0x00, 0x00, 0x00, 0x00, 0x00, 0x00, 0x00, 0x00, 0x00, 0x00, 0x00, 0x00, 0x00, 0x00, 0x00],
         [0x00, 0x00, 0x00, 0x00, 0x00, 0x00, 0x00, 0x00, 0x00, 0x00, 0x00, 0x00, 0x00, 0x00, 0x00, 0x00, 0x00, 0x00],
         [0x00, 0x00, 0x00, 0x00, 0x00, 0x00, 0x00, 0x00, 0x00, 0x00, 0x00, 0x00, 0x00, 0x00, 0x00, 0x00, 0x00, 0x00],
         [0x00, 0x00, 0x00, 0x00, 0x00, 0x00, 0x00, 0x00, 0x00, 0x00, 0x00, 0x00, 0x00, 0x00, 0x00, 0x00, 0x00, 0x00],
         [0x00, 0x00, 0x00, 0x00, 0x00, 0x00, 0x00, 0x00, 0x00, 0x00, 0x00, 0x00, 0x00, 0x00, 0x00, 0x00, 0x00, 0x00],
         [0x00, 0x00, 0x00, 0x00, 0x00, 0x00, 0x00, 0x00, 0x00, 0x00, 0x00, 0x00, 0x00, 0x00, 0x00, 0x00, 0x00, 0x00],
         [0x00, 0x00, 0x00, 0x00, 0x00, 0x00, 0x00, 0x00, 0x00, 0x00, 0x00, 0x00, 0x00, 0x00, 0x00, 0x00, 0x00, 0x00],
         [0x00, 0x00, 0x00, 0x00, 0x00, 0x00, 0x00, 0x00, 0x00, 0x00, 0x00, 0x00, 0x00, 0x00, 0x00, 0x00, 0x00, 0x00],
         [0x00, 0x00, 0x00, 0x00, 0x00, 0x00, 0x00, 0x00, 0x00, 0x00, 0x00, 0x00, 0x00, 0x00, 0x00, 0x00, 0x00, 0x00],
         [0x00, 0x00, 0x00, 0x00, 0x00, 0x00, 0x00, 0x00, 0x00, 0x00, 0x00, 0x00, 0x00, 0x00, 0x00, 0x00, 0x00, 0x00],
         [0x00, 0x00, 0x00, 0x00, 0x00, 0x00, 0x00, 0x00, 0x00, 0x00, 0x00, 0x00, 0x00, 0x00, 0x00, 0x00, 0x00, 0x00],
         [0x00, 0x00, 0x00, 0x00, 0x00, 0x00, 0x00, 0x00, 0x00, 0x00, 0x00, 0x00, 0x00, 0x00, 0x00, 0x00, 0x00, 0x00],
         [0x00, 0x00, 0x00, 0x00, 0x00, 0x00, 0x00, 0x00, 0x00, 0x00, 0x00, 0x00, 0x00, 0x00, 0x00, 0x00, 0x00, 0x00],
         [0x00, 0x00, 0x00, 0x00, 0x00, 0x00, 0x00, 0x00, 0x00, 0x00, 0x00, 0x00, 0x00, 0x00, 0x00, 0x00, 0x00, 0x00],
         [0x00, 0x00, 0x00, 0x00, 0x00, 0x00, 0x00, 0x00, 0x00, 0x00, 0x00, 0x00, 0x00, 0x00, 0x00, 0x00, 0x00, 0x00],
         [0x00, 0x00, 0x00, 0x00, 0x00, 0x00, 0x00, 0x00, 0x00, 0x00, 0x00, 0x00, 0x00, 0x00, 0x00, 0x00, 0x00, 0x00],
         [0xFF, 0xFF, 0xFF, 0xFF, 0xFF, 0xFF, 0xFF, 0xFF, 0x50, 0xD1, 0xA8, 0x00, 0x40, 0x42, 0x5F, 0x17, 0xFF, 0xFF],
         [0xFF, 0xFF, 0xFF, 0xFF, 0xFF, 0xFF, 0x00, 0x00, 0x00, 0x00, 0x00, 0xFF, 0xFF, 0xFF, 0xFF, 0xFF, 0xFF, 0x6D],
         [0x00, 0x00, 0x00, 0x00, 0xFF, 0xFF]]),
      ([0x4F, 0x00, 0xFE, 0xCA, 0x43, 0x00, 0xFB, 0x01, 0x08, 0x00, 0x08, 0x00], lines_of
        [[0x00, 0x00, 0x00, 0x00, 0x00, 0x00, 0x00, 0x00, 0x00, 0x00, 0x00, 0x00, 0x00, 0x00, 0x00, 0x00, 0x00, 0x00],
         [0x00, 0x00, 0x00, 0x00, 0x00, 0x00, 0x00, 0x00, 0x00, 0x00, 0x00, 0x00, 0x00, 0x00, 0x00, 0x00, 0x00, 0x00],
         [0x00, 0x00, 0x00, 0x00, 0x00, 0x00, 0x00, 0x00, 0x00, 0x00, 0x00, 0x00, 0x00, 0x00, 0x00, 0x00, 0x00, 0x00],
         [0x00, 0x00, 0xBC, 0x85, 0xA8, 0x00, 0x40, 0x42, 0x5F, 0x17, 0x12, 0x00, 0xFF]])]"

definition test_execution_report_outright_not_complete :: bytes where
  "test_execution_report_outright_not_complete = joined
     [([0x46, 0x01, 0xFE, 0xCA, 0x25, 0x01, 0x0D, 0x02, 0x08, 0x00, 0x08, 0x00], lines_of
        [[0x12, 0x00, 0x00, 0x00, 0x93, 0x28, 0xED, 0xD0, 0xD9, 0x04, 0x06, 0x00, 0x38, 0x34, 0x39, 0x32, 0x39, 0x3A],
         [0x4D, 0x3A, 0x31, 0x32, 0x31, 0x38, 0x34, 0x37, 0x54, 0x4E, 0x30, 0x30, 0x30, 0x34, 0x35, 0x32, 0x30, 0x00],
         [0x00, 0x00, 0x00, 0x00, 0x00, 0x00, 0x00, 0x00, 0x00, 0x00, 0x00, 0x00, 0x00, 0x00, 0x00, 0x00, 0x41, 0x31],
         [0x00, 0x00, 0x00, 0x00, 0x00, 0x00, 0x00, 0x00, 0x00, 0x00, 0x00, 0x00, 0x00, 0x00, 0x00, 0x00, 0x00, 0x00],
         [0x5A, 0x77, 0x49, 0x45, 0x6E, 0x64, 0x69, 0x34, 0x6D, 0x55, 0x4D, 0x41, 0x41, 0x51, 0x41, 0x41, 0x41, 0x41],
         [0x41, 0x41, 0x00, 0x00, 0x00, 0x00, 0x00, 0x00, 0x00, 0x00, 0xE8, 0xDD, 0xFD, 0x95, 0x19, 0x00, 0x00, 0x00],
         [0xBF, 0x3E, 0xCC, 0xC8, 0x13, 0x00, 0x00, 0x00, 0x68, 0x90, 0xE4, 0xA4, 0x19, 0x00, 0x00, 0x00, 0xFF, 0xFF],
         [0xFF, 0xFF, 0xFF, 0xFF, 0xFF, 0x7F, 0x05, 0x94, 0x30, 0xA4, 0xFE, 0xF2, 0x82, 0x17, 0xFF, 0x89, 0x7E, 0xA4],
         [0xFE, 0xF2, 0x82, 0x17, 0x9D, 0xD8, 0xB8, 0x99, 0x43, 0x00, 0x04, 0x01, 0xA8, 0x11, 0x00, 0x00, 0x00, 0x00],
         [0x00, 0x00, 0xFF, 0xFF, 0xFF, 0xFF, 0xFF, 0xFF, 0xFF, 0xFF, 0xFF, 0xFF, 0xFF, 0xFF, 0xFF, 0xFF, 0xFF, 0xFF],
         [0x55, 0x4B, 0x00, 0x00, 0x00, 0xB4, 0x2F, 0x00, 0x00, 0x01, 0x00, 0x00, 0x00, 0x01, 0x00, 0x00, 0x00, 0x01],
         [0x00, 0x00, 0x00, 0x46, 0xC3, 0x6C, 0x00, 0xA8, 0x11, 0x00, 0x00, 0xFF, 0xFF, 0xFF, 0xFF, 0x00, 0x00, 0x00],
         [0x00, 0x98, 0x4C, 0x00, 0x00, 0x02, 0x31, 0x01, 0x01, 0x00, 0x00, 0x01, 0xFF, 0x00, 0x00, 0xFF, 0xFF, 0xFF],
         [0x09, 0xFF, 0xFF, 0xFF, 0xFF, 0xFF, 0xFF, 0xFF, 0x7F, 0xFF, 0xFF, 0xFF, 0xFF, 0xFF, 0xFF, 0xFF, 0xFF, 0xFF],
         [0xFF, 0xFF, 0xFF, 0xFF, 0xFF, 0x7F, 0x7F, 0xFF, 0xFF, 0xFF, 0xFF, 0xFF, 0xFF, 0xFF, 0x7F, 0x7F, 0xFF, 0xFF],
         [0xFF, 0xFF, 0xFF, 0xFF, 0xFF, 0x7F, 0xFF, 0xFF, 0xFF, 0xFF, 0xFF, 0xFF, 0xFF, 0x7F, 0xFF, 0xFF, 0xFF, 0xFF],
         [0xFF, 0xFF]])]"

text \<open>Complete frames are consumed and their messages seen; an incomplete frame waits for more bytes.\<close>

lemma read_test_ilink_simple_simple:
  "read_loop test_sbe (test_handler [507]) test_ilink_simple_simple 0 [] = ([507], Inr 79)"
  unfolding test_ilink_simple_simple_def
  by (subst read_loop_frames_ok) (simp_all add: ilink_eval joined_def)

lemma read_test_ilink_simple_multiple:
  "read_loop test_sbe (test_handler [507, 519, 521]) test_ilink_simple_multiple 0 [] = ([521, 507], Inr 421)"
  unfolding test_ilink_simple_multiple_def
  by (subst read_loop_frames_ok) (simp_all add: ilink_eval joined_def)

lemma dispatch_test_execution_report_outright_not_complete:
  "ilink_dispatch test_sbe (test_handler [525]) test_execution_report_outright_not_complete [] = ([], Inr 0)"
  by (simp add: test_execution_report_outright_not_complete_def ilink_dispatch_def joined_def le_u16_def Let_def length_lines_of)

end
