(* ===== verification/TestDocuments.thy ===== *)
theory TestDocuments
  imports Secdef ConfigReader IlinkMessages
begin

section \<open>The documents and messages of the regression tests\<close>

text \<open>
  The security definition file, the two configuration files and the encoded messages of the
  tests under \<^verbatim>\<open>test/\<close>, and what the tests check on them, stated of the model.
\<close>

subsection \<open>Security definitions\<close>

text \<open>
  \<^verbatim>\<open>test/secdef.cpp\<close>: two lines, written as their fields. The conversions of the
  utility library are those of unsigned decimals, rounded to the nearest double.
\<close>

definition test_secdef_line_1 :: "field list" where
  "test_secdef_line_1 =
     [(''35'', ''d''), (''5799'', ''00000000''), (''980'', ''A''), (''779'', ''20220731160356000824''),
      (''1180'', ''310''), (''1300'', ''64''), (''462'', ''5''), (''207'', ''XCME''), (''1151'', ''ES''),
      (''6937'', ''ES''), (''55'', ''ESU4''), (''48'', ''118''), (''22'', ''8''), (''167'', ''FUT''),
      (''461'', ''FFIXSX''), (''200'', ''202409''), (''15'', ''USD''), (''1142'', ''F''), (''562'', ''1''),
      (''1140'', ''3000''), (''969'', ''25.000000000''), (''9787'', ''0.010000000''), (''996'', ''IPNT''),
      (''1147'', ''50.000000000''), (''1150'', ''428400.000000000''), (''731'', ''00000011''),
      (''5796'', ''20220801''), (''1149'', ''457200.000000000''), (''1148'', ''399550.000000000''),
      (''1143'', ''600.000000000''), (''1146'', ''12.500000000''), (''9779'', ''N''), (''864'', ''2''),
      (''865'', ''5''), (''1145'', ''20220617133000000000''), (''865'', ''7''), (''1145'', ''20240920133000000000''),
      (''1141'', ''1''), (''1022'', ''GBX''), (''264'', ''10''), (''870'', ''1''), (''871'', ''24''),
      (''872'', ''00000000000001000010000000001111''), (''1234'', ''0'')]"

definition test_secdef_line_2 :: "field list" where
  "test_secdef_line_2 =
     [(''35'', ''d''), (''5799'', ''00000000''), (''980'', ''A''), (''779'', ''20220731160356000824''),
      (''1180'', ''310''), (''1300'', ''64''), (''462'', ''5''), (''207'', ''XCME''), (''1151'', ''$E''),
      (''6937'', ''0ES''), (''55'', ''0ESZ2''), (''48'', ''1312''), (''22'', ''8''), (''167'', ''FUT''),
      (''461'', ''FFIXSX''), (''200'', ''202212''), (''15'', ''USD''), (''1142'', ''F''), (''562'', ''1''),
      (''1140'', ''3000''), (''969'', ''25.000000000''), (''9787'', ''0.010000000''), (''996'', ''IPNT''),
      (''1147'', ''50.000000000''), (''1150'', ''413750.000000000''), (''731'', ''00000011''),
      (''5796'', ''20220801''), (''1148'', ''25.000000000''), (''1143'', ''0.000000000''),
      (''1146'', ''12.500000000''), (''9779'', ''N''), (''864'', ''2''), (''865'', ''5''),
      (''1145'', ''20220617133000000000''), (''865'', ''7''), (''1145'', ''20221216143000000000''),
      (''1141'', ''1''), (''1022'', ''GBX''), (''264'', ''10''), (''870'', ''1''), (''871'', ''24''),
      (''872'', ''00000000000001000010000000001111''), (''1234'', ''0'')]"

definition decimal_value :: "string \<Rightarrow> rat" where
  "decimal_value s =
     (let whole = takeWhile (\<lambda>c. c \<noteq> CHR ''.'') s; fraction = drop (Suc (length whole)) s
      in of_nat (read_nat whole) + of_nat (read_nat fraction) / 10 ^ length fraction)"

definition test_charconv :: charconv where
  "test_charconv = sample_cc\<lparr>from_double := (\<lambda>s. Some (Fin (fl (decimal_value s))))\<rparr>"

definition test_secdef_1 :: secdef where
  "test_secdef_1 = \<lparr>sd_security_id = 118, sd_market_segment_id = 64, sd_exchange = ''XCME'', sd_symbol = ''ESU4'',
     sd_security_type = ''FUT'', sd_currency = ''USD'', sd_multiplier = 0, sd_min_trade_vol = 1, sd_max_trade_vol = 3000,
     sd_min_price_increment = Fin 25, sd_display_factor = Fin (fl (1 / 100)), sd_asset = ''ES''\<rparr>"

definition test_secdef_2 :: secdef where
  "test_secdef_2 = \<lparr>sd_security_id = 1312, sd_market_segment_id = 64, sd_exchange = ''XCME'', sd_symbol = ''0ESZ2'',
     sd_security_type = ''FUT'', sd_currency = ''USD'', sd_multiplier = 0, sd_min_trade_vol = 1, sd_max_trade_vol = 3000,
     sd_min_price_increment = Fin 25, sd_display_factor = Fin (fl (1 / 100)), sd_asset = ''0ES''\<rparr>"

lemmas secdef_eval = secdef_set_def test_charconv_def sample_cc_def digits_nat_def read_nat_def decimal_value_def Let_def empty_secdef_def

lemma test_secdef_fields:
  "apply_fields test_charconv test_secdef_line_1 empty_secdef = Some test_secdef_1"
  "apply_fields test_charconv test_secdef_line_2 empty_secdef = Some test_secdef_2"
  by (simp_all add: test_secdef_line_1_def test_secdef_line_2_def test_secdef_1_def test_secdef_2_def secdef_eval)

lemma test_secdef_wf: "f \<in> set test_secdef_line_1 \<or> f \<in> set test_secdef_line_2 \<Longrightarrow> wf_field f"
  by (auto simp: test_secdef_line_1_def test_secdef_line_2_def wf_field_def is_sep_def)

lemma test_secdef:
  "secdef_dispatch test_charconv record_call (encode_line test_secdef_line_1 @ encode_line test_secdef_line_2) empty_secdef [] =
    ([test_secdef_1, test_secdef_2], None)"
proof -
  have "secdef_dispatch test_charconv h (encode_line l @ rest) empty_secdef s = secdef_dispatch test_charconv h (CHR 0x0A # rest) d s"
    if "l = test_secdef_line_1 \<and> d = test_secdef_1 \<or> l = test_secdef_line_2 \<and> d = test_secdef_2"
    for l d rest s and h :: "secdef \<Rightarrow> secdef list \<Rightarrow> secdef list \<times> exn option"
    using secdef_dispatch_fields [of l test_charconv empty_secdef d h "CHR 0x0A # rest" s] that test_secdef_fields test_secdef_wf
    by (auto simp: encode_line_def)
  from this [of test_secdef_line_1 test_secdef_1 record_call "encode_line test_secdef_line_2" "[]"]
    this [of test_secdef_line_2 test_secdef_2 record_call "[]" "[test_secdef_1]"]
  show ?thesis by (simp add: secdef_dispatch_sep record_call_def)
qed

subsection \<open>Request identifiers\<close>

text \<open>The static assertions of \<^verbatim>\<open>gateway/order_entry.cpp\<close>, lines 117 and 118.\<close>

lemma test_order_request_id:
  "decode_order_request_id 0x0101000000000001 = (CREATE_ORDER_TYPE, 1, 1)"
  "decode_order_request_id 0x03ffffffffffffff = (CANCEL_ORDER_TYPE, 0xFF, 0xFFFFFFFFFFFF)"
  by (simp_all add: decode_order_request_id_def CREATE_ORDER_TYPE_def CANCEL_ORDER_TYPE_def)

subsection \<open>Configuration files\<close>

text \<open>\<^verbatim>\<open>test/mdp_config_reader.cpp\<close>: the events of the document.\<close>

definition test_mdp_config :: "xml_event list" where
  "test_mdp_config =
     [StartElement ''configuration'' [(''environment'', ''PROD''), (''updated'', ''2022/08/02-21:12:03'')],
      StartElement ''channel'' [(''id'', ''310''), (''label'', ''CME Globex Equity Futures'')],
      StartElement ''products'' [], StartElement ''product'' [(''code'', ''ES'')],
      StartElement ''group'' [(''code'', ''ES'')], EndElement ''group'', EndElement ''product'',
      StartElement ''product'' [(''code'', ''0ES'')], StartElement ''group'' [(''code'', ''$E'')],
      EndElement ''group'', EndElement ''product'', EndElement ''products'', StartElement ''connections'' [],
      StartElement ''connection'' [(''id'', ''310H2A'')], StartElement ''type'' [(''feed-type'', ''H'')],
      CharacterData ''Historical Replay'', EndElement ''type'', StartElement ''protocol'' [],
      CharacterData ''TCP/IP'', EndElement ''protocol'', StartElement ''host-ip'' [],
      CharacterData ''205.209.218.10'', EndElement ''host-ip'', StartElement ''host-ip'' [],
      CharacterData ''205.209.218.10'', EndElement ''host-ip'', StartElement ''port'' [], CharacterData ''10000'',
      EndElement ''port'', StartElement ''feed'' [], CharacterData ''A'', EndElement ''feed'',
      EndElement ''connection'', StartElement ''connection'' [(''id'', ''310IA'')],
      StartElement ''type'' [(''feed-type'', ''I'')], CharacterData ''Incremental'', EndElement ''type'',
      StartElement ''protocol'' [], CharacterData ''UDP/IP'', EndElement ''protocol'', StartElement ''ip'' [],
      CharacterData ''224.0.31.1'', EndElement ''ip'', StartElement ''host-ip'' [], CharacterData ''205.209.223.70'',
      EndElement ''host-ip'', StartElement ''host-ip'' [], CharacterData ''205.209.221.70'', EndElement ''host-ip'',
      StartElement ''port'' [], CharacterData ''14310'', EndElement ''port'', StartElement ''feed'' [],
      CharacterData ''A'', EndElement ''feed'', EndElement ''connection'', EndElement ''connections'',
      EndElement ''channel'', EndElement ''configuration'']"

lemma test_mdp_config_channel:
  "mdp_config_dispatch sample_from_chars record_call test_mdp_config [] =
    ([(310, \<lparr>ch_label = ''CME Globex Equity Futures'', ch_products = {''ES'', ''0ES''},
        ch_connections =
          [(''310H2A'', \<lparr>cn_type = ''Historical Replay'', cn_feed_type = ''H'', cn_protocol = ''TCP/IP'', cn_ip = [],
              cn_host_ips = [''205.209.218.10'', ''205.209.218.10''], cn_port = ''10000'', cn_feed = ''A''\<rparr>),
           (''310IA'', \<lparr>cn_type = ''Incremental'', cn_feed_type = ''I'', cn_protocol = ''UDP/IP'', cn_ip = ''224.0.31.1'',
              cn_host_ips = [''205.209.223.70'', ''205.209.221.70''], cn_port = ''14310'', cn_feed = ''A''\<rparr>)]\<rparr>)], None)"
  by (simp add: mdp_config_dispatch_def test_mdp_config_def mdp_reader_init_def empty_channel_def empty_connection_def
      mdp_start_element_def mdp_end_element_def trim_def is_ascii_space_def emplace_def sample_from_chars_def read_nat_def
      record_call_def insert_commute)

text \<open>\<^verbatim>\<open>test/ilink_config_reader.cpp\<close>.\<close>

definition test_ilink_config :: "xml_event list" where
  "test_ilink_config =
     [
      StartElement ''configuration'' [(''environment'', ''Production''), (''updated'', ''Thu Feb 23 18:00:05 2023 CST'')],
      StartElement ''marketsegment'' [(''id'', ''70''), (''label'', ''CME Commodity Futures'')],
      StartElement ''protocol'' [], CharacterData ''TCP/IP'', EndElement ''protocol'',
      StartElement ''primary-host-ip'' [], CharacterData ''205.209.201.117'', EndElement ''primary-host-ip'',
      StartElement ''backup-host-ip'' [], CharacterData ''205.209.201.41'', EndElement ''backup-host-ip'',
      StartElement ''dr-primary-host-ip'' [], CharacterData ''205.209.201.117'', EndElement ''dr-primary-host-ip'',
      StartElement ''dr-backup-host-ip'' [], CharacterData ''205.209.201.41'', EndElement ''dr-backup-host-ip'',
      StartElement ''ToCMESchemaVersion'' [], CharacterData ''8'', EndElement ''ToCMESchemaVersion'',
      StartElement ''FromCMESchemaVersion'' [], CharacterData ''8'', EndElement ''FromCMESchemaVersion'',
      EndElement ''marketsegment'', EndElement ''configuration'']"

lemma test_ilink_config_segment:
  "ilink_config_dispatch sample_from_chars record_call test_ilink_config [] =
    ([(70, \<lparr>ms_label = ''CME Commodity Futures'', ms_protocol = ''TCP/IP'', ms_primary_host_ip = ''205.209.201.117'',
        ms_backup_host_ip = ''205.209.201.41'', ms_dr_primary_host_ip = ''205.209.201.117'',
        ms_dr_backup_host_ip = ''205.209.201.41'', ms_to_cme_schema_version = ''8'', ms_from_cme_schema_version = ''8''\<rparr>)], None)"
  by (simp add: ilink_config_dispatch_def test_ilink_config_def ilink_reader_init_def empty_market_segment_def
      ilink_start_element_def market_segment_element_def ilink_end_element_def trim_def is_ascii_space_def sample_from_chars_def
      read_nat_def record_call_def)

subsection \<open>Encoded messages\<close>

text \<open>
  \<^verbatim>\<open>test/negotiate.cpp\<close> and \<^verbatim>\<open>test/party_details_definition_request.cpp\<close>
  encode a message and compare it with the expected bytes, whose comments name the fields. The
  layouts below (width of each field, its null value, the codes of its enumerators) are read
  off those bytes; with them as the generated encoder, the model's encoding of the messages is
  the expected one.
\<close>

datatype slot =
    Chars nat
  | Num nat nat
  | Code nat "(string \<times> nat) list"
  | VarData
  | Rows nat "slot list"

fun put_slot :: "slot \<Rightarrow> wire \<Rightarrow> bytes" where
  "put_slot (Chars n) (WString t) = take n (map of_char t @ replicate n 0)"
| "put_slot (Chars n) (WBytes b) = take n (b @ replicate n 0)"
| "put_slot (Num n null) (WInt v) = le_bytes n (nat v)"
| "put_slot (Num n null) WNull = le_bytes n null"
| "put_slot (Code n codes) (WEnum e) = (case map_of codes e of Some v \<Rightarrow> le_bytes n v | None \<Rightarrow> [])"
| "put_slot VarData w = le_bytes 2 0"
| "put_slot s w = []"

fun put_group :: "slot \<Rightarrow> wire \<Rightarrow> bytes" where
  "put_group (Rows n slots) (WGroup rows) =
     le_bytes 2 n @ le_bytes 1 (length rows) @ concat (map (\<lambda>r. concat (map2 put_slot slots (map snd r))) rows)"
| "put_group s w = put_slot s w"

definition test_encode :: "nat \<Rightarrow> slot list \<Rightarrow> wire_message \<Rightarrow> bytes" where
  "test_encode block_length slots w =
     le_bytes 2 block_length @ le_bytes 2 (unat (wm_template w)) @ le_bytes 2 8 @ le_bytes 2 8
     @ concat (map2 put_group slots (map snd (wm_fields w)))"

definition test_hmac_signature :: bytes where
  "test_hmac_signature =
     [0x55, 0x51, 0x3A, 0xFC, 0xD2, 0x4B, 0xD0, 0x4C, 0xBE, 0x2F, 0x69, 0x44, 0xE0, 0x26, 0xF1, 0xF2, 0xB3, 0xB9,
      0x26, 0x5C, 0x02, 0x60, 0xAC, 0xBA, 0x7E, 0xA6, 0x69, 0x2D, 0x29, 0x51, 0x55, 0xF6]"

definition test_negotiate :: negotiate where
  "test_negotiate = \<lparr>ng_hmac_signature = test_hmac_signature, ng_access_key_id = ''uaxIRXP9SuJZ02z7cVN1'',
     ng_uuid = 1685510153123456789, ng_request_timestamp = 1685510153123456789, ng_session = ''M9H'', ng_firm = ''ROQ''\<rparr>"

definition test_negotiate_expected :: bytes where
  "test_negotiate_expected =
     [0x4C, 0x00, 0xF4, 0x01, 0x08, 0x00, 0x08, 0x00, 0x55, 0x51, 0x3A, 0xFC, 0xD2, 0x4B, 0xD0, 0x4C, 0xBE, 0x2F,
      0x69, 0x44, 0xE0, 0x26, 0xF1, 0xF2, 0xB3, 0xB9, 0x26, 0x5C, 0x02, 0x60, 0xAC, 0xBA, 0x7E, 0xA6, 0x69, 0x2D,
      0x29, 0x51, 0x55, 0xF6, 0x75, 0x61, 0x78, 0x49, 0x52, 0x58, 0x50, 0x39, 0x53, 0x75, 0x4A, 0x5A, 0x30, 0x32,
      0x7A, 0x37, 0x63, 0x56, 0x4E, 0x31, 0x15, 0xE7, 0x3C, 0xD6, 0x8D, 0x22, 0x64, 0x17, 0x15, 0xE7, 0x3C, 0xD6,
      0x8D, 0x22, 0x64, 0x17, 0x4D, 0x39, 0x48, 0x52, 0x4F, 0x51, 0x00, 0x00, 0x00, 0x00]"

definition negotiate_layout :: "slot list" where
  "negotiate_layout = [Chars 32, Chars 20, Num 8 0, Num 8 0, Chars 3, Chars 5, VarData]"

lemma le_bytes_unfold: "le_bytes (numeral k) v = word_of_nat v # le_bytes (pred_numeral k) (v div 256)"
  by (simp only: numeral_eq_Suc [of k] le_bytes.simps)

lemma replicate_unfold: "replicate (numeral k) x = x # replicate (pred_numeral k) x"
  by (simp add: numeral_eq_Suc)

lemmas put_eval = test_encode_def le_bytes_unfold replicate_unfold

lemma test_negotiate_bytes: "test_encode 76 negotiate_layout (encode_negotiate test_negotiate) = test_negotiate_expected"
  by (simp add: negotiate_layout_def encode_negotiate_def test_negotiate_def test_hmac_signature_def
      test_negotiate_expected_def put_eval)

definition test_party_details :: party_details_definition_request where
  "test_party_details =
     \<lparr>pd_party_details_list_req_id = 0, pd_sending_time_epoch = 123000000000, pd_list_update_action = ''Add'', pd_seq_num = 1,
      pd_memo = [], pd_avg_px_group_id = [], pd_self_match_prevention_id = 0, pd_cmta_giveup_cd = ''GiveUp'',
      pd_cust_order_capacity = ''Membertradingfortheirownaccount'', pd_clearing_account_type = ''Firm'',
      pd_self_match_prevention_instruction = ''CancelNewest'', pd_avg_px_indicator = ''NoAveragePricing'',
      pd_clearing_trade_price_type = ''TradeClearingatExecutionPrice'', pd_cust_order_handling_inst = ''AlgoEngine'',
      pd_executor = 0, pd_idm_short_code = 0,
      pd_no_party_details = [\<lparr>party_detail_id = ''ROQ'', party_detail_role = ''ExecutingFirm''\<rparr>]\<rparr>"

definition test_party_details_expected :: bytes where
  "test_party_details_expected = concat
     [[0x93, 0x00, 0x06, 0x02, 0x08, 0x00, 0x08, 0x00, 0x00, 0x00, 0x00, 0x00, 0x00, 0x00, 0x00, 0x00, 0x00, 0x0E],
      [0x5F, 0xA3, 0x1C, 0x00, 0x00, 0x00, 0x41, 0x01, 0x00, 0x00, 0x00, 0x00, 0x00, 0x00, 0x00, 0x00, 0x00, 0x00],
      [0x00, 0x00, 0x00, 0x00, 0x00, 0x00, 0x00, 0x00, 0x00, 0x00, 0x00, 0x00, 0x00, 0x00, 0x00, 0x00, 0x00, 0x00],
      [0x00, 0x00, 0x00, 0x00, 0x00, 0x00, 0x00, 0x00, 0x00, 0x00, 0x00, 0x00, 0x00, 0x00, 0x00, 0x00, 0x00, 0x00],
      [0x00, 0x00, 0x00, 0x00, 0x00, 0x00, 0x00, 0x00, 0x00, 0x00, 0x00, 0x00, 0x00, 0x00, 0x00, 0x00, 0x00, 0x00],
      [0x00, 0x00, 0x00, 0x00, 0x00, 0x00, 0x00, 0x00, 0x00, 0x00, 0x00, 0x00, 0x00, 0x00, 0x00, 0x00, 0x00, 0x00],
      [0x00, 0x00, 0x00, 0x00, 0x00, 0x00, 0x00, 0x00, 0x00, 0x00, 0x00, 0x00, 0x00, 0x00, 0x00, 0x00, 0xFF, 0xFF],
      [0xFF, 0xFF, 0xFF, 0xFF, 0xFF, 0xFF, 0x47, 0x01, 0x01, 0x4E, 0x00, 0x00, 0x48, 0x00, 0x00, 0x00, 0x00, 0x00],
      [0x00, 0x00, 0x00, 0x00, 0x00, 0x00, 0x00, 0x00, 0x00, 0x00, 0x00, 0x16, 0x00, 0x01, 0x52, 0x4F, 0x51, 0x00],
      [0x00, 0x00, 0x00, 0x00, 0x00, 0x00, 0x00, 0x00, 0x00, 0x00, 0x00, 0x00, 0x00, 0x00, 0x00, 0x00, 0x01, 0x00],
      [0x02, 0x00, 0x00]]"

definition party_details_layout :: "slot list" where
  "party_details_layout =
     [Num 8 0, Num 8 0, Code 1 [(''Add'', 0x41)], Num 4 0, Chars 75, Chars 20, Num 8 0xFFFFFFFFFFFFFFFF,
      Code 1 [(''GiveUp'', 0x47)], Code 1 [(''Membertradingfortheirownaccount'', 1)], Code 1 [(''Firm'', 1)],
      Code 1 [(''CancelNewest'', 0x4E)], Code 1 [(''NoAveragePricing'', 0)], Code 1 [(''TradeClearingatExecutionPrice'', 0)],
      Code 1 [(''AlgoEngine'', 0x48)], Num 8 0, Num 8 0,
      Rows 22 [Chars 20, Code 2 [(''ExecutingFirm'', 1)]], Rows 2 []]"

lemma test_party_details_bytes:
  "test_encode 147 party_details_layout (encode_party_details_definition_request test_party_details) = test_party_details_expected"
  by (simp add: party_details_layout_def encode_party_details_definition_request_def test_party_details_def
      test_party_details_expected_def or_null_def put_eval)

end
