(* ===== verification/Spec2Isabelle.thy ===== *)
theory Spec2Isabelle
  imports Gateway Import Tools IncrementalSpec MdpFormatters IlinkFormatters
    OrderRefinement Programs TestPackets TestDocuments
begin

text \<open>
  \<^bold>\<open>A verification development for the CME gateway (\<^verbatim>\<open>src/roq/cme\<close>).\<close>

  \<^bold>\<open>The program.\<close> The gateway connects trading clients to the exchange. Market data arrives
  as UDP packets on multicast channels; every channel has a pair of feeds (primary and
  secondary) for instrument definitions, for two kinds of book snapshots and for incremental
  updates. Packets are parsed (\<^verbatim>\<open>protocol/mdp\<close>), the two incremental feeds of a channel are
  arbitrated by packet number (\<^verbatim>\<open>market_data/channel\<close>), the handlers keep the security
  definitions and the books and publish updates to the server framework
  (\<^verbatim>\<open>market_data\<close>). Orders go over a TCP connection per account, in the iLink protocol
  (\<^verbatim>\<open>protocol/ilink\<close>, \<^verbatim>\<open>gateway/order_entry\<close>), after a signed login
  (\<^verbatim>\<open>tools/crypto\<close>). The controller (\<^verbatim>\<open>gateway\<close>) builds all of this from
  configuration files and routes the requests of clients, timers and packets. The import
  (\<^verbatim>\<open>import\<close>) drives the same market data code from captured packets and writes an event
  log; \<^verbatim>\<open>filter\<close>, \<^verbatim>\<open>channel_tester\<close> and \<^verbatim>\<open>dump\<close> are small tools beside it.

  \<^bold>\<open>How the sources are modelled.\<close> A class is a record of the members that outlive a call, a
  member function is a function on that record, an exception is a value of \<open>exn\<close>
  (\<open>RuntimeError\<close>, \<open>OutOfRange\<close> and others for \<^verbatim>\<open>throw\<close>, \<open>Fatal\<close> for \<^verbatim>\<open>log::fatal\<close>,
  \<open>AssertFailed\<close> for a failed \<^verbatim>\<open>assert\<close>, \<open>UndefinedBehaviour\<close> for an access the language
  leaves undefined). Integers have the width of the sources (\<open>u8\<close>, \<open>u16\<close>, \<open>u32\<close>, \<open>u64\<close>, words
  that wrap around); a signed integer that is only compared and passed on is an \<open>int\<close>. A
  \<^verbatim>\<open>double\<close> is a value of \<open>Binary64\<close>: NaN, an infinity, or a rational that a binary64 can
  hold, with rounding where the code multiplies or divides. Calls to the dispatcher of the
  framework are events in a list. Unordered containers iterate in insertion order in the model;
  where the order could matter a lemma says that it does not (\<open>config_handler_order\<close>). Code
  outside \<^verbatim>\<open>src\<close> is a parameter: the SBE decoders and encoders that are generated from the
  exchange's schema (record \<open>sbe\<close>), the sequencers of books, the reorder buffer
  (\<open>udp_buffer\<close>, law \<open>buffer_laws\<close>), the conversions of texts to numbers, the message
  authentication code, regular expressions, the XML parser (the model starts from its events).
  Each law about a parameter is a hypothesis of the theorems that need it, and a concrete
  instance in the development satisfies it.

  \<^bold>\<open>Theories and sources.\<close>

  \<^item> \<open>Prelude\<close>: machine integers, little-endian bytes, decimal texts, exceptions, \<open>deliver\<close>
    (a loop over handler calls that stops at an exception) and its lemmas. \<open>Binary64\<close>: doubles.
    \<open>Api\<close>: the events published to the framework.
  \<^item> \<open>MdpTypes\<close>: \<^verbatim>\<open>protocol/mdp/map.hpp\<close>, \<^verbatim>\<open>map.cpp\<close>. \<open>MdpParser\<close>:
    \<^verbatim>\<open>frame.cpp\<close>, \<^verbatim>\<open>parser.cpp\<close>; the packet parser is shown to deliver exactly the
    messages of an encoded packet and never to read past its end.
  \<^item> \<open>ConfigReader\<close>: \<^verbatim>\<open>protocol/mdp/config_reader.cpp\<close> and
    \<^verbatim>\<open>protocol/ilink/config_reader.cpp\<close>, the callbacks of the XML parser. \<open>MdpConfig\<close>:
    \<^verbatim>\<open>protocol/mdp/config.cpp\<close>; what a document means is what the lookups return.
  \<^item> \<open>Secdef\<close>: \<^verbatim>\<open>secdef/config_reader.cpp\<close>. \<open>Security\<close>: \<^verbatim>\<open>tools/security.hpp\<close>, report
    sequence numbers and the assembly of snapshots. \<open>SecurityDefinitions\<close>:
    \<^verbatim>\<open>market_data/security_definitions.hpp\<close>, the indexes of securities; the locale
    \<open>security_index\<close> states the contract that order entry relies on.
  \<^item> \<open>MarketData\<close>: \<^verbatim>\<open>market_data/shared.hpp\<close>, the options and the publishing helpers of
    \<^verbatim>\<open>incremental.cpp\<close>; the locales \<open>security_callback\<close> and \<open>iterator_callbacks\<close> state what a
    callback on a security may change. \<open>InstrumentDefinition\<close>:
    \<^verbatim>\<open>instrument_definition.cpp\<close>, \<^verbatim>\<open>md_instrument_definition.cpp\<close>.
    \<open>TradeSummary\<close>, \<open>Incremental\<close>, \<open>IncrementalSpec\<close>: the handlers of \<^verbatim>\<open>incremental.cpp\<close>
    and their specifications. \<open>Channel\<close>: \<^verbatim>\<open>channel.hpp\<close> and the arbitration in
    \<^verbatim>\<open>Incremental::dispatch\<close>. \<open>Recovery\<close>: \<^verbatim>\<open>mbp_market_recovery.cpp\<close>,
    \<^verbatim>\<open>mbofd_market_recovery.cpp\<close>.
  \<^item> \<open>Manager\<close>: \<^verbatim>\<open>market_data/manager.cpp\<close>, all channels and feeds together; the locale
    \<open>driven_component\<close> is the contract of a component that is driven by inputs, interpreted for
    the manager (\<open>md\<close>) and for the import (\<open>imp\<close>).
  \<^item> \<open>PriceCodec\<close>, \<open>Ilink\<close>, \<open>IlinkMessages\<close>, \<open>IlinkParser\<close>: \<^verbatim>\<open>protocol/ilink\<close> and the
    helpers of \<^verbatim>\<open>gateway/order_entry.cpp\<close>: prices, identifiers, the messages that are sent
    and the framing of the stream. \<open>Crypto\<close>: \<^verbatim>\<open>tools/crypto.cpp\<close>.
  \<^item> \<open>OrderSession\<close>, \<open>OrderReports\<close>: the two halves of \<^verbatim>\<open>gateway/order_entry.cpp\<close>.
    \<open>OrderEntry\<close>: the handlers as steps of a state machine, with the contract of everything
    that sends as the locale \<open>session_contract\<close>. \<open>OrderInvariants\<close>, \<open>OrderProperties\<close>: what
    holds in every reachable state, and what the single handlers do. \<open>OrderRefinement\<close>: the
    session as an abstract protocol (\<open>session_step\<close>), which the handlers refine; the locale
    \<open>refined_machine\<close> carries the simulation from steps to runs.
  \<^item> \<open>GatewayConfig\<close>: \<^verbatim>\<open>gateway/config.cpp\<close>, \<^verbatim>\<open>account.cpp\<close>. \<open>Gateway\<close>:
    \<^verbatim>\<open>gateway/controller.cpp\<close>, \<^verbatim>\<open>shared.cpp\<close>, \<^verbatim>\<open>mdp_receiver.cpp\<close>, the construction
    from configuration files and the run of the whole gateway.
  \<^item> \<open>Import\<close>: \<^verbatim>\<open>import/controller.cpp\<close>. \<open>Tools\<close>: \<^verbatim>\<open>filter/controller.cpp\<close>,
    \<^verbatim>\<open>channel_tester/controller.cpp\<close>, \<^verbatim>\<open>dump/controller.cpp\<close>. \<open>Programs\<close>: how the programs
    get from their flags and arguments to the parts above (\<^verbatim>\<open>flags/settings.hpp\<close>,
    \<^verbatim>\<open>import/application.cpp\<close>, \<^verbatim>\<open>dump/application.cpp\<close> and the constructors they call), and
    \<^verbatim>\<open>gateway/channel.cpp\<close>, a copy of the arbitration that no code uses.
  \<^item> \<open>TextFormat\<close>, \<open>MdpFormatters\<close>, \<open>IlinkFormatters\<close>: the \<^verbatim>\<open>fmt\<close> formatters in the
    message headers of both protocols, as tables of their format strings and arguments, and
    the meaning of such a table.
  \<^item> \<open>TestPackets\<close>, \<open>TestDocuments\<close>: the recorded packets and documents of \<^verbatim>\<open>src/test\<close>,
    evaluated with the model: parsers and readers yield what the tests expect.

  \<^bold>\<open>What is shown.\<close>

  \<^item> Market data as a whole: whatever arrives on whichever feeds, the definitions stay well
    formed, nothing published is ever taken back, nothing is published about a discarded symbol
    except its reference data, and feeds keep their identity (\<open>manager_run_invariant\<close>). A packet
    always returns (\<open>manager_dispatch_returns\<close>). Packets of a channel are processed once and in
    order (\<open>arbitration_in_order\<close>); after a gap the first snapshot that is not older ends the
    wait (\<open>mbp_gap_recovery\<close>, \<open>mbo_snapshot_recovered\<close>); splitting a trade summary or an order
    book event over several messages makes no difference (\<open>trade_summary_fragments\<close>,
    \<open>order_book_47_fragments\<close>); statistics refine one update per run
    (\<open>dispatch_statistics_runs\<close>).
  \<^item> Order entry: outbound messages are numbered without gaps (\<open>outbound_sequence\<close>), a
    connection is ready only after login and download (\<open>ready_after_download\<close>) and does become
    ready (\<open>login_reaches_ready\<close>), an order is sent exactly once with the details it needs
    (\<open>create_order_sends\<close>), a refused request changes nothing (\<open>refused_unchanged\<close>), answers
    reach the client who asked (\<open>responses_reach_client\<close>, \<open>trade_report_fills\<close>), and the stream
    may be cut anywhere (\<open>stream_segmentation\<close>). Every run of the session is a run of an abstract
    protocol over connection status and download (\<open>session_refinement\<close>).
  \<^item> The gateway: built from its files, the invariants of both halves hold in every state it
    reaches (\<open>gateway_sequences\<close>), and a request touches the connection of its account only
    (\<open>on_request_isolated\<close>). Streams are numbered without repetition within sixteen bits
    (\<open>make_manager_streams\<close>), receivers can always be made (\<open>create_mdp_receivers_ok\<close>), and
    configuration documents mean what they say (\<open>make_config_document\<close>,
    \<open>read_ilink_config_document\<close>, \<open>secdef_dispatch_roundtrip\<close>).
  \<^item> The import writes exactly what was published, in order and numbered
    (\<open>import_main_log\<close>, from the arguments of the program on), its timers come every tenth of a second of capture time
    (\<open>timer_loop_times\<close>), and the printed capture filter fits it (\<open>filter_fits_import\<close>).
    Printed messages can be read back (\<open>formatters_read_back\<close>).
  \<^item> Some theorems state behaviour that is not what the code means to do, so that a change of
    it is noticed: \<open>heartbeat_inverted\<close>, \<open>create_order_entry_first_segment\<close>,
    \<open>secdef_unterminated_throws\<close>, \<open>trade_summary_zero_orders_UB\<close>, \<open>ilink_dispatch_UB_iff\<close>,
    \<open>single_chunk_snapshot_not_reset\<close>, \<open>cancel_rejects_without_client\<close>, \<open>host_ip_pieces\<close>,
    \<open>trade_summary_other_time_discards\<close>.

  \<^bold>\<open>Bounds and termination.\<close> The loops of the parsers are functions with a measure (the bytes
  that are left) and need no fuel. The drain of the reorder buffer, which could run for ever on
  an arbitrary buffer, is a partial function to \<open>option\<close>: with a buffer that satisfies
  \<open>buffer_laws\<close> (a packet that is taken out makes it smaller) it is shown to return. The timer
  loop of the import has the distance to the packet as its measure. Theorems that need a value
  to fit its width say so: a message below \<open>2 ^ 16\<close> bytes, eight stream identifiers per channel
  below \<open>2 ^ 16\<close>, counts of orders below \<open>2 ^ 64\<close>, mantissas that a double holds exactly.

  \<^bold>\<open>Not modelled.\<close> Metrics and log lines are left out everywhere (the texts of messages in
  them are the formatters above). The flags are structures that the build generates from JSON
  files, so their values are parameters; the parser of the command line and the main loop belong
  to the framework, and the bridges only start it. Sockets, signals, file mapping, the reader of
  capture files, the producer of event logs and the order management of the framework are
  library code. What the tests expect of single fields of decoded messages is about the
  generated decoders, and is left out. No code calls the
  \<^verbatim>\<open>compute_length\<close> functions of the message headers. Handlers of the
  sources that only log are the identity in the model.
\<close>

section \<open>Printed messages\<close>


definition sample_view :: view where
  "sample_view = \<lparr>vw_shown = (\<lambda>f. ''7''), vw_chars = (\<lambda>f. ''abc''), vw_int = (\<lambda>f. (1, 0)), vw_double = (\<lambda>f. ''0.5''),
     vw_items = (\<lambda>f. []), vw_hex = (\<lambda>f. [])\<rparr>"


end
